(* ===== verification/Prelude.thy ===== *)
theory Prelude
  imports "HOL-Library.AList" "HOL-Library.Word" "HOL-Library.Multiset"
    "HOL-Library.Char_ord" "HOL-Library.List_Lexorder"
begin

text \<open>
  The generic part of the library: the collections of hints, decimal rendering
  (\<^verbatim>\<open>std::to_string\<close>), sorting by a comparator (\<^verbatim>\<open>std::sort\<close>), the tables that stand for
  \<^verbatim>\<open>std::unordered_map\<close>, and the interface (a locale) that the tables are used through.

  A table is the list of its entries in iteration order. The C++ containers promise no
  iteration order, so every lemma is proved for an arbitrary list of entries.
\<close>

named_theorems decode_simps "how a decoder reads what an encoder wrote"
named_theorems table_simps "what a lookup returns after an update of a table"
named_theorems keeps_intros "operations that keep a two-state relation"

type_synonym u8 = "8 word"
type_synonym u16 = "16 word"
type_synonym u32 = "32 word"
type_synonym u64 = "64 word"

unbundle bit_operations_syntax

lemma unat_inc: "unat (w + 1) = Suc (unat w)" if "w \<noteq> - 1" for w :: "'a::len word"
proof -
  have "w + 1 \<noteq> 0" using that by (metis add.commute minus_unique)
  then show ?thesis by (metis Suc_eq_plus1 add.commute unatSuc)
qed

lemma word_less_inc: "w \<noteq> - 1 \<Longrightarrow> w < w + 1" for w :: "'a::len word"
  by (simp add: word_less_nat_alt unat_inc)

lemma word_inc_not_zero: "w \<noteq> - 1 \<Longrightarrow> w + 1 \<noteq> 0" for w :: "'a::len word"
  by (metis add.commute minus_unique)

section \<open>Decimal rendering\<close>

definition digit_char :: "nat \<Rightarrow> char" where
  "digit_char d = char_of (48 + d)"

fun decimal :: "nat \<Rightarrow> string" where
  "decimal n = (if n < 10 then [digit_char n] else decimal (n div 10) @ [digit_char (n mod 10)])"

declare decimal.simps [simp del]

lemma length_decimal: "n < 10 ^ k \<Longrightarrow> 0 < k \<Longrightarrow> length (decimal n) \<le> k"
proof (induction n arbitrary: k rule: decimal.induct)
  case (1 n)
  show ?case
  proof (cases "n < 10")
    case True
    then show ?thesis using 1 by (subst decimal.simps) simp
  next
    case False
    then obtain j where k: "k = Suc j" "0 < j"
      using "1.prems" by (cases k; cases "k - 1") auto
    then have "n div 10 < 10 ^ j"
      using "1.prems"(1) by (simp add: less_mult_imp_div_less mult.commute)
    then show ?thesis
      using 1(1) [OF False, of j] False k by (subst decimal.simps) simp
  qed
qed

definition is_digit_char :: "char \<Rightarrow> bool" where
  "is_digit_char c \<longleftrightarrow> 48 \<le> (of_char c :: nat) \<and> (of_char c :: nat) \<le> 57"

definition digit_value :: "char \<Rightarrow> nat" where
  "digit_value c = of_char c - 48"

definition decimal_value :: "string \<Rightarrow> nat" where
  "decimal_value cs = foldl (\<lambda>v c. 10 * v + digit_value c) 0 cs"

lemma of_char_digit_char: "d < 10 \<Longrightarrow> (of_char (digit_char d) :: nat) = 48 + d"
  by (simp add: digit_char_def)

lemma is_digit_digit_char [simp]: "d < 10 \<Longrightarrow> is_digit_char (digit_char d)"
  by (simp add: is_digit_char_def of_char_digit_char)

lemma digit_value_digit_char [simp]: "d < 10 \<Longrightarrow> digit_value (digit_char d) = d"
  by (simp add: digit_value_def of_char_digit_char)

lemma decimal_not_Nil [simp]: "decimal n \<noteq> []"
  by (subst decimal.simps) simp

lemma decimal_digits: "c \<in> set (decimal n) \<Longrightarrow> is_digit_char c"
proof (induction n rule: decimal.induct)
  case (1 n)
  then show ?case
    by (subst (asm) (2) decimal.simps) (auto split: if_splits)
qed

lemma decimal_value_append1: "decimal_value (cs @ [c]) = 10 * decimal_value cs + digit_value c"
  by (simp add: decimal_value_def)

lemma decimal_value_decimal [simp]: "decimal_value (decimal n) = n"
proof (induction n rule: decimal.induct)
  case (1 n)
  show ?case
  proof (cases "n < 10")
    case True
    then show ?thesis by (subst decimal.simps) (simp add: decimal_value_def)
  next
    case False
    then show ?thesis
      using 1 by (subst decimal.simps) (simp add: decimal_value_append1)
  qed
qed

lemma decimal_inject [simp]: "decimal m = decimal n \<longleftrightarrow> m = n"
  by (metis decimal_value_decimal)

section \<open>Sorting by a comparator\<close>

text \<open>
  \<^verbatim>\<open>std::stable_sort\<close> with a comparator \<open>lt\<close>: insertion from the right, an element stays
  before the elements it is equivalent to. Where the comparator is a strict total order on
  the elements the result is the only sorted arrangement, so it is also what \<^verbatim>\<open>std::sort\<close>
  computes.
\<close>

fun insert_by :: "('a \<Rightarrow> 'a \<Rightarrow> bool) \<Rightarrow> 'a \<Rightarrow> 'a list \<Rightarrow> 'a list" where
  "insert_by lt x [] = [x]"
| "insert_by lt x (y # ys) = (if lt y x then y # insert_by lt x ys else x # y # ys)"

definition sort_by :: "('a \<Rightarrow> 'a \<Rightarrow> bool) \<Rightarrow> 'a list \<Rightarrow> 'a list" where
  "sort_by lt xs = foldr (insert_by lt) xs []"

lemma sort_by_simps [simp]:
  "sort_by lt [] = []"
  "sort_by lt (x # xs) = insert_by lt x (sort_by lt xs)"
  by (simp_all add: sort_by_def)

lemma mset_insert_by [simp]: "mset (insert_by lt x xs) = add_mset x (mset xs)"
  by (induction xs) auto

lemma mset_sort_by [simp]: "mset (sort_by lt xs) = mset xs"
  by (induction xs) auto

lemma set_insert_by [simp]: "set (insert_by lt x xs) = insert x (set xs)"
  by (metis mset_insert_by set_mset_add_mset_insert set_mset_mset)

lemma set_sort_by [simp]: "set (sort_by lt xs) = set xs"
  by (metis mset_sort_by set_mset_mset)

lemma length_sort_by [simp]: "length (sort_by lt xs) = length xs"
  by (metis mset_sort_by size_mset)

lemma distinct_sort_by [simp]: "distinct (sort_by lt xs) = distinct xs"
  by (metis mset_sort_by mset_eq_imp_distinct_iff)

lemma distinct_map_sort_by [simp]: "distinct (map f (sort_by lt xs)) = distinct (map f xs)"
  by (metis mset_map mset_sort_by mset_eq_imp_distinct_iff)

text \<open>What a comparator must satisfy on the elements it is used for.\<close>

locale comparator_on =
  fixes lt :: "'a \<Rightarrow> 'a \<Rightarrow> bool" and A :: "'a set"
  assumes irrefl: "x \<in> A \<Longrightarrow> \<not> lt x x"
    and trans: "x \<in> A \<Longrightarrow> y \<in> A \<Longrightarrow> z \<in> A \<Longrightarrow> lt x y \<Longrightarrow> lt y z \<Longrightarrow> lt x z"
    and neg_trans: "x \<in> A \<Longrightarrow> y \<in> A \<Longrightarrow> z \<in> A \<Longrightarrow> \<not> lt x y \<Longrightarrow> \<not> lt y z \<Longrightarrow> \<not> lt x z"
begin

lemma asym: "x \<in> A \<Longrightarrow> y \<in> A \<Longrightarrow> lt x y \<Longrightarrow> \<not> lt y x"
  using irrefl trans by blast

lemma sorted_insert_by:
  assumes "set (x # xs) \<subseteq> A" and "sorted_wrt (\<lambda>a b. \<not> lt b a) xs"
  shows "sorted_wrt (\<lambda>a b. \<not> lt b a) (insert_by lt x xs)"
  using assms
proof (induction xs)
  case Nil
  then show ?case by simp
next
  case (Cons y ys)
  then have IH: "sorted_wrt (\<lambda>a b. \<not> lt b a) (insert_by lt x ys)"
    and xA: "x \<in> A" and yA: "y \<in> A" and ysA: "set ys \<subseteq> A"
    and y_le: "\<forall>z \<in> set ys. \<not> lt z y"
    by auto
  show ?case
  proof (cases "lt y x")
    case True
    then have "\<not> lt x y" using asym xA yA by blast
    then show ?thesis using True IH y_le by simp
  next
    case False
    then have "\<forall>z \<in> set ys. \<not> lt z x"
      using y_le neg_trans xA yA ysA by blast
    then show ?thesis using False Cons.prems(2) by simp
  qed
qed

lemma sorted_sort_by:
  assumes "set xs \<subseteq> A"
  shows "sorted_wrt (\<lambda>a b. \<not> lt b a) (sort_by lt xs)"
  using assms by (induction xs) (auto intro!: sorted_insert_by)

text \<open>
  Where no two different elements are equivalent, two sorted arrangements of the same
  elements are the same list.
\<close>

lemma sorted_unique:
  assumes "mset xs = mset ys" and "set xs \<subseteq> A"
    and "sorted_wrt (\<lambda>a b. \<not> lt b a) xs" and "sorted_wrt (\<lambda>a b. \<not> lt b a) ys"
    and "\<And>x y. x \<in> set xs \<Longrightarrow> y \<in> set xs \<Longrightarrow> \<not> lt x y \<Longrightarrow> \<not> lt y x \<Longrightarrow> x = y"
  shows "xs = ys"
  using assms
proof (induction xs arbitrary: ys)
  case Nil
  then show ?case by simp
next
  case (Cons x xs)
  from Cons.prems(1) obtain y ys' where ys: "ys = y # ys'"
    by (cases ys) auto
  have sets: "set (x # xs) = set ys"
    using Cons.prems(1) by (metis set_mset_mset)
  have "\<not> lt y x" if "x \<noteq> y"
    using that Cons.prems(3) sets ys by auto
  moreover have "\<not> lt x y" if "x \<noteq> y"
    using that Cons.prems(4) sets ys by auto
  ultimately have xy: "x = y"
    using Cons.prems(5)[of x y] sets ys by auto
  have "xs = ys'"
    using Cons.prems xy ys by (intro Cons.IH) auto
  then show ?case using xy ys by simp
qed

lemma sort_by_permutation:
  assumes "mset xs = mset ys" and "set xs \<subseteq> A"
    and "\<And>x y. x \<in> set xs \<Longrightarrow> y \<in> set xs \<Longrightarrow> \<not> lt x y \<Longrightarrow> \<not> lt y x \<Longrightarrow> x = y"
  shows "sort_by lt xs = sort_by lt ys"
proof (rule sorted_unique)
  have "set ys \<subseteq> A"
    using assms(1,2) by (metis set_mset_mset)
  then show "sorted_wrt (\<lambda>a b. \<not> lt b a) (sort_by lt ys)"
    by (rule sorted_sort_by)
qed (use assms in \<open>auto simp: sorted_sort_by\<close>)

end

text \<open>The orders of a linear order type, and of a key into one.\<close>

interpretation ascending: comparator_on "(<) :: 'a::linorder \<Rightarrow> 'a \<Rightarrow> bool" UNIV
  by unfold_locales auto

lemma sort_by_less: "sort_by (<) xs = sort (xs :: 'a::linorder list)"
proof (rule ascending.sorted_unique)
  show "sorted_wrt (\<lambda>a b. \<not> b < a) (sort xs)"
    using sorted_sort [of xs] by (simp add: not_less sorted_wrt_mono_rel)
qed (auto simp: ascending.sorted_sort_by)

section \<open>Tables\<close>

type_synonym ('k, 'v) table = "('k \<times> 'v) list"

definition tbl_keys :: "('k, 'v) table \<Rightarrow> 'k list" where
  "tbl_keys t = map fst t"

definition tbl_find :: "('k, 'v) table \<Rightarrow> 'k \<Rightarrow> 'v option" where
  "tbl_find t k = map_of t k"

definition tbl_emplace :: "'k \<Rightarrow> 'v \<Rightarrow> ('k, 'v) table \<Rightarrow> ('k, 'v) table" where
  "tbl_emplace k v t = (if map_of t k = None then t @ [(k, v)] else t)"

definition tbl_assign :: "'k \<Rightarrow> 'v \<Rightarrow> ('k, 'v) table \<Rightarrow> ('k, 'v) table" where
  "tbl_assign k v t = AList.update k v t"

definition tbl_adjust :: "'k \<Rightarrow> ('v \<Rightarrow> 'v) \<Rightarrow> ('k, 'v) table \<Rightarrow> ('k, 'v) table" where
  "tbl_adjust k f t = map (\<lambda>(k', v). if k' = k then (k', f v) else (k', v)) t"

definition tbl_retain :: "('v \<Rightarrow> bool) \<Rightarrow> ('k, 'v) table \<Rightarrow> ('k, 'v) table" where
  "tbl_retain P t = filter (\<lambda>(k, v). P v) t"

definition tbl_ok :: "('k, 'v) table \<Rightarrow> bool" where
  "tbl_ok t \<longleftrightarrow> distinct (map fst t)"

text \<open>
  The interface: \<^verbatim>\<open>find\<close>, \<^verbatim>\<open>emplace\<close>, \<^verbatim>\<open>operator[]\<close> with an assignment, writing through a
  pointer into the table, and the keys it holds.
\<close>

locale keyed_table =
  fixes find :: "'t \<Rightarrow> 'k \<Rightarrow> 'v option"
    and emplace :: "'k \<Rightarrow> 'v \<Rightarrow> 't \<Rightarrow> 't"
    and assign :: "'k \<Rightarrow> 'v \<Rightarrow> 't \<Rightarrow> 't"
    and adjust :: "'k \<Rightarrow> ('v \<Rightarrow> 'v) \<Rightarrow> 't \<Rightarrow> 't"
    and keys :: "'t \<Rightarrow> 'k list"
    and ok :: "'t \<Rightarrow> bool"
  assumes find_emplace: "find (emplace k v t) k' =
        (if k' = k \<and> find t k = None then Some v else find t k')"
    and find_assign: "find (assign k v t) k' = (if k' = k then Some v else find t k')"
    and find_adjust: "find (adjust k f t) k' =
        (if k' = k then map_option f (find t k) else find t k')"
    and set_keys: "set (keys t) = {k. find t k \<noteq> None}"
    and keys_adjust: "keys (adjust k f t) = keys t"
    and ok_distinct: "ok t \<longleftrightarrow> distinct (keys t)"
    and ok_emplace: "ok t \<Longrightarrow> ok (emplace k v t)"
    and ok_assign: "ok t \<Longrightarrow> ok (assign k v t)"
begin

lemma ok_adjust [simp]: "ok (adjust k f t) \<longleftrightarrow> ok t"
  by (simp add: ok_distinct keys_adjust)

lemma find_emplace_fresh: "find t k = None \<Longrightarrow> find (emplace k v t) k = Some v"
  by (simp add: find_emplace)

lemma find_emplace_keeps: "find t k' = Some w \<Longrightarrow> find (emplace k v t) k' = Some w"
  by (auto simp: find_emplace)

lemma find_emplace_cases:
  "find (emplace k v t) k' = Some w \<Longrightarrow> find t k' = Some w \<or> (k' = k \<and> w = v)"
  by (simp add: find_emplace split: if_splits)

lemma find_adjust_cases:
  "find (adjust k f t) k' = Some w \<Longrightarrow>
   (k' \<noteq> k \<and> find t k' = Some w) \<or> (k' = k \<and> (\<exists>v. find t k = Some v \<and> w = f v))"
  by (auto simp: find_adjust split: if_splits)

lemma keys_emplace_present: "find t k \<noteq> None \<Longrightarrow> set (keys (emplace k v t)) = set (keys t)"
  by (auto simp: set_keys find_emplace)

lemma adjust_keeps_presence: "find (adjust k f t) k' = None \<longleftrightarrow> find t k' = None"
  by (simp add: find_adjust)

end

lemma map_of_adjust:
  "map_of (map (\<lambda>(k', v). if k' = k then (k', f v) else (k', v)) t) k' =
   (if k' = k then map_option f (map_of t k) else map_of t k')"
  by (induction t) auto

interpretation tbl: keyed_table tbl_find tbl_emplace tbl_assign tbl_adjust tbl_keys tbl_ok
proof unfold_locales
  fix t :: "('k, 'v) table" and k k' v f
  show "tbl_find (tbl_emplace k v t) k' = (if k' = k \<and> tbl_find t k = None then Some v else tbl_find t k')"
    by (auto simp: tbl_find_def tbl_emplace_def map_add_def split: option.splits)
  show "tbl_find (tbl_assign k v t) k' = (if k' = k then Some v else tbl_find t k')"
    by (simp add: tbl_find_def tbl_assign_def update_conv')
  show "tbl_find (tbl_adjust k f t) k' = (if k' = k then map_option f (tbl_find t k) else tbl_find t k')"
    by (simp add: tbl_find_def tbl_adjust_def map_of_adjust)
  show "set (tbl_keys t) = {k. tbl_find t k \<noteq> None}"
    by (simp add: tbl_keys_def tbl_find_def map_of_eq_None_iff)
  show "tbl_keys (tbl_adjust k f t) = tbl_keys t"
    by (auto simp: tbl_keys_def tbl_adjust_def comp_def split_beta)
  show "tbl_ok t \<longleftrightarrow> distinct (tbl_keys t)"
    by (simp add: tbl_ok_def tbl_keys_def)
  show "tbl_ok t \<Longrightarrow> tbl_ok (tbl_emplace k v t)"
    by (auto simp: tbl_ok_def tbl_emplace_def map_of_eq_None_iff)
  show "tbl_ok t \<Longrightarrow> tbl_ok (tbl_assign k v t)"
    by (simp add: tbl_ok_def tbl_assign_def distinct_update)
qed

declare tbl.find_emplace [table_simps] tbl.find_assign [table_simps] tbl.find_adjust [table_simps]
  tbl.keys_adjust [table_simps]

lemma tbl_ok_Nil [simp]: "tbl_ok []"
  by (simp add: tbl_ok_def)

lemma tbl_find_Nil [simp]: "tbl_find [] k = None"
  by (simp add: tbl_find_def)

lemma tbl_find_in_set: "tbl_find t k = Some v \<Longrightarrow> (k, v) \<in> set t"
  by (simp add: tbl_find_def map_of_SomeD)

lemma tbl_find_iff: "tbl_ok t \<Longrightarrow> tbl_find t k = Some v \<longleftrightarrow> (k, v) \<in> set t"
  by (simp add: tbl_find_def tbl_ok_def map_of_eq_Some_iff)

lemma tbl_ok_retain: "tbl_ok t \<Longrightarrow> tbl_ok (tbl_retain P t)"
  by (induction t) (auto simp: tbl_ok_def tbl_retain_def)

lemma tbl_find_retain:
  "tbl_ok t \<Longrightarrow> tbl_find (tbl_retain P t) k =
     (case tbl_find t k of None \<Rightarrow> None | Some v \<Rightarrow> if P v then Some v else None)"
  by (induction t) (auto simp: tbl_find_def tbl_retain_def tbl_ok_def map_of_eq_None_iff split: option.splits)

end
