(* ===== verification/Hashing.thy ===== *)
theory Hashing
  imports Prelude
begin

text \<open>
  The hash primitives (hash.hpp, hash.cpp): the table-driven CRC-32C of snapshots and frames,
  FNV-1a, the streaming SHA-256 behind every content digest, and hexadecimal text. Bytes are
  8-bit words; \<^verbatim>\<open>std::string\<close> text is hashed through the values of its characters.

  The lemmas show that the table computes the bitwise CRC, that the CRC of a concatenation
  chains through the seed, that every change of one byte changes the CRC, and that the
  streaming SHA-256 computes the hash of the padded message however the input is cut up.
\<close>

definition bytes_of :: "string \<Rightarrow> u8 list" where
  "bytes_of text = map of_char text"

lemma bytes_of_append [simp]: "bytes_of (s @ t) = bytes_of s @ bytes_of t"
  by (simp add: bytes_of_def)

lemma length_bytes_of [simp]: "length (bytes_of s) = length s"
  by (simp add: bytes_of_def)

section \<open>CRC-32C\<close>

definition crc_shift :: "u32 \<Rightarrow> u32" where
  "crc_shift crc = (if crc AND 1 \<noteq> 0 then drop_bit 1 crc XOR 0x82F63B78 else drop_bit 1 crc)"

definition crc32c_table :: "u32 list" where
  "crc32c_table = map (\<lambda>i. (crc_shift ^^ 8) (of_nat i)) [0..<256]"

definition crc32c_step :: "u32 \<Rightarrow> u8 \<Rightarrow> u32" where
  "crc32c_step crc byte =
    (let slot = (ucast ((crc XOR ucast byte) AND 0xFF) :: u8)
     in crc32c_table ! unat slot XOR drop_bit 8 crc)"

definition crc32c :: "u8 list \<Rightarrow> u32 \<Rightarrow> u32" where
  "crc32c bytes seed = NOT (foldl crc32c_step (NOT seed) bytes)"

text \<open>The reference: one byte enters the low end, then eight single-bit shifts.\<close>

definition crc_bitwise_step :: "u32 \<Rightarrow> u8 \<Rightarrow> u32" where
  "crc_bitwise_step crc byte = (crc_shift ^^ 8) (crc XOR ucast byte)"

lemma odd_xor: "(a XOR b) AND 1 \<noteq> 0 \<longleftrightarrow> (a AND 1 \<noteq> 0) \<noteq> (b AND 1 \<noteq> 0)" for a b :: u32
  by (auto simp: and_one_eq odd_iff_mod_2_eq_one [symmetric] bit_simps even_xor_iff
      mod_2_eq_odd split: if_splits)

lemma crc_shift_xor: "crc_shift (a XOR b) = crc_shift a XOR crc_shift b"
proof -
  have "drop_bit 1 (a XOR b) = drop_bit 1 a XOR drop_bit 1 b"
    by (rule bit_word_eqI) (simp add: bit_simps)
  then show ?thesis
    unfolding crc_shift_def odd_xor
    by (auto simp: ac_simps bit.xor_self xor.left_commute)
qed

lemma crc_shifts_xor: "(crc_shift ^^ n) (a XOR b) = (crc_shift ^^ n) a XOR (crc_shift ^^ n) b"
  by (induction n) (simp_all add: crc_shift_xor)

lemma crc_shifts_high: "(crc_shift ^^ n) (push_bit n a) = drop_bit n (push_bit n a)"
  if "n \<le> 32"
  using that
proof (induction n arbitrary: a)
  case 0
  then show ?case by simp
next
  case (Suc n)
  have "push_bit (Suc n) a AND 1 = 0"
    by (rule bit_word_eqI) (auto simp: bit_simps simp del: push_bit_Suc)
  then have "crc_shift (push_bit (Suc n) a) = drop_bit 1 (push_bit (Suc n) a)"
    by (simp add: crc_shift_def)
  also have "\<dots> = push_bit n (take_bit (31 - n) a)"
    using Suc.prems by (intro bit_word_eqI) (auto simp: bit_simps simp del: push_bit_Suc)
  finally have "(crc_shift ^^ Suc n) (push_bit (Suc n) a) = (crc_shift ^^ n) (push_bit n (take_bit (31 - n) a))"
    by (simp add: funpow_Suc_right del: funpow.simps)
  also have "\<dots> = drop_bit n (push_bit n (take_bit (31 - n) a))"
    using Suc by simp
  also have "\<dots> = drop_bit (Suc n) (push_bit (Suc n) a)"
    using Suc.prems by (intro bit_word_eqI) (auto simp: bit_simps simp del: push_bit_Suc)
  finally show ?case .
qed

lemma crc32c_step_bitwise: "crc32c_step crc byte = crc_bitwise_step crc byte"
proof -
  define x where "x = crc XOR ucast byte"
  define low where "low = take_bit 8 x"
  have low: "x AND 0xFF = low"
    by (simp add: low_def take_bit_eq_mask mask_eq_exp_minus_1)
  have low_small: "unat low < 256"
    using take_bit_nat_less_exp [of 8 "unat x"] by (simp add: low_def unsigned_take_bit_eq)
  have slot: "unat (ucast low :: u8) = unat low"
    using low_small by (simp add: unsigned_ucast_eq take_bit_eq_mod)
  have table: "crc32c_table ! unat (ucast low :: u8) = (crc_shift ^^ 8) low"
    using low_small by (simp add: crc32c_table_def slot)
  have "x = low XOR push_bit 8 (drop_bit 8 x)"
    unfolding low_def
    by (rule bit_word_eqI) (auto simp: bit_simps)
  then have "(crc_shift ^^ 8) x = (crc_shift ^^ 8) (low XOR push_bit 8 (drop_bit 8 x))"
    by (rule arg_cong)
  also have "\<dots> = (crc_shift ^^ 8) low XOR drop_bit 8 (push_bit 8 (drop_bit 8 x))"
    unfolding crc_shifts_xor by (subst crc_shifts_high) simp_all
  also have "drop_bit 8 (push_bit 8 (drop_bit 8 x)) = drop_bit 8 crc"
    unfolding x_def by (rule bit_word_eqI) (auto simp: bit_simps dest: bit_imp_le_length)
  finally show ?thesis
    unfolding crc32c_step_def crc_bitwise_step_def Let_def x_def [symmetric] low table by simp
qed

lemma crc32c_bitwise: "crc32c bytes seed = NOT (foldl crc_bitwise_step (NOT seed) bytes)"
proof -
  have "crc32c_step = crc_bitwise_step"
    by (intro ext) (rule crc32c_step_bitwise)
  then show ?thesis by (simp add: crc32c_def)
qed

lemma crc32c_append: "crc32c (xs @ ys) seed = crc32c ys (crc32c xs seed)"
  by (simp add: crc32c_def)

lemma crc_shift_zero: "crc_shift a = 0 \<Longrightarrow> a = 0"
proof -
  assume zero: "crc_shift a = 0"
  have "a AND 1 = 0"
  proof (rule ccontr)
    assume "a AND 1 \<noteq> 0"
    then have "drop_bit 1 a XOR 0x82F63B78 = 0"
      using zero by (simp add: crc_shift_def)
    then have "bit (drop_bit 1 a XOR 0x82F63B78) 31 = False"
      by simp
    moreover have "\<not> bit a 32"
      using bit_imp_le_length [of a 32] by auto
    ultimately show False by (simp add: bit_simps)
  qed
  then have shift: "drop_bit 1 a = 0" and "even a"
    using zero by (auto simp: crc_shift_def and_one_eq mod_2_eq_odd split: if_splits)
  have "\<not> bit a n" for n
  proof (cases n)
    case 0
    then show ?thesis using \<open>even a\<close> by (simp add: bit_0)
  next
    case (Suc m)
    have "\<not> bit (drop_bit 1 a) m" using shift by simp
    then show ?thesis using Suc by (simp add: bit_drop_bit_eq)
  qed
  then show "a = 0"
    by (intro bit_word_eqI) simp
qed

lemma xor_cancel: "p XOR q = 0 \<longleftrightarrow> p = q" "p XOR q = p XOR r \<longleftrightarrow> q = r" "q XOR p = r XOR p \<longleftrightarrow> q = r"
  for p q r :: "'a::len word"
proof -
  have "p = q" if "p XOR q = 0"
  proof (rule bit_word_eqI)
    fix n
    have "bit (p XOR q) n \<longleftrightarrow> bit (0 :: 'a word) n" using that by simp
    then show "bit p n \<longleftrightarrow> bit q n" by (simp add: bit_simps)
  qed
  then show "p XOR q = 0 \<longleftrightarrow> p = q" by auto
  have "q = r" if "p XOR q = p XOR r"
  proof (rule bit_word_eqI)
    fix n
    have "bit (p XOR q) n \<longleftrightarrow> bit (p XOR r) n" using that by simp
    then show "bit q n \<longleftrightarrow> bit r n" by (auto simp: bit_simps)
  qed
  then show "p XOR q = p XOR r \<longleftrightarrow> q = r" by auto
  then show "q XOR p = r XOR p \<longleftrightarrow> q = r" by (simp add: xor.commute)
qed

lemma crc_shifts_inject: "(crc_shift ^^ n) a = (crc_shift ^^ n) b \<longleftrightarrow> a = b"
proof
  assume "(crc_shift ^^ n) a = (crc_shift ^^ n) b"
  then have "(crc_shift ^^ n) (a XOR b) = 0"
    by (simp add: crc_shifts_xor)
  moreover have "(crc_shift ^^ n) c = 0 \<Longrightarrow> c = 0" for c
    by (induction n) (auto dest: crc_shift_zero)
  ultimately have "a XOR b = 0" by blast
  then show "a = b" by (simp add: xor_cancel)
qed simp

lemma crc_step_inject:
  "crc32c_step a x = crc32c_step b x \<longleftrightarrow> a = b"
  "crc32c_step a x = crc32c_step a y \<longleftrightarrow> x = y"
proof -
  show "crc32c_step a x = crc32c_step b x \<longleftrightarrow> a = b"
    by (simp add: crc32c_step_bitwise crc_bitwise_step_def crc_shifts_inject xor_cancel)
  have "unat (ucast z :: u32) = unat z" for z :: u8
    using unsigned_less [where 'a=nat and w=z]
    by (simp add: unsigned_ucast_eq take_bit_nat_eq_self)
  then have "(ucast x :: u32) = ucast y \<longleftrightarrow> x = y"
    by (metis word_unat_eq_iff)
  then show "crc32c_step a x = crc32c_step a y \<longleftrightarrow> x = y"
    by (simp add: crc32c_step_bitwise crc_bitwise_step_def crc_shifts_inject xor_cancel)
qed

lemma crc_fold_inject: "foldl crc32c_step a xs = foldl crc32c_step b xs \<longleftrightarrow> a = b"
  by (induction xs arbitrary: a b) (simp_all add: crc_step_inject)

lemma crc32c_detects_byte:
  "crc32c (xs @ x # ys) seed = crc32c (xs @ y # ys) seed \<longleftrightarrow> x = y"
  by (simp add: crc32c_def crc_fold_inject crc_step_inject)

section \<open>FNV-1a\<close>

definition fnv1a64 :: "string \<Rightarrow> u64" where
  "fnv1a64 text =
    foldl (\<lambda>hash byte. (hash XOR ucast byte) * 0x100000001B3) 0xCBF29CE484222325 (bytes_of text)"

section \<open>SHA-256\<close>

definition rotate_right :: "u32 \<Rightarrow> nat \<Rightarrow> u32" where
  "rotate_right value amount = drop_bit amount value OR push_bit (32 - amount) value"

definition kSha256RoundConstants :: "u32 list" where
  "kSha256RoundConstants =
    [0x428A2F98, 0x71374491, 0xB5C0FBCF, 0xE9B5DBA5, 0x3956C25B, 0x59F111F1, 0x923F82A4,
     0xAB1C5ED5, 0xD807AA98, 0x12835B01, 0x243185BE, 0x550C7DC3, 0x72BE5D74, 0x80DEB1FE,
     0x9BDC06A7, 0xC19BF174, 0xE49B69C1, 0xEFBE4786, 0x0FC19DC6, 0x240CA1CC, 0x2DE92C6F,
     0x4A7484AA, 0x5CB0A9DC, 0x76F988DA, 0x983E5152, 0xA831C66D, 0xB00327C8, 0xBF597FC7,
     0xC6E00BF3, 0xD5A79147, 0x06CA6351, 0x14292967, 0x27B70A85, 0x2E1B2138, 0x4D2C6DFC,
     0x53380D13, 0x650A7354, 0x766A0ABB, 0x81C2C92E, 0x92722C85, 0xA2BFE8A1, 0xA81A664B,
     0xC24B8B70, 0xC76C51A3, 0xD192E819, 0xD6990624, 0xF40E3585, 0x106AA070, 0x19A4C116,
     0x1E376C08, 0x2748774C, 0x34B0BCB5, 0x391C0CB3, 0x4ED8AA4A, 0x5B9CCA4F, 0x682E6FF3,
     0x748F82EE, 0x78A5636F, 0x84C87814, 0x8CC70208, 0x90BEFFFA, 0xA4506CEB, 0xBEF9A3F7,
     0xC67178F2]"

definition kSha256InitialState :: "u32 list" where
  "kSha256InitialState =
    [0x6A09E667, 0xBB67AE85, 0x3C6EF372, 0xA54FF53A, 0x510E527F, 0x9B05688C, 0x1F83D9AB, 0x5BE0CD19]"

definition load_word :: "u8 list \<Rightarrow> nat \<Rightarrow> u32" where
  "load_word block index =
    (let base = index * 4 in
     push_bit 24 (ucast (block ! base)) OR push_bit 16 (ucast (block ! (base + 1)))
       OR push_bit 8 (ucast (block ! (base + 2))) OR ucast (block ! (base + 3)))"

text \<open>The schedule grows by one word per round of the second loop.\<close>

definition schedule_next :: "u32 list \<Rightarrow> u32" where
  "schedule_next schedule =
    (let index = length schedule;
         first = schedule ! (index - 15);
         second = schedule ! (index - 2);
         sigma0 = rotate_right first 7 XOR rotate_right first 18 XOR drop_bit 3 first;
         sigma1 = rotate_right second 17 XOR rotate_right second 19 XOR drop_bit 10 second
     in schedule ! (index - 16) + sigma0 + schedule ! (index - 7) + sigma1)"

definition message_schedule :: "u8 list \<Rightarrow> u32 list" where
  "message_schedule block =
    ((\<lambda>schedule. schedule @ [schedule_next schedule]) ^^ 48) (map (load_word block) [0..<16])"

fun sha_round :: "u32 list \<Rightarrow> u32 \<times> u32 \<Rightarrow> u32 list" where
  "sha_round [a, b, c, d, e, f, g, h] (constant, word) =
    (let big_sigma1 = rotate_right e 6 XOR rotate_right e 11 XOR rotate_right e 25;
         choice = (e AND f) XOR (NOT e AND g);
         temp1 = h + big_sigma1 + choice + constant + word;
         big_sigma0 = rotate_right a 2 XOR rotate_right a 13 XOR rotate_right a 22;
         majority = (a AND b) XOR (a AND c) XOR (b AND c);
         temp2 = big_sigma0 + majority
     in [temp1 + temp2, a, b, c, d + temp1, e, f, g])"
| "sha_round regs _ = regs"

definition compress_block :: "u32 list \<Rightarrow> u8 list \<Rightarrow> u32 list" where
  "compress_block state block =
    map2 (+) state
      (foldl sha_round state (zip kSha256RoundConstants (message_schedule block)))"

text \<open>
  The hasher. \<^verbatim>\<open>buffer_\<close> holds \<^verbatim>\<open>buffer_length_\<close> meaningful bytes; the list is those bytes,
  the stale rest of the array is never read.
\<close>

record sha256 =
  sh_state :: "u32 list"
  sh_buffer :: "u8 list"
  sh_total :: u64

definition sha256_reset :: sha256 where
  "sha256_reset = \<lparr>sh_state = kSha256InitialState, sh_buffer = [], sh_total = 0\<rparr>"

function sha256_blocks :: "u32 list \<Rightarrow> u8 list \<Rightarrow> u32 list \<times> u8 list" where
  "sha256_blocks state bytes =
    (if length bytes < 64 then (state, bytes)
     else sha256_blocks (compress_block state (take 64 bytes)) (drop 64 bytes))"
  by pat_completeness auto
termination by (relation "measure (\<lambda>(state, bytes). length bytes)") auto

declare sha256_blocks.simps [simp del]

definition sha256_update :: "u8 list \<Rightarrow> sha256 \<Rightarrow> sha256" where
  "sha256_update bytes hasher =
    (if bytes = [] then hasher
     else
       let filled = (if sh_buffer hasher = [] then 0 else min (64 - length (sh_buffer hasher)) (length bytes));
           buffer = sh_buffer hasher @ take filled bytes;
           (state', buffer') =
             (if sh_buffer hasher \<noteq> [] \<and> length buffer = 64
              then (compress_block (sh_state hasher) buffer, []) else (sh_state hasher, buffer));
           (state'', tail) = sha256_blocks state' (drop filled bytes)
       in \<lparr>sh_state = state'', sh_buffer = buffer' @ tail,
           sh_total = sh_total hasher + of_nat (length bytes)\<rparr>)"

definition big_endian64 :: "u64 \<Rightarrow> u8 list" where
  "big_endian64 w = map (\<lambda>index. ucast (drop_bit (56 - index * 8) w)) [0..<8]"

definition digest_bytes :: "u32 list \<Rightarrow> u8 list" where
  "digest_bytes state =
    concat (map (\<lambda>w. map (\<lambda>byte. ucast (drop_bit (24 - byte * 8) w)) [0..<4]) state)"

definition sha256_finish :: "sha256 \<Rightarrow> u8 list" where
  "sha256_finish hasher =
    (let remainder = length (sh_buffer hasher);
         padded_length = (if remainder < 56 then 64 else 128);
         tail = sh_buffer hasher @ [0x80] @ replicate (padded_length - 8 - remainder - 1) 0
                @ big_endian64 (sh_total hasher * 8);
         state = compress_block (sh_state hasher) (take 64 tail);
         state' = (if padded_length = 128 then compress_block state (drop 64 tail) else state)
     in digest_bytes state')"

definition sha256_digest :: "u8 list \<Rightarrow> u8 list" where
  "sha256_digest bytes = sha256_finish (sha256_update bytes sha256_reset)"

definition hex_digits :: string where
  "hex_digits = ''0123456789abcdef''"

definition to_hex :: "u8 list \<Rightarrow> string" where
  "to_hex bytes =
    concat (map (\<lambda>b. [hex_digits ! unat (drop_bit 4 b AND 0x0F), hex_digits ! unat (b AND 0x0F)]) bytes)"

definition sha256_hex :: "string \<Rightarrow> string" where
  "sha256_hex text = to_hex (sha256_digest (bytes_of text))"

definition is_lower_hex_char :: "char \<Rightarrow> bool" where
  "is_lower_hex_char c \<longleftrightarrow> is_digit_char c \<or> 97 \<le> (of_char c :: nat) \<and> (of_char c :: nat) \<le> 102"

definition is_lowercase_hex :: "string \<Rightarrow> nat \<Rightarrow> bool" where
  "is_lowercase_hex text expected_length \<longleftrightarrow>
    length text = expected_length \<and> list_all is_lower_hex_char text"

text \<open>The reference: the padded message of FIPS 180-4, compressed block by block.\<close>

definition sha256_padding :: "u8 list \<Rightarrow> u8 list" where
  "sha256_padding message =
    [0x80] @ replicate ((119 - length message mod 64) mod 64) 0
      @ big_endian64 (of_nat (length message) * 8)"

definition sha256_reference :: "u8 list \<Rightarrow> u8 list" where
  "sha256_reference message =
    digest_bytes (fst (sha256_blocks kSha256InitialState (message @ sha256_padding message)))"

definition absorbed :: "u8 list \<Rightarrow> sha256 \<Rightarrow> bool" where
  "absorbed message hasher \<longleftrightarrow>
    sha256_blocks kSha256InitialState message = (sh_state hasher, sh_buffer hasher) \<and>
    sh_total hasher = of_nat (length message)"

lemma sha256_blocks_short: "length bytes < 64 \<Longrightarrow> sha256_blocks state bytes = (state, bytes)"
  by (subst sha256_blocks.simps) simp

lemma sha256_blocks_rest:
  "length (snd (sha256_blocks state bytes)) = length bytes mod 64"
proof (induction state bytes rule: sha256_blocks.induct)
  case (1 state bytes)
  then show ?case
    by (subst sha256_blocks.simps) (auto simp: le_mod_geq not_less)
qed

lemma sha256_blocks_append:
  "sha256_blocks state (xs @ ys) =
   (let (state', rest) = sha256_blocks state xs in sha256_blocks state' (rest @ ys))"
proof (induction state xs rule: sha256_blocks.induct)
  case (1 state xs)
  show ?case
  proof (cases "length xs < 64")
    case True
    then show ?thesis by (simp add: sha256_blocks_short)
  next
    case False
    then show ?thesis
      using 1 by (subst (1 2) sha256_blocks.simps) simp
  qed
qed

lemma absorbed_buffer: "absorbed message hasher \<Longrightarrow> length (sh_buffer hasher) = length message mod 64"
  unfolding absorbed_def by (metis sha256_blocks_rest snd_conv)

lemma absorbed_reset: "absorbed [] sha256_reset"
  by (simp add: absorbed_def sha256_reset_def sha256_blocks_short)

lemma sha256_blocks_fill:
  assumes "buffer \<noteq> []" and "length buffer < 64" and "64 \<le> length (buffer @ bytes)"
  shows "sha256_blocks state (buffer @ bytes) =
    sha256_blocks (compress_block state (buffer @ take (64 - length buffer) bytes))
      (drop (64 - length buffer) bytes)"
  using assms by (subst sha256_blocks.simps) simp

lemma sha256_update_blocks:
  assumes "length (sh_buffer hasher) < 64"
  shows "(sh_state (sha256_update bytes hasher), sh_buffer (sha256_update bytes hasher)) =
      sha256_blocks (sh_state hasher) (sh_buffer hasher @ bytes)"
    and "sh_total (sha256_update bytes hasher) = sh_total hasher + of_nat (length bytes)"
proof -
  let ?b = "sh_buffer hasher"
  consider (none) "bytes = []" | (fresh) "bytes \<noteq> []" "?b = []"
    | (short) "bytes \<noteq> []" "?b \<noteq> []" "length (?b @ bytes) < 64"
    | (full) "bytes \<noteq> []" "?b \<noteq> []" "64 \<le> length (?b @ bytes)"
    by fastforce
  then show "(sh_state (sha256_update bytes hasher), sh_buffer (sha256_update bytes hasher)) =
      sha256_blocks (sh_state hasher) (?b @ bytes)"
  proof cases
    case full
    then show ?thesis
      using assms sha256_blocks_fill [OF full(2) assms full(3)]
      by (simp add: sha256_update_def Let_def split_beta)
  qed (use assms in \<open>auto simp: sha256_update_def Let_def split_beta sha256_blocks_short\<close>)
  show "sh_total (sha256_update bytes hasher) = sh_total hasher + of_nat (length bytes)"
    by (auto simp: sha256_update_def Let_def split_beta)
qed

lemma absorbed_update:
  assumes "absorbed message hasher"
  shows "absorbed (message @ bytes) (sha256_update bytes hasher)"
proof -
  have "length (sh_buffer hasher) < 64"
    using absorbed_buffer [OF assms] by simp
  note update = sha256_update_blocks [OF this, of bytes]
  show ?thesis
    using assms update
    by (simp add: absorbed_def sha256_blocks_append [of _ message bytes])
qed

lemma padding_zeros:
  assumes "r < (64 :: nat)"
  shows "(119 - r) mod 64 = (if r < 56 then 55 - r else 119 - r)"
proof (cases "r < 56")
  case True
  then have "119 - r = (55 - r) + 64" by simp
  then have "(119 - r) mod 64 = (55 - r) mod 64" by (metis mod_add_self2)
  then show ?thesis using True by simp
qed (use assms in simp)

lemma absorbed_finish:
  assumes "absorbed message hasher"
  shows "sha256_finish hasher = sha256_reference message"
proof -
  let ?b = "sh_buffer hasher" and ?r = "length message mod 64"
  have r: "length ?b = ?r" by (rule absorbed_buffer [OF assms])
  define tail where "tail = ?b @ sha256_padding message"
  have ref: "sha256_reference message = digest_bytes (fst (sha256_blocks (sh_state hasher) tail))"
    using assms
    by (simp add: sha256_reference_def sha256_blocks_append [of _ message] absorbed_def tail_def)
  have total: "big_endian64 (of_nat (length message) * 8) = big_endian64 (sh_total hasher * 8)"
    using assms by (simp add: absorbed_def)
  have be: "length (big_endian64 w) = 8" for w
    by (simp add: big_endian64_def)
  show ?thesis
  proof (cases "?r < 56")
    case True
    then have zeros: "(119 - ?r) mod 64 = 55 - ?r"
      using padding_zeros [of ?r] by simp
    then have len: "length tail = 64"
      using True r by (simp add: tail_def sha256_padding_def be)
    then have "sha256_blocks (sh_state hasher) tail = (compress_block (sh_state hasher) (take 64 tail), [])"
      by (subst sha256_blocks.simps) (simp add: sha256_blocks_short)
    moreover have "tail = ?b @ [0x80] @ replicate (64 - 8 - length ?b - 1) 0 @ big_endian64 (sh_total hasher * 8)"
      using zeros r total by (simp add: tail_def sha256_padding_def)
    ultimately show ?thesis
      using True r by (simp add: ref sha256_finish_def Let_def)
  next
    case False
    have "?r < 64" by simp
    then have zeros: "(119 - ?r) mod 64 = 119 - ?r"
      using False padding_zeros [of ?r] by simp
    then have len: "length tail = 128"
      using False r \<open>?r < 64\<close> by (simp add: tail_def sha256_padding_def be)
    then have "sha256_blocks (sh_state hasher) tail =
        (compress_block (compress_block (sh_state hasher) (take 64 tail)) (drop 64 tail), [])"
      by (subst sha256_blocks.simps, subst sha256_blocks.simps) (simp add: sha256_blocks_short)
    moreover have "tail = ?b @ [0x80] @ replicate (128 - 8 - length ?b - 1) 0 @ big_endian64 (sh_total hasher * 8)"
      using zeros r total by (simp add: tail_def sha256_padding_def)
    ultimately show ?thesis
      using False r by (simp add: ref sha256_finish_def Let_def)
  qed
qed

lemma absorbed_updates:
  "absorbed message hasher \<Longrightarrow>
   absorbed (message @ concat pieces) (foldl (\<lambda>h piece. sha256_update piece h) hasher pieces)"
proof (induction pieces arbitrary: message hasher)
  case (Cons piece pieces)
  then show ?case
    using Cons.IH [OF absorbed_update [OF Cons.prems, of piece]] by simp
qed simp

lemma length_digest_bytes: "length (digest_bytes state) = 4 * length state"
  by (induction state) (simp_all add: digest_bytes_def)

lemma length_sha_round: "length (sha_round regs cw) = length regs"
  by (cases "(regs, cw)" rule: sha_round.cases) (simp_all add: Let_def)

lemma length_compress_block: "length (compress_block state block) = length state"
proof -
  have "length (foldl sha_round regs cws) = length regs" for regs cws
    by (induction cws arbitrary: regs) (simp_all add: length_sha_round)
  then show ?thesis by (simp add: compress_block_def)
qed

lemma length_sha256_blocks: "length (fst (sha256_blocks state bytes)) = length state"
proof (induction state bytes rule: sha256_blocks.induct)
  case (1 state bytes)
  then show ?case
    by (subst sha256_blocks.simps) (auto simp: length_compress_block)
qed

lemma length_to_hex: "length (to_hex bytes) = 2 * length bytes"
  by (induction bytes) (simp_all add: to_hex_def)

lemma length_sha256_hex: "length (sha256_hex text) = 64"
proof -
  have "sha256_digest bytes = sha256_reference bytes" for bytes
    using absorbed_finish [OF absorbed_update [OF absorbed_reset]] by (simp add: sha256_digest_def)
  then show ?thesis
    by (simp add: sha256_hex_def length_to_hex sha256_reference_def length_digest_bytes
        length_sha256_blocks kSha256InitialState_def)
qed

section \<open>Properties\<close>

text \<open>
  The table-driven CRC-32C computes the bitwise CRC of its input, byte after byte, and
  the CRC of a concatenation is the CRC of the second part seeded with that of the first.
\<close>

theorem crc32c_is_bitwise_crc:
  "crc32c bytes seed = NOT (foldl crc_bitwise_step (NOT seed) bytes) \<and>
   crc32c (bytes @ rest) seed = crc32c rest (crc32c bytes seed)"
  by (simp add: crc32c_bitwise crc32c_append)

text \<open>
  Two payloads that differ in exactly one byte never have the same CRC-32C, whatever
  surrounds the byte and whatever the seed, so a single corrupted byte is always detected.
\<close>

theorem crc32c_single_byte_corruption_detected:
  "crc32c (before @ x # after) seed = crc32c (before @ y # after) seed \<longleftrightarrow> x = y"
  by (rule crc32c_detects_byte)

text \<open>
  C11: However a message is cut into pieces for \<^verbatim>\<open>Sha256::update\<close>, \<^verbatim>\<open>finish\<close> returns the hash
  of the padded message (FIPS 180-4 padding, compressed block by block), 32 bytes long.
\<close>

theorem sha256_streaming_is_reference:
  "sha256_finish (foldl (\<lambda>hasher piece. sha256_update piece hasher) sha256_reset pieces) =
     sha256_reference (concat pieces) \<and>
   sha256_digest (concat pieces) = sha256_reference (concat pieces)"
proof -
  have "absorbed (concat pieces) (foldl (\<lambda>hasher piece. sha256_update piece hasher) sha256_reset pieces)"
    using absorbed_updates [OF absorbed_reset, of pieces] by simp
  moreover have "absorbed (concat pieces) (sha256_update (concat pieces) sha256_reset)"
    using absorbed_update [OF absorbed_reset, of "concat pieces"] by simp
  ultimately show ?thesis
    by (simp add: absorbed_finish sha256_digest_def)
qed

end
