(* ===== verification/Errors.thy ===== *)
theory Errors
  imports Prelude
begin

text \<open>
  The typed failure surface (error.hpp, error.cpp) and the shape of an operation.

  \<^verbatim>\<open>ErrorCode\<close> is a scoped enumeration over \<^verbatim>\<open>std::uint16_t\<close>: a 16-bit value with named
  enumerators. \<^verbatim>\<open>Status\<close> carries a code and a diagnostic text; the text is for people and
  never decides anything, so a status is modelled by its code: \<open>Inl\<close> a failure,
  \<open>Inr ()\<close> the success a default-constructed \<^verbatim>\<open>Status\<close> means. \<^verbatim>\<open>Result<T>\<close> is the
  same with a value.

  An operation on shared state is an action: it takes the state and returns a result
  together with the state it leaves. A failure keeps what was already written, as an early
  return does in the code: nothing is rolled back.
\<close>

section \<open>Error codes\<close>

datatype error_code = ErrorCode (code: u16)

abbreviation E_Ok :: error_code where "E_Ok \<equiv> ErrorCode 0"
abbreviation E_NullIdentity :: error_code where "E_NullIdentity \<equiv> ErrorCode 100"
abbreviation E_CrossDomainIdentity :: error_code where "E_CrossDomainIdentity \<equiv> ErrorCode 101"
abbreviation E_DuplicateIdentity :: error_code where "E_DuplicateIdentity \<equiv> ErrorCode 102"
abbreviation E_UnknownIdentity :: error_code where "E_UnknownIdentity \<equiv> ErrorCode 103"
abbreviation E_IdentityExhausted :: error_code where "E_IdentityExhausted \<equiv> ErrorCode 104"
abbreviation E_InvalidArgument :: error_code where "E_InvalidArgument \<equiv> ErrorCode 200"
abbreviation E_MalformedEncoding :: error_code where "E_MalformedEncoding \<equiv> ErrorCode 201"
abbreviation E_LengthOutOfRange :: error_code where "E_LengthOutOfRange \<equiv> ErrorCode 202"
abbreviation E_IntegerOverflow :: error_code where "E_IntegerOverflow \<equiv> ErrorCode 203"
abbreviation E_InvalidUnicode :: error_code where "E_InvalidUnicode \<equiv> ErrorCode 204"
abbreviation E_IllegalStateTransition :: error_code where "E_IllegalStateTransition \<equiv> ErrorCode 300"
abbreviation E_LifecycleClosed :: error_code where "E_LifecycleClosed \<equiv> ErrorCode 301"
abbreviation E_NotReady :: error_code where "E_NotReady \<equiv> ErrorCode 302"
abbreviation E_AlreadyExists :: error_code where "E_AlreadyExists \<equiv> ErrorCode 303"
abbreviation E_StaleCoordinatorEpoch :: error_code where "E_StaleCoordinatorEpoch \<equiv> ErrorCode 400"
abbreviation E_StaleWorkerBoot :: error_code where "E_StaleWorkerBoot \<equiv> ErrorCode 401"
abbreviation E_StaleSession :: error_code where "E_StaleSession \<equiv> ErrorCode 402"
abbreviation E_StaleAuthority :: error_code where "E_StaleAuthority \<equiv> ErrorCode 403"
abbreviation E_StalePopulationGeneration :: error_code where "E_StalePopulationGeneration \<equiv> ErrorCode 404"
abbreviation E_StaleTaskGeneration :: error_code where "E_StaleTaskGeneration \<equiv> ErrorCode 405"
abbreviation E_StaleCandidateGeneration :: error_code where "E_StaleCandidateGeneration \<equiv> ErrorCode 406"
abbreviation E_StaleEvaluationGeneration :: error_code where "E_StaleEvaluationGeneration \<equiv> ErrorCode 407"
abbreviation E_StalePolicyGeneration :: error_code where "E_StalePolicyGeneration \<equiv> ErrorCode 408"
abbreviation E_StaleAttempt :: error_code where "E_StaleAttempt \<equiv> ErrorCode 409"
abbreviation E_StaleAssignment :: error_code where "E_StaleAssignment \<equiv> ErrorCode 410"
abbreviation E_StaleSelection :: error_code where "E_StaleSelection \<equiv> ErrorCode 411"
abbreviation E_SupersededCandidate :: error_code where "E_SupersededCandidate \<equiv> ErrorCode 412"
abbreviation E_RetiredLineage :: error_code where "E_RetiredLineage \<equiv> ErrorCode 413"
abbreviation E_CancelledAttempt :: error_code where "E_CancelledAttempt \<equiv> ErrorCode 414"
abbreviation E_DuplicateResult :: error_code where "E_DuplicateResult \<equiv> ErrorCode 415"
abbreviation E_LateCompletion :: error_code where "E_LateCompletion \<equiv> ErrorCode 416"
abbreviation E_UnknownWorkerIncarnation :: error_code where "E_UnknownWorkerIncarnation \<equiv> ErrorCode 417"
abbreviation E_AuthorityWithdrawn :: error_code where "E_AuthorityWithdrawn \<equiv> ErrorCode 418"
abbreviation E_RevalidationRequired :: error_code where "E_RevalidationRequired \<equiv> ErrorCode 419"
abbreviation E_GenerationRegression :: error_code where "E_GenerationRegression \<equiv> ErrorCode 420"
abbreviation E_LineageCycle :: error_code where "E_LineageCycle \<equiv> ErrorCode 500"
abbreviation E_LineageSelfParent :: error_code where "E_LineageSelfParent \<equiv> ErrorCode 501"
abbreviation E_LineageOrphan :: error_code where "E_LineageOrphan \<equiv> ErrorCode 502"
abbreviation E_LineageReparentForbidden :: error_code where "E_LineageReparentForbidden \<equiv> ErrorCode 503"
abbreviation E_EvaluationIncomplete :: error_code where "E_EvaluationIncomplete \<equiv> ErrorCode 600"
abbreviation E_HardRequirementFailed :: error_code where "E_HardRequirementFailed \<equiv> ErrorCode 601"
abbreviation E_MandatoryEvidenceMissing :: error_code where "E_MandatoryEvidenceMissing \<equiv> ErrorCode 602"
abbreviation E_SelectionImpossible :: error_code where "E_SelectionImpossible \<equiv> ErrorCode 603"
abbreviation E_PolicyConflict :: error_code where "E_PolicyConflict \<equiv> ErrorCode 604"
abbreviation E_RankingFactorUnknown :: error_code where "E_RankingFactorUnknown \<equiv> ErrorCode 605"
abbreviation E_RetentionLimitExceeded :: error_code where "E_RetentionLimitExceeded \<equiv> ErrorCode 606"
abbreviation E_PromotionNotEligible :: error_code where "E_PromotionNotEligible \<equiv> ErrorCode 607"
abbreviation E_BudgetExhausted :: error_code where "E_BudgetExhausted \<equiv> ErrorCode 700"
abbreviation E_ResourceExhausted :: error_code where "E_ResourceExhausted \<equiv> ErrorCode 701"
abbreviation E_QueueCapacityExceeded :: error_code where "E_QueueCapacityExceeded \<equiv> ErrorCode 702"
abbreviation E_OutputLimitExceeded :: error_code where "E_OutputLimitExceeded \<equiv> ErrorCode 703"
abbreviation E_AccountingImbalance :: error_code where "E_AccountingImbalance \<equiv> ErrorCode 704"
abbreviation E_PersistenceIoFailure :: error_code where "E_PersistenceIoFailure \<equiv> ErrorCode 800"
abbreviation E_PersistenceCorrupt :: error_code where "E_PersistenceCorrupt \<equiv> ErrorCode 801"
abbreviation E_PersistenceVersionUnsupported :: error_code where "E_PersistenceVersionUnsupported \<equiv> ErrorCode 802"
abbreviation E_PersistenceTruncated :: error_code where "E_PersistenceTruncated \<equiv> ErrorCode 803"
abbreviation E_PersistenceIntegrityMismatch :: error_code where "E_PersistenceIntegrityMismatch \<equiv> ErrorCode 804"
abbreviation E_PersistenceTrailingGarbage :: error_code where "E_PersistenceTrailingGarbage \<equiv> ErrorCode 805"
abbreviation E_PersistenceRejectedContent :: error_code where "E_PersistenceRejectedContent \<equiv> ErrorCode 806"
abbreviation E_TransportFailure :: error_code where "E_TransportFailure \<equiv> ErrorCode 900"
abbreviation E_ProtocolViolation :: error_code where "E_ProtocolViolation \<equiv> ErrorCode 901"
abbreviation E_FrameTooLarge :: error_code where "E_FrameTooLarge \<equiv> ErrorCode 902"
abbreviation E_FrameCorrupt :: error_code where "E_FrameCorrupt \<equiv> ErrorCode 903"
abbreviation E_FrameTruncated :: error_code where "E_FrameTruncated \<equiv> ErrorCode 904"
abbreviation E_ConnectionClosed :: error_code where "E_ConnectionClosed \<equiv> ErrorCode 905"
abbreviation E_NotConnected :: error_code where "E_NotConnected \<equiv> ErrorCode 906"
abbreviation E_PathEscape :: error_code where "E_PathEscape \<equiv> ErrorCode 1000"
abbreviation E_UnsafePath :: error_code where "E_UnsafePath \<equiv> ErrorCode 1001"
abbreviation E_ReparsePointRejected :: error_code where "E_ReparsePointRejected \<equiv> ErrorCode 1002"
abbreviation E_WorkspaceFailure :: error_code where "E_WorkspaceFailure \<equiv> ErrorCode 1003"
abbreviation E_TransactionAborted :: error_code where "E_TransactionAborted \<equiv> ErrorCode 1004"
abbreviation E_IoFailure :: error_code where "E_IoFailure \<equiv> ErrorCode 1005"
abbreviation E_ProcessSpawnFailure :: error_code where "E_ProcessSpawnFailure \<equiv> ErrorCode 1100"
abbreviation E_ProcessWaitFailure :: error_code where "E_ProcessWaitFailure \<equiv> ErrorCode 1101"
abbreviation E_OutcomeUnknown :: error_code where "E_OutcomeUnknown \<equiv> ErrorCode 1102"
abbreviation E_CoordinatorFailure :: error_code where "E_CoordinatorFailure \<equiv> ErrorCode 1103"
abbreviation E_ShutdownInProgress :: error_code where "E_ShutdownInProgress \<equiv> ErrorCode 1104"
abbreviation E_Cancelled :: error_code where "E_Cancelled \<equiv> ErrorCode 1105"
abbreviation E_AmbiguousCompletion :: error_code where "E_AmbiguousCompletion \<equiv> ErrorCode 1106"
abbreviation E_Unsupported :: error_code where "E_Unsupported \<equiv> ErrorCode 1200"
abbreviation E_Unavailable :: error_code where "E_Unavailable \<equiv> ErrorCode 1201"
abbreviation E_Internal :: error_code where "E_Internal \<equiv> ErrorCode 1300"

definition error_code_names :: "(error_code \<times> string) list" where
  "error_code_names =
    [(E_Ok, ''Ok''),
     (E_NullIdentity, ''NullIdentity''),
     (E_CrossDomainIdentity, ''CrossDomainIdentity''),
     (E_DuplicateIdentity, ''DuplicateIdentity''),
     (E_UnknownIdentity, ''UnknownIdentity''),
     (E_IdentityExhausted, ''IdentityExhausted''),
     (E_InvalidArgument, ''InvalidArgument''),
     (E_MalformedEncoding, ''MalformedEncoding''),
     (E_LengthOutOfRange, ''LengthOutOfRange''),
     (E_IntegerOverflow, ''IntegerOverflow''),
     (E_InvalidUnicode, ''InvalidUnicode''),
     (E_IllegalStateTransition, ''IllegalStateTransition''),
     (E_LifecycleClosed, ''LifecycleClosed''),
     (E_NotReady, ''NotReady''),
     (E_AlreadyExists, ''AlreadyExists''),
     (E_StaleCoordinatorEpoch, ''StaleCoordinatorEpoch''),
     (E_StaleWorkerBoot, ''StaleWorkerBoot''),
     (E_StaleSession, ''StaleSession''),
     (E_StaleAuthority, ''StaleAuthority''),
     (E_StalePopulationGeneration, ''StalePopulationGeneration''),
     (E_StaleTaskGeneration, ''StaleTaskGeneration''),
     (E_StaleCandidateGeneration, ''StaleCandidateGeneration''),
     (E_StaleEvaluationGeneration, ''StaleEvaluationGeneration''),
     (E_StalePolicyGeneration, ''StalePolicyGeneration''),
     (E_StaleAttempt, ''StaleAttempt''),
     (E_StaleAssignment, ''StaleAssignment''),
     (E_StaleSelection, ''StaleSelection''),
     (E_SupersededCandidate, ''SupersededCandidate''),
     (E_RetiredLineage, ''RetiredLineage''),
     (E_CancelledAttempt, ''CancelledAttempt''),
     (E_DuplicateResult, ''DuplicateResult''),
     (E_LateCompletion, ''LateCompletion''),
     (E_UnknownWorkerIncarnation, ''UnknownWorkerIncarnation''),
     (E_AuthorityWithdrawn, ''AuthorityWithdrawn''),
     (E_RevalidationRequired, ''RevalidationRequired''),
     (E_GenerationRegression, ''GenerationRegression''),
     (E_LineageCycle, ''LineageCycle''),
     (E_LineageSelfParent, ''LineageSelfParent''),
     (E_LineageOrphan, ''LineageOrphan''),
     (E_LineageReparentForbidden, ''LineageReparentForbidden''),
     (E_EvaluationIncomplete, ''EvaluationIncomplete''),
     (E_HardRequirementFailed, ''HardRequirementFailed''),
     (E_MandatoryEvidenceMissing, ''MandatoryEvidenceMissing''),
     (E_SelectionImpossible, ''SelectionImpossible''),
     (E_PolicyConflict, ''PolicyConflict''),
     (E_RankingFactorUnknown, ''RankingFactorUnknown''),
     (E_RetentionLimitExceeded, ''RetentionLimitExceeded''),
     (E_PromotionNotEligible, ''PromotionNotEligible''),
     (E_BudgetExhausted, ''BudgetExhausted''),
     (E_ResourceExhausted, ''ResourceExhausted''),
     (E_QueueCapacityExceeded, ''QueueCapacityExceeded''),
     (E_OutputLimitExceeded, ''OutputLimitExceeded''),
     (E_AccountingImbalance, ''AccountingImbalance''),
     (E_PersistenceIoFailure, ''PersistenceIoFailure''),
     (E_PersistenceCorrupt, ''PersistenceCorrupt''),
     (E_PersistenceVersionUnsupported, ''PersistenceVersionUnsupported''),
     (E_PersistenceTruncated, ''PersistenceTruncated''),
     (E_PersistenceIntegrityMismatch, ''PersistenceIntegrityMismatch''),
     (E_PersistenceTrailingGarbage, ''PersistenceTrailingGarbage''),
     (E_PersistenceRejectedContent, ''PersistenceRejectedContent''),
     (E_TransportFailure, ''TransportFailure''),
     (E_ProtocolViolation, ''ProtocolViolation''),
     (E_FrameTooLarge, ''FrameTooLarge''),
     (E_FrameCorrupt, ''FrameCorrupt''),
     (E_FrameTruncated, ''FrameTruncated''),
     (E_ConnectionClosed, ''ConnectionClosed''),
     (E_NotConnected, ''NotConnected''),
     (E_PathEscape, ''PathEscape''),
     (E_UnsafePath, ''UnsafePath''),
     (E_ReparsePointRejected, ''ReparsePointRejected''),
     (E_WorkspaceFailure, ''WorkspaceFailure''),
     (E_TransactionAborted, ''TransactionAborted''),
     (E_IoFailure, ''IoFailure''),
     (E_ProcessSpawnFailure, ''ProcessSpawnFailure''),
     (E_ProcessWaitFailure, ''ProcessWaitFailure''),
     (E_OutcomeUnknown, ''OutcomeUnknown''),
     (E_CoordinatorFailure, ''CoordinatorFailure''),
     (E_ShutdownInProgress, ''ShutdownInProgress''),
     (E_Cancelled, ''Cancelled''),
     (E_AmbiguousCompletion, ''AmbiguousCompletion''),
     (E_Unsupported, ''Unsupported''),
     (E_Unavailable, ''Unavailable''),
     (E_Internal, ''Internal'')]"

definition error_code_name :: "error_code \<Rightarrow> string" where
  "error_code_name c =
    (case map_of error_code_names c of Some name \<Rightarrow> name | None \<Rightarrow> ''ErrorCodeUnknown'')"

definition is_stale_authority :: "error_code \<Rightarrow> bool" where
  "is_stale_authority c \<longleftrightarrow> c \<in> set
    [E_StaleCoordinatorEpoch,
     E_StaleWorkerBoot,
     E_StaleSession,
     E_StaleAuthority,
     E_StalePopulationGeneration,
     E_StaleTaskGeneration,
     E_StaleCandidateGeneration,
     E_StaleEvaluationGeneration,
     E_StalePolicyGeneration,
     E_StaleAttempt,
     E_StaleAssignment,
     E_StaleSelection,
     E_SupersededCandidate,
     E_RetiredLineage,
     E_CancelledAttempt,
     E_DuplicateResult,
     E_LateCompletion,
     E_UnknownWorkerIncarnation,
     E_AuthorityWithdrawn,
     E_RevalidationRequired,
     E_GenerationRegression]"

definition is_persistence_rejection :: "error_code \<Rightarrow> bool" where
  "is_persistence_rejection c \<longleftrightarrow> c \<in> set
    [E_PersistenceCorrupt,
     E_PersistenceVersionUnsupported,
     E_PersistenceTruncated,
     E_PersistenceIntegrityMismatch,
     E_PersistenceTrailingGarbage,
     E_PersistenceRejectedContent]"

section \<open>Status and result\<close>

type_synonym 'a result = "error_code + 'a"
type_synonym status = "unit result"

abbreviation OK :: status where "OK \<equiv> Inr ()"

definition is_ok :: "'a result \<Rightarrow> bool" where
  "is_ok r \<longleftrightarrow> (case r of Inl _ \<Rightarrow> False | Inr _ \<Rightarrow> True)"

definition require :: "bool \<Rightarrow> error_code \<Rightarrow> status" where
  "require b e = (if b then OK else Inl e)"

text \<open>A run of checks with an early return after each: the first failure is the result.\<close>

fun first_failure :: "status list \<Rightarrow> status" where
  "first_failure [] = OK"
| "first_failure (st # sts) = (case st of Inl e \<Rightarrow> Inl e | Inr _ \<Rightarrow> first_failure sts)"

definition for_all :: "('a \<Rightarrow> status) \<Rightarrow> 'a list \<Rightarrow> status" where
  "for_all check xs = first_failure (map check xs)"

text \<open>The check of an element against every earlier one, as the nested index loops do.\<close>

fun each_with_earlier :: "('a list \<Rightarrow> 'a \<Rightarrow> status) \<Rightarrow> 'a list \<Rightarrow> 'a list \<Rightarrow> status" where
  "each_with_earlier check seen [] = OK"
| "each_with_earlier check seen (x # xs) =
     (case check seen x of Inl e \<Rightarrow> Inl e | Inr _ \<Rightarrow> each_with_earlier check (seen @ [x]) xs)"

lemma require_ok [simp]: "require b e = OK \<longleftrightarrow> b" "require b e = Inr u \<longleftrightarrow> b"
  by (simp_all add: require_def)

lemma require_fail [simp]: "require b e = Inl e' \<longleftrightarrow> \<not> b \<and> e' = e"
  by (auto simp: require_def)

lemma is_ok_simps [simp]: "is_ok (Inl e) = False" "is_ok (Inr x) = True"
  by (simp_all add: is_ok_def)

lemma first_failure_ok: "first_failure sts = OK \<longleftrightarrow> (\<forall>st \<in> set sts. st = OK)"
  by (induction sts) (auto split: sum.splits)

lemma first_failure_Cons_ok [simp]:
  "first_failure (st # sts) = OK \<longleftrightarrow> st = OK \<and> first_failure sts = OK"
  by (auto split: sum.splits)

lemma first_failure_steps [simp]:
  "first_failure (OK # sts) = first_failure sts"
  "first_failure (Inl e # sts) = Inl e"
  by simp_all

declare first_failure.simps(2) [simp del]

lemma require_steps [simp]: "require True e = OK" "require False e = Inl e"
  by (simp_all add: require_def)

lemma for_all_ok [simp]: "for_all check xs = OK \<longleftrightarrow> (\<forall>x \<in> set xs. check x = OK)"
  by (simp add: for_all_def first_failure_ok)

lemma each_with_earlier_ok:
  "each_with_earlier check seen xs = OK \<longleftrightarrow>
   (\<forall>i < length xs. check (seen @ take i xs) (xs ! i) = OK)"
proof (induction xs arbitrary: seen)
  case Nil
  then show ?case by simp
next
  case (Cons x xs)
  have "each_with_earlier check seen (x # xs) = OK \<longleftrightarrow>
      check seen x = OK \<and> each_with_earlier check (seen @ [x]) xs = OK"
    by (auto split: sum.splits)
  then show ?case
    by (auto simp: Cons.IH All_less_Suc2)
qed

lemma each_distinct_ok:
  "each_with_earlier (\<lambda>seen x. require (f x \<notin> f ` set seen) e) seen xs = OK \<longleftrightarrow>
   distinct (map f xs) \<and> f ` set seen \<inter> f ` set xs = {}"
  by (induction xs arbitrary: seen) (auto split: sum.splits)

section \<open>Actions\<close>

type_synonym ('s, 'a) action = "'s \<Rightarrow> 'a result \<times> 's"

definition retA :: "'a \<Rightarrow> ('s, 'a) action" where
  "retA x = (\<lambda>s. (Inr x, s))"

definition failA :: "error_code \<Rightarrow> ('s, 'a) action" where
  "failA e = (\<lambda>s. (Inl e, s))"

definition bindA :: "('s, 'a) action \<Rightarrow> ('a \<Rightarrow> ('s, 'b) action) \<Rightarrow> ('s, 'b) action" where
  "bindA m f = (\<lambda>s. case m s of (Inl e, s') \<Rightarrow> (Inl e, s') | (Inr x, s') \<Rightarrow> f x s')"

definition thenA :: "('s, unit) action \<Rightarrow> ('s, 'b) action \<Rightarrow> ('s, 'b) action" where
  "thenA m n = bindA m (\<lambda>_. n)"

definition readA :: "('s \<Rightarrow> ('s, 'a) action) \<Rightarrow> ('s, 'a) action" where
  "readA f = (\<lambda>s. f s s)"

definition modifyA :: "('s \<Rightarrow> 's) \<Rightarrow> ('s, unit) action" where
  "modifyA f = (\<lambda>s. (OK, f s))"

definition checkA :: "'a result \<Rightarrow> ('s, 'a) action" where
  "checkA r = (\<lambda>s. (r, s))"

definition whenA :: "bool \<Rightarrow> ('s, unit) action \<Rightarrow> ('s, unit) action" where
  "whenA b m = (if b then m else retA ())"

text \<open>\<^verbatim>\<open>(void)operation(...)\<close>: the effect is kept, the result is not looked at.\<close>

definition ignoreA :: "('s, 'a) action \<Rightarrow> ('s, unit) action" where
  "ignoreA m = (\<lambda>s. (OK, snd (m s)))"

fun seqA :: "('s, unit) action list \<Rightarrow> ('s, unit) action" where
  "seqA [] = retA ()"
| "seqA (m # ms) = thenA m (seqA ms)"

fun forA :: "'x list \<Rightarrow> ('x \<Rightarrow> ('s, unit) action) \<Rightarrow> ('s, unit) action" where
  "forA [] body = retA ()"
| "forA (x # xs) body = thenA (body x) (forA xs body)"

lemmas action_defs = retA_def failA_def bindA_def thenA_def readA_def modifyA_def checkA_def
  whenA_def ignoreA_def

section \<open>Relations every step of an action keeps\<close>

definition step_ok :: "('s \<Rightarrow> 's \<Rightarrow> bool) \<Rightarrow> ('s, 'a) action \<Rightarrow> 's \<Rightarrow> bool" where
  "step_ok R m s \<longleftrightarrow> R s (snd (m s))"

definition keeps :: "('s \<Rightarrow> 's \<Rightarrow> bool) \<Rightarrow> ('s, 'a) action \<Rightarrow> bool" where
  "keeps R m \<longleftrightarrow> (\<forall>s. step_ok R m s)"

text \<open>
  A reflexive and transitive relation between the state before and the state after: the
  interface through which an invariant, a monotone counter or an absorbing state is carried
  from the primitive writes to the whole operations.
\<close>

locale two_state =
  fixes R :: "'s \<Rightarrow> 's \<Rightarrow> bool"
  assumes R_refl: "R s s"
    and R_trans: "R s t \<Longrightarrow> R t u \<Longrightarrow> R s u"
begin

lemma keeps_stepI: "keeps R m \<Longrightarrow> step_ok R m s"
  by (simp add: keeps_def)

lemma keeps_ret: "keeps R (retA x)"
  by (simp add: keeps_def step_ok_def retA_def R_refl)

lemma keeps_fail: "keeps R (failA e)"
  by (simp add: keeps_def step_ok_def failA_def R_refl)

lemma keeps_check: "keeps R (checkA r)"
  by (simp add: keeps_def step_ok_def checkA_def R_refl)

lemma step_bind:
  assumes "step_ok R m s" and "\<And>x s'. m s = (Inr x, s') \<Longrightarrow> step_ok R (f x) s'"
  shows "step_ok R (bindA m f) s"
proof (cases "m s")
  case (Pair r s')
  then have "R s s'"
    using assms(1) by (simp add: step_ok_def)
  then show ?thesis
    using Pair assms(2)[of _ s'] R_trans
    by (cases r) (auto simp: step_ok_def bindA_def)
qed

lemma step_then:
  assumes "step_ok R m s" and "\<And>s'. m s = (OK, s') \<Longrightarrow> step_ok R n s'"
  shows "step_ok R (thenA m n) s"
  using assms unfolding thenA_def by (auto intro: step_bind)

lemma step_read: "step_ok R (f s) s \<Longrightarrow> step_ok R (readA f) s"
  by (simp add: step_ok_def readA_def)

lemma keeps_bind:
  assumes "keeps R m" and "\<And>x. keeps R (f x)"
  shows "keeps R (bindA m f)"
  using assms by (auto simp: keeps_def intro: step_bind)

lemma keeps_then:
  assumes "keeps R m" and "keeps R n"
  shows "keeps R (thenA m n)"
  using assms by (auto simp: keeps_def intro: step_then)

lemma keeps_read: "(\<And>s. keeps R (f s)) \<Longrightarrow> keeps R (readA f)"
  by (auto simp: keeps_def intro: step_read)

lemma keeps_when: "keeps R m \<Longrightarrow> keeps R (whenA b m)"
  by (simp add: whenA_def keeps_ret)

lemma keeps_ignore: "keeps R m \<Longrightarrow> keeps R (ignoreA m)"
  by (simp add: keeps_def step_ok_def ignoreA_def)

lemma keeps_modify: "(\<And>s. R s (f s)) \<Longrightarrow> keeps R (modifyA f)"
  by (simp add: keeps_def step_ok_def modifyA_def)

lemma keeps_seq: "(\<And>m. m \<in> set ms \<Longrightarrow> keeps R m) \<Longrightarrow> keeps R (seqA ms)"
  by (induction ms) (auto intro: keeps_ret keeps_then)

lemma keeps_for: "(\<And>x. x \<in> set xs \<Longrightarrow> keeps R (body x)) \<Longrightarrow> keeps R (forA xs body)"
  by (induction xs) (auto intro: keeps_ret keeps_then)

lemma step_for:
  assumes "I s" and "\<And>x s. x \<in> set xs \<Longrightarrow> I s \<Longrightarrow> step_ok R (body x) s"
    and "\<And>x s s'. x \<in> set xs \<Longrightarrow> I s \<Longrightarrow> body x s = (OK, s') \<Longrightarrow> I s'"
  shows "step_ok R (forA xs body) s"
  using assms
proof (induction xs arbitrary: s)
  case Nil
  then show ?case by (simp add: keeps_stepI keeps_ret)
next
  case (Cons x xs)
  show ?case
    unfolding forA.simps
  proof (rule step_then)
    show "step_ok R (body x) s"
      using Cons.prems by simp
  next
    fix s' assume "body x s = (OK, s')"
    then have "I s'"
      using Cons.prems(1) Cons.prems(3) [of x s s'] by simp
    then show "step_ok R (forA xs body) s'"
      using Cons.prems(2,3) by (intro Cons.IH) (auto, blast)
  qed
qed

lemma keeps_if: "keeps R m \<Longrightarrow> keeps R n \<Longrightarrow> keeps R (if b then m else n)"
  by simp

lemma keeps_case_option: "keeps R m \<Longrightarrow> (\<And>v. keeps R (n v)) \<Longrightarrow> keeps R (case x of None \<Rightarrow> m | Some v \<Rightarrow> n v)"
  by (cases x) simp_all

lemma keeps_case_sum: "(\<And>e. keeps R (m e)) \<Longrightarrow> (\<And>v. keeps R (n v)) \<Longrightarrow> keeps R (case x of Inl e \<Rightarrow> m e | Inr v \<Rightarrow> n v)"
  by (cases x) simp_all

lemma keeps_case_prod: "(\<And>a b. keeps R (m a b)) \<Longrightarrow> keeps R (case x of (a, b) \<Rightarrow> m a b)"
  by (cases x) simp

lemma keeps_seq_Nil: "keeps R (seqA [])"
  by (simp add: keeps_ret)

lemma keeps_seq_Cons: "keeps R m \<Longrightarrow> keeps R (seqA ms) \<Longrightarrow> keeps R (seqA (m # ms))"
  by (simp add: keeps_then)

lemmas keeps_control = keeps_if keeps_case_option keeps_case_sum keeps_case_prod keeps_seq_Nil
  keeps_seq_Cons

lemmas keeps_rules = keeps_ret keeps_fail keeps_check keeps_bind keeps_then
  keeps_read keeps_when keeps_ignore keeps_seq keeps_for

end

end
