(* ===== verification/Identity.thy ===== *)
theory Identity
  imports Errors
begin

text \<open>
  Strongly typed identities, generations, the coordinator epoch and the identity allocator
  (id.hpp, id.cpp). \<^verbatim>\<open>StrongId<Tag>\<close> is a 64-bit value with a phantom tag: identities of
  different domains are different HOL types, as they are different C++ types. The kind of a
  tag is passed where the template reads \<^verbatim>\<open>Tag::kind\<close>.
\<close>

section \<open>Identity domains\<close>

datatype (plugins only: code size) id_kind =
    IK_None | IK_Foundry | IK_FoundryRun | IK_Population | IK_Task | IK_Candidate | IK_Lineage
  | IK_Worker | IK_WorkerBoot | IK_Attempt | IK_Assignment | IK_Evaluation | IK_Evaluator
  | IK_Policy | IK_Artifact | IK_PromotionRequest | IK_Session | IK_Controller

primrec id_kind_ordinal :: "id_kind \<Rightarrow> nat" where
  "id_kind_ordinal IK_None = 0"
| "id_kind_ordinal IK_Foundry = 1"
| "id_kind_ordinal IK_FoundryRun = 2"
| "id_kind_ordinal IK_Population = 3"
| "id_kind_ordinal IK_Task = 4"
| "id_kind_ordinal IK_Candidate = 5"
| "id_kind_ordinal IK_Lineage = 6"
| "id_kind_ordinal IK_Worker = 7"
| "id_kind_ordinal IK_WorkerBoot = 8"
| "id_kind_ordinal IK_Attempt = 9"
| "id_kind_ordinal IK_Assignment = 10"
| "id_kind_ordinal IK_Evaluation = 11"
| "id_kind_ordinal IK_Evaluator = 12"
| "id_kind_ordinal IK_Policy = 13"
| "id_kind_ordinal IK_Artifact = 14"
| "id_kind_ordinal IK_PromotionRequest = 15"
| "id_kind_ordinal IK_Session = 16"
| "id_kind_ordinal IK_Controller = 17"

definition kIdKindCount :: nat where
  "kIdKindCount = 18"

text \<open>The name by ordinal; a byte outside the enumeration has the fallback name.\<close>

definition id_kind_names :: "string list" where
  "id_kind_names =
    [''None'', ''Foundry'', ''FoundryRun'', ''Population'', ''Task'', ''Candidate'', ''Lineage'',
     ''Worker'', ''WorkerBoot'', ''Attempt'', ''Assignment'', ''Evaluation'', ''Evaluator'',
     ''Policy'', ''Artifact'', ''PromotionRequest'', ''Session'', ''Controller'']"

definition id_kind_name :: "nat \<Rightarrow> string" where
  "id_kind_name ordinal =
    (if ordinal < length id_kind_names then id_kind_names ! ordinal else ''IdKindUnknown'')"

section \<open>Strong identities\<close>

datatype 'tag strong_id = StrongId (raw: u64)

datatype (plugins only: code size) foundry_tag = FoundryTag
datatype (plugins only: code size) run_tag = RunTag
datatype (plugins only: code size) population_tag = PopulationTag
datatype (plugins only: code size) task_tag = TaskTag
datatype (plugins only: code size) candidate_tag = CandidateTag
datatype (plugins only: code size) lineage_tag = LineageTag
datatype (plugins only: code size) worker_tag = WorkerTag
datatype (plugins only: code size) worker_boot_tag = WorkerBootTag
datatype (plugins only: code size) attempt_tag = AttemptTag
datatype (plugins only: code size) assignment_tag = AssignmentTag
datatype (plugins only: code size) evaluation_tag = EvaluationTag
datatype (plugins only: code size) evaluator_tag = EvaluatorTag
datatype (plugins only: code size) policy_tag = PolicyTag
datatype (plugins only: code size) promotion_tag = PromotionTag
datatype (plugins only: code size) session_tag = SessionTag

type_synonym foundry_id = "foundry_tag strong_id"
type_synonym foundry_run_id = "run_tag strong_id"
type_synonym population_id = "population_tag strong_id"
type_synonym task_id = "task_tag strong_id"
type_synonym candidate_id = "candidate_tag strong_id"
type_synonym lineage_id = "lineage_tag strong_id"
type_synonym worker_id = "worker_tag strong_id"
type_synonym worker_boot_id = "worker_boot_tag strong_id"
type_synonym attempt_id = "attempt_tag strong_id"
type_synonym assignment_id = "assignment_tag strong_id"
type_synonym evaluation_id = "evaluation_tag strong_id"
type_synonym evaluator_id = "evaluator_tag strong_id"
type_synonym policy_id = "policy_tag strong_id"
type_synonym promotion_request_id = "promotion_tag strong_id"
type_synonym session_id = "session_tag strong_id"

instantiation strong_id :: (type) linorder
begin

definition less_eq_strong_id :: "'a strong_id \<Rightarrow> 'a strong_id \<Rightarrow> bool" where
  "less_eq_strong_id a b \<longleftrightarrow> raw a \<le> raw b"

definition less_strong_id :: "'a strong_id \<Rightarrow> 'a strong_id \<Rightarrow> bool" where
  "less_strong_id a b \<longleftrightarrow> raw a < raw b"

instance
  by standard (auto simp: less_eq_strong_id_def less_strong_id_def intro: strong_id.expand)

end

definition null_id :: "'tag strong_id" where
  "null_id = StrongId 0"

definition id_valid :: "'tag strong_id \<Rightarrow> bool" where
  "id_valid i \<longleftrightarrow> raw i \<noteq> 0"

definition kIdCounterMask :: u64 where "kIdCounterMask = 0xFFFFFFFF"
definition kIdSaltMask :: u64 where "kIdSaltMask = 0xFFFFFF"
definition kIdKindMask :: u64 where "kIdKindMask = 0xFF"

definition id_counter :: "'tag strong_id \<Rightarrow> u32" where
  "id_counter i = ucast (raw i AND kIdCounterMask)"

definition id_salt :: "'tag strong_id \<Rightarrow> u32" where
  "id_salt i = ucast (drop_bit 32 (raw i) AND kIdSaltMask)"

text \<open>\<^verbatim>\<open>kind()\<close> is the high byte, cast to the enumeration; it need not name an enumerator.\<close>

definition id_kind_byte :: "'tag strong_id \<Rightarrow> nat" where
  "id_kind_byte i = unat (drop_bit 56 (raw i) AND kIdKindMask)"

definition id_to_string :: "id_kind \<Rightarrow> string \<Rightarrow> 'tag strong_id \<Rightarrow> string" where
  "id_to_string kind name i =
    (if id_kind_byte i = id_kind_ordinal kind then name else id_kind_name (id_kind_byte i))
    @ '':'' @ decimal (unat (raw i))"

definition strong_id_from_raw_checked :: "id_kind \<Rightarrow> u64 \<Rightarrow> 'tag strong_id result" where
  "strong_id_from_raw_checked kind r =
    (if r = 0 then Inl E_NullIdentity
     else let i = StrongId r in
       if id_kind_byte i = id_kind_ordinal IK_None then Inl E_NullIdentity
       else if id_kind_byte i \<noteq> id_kind_ordinal kind then Inl E_CrossDomainIdentity
       else Inr i)"

lemma null_id_invalid [simp]: "\<not> id_valid null_id"
  by (simp add: id_valid_def null_id_def)

lemma id_valid_iff: "id_valid i \<longleftrightarrow> i \<noteq> null_id"
  by (cases i) (simp add: id_valid_def null_id_def)

section \<open>Generations and the coordinator epoch\<close>

datatype 'tag generation = Generation (gen_value: u32)

type_synonym population_generation = "population_tag generation"
type_synonym task_generation = "task_tag generation"
type_synonym candidate_generation = "candidate_tag generation"
type_synonym policy_generation = "policy_tag generation"
type_synonym evaluation_generation = "evaluation_tag generation"
type_synonym attempt_generation = "attempt_tag generation"
type_synonym assignment_generation = "assignment_tag generation"
type_synonym worker_session_generation = "session_tag generation"
type_synonym selection_generation = "population_tag generation"
type_synonym evidence_generation = "evaluation_tag generation"

instantiation generation :: (type) linorder
begin

definition less_eq_generation :: "'a generation \<Rightarrow> 'a generation \<Rightarrow> bool" where
  "less_eq_generation a b \<longleftrightarrow> gen_value a \<le> gen_value b"

definition less_generation :: "'a generation \<Rightarrow> 'a generation \<Rightarrow> bool" where
  "less_generation a b \<longleftrightarrow> gen_value a < gen_value b"

instance
  by standard (auto simp: less_eq_generation_def less_generation_def intro: generation.expand)

end

definition gen_none :: "'tag generation" where "gen_none = Generation 0"
definition gen_first :: "'tag generation" where "gen_first = Generation 1"

definition gen_valid :: "'tag generation \<Rightarrow> bool" where
  "gen_valid g \<longleftrightarrow> gen_value g \<noteq> 0"

definition gen_next :: "'tag generation \<Rightarrow> 'tag generation option" where
  "gen_next g = (if gen_value g = 0xFFFFFFFF then None else Some (Generation (gen_value g + 1)))"

text \<open>
  \<^verbatim>\<open>Generation::from_value(g.value() + 1)\<close>: the addition is made in 32-bit unsigned
  arithmetic, so it wraps. Several transitions of the core advance a generation this way.
\<close>

definition gen_bump :: "'tag generation \<Rightarrow> 'tag generation" where
  "gen_bump g = Generation (gen_value g + 1)"

definition gen_bump_or_first :: "'tag generation \<Rightarrow> 'tag generation" where
  "gen_bump_or_first g = (if gen_valid g then gen_bump g else gen_first)"

datatype coordinator_epoch = CoordinatorEpoch (epoch_value: u64)

instantiation coordinator_epoch :: linorder
begin

definition less_eq_coordinator_epoch :: "coordinator_epoch \<Rightarrow> coordinator_epoch \<Rightarrow> bool" where
  "less_eq_coordinator_epoch a b \<longleftrightarrow> epoch_value a \<le> epoch_value b"

definition less_coordinator_epoch :: "coordinator_epoch \<Rightarrow> coordinator_epoch \<Rightarrow> bool" where
  "less_coordinator_epoch a b \<longleftrightarrow> epoch_value a < epoch_value b"

instance
  by standard
    (auto simp: less_eq_coordinator_epoch_def less_coordinator_epoch_def intro: coordinator_epoch.expand)

end

definition epoch_none :: coordinator_epoch where "epoch_none = CoordinatorEpoch 0"

definition epoch_valid :: "coordinator_epoch \<Rightarrow> bool" where
  "epoch_valid e \<longleftrightarrow> epoch_value e \<noteq> 0"

definition epoch_next :: "coordinator_epoch \<Rightarrow> coordinator_epoch option" where
  "epoch_next e =
    (if epoch_value e = 0xFFFFFFFFFFFFFFFF then None else Some (CoordinatorEpoch (epoch_value e + 1)))"

lemma u32_max: "(0xFFFFFFFF :: u32) = - 1" and u64_max: "(0xFFFFFFFFFFFFFFFF :: u64) = - 1"
  by simp_all

lemma u32_inc:
  fixes w :: u32
  assumes "w \<noteq> 0xFFFFFFFF"
  shows "w < w + 1" and "w + 1 \<noteq> 0" and "unat (w + 1) = Suc (unat w)"
  using assms unfolding u32_max by (rule word_less_inc, rule word_inc_not_zero, rule unat_inc)

lemma u64_inc:
  fixes w :: u64
  assumes "w \<noteq> 0xFFFFFFFFFFFFFFFF"
  shows "w < w + 1" and "w + 1 \<noteq> 0" and "unat (w + 1) = Suc (unat w)"
  using assms unfolding u64_max by (rule word_less_inc, rule word_inc_not_zero, rule unat_inc)

lemma gen_next_greater: "gen_next g = Some g' \<Longrightarrow> g < g' \<and> gen_valid g'"
  by (auto simp: gen_next_def less_generation_def gen_valid_def u32_inc split: if_splits)

lemma epoch_next_greater: "epoch_next e = Some e' \<Longrightarrow> e < e' \<and> epoch_valid e'"
  by (auto simp: epoch_next_def less_coordinator_epoch_def epoch_valid_def u64_inc split: if_splits)

section \<open>The allocator\<close>

record id_allocator =
  al_salt :: u32
  al_counters :: "u32 list"

definition make_allocator :: "u32 \<Rightarrow> id_allocator" where
  "make_allocator salt = \<lparr>al_salt = salt AND ucast kIdSaltMask, al_counters = replicate kIdKindCount 0\<rparr>"

definition alloc_next :: "id_kind \<Rightarrow> id_allocator \<Rightarrow> 'tag strong_id result \<times> id_allocator" where
  "alloc_next kind a =
    (let index = id_kind_ordinal kind in
     if index = 0 \<or> length (al_counters a) \<le> index then (Inl E_Internal, a)
     else if al_counters a ! index = 0xFFFFFFFF then (Inl E_IdentityExhausted, a)
     else
       let counter = al_counters a ! index + 1;
           r = push_bit 56 (of_nat index)
               OR push_bit 32 (ucast (al_salt a) AND kIdSaltMask)
               OR (ucast counter AND kIdCounterMask)
       in (Inr (StrongId r), a\<lparr>al_counters := (al_counters a)[index := counter]\<rparr>))"

definition restore_counter :: "nat \<Rightarrow> u32 \<Rightarrow> id_allocator \<Rightarrow> status \<times> id_allocator" where
  "restore_counter index value a =
    (if index = 0 \<or> length (al_counters a) \<le> index then (Inl E_Internal, a)
     else if value < al_counters a ! index then (Inl E_GenerationRegression, a)
     else (OK, a\<lparr>al_counters := (al_counters a)[index := value]\<rparr>))"

definition peek_counter :: "nat \<Rightarrow> id_allocator \<Rightarrow> u32" where
  "peek_counter index a = (if length (al_counters a) \<le> index then 0 else al_counters a ! index)"

definition adopt_salt :: "u32 \<Rightarrow> id_allocator \<Rightarrow> status \<times> id_allocator" where
  "adopt_salt salt a =
    (if \<exists>counter \<in> set (al_counters a). counter \<noteq> 0 then (Inl E_IllegalStateTransition, a)
     else (OK, a\<lparr>al_salt := salt AND ucast kIdSaltMask\<rparr>))"

section \<open>Operator text\<close>

fun parse_digits :: "u64 \<Rightarrow> string \<Rightarrow> u64 result" where
  "parse_digits value [] = Inr value"
| "parse_digits value (c # cs) =
    (if \<not> is_digit_char c then Inl E_InvalidArgument
     else let digit = of_nat (digit_value c) in
       if value > (0xFFFFFFFFFFFFFFFF - digit) div 10 then Inl E_InvalidArgument
       else parse_digits (value * 10 + digit) cs)"

definition parse_raw_identity :: "string \<Rightarrow> u64 result" where
  "parse_raw_identity text =
    (if text = [] then Inl E_InvalidArgument
     else case parse_digits 0 text of
       Inl e \<Rightarrow> Inl e
     | Inr value \<Rightarrow> if value = 0 then Inl E_InvalidArgument else Inr value)"

section \<open>What the identity layer promises\<close>

lemma masks: "kIdKindMask = mask 8" "kIdSaltMask = mask 24" "kIdCounterMask = mask 32"
  by (simp_all add: kIdKindMask_def kIdSaltMask_def kIdCounterMask_def mask_eq_exp_minus_1)

lemma pack_fields:
  fixes k s c :: u64
  assumes "take_bit 8 k = k" and "take_bit 24 s = s" and "take_bit 32 c = c"
  shows "drop_bit 56 (push_bit 56 k OR push_bit 32 s OR c) AND mask 8 = k"
    and "drop_bit 32 (push_bit 56 k OR push_bit 32 s OR c) AND mask 24 = s"
    and "(push_bit 56 k OR push_bit 32 s OR c) AND mask 32 = c"
proof -
  have k: "\<not> bit k n" if "8 \<le> n" for n
    using that assms(1) by (metis bit_take_bit_iff not_le)
  have s: "\<not> bit s n" if "24 \<le> n" for n
    using that assms(2) by (metis bit_take_bit_iff not_le)
  have c: "\<not> bit c n" if "32 \<le> n" for n
    using that assms(3) by (metis bit_take_bit_iff not_le)
  have k': "bit k n \<Longrightarrow> n < 8" and s': "bit s n \<Longrightarrow> n < 24" and c': "bit c n \<Longrightarrow> n < 32" for n
    using k s c not_le by blast+
  show "drop_bit 56 (push_bit 56 k OR push_bit 32 s OR c) AND mask 8 = k"
    by (rule bit_word_eqI) (use k s c in \<open>auto simp: bit_simps intro: k'\<close>)
  show "drop_bit 32 (push_bit 56 k OR push_bit 32 s OR c) AND mask 24 = s"
    by (rule bit_word_eqI) (use k s c in \<open>auto simp: bit_simps intro: s'\<close>)
  show "(push_bit 56 k OR push_bit 32 s OR c) AND mask 32 = c"
    by (rule bit_word_eqI) (use k s c in \<open>auto simp: bit_simps intro: c'\<close>)
qed

lemma id_kind_ordinal_less: "id_kind_ordinal kind < 18"
  by (cases kind) auto

lemma alloc_next_OK_cases:
  assumes "alloc_next kind a = (Inr i, a')"
  defines "index \<equiv> id_kind_ordinal kind"
  shows "0 < index" and "index < length (al_counters a)"
    and "al_counters a ! index \<noteq> 0xFFFFFFFF"
    and "id_kind_byte i = index"
    and "id_counter i = al_counters a ! index + 1"
    and "id_salt i = al_salt a AND 0xFFFFFF"
    and "a' = a\<lparr>al_counters := (al_counters a)[index := al_counters a ! index + 1]\<rparr>"
proof -
  have alloc: "0 < index" "index < length (al_counters a)" "al_counters a ! index \<noteq> 0xFFFFFFFF"
    "i = StrongId (push_bit 56 (of_nat index) OR push_bit 32 (ucast (al_salt a) AND kIdSaltMask)
         OR (ucast (al_counters a ! index + 1) AND kIdCounterMask))"
    "a' = a\<lparr>al_counters := (al_counters a)[index := al_counters a ! index + 1]\<rparr>"
    using assms by (auto simp: alloc_next_def Let_def not_le split: if_splits)
  then show "0 < index" "index < length (al_counters a)" "al_counters a ! index \<noteq> 0xFFFFFFFF"
    "a' = a\<lparr>al_counters := (al_counters a)[index := al_counters a ! index + 1]\<rparr>"
    by blast+
  have index_small: "index < 2 ^ 8"
    using id_kind_ordinal_less [of kind] by (simp add: index_def)
  then have k: "take_bit 8 (of_nat index :: u64) = of_nat index"
    by (simp add: take_bit_of_nat take_bit_nat_eq_self)
  have s: "take_bit 24 (ucast (al_salt a) AND kIdSaltMask) = ucast (al_salt a) AND kIdSaltMask"
    and c: "take_bit 32 (ucast (al_counters a ! index + 1) AND kIdCounterMask) =
      ucast (al_counters a ! index + 1) AND kIdCounterMask"
    by (simp_all add: masks take_bit_eq_mask[symmetric])
  note fields = pack_fields [OF k s c]
  show "id_kind_byte i = index"
    using fields(1) index_small by (simp add: id_kind_byte_def alloc(4) masks unat_of_nat)
  have "id_counter i = ucast (ucast (al_counters a ! index + 1) AND kIdCounterMask :: u64)"
    using fields(3) by (simp only: id_counter_def alloc(4) strong_id.sel masks)
  also have "\<dots> = al_counters a ! index + 1"
    by (rule bit_word_eqI) (auto simp: bit_simps masks)
  finally show "id_counter i = al_counters a ! index + 1" .
  have "id_salt i = ucast (ucast (al_salt a) AND kIdSaltMask :: u64)"
    using fields(2) by (simp only: id_salt_def alloc(4) strong_id.sel masks)
  also have "\<dots> = al_salt a AND mask 24"
    by (rule bit_word_eqI) (auto simp: bit_simps masks)
  also have "(mask 24 :: u32) = 0xFFFFFF"
    by (simp add: mask_eq_exp_minus_1)
  finally show "id_salt i = al_salt a AND 0xFFFFFF" .
qed

lemma kind_byte_not_null: "id_kind_byte i \<noteq> 0 \<Longrightarrow> raw i \<noteq> 0"
  by (auto simp: id_kind_byte_def)

lemma from_raw_checked_iff:
  "strong_id_from_raw_checked kind r = Inr i \<longleftrightarrow>
   i = StrongId r \<and> id_kind_byte i = id_kind_ordinal kind \<and> kind \<noteq> IK_None"
  by (cases kind) (auto simp: strong_id_from_raw_checked_def Let_def id_kind_byte_def)

text \<open>
  A history of an allocator: identities allocated, counters restored, a salt adopted. The raw
  values of all domains are collected; the phantom tag plays no part in them.
\<close>

datatype alloc_event = Allocate id_kind | RestoreCounter nat u32 | AdoptSalt u32

fun alloc_history :: "alloc_event list \<Rightarrow> id_allocator \<Rightarrow> u64 list \<times> id_allocator" where
  "alloc_history [] a = ([], a)"
| "alloc_history (Allocate kind # es) a =
    (case (alloc_next kind a :: unit strong_id result \<times> id_allocator) of
       (Inl _, a') \<Rightarrow> alloc_history es a'
     | (Inr i, a') \<Rightarrow> let (is, a'') = alloc_history es a' in (raw i # is, a''))"
| "alloc_history (RestoreCounter index value # es) a =
    alloc_history es (snd (restore_counter index value a))"
| "alloc_history (AdoptSalt salt # es) a = alloc_history es (snd (adopt_salt salt a))"

definition counters_le :: "id_allocator \<Rightarrow> id_allocator \<Rightarrow> bool" where
  "counters_le a a' \<longleftrightarrow> length (al_counters a) = length (al_counters a') \<and>
     (\<forall>index < length (al_counters a). al_counters a ! index \<le> al_counters a' ! index)"

interpretation counters: two_state counters_le
proof unfold_locales
  fix s t u
  assume "counters_le s t" "counters_le t u"
  then show "counters_le s u"
    by (auto simp: counters_le_def) (meson order_trans)
qed (simp add: counters_le_def)

lemma alloc_next_counters_le:
  assumes "alloc_next kind a = (r, a')"
  shows "counters_le a a'"
proof (cases r)
  case (Inl e)
  then show ?thesis
    using assms by (auto simp: alloc_next_def Let_def counters_le_def split: if_splits)
next
  case (Inr i)
  note cs = alloc_next_OK_cases [OF assms [unfolded Inr]]
  then show ?thesis
    using u32_inc(1) [OF cs(3)] by (auto simp: counters_le_def nth_list_update)
qed

lemma restore_counter_counters_le: "counters_le a (snd (restore_counter index value a))"
  by (auto simp: restore_counter_def counters_le_def nth_list_update)

lemma adopt_salt_counters_le: "counters_le a (snd (adopt_salt salt a))"
  by (auto simp: adopt_salt_def counters_le_def)

definition issued_above :: "id_allocator \<Rightarrow> 'tag strong_id \<Rightarrow> bool" where
  "issued_above a i \<longleftrightarrow>
     (let index = id_kind_byte i in
      0 < index \<and> index < length (al_counters a) \<and> al_counters a ! index < id_counter i)"

lemma issued_above_antimono: "counters_le a a' \<Longrightarrow> issued_above a' (StrongId r :: unit strong_id) \<Longrightarrow> issued_above a (StrongId r :: unit strong_id)"
  by (auto simp: issued_above_def counters_le_def Let_def intro: order_le_less_trans)

lemma alloc_history_fresh:
  "distinct (fst (alloc_history es a)) \<and> (\<forall>r \<in> set (fst (alloc_history es a)). issued_above a (StrongId r :: unit strong_id))"
proof (induction es a rule: alloc_history.induct)
  case (2 kind es a)
  show ?case
  proof (cases "alloc_next kind a :: unit strong_id result \<times> id_allocator")
    case (Pair r a')
    show ?thesis
    proof (cases r)
      case (Inl e)
      then show ?thesis
        using 2(1)[OF Pair [symmetric] Inl] Pair issued_above_antimono [of a a']
          alloc_next_counters_le [OF Pair]
        by auto
    next
      case (Inr i)
      note cs = alloc_next_OK_cases [OF Pair [unfolded Inr]]
      have IH: "distinct (fst (alloc_history es a'))"
        "\<forall>r \<in> set (fst (alloc_history es a')). issued_above a' (StrongId r :: unit strong_id)"
        using 2(2)[OF Pair [symmetric] Inr] by auto
      have "issued_above a i"
        using cs u32_inc(1) by (simp add: issued_above_def Let_def)
      moreover have "\<not> issued_above a' i"
        using cs by (simp add: issued_above_def Let_def)
      moreover have "counters_le a a'"
        using alloc_next_counters_le [OF Pair] by simp
      ultimately show ?thesis
        using IH Pair Inr issued_above_antimono [of a a'] by (auto simp: split_beta)
    qed
  qed
next
  case (3 index v es a)
  then show ?case
    using issued_above_antimono [OF restore_counter_counters_le] by auto
next
  case (4 salt es a)
  then show ?case
    using issued_above_antimono [OF adopt_salt_counters_le] by auto
qed simp

text \<open>Digits: the overflow test of the code is exact.\<close>

lemma digit_value_bound: "is_digit_char c \<Longrightarrow> digit_value c \<le> 9"
  unfolding is_digit_char_def digit_value_def by linarith

lemma foldl_digits_ge: "v \<le> foldl (\<lambda>v c. 10 * v + digit_value c) (v :: nat) cs"
proof (induction cs arbitrary: v)
  case (Cons c cs)
  have "v \<le> 10 * v + digit_value c" by simp
  also have "\<dots> \<le> foldl (\<lambda>v c. 10 * v + digit_value c) (10 * v + digit_value c) cs"
    by (rule Cons.IH)
  finally show ?case by simp
qed simp

lemma parse_digits_iff:
  "parse_digits acc cs = Inr w \<longleftrightarrow>
   (\<forall>c \<in> set cs. is_digit_char c) \<and> foldl (\<lambda>v c. 10 * v + digit_value c) (unat acc) cs = unat w"
proof (induction cs arbitrary: acc)
  case Nil
  then show ?case by (auto simp: word_unat_eq_iff)
next
  case (Cons c cs)
  show ?case
  proof (cases "is_digit_char c")
    case False
    then show ?thesis by simp
  next
    case True
    define d :: u64 where "d = of_nat (digit_value c)"
    have d9: "digit_value c \<le> 9"
      using True by (rule digit_value_bound)
    then have d: "unat d = digit_value c"
      by (simp add: d_def unat_of_nat)
    have limit: "unat ((0xFFFFFFFFFFFFFFFF - d) div 10) = (18446744073709551615 - digit_value c) div 10"
    proof -
      have "d \<le> 0xFFFFFFFFFFFFFFFF"
        using d9 d by (simp add: word_le_nat_alt)
      then show ?thesis
        by (simp add: unat_div unat_sub d)
    qed
    have exact: "(0xFFFFFFFFFFFFFFFF - d) div 10 < acc \<longleftrightarrow>
        2 ^ 64 \<le> 10 * unat acc + digit_value c"
      using d9 unfolding word_less_nat_alt limit by (auto simp: div_less_iff_less_mult)
    show ?thesis
    proof (cases "(0xFFFFFFFFFFFFFFFF - d) div 10 < acc")
      case over: True
      have "unat w < 2 ^ 64" using unsigned_less [of w] by simp 
      then have "foldl (\<lambda>v c. 10 * v + digit_value c) (10 * unat acc + digit_value c) cs \<noteq> unat w"
        using over exact foldl_digits_ge [of "10 * unat acc + digit_value c" cs] by linarith
      then show ?thesis
        using over by (simp add: Let_def d_def)
    next
      case False
      then have "10 * unat acc + digit_value c < 2 ^ 64"
        using exact by linarith
      then have "unat (acc * 10 + d) = 10 * unat acc + digit_value c"
        by (simp add: unat_word_ariths d mod_less)
      then show ?thesis
        using False True Cons.IH [of "acc * 10 + d"] by (simp add: Let_def d_def not_less [symmetric])
    qed
  qed
qed

lemma parse_raw_identity_iff:
  "parse_raw_identity text = Inr w \<longleftrightarrow>
   text \<noteq> [] \<and> (\<forall>c \<in> set text. is_digit_char c) \<and> decimal_value text = unat w \<and> w \<noteq> 0"
proof -
  have "parse_digits 0 text = Inr w \<longleftrightarrow> (\<forall>c \<in> set text. is_digit_char c) \<and> decimal_value text = unat w"
    for w
    by (simp add: parse_digits_iff decimal_value_def)
  note digits = this
  show ?thesis
  proof (cases "parse_digits 0 text")
    case (Inl e)
    then have "\<not> ((\<forall>c \<in> set text. is_digit_char c) \<and> decimal_value text = unat w)"
      using digits [of w] by simp
    then show ?thesis using Inl by (auto simp: parse_raw_identity_def)
  next
    case (Inr v)
    then show ?thesis
      using digits [of v] by (auto simp: parse_raw_identity_def word_unat_eq_iff)
  qed
qed

section \<open>Properties\<close>

text \<open>
  Every identity the allocator hands out carries the domain it was asked for, so the
  checked constructor of that domain accepts it and the one of every other domain refuses it,
  and its counter is the successor of the last one.
\<close>

theorem allocated_identity_in_domain:
  assumes "alloc_next kind a = (Inr i, a')" and "kind' \<noteq> kind"
  shows "strong_id_from_raw_checked kind (raw i) = Inr i \<and>
     strong_id_from_raw_checked kind' (raw i) = (Inl E_CrossDomainIdentity :: 'tag strong_id result) \<and>
     peek_counter (id_kind_ordinal kind) a' = peek_counter (id_kind_ordinal kind) a + 1 \<and>
     id_counter i = peek_counter (id_kind_ordinal kind) a'"
proof -
  note cs = alloc_next_OK_cases [OF assms(1)]
  then have byte: "id_kind_byte i = id_kind_ordinal kind" and pos: "id_kind_ordinal kind \<noteq> 0"
    by auto
  have "strong_id_from_raw_checked kind (raw i) = Inr i"
    using byte pos by (cases kind) (simp_all add: from_raw_checked_iff)
  moreover have "peek_counter (id_kind_ordinal kind) a' = peek_counter (id_kind_ordinal kind) a + 1"
    "id_counter i = peek_counter (id_kind_ordinal kind) a'"
    using cs by (auto simp: peek_counter_def)
  moreover have "id_kind_byte (StrongId (raw i) :: 'tag strong_id) = id_kind_ordinal kind"
    using byte by (simp add: id_kind_byte_def)
  moreover have "raw i \<noteq> 0"
    using byte pos kind_byte_not_null [of i] by simp
  ultimately show ?thesis
    using assms(2) pos
    by (cases kind; cases kind') (simp_all add: strong_id_from_raw_checked_def)
qed

theorem allocated_identity_in_domain_witness:
  "strong_id_from_raw_checked IK_Task 0x0400000700000001 = (Inr (StrongId 0x0400000700000001) :: task_id result) \<and>
   strong_id_from_raw_checked IK_Worker 0x0400000700000001 = (Inl E_CrossDomainIdentity :: worker_id result)"
proof -
  have "alloc_next IK_Task (make_allocator 7) =
      (Inr (StrongId 0x0400000700000001 :: task_id), (make_allocator 7)\<lparr>al_counters := (replicate 18 0)[4 := 1]\<rparr>)"
    by (simp add: alloc_next_def make_allocator_def kIdKindCount_def kIdSaltMask_def kIdCounterMask_def)
  from allocated_identity_in_domain [OF this, of IK_Worker, where 'tag = worker_tag]
  show ?thesis by simp
qed

text \<open>
  Over any history of allocations, restored counters and adopted salts, the raw
  values the allocator hands out, of all domains together, are pairwise distinct and never
  the null identity.
\<close>

theorem allocated_identities_distinct:
  "distinct (fst (alloc_history events (make_allocator salt))) \<and>
   0 \<notin> set (fst (alloc_history events (make_allocator salt)))"
proof -
  have "distinct (fst (alloc_history events (make_allocator salt)))"
    and above: "\<forall>r \<in> set (fst (alloc_history events (make_allocator salt))).
      issued_above (make_allocator salt) (StrongId r :: unit strong_id)"
    using alloc_history_fresh by blast+
  moreover have "\<not> issued_above (make_allocator salt) (StrongId 0 :: unit strong_id)"
    by (simp add: issued_above_def id_kind_byte_def)
  ultimately show ?thesis by blast
qed

text \<open>
  Operator text is accepted exactly when it is a nonempty run of decimal digits whose
  value is nonzero and fits 64 bits, and then the value read is that number: no overflow is
  ever folded in silently.
\<close>

theorem parse_raw_identity_exact:
  "parse_raw_identity text = Inr w \<longleftrightarrow>
   text \<noteq> [] \<and> list_all is_digit_char text \<and> decimal_value text = unat w \<and> w \<noteq> 0"
  by (simp add: parse_raw_identity_iff list_all_iff)

end
