(* ===== verification/Binary64.thy ===== *)
theory Binary64
  imports Prelude Complex_Main
begin

text \<open>
  \<^verbatim>\<open>double\<close> as the sources use it: IEEE 754 binary64 with round-to-nearest, ties to even.
  A value is its 64-bit pattern. Sums, products, quotients and conversions from unsigned
  integers are computed exactly on integers and rounded once; comparisons follow the
  sign-magnitude order of the patterns, which the lemmas relate to the order of the values.
  An invalid operation yields the quiet NaN pattern; its sign and payload are never looked at
  by the sources.
\<close>

datatype (plugins only: code size) binary64 = Binary64 (b64_bits: u64)

definition b64_sign :: "binary64 \<Rightarrow> bool" where
  "b64_sign x \<longleftrightarrow> bit (b64_bits x) 63"

text \<open>The pattern without its sign: eleven bits of exponent, 52 of fraction.\<close>

definition b64_magnitude :: "binary64 \<Rightarrow> nat" where
  "b64_magnitude x = unat (take_bit 63 (b64_bits x))"

definition b64_infinite_magnitude :: nat where
  "b64_infinite_magnitude = 2047 * 2 ^ 52"

definition b64_is_nan :: "binary64 \<Rightarrow> bool" where
  "b64_is_nan x \<longleftrightarrow> b64_infinite_magnitude < b64_magnitude x"

definition b64_is_infinite :: "binary64 \<Rightarrow> bool" where
  "b64_is_infinite x \<longleftrightarrow> b64_magnitude x = b64_infinite_magnitude"

definition b64_is_finite :: "binary64 \<Rightarrow> bool" where
  "b64_is_finite x \<longleftrightarrow> b64_magnitude x < b64_infinite_magnitude"

definition b64_make :: "bool \<Rightarrow> nat \<Rightarrow> binary64" where
  "b64_make negative magnitude = Binary64 (of_nat ((if negative then 2 ^ 63 else 0) + magnitude))"

definition b64_zero :: binary64 where "b64_zero = Binary64 0"
definition b64_nan :: binary64 where "b64_nan = Binary64 0x7FF8000000000000"

definition b64_infinity :: "bool \<Rightarrow> binary64" where
  "b64_infinity negative = b64_make negative b64_infinite_magnitude"

section \<open>Rounding\<close>

fun bit_count :: "nat \<Rightarrow> nat" where
  "bit_count n = (if n = 0 then 0 else Suc (bit_count (n div 2)))"

declare bit_count.simps [simp del]

text \<open>The exponent of the binade of a positive quotient.\<close>

definition scaled_le :: "nat \<Rightarrow> int \<Rightarrow> nat \<Rightarrow> bool" where
  "scaled_le d e n \<longleftrightarrow> (if 0 \<le> e then d * 2 ^ nat e \<le> n else d \<le> n * 2 ^ nat (- e))"

definition binade :: "nat \<Rightarrow> nat \<Rightarrow> int" where
  "binade n d =
    (let e = int (bit_count n) - int (bit_count d) in if scaled_le d e n then e else e - 1)"

definition round_half_even :: "nat \<Rightarrow> nat \<Rightarrow> nat" where
  "round_half_even n d =
    (let q = n div d; r = n mod d in
     if 2 * r < d \<or> (2 * r = d \<and> even q) then q else q + 1)"

definition round_magnitude :: "nat \<Rightarrow> nat \<Rightarrow> nat" where
  "round_magnitude n d =
    (if n = 0 then 0
     else
       let e = max (binade n d) (- 1022);
           shift = 52 - e;
           q = (if 0 \<le> shift then round_half_even (n * 2 ^ nat shift) d
                else round_half_even n (d * 2 ^ nat (- shift)))
       in min (nat (e + 1022) * 2 ^ 52 + q) b64_infinite_magnitude)"

text \<open>The value \<^verbatim>\<open>n / d * 2^k\<close> rounded, with a sign.\<close>

definition b64_round :: "bool \<Rightarrow> nat \<Rightarrow> nat \<Rightarrow> int \<Rightarrow> binary64" where
  "b64_round negative n d k =
    b64_make negative
      (if 0 \<le> k then round_magnitude (n * 2 ^ nat k) d else round_magnitude n (d * 2 ^ nat (- k)))"

section \<open>Operations\<close>

definition b64_exponent :: "binary64 \<Rightarrow> int" where
  "b64_exponent x = max 1 (int (b64_magnitude x div 2 ^ 52)) - 1075"

definition b64_mantissa :: "binary64 \<Rightarrow> nat" where
  "b64_mantissa x =
    (if b64_magnitude x div 2 ^ 52 = 0 then b64_magnitude x mod 2 ^ 52
     else 2 ^ 52 + b64_magnitude x mod 2 ^ 52)"

definition b64_signed_mantissa :: "binary64 \<Rightarrow> int" where
  "b64_signed_mantissa x = (if b64_sign x then - int (b64_mantissa x) else int (b64_mantissa x))"

definition b64_neg :: "binary64 \<Rightarrow> binary64" where
  "b64_neg x = Binary64 (b64_bits x XOR 0x8000000000000000)"

definition b64_add :: "binary64 \<Rightarrow> binary64 \<Rightarrow> binary64" where
  "b64_add x y =
    (if b64_is_nan x \<or> b64_is_nan y then b64_nan
     else if b64_is_infinite x then
       (if b64_is_infinite y \<and> b64_sign x \<noteq> b64_sign y then b64_nan else x)
     else if b64_is_infinite y then y
     else
       let k = min (b64_exponent x) (b64_exponent y);
           s = b64_signed_mantissa x * 2 ^ nat (b64_exponent x - k)
             + b64_signed_mantissa y * 2 ^ nat (b64_exponent y - k)
       in if s = 0 then b64_make (b64_sign x \<and> b64_sign y) 0
          else b64_round (s < 0) (nat \<bar>s\<bar>) 1 k)"

definition b64_mul :: "binary64 \<Rightarrow> binary64 \<Rightarrow> binary64" where
  "b64_mul x y =
    (let negative = (b64_sign x \<noteq> b64_sign y) in
     if b64_is_nan x \<or> b64_is_nan y then b64_nan
     else if b64_is_infinite x \<or> b64_is_infinite y then
       (if b64_magnitude x = 0 \<or> b64_magnitude y = 0 then b64_nan else b64_infinity negative)
     else b64_round negative (b64_mantissa x * b64_mantissa y) 1 (b64_exponent x + b64_exponent y))"

definition b64_div :: "binary64 \<Rightarrow> binary64 \<Rightarrow> binary64" where
  "b64_div x y =
    (let negative = (b64_sign x \<noteq> b64_sign y) in
     if b64_is_nan x \<or> b64_is_nan y then b64_nan
     else if b64_is_infinite x then (if b64_is_infinite y then b64_nan else b64_infinity negative)
     else if b64_is_infinite y then b64_make negative 0
     else if b64_magnitude y = 0 then
       (if b64_magnitude x = 0 then b64_nan else b64_infinity negative)
     else b64_round negative (b64_mantissa x) (b64_mantissa y) (b64_exponent x - b64_exponent y))"

text \<open>\<^verbatim>\<open>static_cast<double>\<close> of an unsigned integer.\<close>

definition b64_of_nat :: "nat \<Rightarrow> binary64" where
  "b64_of_nat n = b64_round False n 1 0"

definition b64_key :: "binary64 \<Rightarrow> int" where
  "b64_key x = (if b64_sign x then - int (b64_magnitude x) else int (b64_magnitude x))"

definition b64_less :: "binary64 \<Rightarrow> binary64 \<Rightarrow> bool" where
  "b64_less x y \<longleftrightarrow> \<not> b64_is_nan x \<and> \<not> b64_is_nan y \<and> b64_key x < b64_key y"

definition b64_equal :: "binary64 \<Rightarrow> binary64 \<Rightarrow> bool" where
  "b64_equal x y \<longleftrightarrow> \<not> b64_is_nan x \<and> \<not> b64_is_nan y \<and> b64_key x = b64_key y"

section \<open>The order of the patterns is the order of the values\<close>

definition magnitude_value :: "nat \<Rightarrow> rat" where
  "magnitude_value m =
    (if m div 2 ^ 52 = 0 then of_nat (m mod 2 ^ 52) / 2 ^ 1074
     else of_nat (2 ^ 52 + m mod 2 ^ 52) * 2 ^ (m div 2 ^ 52) / 2 ^ 1075)"

definition b64_value :: "binary64 \<Rightarrow> rat" where
  "b64_value x = (if b64_sign x then - magnitude_value (b64_magnitude x)
    else magnitude_value (b64_magnitude x))"

lemma magnitude_value_step: "magnitude_value m < magnitude_value (Suc m)"
proof (cases "Suc (m mod 2 ^ 52) = 2 ^ 52")
  case True
  then have "Suc m div 2 ^ 52 = Suc (m div 2 ^ 52)" and "Suc m mod 2 ^ 52 = 0"
    by (simp_all add: div_Suc mod_Suc)
  moreover have "m mod 2 ^ 52 = 2 ^ 52 - 1" using True by simp
  ultimately show ?thesis
    by (auto simp: magnitude_value_def divide_simps)
next
  case False
  then have "Suc m div 2 ^ 52 = m div 2 ^ 52" and "Suc m mod 2 ^ 52 = Suc (m mod 2 ^ 52)"
    by (simp_all add: div_Suc mod_Suc)
  then show ?thesis
    by (auto simp: magnitude_value_def divide_strict_right_mono mult_strict_right_mono)
qed

lemma magnitude_value_less: "magnitude_value m < magnitude_value n \<longleftrightarrow> m < n"
  using lift_Suc_mono_less_iff [of magnitude_value] magnitude_value_step by blast

lemma magnitude_value_zero: "magnitude_value 0 = 0"
  by (simp add: magnitude_value_def)

lemma magnitude_value_nonneg: "0 \<le> magnitude_value m"
  using magnitude_value_less [of m 0] by (simp add: magnitude_value_zero not_less)

lemma b64_key_value: "b64_key x < b64_key y \<longleftrightarrow> b64_value x < b64_value y"
  using magnitude_value_less [of "b64_magnitude x" "b64_magnitude y"]
    magnitude_value_less [of "b64_magnitude y" "b64_magnitude x"]
    magnitude_value_less [of 0 "b64_magnitude x"] magnitude_value_less [of 0 "b64_magnitude y"]
    magnitude_value_nonneg [of "b64_magnitude x"] magnitude_value_nonneg [of "b64_magnitude y"]
  by (auto simp: b64_key_def b64_value_def magnitude_value_zero)

lemma b64_less_irrefl: "\<not> b64_less x x"
  by (simp add: b64_less_def)

lemma b64_less_trans: "b64_less x y \<Longrightarrow> b64_less y z \<Longrightarrow> b64_less x z"
  by (auto simp: b64_less_def)

lemma b64_less_linear:
  "\<not> b64_is_nan x \<Longrightarrow> \<not> b64_is_nan y \<Longrightarrow> b64_less x y \<or> b64_equal x y \<or> b64_less y x"
  by (auto simp: b64_less_def b64_equal_def)

lemma b64_finite_not_nan: "b64_is_finite x \<Longrightarrow> \<not> b64_is_nan x"
  by (simp add: b64_is_finite_def b64_is_nan_def)

end
