(* ===== verification/Encoding.thy ===== *)
theory Encoding
  imports Errors Hashing Binary64
begin

text \<open>
  The canonical encodings (the \<^verbatim>\<open>append_*\<close> helpers that artifact.cpp, task.cpp, policy.cpp,
  promotion.cpp and foundry_core_impl.hpp share) and the limits of limits.hpp. An encoding is
  a run of fields \<^verbatim>\<open>name=length:value;\<close>. The lemmas show that the run determines its fields,
  and that a counted group of fields determines its elements: two values with the same bytes
  are the same value.
\<close>

section \<open>Limits\<close>

definition kMaxNameLength :: nat where "kMaxNameLength = 128"
definition kMaxObjectiveLength :: nat where "kMaxObjectiveLength = 4096"
definition kMaxDiagnosticsLength :: nat where "kMaxDiagnosticsLength = 8192"
definition kMaxInputFileBytes :: nat where "kMaxInputFileBytes = 1024 * 1024"
definition kMaxInputFiles :: nat where "kMaxInputFiles = 32"
definition kMaxEvaluationRequirements :: nat where "kMaxEvaluationRequirements = 32"
definition kMaxRequiredOutputs :: nat where "kMaxRequiredOutputs = 16"
definition kMaxConstraints :: nat where "kMaxConstraints = 32"
definition kMaxRankingFactors :: nat where "kMaxRankingFactors = 16"
definition kMaxLineageDepth :: nat where "kMaxLineageDepth = 64"

section \<open>Fields\<close>

type_synonym field = "string \<times> string"

definition append_field :: "string \<Rightarrow> string \<Rightarrow> string" where
  "append_field name content = name @ ''='' @ decimal (length content) @ '':'' @ content @ '';''"

definition encode_fields :: "field list \<Rightarrow> string" where
  "encode_fields fs = concat (map (\<lambda>(name, content). append_field name content) fs)"

definition field_count :: "string \<Rightarrow> nat \<Rightarrow> field" where
  "field_count name n = (name, decimal n)"

definition field_u32 :: "string \<Rightarrow> u32 \<Rightarrow> field" where
  "field_u32 name v = (name, decimal (unat v))"

definition field_u64 :: "string \<Rightarrow> u64 \<Rightarrow> field" where
  "field_u64 name v = (name, decimal (unat v))"

definition field_bool :: "string \<Rightarrow> bool \<Rightarrow> field" where
  "field_bool name b = (name, if b then ''1'' else ''0'')"

definition binary64_hex :: "binary64 \<Rightarrow> string" where
  "binary64_hex x =
    (let bits = (if b64_bits x = 0x8000000000000000 then 0 else b64_bits x)
     in map (\<lambda>index. hex_digits ! unat (drop_bit ((15 - index) * 4) bits AND 0x0F)) [0..<16])"

definition field_binary64 :: "string \<Rightarrow> binary64 \<Rightarrow> field" where
  "field_binary64 name x = (name, binary64_hex x)"

definition same_binary64 :: "binary64 \<Rightarrow> binary64 \<Rightarrow> bool" where
  "same_binary64 x y \<longleftrightarrow>
    (let fold = (\<lambda>z. if b64_bits z = 0x8000000000000000 then 0 else b64_bits z) in fold x = fold y)"

section \<open>The encoding determines its fields\<close>

lemma split_at_separator:
  assumes "a @ c # r = b @ c # s" and "c \<notin> set a" and "c \<notin> set b"
  shows "a = b \<and> r = s"
  using assms
proof (induction a arbitrary: b)
  case Nil
  then show ?case by (cases b) auto
next
  case (Cons x xs)
  then show ?case by (cases b) auto
qed

definition plain_name :: "string \<Rightarrow> bool" where
  "plain_name name \<longleftrightarrow> CHR ''='' \<notin> set name"

lemma colon_not_digit: "CHR '':'' \<notin> set (decimal n)"
  using decimal_digits [of "CHR '':''" n] by (auto simp: is_digit_char_def)

lemma append_field_inject:
  assumes "append_field n v @ r = append_field m w @ s" and "plain_name n" and "plain_name m"
  shows "n = m \<and> v = w \<and> r = s"
proof -
  have "n @ CHR ''='' # (decimal (length v) @ CHR '':'' # v @ CHR '';'' # r) =
        m @ CHR ''='' # (decimal (length w) @ CHR '':'' # w @ CHR '';'' # s)"
    using assms(1) by (simp add: append_field_def)
  from split_at_separator [OF this] have names: "n = m" and
    rest: "decimal (length v) @ CHR '':'' # (v @ CHR '';'' # r) = decimal (length w) @ CHR '':'' # (w @ CHR '';'' # s)"
    using assms(2,3) by (simp_all add: plain_name_def)
  from split_at_separator [OF rest colon_not_digit colon_not_digit]
  have "length v = length w" and "v @ CHR '';'' # r = w @ CHR '';'' # s"
    by simp_all
  then show ?thesis
    using names by simp
qed

lemma encode_fields_simps [simp]:
  "encode_fields [] = []"
  "encode_fields ((n, v) # fs) = append_field n v @ encode_fields fs"
  "encode_fields (fs @ gs) = encode_fields fs @ encode_fields gs"
  by (simp_all add: encode_fields_def)

lemma append_field_not_Nil [simp]: "append_field n v \<noteq> []"
  by (simp add: append_field_def)

lemma encode_fields_inject:
  assumes "encode_fields fs = encode_fields gs"
    and "\<forall>f \<in> set fs. plain_name (fst f)" and "\<forall>g \<in> set gs. plain_name (fst g)"
  shows "fs = gs"
  using assms
proof (induction fs arbitrary: gs)
  case Nil
  then show ?case by (cases gs) (auto simp: encode_fields_def)
next
  case (Cons f fs)
  obtain n v where f: "f = (n, v)" by force
  obtain g gs' where g: "gs = g # gs'"
    using Cons.prems(1) f by (cases gs) auto
  obtain m w where gm: "g = (m, w)" by force
  have eq: "append_field n v @ encode_fields fs = append_field m w @ encode_fields gs'"
    using Cons.prems(1) by (simp add: f g gm)
  have "n = m \<and> v = w \<and> encode_fields fs = encode_fields gs'"
    using append_field_inject [OF eq] Cons.prems(2,3) by (simp add: f g gm)
  then show ?case
    using Cons.IH [of gs'] Cons.prems(2,3) by (simp add: f g gm)
qed

definition plain_fields :: "field list \<Rightarrow> bool" where
  "plain_fields fs \<longleftrightarrow> list_all (\<lambda>f. plain_name (fst f)) fs"

lemma plain_fields_simps [simp]:
  "plain_fields []"
  "plain_fields (f # fs) \<longleftrightarrow> plain_name (fst f) \<and> plain_fields fs"
  "plain_fields (fs @ gs) \<longleftrightarrow> plain_fields fs \<and> plain_fields gs"
  by (simp_all add: plain_fields_def)

lemma encode_plain_inject:
  "plain_fields fs \<Longrightarrow> plain_fields gs \<Longrightarrow> encode_fields fs = encode_fields gs \<longleftrightarrow> fs = gs"
  using encode_fields_inject by (auto simp: plain_fields_def list_all_iff)

section \<open>Counted groups\<close>

lemma concat_map_chunks:
  assumes "concat (map f xs) @ r = concat (map f ys) @ s" and "length xs = length ys"
    and "\<And>x. length (f x) = k"
  shows "map f xs = map f ys \<and> r = s"
  using assms(1,2)
proof (induction xs arbitrary: ys)
  case Nil
  then show ?case by simp
next
  case (Cons x xs)
  then obtain y ys' where ys: "ys = y # ys'" by (cases ys) auto
  have "f x = f y \<and> concat (map f xs) @ r = concat (map f ys') @ s"
    using Cons.prems(1) assms(3) by (simp add: ys append_eq_append_conv)
  then show ?case
    using Cons.IH [of ys'] Cons.prems(2) by (simp add: ys)
qed

definition field_group :: "string \<Rightarrow> ('a \<Rightarrow> field list) \<Rightarrow> 'a list \<Rightarrow> field list" where
  "field_group name f xs = field_count name (length xs) # concat (map f xs)"

lemma field_group_inject:
  assumes "field_group name f xs @ r = field_group name f ys @ s"
    and "\<And>x. length (f x) = k"
  shows "map f xs = map f ys \<and> r = s"
  using assms(1) by (intro concat_map_chunks [OF _ _ assms(2)]) (auto simp: field_group_def field_count_def)

lemma field_group_cong: "map f xs = map f ys \<Longrightarrow> field_group name f xs = field_group name f ys"
  unfolding field_group_def by (metis length_map)

lemma field_group_append_iff:
  assumes "\<And>x. length (f x) = k"
  shows "field_group name f xs @ r = field_group name f ys @ s \<longleftrightarrow> map f xs = map f ys \<and> r = s"
proof
  assume "field_group name f xs @ r = field_group name f ys @ s"
  then show "map f xs = map f ys \<and> r = s"
    by (rule field_group_inject [OF _ assms])
next
  assume "map f xs = map f ys \<and> r = s"
  then show "field_group name f xs @ r = field_group name f ys @ s"
    by (metis field_group_cong)
qed

lemma field_group_inject_end:
  assumes "field_group name f xs = field_group name f ys" and "\<And>x. length (f x) = k"
  shows "map f xs = map f ys"
  using field_group_inject [of name f xs "[]" ys "[]" k] assms by simp

lemma plain_field_group [simp]:
  "plain_name name \<Longrightarrow> (\<And>x. plain_fields (f x)) \<Longrightarrow> plain_fields (field_group name f xs)"
  by (auto simp: field_group_def field_count_def plain_fields_def list_all_iff)

lemma plain_field_names [simp]:
  "fst (field_u32 n v) = n" "fst (field_u64 n w) = n" "fst (field_bool n b) = n"
  "fst (field_count n c) = n" "fst (field_binary64 n x) = n"
  by (simp_all add: field_u32_def field_u64_def field_bool_def field_count_def field_binary64_def)

lemma field_u32_inject [simp]: "field_u32 n v = field_u32 n w \<longleftrightarrow> v = w"
  by (simp add: field_u32_def word_unat_eq_iff)

lemma field_u64_inject [simp]: "field_u64 n v = field_u64 n w \<longleftrightarrow> v = w"
  by (simp add: field_u64_def word_unat_eq_iff)

lemma field_bool_inject [simp]: "field_bool n v = field_bool n w \<longleftrightarrow> v = w"
  by (simp add: field_bool_def)

lemma field_count_inject [simp]: "field_count n v = field_count n w \<longleftrightarrow> v = w"
  by (simp add: field_count_def)

lemma hex_digits_inject:
  assumes "i < 16" and "j < 16" and "hex_digits ! i = hex_digits ! j"
  shows "i = j"
proof -
  have "distinct hex_digits" and "length hex_digits = 16"
    by (simp_all add: hex_digits_def)
  then show ?thesis
    using assms by (simp add: nth_eq_iff_index_eq)
qed

lemma nibble_small: "unat (w AND 0x0F) < 16" for w :: "'a::len word"
proof -
  have "w AND 0x0F = take_bit 4 w"
    by (simp add: take_bit_eq_mask mask_eq_exp_minus_1)
  then have "unat (w AND 0x0F) = take_bit 4 (unat w)"
    by (simp add: unsigned_take_bit_eq)
  then show ?thesis
    using take_bit_nat_less_exp [of 4 "unat w"] by simp
qed

lemma binary64_hex_inject: "binary64_hex x = binary64_hex y \<longleftrightarrow> same_binary64 x y"
proof -
  define fold where "fold z = (if b64_bits z = 0x8000000000000000 then 0 else b64_bits z)" for z
  have hex: "binary64_hex z =
      map (\<lambda>index. hex_digits ! unat (drop_bit ((15 - index) * 4) (fold z) AND 0x0F)) [0..<16]" for z
    by (simp add: binary64_hex_def fold_def Let_def)
  have "fold x = fold y" if "binary64_hex x = binary64_hex y"
  proof (rule bit_word_eqI)
    fix n :: nat
    assume "n < LENGTH(64)"
    then have n: "n < 64" by simp
    define i where "i = 15 - n div 4"
    have i: "i < 16" and shift: "(15 - i) * 4 = 4 * (n div 4)"
      using n by (auto simp: i_def)
    have "hex_digits ! unat (drop_bit ((15 - i) * 4) (fold x) AND 0x0F) =
        hex_digits ! unat (drop_bit ((15 - i) * 4) (fold y) AND 0x0F)"
      using arg_cong [OF that, of "\<lambda>s. s ! i"] i by (simp add: hex)
    then have nib: "drop_bit (4 * (n div 4)) (fold x) AND 0x0F = drop_bit (4 * (n div 4)) (fold y) AND 0x0F"
      using hex_digits_inject nibble_small by (metis shift word_unat_eq_iff)
    have mask: "(0x0F :: u64) = mask 4" by (simp add: mask_eq_exp_minus_1)
    have "bit (drop_bit (4 * (n div 4)) (fold z) AND mask 4) (n mod 4) = bit (fold z) n" for z
      using n by (simp add: bit_simps less_le_trans [OF mod_less_divisor])
    then show "bit (fold x) n = bit (fold y) n"
      using nib unfolding mask by metis
  qed
  moreover have "binary64_hex x = binary64_hex y" if "fold x = fold y"
    using that by (simp add: hex)
  ultimately show ?thesis
    by (auto simp: same_binary64_def fold_def Let_def)
qed

lemma field_binary64_inject [simp]: "field_binary64 n v = field_binary64 n w \<longleftrightarrow> same_binary64 v w"
  by (simp add: field_binary64_def binary64_hex_inject)

section \<open>Names\<close>

definition is_ascii_letter :: "char \<Rightarrow> bool" where
  "is_ascii_letter c \<longleftrightarrow> (65 \<le> (of_char c :: nat) \<and> (of_char c :: nat) \<le> 90) \<or>
     (97 \<le> (of_char c :: nat) \<and> (of_char c :: nat) \<le> 122)"

definition is_allowed_name_byte :: "char \<Rightarrow> bool" where
  "is_allowed_name_byte c \<longleftrightarrow>
    is_ascii_letter c \<or> is_digit_char c \<or> c = CHR ''.'' \<or> c = CHR ''_'' \<or> c = CHR ''-''"

definition validate_evaluator_key :: "string \<Rightarrow> status" where
  "validate_evaluator_key key = first_failure
    [require (key \<noteq> []) E_InvalidArgument,
     require (length key \<le> kMaxNameLength) E_LengthOutOfRange,
     require (list_all is_allowed_name_byte key) E_InvalidArgument]"

end
