(* ===== verification/Lineage.thy ===== *)
theory Lineage
  imports Identity Encoding
begin

text \<open>
  The lineage DAG (lineage.hpp, lineage.cpp): nodes keyed by candidate, declared parents, and
  the operations that append to the history, walk it and validate it. \<^verbatim>\<open>nodes_.at(k)\<close> is only
  reached for keys that are present; the model returns a default node where the code would
  throw. Loops are recursions with a measure: the depth-first search shrinks the white nodes
  or the edges left on its stack, the walks visit a node at most once.
\<close>

record lineage_node =
  ln_candidate :: candidate_id
  ln_candidate_gen :: candidate_generation
  ln_lineage :: lineage_id
  ln_parents :: "candidate_id list"
  ln_depth :: u32
  ln_created_epoch :: coordinator_epoch
  ln_retired :: bool
  ln_retired_epoch :: coordinator_epoch
  ln_retirement_reason :: string

definition default_lineage_node :: lineage_node where
  "default_lineage_node =
    \<lparr>ln_candidate = null_id, ln_candidate_gen = gen_none, ln_lineage = null_id, ln_parents = [],
     ln_depth = 0, ln_created_epoch = epoch_none, ln_retired = False,
     ln_retired_epoch = epoch_none, ln_retirement_reason = []\<rparr>"

type_synonym lineage_graph = "(candidate_id, lineage_node) table"

definition node_at :: "lineage_graph \<Rightarrow> candidate_id \<Rightarrow> lineage_node" where
  "node_at g c = (case tbl_find g c of Some n \<Rightarrow> n | None \<Rightarrow> default_lineage_node)"

definition kMaxLineageParents :: nat where "kMaxLineageParents = 8"

definition lineage_contains :: "lineage_graph \<Rightarrow> candidate_id \<Rightarrow> bool" where
  "lineage_contains g c \<longleftrightarrow> tbl_find g c \<noteq> None"

fun deepest_parent :: "lineage_graph \<Rightarrow> candidate_id list \<Rightarrow> u32 \<Rightarrow> u32" where
  "deepest_parent g [] deepest = deepest"
| "deepest_parent g (p # ps) deepest =
    (case tbl_find g p of
       Some n \<Rightarrow> deepest_parent g ps (if deepest < ln_depth n then ln_depth n else deepest)
     | None \<Rightarrow> deepest_parent g ps deepest)"

definition computed_depth :: "lineage_graph \<Rightarrow> candidate_id list \<Rightarrow> u32" where
  "computed_depth g parents = (if parents = [] then 0 else deepest_parent g parents 0 + 1)"

section \<open>Appending to the history\<close>

definition check_parent_identities :: "candidate_id \<Rightarrow> candidate_id list \<Rightarrow> status" where
  "check_parent_identities c parents =
    for_all (\<lambda>p. first_failure
      [require (id_valid p) E_NullIdentity, require (p \<noteq> c) E_LineageSelfParent]) parents"

definition check_node_shape :: "lineage_node \<Rightarrow> status" where
  "check_node_shape n = first_failure
    [require (id_valid (ln_candidate n)) E_NullIdentity,
     require (gen_valid (ln_candidate_gen n)) E_InvalidArgument,
     require (id_valid (ln_lineage n)) E_NullIdentity,
     require (length (ln_parents n) \<le> kMaxLineageParents) E_InvalidArgument,
     check_parent_identities (ln_candidate n) (ln_parents n)]"

definition check_node_fits :: "lineage_graph \<Rightarrow> lineage_node \<Rightarrow> status" where
  "check_node_fits g n = first_failure
    [for_all (\<lambda>p. require (lineage_contains g p) E_LineageOrphan) (ln_parents n),
     require (ln_depth n = computed_depth g (ln_parents n)) E_GenerationRegression,
     require (unat (ln_depth n) \<le> kMaxLineageDepth) E_InvalidArgument,
     require (ln_parents n \<noteq> [] \<longrightarrow> ln_lineage n = ln_lineage (node_at g (hd (ln_parents n))))
       E_LineageReparentForbidden]"

definition lineage_insert :: "lineage_node \<Rightarrow> lineage_graph \<Rightarrow> status \<times> lineage_graph" where
  "lineage_insert n g =
    (case check_node_shape n of
       Inl e \<Rightarrow> (Inl e, g)
     | Inr _ \<Rightarrow>
       (case tbl_find g (ln_candidate n) of
          Some existing \<Rightarrow> if existing = n then (OK, g) else (Inl E_AlreadyExists, g)
        | None \<Rightarrow>
          (case check_node_fits g n of
             Inl e \<Rightarrow> (Inl e, g)
           | Inr _ \<Rightarrow> (OK, tbl_emplace (ln_candidate n) n g))))"

definition make_child :: "candidate_id \<Rightarrow> candidate_generation \<Rightarrow> candidate_id list \<Rightarrow> lineage_id \<Rightarrow>
    coordinator_epoch \<Rightarrow> lineage_graph \<Rightarrow> lineage_node result" where
  "make_child child child_gen parents explicit_lineage epoch g =
    (case first_failure
       [require (id_valid child) E_NullIdentity,
        require (gen_valid child_gen) E_InvalidArgument,
        require (length parents \<le> kMaxLineageParents) E_InvalidArgument,
        check_parent_identities child parents,
        for_all (\<lambda>p. require (lineage_contains g p) E_LineageOrphan) parents] of
       Inl e \<Rightarrow> Inl e
     | Inr _ \<Rightarrow>
       let node = default_lineage_node
            \<lparr>ln_candidate := child, ln_candidate_gen := child_gen, ln_parents := parents,
             ln_lineage := (if parents = [] then explicit_lineage else ln_lineage (node_at g (hd parents))),
             ln_depth := (if parents = [] then 0 else deepest_parent g parents 0 + 1)\<rparr>
       in if kMaxLineageDepth < unat (ln_depth node) then Inl E_InvalidArgument
          else Inr (node\<lparr>ln_created_epoch := epoch, ln_retired := False\<rparr>))"

definition lineage_retire :: "candidate_id \<Rightarrow> string \<Rightarrow> coordinator_epoch \<Rightarrow> lineage_graph \<Rightarrow> status \<times> lineage_graph" where
  "lineage_retire c reason epoch g =
    (case tbl_find g c of
       None \<Rightarrow> (Inl E_UnknownIdentity, g)
     | Some n \<Rightarrow>
       if ln_retired n then (OK, g)
       else (OK, tbl_adjust c (\<lambda>n. n\<lparr>ln_retired := True, ln_retired_epoch := epoch, ln_retirement_reason := reason\<rparr>) g))"

definition lineage_is_retired :: "lineage_graph \<Rightarrow> candidate_id \<Rightarrow> bool" where
  "lineage_is_retired g c \<longleftrightarrow> (case tbl_find g c of Some n \<Rightarrow> ln_retired n | None \<Rightarrow> False)"

section \<open>Walks\<close>

text \<open>
  One level of the breadth-first search: the list is both \<^verbatim>\<open>visited\<close> and \<^verbatim>\<open>result\<close>, which
  receive the same elements.
\<close>

fun ancestor_level :: "lineage_graph \<Rightarrow> candidate_id \<Rightarrow> candidate_id list \<Rightarrow>
    candidate_id list \<times> candidate_id list \<Rightarrow> candidate_id list \<times> candidate_id list" where
  "ancestor_level g c [] (visited, next_level) = (visited, next_level)"
| "ancestor_level g c (x # xs) (visited, next_level) =
    (if x = c \<or> x \<in> set visited then ancestor_level g c xs (visited, next_level)
     else ancestor_level g c xs
       (visited @ [x],
        (case tbl_find g x of None \<Rightarrow> next_level | Some n \<Rightarrow> next_level @ ln_parents n)))"

definition unvisited :: "lineage_graph \<Rightarrow> candidate_id list \<Rightarrow> nat" where
  "unvisited g visited = card (set (tbl_keys g) - set visited)"

lemma unvisited_less:
  assumes "set visited \<subseteq> set visited'" and "k \<in> set (tbl_keys g)" and "k \<in> set visited'" and "k \<notin> set visited"
  shows "unvisited g visited' < unvisited g visited"
  unfolding unvisited_def
proof (rule psubset_card_mono)
  show "set (tbl_keys g) - set visited' \<subset> set (tbl_keys g) - set visited"
    using assms by blast
qed simp

lemma ancestor_level_visited:
  "ancestor_level g c xs (visited, next_level) = (visited', next_level') \<Longrightarrow> set visited \<subseteq> set visited'"
proof (induction g c xs "(visited, next_level)" arbitrary: visited next_level rule: ancestor_level.induct)
  case (2 g c x xs visited next_level)
  show ?case
  proof (cases "x = c \<or> x \<in> set visited")
    case True
    then show ?thesis using 2 by simp
  next
    case False
    then have "set (visited @ [x]) \<subseteq> set visited'"
      using 2 by simp
    then show ?thesis by simp
  qed
qed simp

lemma ancestor_level_grows:
  "ancestor_level g c xs (visited, next_level) = (visited', next_level') \<Longrightarrow> next_level' \<noteq> next_level \<Longrightarrow>
   \<exists>k \<in> set (tbl_keys g). k \<in> set visited' \<and> k \<notin> set visited"
proof (induction g c xs "(visited, next_level)" arbitrary: visited next_level rule: ancestor_level.induct)
  case (2 g c x xs visited next_level)
  show ?case
  proof (cases "x = c \<or> x \<in> set visited")
    case True
    then show ?thesis using 2 by simp
  next
    case False
    let ?n = "case tbl_find g x of None \<Rightarrow> next_level | Some n \<Rightarrow> next_level @ ln_parents n"
    have step: "ancestor_level g c xs (visited @ [x], ?n) = (visited', next_level')"
      using False 2 by simp
    show ?thesis
    proof (cases "tbl_find g x")
      case None
      then show ?thesis
        using 2(2) [OF False] step 2(4) by auto
    next
      case (Some n)
      then have "x \<in> set (tbl_keys g)" by (simp add: tbl.set_keys)
      then show ?thesis
        using ancestor_level_visited [OF step] False by auto
    qed
  qed
qed simp

function ancestor_search :: "lineage_graph \<Rightarrow> candidate_id \<Rightarrow> candidate_id list \<Rightarrow> candidate_id list \<Rightarrow>
    candidate_id list" where
  "ancestor_search g c visited frontier =
    (if frontier = [] then visited
     else let (visited', next_level) = ancestor_level g c (remdups_adj frontier) (visited, [])
          in ancestor_search g c visited' next_level)"
  by pat_completeness auto
termination
proof (relation "measure (\<lambda>(g, c, visited, frontier). unvisited g visited + (if frontier = [] then 0 else 1))")
  fix g c visited frontier x visited' next_level
  assume nonempty: "frontier \<noteq> []"
    and "x = ancestor_level g c (remdups_adj frontier) (visited, [])" and "(visited', next_level) = x"
  then have level: "ancestor_level g c (remdups_adj frontier) (visited, []) = (visited', next_level)" by simp
  have sub: "set visited \<subseteq> set visited'" by (rule ancestor_level_visited [OF level])
  have le: "unvisited g visited' \<le> unvisited g visited"
    unfolding unvisited_def by (intro card_mono) (use sub in auto)
  have "unvisited g visited' < unvisited g visited" if more: "next_level \<noteq> []"
  proof -
    obtain k where "k \<in> set (tbl_keys g)" "k \<in> set visited'" "k \<notin> set visited"
      using ancestor_level_grows [OF level more] by blast
    then show ?thesis
      using sub by (intro unvisited_less)
  qed
  then show "((g, c, visited', next_level), g, c, visited, frontier)
      \<in> measure (\<lambda>(g, c, visited, frontier). unvisited g visited + (if frontier = [] then 0 else 1))"
    using nonempty le by auto
qed simp

declare ancestor_search.simps [simp del]

definition ancestors_of :: "lineage_graph \<Rightarrow> candidate_id \<Rightarrow> candidate_id list" where
  "ancestors_of g c =
    (case tbl_find g c of None \<Rightarrow> [] | Some n \<Rightarrow> ancestor_search g c [] (ln_parents n))"

text \<open>The upward walk of \<^verbatim>\<open>descendants_of\<close> along primary parents.\<close>

function descends_from :: "lineage_graph \<Rightarrow> candidate_id \<Rightarrow> candidate_id list \<Rightarrow> candidate_id \<Rightarrow> bool" where
  "descends_from g target walk current =
    (if \<not> id_valid current then False
     else if current = target then True
     else if current \<in> set walk then False
     else (case tbl_find g current of
             None \<Rightarrow> False
           | Some n \<Rightarrow> (case ln_parents n of [] \<Rightarrow> False
                       | p # _ \<Rightarrow> descends_from g target (walk @ [current]) p)))"
  by pat_completeness auto
termination
proof (relation "measure (\<lambda>(g, target, walk, current). unvisited g walk)")
  fix g :: lineage_graph and target current p :: candidate_id and walk n ps
  assume "current \<notin> set walk" "tbl_find g current = Some n"
  moreover from this have "current \<in> set (tbl_keys g)" by (simp add: tbl.set_keys)
  ultimately show "((g, target, walk @ [current], p), g, target, walk, current)
      \<in> measure (\<lambda>(g, target, walk, current). unvisited g walk)"
    by (auto intro!: unvisited_less)
qed simp

declare descends_from.simps [simp del]

definition depth_id_less :: "u32 \<times> candidate_id \<Rightarrow> u32 \<times> candidate_id \<Rightarrow> bool" where
  "depth_id_less a b \<longleftrightarrow> fst a < fst b \<or> (fst a = fst b \<and> snd a < snd b)"

definition descendants_of :: "lineage_graph \<Rightarrow> candidate_id \<Rightarrow> candidate_id list" where
  "descendants_of g c =
    (if \<not> lineage_contains g c then []
     else
       let ordered = map (\<lambda>(k, n). (ln_depth n, k))
            (filter (\<lambda>(k, n). k \<noteq> c \<and>
              descends_from g c [] (if ln_parents n = [] then null_id else hd (ln_parents n))) g)
       in map snd (sort_by depth_id_less ordered))"

text \<open>The path is collected candidate first; \<^verbatim>\<open>None\<close> stands for the empty vector of a cycle or a too long chain.\<close>

function path_up :: "lineage_graph \<Rightarrow> candidate_id list \<Rightarrow> candidate_id list \<Rightarrow> candidate_id \<Rightarrow>
    candidate_id list option" where
  "path_up g visited reversed current =
    (if \<not> id_valid current then Some reversed
     else if current \<in> set visited then None
     else if kMaxLineageDepth + 1 \<le> length visited then None
     else (case tbl_find g current of
             None \<Rightarrow> Some reversed
           | Some n \<Rightarrow> (case ln_parents n of [] \<Rightarrow> Some (reversed @ [current])
                       | p # _ \<Rightarrow> path_up g (visited @ [current]) (reversed @ [current]) p)))"
  by pat_completeness auto
termination
  by (relation "measure (\<lambda>(g, visited, reversed, current). kMaxLineageDepth + 1 - length visited)") auto

declare path_up.simps [simp del]

definition path_to_root :: "lineage_graph \<Rightarrow> candidate_id \<Rightarrow> candidate_id list" where
  "path_to_root g c =
    (case tbl_find g c of None \<Rightarrow> []
     | Some _ \<Rightarrow> (case path_up g [] [] c of None \<Rightarrow> [] | Some reversed \<Rightarrow> rev reversed))"

section \<open>Validation\<close>

text \<open>
  The iterative depth-first search. Colours: 0 white, 1 on the current path, 2 explored. The
  top of the stack is the head of the list.
\<close>

type_synonym colours = "(candidate_id, nat) table"

definition white_nodes :: "colours \<Rightarrow> nat" where
  "white_nodes col = card {k. tbl_find col k = Some 0}"

definition edges_left :: "lineage_graph \<Rightarrow> (candidate_id \<times> nat) list \<Rightarrow> nat" where
  "edges_left g stack = sum_list (map (\<lambda>(c, i). Suc (length (ln_parents (node_at g c)) - i)) stack)"

lemma finite_white: "finite {k. tbl_find col k = Some c}"
proof (rule finite_subset)
  show "{k. tbl_find col k = Some c} \<subseteq> set (tbl_keys col)"
    by (auto simp: tbl.set_keys)
qed simp

lemma white_nodes_assign_le: "v \<noteq> 0 \<Longrightarrow> white_nodes (tbl_assign k v col) \<le> white_nodes col"
  unfolding white_nodes_def by (intro card_mono finite_white) (auto simp: tbl.find_assign split: if_splits)

lemma white_nodes_adjust_less:
  "tbl_find col k = Some 0 \<Longrightarrow> v \<noteq> 0 \<Longrightarrow> white_nodes (tbl_adjust k (\<lambda>_. v) col) < white_nodes col"
  unfolding white_nodes_def by (intro psubset_card_mono finite_white) (auto simp: tbl.find_adjust split: if_splits)

function cycle_search :: "lineage_graph \<Rightarrow> colours \<Rightarrow> (candidate_id \<times> nat) list \<Rightarrow>
    candidate_id option \<times> colours" where
  "cycle_search g col [] = (None, col)"
| "cycle_search g col ((c, i) # stack) =
    (let parents = ln_parents (node_at g c) in
     if i < length parents then
       (case tbl_find col (parents ! i) of
          None \<Rightarrow> cycle_search g col ((c, Suc i) # stack)
        | Some colour \<Rightarrow>
           if colour = 1 then (Some (parents ! i), col)
           else if colour = 0
             then cycle_search g (tbl_adjust (parents ! i) (\<lambda>_. 1) col) ((parents ! i, 0) # (c, Suc i) # stack)
           else cycle_search g col ((c, Suc i) # stack))
     else cycle_search g (tbl_assign c 2 col) stack)"
  by pat_completeness auto
termination
proof (relation "measures [\<lambda>(g, col, stack). white_nodes col, \<lambda>(g, col, stack). edges_left g stack]", goal_cases)
  case 5
  have "white_nodes (tbl_assign c 2 col) \<le> white_nodes col" for c col
    by (rule white_nodes_assign_le) simp
  then show ?case
    by (auto simp: edges_left_def le_less)
qed (auto simp: edges_left_def white_nodes_adjust_less Suc_diff_Suc)

declare cycle_search.simps(2) [simp del]

lemma cycle_search_steps:
  "\<not> i < length (ln_parents (node_at g c)) \<Longrightarrow>
     cycle_search g col ((c, i) # stack) = cycle_search g (tbl_assign c 2 col) stack"
  "i < length (ln_parents (node_at g c)) \<Longrightarrow> tbl_find col (ln_parents (node_at g c) ! i) = None \<Longrightarrow>
     cycle_search g col ((c, i) # stack) = cycle_search g col ((c, Suc i) # stack)"
  "i < length (ln_parents (node_at g c)) \<Longrightarrow> tbl_find col (ln_parents (node_at g c) ! i) = Some 1 \<Longrightarrow>
     cycle_search g col ((c, i) # stack) = (Some (ln_parents (node_at g c) ! i), col)"
  "i < length (ln_parents (node_at g c)) \<Longrightarrow> tbl_find col (ln_parents (node_at g c) ! i) = Some 0 \<Longrightarrow>
     cycle_search g col ((c, i) # stack) =
       cycle_search g (tbl_adjust (ln_parents (node_at g c) ! i) (\<lambda>_. 1) col)
         ((ln_parents (node_at g c) ! i, 0) # (c, Suc i) # stack)"
  "i < length (ln_parents (node_at g c)) \<Longrightarrow> tbl_find col (ln_parents (node_at g c) ! i) = Some colour \<Longrightarrow>
     1 < colour \<Longrightarrow> cycle_search g col ((c, i) # stack) = cycle_search g col ((c, Suc i) # stack)"
  by (simp_all add: cycle_search.simps(2) [of g col c i stack] Let_def)

fun find_cycle_from :: "lineage_graph \<Rightarrow> colours \<Rightarrow> candidate_id list \<Rightarrow> candidate_id option" where
  "find_cycle_from g col [] = None"
| "find_cycle_from g col (first # rest) =
    (if tbl_find col first \<noteq> Some 0 then find_cycle_from g col rest
     else (case cycle_search g (tbl_assign first 1 col) [(first, 0)] of
             (Some repeated, _) \<Rightarrow> Some repeated
           | (None, col') \<Rightarrow> find_cycle_from g col' rest))"

definition find_cycle :: "lineage_graph \<Rightarrow> candidate_id list \<Rightarrow> candidate_id option" where
  "find_cycle g ordered = find_cycle_from g (map (\<lambda>(k, _). (k, 0)) g) ordered"

definition check_node_references :: "lineage_graph \<Rightarrow> candidate_id \<Rightarrow> status" where
  "check_node_references g c =
    (let n = node_at g c in
     first_failure
      [require (gen_valid (ln_candidate_gen n)) E_InvalidArgument,
       require (length (ln_parents n) \<le> kMaxLineageParents) E_InvalidArgument,
       for_all (\<lambda>p. first_failure
         [require (p \<noteq> c) E_LineageSelfParent,
          require (lineage_contains g p) E_LineageOrphan]) (ln_parents n)])"

definition check_node_depth :: "lineage_graph \<Rightarrow> candidate_id \<Rightarrow> status" where
  "check_node_depth g c =
    (let n = node_at g c in
     first_failure
      [require (ln_depth n = computed_depth g (ln_parents n)) E_GenerationRegression,
       require (unat (ln_depth n) \<le> kMaxLineageDepth) E_InvalidArgument])"

definition lineage_validate :: "lineage_graph \<Rightarrow> status" where
  "lineage_validate g =
    (if g = [] then OK
     else let ordered = remdups_adj (sort_by (<) (tbl_keys g)) in
       first_failure
        [for_all (check_node_references g) ordered,
         require (find_cycle g ordered = None) E_LineageCycle,
         for_all (check_node_depth g) ordered])"

section \<open>Well-formed history\<close>

definition parent_of :: "lineage_graph \<Rightarrow> candidate_id \<Rightarrow> candidate_id \<Rightarrow> bool" where
  "parent_of g c p \<longleftrightarrow> (\<exists>n. tbl_find g c = Some n \<and> p \<in> set (ln_parents n))"

definition node_ok :: "lineage_graph \<Rightarrow> candidate_id \<Rightarrow> lineage_node \<Rightarrow> bool" where
  "node_ok g c n \<longleftrightarrow>
    gen_valid (ln_candidate_gen n) \<and> length (ln_parents n) \<le> kMaxLineageParents \<and>
    (\<forall>p \<in> set (ln_parents n). p \<noteq> c \<and> lineage_contains g p) \<and>
    ln_depth n = computed_depth g (ln_parents n) \<and> unat (ln_depth n) \<le> kMaxLineageDepth"

definition lineage_ok :: "lineage_graph \<Rightarrow> bool" where
  "lineage_ok g \<longleftrightarrow> tbl_ok g \<and> (\<forall>c n. tbl_find g c = Some n \<longrightarrow> node_ok g c n)"

text \<open>What appending keeps beyond what \<^verbatim>\<open>validate\<close> checks.\<close>

definition node_named :: "lineage_graph \<Rightarrow> candidate_id \<Rightarrow> lineage_node \<Rightarrow> bool" where
  "node_named g c n \<longleftrightarrow> ln_candidate n = c \<and> id_valid c \<and> id_valid (ln_lineage n) \<and>
    (ln_parents n \<noteq> [] \<longrightarrow> ln_lineage n = ln_lineage (node_at g (hd (ln_parents n))))"

definition lineage_inv :: "lineage_graph \<Rightarrow> bool" where
  "lineage_inv g \<longleftrightarrow> lineage_ok g \<and> (\<forall>c n. tbl_find g c = Some n \<longrightarrow> node_named g c n)"

lemma deepest_parent_ge:
  "d \<le> deepest_parent g ps d \<and>
   (\<forall>p \<in> set ps. \<forall>m. tbl_find g p = Some m \<longrightarrow> ln_depth m \<le> deepest_parent g ps d)"
proof (induction ps arbitrary: d)
  case (Cons p ps)
  show ?case
  proof (cases "tbl_find g p")
    case None
    then show ?thesis using Cons [of d] by auto
  next
    case (Some m)
    let ?d = "if d < ln_depth m then ln_depth m else d"
    have "d \<le> ?d" "ln_depth m \<le> ?d" by auto
    then show ?thesis
      using Cons [of ?d] Some by (auto intro: order_trans)
  qed
qed simp

lemma deepest_parent_source:
  "deepest_parent g ps d = d \<or> (\<exists>p m. p \<in> set ps \<and> tbl_find g p = Some m \<and> deepest_parent g ps d = ln_depth m)"
proof (induction ps arbitrary: d)
  case (Cons p ps)
  show ?case
  proof (cases "tbl_find g p")
    case None
    then show ?thesis using Cons [of d] by auto
  next
    case (Some m)
    then show ?thesis
      using Cons [of "if d < ln_depth m then ln_depth m else d"] by (auto split: if_splits)
  qed
qed simp

lemma deepest_parent_cong:
  "(\<And>p. p \<in> set ps \<Longrightarrow> tbl_find g p = tbl_find h p) \<Longrightarrow> deepest_parent g ps d = deepest_parent h ps d"
proof (induction ps arbitrary: d)
  case (Cons p ps)
  then show ?case by (simp split: option.splits)
qed simp

lemma parent_shallower:
  assumes "lineage_ok g" and "tbl_find g c = Some n" and "p \<in> set (ln_parents n)" and "tbl_find g p = Some m"
  shows "unat (ln_depth m) < unat (ln_depth n)"
proof -
  let ?d = "deepest_parent g (ln_parents n) 0"
  have "node_ok g c n" using assms(1,2) by (simp add: lineage_ok_def)
  then have depth: "ln_depth n = ?d + 1"
    using assms(3) by (auto simp: node_ok_def computed_depth_def)
  have "unat ?d \<le> 64"
  proof (cases "?d = 0")
    case False
    then obtain q k where "tbl_find g q = Some k" "?d = ln_depth k"
      using deepest_parent_source [of g "ln_parents n" 0] by auto
    moreover from this have "unat (ln_depth k) \<le> kMaxLineageDepth"
      using assms(1) unfolding lineage_ok_def node_ok_def by blast
    ultimately show ?thesis by (simp add: kMaxLineageDepth_def)
  qed simp
  then have "?d \<noteq> 0xFFFFFFFF"
    by (auto simp del: unat_eq_0)
  then have "unat (ln_depth n) = Suc (unat ?d)"
    using depth u32_inc(3) by simp
  moreover have "ln_depth m \<le> ?d"
    using deepest_parent_ge [of 0 g "ln_parents n"] assms(3,4) by blast
  ultimately show ?thesis by (simp add: word_le_nat_alt)
qed

lemma node_at_find: "tbl_find g c = Some n \<Longrightarrow> node_at g c = n"
  by (simp add: node_at_def)

lemma parent_of_present: "lineage_ok g \<Longrightarrow> parent_of g c p \<Longrightarrow> lineage_contains g p"
  by (auto simp: parent_of_def lineage_ok_def node_ok_def)

lemma parent_of_shallower:
  assumes "lineage_ok g" and "parent_of g c p"
  shows "unat (ln_depth (node_at g p)) < unat (ln_depth (node_at g c))"
proof -
  obtain n where n: "tbl_find g c = Some n" "p \<in> set (ln_parents n)"
    using assms(2) by (auto simp: parent_of_def)
  obtain m where "tbl_find g p = Some m"
    using parent_of_present [OF assms] by (auto simp: lineage_contains_def)
  then show ?thesis
    using parent_shallower [OF assms(1) n] n by (simp add: node_at_find)
qed

lemma ancestors_shallower:
  assumes "lineage_ok g" and "(parent_of g)\<^sup>+\<^sup>+ c a"
  shows "unat (ln_depth (node_at g a)) < unat (ln_depth (node_at g c))"
  using assms(2)
  by (induction rule: tranclp_induct) (auto dest: parent_of_shallower [OF assms(1)])

lemma lineage_acyclic: "lineage_ok g \<Longrightarrow> \<not> (parent_of g)\<^sup>+\<^sup>+ c c"
  using ancestors_shallower by blast

section \<open>The cycle search only reports cycles\<close>

fun on_path :: "lineage_graph \<Rightarrow> (candidate_id \<times> nat) list \<Rightarrow> bool" where
  "on_path g [] \<longleftrightarrow> True"
| "on_path g [(c, i)] \<longleftrightarrow> lineage_contains g c"
| "on_path g ((c, i) # (d, j) # stack) \<longleftrightarrow> lineage_contains g c \<and> parent_of g d c \<and> on_path g ((d, j) # stack)"

lemma on_path_index: "on_path g ((c, i) # stack) \<longleftrightarrow> on_path g ((c, j) # stack)"
  by (cases stack) auto

lemma on_path_tail: "on_path g (f # stack) \<Longrightarrow> on_path g stack"
  by (cases f; cases stack) auto

lemma on_path_top:
  "on_path g ((c, i) # stack) \<Longrightarrow> x \<in> fst ` set ((c, i) # stack) \<Longrightarrow> (parent_of g)\<^sup>*\<^sup>* x c"
proof (induction stack arbitrary: c i)
  case Nil
  then show ?case by simp
next
  case (Cons f stack)
  obtain d j where f: "f = (d, j)" by force
  show ?case
  proof (cases "x = c")
    case False
    then have "(parent_of g)\<^sup>*\<^sup>* x d"
      using Cons.IH [of d j] Cons.prems by (simp add: f)
    then show ?thesis
      using Cons.prems(1) by (simp add: f rtranclp.rtrancl_into_rtrancl)
  qed simp
qed

text \<open>
  Along the search every coloured node is in the graph and every grey node on the stack; so
  a reported node has a path back to itself, and a search that finds nothing leaves no grey
  node.
\<close>

definition search_ok :: "lineage_graph \<Rightarrow> colours \<Rightarrow> (candidate_id \<times> nat) list \<Rightarrow> bool" where
  "search_ok g col stack \<longleftrightarrow> on_path g stack \<and>
    (\<forall>k. tbl_find col k \<noteq> None \<longrightarrow> lineage_contains g k) \<and>
    (\<forall>k. tbl_find col k = Some 1 \<longrightarrow> k \<in> fst ` set stack)"

definition search_result_ok :: "lineage_graph \<Rightarrow> candidate_id option \<times> colours \<Rightarrow> bool" where
  "search_result_ok g res \<longleftrightarrow>
    (case fst res of Some p \<Rightarrow> (parent_of g)\<^sup>+\<^sup>+ p p | None \<Rightarrow> search_ok g (snd res) [])"

lemma search_ok_bump: "search_ok g col ((c, i) # stack) \<Longrightarrow> search_ok g col ((c, j) # stack)"
  unfolding search_ok_def using on_path_index [of g c i stack j] by auto

lemma search_ok_pop:
  assumes "search_ok g col ((c, i) # stack)"
  shows "search_ok g (tbl_assign c 2 col) stack"
proof -
  have "lineage_contains g c"
    using assms by (cases stack) (auto simp: search_ok_def)
  then show ?thesis
    using assms on_path_tail by (auto simp: search_ok_def tbl.find_assign split: if_splits)
qed

lemma search_ok_push:
  assumes "search_ok g col ((c, i) # stack)" and "parent_of g c p" and "tbl_find col p = Some 0"
  shows "search_ok g (tbl_adjust p (\<lambda>_. 1) col) ((p, 0) # (c, Suc i) # stack)"
proof -
  have "lineage_contains g p"
    using assms(1,3) by (auto simp: search_ok_def)
  then show ?thesis
    using assms on_path_index [of g c i stack "Suc i"]
    by (auto simp: search_ok_def tbl.find_adjust split: if_splits)
qed

lemma search_ok_hit:
  assumes "search_ok g col ((c, i) # stack)" and "parent_of g c p" and "tbl_find col p = Some 1"
  shows "(parent_of g)\<^sup>+\<^sup>+ p p"
proof -
  have "p \<in> fst ` set ((c, i) # stack)" and "on_path g ((c, i) # stack)"
    using assms(1,3) unfolding search_ok_def by blast+
  then have "(parent_of g)\<^sup>*\<^sup>* p c"
    using on_path_top by blast
  then show ?thesis
    using assms(2) by (metis rtranclp_into_tranclp1)
qed

lemma cycle_search_sound: "search_ok g col stack \<Longrightarrow> search_result_ok g (cycle_search g col stack)"
proof (induction g col stack rule: cycle_search.induct)
  case (1 g col)
  then show ?case by (simp add: search_result_ok_def)
next
  case (2 g col c i stack)
  let ?ps = "ln_parents (node_at g c)"
  have c: "lineage_contains g c"
    using "2.prems" by (cases stack) (auto simp: search_ok_def)
  show ?case
  proof (cases "i < length ?ps")
    case False
    then show ?thesis
      using "2.IH"(4) [OF refl False search_ok_pop [OF "2.prems"]] by (simp add: cycle_search_steps)
  next
    case True
    let ?p = "?ps ! i"
    have edge: "parent_of g c ?p"
      using c True nth_mem by (fastforce simp: parent_of_def lineage_contains_def node_at_def)
    show ?thesis
    proof (cases "tbl_find col ?p")
      case None
      then show ?thesis
        using "2.IH"(1) [OF refl True None search_ok_bump [OF "2.prems"]] True
        by (simp add: cycle_search_steps)
    next
      case (Some colour)
      consider "colour = 1" | "colour = 0" | "1 < colour" by linarith
      then show ?thesis
      proof cases
        case 1
        then show ?thesis
          using search_ok_hit [OF "2.prems" edge] True Some
          by (simp add: cycle_search_steps search_result_ok_def)
      next
        case 2
        then show ?thesis
          using "2.IH"(2) [OF refl True Some _ _ search_ok_push [OF "2.prems" edge]] True Some
          by (simp add: cycle_search_steps)
      next
        case 3
        then show ?thesis
          using "2.IH"(3) [OF refl True Some _ _ search_ok_bump [OF "2.prems"]] True Some
          by (simp add: cycle_search_steps)
      qed
    qed
  qed
qed

lemma find_cycle_from_sound:
  "find_cycle_from g col ordered = Some p \<Longrightarrow> search_ok g col [] \<Longrightarrow> (parent_of g)\<^sup>+\<^sup>+ p p"
proof (induction g col ordered rule: find_cycle_from.induct)
  case (1 g col)
  then show ?case by simp
next
  case (2 g col start rest)
  show ?case
  proof (cases "tbl_find col start = Some 0")
    case False
    then show ?thesis using 2 by simp
  next
    case True
    then have "search_ok g (tbl_assign start 1 col) [(start, 0)]"
      using "2.prems"(2) by (auto simp: search_ok_def tbl.find_assign split: if_splits)
    then have result: "search_result_ok g (cycle_search g (tbl_assign start 1 col) [(start, 0)])"
      by (rule cycle_search_sound)
    obtain r col' where search: "cycle_search g (tbl_assign start 1 col) [(start, 0)] = (r, col')"
      by force
    show ?thesis
    proof (cases r)
      case (Some q)
      then show ?thesis
        using result "2.prems"(1) True search by (simp add: search_result_ok_def)
    next
      case None
      then show ?thesis
        using result "2.prems"(1) True search "2.IH"(2) [OF _ search [symmetric] None]
        by (simp add: search_result_ok_def)
    qed
  qed
qed

lemma find_cycle_sound:
  assumes "find_cycle g ordered = Some p"
  shows "(parent_of g)\<^sup>+\<^sup>+ p p"
proof -
  have "tbl_find (map (\<lambda>(k, _). (k, c)) g) k = (if lineage_contains g k then Some c else None)" for c :: nat and k
    by (induction g) (auto simp: tbl_find_def lineage_contains_def)
  then have "search_ok g (map (\<lambda>(k, _). (k, 0)) g) []"
    by (auto simp: search_ok_def split: if_splits)
  then show ?thesis
    using assms find_cycle_from_sound unfolding find_cycle_def by blast
qed

section \<open>Validation is exact\<close>

lemma lineage_keys_iff: "c \<in> set (tbl_keys g) \<longleftrightarrow> lineage_contains g c"
  by (simp add: tbl.set_keys lineage_contains_def)

lemma check_node_iff:
  "tbl_find g c = Some n \<Longrightarrow>
     check_node_references g c = OK \<and> check_node_depth g c = OK \<longleftrightarrow> node_ok g c n"
  by (auto simp: check_node_references_def check_node_depth_def node_ok_def node_at_def Let_def)

lemma lineage_validate_iff:
  assumes "tbl_ok g"
  shows "lineage_validate g = OK \<longleftrightarrow> lineage_ok g"
proof (cases "g = []")
  case True
  then show ?thesis by (simp add: lineage_validate_def lineage_ok_def)
next
  case False
  let ?ordered = "remdups_adj (sort_by (<) (tbl_keys g))"
  have keys: "set ?ordered = {c. lineage_contains g c}"
    using lineage_keys_iff by auto
  have nodes: "(\<forall>c \<in> set ?ordered. check_node_references g c = OK \<and> check_node_depth g c = OK) \<longleftrightarrow> lineage_ok g"
    unfolding keys using assms check_node_iff by (fastforce simp: lineage_ok_def lineage_contains_def)
  have "find_cycle g ?ordered = None" if "lineage_ok g"
    using lineage_acyclic [OF that] find_cycle_sound by (cases "find_cycle g ?ordered") blast+
  then show ?thesis
    using False nodes by (auto simp: lineage_validate_def Let_def)
qed

section \<open>Appending keeps the history well-formed\<close>

lemma check_node_iffs:
  "check_node_shape n = OK \<longleftrightarrow> id_valid (ln_candidate n) \<and> gen_valid (ln_candidate_gen n) \<and>
     id_valid (ln_lineage n) \<and> length (ln_parents n) \<le> kMaxLineageParents \<and>
     (\<forall>p \<in> set (ln_parents n). id_valid p \<and> p \<noteq> ln_candidate n)"
  "check_node_shape n = OK \<Longrightarrow> check_node_fits g n = OK \<longleftrightarrow>
     node_ok g (ln_candidate n) n \<and>
     (ln_parents n \<noteq> [] \<longrightarrow> ln_lineage n = ln_lineage (node_at g (hd (ln_parents n))))"
  by (auto simp: check_node_shape_def check_node_fits_def check_parent_identities_def node_ok_def)

lemma lineage_insert_cases:
  assumes "lineage_insert n g = (OK, g')"
  shows "g' = g \<or>
    (tbl_find g (ln_candidate n) = None \<and> g' = tbl_emplace (ln_candidate n) n g \<and>
     id_valid (ln_candidate n) \<and> id_valid (ln_lineage n) \<and> node_ok g (ln_candidate n) n \<and>
     (ln_parents n \<noteq> [] \<longrightarrow> ln_lineage n = ln_lineage (node_at g (hd (ln_parents n)))))"
  using assms check_node_iffs(1) [of n] check_node_iffs(2) [of n g]
  by (auto simp: lineage_insert_def split: sum.splits option.splits if_splits)

lemma lineage_insert_refused: "fst (lineage_insert n g) \<noteq> OK \<Longrightarrow> snd (lineage_insert n g) = g"
  by (auto simp: lineage_insert_def split: sum.splits option.splits if_splits)

lemma node_ok_mono:
  assumes "node_ok g c n" and "\<And>k m. tbl_find g k = Some m \<Longrightarrow> tbl_find h k = Some m"
  shows "node_ok h c n"
proof -
  have parents: "tbl_find g p = tbl_find h p" if "p \<in> set (ln_parents n)" for p
    using assms that by (auto simp: node_ok_def lineage_contains_def)
  then have "computed_depth g (ln_parents n) = computed_depth h (ln_parents n)"
    using deepest_parent_cong [of "ln_parents n" g h] by (simp add: computed_depth_def)
  then show ?thesis
    using assms(1) parents by (auto simp: node_ok_def lineage_contains_def)
qed

lemma node_named_mono:
  assumes "node_named g c n" and "node_ok g c n" and "\<And>k m. tbl_find g k = Some m \<Longrightarrow> tbl_find h k = Some m"
  shows "node_named h c n"
proof -
  have "node_at g (hd (ln_parents n)) = node_at h (hd (ln_parents n))" if "ln_parents n \<noteq> []"
  proof -
    have "lineage_contains g (hd (ln_parents n))"
      using assms(2) that by (auto simp: node_ok_def)
    then obtain m where "tbl_find g (hd (ln_parents n)) = Some m"
      by (auto simp: lineage_contains_def)
    then show ?thesis using assms(3) by (simp add: node_at_def)
  qed
  then show ?thesis using assms(1) by (auto simp: node_named_def)
qed

lemma lineage_insert_keeps:
  assumes "tbl_find g k = Some m"
  shows "tbl_find (snd (lineage_insert n g)) k = Some m"
  using assms by (auto simp: lineage_insert_def tbl.find_emplace split: sum.splits option.splits if_splits)

lemma lineage_insert_inv:
  assumes inv: "lineage_inv g"
  shows "lineage_inv (snd (lineage_insert n g))"
proof (cases "fst (lineage_insert n g) = OK \<and> snd (lineage_insert n g) \<noteq> g")
  case False
  then show ?thesis using inv lineage_insert_refused [of n g] by auto
next
  case True
  let ?g' = "snd (lineage_insert n g)" and ?c = "ln_candidate n"
  have "lineage_insert n g = (OK, ?g')" using True by (metis prod.collapse)
  then have new: "tbl_find g ?c = None" "?g' = tbl_emplace ?c n g" "node_ok g ?c n" "node_named g ?c n"
    using lineage_insert_cases True by (auto simp: node_named_def)
  have keep: "tbl_find g k = Some m \<Longrightarrow> tbl_find ?g' k = Some m" for k m
    by (rule lineage_insert_keeps)
  have "node_ok ?g' c m \<and> node_named ?g' c m" if "tbl_find ?g' c = Some m" for c m
  proof (cases "tbl_find g c = Some m")
    case True
    then show ?thesis
      using inv keep node_ok_mono [of g c m ?g'] node_named_mono [of g c m ?g']
      unfolding lineage_inv_def lineage_ok_def by blast
  next
    case False
    then have "c = ?c \<and> m = n"
      using that tbl.find_emplace_cases [of ?c n g c m] new(2) by auto
    then show ?thesis
      using new(3,4) keep node_ok_mono [of g ?c n ?g'] node_named_mono [of g ?c n ?g'] by blast
  qed
  then show ?thesis
    using inv new(2) tbl.ok_emplace by (auto simp: lineage_inv_def lineage_ok_def)
qed

lemma lineage_retire_inv:
  assumes inv: "lineage_inv g"
  shows "lineage_inv (snd (lineage_retire c reason epoch g))"
proof -
  define f where "f n = n\<lparr>ln_retired := True, ln_retired_epoch := epoch, ln_retirement_reason := reason\<rparr>"
    for n :: lineage_node
  have deep: "deepest_parent (tbl_adjust c f g) ps d = deepest_parent g ps d" for ps d
  proof (induction ps arbitrary: d)
    case (Cons p ps)
    have "map_option ln_depth (tbl_find (tbl_adjust c f g) p) = map_option ln_depth (tbl_find g p)"
      by (auto simp: tbl.find_adjust f_def option.map_comp comp_def)
    then show ?case
      using Cons by (auto split: option.splits)
  qed simp
  have at: "ln_lineage (node_at (tbl_adjust c f g) p) = ln_lineage (node_at g p)" for p
    by (auto simp: node_at_def tbl.find_adjust f_def default_lineage_node_def split: option.splits)
  have ok: "node_ok (tbl_adjust c f g) k n \<and> node_named (tbl_adjust c f g) k n"
    if "node_ok g k n" "node_named g k n" for k n
    using that deep by (auto simp: node_ok_def node_named_def computed_depth_def lineage_contains_def
        tbl.adjust_keeps_presence at)
  have same: "node_ok g k (f n) \<longleftrightarrow> node_ok g k n" "node_named g k (f n) \<longleftrightarrow> node_named g k n" for k n
    by (simp_all add: f_def node_ok_def node_named_def)
  have "lineage_inv (tbl_adjust c f g)"
    using inv ok same unfolding lineage_inv_def lineage_ok_def
    by (auto dest!: tbl.find_adjust_cases)
  then show ?thesis
    using inv by (auto simp: lineage_retire_def f_def [abs_def] split: option.splits)
qed

lemma make_child_insert:
  assumes "make_child child child_gen parents explicit_lineage epoch g = Inr n"
    and "lineage_inv g" and "id_valid explicit_lineage" and "tbl_find g child = None"
  shows "lineage_insert n g = (OK, tbl_emplace child n g)"
proof -
  have checks: "id_valid child" "gen_valid child_gen" "length parents \<le> kMaxLineageParents"
      "check_parent_identities child parents = OK" "\<forall>p \<in> set parents. lineage_contains g p"
    and n: "ln_candidate n = child" "ln_candidate_gen n = child_gen" "ln_parents n = parents"
      "ln_depth n = computed_depth g parents" "unat (ln_depth n) \<le> kMaxLineageDepth"
      "ln_lineage n = (if parents = [] then explicit_lineage else ln_lineage (node_at g (hd parents)))"
    using assms(1) by (auto simp: make_child_def Let_def computed_depth_def split: sum.splits if_splits)
  have "id_valid (ln_lineage n)"
  proof (cases "parents = []")
    case False
    then have "lineage_contains g (hd parents)"
      using checks(5) by simp
    then show ?thesis
      using assms(2) n False by (auto simp: lineage_contains_def lineage_inv_def node_named_def node_at_def)
  qed (use assms(3) n in simp)
  then have shape: "check_node_shape n = OK"
    using checks n by (simp add: check_node_shape_def)
  have "check_node_fits g n = OK"
    using checks n by (simp add: check_node_fits_def)
  then show ?thesis
    using shape assms(4) n(1) by (simp add: lineage_insert_def)
qed

section \<open>Ancestors\<close>

definition parents_of :: "lineage_graph \<Rightarrow> candidate_id \<Rightarrow> candidate_id set" where
  "parents_of g c = {p. parent_of g c p}"

lemma ancestor_level_effect:
  "ancestor_level g c xs (visited, next_level) = (visited', next_level') \<Longrightarrow>
   set visited' = set visited \<union> (set xs - {c}) \<and>
   set next_level' = set next_level \<union> (\<Union>x \<in> set xs - {c} - set visited. parents_of g x) \<and>
   (distinct visited \<longrightarrow> distinct visited')"
proof (induction g c xs "(visited, next_level)" arbitrary: visited next_level rule: ancestor_level.induct)
  case (2 g c x xs visited next_level)
  show ?case
  proof (cases "x = c \<or> x \<in> set visited")
    case True
    then show ?thesis using 2 by auto
  next
    case False
    let ?n = "case tbl_find g x of None \<Rightarrow> next_level | Some n \<Rightarrow> next_level @ ln_parents n"
    have "set ?n = set next_level \<union> parents_of g x"
      by (auto simp: parents_of_def parent_of_def split: option.splits)
    then show ?thesis
      using 2(2) [OF False] 2(3) False by auto
  qed
qed simp

definition search_front :: "lineage_graph \<Rightarrow> candidate_id \<Rightarrow> candidate_id list \<Rightarrow> candidate_id list \<Rightarrow> bool" where
  "search_front g c visited frontier \<longleftrightarrow>
    distinct visited \<and> set visited \<union> set frontier \<subseteq> {a. (parent_of g)\<^sup>+\<^sup>+ c a} \<and>
    parents_of g c \<subseteq> set visited \<union> set frontier \<and>
    (\<forall>v \<in> set visited. parents_of g v \<subseteq> set visited \<union> set frontier)"

lemma search_front_step:
  assumes ok: "lineage_ok g" and front: "search_front g c visited frontier"
    and level: "ancestor_level g c (remdups_adj frontier) (visited, []) = (visited', next_level)"
  shows "search_front g c visited' next_level"
proof -
  note effect = ancestor_level_effect [OF level]
  have reach: "(parent_of g)\<^sup>+\<^sup>+ c a" if "a \<in> set visited \<union> set frontier" for a
    using front that by (auto simp: search_front_def)
  then have notc: "c \<notin> set frontier"
    using lineage_acyclic [OF ok] by blast
  then have visited': "set visited' = set visited \<union> set frontier"
    and next_level: "set next_level = (\<Union>x \<in> set frontier - set visited. parents_of g x)"
    using effect by auto
  have "set next_level \<subseteq> {a. (parent_of g)\<^sup>+\<^sup>+ c a}"
    using next_level reach by (auto simp: parents_of_def intro: tranclp.trancl_into_trancl)
  moreover have "parents_of g v \<subseteq> set visited' \<union> set next_level" if "v \<in> set visited'" for v
    using that front visited' next_level by (auto simp: search_front_def)
  ultimately show ?thesis
    using front effect reach visited' by (auto simp: search_front_def)
qed

lemma ancestor_search_correct:
  "lineage_ok g \<Longrightarrow> search_front g c visited frontier \<Longrightarrow>
   distinct (ancestor_search g c visited frontier) \<and>
   set (ancestor_search g c visited frontier) = {a. (parent_of g)\<^sup>+\<^sup>+ c a}"
proof (induction g c visited frontier rule: ancestor_search.induct)
  case (1 g c visited frontier)
  show ?case
  proof (cases "frontier = []")
    case True
    have "a \<in> set visited" if "(parent_of g)\<^sup>+\<^sup>+ c a" for a
      using that
    proof (induction rule: tranclp_induct)
      case (base y)
      then show ?case using "1.prems"(2) True by (auto simp: search_front_def parents_of_def)
    next
      case (step y z)
      then show ?case using "1.prems"(2) True by (auto simp: search_front_def parents_of_def)
    qed
    then show ?thesis
      using "1.prems"(2) True by (subst (1 2) ancestor_search.simps) (auto simp: search_front_def)
  next
    case False
    obtain visited' next_level where
      level: "ancestor_level g c (remdups_adj frontier) (visited, []) = (visited', next_level)"
      by force
    then have "ancestor_search g c visited frontier = ancestor_search g c visited' next_level"
      using False by (subst ancestor_search.simps) simp
    then show ?thesis
      using "1.IH" [OF False _ refl "1.prems"(1) search_front_step [OF "1.prems" level]] level by simp
  qed
qed

lemma ancestors_of_correct:
  assumes "lineage_ok g"
  shows "distinct (ancestors_of g c) \<and> set (ancestors_of g c) = {a. (parent_of g)\<^sup>+\<^sup>+ c a}"
proof (cases "tbl_find g c")
  case None
  have "\<not> (parent_of g)\<^sup>+\<^sup>+ c a" for a
    using None by (metis parent_of_def option.distinct(1) tranclpD)
  then show ?thesis using None by (simp add: ancestors_of_def)
next
  case (Some n)
  have "search_front g c [] (ln_parents n)"
    using Some by (auto simp: search_front_def parents_of_def parent_of_def)
  then show ?thesis
    using ancestor_search_correct [OF assms] Some by (simp add: ancestors_of_def)
qed

section \<open>The path to the root\<close>

definition primary_parent :: "lineage_graph \<Rightarrow> candidate_id \<Rightarrow> candidate_id \<Rightarrow> bool" where
  "primary_parent g p c \<longleftrightarrow> (\<exists>n. tbl_find g c = Some n \<and> ln_parents n \<noteq> [] \<and> hd (ln_parents n) = p)"

definition primary_path :: "lineage_graph \<Rightarrow> candidate_id list \<Rightarrow> candidate_id \<Rightarrow> bool" where
  "primary_path g path c \<longleftrightarrow> path \<noteq> [] \<and> last path = c \<and> ln_parents (node_at g (hd path)) = [] \<and>
     distinct path \<and> successively (primary_parent g) path \<and>
     (\<forall>x \<in> set path. lineage_contains g x \<and> ln_lineage (node_at g x) = ln_lineage (node_at g c))"

lemma primary_parent_facts:
  assumes "lineage_inv g" and "tbl_find g c = Some n" and "ln_parents n = p # ps"
  shows "lineage_contains g p" and "primary_parent g p c"
    and "unat (ln_depth (node_at g p)) < unat (ln_depth (node_at g c))"
    and "ln_lineage (node_at g p) = ln_lineage (node_at g c)"
proof -
  have ok: "lineage_ok g" and named: "node_named g c n"
    using assms(1,2) by (auto simp: lineage_inv_def)
  have edge: "parent_of g c p" using assms(2,3) by (auto simp: parent_of_def)
  show "lineage_contains g p" by (rule parent_of_present [OF ok edge])
  show "primary_parent g p c" using assms(2,3) by (auto simp: primary_parent_def)
  show "unat (ln_depth (node_at g p)) < unat (ln_depth (node_at g c))"
    by (rule parent_of_shallower [OF ok edge])
  show "ln_lineage (node_at g p) = ln_lineage (node_at g c)"
    using named assms(2,3) by (simp add: node_named_def node_at_find)
qed

lemma path_up_correct:
  assumes "lineage_inv g" and "lineage_contains g c"
    and "\<forall>v \<in> set visited. unat (ln_depth (node_at g c)) < unat (ln_depth (node_at g v))"
    and "length visited + unat (ln_depth (node_at g c)) \<le> kMaxLineageDepth"
  shows "\<exists>up. path_up g visited reversed c = Some (reversed @ up) \<and> primary_path g (rev up) c \<and>
    (\<forall>x \<in> set up. unat (ln_depth (node_at g x)) \<le> unat (ln_depth (node_at g c)))"
  using assms(2-)
proof (induction "unat (ln_depth (node_at g c))" arbitrary: c visited reversed rule: less_induct)
  case less
  obtain n where n: "tbl_find g c = Some n"
    using less.prems(1) by (auto simp: lineage_contains_def)
  have "id_valid c"
    using assms(1) n by (auto simp: lineage_inv_def node_named_def)
  moreover have "c \<notin> set visited"
    using less.prems(2) by blast
  moreover have "\<not> kMaxLineageDepth + 1 \<le> length visited"
    using less.prems(3) by simp
  ultimately have step: "path_up g visited reversed c =
      (case ln_parents n of [] \<Rightarrow> Some (reversed @ [c])
       | p # _ \<Rightarrow> path_up g (visited @ [c]) (reversed @ [c]) p)"
    using n by (subst path_up.simps) simp
  show ?case
  proof (cases "ln_parents n")
    case Nil
    then show ?thesis
      using step n less.prems(1) by (auto simp: primary_path_def node_at_find)
  next
    case (Cons p ps)
    note facts = primary_parent_facts [OF assms(1) n Cons]
    have "\<exists>up. path_up g (visited @ [c]) (reversed @ [c]) p = Some ((reversed @ [c]) @ up) \<and>
        primary_path g (rev up) p \<and> (\<forall>x \<in> set up. unat (ln_depth (node_at g x)) \<le> unat (ln_depth (node_at g p)))"
      using facts less.prems(2,3) by (intro less.hyps) force+
    then obtain up where up: "path_up g visited reversed c = Some (reversed @ c # up)"
      "primary_path g (rev up) p" "\<forall>x \<in> set up. unat (ln_depth (node_at g x)) \<le> unat (ln_depth (node_at g p))"
      using step Cons by auto
    have "c \<notin> set up"
      using up(3) facts(3) by fastforce
    then have "primary_path g (rev (c # up)) c"
      using up(2) facts less.prems(1) by (auto simp: primary_path_def successively_append_iff)
    then show ?thesis
      using up facts(3) by (intro exI [of _ "c # up"]) auto
  qed
qed

lemma path_to_root_correct:
  assumes "lineage_inv g" and "lineage_contains g c"
  shows "primary_path g (path_to_root g c) c"
proof -
  obtain n where n: "tbl_find g c = Some n"
    using assms(2) by (auto simp: lineage_contains_def)
  have "node_ok g c n"
    using assms(1) n by (simp add: lineage_inv_def lineage_ok_def)
  then have "unat (ln_depth n) \<le> kMaxLineageDepth"
    unfolding node_ok_def by blast
  then have "unat (ln_depth (node_at g c)) \<le> kMaxLineageDepth"
    using n by (simp only: node_at_find)
  then obtain up where "path_up g [] [] c = Some ([] @ up)" "primary_path g (rev up) c"
    using path_up_correct [OF assms, of "[]" "[]"] by auto
  then show ?thesis
    using n by (simp add: path_to_root_def)
qed

section \<open>A history\<close>

datatype lineage_event = InsertNode lineage_node | RetireNode candidate_id string coordinator_epoch

fun lineage_apply :: "lineage_event \<Rightarrow> lineage_graph \<Rightarrow> lineage_graph" where
  "lineage_apply (InsertNode n) g = snd (lineage_insert n g)"
| "lineage_apply (RetireNode c reason epoch) g = snd (lineage_retire c reason epoch g)"

definition lineage_run :: "lineage_event list \<Rightarrow> lineage_graph" where
  "lineage_run es = foldl (\<lambda>g e. lineage_apply e g) [] es"

lemma lineage_apply_inv: "lineage_inv g \<Longrightarrow> lineage_inv (lineage_apply e g)"
  by (cases e) (simp_all add: lineage_insert_inv lineage_retire_inv)

lemma lineage_run_inv: "lineage_inv (lineage_run es)"
proof -
  have "lineage_inv g \<Longrightarrow> lineage_inv (foldl (\<lambda>g e. lineage_apply e g) g es)" for g
    by (induction es arbitrary: g) (simp_all add: lineage_apply_inv)
  then show ?thesis
    by (simp add: lineage_run_def lineage_inv_def lineage_ok_def)
qed

definition ancestry :: "lineage_node \<Rightarrow> candidate_id \<times> candidate_generation \<times> lineage_id \<times> candidate_id list \<times> u32" where
  "ancestry n = (ln_candidate n, ln_candidate_gen n, ln_lineage n, ln_parents n, ln_depth n)"

lemma lineage_apply_keeps_ancestry:
  assumes "tbl_find g c = Some n"
  shows "\<exists>m. tbl_find (lineage_apply e g) c = Some m \<and> ancestry m = ancestry n \<and> (ln_retired n \<longrightarrow> m = n)"
proof (cases e)
  case (InsertNode x)
  then show ?thesis using lineage_insert_keeps [OF assms, of x] by simp
next
  case (RetireNode k reason epoch)
  then show ?thesis
    using assms by (auto simp: lineage_retire_def tbl.find_adjust ancestry_def split: option.splits)
qed

section \<open>Properties\<close>

text \<open>
  C12: Whatever is inserted into and retired from a lineage graph, in whatever order, the
  graph stays well-formed: \<^verbatim>\<open>validate\<close> accepts it, no candidate is its own ancestor, and
  \<^verbatim>\<open>ancestors_of\<close> terminates with exactly the candidates reachable through declared parents,
  each once.
\<close>

theorem lineage_history_wellformed:
  "lineage_validate (lineage_run es) = OK \<and>
   \<not> (parent_of (lineage_run es))\<^sup>+\<^sup>+ c c \<and>
   distinct (ancestors_of (lineage_run es) c) \<and>
   set (ancestors_of (lineage_run es) c) = {a. (parent_of (lineage_run es))\<^sup>+\<^sup>+ c a}"
proof -
  have ok: "lineage_ok (lineage_run es)"
    using lineage_run_inv by (simp add: lineage_inv_def)
  then have "tbl_ok (lineage_run es)"
    by (simp add: lineage_ok_def)
  then show ?thesis
    using ok lineage_validate_iff lineage_acyclic ancestors_of_correct by blast
qed

text \<open>
  History is never rewritten: after further insertions and retirements a node is still
  there with the same generation, lineage, parents and depth, and a retired node does not
  change at all.
\<close>

theorem lineage_history_append_only:
  assumes "tbl_find (lineage_run es) c = Some n"
  shows "\<exists>m. tbl_find (lineage_run (es @ fs)) c = Some m \<and> ancestry m = ancestry n \<and> (ln_retired n \<longrightarrow> m = n)"
proof -
  have "tbl_find g c = Some n \<Longrightarrow>
      \<exists>m. tbl_find (foldl (\<lambda>g e. lineage_apply e g) g fs) c = Some m \<and> ancestry m = ancestry n \<and>
        (ln_retired n \<longrightarrow> m = n)" for g
  proof (induction fs arbitrary: g n)
    case (Cons e fs)
    obtain m where m: "tbl_find (lineage_apply e g) c = Some m" "ancestry m = ancestry n"
      "ln_retired n \<longrightarrow> m = n"
      using lineage_apply_keeps_ancestry [OF Cons.prems] by blast
    then show ?case
      using Cons.IH [OF m(1)] by auto
  qed simp
  then show ?thesis
    using assms by (simp add: lineage_run_def)
qed

definition example_root :: lineage_node where
  "example_root = default_lineage_node\<lparr>ln_candidate := StrongId 1, ln_candidate_gen := gen_first,
     ln_lineage := StrongId 7\<rparr>"

definition example_child :: lineage_node where
  "example_child = default_lineage_node\<lparr>ln_candidate := StrongId 2, ln_candidate_gen := gen_first,
     ln_lineage := StrongId 7, ln_parents := [StrongId 1], ln_depth := 1\<rparr>"

lemmas example_defs = lineage_run_def lineage_insert_def lineage_retire_def check_node_shape_def
  check_node_fits_def check_parent_identities_def for_all_def example_root_def example_child_def
  default_lineage_node_def id_valid_def gen_valid_def gen_first_def kMaxLineageParents_def
  kMaxLineageDepth_def computed_depth_def lineage_contains_def tbl_emplace_def tbl_find_def
  tbl_adjust_def node_at_def

theorem lineage_history_append_only_witness:
  "\<exists>m. tbl_find (lineage_run ([InsertNode example_root] @
      [RetireNode (StrongId 1) ''done'' epoch_none, InsertNode example_child])) (StrongId 1) = Some m \<and>
    ancestry m = ancestry example_root \<and> (ln_retired example_root \<longrightarrow> m = example_root)"
  by (rule lineage_history_append_only) (simp add: example_defs)

text \<open>
  For every candidate of the history \<^verbatim>\<open>path_to_root\<close> returns, without ever reaching its
  cycle or depth guards, the chain of primary parents: it ends in the candidate, starts at a
  root, repeats nobody, and all of it belongs to the candidate's lineage.
\<close>

theorem path_to_root_is_primary_chain:
  assumes "lineage_contains (lineage_run es) c"
  shows "primary_path (lineage_run es) (path_to_root (lineage_run es) c) c"
  by (rule path_to_root_correct [OF lineage_run_inv assms])

theorem path_to_root_is_primary_chain_witness:
  "primary_path (lineage_run [InsertNode example_root, InsertNode example_child])
    (path_to_root (lineage_run [InsertNode example_root, InsertNode example_child]) (StrongId 2)) (StrongId 2)"
  by (rule path_to_root_is_primary_chain) (simp add: example_defs)

text \<open>
  A child node that \<^verbatim>\<open>make_child\<close> computes for a fresh candidate is always accepted by
  \<^verbatim>\<open>insert\<close>, which adds exactly that node.
\<close>

theorem made_child_is_accepted:
  assumes "make_child child child_gen parents explicit_lineage epoch (lineage_run es) = Inr n"
    and "id_valid explicit_lineage" and "tbl_find (lineage_run es) child = None"
  shows "lineage_insert n (lineage_run es) = (OK, tbl_emplace child n (lineage_run es))"
  by (rule make_child_insert [OF assms(1) lineage_run_inv assms(2,3)])

theorem made_child_is_accepted_witness:
  "lineage_insert example_child (lineage_run [InsertNode example_root]) =
    (OK, tbl_emplace (StrongId 2) example_child (lineage_run [InsertNode example_root]))"
  by (rule made_child_is_accepted [where child_gen = gen_first and parents = "[StrongId 1]"
        and explicit_lineage = "StrongId 9" and epoch = epoch_none])
     (simp_all add: example_defs make_child_def Let_def)

end
