(* ===== verification/Accounting.thy ===== *)
theory Accounting
  imports Errors
begin

text \<open>
  Budget accounting (accounting.hpp, accounting.cpp): nine counted budgets with reservations
  that are resolved into consumption or release. \<^verbatim>\<open>std::array<Counter, 9>\<close> indexed by the
  enumerators of \<^verbatim>\<open>BudgetKind\<close> is a function on them. Counters are 64-bit words, limits
  32-bit words, as in the code.
\<close>

datatype (plugins only: code size) budget_kind =
    BK_CandidateAttempts | BK_WorkerAssignments | BK_EvaluationAttempts | BK_RetainedCandidates
  | BK_Retries | BK_Candidates | BK_Workers | BK_ActiveAttempts | BK_EvaluationConcurrency

definition all_budget_kinds :: "budget_kind list" where
  "all_budget_kinds =
    [BK_CandidateAttempts, BK_WorkerAssignments, BK_EvaluationAttempts, BK_RetainedCandidates,
     BK_Retries, BK_Candidates, BK_Workers, BK_ActiveAttempts, BK_EvaluationConcurrency]"

primrec budget_kind_name :: "budget_kind \<Rightarrow> string" where
  "budget_kind_name BK_CandidateAttempts = ''CandidateAttempts''"
| "budget_kind_name BK_WorkerAssignments = ''WorkerAssignments''"
| "budget_kind_name BK_EvaluationAttempts = ''EvaluationAttempts''"
| "budget_kind_name BK_RetainedCandidates = ''RetainedCandidates''"
| "budget_kind_name BK_Retries = ''Retries''"
| "budget_kind_name BK_Candidates = ''Candidates''"
| "budget_kind_name BK_Workers = ''Workers''"
| "budget_kind_name BK_ActiveAttempts = ''ActiveAttempts''"
| "budget_kind_name BK_EvaluationConcurrency = ''EvaluationConcurrency''"

record budget_limits =
  max_candidate_attempts :: u32
  max_worker_assignments :: u32
  max_evaluation_attempts :: u32
  max_retained_candidates :: u32
  max_retries :: u32
  max_candidates :: u32
  max_workers :: u32
  max_active_attempts :: u32
  max_evaluation_concurrency :: u32

definition default_budget_limits :: budget_limits where
  "default_budget_limits =
    \<lparr>max_candidate_attempts = 4096, max_worker_assignments = 4096, max_evaluation_attempts = 8192,
     max_retained_candidates = 64, max_retries = 8, max_candidates = 1024, max_workers = 64,
     max_active_attempts = 64, max_evaluation_concurrency = 8\<rparr>"

primrec limit_for :: "budget_kind \<Rightarrow> budget_limits \<Rightarrow> u32" where
  "limit_for BK_CandidateAttempts = max_candidate_attempts"
| "limit_for BK_WorkerAssignments = max_worker_assignments"
| "limit_for BK_EvaluationAttempts = max_evaluation_attempts"
| "limit_for BK_RetainedCandidates = max_retained_candidates"
| "limit_for BK_Retries = max_retries"
| "limit_for BK_Candidates = max_candidates"
| "limit_for BK_Workers = max_workers"
| "limit_for BK_ActiveAttempts = max_active_attempts"
| "limit_for BK_EvaluationConcurrency = max_evaluation_concurrency"

definition budget_limits_validate :: "budget_limits \<Rightarrow> status" where
  "budget_limits_validate b = first_failure
    [require (max_candidates b \<noteq> 0) E_InvalidArgument,
     require (max_workers b \<noteq> 0) E_InvalidArgument,
     require (max_active_attempts b \<noteq> 0) E_InvalidArgument,
     require (max_evaluation_concurrency b \<noteq> 0) E_InvalidArgument]"

section \<open>The ledger\<close>

record budget_counter =
  bc_reserved :: u64
  bc_consumed :: u64
  bc_released :: u64

definition zero_counter :: budget_counter where
  "zero_counter = \<lparr>bc_reserved = 0, bc_consumed = 0, bc_released = 0\<rparr>"

definition counter_in_use :: "budget_counter \<Rightarrow> u64" where
  "counter_in_use c = bc_reserved c + bc_consumed c"

record budget_ledger =
  lg_limits :: budget_limits
  lg_counters :: "budget_kind \<Rightarrow> budget_counter"

definition make_ledger :: "budget_limits \<Rightarrow> budget_ledger" where
  "make_ledger limits = \<lparr>lg_limits = limits, lg_counters = (\<lambda>_. zero_counter)\<rparr>"

definition lg_in_use :: "budget_kind \<Rightarrow> budget_ledger \<Rightarrow> u64" where
  "lg_in_use kind l = counter_in_use (lg_counters l kind)"

definition lg_limit :: "budget_kind \<Rightarrow> budget_ledger \<Rightarrow> u64" where
  "lg_limit kind l = ucast (limit_for kind (lg_limits l))"

definition has_capacity :: "budget_kind \<Rightarrow> budget_ledger \<Rightarrow> bool" where
  "has_capacity kind l \<longleftrightarrow> lg_in_use kind l < lg_limit kind l"

definition ledger_remaining :: "budget_kind \<Rightarrow> budget_ledger \<Rightarrow> u32" where
  "ledger_remaining kind l =
    (if lg_limit kind l \<le> lg_in_use kind l then 0
     else ucast (lg_limit kind l - lg_in_use kind l))"

definition set_counter :: "budget_kind \<Rightarrow> budget_counter \<Rightarrow> budget_ledger \<Rightarrow> budget_ledger" where
  "set_counter kind c l = l\<lparr>lg_counters := (lg_counters l)(kind := c)\<rparr>"

definition ledger_reserve :: "budget_kind \<Rightarrow> budget_ledger \<Rightarrow> status \<times> budget_ledger" where
  "ledger_reserve kind l =
    (let entry = lg_counters l kind in
     if lg_limit kind l \<le> counter_in_use entry then (Inl E_BudgetExhausted, l)
     else (OK, set_counter kind (entry\<lparr>bc_reserved := bc_reserved entry + 1\<rparr>) l))"

definition ledger_consume :: "budget_kind \<Rightarrow> budget_ledger \<Rightarrow> status \<times> budget_ledger" where
  "ledger_consume kind l =
    (let entry = lg_counters l kind in
     if bc_reserved entry = 0 then (Inl E_IllegalStateTransition, l)
     else (OK, set_counter kind
       (entry\<lparr>bc_reserved := bc_reserved entry - 1, bc_consumed := bc_consumed entry + 1\<rparr>) l))"

definition ledger_release :: "budget_kind \<Rightarrow> budget_ledger \<Rightarrow> status \<times> budget_ledger" where
  "ledger_release kind l =
    (let entry = lg_counters l kind in
     if bc_reserved entry = 0 then (Inl E_IllegalStateTransition, l)
     else (OK, set_counter kind
       (entry\<lparr>bc_reserved := bc_reserved entry - 1, bc_released := bc_released entry + 1\<rparr>) l))"

definition ledger_consume_direct :: "budget_kind \<Rightarrow> budget_ledger \<Rightarrow> status \<times> budget_ledger" where
  "ledger_consume_direct kind l =
    (let entry = lg_counters l kind in
     if lg_limit kind l \<le> counter_in_use entry then (Inl E_BudgetExhausted, l)
     else (OK, set_counter kind (entry\<lparr>bc_consumed := bc_consumed entry + 1\<rparr>) l))"

definition open_reservations :: "budget_ledger \<Rightarrow> u64" where
  "open_reservations l = foldl (\<lambda>total kind. total + bc_reserved (lg_counters l kind)) 0 all_budget_kinds"

definition check_balanced :: "budget_ledger \<Rightarrow> status" where
  "check_balanced l =
    (let open_kinds = filter (\<lambda>kind. bc_reserved (lg_counters l kind) \<noteq> 0) all_budget_kinds
     in require (open_kinds = []) E_AccountingImbalance)"

section \<open>A history of ledger operations\<close>

datatype ledger_event = Reserve budget_kind | Consume budget_kind | Release budget_kind
  | ConsumeDirect budget_kind

fun ledger_apply :: "ledger_event \<Rightarrow> budget_ledger \<Rightarrow> status \<times> budget_ledger" where
  "ledger_apply (Reserve kind) = ledger_reserve kind"
| "ledger_apply (Consume kind) = ledger_consume kind"
| "ledger_apply (Release kind) = ledger_release kind"
| "ledger_apply (ConsumeDirect kind) = ledger_consume_direct kind"

fun ledger_run :: "ledger_event list \<Rightarrow> budget_ledger \<Rightarrow> ledger_event list \<times> budget_ledger" where
  "ledger_run [] l = ([], l)"
| "ledger_run (e # es) l =
    (case ledger_apply e l of
       (Inl _, l') \<Rightarrow> ledger_run es l'
     | (Inr _, l') \<Rightarrow> let (granted, l'') = ledger_run es l' in (e # granted, l''))"

text \<open>
  The account an operator has in mind: natural numbers, without a width. The event that was
  granted is booked; the laws say when the ledger grants.
\<close>

record account =
  ac_open :: nat
  ac_consumed :: nat
  ac_released :: nat

definition account_of :: "budget_kind \<Rightarrow> budget_ledger \<Rightarrow> account" where
  "account_of kind l =
    (let c = lg_counters l kind in
     \<lparr>ac_open = unat (bc_reserved c), ac_consumed = unat (bc_consumed c), ac_released = unat (bc_released c)\<rparr>)"

definition within_limits :: "budget_ledger \<Rightarrow> bool" where
  "within_limits l \<longleftrightarrow> (\<forall>kind. unat (bc_reserved (lg_counters l kind)) +
      unat (bc_consumed (lg_counters l kind)) \<le> unat (limit_for kind (lg_limits l)))"

lemma all_budget_kinds_complete: "kind \<in> set all_budget_kinds"
  by (cases kind) (simp_all add: all_budget_kinds_def)

lemma unat_limit: "unat (lg_limit kind l) = unat (limit_for kind (lg_limits l))"
proof -
  have "unat (limit_for kind (lg_limits l)) < 2 ^ 32"
    using unsigned_less [where 'a=nat and w = "limit_for kind (lg_limits l)"] by simp
  then show ?thesis
    by (simp add: lg_limit_def unsigned_ucast_eq take_bit_nat_eq_self)
qed

lemma limit_small: "unat (limit_for kind (lg_limits l)) < 2 ^ 32"
  using unsigned_less [where 'a=nat and w = "limit_for kind (lg_limits l)"] by simp

lemma within_limits_counter:
  assumes "within_limits l"
  shows "unat (counter_in_use (lg_counters l kind)) =
      unat (bc_reserved (lg_counters l kind)) + unat (bc_consumed (lg_counters l kind))"
    and "unat (bc_reserved (lg_counters l kind)) < 2 ^ 32"
    and "unat (bc_consumed (lg_counters l kind)) < 2 ^ 32"
proof -
  have le: "unat (bc_reserved (lg_counters l kind)) + unat (bc_consumed (lg_counters l kind)) < 2 ^ 32"
    using assms limit_small [of kind l] le_less_trans unfolding within_limits_def by blast
  then show "unat (bc_reserved (lg_counters l kind)) < 2 ^ 32"
    "unat (bc_consumed (lg_counters l kind)) < 2 ^ 32" by auto
  show "unat (counter_in_use (lg_counters l kind)) =
      unat (bc_reserved (lg_counters l kind)) + unat (bc_consumed (lg_counters l kind))"
    unfolding counter_in_use_def using le by (subst unat_add_lem [THEN iffD1]) auto
qed

lemma granted_iff:
  assumes "within_limits l"
  shows "fst (ledger_reserve kind l) = OK \<longleftrightarrow>
      unat (bc_reserved (lg_counters l kind)) + unat (bc_consumed (lg_counters l kind))
        < unat (limit_for kind (lg_limits l))"
    and "fst (ledger_consume_direct kind l) = fst (ledger_reserve kind l)"
  using within_limits_counter(1) [OF assms, of kind]
  by (auto simp: ledger_reserve_def ledger_consume_direct_def Let_def word_le_nat_alt unat_limit)

lemma within_limits_make [simp]: "within_limits (make_ledger limits)"
  by (simp add: within_limits_def make_ledger_def zero_counter_def)

lemma lg_limits_apply [simp]: "lg_limits (snd (ledger_apply e l)) = lg_limits l"
  by (cases e) (auto simp: ledger_reserve_def ledger_consume_def ledger_release_def
      ledger_consume_direct_def set_counter_def Let_def)

section \<open>The ledger as its clients see it\<close>

text \<open>
  What a client of a ledger relies on: a reservation is granted exactly while capacity is
  left, an open reservation can be resolved once, either way, and the other budgets are left
  alone. \<^verbatim>\<open>opened\<close>, \<^verbatim>\<open>used\<close> and \<^verbatim>\<open>cap\<close> are plain numbers: no width, no wrap.
\<close>

locale reservation_ledger =
  fixes reserve consume release :: "'k \<Rightarrow> 'l \<Rightarrow> status \<times> 'l"
    and opened used cap :: "'k \<Rightarrow> 'l \<Rightarrow> nat"
    and ok :: "'l \<Rightarrow> bool"
  assumes used_cap: "ok l \<Longrightarrow> used k l \<le> cap k l"
    and reserve_iff: "ok l \<Longrightarrow> fst (reserve k l) = OK \<longleftrightarrow> used k l < cap k l"
    and reserve_effect: "ok l \<Longrightarrow> reserve k l = (OK, l') \<Longrightarrow>
        ok l' \<and> cap k' l' = cap k' l \<and>
        opened k' l' = (if k' = k then Suc (opened k l) else opened k' l) \<and>
        used k' l' = (if k' = k then Suc (used k l) else used k' l)"
    and consume_iff: "ok l \<Longrightarrow> fst (consume k l) = OK \<longleftrightarrow> 0 < opened k l"
    and consume_effect: "ok l \<Longrightarrow> consume k l = (OK, l') \<Longrightarrow>
        ok l' \<and> cap k' l' = cap k' l \<and>
        opened k' l' = (if k' = k then opened k l - 1 else opened k' l) \<and> used k' l' = used k' l"
    and release_iff: "ok l \<Longrightarrow> fst (release k l) = OK \<longleftrightarrow> 0 < opened k l"
    and release_effect: "ok l \<Longrightarrow> release k l = (OK, l') \<Longrightarrow>
        ok l' \<and> cap k' l' = cap k' l \<and>
        opened k' l' = (if k' = k then opened k l - 1 else opened k' l) \<and>
        used k' l' = (if k' = k then used k l - 1 else used k' l)"
    and refused: "fst (reserve k l) \<noteq> OK \<Longrightarrow> snd (reserve k l) = l"
      "fst (consume k l) \<noteq> OK \<Longrightarrow> snd (consume k l) = l"
      "fst (release k l) \<noteq> OK \<Longrightarrow> snd (release k l) = l"
begin

lemma reserve_then_release:
  assumes "ok l" and "reserve k l = (OK, l')"
  obtains l'' where "release k l' = (OK, l'')" and "ok l''"
    and "\<And>k'. opened k' l'' = opened k' l" and "\<And>k'. used k' l'' = used k' l"
proof -
  note r = reserve_effect [OF assms]
  then have "fst (release k l') = OK"
    using release_iff by simp
  then obtain l'' where l'': "release k l' = (OK, l'')"
    by (metis prod.collapse)
  show thesis
    using l'' release_effect [OF _ l''] r by (intro that [of l'']) auto
qed

lemma reserve_then_consume:
  assumes "ok l" and "reserve k l = (OK, l')"
  obtains l'' where "consume k l' = (OK, l'')" and "ok l''"
    and "\<And>k'. opened k' l'' = opened k' l"
    and "used k l'' = Suc (used k l)" and "\<And>k'. k' \<noteq> k \<Longrightarrow> used k' l'' = used k' l"
proof -
  note r = reserve_effect [OF assms]
  then have "fst (consume k l') = OK"
    using consume_iff by simp
  then obtain l'' where l'': "consume k l' = (OK, l'')"
    by (metis prod.collapse)
  show thesis
    using l'' consume_effect [OF _ l''] r by (intro that [of l'']) auto
qed

lemma ok_after:
  assumes "ok l"
  shows "ok (snd (reserve k l))" and "ok (snd (consume k l))" and "ok (snd (release k l))"
  using assms refused reserve_effect consume_effect release_effect
  by (metis prod.collapse)+

end

definition lg_opened :: "budget_kind \<Rightarrow> budget_ledger \<Rightarrow> nat" where
  "lg_opened kind l = unat (bc_reserved (lg_counters l kind))"

definition lg_used :: "budget_kind \<Rightarrow> budget_ledger \<Rightarrow> nat" where
  "lg_used kind l = unat (bc_reserved (lg_counters l kind)) + unat (bc_consumed (lg_counters l kind))"

definition lg_cap :: "budget_kind \<Rightarrow> budget_ledger \<Rightarrow> nat" where
  "lg_cap kind l = unat (limit_for kind (lg_limits l))"

lemma small_inc: "unat w < 2 ^ 32 \<Longrightarrow> unat (w + 1) = Suc (unat w)" for w :: u64
proof -
  assume small: "unat w < 2 ^ 32"
  have "w \<noteq> - 1"
  proof
    assume "w = - 1"
    then have "w = 0xFFFFFFFFFFFFFFFF" by simp
    with small show False by simp
  qed
  then show ?thesis by (rule unat_inc)
qed

lemma unat_dec: "w \<noteq> 0 \<Longrightarrow> unat (w - 1) = unat w - 1" for w :: "'a::len word"
  by (metis One_nat_def Suc_pred add.commute diff_Suc_1 diff_add_cancel unatSuc unat_gt_0)

lemma ledger_grants:
  assumes "within_limits l"
  shows "fst (ledger_reserve k l) = OK \<longleftrightarrow> lg_used k l < lg_cap k l"
    and "fst (ledger_consume_direct k l) = OK \<longleftrightarrow> lg_used k l < lg_cap k l"
    and "fst (ledger_consume k l) = OK \<longleftrightarrow> 0 < lg_opened k l"
    and "fst (ledger_release k l) = OK \<longleftrightarrow> 0 < lg_opened k l"
  using granted_iff [OF assms]
  by (auto simp: lg_used_def lg_cap_def lg_opened_def ledger_consume_def ledger_release_def Let_def unat_gt_0)

lemma ledger_counter_effects:
  assumes "within_limits l"
  shows "ledger_reserve k l = (OK, l') \<Longrightarrow>
      lg_limits l' = lg_limits l \<and> lg_cap k' l' = lg_cap k' l \<and>
      lg_opened k' l' = lg_opened k' l + of_bool (k' = k) \<and> lg_used k' l' = lg_used k' l + of_bool (k' = k) \<and>
      bc_released (lg_counters l' k') = bc_released (lg_counters l k')"
    and "ledger_consume k l = (OK, l') \<Longrightarrow>
      lg_limits l' = lg_limits l \<and> lg_cap k' l' = lg_cap k' l \<and>
      lg_opened k' l' + of_bool (k' = k) = lg_opened k' l \<and> lg_used k' l' = lg_used k' l \<and>
      bc_released (lg_counters l' k') = bc_released (lg_counters l k')"
    and "ledger_release k l = (OK, l') \<Longrightarrow>
      lg_limits l' = lg_limits l \<and> lg_cap k' l' = lg_cap k' l \<and>
      lg_opened k' l' + of_bool (k' = k) = lg_opened k' l \<and> lg_used k' l' + of_bool (k' = k) = lg_used k' l \<and>
      bc_released (lg_counters l' k') = bc_released (lg_counters l k') + of_bool (k' = k)"
    and "ledger_consume_direct k l = (OK, l') \<Longrightarrow>
      lg_limits l' = lg_limits l \<and> lg_cap k' l' = lg_cap k' l \<and>
      lg_opened k' l' = lg_opened k' l \<and> lg_used k' l' = lg_used k' l + of_bool (k' = k) \<and>
      bc_released (lg_counters l' k') = bc_released (lg_counters l k')"
  using within_limits_counter(2,3) [OF assms, of k]
  by (auto simp: ledger_reserve_def ledger_consume_def ledger_release_def ledger_consume_direct_def
      Let_def set_counter_def lg_opened_def lg_used_def lg_cap_def small_inc unat_dec unat_gt_0 split: if_splits)

lemma within_limits_iff: "within_limits l \<longleftrightarrow> (\<forall>k. lg_used k l \<le> lg_cap k l)"
  by (simp add: within_limits_def lg_used_def lg_cap_def)

lemma ledger_refused:
  "fst (ledger_reserve k l) \<noteq> OK \<Longrightarrow> snd (ledger_reserve k l) = l"
  "fst (ledger_consume k l) \<noteq> OK \<Longrightarrow> snd (ledger_consume k l) = l"
  "fst (ledger_release k l) \<noteq> OK \<Longrightarrow> snd (ledger_release k l) = l"
  "fst (ledger_consume_direct k l) \<noteq> OK \<Longrightarrow> snd (ledger_consume_direct k l) = l"
  by (auto simp: ledger_reserve_def ledger_consume_def ledger_release_def ledger_consume_direct_def Let_def)

lemma ledger_apply_refused: "fst (ledger_apply e l) \<noteq> OK \<Longrightarrow> snd (ledger_apply e l) = l"
  by (cases e) (simp_all add: ledger_refused)

lemma within_limits_after:
  assumes "within_limits l" and "ledger_apply e l = (OK, l')"
  shows "within_limits l'"
proof (unfold within_limits_iff, intro allI)
  fix k'
  have le: "lg_used k' l \<le> lg_cap k' l"
    using assms(1) by (simp add: within_limits_iff)
  show "lg_used k' l' \<le> lg_cap k' l'"
  proof (cases e)
    case (Reserve k)
    then have eq: "ledger_reserve k l = (OK, l')" using assms(2) by simp
    then have "lg_used k l < lg_cap k l" using ledger_grants(1) [OF assms(1), of k] by simp
    then show ?thesis
      using ledger_counter_effects(1) [OF assms(1) eq, of k'] le by (cases "k' = k") simp_all
  next
    case (ConsumeDirect k)
    then have eq: "ledger_consume_direct k l = (OK, l')" using assms(2) by simp
    then have "lg_used k l < lg_cap k l" using ledger_grants(2) [OF assms(1), of k] by simp
    then show ?thesis
      using ledger_counter_effects(4) [OF assms(1) eq, of k'] le by (cases "k' = k") simp_all
  next
    case (Consume k)
    then show ?thesis
      using ledger_counter_effects(2) [OF assms(1), of k l' k'] assms(2) le by (cases "k' = k") simp_all
  next
    case (Release k)
    then show ?thesis
      using ledger_counter_effects(3) [OF assms(1), of k l' k'] assms(2) le by (cases "k' = k") simp_all
  qed
qed

interpretation budget: reservation_ledger ledger_reserve ledger_consume ledger_release
  lg_opened lg_used lg_cap within_limits
proof unfold_locales
  fix k k' l l'
  assume ok: "within_limits l"
  show "lg_used k l \<le> lg_cap k l"
    using ok by (simp add: within_limits_iff)
  show "fst (ledger_reserve k l) = OK \<longleftrightarrow> lg_used k l < lg_cap k l"
    "fst (ledger_consume k l) = OK \<longleftrightarrow> 0 < lg_opened k l"
    "fst (ledger_release k l) = OK \<longleftrightarrow> 0 < lg_opened k l"
    using ledger_grants [OF ok] by auto
  show "within_limits l' \<and> lg_cap k' l' = lg_cap k' l \<and>
      lg_opened k' l' = (if k' = k then Suc (lg_opened k l) else lg_opened k' l) \<and>
      lg_used k' l' = (if k' = k then Suc (lg_used k l) else lg_used k' l)"
    if "ledger_reserve k l = (OK, l')"
    using that ledger_counter_effects(1) [OF ok that, of k'] within_limits_after [OF ok, of "Reserve k" l']
    by (cases "k' = k") simp_all
  show "within_limits l' \<and> lg_cap k' l' = lg_cap k' l \<and>
      lg_opened k' l' = (if k' = k then lg_opened k l - 1 else lg_opened k' l) \<and>
      lg_used k' l' = lg_used k' l"
    if "ledger_consume k l = (OK, l')"
    using that ledger_counter_effects(2) [OF ok that, of k'] within_limits_after [OF ok, of "Consume k" l']
    by (cases "k' = k") auto
  show "within_limits l' \<and> lg_cap k' l' = lg_cap k' l \<and>
      lg_opened k' l' = (if k' = k then lg_opened k l - 1 else lg_opened k' l) \<and>
      lg_used k' l' = (if k' = k then lg_used k l - 1 else lg_used k' l)"
    if "ledger_release k l = (OK, l')"
    using that ledger_counter_effects(3) [OF ok that, of k'] within_limits_after [OF ok, of "Release k" l']
    by (cases "k' = k") auto
qed (simp_all add: ledger_refused)

section \<open>Conservation\<close>

lemma ledger_apply_effect:
  assumes "within_limits l" and "ledger_apply e l = (OK, l')"
  shows "lg_opened k l' + of_bool (e = Consume k) + of_bool (e = Release k)
        = lg_opened k l + of_bool (e = Reserve k)"
    and "lg_used k l' + of_bool (e = Release k)
        = lg_used k l + of_bool (e = Reserve k) + of_bool (e = ConsumeDirect k)"
    and "bc_released (lg_counters l' k) = bc_released (lg_counters l k) + of_bool (e = Release k)"
proof -
  have "lg_opened k l' + of_bool (e = Consume k) + of_bool (e = Release k)
        = lg_opened k l + of_bool (e = Reserve k) \<and>
      lg_used k l' + of_bool (e = Release k)
        = lg_used k l + of_bool (e = Reserve k) + of_bool (e = ConsumeDirect k) \<and>
      bc_released (lg_counters l' k) = bc_released (lg_counters l k) + of_bool (e = Release k)"
  proof (cases e)
    case (Reserve b)
    then show ?thesis
      using assms(2) ledger_counter_effects(1) [OF assms(1), of b l' k] by (cases "k = b") simp_all
  next
    case (Consume b)
    then show ?thesis
      using assms(2) ledger_counter_effects(2) [OF assms(1), of b l' k] by (cases "k = b") simp_all
  next
    case (Release b)
    then show ?thesis
      using assms(2) ledger_counter_effects(3) [OF assms(1), of b l' k] by (cases "k = b") simp_all
  next
    case (ConsumeDirect b)
    then show ?thesis
      using assms(2) ledger_counter_effects(4) [OF assms(1), of b l' k] by (cases "k = b") simp_all
  qed
  then show "lg_opened k l' + of_bool (e = Consume k) + of_bool (e = Release k)
        = lg_opened k l + of_bool (e = Reserve k)"
    and "lg_used k l' + of_bool (e = Release k)
        = lg_used k l + of_bool (e = Reserve k) + of_bool (e = ConsumeDirect k)"
    and "bc_released (lg_counters l' k) = bc_released (lg_counters l k) + of_bool (e = Release k)"
    by blast+
qed

lemma ledger_run_effect:
  assumes "within_limits l" and "ledger_run es l = (granted, l')"
  shows "within_limits l'" and "lg_limits l' = lg_limits l"
    and "lg_opened k l' + count_list granted (Consume k) + count_list granted (Release k)
        = lg_opened k l + count_list granted (Reserve k)"
    and "lg_used k l' + count_list granted (Release k)
        = lg_used k l + count_list granted (Reserve k) + count_list granted (ConsumeDirect k)"
    and "bc_released (lg_counters l' k)
        = bc_released (lg_counters l k) + of_nat (count_list granted (Release k))"
proof -
  have "within_limits l' \<and> lg_limits l' = lg_limits l \<and>
    lg_opened k l' + count_list granted (Consume k) + count_list granted (Release k)
        = lg_opened k l + count_list granted (Reserve k) \<and>
    lg_used k l' + count_list granted (Release k)
        = lg_used k l + count_list granted (Reserve k) + count_list granted (ConsumeDirect k) \<and>
    bc_released (lg_counters l' k)
        = bc_released (lg_counters l k) + of_nat (count_list granted (Release k))"
    using assms
  proof (induction es arbitrary: l l' granted)
    case Nil
    then show ?case by simp
  next
    case (Cons e es)
    obtain r l1 where step: "ledger_apply e l = (r, l1)" by force
    show ?case
    proof (cases r)
      case (Inl err)
      then have "l1 = l"
        using step ledger_apply_refused [of e l] by simp
      then have "ledger_run es l = (granted, l')"
        using Cons.prems(2) step Inl by simp
      then show ?thesis by (rule Cons.IH [OF Cons.prems(1)])
    next
      case (Inr u)
      then have ok: "ledger_apply e l = (OK, l1)" using step by simp
      obtain granted' l2 where run: "ledger_run es l1 = (granted', l2)" by force
      then have "granted = e # granted'" and "l' = l2"
        using Cons.prems(2) ok by simp_all
      note step = ledger_apply_effect [OF Cons.prems(1) ok, of k]
      note IH = Cons.IH [OF within_limits_after [OF Cons.prems(1) ok] run]
      have g: "count_list granted c = of_bool (e = c) + count_list granted' c" for c
        by (simp add: \<open>granted = e # granted'\<close>)
      have l1: "lg_limits l1 = lg_limits l"
        using lg_limits_apply [of e l] ok by simp
      have "lg_opened k l2 + count_list granted' (Consume k) + count_list granted' (Release k)
          = lg_opened k l1 + count_list granted' (Reserve k)"
        and "lg_used k l2 + count_list granted' (Release k)
          = lg_used k l1 + count_list granted' (Reserve k) + count_list granted' (ConsumeDirect k)"
        and IH': "within_limits l2" "lg_limits l2 = lg_limits l1"
          "bc_released (lg_counters l2 k) = bc_released (lg_counters l1 k) + of_nat (count_list granted' (Release k))"
        using IH by blast+
      then have "lg_opened k l2 + (of_bool (e = Consume k) + count_list granted' (Consume k))
            + (of_bool (e = Release k) + count_list granted' (Release k))
          = lg_opened k l + (of_bool (e = Reserve k) + count_list granted' (Reserve k))"
        and "lg_used k l2 + (of_bool (e = Release k) + count_list granted' (Release k))
          = lg_used k l + (of_bool (e = Reserve k) + count_list granted' (Reserve k))
            + (of_bool (e = ConsumeDirect k) + count_list granted' (ConsumeDirect k))"
        using step(1,2) by linarith+
      moreover have "bc_released (lg_counters l2 k)
          = bc_released (lg_counters l k) + of_nat (of_bool (e = Release k) + count_list granted' (Release k))"
        unfolding IH'(3) step(3) by simp
      ultimately show ?thesis
        unfolding g \<open>l' = l2\<close> using IH'(1,2) l1 by metis
    qed
  qed
  then show "within_limits l'" and "lg_limits l' = lg_limits l"
    and "lg_opened k l' + count_list granted (Consume k) + count_list granted (Release k)
        = lg_opened k l + count_list granted (Reserve k)"
    and "lg_used k l' + count_list granted (Release k)
        = lg_used k l + count_list granted (Reserve k) + count_list granted (ConsumeDirect k)"
    and "bc_released (lg_counters l' k)
        = bc_released (lg_counters l k) + of_nat (count_list granted (Release k))"
    by blast+
qed

text \<open>Without a wrap, the sum of the open reservations is zero only when every one is.\<close>

lemma open_reservations_fold:
  assumes "within_limits l" and "unat acc + 2 ^ 32 * length kinds < 2 ^ 64"
  shows "unat (foldl (\<lambda>total kind. total + bc_reserved (lg_counters l kind)) acc kinds) =
    unat acc + sum_list (map (\<lambda>kind. unat (bc_reserved (lg_counters l kind))) kinds)"
  using assms(2)
proof (induction kinds arbitrary: acc)
  case (Cons kind kinds)
  let ?r = "bc_reserved (lg_counters l kind)"
  have r: "unat ?r < 2 ^ 32"
    by (rule within_limits_counter(2) [OF assms(1)])
  then have sum: "unat (acc + ?r) = unat acc + unat ?r"
    using Cons.prems by (subst unat_add_lem [THEN iffD1]) auto
  show ?case
    using Cons.IH [of "acc + ?r"] Cons.prems r by (simp add: sum)
qed simp

lemma open_reservations_zero:
  assumes "within_limits l"
  shows "open_reservations l = 0 \<longleftrightarrow> (\<forall>kind. lg_opened kind l = 0)"
proof -
  have "unat (open_reservations l) = sum_list (map (\<lambda>kind. lg_opened kind l) all_budget_kinds)"
    unfolding open_reservations_def lg_opened_def
    by (subst open_reservations_fold [OF assms]) (simp_all add: all_budget_kinds_def)
  then show ?thesis
    using all_budget_kinds_complete by (auto simp: unat_eq_0 sum_list_eq_0_iff word_unat_eq_iff)
qed

lemma check_balanced_iff: "check_balanced l = OK \<longleftrightarrow> (\<forall>kind. lg_opened kind l = 0)"
  using all_budget_kinds_complete
  by (auto simp: check_balanced_def Let_def filter_empty_conv lg_opened_def unat_eq_0)

section \<open>Properties\<close>

text \<open>
  Over any sequence of reservations, consumptions and releases on a fresh ledger,
  every budget conserves its units (the open reservations are the granted ones less the
  resolved ones, the consumed units are the resolved and the directly consumed ones) and
  never holds more than its limit; and the ledger reports itself balanced exactly when no
  reservation is open, which is exactly when its sum of open reservations is zero.
\<close>

theorem ledger_conserves_budget:
  "let (granted, l) = ledger_run events (make_ledger limits); c = lg_counters l kind in
     unat (bc_reserved c) + count_list granted (Consume kind) + count_list granted (Release kind)
       = count_list granted (Reserve kind) \<and>
     unat (bc_consumed c) = count_list granted (Consume kind) + count_list granted (ConsumeDirect kind) \<and>
     bc_released c = of_nat (count_list granted (Release kind)) \<and>
     unat (bc_reserved c) + unat (bc_consumed c) \<le> unat (limit_for kind limits) \<and>
     (check_balanced l = OK \<longleftrightarrow> open_reservations l = 0)"
proof -
  obtain granted l where run: "ledger_run events (make_ledger limits) = (granted, l)"
    by force
  note effect = ledger_run_effect [OF within_limits_make run]
  have fresh: "lg_opened kind (make_ledger limits) = 0" "lg_used kind (make_ledger limits) = 0"
    "bc_released (lg_counters (make_ledger limits) kind) = 0" "lg_limits (make_ledger limits) = limits"
    by (simp_all add: lg_opened_def lg_used_def make_ledger_def zero_counter_def)
  have opened: "lg_opened kind l + count_list granted (Consume kind) + count_list granted (Release kind)
      = count_list granted (Reserve kind)"
    using effect(3) [of kind] fresh by simp
  have used: "lg_used kind l + count_list granted (Release kind)
      = count_list granted (Reserve kind) + count_list granted (ConsumeDirect kind)"
    using effect(4) [of kind] fresh by simp
  have bound: "lg_used kind l \<le> unat (limit_for kind limits)"
    using effect(1,2) fresh by (simp add: within_limits_iff lg_cap_def)
  have used_eq: "lg_used kind l = lg_opened kind l + unat (bc_consumed (lg_counters l kind))"
    by (simp add: lg_used_def lg_opened_def)
  have consumed: "unat (bc_consumed (lg_counters l kind))
      = count_list granted (Consume kind) + count_list granted (ConsumeDirect kind)"
    using opened used used_eq by linarith
  have "bc_released (lg_counters l kind) = of_nat (count_list granted (Release kind))"
    using effect(5) [of kind] fresh by simp
  moreover have "check_balanced l = OK \<longleftrightarrow> open_reservations l = 0"
    using open_reservations_zero [OF effect(1)] by (simp add: check_balanced_iff)
  ultimately show ?thesis
    using opened consumed bound by (simp add: run lg_opened_def lg_used_def)
qed

text \<open>
  The ledger grants a reservation exactly while the budget has capacity, resolves one
  exactly while one is open, and a refused operation changes nothing; a reservation that is
  released at once leaves every budget as it was.
\<close>

theorem ledger_grants_exactly:
  assumes "within_limits l"
  shows "(fst (ledger_reserve kind l) = OK \<longleftrightarrow> has_capacity kind l) \<and>
     (fst (ledger_consume kind l) = OK \<longleftrightarrow> 0 < lg_opened kind l) \<and>
     (fst (ledger_release kind l) = OK \<longleftrightarrow> 0 < lg_opened kind l) \<and>
     (fst (ledger_reserve kind l) \<noteq> OK \<longrightarrow> ledger_reserve kind l = (Inl E_BudgetExhausted, l)) \<and>
     (fst (ledger_reserve kind l) = OK \<longrightarrow>
        fst (ledger_release kind (snd (ledger_reserve kind l))) = OK \<and>
        (\<forall>k. lg_used k (snd (ledger_release kind (snd (ledger_reserve kind l)))) = lg_used k l))"
proof -
  have capacity: "fst (ledger_reserve kind l) = OK \<longleftrightarrow> has_capacity kind l"
    by (auto simp: ledger_reserve_def Let_def has_capacity_def lg_in_use_def)
  have refuse: "fst (ledger_reserve kind l) \<noteq> OK \<longrightarrow> ledger_reserve kind l = (Inl E_BudgetExhausted, l)"
    by (auto simp: ledger_reserve_def Let_def)
  have "fst (ledger_release kind (snd (ledger_reserve kind l))) = OK \<and>
        (\<forall>k. lg_used k (snd (ledger_release kind (snd (ledger_reserve kind l)))) = lg_used k l)"
    if "fst (ledger_reserve kind l) = OK"
  proof -
    have "ledger_reserve kind l = (OK, snd (ledger_reserve kind l))"
      using that by (metis prod.collapse)
    then obtain l'' where "ledger_release kind (snd (ledger_reserve kind l)) = (OK, l'')"
      and "\<And>k'. lg_used k' l'' = lg_used k' l"
      using budget.reserve_then_release [OF assms] by blast
    then show ?thesis by simp
  qed
  then show ?thesis
    using capacity refuse budget.consume_iff [OF assms] budget.release_iff [OF assms] by blast
qed

theorem ledger_grants_exactly_witness:
  "fst (ledger_reserve BK_Retries (make_ledger default_budget_limits)) = OK"
  using ledger_grants_exactly [OF within_limits_make, of BK_Retries default_budget_limits]
  by (simp add: has_capacity_def lg_in_use_def lg_limit_def make_ledger_def zero_counter_def
      counter_in_use_def default_budget_limits_def)

end
