(* ===== verification/Artifact.thy ===== *)
theory Artifact
  imports Encoding
begin

text \<open>
  Artifact references (artifact.hpp, artifact.cpp): validation of logical names and
  references, and the order-independent canonical encoding of a set of references whose
  SHA-256 is the artifact digest.
\<close>

definition kMaxArtifactsPerCandidate :: nat where "kMaxArtifactsPerCandidate = 64"
definition kMaxArtifactNameLength :: nat where "kMaxArtifactNameLength = 256"
definition kMaxArtifactBytes :: u64 where "kMaxArtifactBytes = 16 * 1024 * 1024"
definition kArtifactDigestHexLength :: nat where "kArtifactDigestHexLength = 64"

record artifact_ref =
  art_name :: string
  art_size :: u64
  art_digest :: string

definition artifact_less :: "artifact_ref \<Rightarrow> artifact_ref \<Rightarrow> bool" where
  "artifact_less a b \<longleftrightarrow>
    (if art_name a \<noteq> art_name b then art_name a < art_name b
     else if art_size a \<noteq> art_size b then art_size a < art_size b
     else art_digest a < art_digest b)"

definition kReservedDeviceNames :: "string list" where
  "kReservedDeviceNames =
    [''con'', ''prn'', ''aux'', ''nul'', ''com1'', ''com2'', ''com3'', ''com4'', ''com5'', ''com6'',
     ''com7'', ''com8'', ''com9'', ''lpt1'', ''lpt2'', ''lpt3'', ''lpt4'', ''lpt5'', ''lpt6'',
     ''lpt7'', ''lpt8'', ''lpt9'']"

definition lower_char :: "char \<Rightarrow> char" where
  "lower_char c =
    (if 65 \<le> (of_char c :: nat) \<and> (of_char c :: nat) \<le> 90 then char_of (of_char c + 32 :: nat) else c)"

definition is_reserved_device_name :: "string \<Rightarrow> bool" where
  "is_reserved_device_name base \<longleftrightarrow> map lower_char base \<in> set kReservedDeviceNames"

fun has_infix :: "string \<Rightarrow> string \<Rightarrow> bool" where
  "has_infix p [] \<longleftrightarrow> p = []"
| "has_infix p (c # cs) \<longleftrightarrow> take (length p) (c # cs) = p \<or> has_infix p cs"

definition validate_artifact_name :: "string \<Rightarrow> status" where
  "validate_artifact_name name = first_failure
    [require (name \<noteq> []) E_UnsafePath,
     require (length name \<le> kMaxArtifactNameLength) E_UnsafePath,
     require (list_all is_allowed_name_byte name) E_UnsafePath,
     require (hd name \<noteq> CHR ''.'') E_UnsafePath,
     require (last name \<noteq> CHR ''.'') E_UnsafePath,
     require (\<not> has_infix ''..'' name) E_UnsafePath,
     require (\<not> is_reserved_device_name (takeWhile (\<lambda>c. c \<noteq> CHR ''.'') name)) E_UnsafePath]"

definition validate_artifact_ref :: "artifact_ref \<Rightarrow> status" where
  "validate_artifact_ref r = first_failure
    [validate_artifact_name (art_name r),
     require (art_size r \<le> kMaxArtifactBytes) E_LengthOutOfRange,
     require (length (art_digest r) = kArtifactDigestHexLength) E_MalformedEncoding,
     require (is_lowercase_hex (art_digest r) kArtifactDigestHexLength) E_MalformedEncoding]"

definition artifact_fields :: "artifact_ref \<Rightarrow> field list" where
  "artifact_fields r =
    [(''name'', art_name r), field_u64 ''size_bytes'' (art_size r), (''content_digest'', art_digest r)]"

definition encode_artifact_set :: "artifact_ref list \<Rightarrow> string" where
  "encode_artifact_set artifacts =
    encode_fields (field_group ''artifact_count'' artifact_fields (sort_by artifact_less artifacts))"

definition artifact_set_digest :: "artifact_ref list \<Rightarrow> string" where
  "artifact_set_digest artifacts = sha256_hex (encode_artifact_set artifacts)"

lemma artifact_eqI:
  "art_name a = art_name b \<Longrightarrow> art_size a = art_size b \<Longrightarrow> art_digest a = art_digest b \<Longrightarrow> a = b"
  for a b :: artifact_ref
  by (cases a; cases b) simp

text \<open>\<^verbatim>\<open>ArtifactRef::operator<\<close> is a strict total order, so sorting by it is canonical.\<close>

interpretation artifact_order: comparator_on artifact_less UNIV
proof unfold_locales
  fix x y z :: artifact_ref
  show "\<not> artifact_less x x" by (simp add: artifact_less_def)
  show "artifact_less x y \<Longrightarrow> artifact_less y z \<Longrightarrow> artifact_less x z"
    by (auto simp: artifact_less_def split: if_splits)
  show "\<not> artifact_less x y \<Longrightarrow> \<not> artifact_less y z \<Longrightarrow> \<not> artifact_less x z"
    by (auto simp: artifact_less_def split: if_splits)
qed

lemma artifact_less_total: "\<not> artifact_less a b \<Longrightarrow> \<not> artifact_less b a \<Longrightarrow> a = b"
  by (intro artifact_eqI) (auto simp: artifact_less_def split: if_splits)

lemma artifact_fields_inject: "artifact_fields a = artifact_fields b \<longleftrightarrow> a = b"
  by (auto simp: artifact_fields_def intro: artifact_eqI)

lemma artifact_fields_plain:
  "f \<in> set (field_group ''artifact_count'' artifact_fields xs) \<Longrightarrow> plain_name (fst f)"
  by (auto simp: field_group_def field_count_def artifact_fields_def field_u64_def plain_name_def)

lemma encode_artifact_set_iff: "encode_artifact_set xs = encode_artifact_set ys \<longleftrightarrow> mset xs = mset ys"
proof
  assume "mset xs = mset ys"
  then have "sort_by artifact_less xs = sort_by artifact_less ys"
    by (intro artifact_order.sort_by_permutation) (auto intro: artifact_less_total)
  then show "encode_artifact_set xs = encode_artifact_set ys"
    by (simp add: encode_artifact_set_def)
next
  assume "encode_artifact_set xs = encode_artifact_set ys"
  then have "field_group ''artifact_count'' artifact_fields (sort_by artifact_less xs) =
      field_group ''artifact_count'' artifact_fields (sort_by artifact_less ys)"
    unfolding encode_artifact_set_def by (intro encode_fields_inject) (auto dest: artifact_fields_plain)
  then have "map artifact_fields (sort_by artifact_less xs) = map artifact_fields (sort_by artifact_less ys)"
    by (rule field_group_inject_end [where k = 3]) (simp add: artifact_fields_def)
  moreover have "inj artifact_fields"
    by (rule injI) (simp add: artifact_fields_inject)
  ultimately have "sort_by artifact_less xs = sort_by artifact_less ys"
    by (metis inj_map_eq_map)
  then show "mset xs = mset ys"
    by (metis mset_sort_by)
qed

lemma has_infix_iff: "has_infix p s \<longleftrightarrow> (\<exists>a b. s = a @ p @ b)"
proof (induction s)
  case Nil
  then show ?case by simp
next
  case (Cons c s)
  have "take (length p) (c # s) = p \<longleftrightarrow> (\<exists>b. c # s = p @ b)"
    by (metis append_eq_conv_conj append_take_drop_id)
  then show ?case
    using Cons by (auto simp: Cons_eq_append_conv)
qed

text \<open>A name that is accepted is one path component with no meaning to a file system.\<close>

lemma accepted_name_safe:
  assumes "validate_artifact_name name = OK"
  shows "name \<noteq> []" and "CHR ''/'' \<notin> set name" and "CHR 0x5C \<notin> set name" and "CHR '':'' \<notin> set name"
    and "\<And>a b. name \<noteq> a @ ''..'' @ b" and "list_all (\<lambda>c. 32 < (of_char c :: nat) \<and> (of_char c :: nat) < 127) name"
proof -
  have ne: "name \<noteq> []" and all: "list_all is_allowed_name_byte name" and dots: "\<not> has_infix ''..'' name"
    using assms by (simp_all add: validate_artifact_name_def)
  show "name \<noteq> []" by (rule ne)
  show "CHR ''/'' \<notin> set name" "CHR 0x5C \<notin> set name" "CHR '':'' \<notin> set name"
    using all by (auto simp: list_all_iff is_allowed_name_byte_def is_ascii_letter_def is_digit_char_def)
  show "name \<noteq> a @ ''..'' @ b" for a b
    using dots by (auto simp: has_infix_iff)
  show "list_all (\<lambda>c. 32 < (of_char c :: nat) \<and> (of_char c :: nat) < 127) name"
    using all by (auto simp: list_all_iff is_allowed_name_byte_def is_ascii_letter_def is_digit_char_def)
qed

end
