(* ===== verification/Task.thy ===== *)
theory Task
  imports Artifact Accounting Identity
begin

text \<open>
  The task contract (task.hpp, task.cpp): inputs, required outputs, evaluation requirements,
  the structural validation, and the canonical encoding whose SHA-256 is the task digest.
\<close>

record input_file =
  in_name :: string
  in_content :: string
  in_digest :: string

datatype (plugins only: code size) requirement_class = RC_Mandatory | RC_Optional

primrec requirement_class_ordinal :: "requirement_class \<Rightarrow> u32" where
  "requirement_class_ordinal RC_Mandatory = 0"
| "requirement_class_ordinal RC_Optional = 1"

primrec requirement_class_name :: "requirement_class \<Rightarrow> string" where
  "requirement_class_name RC_Mandatory = ''Mandatory''"
| "requirement_class_name RC_Optional = ''Optional''"

record evaluation_requirement =
  req_class :: requirement_class
  req_key :: string
  req_description :: string
  req_has_score_floor :: bool
  req_score_floor :: binary64
  req_ranking_weight :: binary64

record task_spec =
  task_id_of :: task_id
  task_gen :: task_generation
  task_name :: string
  task_objective :: string
  task_inputs :: "input_file list"
  task_required_outputs :: "string list"
  task_requirements :: "evaluation_requirement list"
  task_hard_constraints :: "string list"
  task_closure_criteria :: "string list"
  task_policy :: policy_id
  task_policy_gen :: policy_generation
  task_budgets :: budget_limits
  task_digest :: string

definition find_requirement :: "string \<Rightarrow> task_spec \<Rightarrow> evaluation_requirement option" where
  "find_requirement key t = find (\<lambda>r. req_key r = key) (task_requirements t)"

definition mandatory_requirement_count :: "task_spec \<Rightarrow> nat" where
  "mandatory_requirement_count t = length (filter (\<lambda>r. req_class r = RC_Mandatory) (task_requirements t))"

section \<open>Canonical encoding\<close>

definition input_is_ordered_before :: "input_file \<Rightarrow> input_file \<Rightarrow> bool" where
  "input_is_ordered_before l r \<longleftrightarrow>
    (if in_name l \<noteq> in_name r then in_name l < in_name r
     else if length (in_content l) \<noteq> length (in_content r)
       then length (in_content l) < length (in_content r)
     else if in_content l \<noteq> in_content r then in_content l < in_content r
     else in_digest l < in_digest r)"

definition input_fields :: "input_file \<Rightarrow> field list" where
  "input_fields i =
    [(''input_name'', in_name i), (''input_content'', in_content i), (''input_content_digest'', in_digest i)]"

definition requirement_fields :: "evaluation_requirement \<Rightarrow> field list" where
  "requirement_fields r =
    [field_u32 ''requirement_class'' (requirement_class_ordinal (req_class r)),
     (''requirement_key'', req_key r),
     (''requirement_description'', req_description r),
     field_bool ''requirement_has_score_floor'' (req_has_score_floor r),
     field_binary64 ''requirement_score_floor'' (req_score_floor r),
     field_binary64 ''requirement_ranking_weight'' (req_ranking_weight r)]"

definition budget_fields :: "budget_limits \<Rightarrow> field list" where
  "budget_fields b =
    [field_u32 ''budget_max_candidate_attempts'' (max_candidate_attempts b),
     field_u32 ''budget_max_worker_assignments'' (max_worker_assignments b),
     field_u32 ''budget_max_evaluation_attempts'' (max_evaluation_attempts b),
     field_u32 ''budget_max_retained_candidates'' (max_retained_candidates b),
     field_u32 ''budget_max_retries'' (max_retries b),
     field_u32 ''budget_max_candidates'' (max_candidates b),
     field_u32 ''budget_max_workers'' (max_workers b),
     field_u32 ''budget_max_active_attempts'' (max_active_attempts b),
     field_u32 ''budget_max_evaluation_concurrency'' (max_evaluation_concurrency b)]"

definition task_fields :: "task_spec \<Rightarrow> field list" where
  "task_fields t =
    [field_u64 ''task_id'' (raw (task_id_of t)),
     field_u32 ''task_generation'' (gen_value (task_gen t)),
     (''name'', task_name t),
     (''objective'', task_objective t)]
    @ field_group ''input_count'' input_fields (sort_by input_is_ordered_before (task_inputs t))
    @ field_group ''required_output_count'' (\<lambda>s. [(''required_output_name'', s)])
        (sort_by (<) (task_required_outputs t))
    @ field_group ''requirement_count'' requirement_fields (task_requirements t)
    @ field_group ''hard_constraint_count'' (\<lambda>s. [(''hard_constraint'', s)]) (task_hard_constraints t)
    @ field_group ''closure_criterion_count'' (\<lambda>s. [(''closure_criterion'', s)]) (task_closure_criteria t)
    @ [field_u64 ''policy_id'' (raw (task_policy t)),
       field_u32 ''policy_generation'' (gen_value (task_policy_gen t))]
    @ budget_fields (task_budgets t)"

definition encode_task_canonical :: "task_spec \<Rightarrow> string" where
  "encode_task_canonical t = encode_fields (task_fields t)"

definition compute_task_digest :: "task_spec \<Rightarrow> string result" where
  "compute_task_digest t = Inr (sha256_hex (encode_task_canonical t))"

section \<open>Validation\<close>

definition is_printable_ascii :: "char \<Rightarrow> bool" where
  "is_printable_ascii c \<longleftrightarrow> 0x20 \<le> (of_char c :: nat) \<and> (of_char c :: nat) \<le> 0x7E"

definition validate_task_input :: "input_file list \<Rightarrow> input_file \<Rightarrow> status" where
  "validate_task_input earlier input = first_failure
    [validate_artifact_name (in_name input),
     require (length (in_content input) \<le> kMaxInputFileBytes) E_LengthOutOfRange,
     require (in_digest input = sha256_hex (in_content input)) E_MalformedEncoding,
     require (in_name input \<notin> in_name ` set earlier) E_DuplicateIdentity]"

definition validate_required_output :: "string list \<Rightarrow> string \<Rightarrow> status" where
  "validate_required_output earlier output = first_failure
    [validate_artifact_name output,
     require (output \<notin> set earlier) E_DuplicateIdentity]"

definition validate_requirement ::
  "evaluation_requirement list \<Rightarrow> evaluation_requirement \<Rightarrow> status" where
  "validate_requirement earlier r = first_failure
    [validate_evaluator_key (req_key r),
     require (b64_is_finite (req_ranking_weight r)) E_InvalidArgument,
     require (\<not> b64_less (req_ranking_weight r) b64_zero) E_InvalidArgument,
     require (\<not> (req_has_score_floor r \<and> \<not> b64_is_finite (req_score_floor r))) E_InvalidArgument,
     require (req_key r \<notin> req_key ` set earlier) E_DuplicateIdentity]"

definition validate_task :: "task_spec \<Rightarrow> status" where
  "validate_task t = first_failure
    [require (id_valid (task_id_of t)) E_NullIdentity,
     require (gen_valid (task_gen t)) E_InvalidArgument,
     require (task_name t \<noteq> [] \<and> length (task_name t) \<le> kMaxNameLength) E_LengthOutOfRange,
     require (list_all is_printable_ascii (task_name t)) E_MalformedEncoding,
     require (length (task_objective t) \<le> kMaxObjectiveLength) E_LengthOutOfRange,
     require (length (task_inputs t) \<le> kMaxInputFiles) E_LengthOutOfRange,
     each_with_earlier validate_task_input [] (task_inputs t),
     require (length (task_required_outputs t) \<le> kMaxRequiredOutputs) E_LengthOutOfRange,
     each_with_earlier validate_required_output [] (task_required_outputs t),
     require (length (task_requirements t) \<le> kMaxEvaluationRequirements) E_LengthOutOfRange,
     each_with_earlier validate_requirement [] (task_requirements t),
     require (length (task_hard_constraints t) \<le> kMaxConstraints) E_LengthOutOfRange,
     require (length (task_closure_criteria t) \<le> kMaxConstraints) E_LengthOutOfRange,
     for_all (\<lambda>c. require (length c \<le> kMaxNameLength) E_LengthOutOfRange) (task_closure_criteria t),
     require (id_valid (task_policy t)) E_NullIdentity,
     require (gen_valid (task_policy_gen t)) E_InvalidArgument,
     budget_limits_validate (task_budgets t)]"

definition tasks_are_compatible :: "task_spec \<Rightarrow> task_spec \<Rightarrow> bool" where
  "tasks_are_compatible a b \<longleftrightarrow>
    task_id_of a = task_id_of b \<and> task_gen a = task_gen b \<and> task_digest a = task_digest b"

section \<open>The encoding determines the contract\<close>

text \<open>
  What a task says: everything but the digest itself, inputs and required outputs as
  multisets, negative zero equal to zero.
\<close>

definition same_requirement :: "evaluation_requirement \<Rightarrow> evaluation_requirement \<Rightarrow> bool" where
  "same_requirement a b \<longleftrightarrow>
    req_class a = req_class b \<and> req_key a = req_key b \<and> req_description a = req_description b \<and>
    req_has_score_floor a = req_has_score_floor b \<and>
    same_binary64 (req_score_floor a) (req_score_floor b) \<and>
    same_binary64 (req_ranking_weight a) (req_ranking_weight b)"

definition same_contract :: "task_spec \<Rightarrow> task_spec \<Rightarrow> bool" where
  "same_contract a b \<longleftrightarrow>
    task_id_of a = task_id_of b \<and> task_gen a = task_gen b \<and> task_name a = task_name b \<and>
    task_objective a = task_objective b \<and> mset (task_inputs a) = mset (task_inputs b) \<and>
    mset (task_required_outputs a) = mset (task_required_outputs b) \<and>
    list_all2 same_requirement (task_requirements a) (task_requirements b) \<and>
    task_hard_constraints a = task_hard_constraints b \<and>
    task_closure_criteria a = task_closure_criteria b \<and>
    task_policy a = task_policy b \<and> task_policy_gen a = task_policy_gen b \<and>
    task_budgets a = task_budgets b"

lemma input_eqI:
  "in_name a = in_name b \<Longrightarrow> in_content a = in_content b \<Longrightarrow> in_digest a = in_digest b \<Longrightarrow> a = b"
  for a b :: input_file
  by (cases a; cases b) simp

interpretation input_order: comparator_on input_is_ordered_before UNIV
proof unfold_locales
  fix x y z :: input_file
  show "\<not> input_is_ordered_before x x" by (simp add: input_is_ordered_before_def)
  show "input_is_ordered_before x y \<Longrightarrow> input_is_ordered_before y z \<Longrightarrow> input_is_ordered_before x z"
    by (auto simp: input_is_ordered_before_def split: if_splits)
  show "\<not> input_is_ordered_before x y \<Longrightarrow> \<not> input_is_ordered_before y z \<Longrightarrow> \<not> input_is_ordered_before x z"
    by (auto simp: input_is_ordered_before_def split: if_splits)
qed

lemma input_order_total: "\<not> input_is_ordered_before a b \<Longrightarrow> \<not> input_is_ordered_before b a \<Longrightarrow> a = b"
  by (intro input_eqI) (auto simp: input_is_ordered_before_def split: if_splits)

lemma sort_by_mset_iff:
  assumes "\<And>xs ys. mset xs = mset ys \<Longrightarrow> sort_by lt xs = sort_by lt ys"
  shows "sort_by lt xs = sort_by lt ys \<longleftrightarrow> mset xs = mset ys"
  using assms by (metis mset_sort_by)

lemma sorted_inputs_iff:
  "sort_by input_is_ordered_before xs = sort_by input_is_ordered_before ys \<longleftrightarrow> mset xs = mset ys"
  by (rule sort_by_mset_iff, rule input_order.sort_by_permutation) (auto intro: input_order_total)

lemma sorted_strings_iff: "sort_by (<) xs = sort_by (<) ys \<longleftrightarrow> mset xs = mset ys" for xs ys :: "string list"
  by (rule sort_by_mset_iff, rule ascending.sort_by_permutation) auto

lemma input_fields_inject: "map input_fields xs = map input_fields ys \<longleftrightarrow> xs = ys"
  by (rule inj_map_eq_map, rule injI) (auto simp: input_fields_def intro: input_eqI)

lemma single_fields_inject: "map (\<lambda>s. [(n, s)]) xs = map (\<lambda>s. [(n, s)]) ys \<longleftrightarrow> xs = ys"
  by (rule inj_map_eq_map, rule injI) simp

lemma requirement_ordinal_inject: "requirement_class_ordinal a = requirement_class_ordinal b \<longleftrightarrow> a = b"
  by (cases a; cases b) auto

lemma requirement_fields_same: "requirement_fields a = requirement_fields b \<longleftrightarrow> same_requirement a b"
  by (auto simp: requirement_fields_def same_requirement_def requirement_ordinal_inject)

lemma map_requirement_fields:
  "map requirement_fields xs = map requirement_fields ys \<longleftrightarrow> list_all2 same_requirement xs ys"
proof (induction xs arbitrary: ys)
  case (Cons x xs)
  then show ?case by (cases ys) (auto simp: requirement_fields_same)
qed simp

lemma budget_fields_inject: "budget_fields a = budget_fields b \<longleftrightarrow> a = b"
  by (cases a; cases b) (auto simp: budget_fields_def)

lemma task_groups:
  "field_group n input_fields xs @ r = field_group n input_fields ys @ s \<longleftrightarrow> xs = ys \<and> r = s"
  "field_group n requirement_fields us @ r = field_group n requirement_fields vs @ s \<longleftrightarrow>
     list_all2 same_requirement us vs \<and> r = s"
  "field_group n (\<lambda>s. [(m, s)]) ps @ r = field_group n (\<lambda>s. [(m, s)]) qs @ s \<longleftrightarrow> ps = qs \<and> r = s"
proof -
  have "length (input_fields i) = 3" "length (requirement_fields q) = 6" for i q
    by (simp_all add: input_fields_def requirement_fields_def)
  then show "field_group n input_fields xs @ r = field_group n input_fields ys @ s \<longleftrightarrow> xs = ys \<and> r = s"
    and "field_group n requirement_fields us @ r = field_group n requirement_fields vs @ s \<longleftrightarrow>
     list_all2 same_requirement us vs \<and> r = s"
    by (simp_all only: field_group_append_iff input_fields_inject map_requirement_fields)
  have "length [(m, s :: string)] = 1" for s by simp
  then show "field_group n (\<lambda>s. [(m, s)]) ps @ r = field_group n (\<lambda>s. [(m, s)]) qs @ s \<longleftrightarrow> ps = qs \<and> r = s"
    by (simp only: field_group_append_iff single_fields_inject)
qed

lemma budget_fields_plain [simp]: "plain_fields (budget_fields b)"
  by (simp add: budget_fields_def plain_name_def)

lemma task_fields_plain: "plain_fields (task_fields t)"
  by (simp add: task_fields_def input_fields_def requirement_fields_def plain_name_def)

lemma task_fields_same: "task_fields a = task_fields b \<longleftrightarrow> same_contract a b"
proof -
  have ids: "raw x = raw y \<longleftrightarrow> x = y" "gen_value g = gen_value h \<longleftrightarrow> g = h"
    for x y :: "'t strong_id" and g h :: "'u generation"
    by (auto intro: strong_id.expand generation.expand)
  show ?thesis
    unfolding task_fields_def same_contract_def
    by (auto simp: task_groups ids budget_fields_inject sorted_inputs_iff sorted_strings_iff)
qed

lemma encode_task_same: "encode_task_canonical a = encode_task_canonical b \<longleftrightarrow> same_contract a b"
  by (simp add: encode_task_canonical_def encode_plain_inject task_fields_plain task_fields_same)

end
