(* ===== verification/Policy.thy ===== *)
theory Policy
  imports Task
begin

text \<open>
  The foundry policy (policy.hpp, policy.cpp): ranking factors, retention limits, budgets, the
  validation that makes ranking a total order, the canonical encoding and the reference policy.
\<close>

datatype (plugins only: code size) ranking_factor_kind =
    RF_QualityScore | RF_EfficiencyScore | RF_EvaluationCompleteness | RF_LineageDepth
  | RF_AttemptCount | RF_ArtifactBytes | RF_CandidateIdTieBreak

primrec ranking_factor_ordinal :: "ranking_factor_kind \<Rightarrow> u32" where
  "ranking_factor_ordinal RF_QualityScore = 0"
| "ranking_factor_ordinal RF_EfficiencyScore = 1"
| "ranking_factor_ordinal RF_EvaluationCompleteness = 2"
| "ranking_factor_ordinal RF_LineageDepth = 3"
| "ranking_factor_ordinal RF_AttemptCount = 4"
| "ranking_factor_ordinal RF_ArtifactBytes = 5"
| "ranking_factor_ordinal RF_CandidateIdTieBreak = 6"

primrec ranking_factor_name :: "ranking_factor_kind \<Rightarrow> string" where
  "ranking_factor_name RF_QualityScore = ''QualityScore''"
| "ranking_factor_name RF_EfficiencyScore = ''EfficiencyScore''"
| "ranking_factor_name RF_EvaluationCompleteness = ''EvaluationCompleteness''"
| "ranking_factor_name RF_LineageDepth = ''LineageDepth''"
| "ranking_factor_name RF_AttemptCount = ''AttemptCount''"
| "ranking_factor_name RF_ArtifactBytes = ''ArtifactBytes''"
| "ranking_factor_name RF_CandidateIdTieBreak = ''CandidateIdTieBreak''"

datatype (plugins only: code size) ranking_direction = RD_HigherIsBetter | RD_LowerIsBetter

primrec ranking_direction_ordinal :: "ranking_direction \<Rightarrow> u32" where
  "ranking_direction_ordinal RD_HigherIsBetter = 0"
| "ranking_direction_ordinal RD_LowerIsBetter = 1"

record ranking_factor =
  fac_kind :: ranking_factor_kind
  fac_direction :: ranking_direction
  fac_weight :: binary64
  fac_key :: string

record selection_policy =
  sel_factors :: "ranking_factor list"
  sel_require_complete_mandatory :: bool

record retention_policy =
  ret_top_k :: u32
  ret_max_retained :: u32
  ret_max_per_lineage :: u32
  ret_retain_selected :: bool

record foundry_policy =
  pol_id :: policy_id
  pol_gen :: policy_generation
  pol_name :: string
  pol_selection :: selection_policy
  pol_retention :: retention_policy
  pol_budgets :: budget_limits
  pol_max_generation_depth :: u32
  pol_carry_forward_elite :: bool
  pol_digest :: string

section \<open>Canonical encoding\<close>

definition factor_fields :: "ranking_factor \<Rightarrow> field list" where
  "factor_fields f =
    [field_u32 ''factor_kind'' (ranking_factor_ordinal (fac_kind f)),
     field_u32 ''factor_direction'' (ranking_direction_ordinal (fac_direction f)),
     field_binary64 ''factor_weight'' (fac_weight f),
     (''factor_key'', fac_key f)]"

definition policy_fields :: "foundry_policy \<Rightarrow> field list" where
  "policy_fields p =
    [field_u64 ''policy_id'' (raw (pol_id p)),
     field_u32 ''policy_generation'' (gen_value (pol_gen p)),
     (''name'', pol_name p)]
    @ field_group ''factor_count'' factor_fields (sel_factors (pol_selection p))
    @ [field_bool ''selection_require_complete_mandatory'' (sel_require_complete_mandatory (pol_selection p)),
       field_u32 ''retention_retain_top_k'' (ret_top_k (pol_retention p)),
       field_u32 ''retention_max_retained'' (ret_max_retained (pol_retention p)),
       field_u32 ''retention_max_per_lineage'' (ret_max_per_lineage (pol_retention p)),
       field_bool ''retention_retain_selected'' (ret_retain_selected (pol_retention p))]
    @ budget_fields (pol_budgets p)
    @ [field_u32 ''max_generation_depth'' (pol_max_generation_depth p),
       field_bool ''carry_forward_elite'' (pol_carry_forward_elite p)]"

definition encode_policy_canonical :: "foundry_policy \<Rightarrow> string" where
  "encode_policy_canonical p = encode_fields (policy_fields p)"

definition compute_policy_digest :: "foundry_policy \<Rightarrow> string result" where
  "compute_policy_digest p = Inr (sha256_hex (encode_policy_canonical p))"

section \<open>Validation\<close>

definition validate_factor :: "ranking_factor list \<Rightarrow> ranking_factor \<Rightarrow> status" where
  "validate_factor earlier f = first_failure
    [require (fac_key f \<noteq> []) E_InvalidArgument,
     require (b64_is_finite (fac_weight f)) E_InvalidArgument,
     require (\<not> b64_less (fac_weight f) b64_zero) E_InvalidArgument,
     require (fac_key f \<notin> fac_key ` set earlier) E_DuplicateIdentity]"

definition validate_policy :: "foundry_policy \<Rightarrow> status" where
  "validate_policy p =
    (let factors = sel_factors (pol_selection p); retention = pol_retention p in
     first_failure
      [require (id_valid (pol_id p)) E_NullIdentity,
       require (gen_valid (pol_gen p)) E_InvalidArgument,
       require (pol_name p \<noteq> [] \<and> length (pol_name p) \<le> kMaxNameLength) E_LengthOutOfRange,
       require (factors \<noteq> []) E_InvalidArgument,
       require (length factors \<le> kMaxRankingFactors) E_LengthOutOfRange,
       each_with_earlier validate_factor [] factors,
       require (fac_kind (last factors) = RF_CandidateIdTieBreak) E_PolicyConflict,
       require (fac_direction (last factors) = RD_LowerIsBetter) E_PolicyConflict,
       require (list_ex (\<lambda>f. b64_less b64_zero (fac_weight f)) (butlast factors)) E_PolicyConflict,
       require (1 \<le> ret_top_k retention) E_InvalidArgument,
       require (ret_top_k retention \<le> ret_max_retained retention) E_RetentionLimitExceeded,
       require (ret_max_retained retention \<le> max_retained_candidates (pol_budgets p))
         E_RetentionLimitExceeded,
       require (1 \<le> ret_max_per_lineage retention) E_InvalidArgument,
       require (ret_max_per_lineage retention \<le> ret_max_retained retention) E_RetentionLimitExceeded,
       require (1 \<le> pol_max_generation_depth p) E_InvalidArgument,
       require (unat (pol_max_generation_depth p) \<le> kMaxLineageDepth) E_LengthOutOfRange,
       budget_limits_validate (pol_budgets p)])"

section \<open>The reference policy\<close>

definition make_reference_policy :: "policy_id \<Rightarrow> policy_generation \<Rightarrow> foundry_policy" where
  "make_reference_policy i g =
    (let policy =
      \<lparr>pol_id = i, pol_gen = g, pol_name = ''reference-v1'',
       pol_selection =
         \<lparr>sel_factors =
           [\<lparr>fac_kind = RF_QualityScore, fac_direction = RD_HigherIsBetter,
             fac_weight = Binary64 0x3FF0000000000000, fac_key = ''quality''\<rparr>,
            \<lparr>fac_kind = RF_EfficiencyScore, fac_direction = RD_HigherIsBetter,
             fac_weight = Binary64 0x3FE0000000000000, fac_key = ''efficiency''\<rparr>,
            \<lparr>fac_kind = RF_EvaluationCompleteness, fac_direction = RD_HigherIsBetter,
             fac_weight = Binary64 0x3FD0000000000000, fac_key = ''completeness''\<rparr>,
            \<lparr>fac_kind = RF_LineageDepth, fac_direction = RD_LowerIsBetter,
             fac_weight = Binary64 0x3FB999999999999A, fac_key = ''depth''\<rparr>,
            \<lparr>fac_kind = RF_CandidateIdTieBreak, fac_direction = RD_LowerIsBetter,
             fac_weight = b64_zero, fac_key = ''candidate''\<rparr>],
          sel_require_complete_mandatory = True\<rparr>,
       pol_retention = \<lparr>ret_top_k = 3, ret_max_retained = 8, ret_max_per_lineage = 2, ret_retain_selected = True\<rparr>,
       pol_budgets = default_budget_limits,
       pol_max_generation_depth = 16, pol_carry_forward_elite = False, pol_digest = []\<rparr>
     in policy\<lparr>pol_digest := sha256_hex (encode_policy_canonical policy)\<rparr>)"

section \<open>What the policy contract promises\<close>

definition same_factor :: "ranking_factor \<Rightarrow> ranking_factor \<Rightarrow> bool" where
  "same_factor a b \<longleftrightarrow> fac_kind a = fac_kind b \<and> fac_direction a = fac_direction b \<and>
     same_binary64 (fac_weight a) (fac_weight b) \<and> fac_key a = fac_key b"

definition same_policy :: "foundry_policy \<Rightarrow> foundry_policy \<Rightarrow> bool" where
  "same_policy a b \<longleftrightarrow>
    pol_id a = pol_id b \<and> pol_gen a = pol_gen b \<and> pol_name a = pol_name b \<and>
    list_all2 same_factor (sel_factors (pol_selection a)) (sel_factors (pol_selection b)) \<and>
    sel_require_complete_mandatory (pol_selection a) = sel_require_complete_mandatory (pol_selection b) \<and>
    pol_retention a = pol_retention b \<and> pol_budgets a = pol_budgets b \<and>
    pol_max_generation_depth a = pol_max_generation_depth b \<and>
    pol_carry_forward_elite a = pol_carry_forward_elite b"

lemma factor_fields_same: "factor_fields a = factor_fields b \<longleftrightarrow> same_factor a b"
proof -
  have "ranking_factor_ordinal k = ranking_factor_ordinal l \<longleftrightarrow> k = l" for k l
    by (cases k; cases l) auto
  moreover have "ranking_direction_ordinal k = ranking_direction_ordinal l \<longleftrightarrow> k = l" for k l
    by (cases k; cases l) auto
  ultimately show ?thesis
    by (simp add: factor_fields_def same_factor_def)
qed

lemma map_factor_fields: "map factor_fields xs = map factor_fields ys \<longleftrightarrow> list_all2 same_factor xs ys"
proof (induction xs arbitrary: ys)
  case (Cons x xs)
  then show ?case by (cases ys) (auto simp: factor_fields_same)
qed simp

lemma factor_group:
  "field_group n factor_fields xs @ r = field_group n factor_fields ys @ s \<longleftrightarrow>
     list_all2 same_factor xs ys \<and> r = s"
proof -
  have "length (factor_fields f) = 4" for f by (simp add: factor_fields_def)
  then show ?thesis by (simp only: field_group_append_iff map_factor_fields)
qed

lemma policy_fields_plain: "plain_fields (policy_fields p)"
  by (simp add: policy_fields_def factor_fields_def plain_name_def)

lemma budget_fields_append: "budget_fields a @ r = budget_fields b @ s \<longleftrightarrow> a = b \<and> r = s"
  using budget_fields_inject [of a b]
  by (subst append_eq_append_conv) (auto simp: budget_fields_def)

lemma retention_eq_iff:
  "a = b \<longleftrightarrow> ret_top_k a = ret_top_k b \<and> ret_max_retained a = ret_max_retained b \<and>
     ret_max_per_lineage a = ret_max_per_lineage b \<and> ret_retain_selected a = ret_retain_selected b"
  for a b :: retention_policy
  by (cases a; cases b) simp

lemma policy_fields_same: "policy_fields a = policy_fields b \<longleftrightarrow> same_policy a b"
proof -
  have ids: "raw x = raw y \<longleftrightarrow> x = y" "gen_value g = gen_value h \<longleftrightarrow> g = h"
    for x y :: "'t strong_id" and g h :: "'u generation"
    by (auto intro: strong_id.expand generation.expand)
  show ?thesis
    unfolding policy_fields_def same_policy_def
    by (auto simp: factor_group ids budget_fields_append retention_eq_iff)
qed

lemma encode_policy_same: "encode_policy_canonical a = encode_policy_canonical b \<longleftrightarrow> same_policy a b"
  by (simp add: encode_policy_canonical_def encode_plain_inject policy_fields_plain policy_fields_same)

lemma validated_policy_retention:
  assumes "validate_policy p = OK"
  shows "ret_top_k (pol_retention p) \<le> ret_max_retained (pol_retention p)"
    and "ret_max_per_lineage (pol_retention p) \<le> ret_max_retained (pol_retention p)"
    and "ret_max_retained (pol_retention p) \<le> max_retained_candidates (pol_budgets p)"
    and "1 \<le> ret_top_k (pol_retention p)" and "1 \<le> ret_max_per_lineage (pol_retention p)"
  using assms by (simp_all add: validate_policy_def Let_def)

lemma reference_policy_valid:
  "validate_policy (make_reference_policy i g) = OK \<longleftrightarrow> id_valid i \<and> gen_valid g"
proof -
  have weights: "b64_is_finite (Binary64 0x3FF0000000000000)" "b64_is_finite (Binary64 0x3FE0000000000000)"
    "b64_is_finite (Binary64 0x3FD0000000000000)" "b64_is_finite (Binary64 0x3FB999999999999A)"
    "b64_is_finite b64_zero"
    "\<not> b64_less (Binary64 0x3FF0000000000000) b64_zero" "\<not> b64_less (Binary64 0x3FE0000000000000) b64_zero"
    "\<not> b64_less (Binary64 0x3FD0000000000000) b64_zero" "\<not> b64_less (Binary64 0x3FB999999999999A) b64_zero"
    "\<not> b64_less b64_zero b64_zero" "b64_less b64_zero (Binary64 0x3FF0000000000000)"
    by (simp_all add: b64_is_finite_def b64_magnitude_def b64_infinite_magnitude_def b64_zero_def
        b64_less_def b64_key_def b64_sign_def b64_is_nan_def)
  have "each_with_earlier validate_factor [] (sel_factors (pol_selection (make_reference_policy i g))) = OK"
    by (simp add: make_reference_policy_def Let_def validate_factor_def weights)
  then show ?thesis
    by (simp add: validate_policy_def Let_def)
       (simp add: make_reference_policy_def Let_def weights kMaxNameLength_def kMaxRankingFactors_def
         kMaxLineageDepth_def default_budget_limits_def budget_limits_validate_def)
qed

end
