(* ===== verification/Population.thy ===== *)
theory Population
  imports Identity
begin

text \<open>
  Populations (population.hpp, population.cpp): the record, the lifecycle and the legal
  transitions. The interface \<^verbatim>\<open>lifecycle\<close> states what the rest of the runtime relies on, for
  populations here and for candidates in their own theory.
\<close>

datatype (plugins only: code size) population_state =
    PS_Created | PS_Ready | PS_Running | PS_Evaluating | PS_Selecting | PS_Advancing
  | PS_RevalidationRequired | PS_Closing | PS_Closed | PS_Failed | PS_Cancelled

primrec population_state_name :: "population_state \<Rightarrow> string" where
  "population_state_name PS_Created = ''Created''"
| "population_state_name PS_Ready = ''Ready''"
| "population_state_name PS_Running = ''Running''"
| "population_state_name PS_Evaluating = ''Evaluating''"
| "population_state_name PS_Selecting = ''Selecting''"
| "population_state_name PS_Advancing = ''Advancing''"
| "population_state_name PS_RevalidationRequired = ''RevalidationRequired''"
| "population_state_name PS_Closing = ''Closing''"
| "population_state_name PS_Closed = ''Closed''"
| "population_state_name PS_Failed = ''Failed''"
| "population_state_name PS_Cancelled = ''Cancelled''"

definition population_state_is_terminal :: "population_state \<Rightarrow> bool" where
  "population_state_is_terminal s \<longleftrightarrow> s \<in> set [PS_Closed, PS_Failed, PS_Cancelled]"

primrec population_successors :: "population_state \<Rightarrow> population_state list" where
  "population_successors PS_Created = [PS_Ready, PS_Cancelled, PS_Failed]"
| "population_successors PS_Ready = [PS_Running, PS_Cancelled, PS_Failed, PS_RevalidationRequired]"
| "population_successors PS_Running =
    [PS_Evaluating, PS_Selecting, PS_RevalidationRequired, PS_Closing, PS_Cancelled, PS_Failed]"
| "population_successors PS_Evaluating =
    [PS_Selecting, PS_Running, PS_RevalidationRequired, PS_Closing, PS_Cancelled, PS_Failed]"
| "population_successors PS_Selecting =
    [PS_Advancing, PS_Closing, PS_Running, PS_RevalidationRequired, PS_Cancelled, PS_Failed]"
| "population_successors PS_Advancing =
    [PS_Selecting, PS_Running, PS_Closing, PS_RevalidationRequired, PS_Failed]"
| "population_successors PS_RevalidationRequired =
    [PS_Running, PS_Evaluating, PS_Selecting, PS_Closing, PS_Failed, PS_Cancelled]"
| "population_successors PS_Closing = [PS_Closed, PS_Failed]"
| "population_successors PS_Closed = []"
| "population_successors PS_Failed = []"
| "population_successors PS_Cancelled = []"

definition population_transition_is_legal :: "population_state \<Rightarrow> population_state \<Rightarrow> bool" where
  "population_transition_is_legal s t \<longleftrightarrow> s = t \<or> t \<in> set (population_successors s)"

record population_spec =
  ps_name :: string
  ps_task :: task_id
  ps_task_gen :: task_generation
  ps_policy :: policy_id
  ps_policy_gen :: policy_generation
  ps_candidate_budget :: u32
  ps_worker_budget :: u32
  ps_index :: u32
  ps_predecessor :: population_id
  ps_seed_candidate :: candidate_id
  ps_seed_candidate_gen :: candidate_generation
  ps_seed_lineage :: lineage_id
  ps_require_promotion_request :: bool

record population_record =
  pop_id :: population_id
  pop_gen :: population_generation
  pop_run :: foundry_run_id
  pop_name :: string
  pop_task :: task_id
  pop_task_gen :: task_generation
  pop_policy :: policy_id
  pop_policy_gen :: policy_generation
  pop_candidate_budget :: u32
  pop_worker_budget :: u32
  pop_index :: u32
  pop_predecessor :: population_id
  pop_seed_candidate :: candidate_id
  pop_seed_candidate_gen :: candidate_generation
  pop_seed_lineage :: lineage_id
  pop_state :: population_state
  pop_created_epoch :: coordinator_epoch
  pop_state_epoch :: coordinator_epoch
  pop_committed_selection :: selection_generation
  pop_retention_committed :: bool
  pop_retention_selection_gen :: selection_generation
  pop_require_promotion_request :: bool
  pop_candidates :: "candidate_id list"
  pop_promotion_requests :: u64
  pop_committed_promotion :: promotion_request_id
  pop_status_detail :: string
  pop_closure_blockers :: "string list"

text \<open>A default-constructed \<^verbatim>\<open>PopulationRecord\<close>.\<close>

definition default_population :: population_record where
  "default_population =
    \<lparr>pop_id = null_id, pop_gen = gen_none, pop_run = null_id, pop_name = [], pop_task = null_id,
     pop_task_gen = gen_none, pop_policy = null_id, pop_policy_gen = gen_none,
     pop_candidate_budget = 8, pop_worker_budget = 4, pop_index = 1, pop_predecessor = null_id,
     pop_seed_candidate = null_id, pop_seed_candidate_gen = gen_none, pop_seed_lineage = null_id,
     pop_state = PS_Created, pop_created_epoch = epoch_none, pop_state_epoch = epoch_none,
     pop_committed_selection = gen_none, pop_retention_committed = False,
     pop_retention_selection_gen = gen_none, pop_require_promotion_request = False,
     pop_candidates = [], pop_promotion_requests = 0, pop_committed_promotion = null_id,
     pop_status_detail = [], pop_closure_blockers = []\<rparr>"

section \<open>Lifecycles\<close>

text \<open>
  A lifecycle: staying is legal, nothing leaves a terminal state, and every other state has
  a way out that leads towards a terminal one (\<^verbatim>\<open>steps_left\<close> bounds the shortest).
\<close>

locale lifecycle =
  fixes legal :: "'s \<Rightarrow> 's \<Rightarrow> bool" and terminal :: "'s \<Rightarrow> bool" and steps_left :: "'s \<Rightarrow> nat"
  assumes stay: "legal s s"
    and terminal_final: "terminal s \<Longrightarrow> legal s t \<Longrightarrow> t = s"
    and way_out: "\<not> terminal s \<Longrightarrow> \<exists>t. legal s t \<and> steps_left t < steps_left s"
begin

lemma terminal_absorbing:
  assumes "legal\<^sup>*\<^sup>* s t" and "terminal s"
  shows "t = s"
  using assms by (induction rule: rtranclp_induct) (auto dest: terminal_final)

lemma terminal_reachable: "\<exists>t. legal\<^sup>*\<^sup>* s t \<and> terminal t"
proof (induction "steps_left s" arbitrary: s rule: less_induct)
  case less
  show ?case
  proof (cases "terminal s")
    case True
    then show ?thesis by blast
  next
    case False
    then obtain t where "legal s t" "steps_left t < steps_left s"
      using way_out by blast
    then show ?thesis
      using less by (meson converse_rtranclp_into_rtranclp)
  qed
qed

lemma nonterminal_not_stuck: "\<not> terminal s \<Longrightarrow> \<exists>t. legal s t \<and> t \<noteq> s"
  using way_out by fastforce

end

primrec population_steps_left :: "population_state \<Rightarrow> nat" where
  "population_steps_left PS_Created = 4"
| "population_steps_left PS_Ready = 3"
| "population_steps_left PS_Running = 3"
| "population_steps_left PS_Evaluating = 3"
| "population_steps_left PS_Selecting = 3"
| "population_steps_left PS_Advancing = 3"
| "population_steps_left PS_RevalidationRequired = 3"
| "population_steps_left PS_Closing = 1"
| "population_steps_left PS_Closed = 0"
| "population_steps_left PS_Failed = 0"
| "population_steps_left PS_Cancelled = 0"

interpretation population_lifecycle: lifecycle population_transition_is_legal
  population_state_is_terminal population_steps_left
proof unfold_locales
  fix s t :: population_state
  show "population_transition_is_legal s s"
    by (simp add: population_transition_is_legal_def)
  show "population_state_is_terminal s \<Longrightarrow> population_transition_is_legal s t \<Longrightarrow> t = s"
    by (auto simp: population_state_is_terminal_def population_transition_is_legal_def)
  assume "\<not> population_state_is_terminal s"
  then show "\<exists>t. population_transition_is_legal s t \<and> population_steps_left t < population_steps_left s"
    by (intro exI [of _ PS_Failed]) (cases s; simp add: population_state_is_terminal_def population_transition_is_legal_def)
qed

text \<open>Only a closing population closes, and a closing population never goes back to work.\<close>

lemma closed_only_from_closing:
  "population_transition_is_legal s PS_Closed \<Longrightarrow> s = PS_Closing \<or> s = PS_Closed"
  by (cases s) (auto simp: population_transition_is_legal_def)

end
