(* ===== verification/Candidate.thy ===== *)
theory Candidate
  imports Artifact Population
begin

text \<open>
  Candidates (candidate.hpp, candidate.cpp): the record, the lifecycle, the structural
  validation and the reference diversity key.
\<close>

datatype (plugins only: code size) candidate_state =
    CS_Registered | CS_Producing | CS_Published | CS_Evaluating | CS_Evaluated
  | CS_RevalidationRequired | CS_Selected | CS_Retained | CS_Retired | CS_Superseded
  | CS_ProductionFailed | CS_ProductionCancelled | CS_Disqualified

primrec candidate_state_ordinal :: "candidate_state \<Rightarrow> nat" where
  "candidate_state_ordinal CS_Registered = 0"
| "candidate_state_ordinal CS_Producing = 1"
| "candidate_state_ordinal CS_Published = 2"
| "candidate_state_ordinal CS_Evaluating = 3"
| "candidate_state_ordinal CS_Evaluated = 4"
| "candidate_state_ordinal CS_RevalidationRequired = 5"
| "candidate_state_ordinal CS_Selected = 6"
| "candidate_state_ordinal CS_Retained = 7"
| "candidate_state_ordinal CS_Retired = 8"
| "candidate_state_ordinal CS_Superseded = 9"
| "candidate_state_ordinal CS_ProductionFailed = 10"
| "candidate_state_ordinal CS_ProductionCancelled = 11"
| "candidate_state_ordinal CS_Disqualified = 12"

primrec candidate_state_name :: "candidate_state \<Rightarrow> string" where
  "candidate_state_name CS_Registered = ''Registered''"
| "candidate_state_name CS_Producing = ''Producing''"
| "candidate_state_name CS_Published = ''Published''"
| "candidate_state_name CS_Evaluating = ''Evaluating''"
| "candidate_state_name CS_Evaluated = ''Evaluated''"
| "candidate_state_name CS_RevalidationRequired = ''RevalidationRequired''"
| "candidate_state_name CS_Selected = ''Selected''"
| "candidate_state_name CS_Retained = ''Retained''"
| "candidate_state_name CS_Retired = ''Retired''"
| "candidate_state_name CS_Superseded = ''Superseded''"
| "candidate_state_name CS_ProductionFailed = ''ProductionFailed''"
| "candidate_state_name CS_ProductionCancelled = ''ProductionCancelled''"
| "candidate_state_name CS_Disqualified = ''Disqualified''"

definition candidate_state_is_terminal :: "candidate_state \<Rightarrow> bool" where
  "candidate_state_is_terminal s \<longleftrightarrow> s \<in> set
    [CS_Retired, CS_Superseded, CS_ProductionFailed, CS_ProductionCancelled, CS_Disqualified]"

primrec candidate_successors :: "candidate_state \<Rightarrow> candidate_state list" where
  "candidate_successors CS_Registered =
    [CS_Producing, CS_ProductionFailed, CS_ProductionCancelled, CS_Disqualified]"
| "candidate_successors CS_Producing =
    [CS_Registered, CS_Published, CS_ProductionFailed, CS_ProductionCancelled]"
| "candidate_successors CS_Published =
    [CS_Evaluating, CS_RevalidationRequired, CS_Superseded, CS_Disqualified, CS_ProductionCancelled]"
| "candidate_successors CS_Evaluating =
    [CS_Evaluated, CS_RevalidationRequired, CS_Disqualified, CS_Superseded, CS_ProductionCancelled]"
| "candidate_successors CS_Evaluated =
    [CS_Selected, CS_Retained, CS_Retired, CS_Disqualified, CS_Superseded, CS_RevalidationRequired]"
| "candidate_successors CS_RevalidationRequired =
    [CS_Evaluating, CS_Evaluated, CS_Retired, CS_Superseded, CS_Disqualified]"
| "candidate_successors CS_Selected = [CS_Retained, CS_Retired, CS_Superseded]"
| "candidate_successors CS_Retained = [CS_Selected, CS_Retired, CS_Superseded]"
| "candidate_successors CS_Retired = []"
| "candidate_successors CS_Superseded = []"
| "candidate_successors CS_ProductionFailed = []"
| "candidate_successors CS_ProductionCancelled = []"
| "candidate_successors CS_Disqualified = []"

definition candidate_transition_is_legal :: "candidate_state \<Rightarrow> candidate_state \<Rightarrow> bool" where
  "candidate_transition_is_legal s t \<longleftrightarrow> s = t \<or> t \<in> set (candidate_successors s)"

record candidate_record =
  cand_id :: candidate_id
  cand_gen :: candidate_generation
  cand_population :: population_id
  cand_population_gen :: population_generation
  cand_task :: task_id
  cand_task_gen :: task_generation
  cand_lineage :: lineage_id
  cand_parents :: "candidate_id list"
  cand_depth :: u32
  cand_producer_worker :: worker_id
  cand_producer_boot :: worker_boot_id
  cand_attempt :: attempt_id
  cand_attempt_gen :: attempt_generation
  cand_assignment :: assignment_id
  cand_created_epoch :: coordinator_epoch
  cand_state_changed_epoch :: coordinator_epoch
  cand_state :: candidate_state
  cand_artifacts :: "artifact_ref list"
  cand_artifact_set_digest :: string
  cand_attempt_count :: u32
  cand_evidence_gen :: evidence_generation
  cand_evaluation_gen :: evaluation_generation
  cand_selection_gen :: selection_generation
  cand_selected :: bool
  cand_retained :: bool
  cand_promotion_eligible :: bool
  cand_promotion_requested :: bool
  cand_diversity_key :: string
  cand_failure_reason :: string
  cand_superseded_by_reason :: string

text \<open>A default-constructed \<^verbatim>\<open>CandidateRecord\<close>.\<close>

definition default_candidate :: candidate_record where
  "default_candidate =
    \<lparr>cand_id = null_id, cand_gen = gen_none, cand_population = null_id,
     cand_population_gen = gen_none, cand_task = null_id, cand_task_gen = gen_none,
     cand_lineage = null_id, cand_parents = [], cand_depth = 0, cand_producer_worker = null_id,
     cand_producer_boot = null_id, cand_attempt = null_id, cand_attempt_gen = gen_none,
     cand_assignment = null_id, cand_created_epoch = epoch_none,
     cand_state_changed_epoch = epoch_none, cand_state = CS_Registered, cand_artifacts = [],
     cand_artifact_set_digest = [], cand_attempt_count = 0, cand_evidence_gen = gen_none,
     cand_evaluation_gen = gen_none, cand_selection_gen = gen_none, cand_selected = False,
     cand_retained = False, cand_promotion_eligible = False, cand_promotion_requested = False,
     cand_diversity_key = [], cand_failure_reason = [], cand_superseded_by_reason = []\<rparr>"

section \<open>Validation\<close>

definition kMaxCandidateParents :: nat where "kMaxCandidateParents = 8"
definition kMaxAttemptCount :: nat where "kMaxAttemptCount = 1024"

definition validate_candidate_record :: "candidate_record \<Rightarrow> status" where
  "validate_candidate_record c = first_failure
    [require (id_valid (cand_id c)) E_NullIdentity,
     require (gen_valid (cand_gen c)) E_InvalidArgument,
     require (id_valid (cand_population c)) E_NullIdentity,
     require (gen_valid (cand_population_gen c)) E_InvalidArgument,
     require (id_valid (cand_task c)) E_NullIdentity,
     require (gen_valid (cand_task_gen c)) E_InvalidArgument,
     require (id_valid (cand_lineage c)) E_NullIdentity,
     require (length (cand_parents c) \<le> kMaxCandidateParents) E_LengthOutOfRange,
     for_all (\<lambda>parent. first_failure
       [require (id_valid parent) E_NullIdentity,
        require (parent \<noteq> cand_id c) E_LineageSelfParent]) (cand_parents c),
     require (unat (cand_depth c) \<le> kMaxLineageDepth) E_LengthOutOfRange,
     require (unat (cand_attempt_count c) \<le> kMaxAttemptCount) E_LengthOutOfRange,
     require (length (cand_artifacts c) \<le> kMaxArtifactsPerCandidate) E_LengthOutOfRange,
     for_all validate_artifact_ref (cand_artifacts c),
     (if cand_artifacts c = [] then require (cand_artifact_set_digest c = []) E_MalformedEncoding
      else require (cand_artifact_set_digest c = artifact_set_digest (cand_artifacts c)) E_MalformedEncoding),
     require (length (cand_failure_reason c) \<le> kMaxDiagnosticsLength) E_LengthOutOfRange,
     require (length (cand_superseded_by_reason c) \<le> kMaxDiagnosticsLength) E_LengthOutOfRange]"

section \<open>The reference diversity key\<close>

definition hex_digit_value :: "char \<Rightarrow> u32 option" where
  "hex_digit_value c =
    (if is_digit_char c then Some (of_nat (of_char c - 48))
     else if 97 \<le> (of_char c :: nat) \<and> (of_char c :: nat) \<le> 102 then Some (of_nat (of_char c - 97) + 10)
     else None)"

fun parse_hex_run :: "u32 \<Rightarrow> string \<Rightarrow> u32 option" where
  "parse_hex_run acc [] = Some acc"
| "parse_hex_run acc (c # cs) =
    (case hex_digit_value c of None \<Rightarrow> None
     | Some d \<Rightarrow> parse_hex_run (push_bit 4 acc OR d) cs)"

definition parse_first_hex32 :: "string \<Rightarrow> u32 option" where
  "parse_first_hex32 text = (if length text < 8 then None else parse_hex_run 0 (take 8 text))"

definition reference_diversity_key :: "string \<Rightarrow> artifact_ref list \<Rightarrow> string" where
  "reference_diversity_key strategy artifacts =
    strategy @ ''-'' @
    (case artifacts of [] \<Rightarrow> ''empty''
     | a # _ \<Rightarrow>
        (case parse_first_hex32 (art_digest a) of
           None \<Rightarrow> ''unbucketable''
         | Some prefix \<Rightarrow> ''b'' @ decimal (unat (prefix mod 4))))"

section \<open>The lifecycle\<close>

primrec candidate_steps_left :: "candidate_state \<Rightarrow> nat" where
  "candidate_steps_left CS_Registered = 1"
| "candidate_steps_left CS_Producing = 1"
| "candidate_steps_left CS_Published = 1"
| "candidate_steps_left CS_Evaluating = 1"
| "candidate_steps_left CS_Evaluated = 1"
| "candidate_steps_left CS_RevalidationRequired = 1"
| "candidate_steps_left CS_Selected = 1"
| "candidate_steps_left CS_Retained = 1"
| "candidate_steps_left CS_Retired = 0"
| "candidate_steps_left CS_Superseded = 0"
| "candidate_steps_left CS_ProductionFailed = 0"
| "candidate_steps_left CS_ProductionCancelled = 0"
| "candidate_steps_left CS_Disqualified = 0"

interpretation candidate_lifecycle: lifecycle candidate_transition_is_legal
  candidate_state_is_terminal candidate_steps_left
proof unfold_locales
  fix s t :: candidate_state
  show "candidate_transition_is_legal s s"
    by (simp add: candidate_transition_is_legal_def)
  show "candidate_state_is_terminal s \<Longrightarrow> candidate_transition_is_legal s t \<Longrightarrow> t = s"
    by (auto simp: candidate_state_is_terminal_def candidate_transition_is_legal_def)
  assume alive: "\<not> candidate_state_is_terminal s"
  define out where "out = (if s \<in> {CS_Registered, CS_Producing} then CS_ProductionFailed else CS_Superseded)"
  have "candidate_transition_is_legal s out \<and> candidate_steps_left out < candidate_steps_left s"
    using alive
    by (cases s; simp add: out_def candidate_state_is_terminal_def candidate_transition_is_legal_def)
  then show "\<exists>t. candidate_transition_is_legal s t \<and> candidate_steps_left t < candidate_steps_left s"
    by blast
qed

text \<open>Selection and retention are reached from evaluated evidence or from one another only.\<close>

lemma selected_only_from:
  "candidate_transition_is_legal s CS_Selected \<Longrightarrow> s \<in> {CS_Evaluated, CS_Retained, CS_Selected}"
  by (cases s) (auto simp: candidate_transition_is_legal_def)

lemma retained_only_from:
  "candidate_transition_is_legal s CS_Retained \<Longrightarrow> s \<in> {CS_Evaluated, CS_Retained, CS_Selected}"
  by (cases s) (auto simp: candidate_transition_is_legal_def)

end
