(* ===== verification/Worker.thy ===== *)
theory Worker
  imports Encoding Identity
begin

text \<open>Worker records, reference strategies and the bounded text of a worker (worker.hpp, worker.cpp).\<close>

datatype (plugins only: code size) worker_state =
    WS_Connecting | WS_Registered | WS_Ready | WS_Busy | WS_RevalidationRequired | WS_Draining
  | WS_Offline | WS_Rejected

primrec worker_state_name :: "worker_state \<Rightarrow> string" where
  "worker_state_name WS_Connecting = ''Connecting''"
| "worker_state_name WS_Registered = ''Registered''"
| "worker_state_name WS_Ready = ''Ready''"
| "worker_state_name WS_Busy = ''Busy''"
| "worker_state_name WS_RevalidationRequired = ''RevalidationRequired''"
| "worker_state_name WS_Draining = ''Draining''"
| "worker_state_name WS_Offline = ''Offline''"
| "worker_state_name WS_Rejected = ''Rejected''"

datatype (plugins only: code size) reference_strategy =
    ST_ClosedForm | ST_Iterative | ST_OffByOne | ST_SelfReportedPass

primrec reference_strategy_name :: "reference_strategy \<Rightarrow> string" where
  "reference_strategy_name ST_ClosedForm = ''closed-form''"
| "reference_strategy_name ST_Iterative = ''iterative''"
| "reference_strategy_name ST_OffByOne = ''off-by-one''"
| "reference_strategy_name ST_SelfReportedPass = ''self-reported-pass''"

definition parse_reference_strategy :: "string \<Rightarrow> reference_strategy result" where
  "parse_reference_strategy text =
    (if text = [] then Inl E_InvalidArgument
     else if kMaxNameLength < length text then Inl E_LengthOutOfRange
     else if text = ''closed-form'' \<or> text = ''ClosedForm'' then Inr ST_ClosedForm
     else if text = ''iterative'' \<or> text = ''Iterative'' then Inr ST_Iterative
     else if text = ''off-by-one'' \<or> text = ''OffByOne'' then Inr ST_OffByOne
     else if text = ''self-reported-pass'' \<or> text = ''SelfReportedPass'' then Inr ST_SelfReportedPass
     else Inl E_InvalidArgument)"

record worker_record =
  wk_id :: worker_id
  wk_boot :: worker_boot_id
  wk_label :: string
  wk_process_id :: u32
  wk_state :: worker_state
  wk_registered_epoch :: coordinator_epoch
  wk_state_epoch :: coordinator_epoch
  wk_session :: session_id
  wk_session_gen :: worker_session_generation
  wk_capability :: string
  wk_assignments_accepted :: u64
  wk_assignments_completed :: u64
  wk_assignments_failed :: u64
  wk_stale_messages_rejected :: u64
  wk_active_attempt :: attempt_id
  wk_active_attempt_gen :: attempt_generation
  wk_active_assignment :: assignment_id
  wk_last_diagnostic :: string

text \<open>A default-constructed \<^verbatim>\<open>WorkerRecord\<close>.\<close>

definition default_worker :: worker_record where
  "default_worker =
    \<lparr>wk_id = null_id, wk_boot = null_id, wk_label = [], wk_process_id = 0, wk_state = WS_Offline,
     wk_registered_epoch = epoch_none, wk_state_epoch = epoch_none, wk_session = null_id,
     wk_session_gen = gen_none, wk_capability = [], wk_assignments_accepted = 0,
     wk_assignments_completed = 0, wk_assignments_failed = 0, wk_stale_messages_rejected = 0,
     wk_active_attempt = null_id, wk_active_attempt_gen = gen_none,
     wk_active_assignment = null_id, wk_last_diagnostic = []\<rparr>"

definition is_printable_byte :: "char \<Rightarrow> bool" where
  "is_printable_byte c \<longleftrightarrow> 0x20 \<le> (of_char c :: nat) \<and> (of_char c :: nat) \<le> 0x7E"

definition validate_worker_text :: "string \<Rightarrow> status" where
  "validate_worker_text text = first_failure
    [require (length text \<le> kMaxNameLength) E_LengthOutOfRange,
     require (list_all is_printable_byte text) E_InvalidArgument]"

text \<open>The names round-trip through the operator text.\<close>

lemma parse_strategy_name: "parse_reference_strategy (reference_strategy_name s) = Inr s"
  by (cases s) (simp_all add: parse_reference_strategy_def kMaxNameLength_def)

end
