(* ===== verification/Attempt.thy ===== *)
theory Attempt
  imports Identity
begin

text \<open>
  Attempts and assignments (attempt.hpp, attempt.cpp). \<^verbatim>\<open>Completed\<close>, \<^verbatim>\<open>Failed\<close>,
  \<^verbatim>\<open>Cancelled\<close> and \<^verbatim>\<open>OutcomeUnknown\<close> are final.
\<close>

datatype (plugins only: code size) attempt_state =
    AS_Created | AS_Authorized | AS_Dispatched | AS_Running | AS_Published | AS_Evaluating
  | AS_Completed | AS_Failed | AS_Cancelled | AS_OutcomeUnknown

primrec attempt_state_name :: "attempt_state \<Rightarrow> string" where
  "attempt_state_name AS_Created = ''Created''"
| "attempt_state_name AS_Authorized = ''Authorized''"
| "attempt_state_name AS_Dispatched = ''Dispatched''"
| "attempt_state_name AS_Running = ''Running''"
| "attempt_state_name AS_Published = ''Published''"
| "attempt_state_name AS_Evaluating = ''Evaluating''"
| "attempt_state_name AS_Completed = ''Completed''"
| "attempt_state_name AS_Failed = ''Failed''"
| "attempt_state_name AS_Cancelled = ''Cancelled''"
| "attempt_state_name AS_OutcomeUnknown = ''OutcomeUnknown''"

definition attempt_state_is_terminal :: "attempt_state \<Rightarrow> bool" where
  "attempt_state_is_terminal s \<longleftrightarrow> s \<in> set [AS_Completed, AS_Failed, AS_Cancelled, AS_OutcomeUnknown]"

record attempt_record =
  att_id :: attempt_id
  att_gen :: attempt_generation
  att_population :: population_id
  att_population_gen :: population_generation
  att_task :: task_id
  att_task_gen :: task_generation
  att_candidate :: candidate_id
  att_candidate_gen :: candidate_generation
  att_worker :: worker_id
  att_worker_boot :: worker_boot_id
  att_session :: session_id
  att_assignment :: assignment_id
  att_authorized_epoch :: coordinator_epoch
  att_dispatched_epoch :: coordinator_epoch
  att_terminal_epoch :: coordinator_epoch
  att_state :: attempt_state
  att_retry_index :: u32
  att_previous_attempt :: attempt_id
  att_failure_detail :: string
  att_holds_reservation :: bool

definition default_attempt :: attempt_record where
  "default_attempt =
    \<lparr>att_id = null_id, att_gen = gen_none, att_population = null_id, att_population_gen = gen_none,
     att_task = null_id, att_task_gen = gen_none, att_candidate = null_id,
     att_candidate_gen = gen_none, att_worker = null_id, att_worker_boot = null_id,
     att_session = null_id, att_assignment = null_id, att_authorized_epoch = epoch_none,
     att_dispatched_epoch = epoch_none, att_terminal_epoch = epoch_none, att_state = AS_Created,
     att_retry_index = 0, att_previous_attempt = null_id, att_failure_detail = [],
     att_holds_reservation = False\<rparr>"

record assignment_record =
  asg_id :: assignment_id
  asg_gen :: assignment_generation
  asg_attempt :: attempt_id
  asg_attempt_gen :: attempt_generation
  asg_worker :: worker_id
  asg_worker_boot :: worker_boot_id
  asg_session :: session_id
  asg_session_gen :: worker_session_generation
  asg_issued_epoch :: coordinator_epoch
  asg_acknowledged :: bool
  asg_acknowledged_epoch :: coordinator_epoch
  asg_revoked :: bool
  asg_revoked_epoch :: coordinator_epoch

definition default_assignment :: assignment_record where
  "default_assignment =
    \<lparr>asg_id = null_id, asg_gen = gen_none, asg_attempt = null_id, asg_attempt_gen = gen_none,
     asg_worker = null_id, asg_worker_boot = null_id, asg_session = null_id,
     asg_session_gen = gen_none, asg_issued_epoch = epoch_none, asg_acknowledged = False,
     asg_acknowledged_epoch = epoch_none, asg_revoked = False, asg_revoked_epoch = epoch_none\<rparr>"

record attempt_package =
  pkg_attempt :: attempt_id
  pkg_attempt_gen :: attempt_generation
  pkg_assignment :: assignment_id
  pkg_population :: population_id
  pkg_population_gen :: population_generation
  pkg_task :: task_id
  pkg_task_gen :: task_generation
  pkg_candidate :: candidate_id
  pkg_candidate_gen :: candidate_generation
  pkg_task_name :: string
  pkg_objective :: string
  pkg_required_outputs :: "string list"
  pkg_input_files :: "(string \<times> string) list"
  pkg_workspace_root :: string
  pkg_reference_strategy :: string

end
