(* ===== verification/Authority.thy ===== *)
theory Authority
  imports Errors Identity
begin

text \<open>
  Authority (authority.hpp, authority.cpp): what a message is bound to and the checks that
  compare it with current state. Every check reports its own stale code.
\<close>

record worker_session_authority =
  wsa_epoch :: coordinator_epoch
  wsa_run :: foundry_run_id
  wsa_worker :: worker_id
  wsa_boot :: worker_boot_id
  wsa_session :: session_id
  wsa_session_gen :: worker_session_generation

record worker_operation_authority =
  woa_session :: worker_session_authority
  woa_population :: population_id
  woa_population_gen :: population_generation
  woa_task :: task_id
  woa_task_gen :: task_generation
  woa_candidate :: candidate_id
  woa_candidate_gen :: candidate_generation
  woa_attempt :: attempt_id
  woa_attempt_gen :: attempt_generation
  woa_assignment :: assignment_id

record prepared_decision_authority =
  pda_epoch :: coordinator_epoch
  pda_population :: population_id
  pda_population_gen :: population_generation
  pda_policy :: policy_id
  pda_policy_gen :: policy_generation
  pda_digest :: string

definition default_decision_authority :: prepared_decision_authority where
  "default_decision_authority =
    \<lparr>pda_epoch = epoch_none, pda_population = null_id, pda_population_gen = gen_none,
     pda_policy = null_id, pda_policy_gen = gen_none, pda_digest = []\<rparr>"

definition check_coordinator_epoch :: "coordinator_epoch \<Rightarrow> coordinator_epoch \<Rightarrow> status" where
  "check_coordinator_epoch expected actual = require (expected = actual) E_StaleCoordinatorEpoch"

definition check_run :: "foundry_run_id \<Rightarrow> foundry_run_id \<Rightarrow> status" where
  "check_run expected actual = require (expected = actual) E_StaleAuthority"

definition check_worker_boot :: "worker_boot_id \<Rightarrow> worker_boot_id \<Rightarrow> status" where
  "check_worker_boot expected actual = require (expected = actual) E_StaleWorkerBoot"

definition check_session :: "session_id \<Rightarrow> session_id \<Rightarrow> status" where
  "check_session expected actual = require (expected = actual) E_StaleSession"

definition check_session_generation ::
  "worker_session_generation \<Rightarrow> worker_session_generation \<Rightarrow> status" where
  "check_session_generation expected actual = require (expected = actual) E_StaleSession"

definition check_identity :: "'tag strong_id \<Rightarrow> 'tag strong_id \<Rightarrow> status" where
  "check_identity expected actual = require (expected = actual) E_StaleAuthority"

definition check_population_generation :: "population_generation \<Rightarrow> population_generation \<Rightarrow> status" where
  "check_population_generation expected actual = require (expected = actual) E_StalePopulationGeneration"

definition check_task_generation :: "task_generation \<Rightarrow> task_generation \<Rightarrow> status" where
  "check_task_generation expected actual = require (expected = actual) E_StaleTaskGeneration"

definition check_candidate_generation :: "candidate_generation \<Rightarrow> candidate_generation \<Rightarrow> status" where
  "check_candidate_generation expected actual = require (expected = actual) E_StaleCandidateGeneration"

definition check_evaluation_generation :: "evaluation_generation \<Rightarrow> evaluation_generation \<Rightarrow> status" where
  "check_evaluation_generation expected actual = require (expected = actual) E_StaleEvaluationGeneration"

definition check_policy_generation :: "policy_generation \<Rightarrow> policy_generation \<Rightarrow> status" where
  "check_policy_generation expected actual = require (expected = actual) E_StalePolicyGeneration"

definition check_attempt_generation :: "attempt_generation \<Rightarrow> attempt_generation \<Rightarrow> status" where
  "check_attempt_generation expected actual = require (expected = actual) E_StaleAttempt"

definition check_canonical_digest :: "string \<Rightarrow> string \<Rightarrow> status" where
  "check_canonical_digest expected actual = require (expected = actual) E_StaleSelection"

lemmas authority_checks = check_coordinator_epoch_def check_run_def check_worker_boot_def
  check_session_def check_session_generation_def check_identity_def check_population_generation_def
  check_task_generation_def check_candidate_generation_def check_evaluation_generation_def
  check_policy_generation_def check_attempt_generation_def check_canonical_digest_def

end
