(* ===== verification/Evaluation.thy ===== *)
theory Evaluation
  imports Task
begin

text \<open>
  Evaluation evidence (evaluation.hpp, evaluation.cpp): typed outcomes, which of them may
  satisfy a mandatory gate, the structural validation and the aggregate view of a candidate.
  An enumerator that arrived out of range has no counterpart in the datatypes, so the two
  range checks of the validation always hold here.
\<close>

datatype (plugins only: code size) evaluator_kind =
    EK_ProcessCommand | EK_SourcePolicy | EK_PortableReference | EK_WorkerSelfReport

primrec evaluator_kind_name :: "evaluator_kind \<Rightarrow> string" where
  "evaluator_kind_name EK_ProcessCommand = ''ProcessCommand''"
| "evaluator_kind_name EK_SourcePolicy = ''SourcePolicy''"
| "evaluator_kind_name EK_PortableReference = ''PortableReference''"
| "evaluator_kind_name EK_WorkerSelfReport = ''WorkerSelfReport''"

primrec evaluator_kind_ordinal :: "evaluator_kind \<Rightarrow> nat" where
  "evaluator_kind_ordinal EK_ProcessCommand = 0"
| "evaluator_kind_ordinal EK_SourcePolicy = 1"
| "evaluator_kind_ordinal EK_PortableReference = 2"
| "evaluator_kind_ordinal EK_WorkerSelfReport = 3"

datatype (plugins only: code size) evaluation_outcome =
    EO_Pass | EO_Fail | EO_Unknown | EO_Unsupported | EO_Error | EO_Cancelled

primrec evaluation_outcome_name :: "evaluation_outcome \<Rightarrow> string" where
  "evaluation_outcome_name EO_Pass = ''Pass''"
| "evaluation_outcome_name EO_Fail = ''Fail''"
| "evaluation_outcome_name EO_Unknown = ''Unknown''"
| "evaluation_outcome_name EO_Unsupported = ''Unsupported''"
| "evaluation_outcome_name EO_Error = ''Error''"
| "evaluation_outcome_name EO_Cancelled = ''Cancelled''"

primrec evaluation_outcome_ordinal :: "evaluation_outcome \<Rightarrow> nat" where
  "evaluation_outcome_ordinal EO_Pass = 0"
| "evaluation_outcome_ordinal EO_Fail = 1"
| "evaluation_outcome_ordinal EO_Unknown = 2"
| "evaluation_outcome_ordinal EO_Unsupported = 3"
| "evaluation_outcome_ordinal EO_Error = 4"
| "evaluation_outcome_ordinal EO_Cancelled = 5"

definition outcome_satisfies_mandatory :: "evaluation_outcome \<Rightarrow> bool" where
  "outcome_satisfies_mandatory outcome \<longleftrightarrow> outcome = EO_Pass"

primrec evaluator_kind_is_authoritative :: "evaluator_kind \<Rightarrow> bool" where
  "evaluator_kind_is_authoritative EK_ProcessCommand = True"
| "evaluator_kind_is_authoritative EK_SourcePolicy = True"
| "evaluator_kind_is_authoritative EK_PortableReference = True"
| "evaluator_kind_is_authoritative EK_WorkerSelfReport = False"

record evaluation_record =
  ev_id :: evaluation_id
  ev_gen :: evaluation_generation
  ev_candidate :: candidate_id
  ev_candidate_gen :: candidate_generation
  ev_task :: task_id
  ev_task_gen :: task_generation
  ev_population :: population_id
  ev_population_gen :: population_generation
  ev_evaluator :: evaluator_id
  ev_key :: string
  ev_kind :: evaluator_kind
  ev_class :: requirement_class
  ev_outcome :: evaluation_outcome
  ev_complete :: bool
  ev_has_score :: bool
  ev_score :: binary64
  ev_decided_epoch :: coordinator_epoch
  ev_diagnostics :: string
  ev_evidence_digest :: string
  ev_duration_micros :: u64

definition authoritative_for_mandatory :: "evaluation_record \<Rightarrow> bool" where
  "authoritative_for_mandatory r \<longleftrightarrow>
    ev_complete r \<and> evaluator_kind_is_authoritative (ev_kind r) \<and> outcome_satisfies_mandatory (ev_outcome r)"

definition kEvidenceDigestHexLength :: nat where "kEvidenceDigestHexLength = 64"

definition validate_evaluation_record :: "evaluation_record \<Rightarrow> status" where
  "validate_evaluation_record r = first_failure
    [require (id_valid (ev_id r)) E_NullIdentity,
     require (gen_valid (ev_gen r)) E_InvalidArgument,
     require (id_valid (ev_candidate r)) E_NullIdentity,
     require (gen_valid (ev_candidate_gen r)) E_InvalidArgument,
     require (id_valid (ev_task r)) E_NullIdentity,
     require (gen_valid (ev_task_gen r)) E_InvalidArgument,
     require (id_valid (ev_population r)) E_NullIdentity,
     require (gen_valid (ev_population_gen r)) E_InvalidArgument,
     require (id_valid (ev_evaluator r)) E_NullIdentity,
     require (ev_key r \<noteq> []) E_InvalidArgument,
     require (length (ev_key r) \<le> kMaxNameLength) E_LengthOutOfRange,
     require (list_all is_allowed_name_byte (ev_key r)) E_InvalidArgument,
     require (length (ev_diagnostics r) \<le> kMaxDiagnosticsLength) E_LengthOutOfRange,
     require (\<not> (ev_has_score r \<and> \<not> b64_is_finite (ev_score r))) E_InvalidArgument,
     require (ev_evidence_digest r = [] \<or> length (ev_evidence_digest r) = kEvidenceDigestHexLength)
       E_MalformedEncoding,
     require (ev_evidence_digest r = [] \<or> is_lowercase_hex (ev_evidence_digest r) kEvidenceDigestHexLength)
       E_MalformedEncoding,
     require (\<not> (ev_complete r \<and> \<not> epoch_valid (ev_decided_epoch r))) E_MalformedEncoding]"

record candidate_evidence =
  ce_candidate :: candidate_id
  ce_candidate_gen :: candidate_generation
  ce_task_gen :: task_generation
  ce_gen :: evidence_generation
  ce_records :: "evaluation_record list"

definition evidence_find :: "candidate_evidence \<Rightarrow> string \<Rightarrow> evaluation_record option" where
  "evidence_find e key =
    find (\<lambda>r. ev_candidate_gen r = ce_candidate_gen e \<and> ev_key r = key \<and> ev_complete r \<and>
      evaluator_kind_is_authoritative (ev_kind r)) (ce_records e)"

definition has_complete_authoritative_pass :: "candidate_evidence \<Rightarrow> string \<Rightarrow> bool" where
  "has_complete_authoritative_pass e key \<longleftrightarrow>
    (case evidence_find e key of None \<Rightarrow> False | Some r \<Rightarrow> authoritative_for_mandatory r)"

text \<open>Nothing but a complete PASS of an authoritative evaluator counts for a gate.\<close>

lemma authoritative_pass_record:
  assumes "has_complete_authoritative_pass e key"
  obtains r where "r \<in> set (ce_records e)" and "ev_key r = key" and "ev_complete r"
    and "ev_outcome r = EO_Pass" and "ev_kind r \<noteq> EK_WorkerSelfReport"
    and "ev_candidate_gen r = ce_candidate_gen e"
proof -
  obtain r where r: "evidence_find e key = Some r" "authoritative_for_mandatory r"
    using assms by (auto simp: has_complete_authoritative_pass_def split: option.splits)
  then have "r \<in> set (ce_records e)" "ev_key r = key" "ev_candidate_gen r = ce_candidate_gen e"
    by (auto simp: evidence_find_def find_Some_iff)
  then show thesis
    using r(2) by (intro that [of r])
      (auto simp: authoritative_for_mandatory_def outcome_satisfies_mandatory_def)
qed

end
