(* ===== verification/Decision.thy ===== *)
theory Decision
  imports Policy Evaluation Candidate Authority
begin

text \<open>
  The vocabulary of selection, retention and promotion (selection.hpp, selection.cpp,
  retention.hpp, retention.cpp, promotion.hpp, promotion.cpp): the decisions as they are
  stored, and the canonical encoding of a promotion request.
\<close>

section \<open>Selection\<close>

datatype (plugins only: code size) selection_stage =
    SS_Authority | SS_CandidateLifecycle | SS_RequiredEvidence | SS_HardConstraints
  | SS_TaskCompatibility | SS_PolicyFeasibility | SS_Ranking | SS_TieBreak | SS_Decision

primrec selection_stage_name :: "selection_stage \<Rightarrow> string" where
  "selection_stage_name SS_Authority = ''Authority''"
| "selection_stage_name SS_CandidateLifecycle = ''CandidateLifecycle''"
| "selection_stage_name SS_RequiredEvidence = ''RequiredEvidence''"
| "selection_stage_name SS_HardConstraints = ''HardConstraints''"
| "selection_stage_name SS_TaskCompatibility = ''TaskCompatibility''"
| "selection_stage_name SS_PolicyFeasibility = ''PolicyFeasibility''"
| "selection_stage_name SS_Ranking = ''Ranking''"
| "selection_stage_name SS_TieBreak = ''TieBreak''"
| "selection_stage_name SS_Decision = ''Decision''"

datatype (plugins only: code size) selection_decision_state =
    SD_Prepared | SD_Committed | SD_Rejected | SD_Impossible

primrec selection_decision_state_name :: "selection_decision_state \<Rightarrow> string" where
  "selection_decision_state_name SD_Prepared = ''Prepared''"
| "selection_decision_state_name SD_Committed = ''Committed''"
| "selection_decision_state_name SD_Rejected = ''Rejected''"
| "selection_decision_state_name SD_Impossible = ''Impossible''"

datatype (plugins only: code size) exclusion_reason =
    ER_None | ER_UnknownCandidate | ER_LifecycleNotEligible | ER_MandatoryEvidenceMissing
  | ER_MandatoryEvaluationFailed | ER_MandatoryEvaluationUnknown
  | ER_MandatoryEvaluationUnsupported | ER_MandatoryEvaluationError
  | ER_MandatoryEvaluationCancelled | ER_MandatoryEvaluatorNotAuthoritative | ER_TaskIncompatible
  | ER_EvidenceGenerationMismatch | ER_Superseded | ER_Retired | ER_PolicyInfeasible
  | ER_BudgetExhausted | ER_LineageRetired

primrec exclusion_reason_name :: "exclusion_reason \<Rightarrow> string" where
  "exclusion_reason_name ER_None = ''None''"
| "exclusion_reason_name ER_UnknownCandidate = ''UnknownCandidate''"
| "exclusion_reason_name ER_LifecycleNotEligible = ''LifecycleNotEligible''"
| "exclusion_reason_name ER_MandatoryEvidenceMissing = ''MandatoryEvidenceMissing''"
| "exclusion_reason_name ER_MandatoryEvaluationFailed = ''MandatoryEvaluationFailed''"
| "exclusion_reason_name ER_MandatoryEvaluationUnknown = ''MandatoryEvaluationUnknown''"
| "exclusion_reason_name ER_MandatoryEvaluationUnsupported = ''MandatoryEvaluationUnsupported''"
| "exclusion_reason_name ER_MandatoryEvaluationError = ''MandatoryEvaluationError''"
| "exclusion_reason_name ER_MandatoryEvaluationCancelled = ''MandatoryEvaluationCancelled''"
| "exclusion_reason_name ER_MandatoryEvaluatorNotAuthoritative = ''MandatoryEvaluatorNotAuthoritative''"
| "exclusion_reason_name ER_TaskIncompatible = ''TaskIncompatible''"
| "exclusion_reason_name ER_EvidenceGenerationMismatch = ''EvidenceGenerationMismatch''"
| "exclusion_reason_name ER_Superseded = ''Superseded''"
| "exclusion_reason_name ER_Retired = ''Retired''"
| "exclusion_reason_name ER_PolicyInfeasible = ''PolicyInfeasible''"
| "exclusion_reason_name ER_BudgetExhausted = ''BudgetExhausted''"
| "exclusion_reason_name ER_LineageRetired = ''LineageRetired''"

record ranking_factor_value =
  rfv_key :: string
  rfv_kind :: ranking_factor_kind
  rfv_direction :: ranking_direction
  rfv_weight :: binary64
  rfv_raw_value :: binary64
  rfv_available :: bool
  rfv_contribution :: binary64

record ranking_entry =
  re_candidate :: candidate_id
  re_candidate_gen :: candidate_generation
  re_rank :: u32
  re_total_score :: binary64
  re_factors :: "ranking_factor_value list"
  re_artifact_bytes :: u64
  re_lineage_depth :: u32
  re_diversity_key :: string

record exclusion_entry =
  ex_candidate :: candidate_id
  ex_candidate_gen :: candidate_generation
  ex_stage :: selection_stage
  ex_reason :: exclusion_reason
  ex_detail :: string

record selection_decision =
  sd_gen :: selection_generation
  sd_population :: population_id
  sd_population_gen :: population_generation
  sd_task :: task_id
  sd_task_gen :: task_generation
  sd_policy :: policy_id
  sd_policy_gen :: policy_generation
  sd_epoch :: coordinator_epoch
  sd_state :: selection_decision_state
  sd_selected :: candidate_id
  sd_selected_gen :: candidate_generation
  sd_ranking :: "ranking_entry list"
  sd_excluded :: "exclusion_entry list"
  sd_digest :: string
  sd_rationale :: string

definition default_selection_decision :: selection_decision where
  "default_selection_decision =
    \<lparr>sd_gen = gen_none, sd_population = null_id, sd_population_gen = gen_none, sd_task = null_id,
     sd_task_gen = gen_none, sd_policy = null_id, sd_policy_gen = gen_none, sd_epoch = epoch_none,
     sd_state = SD_Prepared, sd_selected = null_id, sd_selected_gen = gen_none, sd_ranking = [],
     sd_excluded = [], sd_digest = [], sd_rationale = []\<rparr>"

definition has_winner :: "selection_decision \<Rightarrow> bool" where
  "has_winner d \<longleftrightarrow> id_valid (sd_selected d)"

section \<open>Retention\<close>

datatype (plugins only: code size) retention_outcome =
    RO_Retained | RO_RetainedBecauseSelected | RO_RetainedForLineageDiversity
  | RO_RetiredRankedBelowCut | RO_RetiredLineageCap | RO_RetiredCapacityLimit | RO_RetiredIneligible

primrec retention_outcome_name :: "retention_outcome \<Rightarrow> string" where
  "retention_outcome_name RO_Retained = ''Retained''"
| "retention_outcome_name RO_RetainedBecauseSelected = ''RetainedBecauseSelected''"
| "retention_outcome_name RO_RetainedForLineageDiversity = ''RetainedForLineageDiversity''"
| "retention_outcome_name RO_RetiredRankedBelowCut = ''RetiredRankedBelowCut''"
| "retention_outcome_name RO_RetiredLineageCap = ''RetiredLineageCap''"
| "retention_outcome_name RO_RetiredCapacityLimit = ''RetiredCapacityLimit''"
| "retention_outcome_name RO_RetiredIneligible = ''RetiredIneligible''"

record retention_entry =
  rde_candidate :: candidate_id
  rde_candidate_gen :: candidate_generation
  rde_outcome :: retention_outcome
  rde_rank :: u32
  rde_lineage_key :: string
  rde_detail :: string

record retention_decision =
  rd_selection_gen :: selection_generation
  rd_population :: population_id
  rd_population_gen :: population_generation
  rd_policy :: policy_id
  rd_policy_gen :: policy_generation
  rd_epoch :: coordinator_epoch
  rd_entries :: "retention_entry list"
  rd_retained :: "candidate_id list"
  rd_retired :: "candidate_id list"
  rd_digest :: string
  rd_committed :: bool

section \<open>Promotion\<close>

datatype (plugins only: code size) promotion_eligibility =
    PE_NotEvaluated | PE_Eligible | PE_NotEligible | PE_Withdrawn

primrec promotion_eligibility_ordinal :: "promotion_eligibility \<Rightarrow> u32" where
  "promotion_eligibility_ordinal PE_NotEvaluated = 0"
| "promotion_eligibility_ordinal PE_Eligible = 1"
| "promotion_eligibility_ordinal PE_NotEligible = 2"
| "promotion_eligibility_ordinal PE_Withdrawn = 3"

primrec promotion_eligibility_state_name :: "promotion_eligibility \<Rightarrow> string" where
  "promotion_eligibility_state_name PE_NotEvaluated = ''NotEvaluated''"
| "promotion_eligibility_state_name PE_Eligible = ''Eligible''"
| "promotion_eligibility_state_name PE_NotEligible = ''NotEligible''"
| "promotion_eligibility_state_name PE_Withdrawn = ''Withdrawn''"

datatype (plugins only: code size) promotion_handoff =
    PH_NotRequested | PH_Requested | PH_AcceptedForProcessing | PH_DeclinedBySink | PH_SinkUnavailable

primrec promotion_handoff_state_name :: "promotion_handoff \<Rightarrow> string" where
  "promotion_handoff_state_name PH_NotRequested = ''NotRequested''"
| "promotion_handoff_state_name PH_Requested = ''Requested''"
| "promotion_handoff_state_name PH_AcceptedForProcessing = ''AcceptedForProcessing''"
| "promotion_handoff_state_name PH_DeclinedBySink = ''DeclinedBySink''"
| "promotion_handoff_state_name PH_SinkUnavailable = ''SinkUnavailable''"

record promotion_evidence =
  pe_key :: string
  pe_kind :: evaluator_kind
  pe_outcome :: evaluation_outcome
  pe_class :: requirement_class
  pe_complete :: bool
  pe_has_score :: bool
  pe_score :: binary64
  pe_gen :: evaluation_generation
  pe_digest :: string

record promotion_request =
  pr_id :: promotion_request_id
  pr_foundry :: foundry_id
  pr_run :: foundry_run_id
  pr_epoch :: coordinator_epoch
  pr_population :: population_id
  pr_population_gen :: population_generation
  pr_candidate :: candidate_id
  pr_candidate_gen :: candidate_generation
  pr_task :: task_id
  pr_task_gen :: task_generation
  pr_lineage :: lineage_id
  pr_selection_gen :: selection_generation
  pr_policy :: policy_id
  pr_policy_gen :: policy_generation
  pr_evidence_gen :: evidence_generation
  pr_eligibility :: promotion_eligibility
  pr_outstanding :: "string list"
  pr_artifacts :: "artifact_ref list"
  pr_total_bytes :: u64
  pr_artifact_set_digest :: string
  pr_evidence :: "promotion_evidence list"
  pr_ancestry :: "candidate_id list"
  pr_lineage_depth :: u32
  pr_digest :: string

record promotion_receipt =
  rcp_handoff :: promotion_handoff
  rcp_sink_name :: string
  rcp_sink_reference :: string
  rcp_detail :: string
  rcp_request_digest :: string

text \<open>
  Evidence is ordered by key and generation. Two summaries that agree on both are equivalent
  for the comparator; \<^verbatim>\<open>std::sort\<close> may then emit them in either order, the model keeps the
  order they came in.
\<close>

definition evidence_order :: "promotion_evidence \<Rightarrow> promotion_evidence \<Rightarrow> bool" where
  "evidence_order a b \<longleftrightarrow>
    (if pe_key a \<noteq> pe_key b then pe_key a < pe_key b else gen_value (pe_gen a) < gen_value (pe_gen b))"

definition promotion_artifact_fields :: "artifact_ref \<Rightarrow> field list" where
  "promotion_artifact_fields a =
    [(''artifact_name'', art_name a), field_u64 ''artifact_size_bytes'' (art_size a),
     (''artifact_content_digest'', art_digest a)]"

definition evidence_fields :: "promotion_evidence \<Rightarrow> field list" where
  "evidence_fields s =
    [(''evidence_key'', pe_key s),
     field_u32 ''evidence_kind'' (of_nat (evaluator_kind_ordinal (pe_kind s))),
     field_u32 ''evidence_outcome'' (of_nat (evaluation_outcome_ordinal (pe_outcome s))),
     field_u32 ''evidence_requirement_class'' (requirement_class_ordinal (pe_class s)),
     field_bool ''evidence_complete'' (pe_complete s),
     field_bool ''evidence_has_score'' (pe_has_score s)]
    @ (if pe_has_score s then [field_binary64 ''evidence_score'' (pe_score s)] else [])
    @ [field_u32 ''evidence_generation'' (gen_value (pe_gen s)),
       (''evidence_digest'', pe_digest s)]"

definition promotion_request_fields :: "promotion_request \<Rightarrow> field list" where
  "promotion_request_fields r =
    [field_u64 ''request_id'' (raw (pr_id r)),
     field_u64 ''foundry'' (raw (pr_foundry r)),
     field_u64 ''run'' (raw (pr_run r)),
     field_u64 ''coordinator_epoch'' (epoch_value (pr_epoch r)),
     field_u64 ''population'' (raw (pr_population r)),
     field_u32 ''population_generation'' (gen_value (pr_population_gen r)),
     field_u64 ''candidate'' (raw (pr_candidate r)),
     field_u32 ''candidate_generation'' (gen_value (pr_candidate_gen r)),
     field_u64 ''task'' (raw (pr_task r)),
     field_u32 ''task_generation'' (gen_value (pr_task_gen r)),
     field_u64 ''lineage'' (raw (pr_lineage r)),
     field_u32 ''selection_generation'' (gen_value (pr_selection_gen r)),
     field_u64 ''policy'' (raw (pr_policy r)),
     field_u32 ''policy_generation'' (gen_value (pr_policy_gen r)),
     field_u32 ''evidence_generation'' (gen_value (pr_evidence_gen r)),
     field_u32 ''eligibility'' (promotion_eligibility_ordinal (pr_eligibility r))]
    @ field_group ''outstanding_count'' (\<lambda>s. [(''requirement'', s)]) (pr_outstanding r)
    @ field_group ''artifact_count'' promotion_artifact_fields (sort_by artifact_less (pr_artifacts r))
    @ [field_u64 ''total_artifact_bytes'' (pr_total_bytes r),
       (''artifact_set_digest'', pr_artifact_set_digest r)]
    @ field_group ''mandatory_evidence_count'' evidence_fields (sort_by evidence_order (pr_evidence r))
    @ field_group ''ancestry_count'' (\<lambda>c. [field_u64 ''ancestor'' (raw c)]) (pr_ancestry r)
    @ [field_u32 ''lineage_depth'' (pr_lineage_depth r)]"

definition encode_promotion_request_canonical :: "promotion_request \<Rightarrow> string" where
  "encode_promotion_request_canonical r = encode_fields (promotion_request_fields r)"

interpretation evidence_comparator: comparator_on evidence_order UNIV
proof unfold_locales
  fix x y z :: promotion_evidence
  show "\<not> evidence_order x x" by (simp add: evidence_order_def)
  show "evidence_order x y \<Longrightarrow> evidence_order y z \<Longrightarrow> evidence_order x z"
    by (auto simp: evidence_order_def split: if_splits)
  show "\<not> evidence_order x y \<Longrightarrow> \<not> evidence_order y z \<Longrightarrow> \<not> evidence_order x z"
    by (auto simp: evidence_order_def split: if_splits)
qed

end
