(* ===== verification/Core_State.thy ===== *)
theory Core_State
  imports Lineage Accounting Artifact Task Policy Population Candidate Worker Attempt Authority
    Evaluation Decision
begin

text \<open>
  The state of \<^verbatim>\<open>FoundryCore::Impl\<close> and the helpers its operations share (foundry.hpp,
  foundry_core_impl.hpp, foundry_core.cpp).

  The state is one record. A table is the list of its entries in iteration order. A pointer
  or reference into a table is modelled by its key: reading through it is a lookup, writing
  through it adjusts the entry of that key. A helper that takes a reference to a record
  therefore takes its key; the branch for an absent key is never reached, since every caller
  holds a reference to a present entry, and leaves the state as it is.

  The lock gives each operation exclusive access, so an operation is one action on the
  state. The text of a status is not modelled, the text the code stores in its records is.
\<close>

section \<open>Records\<close>

record foundry_config =
  cfg_foundry :: foundry_id
  cfg_run :: foundry_run_id
  cfg_epoch :: coordinator_epoch
  cfg_id_salt :: u32
  cfg_workspace_root :: string
  cfg_default_budgets :: budget_limits

record foundry_statistics =
  st_task_revisions :: u64
  st_policy_revisions :: u64
  st_populations_created :: u64
  st_populations_closed :: u64
  st_candidate_slots_created :: u64
  st_candidates_published :: u64
  st_attempts_authorized :: u64
  st_attempts_completed :: u64
  st_attempts_failed :: u64
  st_attempts_cancelled :: u64
  st_attempts_outcome_unknown :: u64
  st_evaluations_recorded :: u64
  st_selections_prepared :: u64
  st_selections_committed :: u64
  st_retentions_committed :: u64
  st_promotion_requests :: u64
  st_stale_authority_rejections :: u64
  st_duplicate_rejections :: u64
  st_late_rejections :: u64
  st_illegal_transition_rejections :: u64

definition zero_statistics :: foundry_statistics where
  "zero_statistics =
    \<lparr>st_task_revisions = 0, st_policy_revisions = 0, st_populations_created = 0,
     st_populations_closed = 0, st_candidate_slots_created = 0, st_candidates_published = 0,
     st_attempts_authorized = 0, st_attempts_completed = 0, st_attempts_failed = 0,
     st_attempts_cancelled = 0, st_attempts_outcome_unknown = 0, st_evaluations_recorded = 0,
     st_selections_prepared = 0, st_selections_committed = 0, st_retentions_committed = 0,
     st_promotion_requests = 0, st_stale_authority_rejections = 0, st_duplicate_rejections = 0,
     st_late_rejections = 0, st_illegal_transition_rejections = 0\<rparr>"

record foundry_snapshot =
  snap_foundry :: foundry_id
  snap_run :: foundry_run_id
  snap_epoch :: coordinator_epoch
  snap_revision :: u64
  snap_id_salt :: u32
  snap_id_counters :: "u32 list"
  snap_tasks :: "(task_id, task_spec) table"
  snap_policies :: "(policy_id, foundry_policy) table"
  snap_populations :: "(population_id, population_record) table"
  snap_candidates :: "(candidate_id, candidate_record) table"
  snap_workers :: "(worker_id, worker_record) table"
  snap_attempts :: "(attempt_id, attempt_record) table"
  snap_assignments :: "(assignment_id, assignment_record) table"
  snap_evaluations :: "(evaluation_id, evaluation_record) table"
  snap_selections :: "(population_id, selection_decision) table"
  snap_retentions :: "(population_id, retention_decision) table"
  snap_promotion_requests :: "(promotion_request_id, promotion_request) table"
  snap_ledgers :: "(population_id, budget_ledger) table"
  snap_lineage :: lineage_graph
  snap_statistics :: foundry_statistics

record worker_registration_request =
  wrr_worker :: worker_id
  wrr_boot :: worker_boot_id
  wrr_label :: string
  wrr_capability :: string
  wrr_process_id :: u32

record pending_dispatch =
  pd_session :: worker_session_authority
  pd_attempt :: attempt_record
  pd_assignment :: assignment_record

record publication_outcome =
  po_candidate :: candidate_id
  po_candidate_gen :: candidate_generation
  po_evidence_gen :: evidence_generation
  po_replaced :: bool

definition kMaxAttemptsPerCandidate :: u32 where "kMaxAttemptsPerCandidate = 16"

record foundry_core =
  co_config :: foundry_config
  co_foundry :: foundry_id
  co_run :: foundry_run_id
  co_epoch :: coordinator_epoch
  co_revision :: u64
  co_ids :: id_allocator
  co_tasks :: "(task_id, task_spec) table"
  co_policies :: "(policy_id, foundry_policy) table"
  co_populations :: "(population_id, population_record) table"
  co_candidates :: "(candidate_id, candidate_record) table"
  co_workers :: "(worker_id, worker_record) table"
  co_attempts :: "(attempt_id, attempt_record) table"
  co_assignments :: "(assignment_id, assignment_record) table"
  co_evaluations :: "(evaluation_id, evaluation_record) table"
  co_selections :: "(population_id, selection_decision) table"
  co_retentions :: "(population_id, retention_decision) table"
  co_promotion_requests :: "(promotion_request_id, promotion_request) table"
  co_ledgers :: "(population_id, budget_ledger) table"
  co_lineage :: lineage_graph
  co_statistics :: foundry_statistics

text \<open>
  The constructor of \<^verbatim>\<open>Impl\<close>. \<open>entropy_salt\<close> is what \<^verbatim>\<open>make_id_salt()\<close> reads from the
  operating system.
\<close>

definition make_core :: "u32 \<Rightarrow> foundry_config \<Rightarrow> foundry_core" where
  "make_core entropy_salt config =
    \<lparr>co_config = config, co_foundry = cfg_foundry config, co_run = cfg_run config,
     co_epoch = (if epoch_valid (cfg_epoch config) then cfg_epoch config else CoordinatorEpoch 1),
     co_revision = 0,
     co_ids = make_allocator (if cfg_id_salt config = 0 then entropy_salt else cfg_id_salt config),
     co_tasks = [], co_policies = [], co_populations = [], co_candidates = [], co_workers = [],
     co_attempts = [], co_assignments = [], co_evaluations = [], co_selections = [],
     co_retentions = [], co_promotion_requests = [], co_ledgers = [], co_lineage = [],
     co_statistics = zero_statistics\<rparr>"

section \<open>Primitive reads and writes\<close>

type_synonym 'a core_action = "(foundry_core, 'a) action"

definition touch :: "unit core_action" where
  "touch = modifyA (\<lambda>c. c\<lparr>co_revision := co_revision c + 1\<rparr>)"

definition count_in :: "((u64 \<Rightarrow> u64) \<Rightarrow> foundry_statistics \<Rightarrow> foundry_statistics) \<Rightarrow> unit core_action" where
  "count_in counter = modifyA (co_statistics_update (counter (\<lambda>n. n + 1)))"

definition allocate :: "id_kind \<Rightarrow> 'tag strong_id core_action" where
  "allocate kind = (\<lambda>c. case alloc_next kind (co_ids c) of (r, ids) \<Rightarrow> (r, c\<lparr>co_ids := ids\<rparr>))"

definition find_population :: "population_id \<Rightarrow> foundry_core \<Rightarrow> population_record option" where
  "find_population k c = tbl_find (co_populations c) k"

definition find_candidate :: "candidate_id \<Rightarrow> foundry_core \<Rightarrow> candidate_record option" where
  "find_candidate k c = tbl_find (co_candidates c) k"

definition find_attempt :: "attempt_id \<Rightarrow> foundry_core \<Rightarrow> attempt_record option" where
  "find_attempt k c = tbl_find (co_attempts c) k"

definition find_worker :: "worker_id \<Rightarrow> foundry_core \<Rightarrow> worker_record option" where
  "find_worker k c = tbl_find (co_workers c) k"

definition find_task :: "task_id \<Rightarrow> foundry_core \<Rightarrow> task_spec option" where
  "find_task k c = tbl_find (co_tasks c) k"

definition find_policy :: "policy_id \<Rightarrow> foundry_core \<Rightarrow> foundry_policy option" where
  "find_policy k c = tbl_find (co_policies c) k"

definition find_ledger :: "population_id \<Rightarrow> foundry_core \<Rightarrow> budget_ledger option" where
  "find_ledger k c = tbl_find (co_ledgers c) k"

definition write_population :: "population_id \<Rightarrow> (population_record \<Rightarrow> population_record) \<Rightarrow> unit core_action" where
  "write_population k f = modifyA (co_populations_update (tbl_adjust k f))"

definition write_candidate :: "candidate_id \<Rightarrow> (candidate_record \<Rightarrow> candidate_record) \<Rightarrow> unit core_action" where
  "write_candidate k f = modifyA (co_candidates_update (tbl_adjust k f))"

definition write_attempt :: "attempt_id \<Rightarrow> (attempt_record \<Rightarrow> attempt_record) \<Rightarrow> unit core_action" where
  "write_attempt k f = modifyA (co_attempts_update (tbl_adjust k f))"

definition write_worker :: "worker_id \<Rightarrow> (worker_record \<Rightarrow> worker_record) \<Rightarrow> unit core_action" where
  "write_worker k f = modifyA (co_workers_update (tbl_adjust k f))"

definition on_ledger :: "population_id \<Rightarrow> (budget_ledger \<Rightarrow> status \<times> budget_ledger) \<Rightarrow> unit core_action" where
  "on_ledger k operation = (\<lambda>c.
    case find_ledger k c of
      None \<Rightarrow> (Inl E_Internal, c)
    | Some l \<Rightarrow> (case operation l of (st, l') \<Rightarrow>
        (st, c\<lparr>co_ledgers := tbl_adjust k (\<lambda>_. l') (co_ledgers c)\<rparr>)))"

definition on_lineage :: "(lineage_graph \<Rightarrow> status \<times> lineage_graph) \<Rightarrow> unit core_action" where
  "on_lineage operation = (\<lambda>c. case operation (co_lineage c) of (st, g) \<Rightarrow> (st, c\<lparr>co_lineage := g\<rparr>))"

text \<open>A lookup whose null result is an early return, and one whose null result skips the use.\<close>

definition found_or :: "error_code \<Rightarrow> 'v option \<Rightarrow> ('v \<Rightarrow> 'a core_action) \<Rightarrow> 'a core_action" where
  "found_or e x use = (case x of None \<Rightarrow> failA e | Some v \<Rightarrow> use v)"

definition if_found :: "'v option \<Rightarrow> ('v \<Rightarrow> unit core_action) \<Rightarrow> unit core_action" where
  "if_found x use = (case x of None \<Rightarrow> retA () | Some v \<Rightarrow> use v)"

text \<open>A counted refusal: the statistic is incremented, then the error returned.\<close>

definition refuse_in :: "((u64 \<Rightarrow> u64) \<Rightarrow> foundry_statistics \<Rightarrow> foundry_statistics) \<Rightarrow> error_code \<Rightarrow> 'a core_action" where
  "refuse_in counter e = thenA (count_in counter) (failA e)"

definition guardA :: "bool \<Rightarrow> error_code \<Rightarrow> unit core_action" where
  "guardA b e = checkA (require b e)"

section \<open>Canonical encodings\<close>

text \<open>
  \<open>shortest\<close> stands for \<^verbatim>\<open>std::to_chars\<close> with \<^verbatim>\<open>chars_format::general\<close> on a finite double: the
  text it chooses between equally short representations is the library's.
\<close>

definition canonical_double :: "(binary64 \<Rightarrow> string) \<Rightarrow> binary64 \<Rightarrow> string" where
  "canonical_double shortest v =
    (if \<not> b64_is_finite v
     then (if b64_is_nan v then ''nan'' else if b64_less v b64_zero then ''-inf'' else ''inf'')
     else shortest v)"

definition digest_field :: "string \<Rightarrow> string \<Rightarrow> string" where
  "digest_field key v = key @ ''='' @ decimal (length v) @ '':'' @ v @ '';''"

definition digest_u64 :: "string \<Rightarrow> u64 \<Rightarrow> string" where
  "digest_u64 key v = key @ ''='' @ decimal (unat v) @ '';''"

definition digest_bool :: "string \<Rightarrow> bool \<Rightarrow> string" where
  "digest_bool key b = digest_u64 key (if b then 1 else 0)"

definition encode_evaluation_for_digest :: "(binary64 \<Rightarrow> string) \<Rightarrow> evaluation_record \<Rightarrow> string" where
  "encode_evaluation_for_digest shortest r =
    digest_field ''key'' (ev_key r)
    @ digest_u64 ''gen'' (ucast (gen_value (ev_gen r)))
    @ digest_field ''kind'' (evaluator_kind_name (ev_kind r))
    @ digest_field ''class'' (requirement_class_name (ev_class r))
    @ digest_field ''outcome'' (evaluation_outcome_name (ev_outcome r))
    @ digest_bool ''complete'' (ev_complete r)
    @ digest_bool ''has_score'' (ev_has_score r)
    @ (if ev_has_score r then digest_field ''score'' (canonical_double shortest (ev_score r)) else [])
    @ digest_u64 ''candgen'' (ucast (gen_value (ev_candidate_gen r)))
    @ digest_u64 ''taskgen'' (ucast (gen_value (ev_task_gen r)))
    @ digest_field ''evidence'' (ev_evidence_digest r)"

definition evaluation_digest_order :: "evaluation_record \<Rightarrow> evaluation_record \<Rightarrow> bool" where
  "evaluation_digest_order a b \<longleftrightarrow>
    (if ev_key a \<noteq> ev_key b then ev_key a < ev_key b else gen_value (ev_gen a) < gen_value (ev_gen b))"

definition encode_candidate_for_digest ::
  "(binary64 \<Rightarrow> string) \<Rightarrow> candidate_record \<Rightarrow> evaluation_record list \<Rightarrow> string" where
  "encode_candidate_for_digest shortest c evaluations =
    digest_u64 ''id'' (raw (cand_id c))
    @ digest_u64 ''gen'' (ucast (gen_value (cand_gen c)))
    @ digest_u64 ''popgen'' (ucast (gen_value (cand_population_gen c)))
    @ digest_u64 ''taskgen'' (ucast (gen_value (cand_task_gen c)))
    @ digest_field ''state'' (candidate_state_name (cand_state c))
    @ digest_field ''artifacts'' (cand_artifact_set_digest c)
    @ digest_u64 ''attempts'' (ucast (cand_attempt_count c))
    @ digest_bool ''selected'' (cand_selected c)
    @ digest_bool ''retained'' (cand_retained c)
    @ digest_u64 ''depth'' (ucast (cand_depth c))
    @ digest_u64 ''evidence_count'' (of_nat (length evaluations))
    @ concat (map (\<lambda>r. encode_evaluation_for_digest shortest r @ ''|'')
        (sort_by evaluation_digest_order evaluations))"

definition compute_candidate_state_digest ::
  "(binary64 \<Rightarrow> string) \<Rightarrow> candidate_record \<Rightarrow> evaluation_record list \<Rightarrow> string" where
  "compute_candidate_state_digest shortest c evaluations =
    sha256_hex (encode_candidate_for_digest shortest c evaluations)"

section \<open>Deterministic orderings\<close>

definition ordered_populations :: "foundry_core \<Rightarrow> population_id list" where
  "ordered_populations c = sort_by (<) (tbl_keys (co_populations c))"

definition ordered_candidates :: "population_id \<Rightarrow> foundry_core \<Rightarrow> candidate_id list" where
  "ordered_candidates p c =
    (case find_population p c of None \<Rightarrow> [] | Some pop \<Rightarrow> sort_by (<) (pop_candidates pop))"

definition evaluation_order :: "evaluation_record \<Rightarrow> evaluation_record \<Rightarrow> bool" where
  "evaluation_order a b \<longleftrightarrow> (if ev_key a \<noteq> ev_key b then ev_key a < ev_key b else ev_id a < ev_id b)"

definition evaluations_for :: "candidate_id \<Rightarrow> foundry_core \<Rightarrow> evaluation_record list" where
  "evaluations_for k c =
    sort_by evaluation_order (filter (\<lambda>r. ev_candidate r = k) (map snd (co_evaluations c)))"

definition selection_canonical_inputs ::
  "population_id \<Rightarrow> foundry_core \<Rightarrow> candidate_record list \<times> evaluation_record list" where
  "selection_canonical_inputs p c =
    (let present = filter (\<lambda>k. find_candidate k c \<noteq> None) (ordered_candidates p c)
     in (map (\<lambda>k. the (find_candidate k c)) present, concat (map (\<lambda>k. evaluations_for k c) present)))"

definition require_live_population_authority :: "population_record \<Rightarrow> status" where
  "require_live_population_authority pop =
    require (\<not> population_state_is_terminal (pop_state pop)) E_LateCompletion"

definition attempts_for :: "population_id \<Rightarrow> foundry_core \<Rightarrow> attempt_record list" where
  "attempts_for p c =
    sort_by (\<lambda>a b. att_id a < att_id b) (filter (\<lambda>a. att_population a = p) (map snd (co_attempts c)))"

definition active_attempts_for :: "population_id \<Rightarrow> foundry_core \<Rightarrow> nat" where
  "active_attempts_for p c =
    length (filter (\<lambda>a. att_population a = p \<and> att_state a \<in> {AS_Authorized, AS_Dispatched, AS_Running})
      (map snd (co_attempts c)))"

definition count_candidates_with_artifacts :: "population_id \<Rightarrow> foundry_core \<Rightarrow> u32" where
  "count_candidates_with_artifacts p c =
    (case find_population p c of None \<Rightarrow> 0
     | Some pop \<Rightarrow> of_nat (length (filter (\<lambda>k.
         case find_candidate k c of None \<Rightarrow> False | Some r \<Rightarrow> cand_artifact_set_digest r \<noteq> [])
         (pop_candidates pop))))"

section \<open>Transitions\<close>

definition set_population_state :: "population_id \<Rightarrow> population_state \<Rightarrow> string \<Rightarrow> unit core_action" where
  "set_population_state k target detail = readA (\<lambda>c.
    if_found (find_population k c) (\<lambda>r.
      if pop_state r = target then write_population k (\<lambda>r. r\<lparr>pop_status_detail := detail\<rparr>)
      else if \<not> population_transition_is_legal (pop_state r) target
        then refuse_in st_illegal_transition_rejections_update E_IllegalStateTransition
      else seqA
        [write_population k (\<lambda>r. r\<lparr>pop_state := target, pop_state_epoch := co_epoch c,
           pop_status_detail := detail\<rparr>),
         touch]))"

definition set_candidate_state :: "candidate_id \<Rightarrow> candidate_state \<Rightarrow> string \<Rightarrow> unit core_action" where
  "set_candidate_state k target reason = readA (\<lambda>c.
    if_found (find_candidate k c) (\<lambda>r.
      if cand_state r = target then retA ()
      else if \<not> candidate_transition_is_legal (cand_state r) target
        then refuse_in st_illegal_transition_rejections_update E_IllegalStateTransition
      else seqA
        [write_candidate k (\<lambda>r. r\<lparr>cand_state := target, cand_state_changed_epoch := co_epoch c\<rparr>),
         whenA (target \<in> {CS_ProductionFailed, CS_ProductionCancelled, CS_Disqualified, CS_Superseded, CS_Retired})
           (write_candidate k (\<lambda>r. r\<lparr>cand_failure_reason := reason\<rparr>)),
         touch]))"

definition set_attempt_state :: "attempt_id \<Rightarrow> attempt_state \<Rightarrow> string \<Rightarrow> unit core_action" where
  "set_attempt_state k target detail = readA (\<lambda>c.
    if_found (find_attempt k c) (\<lambda>r.
      if att_state r = target then retA ()
      else if attempt_state_is_terminal (att_state r) \<and> \<not> attempt_state_is_terminal target
        then refuse_in st_illegal_transition_rejections_update E_LateCompletion
      else seqA
        [write_attempt k (\<lambda>r. r\<lparr>att_state := target, att_failure_detail := detail\<rparr>),
         whenA (attempt_state_is_terminal target)
           (write_attempt k (\<lambda>r. r\<lparr>att_terminal_epoch := co_epoch c\<rparr>)),
         touch]))"

section \<open>Evidence\<close>

definition closes_requirement :: "candidate_record \<Rightarrow> string \<Rightarrow> evaluation_record \<Rightarrow> bool" where
  "closes_requirement cand key r \<longleftrightarrow>
    ev_candidate r = cand_id cand \<and> ev_key r = key \<and> ev_candidate_gen r = cand_gen cand \<and>
    ev_complete r \<and> evaluator_kind_is_authoritative (ev_kind r)"

definition requirement_record :: "candidate_record \<Rightarrow> string \<Rightarrow> foundry_core \<Rightarrow> evaluation_record option" where
  "requirement_record cand key c =
    foldl (\<lambda>best r.
        if \<not> closes_requirement cand key r then best
        else (case best of None \<Rightarrow> Some r | Some b \<Rightarrow> if ev_gen b < ev_gen r then Some r else best))
      None (map snd (co_evaluations c))"

definition requirement_complete :: "candidate_record \<Rightarrow> string \<Rightarrow> foundry_core \<Rightarrow> bool" where
  "requirement_complete cand key c \<longleftrightarrow> requirement_record cand key c \<noteq> None"

definition complete_requirement_count :: "candidate_record \<Rightarrow> foundry_core \<Rightarrow> nat" where
  "complete_requirement_count cand c =
    (case find_task (cand_task cand) c of None \<Rightarrow> 0
     | Some t \<Rightarrow> length (filter (\<lambda>q. requirement_complete cand (req_key q) c) (task_requirements t)))"

definition release_attempt_reservations :: "attempt_id \<Rightarrow> unit core_action" where
  "release_attempt_reservations k = readA (\<lambda>c.
    if_found (find_attempt k c) (\<lambda>a.
      if \<not> att_holds_reservation a then retA ()
      else seqA
        [if_found (find_ledger (att_population a) c) (\<lambda>_. seqA
           [ignoreA (on_ledger (att_population a) (ledger_release BK_CandidateAttempts)),
            ignoreA (on_ledger (att_population a) (ledger_release BK_WorkerAssignments)),
            ignoreA (on_ledger (att_population a) (ledger_release BK_ActiveAttempts)),
            whenA (0 < att_retry_index a)
              (ignoreA (on_ledger (att_population a) (ledger_release BK_Retries)))]),
         write_attempt k (\<lambda>a. a\<lparr>att_holds_reservation := False\<rparr>)]))"

text \<open>One turn of the loop over the attempts of a settled candidate.\<close>

definition settle_attempt :: "candidate_id \<Rightarrow> attempt_id \<Rightarrow> unit core_action" where
  "settle_attempt candidate k = readA (\<lambda>c.
    if_found (find_attempt k c) (\<lambda>a.
      if att_candidate a \<noteq> candidate then retA ()
      else whenA (att_state a \<in> {AS_Published, AS_Evaluating, AS_Running, AS_Dispatched})
        (thenA (ignoreA (set_attempt_state k AS_Completed ''candidate reached Evaluated''))
          (whenA (att_holds_reservation a \<and> find_ledger (att_population a) c \<noteq> None)
            (release_attempt_reservations k)))))"

definition settle_candidate :: "candidate_id \<Rightarrow> unit core_action" where
  "settle_candidate k = readA (\<lambda>c.
    if_found (find_candidate k c) (\<lambda>cand.
    if_found (find_task (cand_task cand) c) (\<lambda>t.
      if task_requirements t = [] then retA ()
      else if \<not> list_all (\<lambda>q. requirement_complete cand (req_key q) c) (task_requirements t) then retA ()
      else ignoreA (seqA
        [whenA (cand_state cand = CS_Published)
           (set_candidate_state k CS_Evaluating ''evidence complete while published''),
         readA (\<lambda>c. if_found (find_candidate k c) (\<lambda>cand.
           whenA (cand_state cand = CS_Evaluating)
             (ignoreA (set_candidate_state k CS_Evaluated
                ''every declared requirement has a complete record'')))),
         forA (tbl_keys (co_attempts c)) (settle_attempt (cand_id cand))]))))"

section \<open>Worker authority\<close>

text \<open>
  The checks of a worker session against the record of the worker it names; the first
  failure is counted as a stale authority and returned.
\<close>

definition check_worker_session :: "worker_session_authority \<Rightarrow> foundry_core \<Rightarrow> status" where
  "check_worker_session session c = first_failure
    [check_coordinator_epoch (wsa_epoch session) (co_epoch c),
     check_run (wsa_run session) (co_run c),
     require (id_valid (wsa_worker session)) E_NullIdentity,
     (case find_worker (wsa_worker session) c of
        None \<Rightarrow> Inl E_UnknownWorkerIncarnation
      | Some w \<Rightarrow> first_failure
          [check_worker_boot (wsa_boot session) (wk_boot w),
           check_session (wsa_session session) (wk_session w),
           check_session_generation (wsa_session_gen session) (wk_session_gen w),
           require (wk_state w \<noteq> WS_Rejected) E_AuthorityWithdrawn])]"

definition validate_worker_session :: "worker_session_authority \<Rightarrow> unit core_action" where
  "validate_worker_session session = readA (\<lambda>c.
    case check_worker_session session c of
      Inl e \<Rightarrow> refuse_in st_stale_authority_rejections_update e
    | Inr _ \<Rightarrow> retA ())"

abbreviation refuse_stale :: "error_code \<Rightarrow> 'a core_action" where
  "refuse_stale \<equiv> refuse_in st_stale_authority_rejections_update"

definition validate_worker_operation :: "worker_operation_authority \<Rightarrow> unit core_action" where
  "validate_worker_operation authority = thenA (validate_worker_session (woa_session authority)) (readA (\<lambda>c.
    case find_population (woa_population authority) c of
      None \<Rightarrow> refuse_stale E_UnknownIdentity
    | Some pop \<Rightarrow> seqA
      [checkA (check_population_generation (woa_population_gen authority) (pop_gen pop)),
       checkA (check_identity (woa_task authority) (pop_task pop)),
       checkA (check_task_generation (woa_task_gen authority) (pop_task_gen pop)),
       (case require_live_population_authority pop of Inl e \<Rightarrow> refuse_stale e | Inr _ \<Rightarrow> retA ()),
       (case find_candidate (woa_candidate authority) c of
          None \<Rightarrow> refuse_stale E_UnknownIdentity
        | Some cand \<Rightarrow> seqA
          [checkA (check_candidate_generation (woa_candidate_gen authority) (cand_gen cand)),
           checkA (check_identity (woa_candidate authority) (cand_id cand)),
           (if cand_population cand \<noteq> pop_id pop then refuse_stale E_StaleAuthority else retA ()),
           (case find_attempt (woa_attempt authority) c of
              None \<Rightarrow> refuse_stale E_UnknownIdentity
            | Some att \<Rightarrow> seqA
              [checkA (check_attempt_generation (woa_attempt_gen authority) (att_gen att)),
               checkA (check_identity (woa_assignment authority) (att_assignment att)),
               (if att_candidate att \<noteq> cand_id cand then refuse_stale E_StaleAuthority else retA ()),
               (if att_worker att \<noteq> wsa_worker (woa_session authority)
                   \<or> att_worker_boot att \<noteq> wsa_boot (woa_session authority)
                then refuse_stale E_StaleWorkerBoot else retA ())])])]))"

section \<open>Read paths\<close>

definition read_entry :: "'v option \<Rightarrow> 'v result" where
  "read_entry x = (case x of None \<Rightarrow> Inl E_UnknownIdentity | Some v \<Rightarrow> Inr v)"

definition read_task :: "task_id \<Rightarrow> foundry_core \<Rightarrow> task_spec result" where
  "read_task k c = read_entry (find_task k c)"

definition read_core_policy :: "policy_id \<Rightarrow> foundry_core \<Rightarrow> foundry_policy result" where
  "read_core_policy k c = read_entry (find_policy k c)"

definition read_population :: "population_id \<Rightarrow> foundry_core \<Rightarrow> population_record result" where
  "read_population k c = read_entry (find_population k c)"

definition read_candidate :: "candidate_id \<Rightarrow> foundry_core \<Rightarrow> candidate_record result" where
  "read_candidate k c = read_entry (find_candidate k c)"

definition read_worker :: "worker_id \<Rightarrow> foundry_core \<Rightarrow> worker_record result" where
  "read_worker k c = read_entry (find_worker k c)"

definition read_attempt :: "attempt_id \<Rightarrow> foundry_core \<Rightarrow> attempt_record result" where
  "read_attempt k c = read_entry (find_attempt k c)"

definition read_assignment :: "assignment_id \<Rightarrow> foundry_core \<Rightarrow> assignment_record result" where
  "read_assignment k c = read_entry (tbl_find (co_assignments c) k)"

definition read_evaluation :: "evaluation_id \<Rightarrow> foundry_core \<Rightarrow> evaluation_record result" where
  "read_evaluation k c = read_entry (tbl_find (co_evaluations c) k)"

definition read_selection :: "population_id \<Rightarrow> foundry_core \<Rightarrow> selection_decision result" where
  "read_selection k c = read_entry (tbl_find (co_selections c) k)"

definition read_retention :: "population_id \<Rightarrow> foundry_core \<Rightarrow> retention_decision result" where
  "read_retention k c = read_entry (tbl_find (co_retentions c) k)"

definition read_core_promotion_request :: "promotion_request_id \<Rightarrow> foundry_core \<Rightarrow> promotion_request result" where
  "read_core_promotion_request k c = read_entry (tbl_find (co_promotion_requests c) k)"

definition list_workers :: "foundry_core \<Rightarrow> worker_record list" where
  "list_workers c = sort_by (\<lambda>a b. wk_id a < wk_id b) (map snd (co_workers c))"

definition list_attempts :: "foundry_core \<Rightarrow> attempt_record list" where
  "list_attempts c = sort_by (\<lambda>a b. att_id a < att_id b) (map snd (co_attempts c))"

definition lineage_node_order :: "lineage_node \<Rightarrow> lineage_node \<Rightarrow> bool" where
  "lineage_node_order a b \<longleftrightarrow>
    (if ln_depth a \<noteq> ln_depth b then ln_depth a < ln_depth b else ln_candidate a < ln_candidate b)"

definition list_lineage_nodes :: "foundry_core \<Rightarrow> lineage_node list" where
  "list_lineage_nodes c = sort_by lineage_node_order (map snd (co_lineage c))"

definition list_promotion_request_ids :: "foundry_core \<Rightarrow> promotion_request_id list" where
  "list_promotion_request_ids c = sort_by (<) (tbl_keys (co_promotion_requests c))"

section \<open>Closure\<close>

definition candidate_is_unresolved :: "candidate_state \<Rightarrow> bool" where
  "candidate_is_unresolved s \<longleftrightarrow>
    s \<in> {CS_Registered, CS_Producing, CS_Published, CS_Evaluating, CS_RevalidationRequired}"

definition population_attempts_open :: "population_id \<Rightarrow> foundry_core \<Rightarrow> attempt_record list" where
  "population_attempts_open p c =
    filter (\<lambda>a. att_population a = p \<and> \<not> attempt_state_is_terminal (att_state a)) (map snd (co_attempts c))"

definition ledger_open :: "population_id \<Rightarrow> foundry_core \<Rightarrow> u64" where
  "ledger_open p c = (case find_ledger p c of None \<Rightarrow> 0 | Some l \<Rightarrow> open_reservations l)"

definition population_id_text :: "population_id \<Rightarrow> string" where
  "population_id_text k = id_to_string IK_Population ''PopulationId'' k"

definition candidate_id_text :: "candidate_id \<Rightarrow> string" where
  "candidate_id_text k = id_to_string IK_Candidate ''CandidateId'' k"

definition attempt_id_text :: "attempt_id \<Rightarrow> string" where
  "attempt_id_text k = id_to_string IK_Attempt ''AttemptId'' k"

text \<open>The advisory list of \<^verbatim>\<open>FoundryCore::closure_blockers\<close>.\<close>

definition closure_blockers :: "population_id \<Rightarrow> foundry_core \<Rightarrow> string list" where
  "closure_blockers p c =
    (case find_population p c of
       None \<Rightarrow> [''population '' @ population_id_text p @ '' does not exist'']
     | Some pop \<Rightarrow>
       let open_attempts = length (population_attempts_open p c);
           missing = filter (\<lambda>k. find_candidate k c = None) (pop_candidates pop);
           unresolved = length (filter (\<lambda>k. case find_candidate k c of None \<Rightarrow> False
               | Some r \<Rightarrow> candidate_is_unresolved (cand_state r)) (pop_candidates pop))
       in (if gen_valid (pop_committed_selection pop) then [] else [''no selection decision has been committed''])
        @ (if pop_retention_committed pop then [] else [''no retention decision has been committed''])
        @ (if pop_require_promotion_request pop \<and> \<not> id_valid (pop_committed_promotion pop)
           then [''promotion eligibility is unresolved''] else [])
        @ (if open_attempts = 0 then [] else
             [decimal open_attempts @ '' production attempt(s) have not reached a terminal state''])
        @ map (\<lambda>k. ''candidate '' @ candidate_id_text k @ '' is referenced but missing'') missing
        @ (if unresolved = 0 then [] else
             [decimal unresolved @ '' candidate(s) still have unresolved production or evaluation''])
        @ (if ledger_open p c = 0 then [] else
             [decimal (unat (ledger_open p c)) @ '' budget reservation(s) are still open'']))"

end
