(* ===== verification/Core_Lifecycle.thy ===== *)
theory Core_Lifecycle
  imports Core_State
begin

text \<open>
  The lifecycle operations of \<^verbatim>\<open>FoundryCore\<close> (foundry_lifecycle.cpp): the construction and
  the closure of a population, the elite carried into a successor, the definition and the
  revision of tasks and policies, and the start, the cancellation and the revalidation of a
  population.
\<close>

section \<open>Population construction\<close>

definition kMaxCandidatesPerPopulation :: u32 where "kMaxCandidatesPerPopulation = 100000"

text \<open>The contract a successor specification has with its predecessor and its seed.\<close>

definition check_predecessor :: "population_spec \<Rightarrow> foundry_core \<Rightarrow> status" where
  "check_predecessor spec c =
    (if 1 < ps_index spec then
      (case find_population (ps_predecessor spec) c of
         None \<Rightarrow> Inl E_UnknownIdentity
       | Some predecessor \<Rightarrow>
         first_failure
          [require (pop_state predecessor = PS_Closed) E_IllegalStateTransition,
           require (pop_index predecessor + 1 = ps_index spec) E_GenerationRegression,
           (case tbl_find (co_selections c) (pop_id predecessor) of
              None \<Rightarrow> Inl E_SelectionImpossible
            | Some selection \<Rightarrow> first_failure
                [require (sd_state selection = SD_Committed \<and> id_valid (sd_selected selection))
                   E_SelectionImpossible,
                 require (sd_selected selection = ps_seed_candidate spec) E_StaleAuthority]),
           (case find_candidate (ps_seed_candidate spec) c of
              None \<Rightarrow> Inl E_UnknownIdentity
            | Some seed \<Rightarrow> first_failure
                [require (cand_gen seed = ps_seed_candidate_gen spec) E_StaleCandidateGeneration,
                 require (ps_seed_lineage spec = cand_lineage seed) E_StaleAuthority])])
     else require (\<not> (id_valid (ps_predecessor spec) \<or> id_valid (ps_seed_candidate spec))) E_InvalidArgument)"

definition check_population_spec :: "population_spec \<Rightarrow> foundry_core \<Rightarrow> foundry_policy result" where
  "check_population_spec spec c =
    (case first_failure
       [validate_worker_text (ps_name spec),
        (case find_task (ps_task spec) c of
           None \<Rightarrow> Inl E_UnknownIdentity
         | Some t \<Rightarrow> check_task_generation (ps_task_gen spec) (task_gen t))] of
       Inl e \<Rightarrow> Inl e
     | Inr _ \<Rightarrow>
       (case find_policy (ps_policy spec) c of
          None \<Rightarrow> Inl E_UnknownIdentity
        | Some policy \<Rightarrow>
          (case first_failure
            [check_policy_generation (ps_policy_gen spec) (pol_gen policy),
             require (ps_candidate_budget spec \<noteq> 0 \<and> ps_candidate_budget spec \<le> kMaxCandidatesPerPopulation)
               E_LengthOutOfRange,
             require (ps_worker_budget spec \<noteq> 0 \<and> ps_worker_budget spec \<le> max_workers (pol_budgets policy))
               E_LengthOutOfRange,
             require (ps_candidate_budget spec \<le> max_candidates (pol_budgets policy)) E_BudgetExhausted,
             check_predecessor spec c] of
             Inl e \<Rightarrow> Inl e
           | Inr _ \<Rightarrow> Inr policy)))"

definition population_from_spec :: "population_spec \<Rightarrow> population_id \<Rightarrow> foundry_core \<Rightarrow> population_record" where
  "population_from_spec spec k c = default_population
    \<lparr>pop_id := k, pop_gen := gen_first, pop_run := co_run c, pop_name := ps_name spec,
     pop_task := ps_task spec, pop_task_gen := ps_task_gen spec,
     pop_policy := ps_policy spec, pop_policy_gen := ps_policy_gen spec,
     pop_candidate_budget := ps_candidate_budget spec, pop_worker_budget := ps_worker_budget spec,
     pop_index := ps_index spec, pop_predecessor := ps_predecessor spec,
     pop_seed_candidate := ps_seed_candidate spec,
     pop_seed_candidate_gen := ps_seed_candidate_gen spec,
     pop_seed_lineage := ps_seed_lineage spec,
     pop_require_promotion_request := ps_require_promotion_request spec,
     pop_state := PS_Created, pop_created_epoch := co_epoch c, pop_state_epoch := co_epoch c\<rparr>"

definition create_population :: "population_spec \<Rightarrow> population_id core_action" where
  "create_population spec = readA (\<lambda>c.
    bindA (checkA (check_population_spec spec c)) (\<lambda>policy.
    bindA (allocate IK_Population) (\<lambda>k.
    thenA (seqA
      [modifyA (\<lambda>c. c\<lparr>co_populations := tbl_emplace k (population_from_spec spec k c) (co_populations c)\<rparr>),
       modifyA (\<lambda>c. c\<lparr>co_ledgers := tbl_emplace k (make_ledger (pol_budgets policy)) (co_ledgers c)\<rparr>),
       count_in st_populations_created_update,
       touch])
    (retA k))))"

section \<open>Closure\<close>

definition blocking_attempts :: "population_id \<Rightarrow> foundry_core \<Rightarrow> string list" where
  "blocking_attempts p c =
    map (\<lambda>a. ''attempt '' @ attempt_id_text (att_id a) @ '' is '' @ attempt_state_name (att_state a))
      (population_attempts_open p c)"

definition blocking_candidates :: "population_record \<Rightarrow> foundry_core \<Rightarrow> string list" where
  "blocking_candidates pop c =
    concat (map (\<lambda>k. case find_candidate k c of
        None \<Rightarrow> []
      | Some r \<Rightarrow> if candidate_is_unresolved (cand_state r)
          then [''candidate '' @ candidate_id_text k @ '' is '' @ candidate_state_name (cand_state r)]
          else [])
      (pop_candidates pop))"

definition close_blockers :: "population_id \<Rightarrow> population_record \<Rightarrow> foundry_core \<Rightarrow> string list" where
  "close_blockers p pop c =
    blocking_attempts p c
    @ (if gen_valid (pop_committed_selection pop) then [] else [''no committed selection decision''])
    @ (if pop_retention_committed pop then [] else [''no committed retention decision''])
    @ (if pop_require_promotion_request pop \<and> \<not> id_valid (pop_committed_promotion pop)
       then [''promotion eligibility is unresolved''] else [])
    @ blocking_candidates pop c
    @ (if ledger_open p c = 0 then [] else
         [decimal (unat (ledger_open p c)) @ '' budget reservation(s) are still open''])"

definition bump_population_generation :: "population_id \<Rightarrow> unit core_action" where
  "bump_population_generation p = write_population p (\<lambda>r. r\<lparr>pop_gen := gen_bump (pop_gen r)\<rparr>)"

definition close_population :: "population_id \<Rightarrow> unit core_action" where
  "close_population p = readA (\<lambda>c.
    found_or E_UnknownIdentity (find_population p c) (\<lambda>pop.
      if pop_state pop = PS_Closed then retA ()
      else if population_state_is_terminal (pop_state pop) then failA E_LifecycleClosed
      else if close_blockers p pop c \<noteq> [] then
        thenA (write_population p (\<lambda>r. r\<lparr>pop_closure_blockers := close_blockers p pop c\<rparr>))
          (failA E_IllegalStateTransition)
      else seqA
        [write_population p (\<lambda>r. r\<lparr>pop_closure_blockers := []\<rparr>),
         set_population_state p PS_Closing ''closure contract satisfied'',
         set_population_state p PS_Closed ''population closed'',
         bump_population_generation p,
         count_in st_populations_closed_update]))"

section \<open>Elite carry-forward\<close>

definition elite_candidate :: "candidate_id \<Rightarrow> population_record \<Rightarrow> candidate_record \<Rightarrow> foundry_core \<Rightarrow> candidate_record" where
  "elite_candidate k successor winner c = default_candidate
    \<lparr>cand_id := k, cand_gen := gen_first, cand_population := pop_id successor,
     cand_population_gen := pop_gen successor, cand_task := pop_task successor,
     cand_task_gen := pop_task_gen successor, cand_lineage := cand_lineage winner,
     cand_parents := [cand_id winner], cand_depth := cand_depth winner + 1,
     cand_producer_worker := cand_producer_worker winner,
     cand_producer_boot := cand_producer_boot winner,
     cand_created_epoch := co_epoch c, cand_state_changed_epoch := co_epoch c,
     cand_state := CS_Published, cand_artifacts := cand_artifacts winner,
     cand_artifact_set_digest := cand_artifact_set_digest winner,
     cand_evidence_gen := gen_first, cand_diversity_key := cand_diversity_key winner,
     cand_retained := False, cand_selected := False\<rparr>"

definition lineage_node_for :: "candidate_record \<Rightarrow> foundry_core \<Rightarrow> lineage_node" where
  "lineage_node_for cand c = default_lineage_node
    \<lparr>ln_candidate := cand_id cand, ln_candidate_gen := cand_gen cand, ln_lineage := cand_lineage cand,
     ln_parents := cand_parents cand, ln_depth := cand_depth cand, ln_created_epoch := co_epoch c\<rparr>"

definition add_elite_candidate :: "population_id \<Rightarrow> candidate_record \<Rightarrow> unit core_action" where
  "add_elite_candidate p winner = readA (\<lambda>c.
    found_or E_InvalidArgument (find_population p c) (\<lambda>successor.
    found_or E_LineageOrphan (tbl_find (co_lineage c) (cand_id winner)) (\<lambda>_.
    found_or E_Internal (find_ledger (pop_id successor) c) (\<lambda>_.
    thenA (seqA
      [on_ledger (pop_id successor) (ledger_reserve BK_Candidates),
       on_ledger (pop_id successor) (ledger_consume BK_Candidates)])
    (bindA (allocate IK_Candidate) (\<lambda>k.
      let elite = elite_candidate k successor winner c in
      if kMaxLineageDepth < unat (cand_depth elite) then failA E_GenerationRegression
      else seqA
        [on_lineage (lineage_insert (lineage_node_for elite c)),
         write_population p (\<lambda>r. r\<lparr>pop_candidates := pop_candidates r @ [k]\<rparr>),
         modifyA (\<lambda>c. c\<lparr>co_candidates := tbl_emplace k elite (co_candidates c)\<rparr>),
         count_in st_candidate_slots_created_update,
         touch]))))))"
section \<open>Definitions and revisions\<close>

abbreviation refuse_duplicate :: "error_code \<Rightarrow> 'a core_action" where
  "refuse_duplicate \<equiv> refuse_in st_duplicate_rejections_update"

abbreviation refuse_late :: "error_code \<Rightarrow> 'a core_action" where
  "refuse_late \<equiv> refuse_in st_late_rejections_update"

text \<open>The identity a definition names, or a fresh one where it names none.\<close>

definition identity_or_fresh :: "id_kind \<Rightarrow> 'tag strong_id \<Rightarrow> 'tag strong_id core_action" where
  "identity_or_fresh kind k = (if id_valid k then retA k else allocate kind)"

definition define_task :: "task_spec \<Rightarrow> task_id core_action" where
  "define_task spec = bindA (identity_or_fresh IK_Task (task_id_of spec)) (\<lambda>k. readA (\<lambda>c.
    let spec = spec\<lparr>task_id_of := k\<rparr> in
    if find_task k c \<noteq> None then refuse_duplicate E_DuplicateIdentity
    else if gen_valid (task_gen spec) \<and> task_gen spec \<noteq> gen_first then failA E_InvalidArgument
    else
      let spec = (if gen_valid (task_gen spec) then spec else spec\<lparr>task_gen := gen_first\<rparr>) in
      thenA (checkA (validate_task spec))
      (bindA (checkA (compute_task_digest spec)) (\<lambda>digest.
      thenA (seqA
        [modifyA (\<lambda>c. c\<lparr>co_tasks := tbl_emplace k (spec\<lparr>task_digest := digest\<rparr>) (co_tasks c)\<rparr>),
         touch])
      (retA k)))))"

definition revise_task :: "task_id \<Rightarrow> task_spec \<Rightarrow> task_generation core_action" where
  "revise_task k replacement = readA (\<lambda>c.
    found_or E_UnknownIdentity (find_task k c) (\<lambda>existing.
    found_or E_GenerationRegression (gen_next (task_gen existing)) (\<lambda>g.
      let replacement = replacement\<lparr>task_id_of := k, task_gen := g\<rparr> in
      thenA (checkA (validate_task replacement))
      (bindA (checkA (compute_task_digest replacement)) (\<lambda>digest.
      thenA (seqA
        [modifyA (\<lambda>c. c\<lparr>co_tasks := tbl_adjust k (\<lambda>_. replacement\<lparr>task_digest := digest\<rparr>) (co_tasks c)\<rparr>),
         count_in st_task_revisions_update,
         touch])
      (retA g))))))"

definition define_policy :: "foundry_policy \<Rightarrow> policy_id core_action" where
  "define_policy policy = bindA (identity_or_fresh IK_Policy (pol_id policy)) (\<lambda>k. readA (\<lambda>c.
    let policy = policy\<lparr>pol_id := k\<rparr> in
    if find_policy k c \<noteq> None then refuse_duplicate E_DuplicateIdentity
    else if gen_valid (pol_gen policy) \<and> pol_gen policy \<noteq> gen_first then failA E_InvalidArgument
    else
      let policy = (if gen_valid (pol_gen policy) then policy else policy\<lparr>pol_gen := gen_first\<rparr>) in
      thenA (checkA (validate_policy policy))
      (bindA (checkA (compute_policy_digest policy)) (\<lambda>digest.
      thenA (seqA
        [modifyA (\<lambda>c. c\<lparr>co_policies := tbl_emplace k (policy\<lparr>pol_digest := digest\<rparr>) (co_policies c)\<rparr>),
         touch])
      (retA k)))))"

definition revise_policy :: "policy_id \<Rightarrow> foundry_policy \<Rightarrow> policy_generation core_action" where
  "revise_policy k replacement = readA (\<lambda>c.
    found_or E_UnknownIdentity (find_policy k c) (\<lambda>existing.
    found_or E_GenerationRegression (gen_next (pol_gen existing)) (\<lambda>g.
      let replacement = replacement\<lparr>pol_id := k, pol_gen := g\<rparr> in
      thenA (checkA (validate_policy replacement))
      (bindA (checkA (compute_policy_digest replacement)) (\<lambda>digest.
      thenA (seqA
        [modifyA (\<lambda>c. c\<lparr>co_policies := tbl_adjust k (\<lambda>_. replacement\<lparr>pol_digest := digest\<rparr>) (co_policies c)\<rparr>),
         count_in st_policy_revisions_update,
         touch])
      (retA g))))))"

section \<open>Start, cancellation, revalidation\<close>

definition start_population :: "population_id \<Rightarrow> population_generation \<Rightarrow> unit core_action" where
  "start_population p g = readA (\<lambda>c.
    found_or E_UnknownIdentity (find_population p c) (\<lambda>pop. seqA
      [checkA (check_population_generation g (pop_gen pop)),
       guardA (pop_state pop \<in> {PS_Created, PS_Ready}) E_IllegalStateTransition,
       set_population_state p PS_Ready ''start requested'',
       set_population_state p PS_Running ''population is accepting production work'',
       bump_population_generation p]))"

text \<open>The worker of an attempt that ends becomes ready again, if it is still on that attempt.\<close>

definition free_worker_of :: "attempt_record \<Rightarrow> attempt_id \<Rightarrow> unit core_action" where
  "free_worker_of att k = readA (\<lambda>c.
    if_found (find_worker (att_worker att) c) (\<lambda>w.
      whenA (wk_active_attempt w = k)
        (write_worker (att_worker att) (\<lambda>w. w\<lparr>wk_active_attempt := null_id,
           wk_active_assignment := null_id, wk_state := WS_Ready, wk_state_epoch := co_epoch c\<rparr>))))"

text \<open>The candidate of an attempt, moved to a state if it is in one of the given ones.\<close>

definition move_candidate_from :: "candidate_state set \<Rightarrow> candidate_id \<Rightarrow> candidate_state \<Rightarrow> string \<Rightarrow> unit core_action" where
  "move_candidate_from sources k target reason = readA (\<lambda>c.
    if_found (find_candidate k c) (\<lambda>cand.
      whenA (cand_state cand \<in> sources) (set_candidate_state k target reason)))"

definition cancel_open_attempt :: "population_id \<Rightarrow> string \<Rightarrow> attempt_id \<Rightarrow> unit core_action" where
  "cancel_open_attempt p reason k = readA (\<lambda>c.
    if_found (find_attempt k c) (\<lambda>att.
      if att_population att \<noteq> p \<or> attempt_state_is_terminal (att_state att) then retA ()
      else seqA
        [release_attempt_reservations k,
         set_attempt_state k AS_Cancelled reason,
         count_in st_attempts_cancelled_update,
         move_candidate_from {CS_Registered, CS_Producing} (att_candidate att) CS_ProductionCancelled
           (''population cancelled: '' @ reason),
         free_worker_of att (att_id att)]))"

definition cancel_population :: "population_id \<Rightarrow> population_generation \<Rightarrow> string \<Rightarrow> unit core_action" where
  "cancel_population p g reason = readA (\<lambda>c.
    found_or E_UnknownIdentity (find_population p c) (\<lambda>pop. seqA
      [guardA (\<not> population_state_is_terminal (pop_state pop)) E_LifecycleClosed,
       checkA (check_population_generation g (pop_gen pop)),
       forA (tbl_keys (co_attempts c)) (cancel_open_attempt p reason),
       set_population_state p PS_Cancelled reason,
       bump_population_generation p]))"

definition request_population_revalidation :: "population_id \<Rightarrow> string \<Rightarrow> unit core_action" where
  "request_population_revalidation p reason = readA (\<lambda>c.
    found_or E_UnknownIdentity (find_population p c) (\<lambda>pop. seqA
      [guardA (\<not> population_state_is_terminal (pop_state pop)) E_LifecycleClosed,
       set_population_state p PS_RevalidationRequired reason,
       forA (pop_candidates pop) (\<lambda>k.
         move_candidate_from {CS_Evaluated, CS_Published, CS_Evaluating} k CS_RevalidationRequired reason),
       bump_population_generation p]))"

definition revalidate_candidate :: "string \<Rightarrow> candidate_id \<Rightarrow> unit core_action" where
  "revalidate_candidate detail k = readA (\<lambda>c.
    if_found (find_candidate k c) (\<lambda>cand.
      whenA (cand_state cand = CS_RevalidationRequired)
        (thenA (set_candidate_state k CS_Evaluating (''revalidated: '' @ detail)) (settle_candidate k))))"

definition revalidation_target :: "candidate_id list \<Rightarrow> foundry_core \<Rightarrow> population_state" where
  "revalidation_target candidates c =
    (if list_ex (\<lambda>k. case find_candidate k c of None \<Rightarrow> False
         | Some r \<Rightarrow> cand_state r \<in> {CS_Published, CS_Evaluating}) candidates
     then PS_Evaluating else PS_Running)"

definition revalidate_population :: "population_id \<Rightarrow> population_generation \<Rightarrow> string \<Rightarrow> unit core_action" where
  "revalidate_population p g detail = readA (\<lambda>c.
    found_or E_UnknownIdentity (find_population p c) (\<lambda>pop. seqA
      [guardA (pop_state pop = PS_RevalidationRequired) E_IllegalStateTransition,
       checkA (check_population_generation g (pop_gen pop)),
       forA (pop_candidates pop) (revalidate_candidate detail),
       readA (\<lambda>c. set_population_state p (revalidation_target (pop_candidates pop) c)
         (''revalidated: '' @ detail)),
       bump_population_generation p]))"

end
