(* ===== verification/Core_Dispatch.thy ===== *)
theory Core_Dispatch
  imports Core_Lifecycle
begin

text \<open>
  Worker sessions, dispatch, publication, evaluation and cancellation (foundry_dispatch.cpp).

  A worker message carries its authority; every operation that acts for a worker first
  validates it against the state. A loop over the attempts reads each entry when its turn
  comes, since the turns before it may have changed the records it looks at.
\<close>

section \<open>Worker sessions\<close>

text \<open>
  An attempt in flight whose worker is gone: its reservations are released, its outcome is
  unknown, and its candidate slot may be retried. \<open>why\<close> is the stored detail, \<open>slot_reason\<close>
  the reason given for the slot.
\<close>

definition lose_attempt :: "(attempt_record \<Rightarrow> bool) \<Rightarrow> string \<Rightarrow> string \<Rightarrow> attempt_id \<Rightarrow> unit core_action" where
  "lose_attempt concerned why slot_reason k = readA (\<lambda>c.
    if_found (find_attempt k c) (\<lambda>att.
      if \<not> concerned att \<or> attempt_state_is_terminal (att_state att) then retA ()
      else seqA
        [release_attempt_reservations k,
         set_attempt_state k AS_OutcomeUnknown why,
         count_in st_attempts_outcome_unknown_update,
         move_candidate_from {CS_Producing, CS_Registered} (att_candidate att) CS_Registered slot_reason]))"

definition session_authority_of :: "worker_record \<Rightarrow> foundry_core \<Rightarrow> worker_session_authority" where
  "session_authority_of w c =
    \<lparr>wsa_epoch = co_epoch c, wsa_run = co_run c, wsa_worker = wk_id w, wsa_boot = wk_boot w,
     wsa_session = wk_session w, wsa_session_gen = wk_session_gen w\<rparr>"

text \<open>
  The three ways a registration finds the worker: never seen, the same incarnation, another
  incarnation. The result says whether revalidation is required.
\<close>

definition admit_incarnation :: "worker_registration_request \<Rightarrow> bool core_action" where
  "admit_incarnation request = readA (\<lambda>c.
    case find_worker (wrr_worker request) c of
      None \<Rightarrow>
        thenA (modifyA (\<lambda>c. c\<lparr>co_workers := tbl_emplace (wrr_worker request)
          (default_worker\<lparr>wk_id := wrr_worker request, wk_boot := wrr_boot request,
             wk_registered_epoch := co_epoch c\<rparr>) (co_workers c)\<rparr>))
        (retA False)
    | Some w \<Rightarrow>
        if wk_boot w = wrr_boot request then
          (if wk_state w \<in> {WS_Ready, WS_Busy, WS_Registered} then refuse_duplicate E_AlreadyExists
           else retA (wk_registered_epoch w \<noteq> co_epoch c))
        else
          thenA (seqA
            [forA (tbl_keys (co_attempts c))
               (lose_attempt (\<lambda>att. att_worker att = wrr_worker request)
                 ''worker incarnation replaced while the assignment was in flight''
                 ''worker incarnation replaced; the candidate slot may be retried''),
             write_worker (wrr_worker request) (\<lambda>w. w\<lparr>wk_boot := wrr_boot request,
               wk_registered_epoch := co_epoch c, wk_active_attempt := null_id,
               wk_active_assignment := null_id\<rparr>)])
          (retA False))"

definition register_worker :: "worker_registration_request \<Rightarrow> worker_session_authority core_action" where
  "register_worker request =
    thenA (seqA
      [guardA (id_valid (wrr_worker request)) E_NullIdentity,
       guardA (id_valid (wrr_boot request)) E_NullIdentity,
       checkA (validate_worker_text (wrr_label request)),
       checkA (validate_worker_text (wrr_capability request))])
    (bindA (admit_incarnation request) (\<lambda>revalidation_required.
     bindA (allocate IK_Session) (\<lambda>session.
     thenA (readA (\<lambda>c. write_worker (wrr_worker request) (\<lambda>w. w
        \<lparr>wk_session := session, wk_session_gen := gen_bump_or_first (wk_session_gen w),
         wk_label := wrr_label request, wk_capability := wrr_capability request,
         wk_process_id := wrr_process_id request,
         wk_state := (if revalidation_required then WS_RevalidationRequired else WS_Registered),
         wk_state_epoch := co_epoch c,
         wk_last_diagnostic := (if revalidation_required
            then ''reconnected after a coordinator restart; revalidation required''
            else ''registered'')\<rparr>)))
     (readA (\<lambda>c. found_or E_Internal (find_worker (wrr_worker request) c) (\<lambda>w.
       thenA touch (retA (session_authority_of w c))))))))"

definition worker_ready :: "worker_session_authority \<Rightarrow> string \<Rightarrow> unit core_action" where
  "worker_ready session capability = thenA (validate_worker_session session) (readA (\<lambda>c.
    found_or E_UnknownWorkerIncarnation (find_worker (wsa_worker session) c) (\<lambda>w. seqA
      [guardA (wk_state w \<noteq> WS_RevalidationRequired) E_RevalidationRequired,
       guardA (wk_state w \<in> {WS_Registered, WS_Ready}) E_IllegalStateTransition,
       checkA (validate_worker_text capability),
       write_worker (wsa_worker session) (\<lambda>w. w\<lparr>wk_capability := capability, wk_state := WS_Ready,
         wk_state_epoch := co_epoch c, wk_last_diagnostic := ''ready''\<rparr>),
       touch])))"

definition revalidate_worker :: "worker_session_authority \<Rightarrow> string \<Rightarrow> worker_session_authority core_action" where
  "revalidate_worker session detail = thenA (validate_worker_session session) (readA (\<lambda>c.
    found_or E_UnknownWorkerIncarnation (find_worker (wsa_worker session) c) (\<lambda>w.
    thenA (guardA (wk_state w \<in> {WS_RevalidationRequired, WS_Registered}) E_IllegalStateTransition)
    (bindA (allocate IK_Session) (\<lambda>fresh.
      let w' = w\<lparr>wk_session := fresh, wk_session_gen := gen_bump_or_first (wk_session_gen w),
          wk_registered_epoch := co_epoch c, wk_state := WS_Registered, wk_state_epoch := co_epoch c,
          wk_last_diagnostic := ''revalidated: '' @ detail\<rparr> in
      thenA (seqA [write_worker (wsa_worker session) (\<lambda>_. w'), touch])
      (retA (session_authority_of w' c)))))))"

definition worker_disconnected :: "worker_session_authority \<Rightarrow> string \<Rightarrow> unit core_action" where
  "worker_disconnected session reason = thenA (validate_worker_session session) (readA (\<lambda>c.
    found_or E_UnknownWorkerIncarnation (find_worker (wsa_worker session) c) (\<lambda>_. seqA
      [forA (tbl_keys (co_attempts c))
         (lose_attempt (\<lambda>att. att_worker att = wsa_worker session \<and> att_worker_boot att = wsa_boot session)
           reason
           ''producing worker disconnected with an undetermined outcome; slot is retryable''),
       write_worker (wsa_worker session) (\<lambda>w. w\<lparr>wk_state := WS_Offline, wk_state_epoch := co_epoch c,
         wk_active_attempt := null_id, wk_active_attempt_gen := gen_none,
         wk_active_assignment := null_id, wk_last_diagnostic := reason\<rparr>),
       touch])))"

definition reject_worker_session :: "worker_session_authority \<Rightarrow> string \<Rightarrow> unit core_action" where
  "reject_worker_session session reason = readA (\<lambda>c.
    found_or E_UnknownWorkerIncarnation (find_worker (wsa_worker session) c) (\<lambda>w. seqA
      [guardA (wk_boot w = wsa_boot session) E_StaleWorkerBoot,
       write_worker (wsa_worker session) (\<lambda>w. w\<lparr>wk_state := WS_Rejected, wk_state_epoch := co_epoch c,
         wk_last_diagnostic := reason\<rparr>),
       touch]))"

section \<open>Authorization\<close>

text \<open>The first slot of a population that a new attempt may fill, in identity order.\<close>

definition slot_is_open :: "foundry_core \<Rightarrow> candidate_id \<Rightarrow> bool" where
  "slot_is_open c k \<longleftrightarrow>
    (case find_candidate k c of
       None \<Rightarrow> False
     | Some probe \<Rightarrow>
         cand_state probe \<in> {CS_Registered, CS_Producing} \<and>
         cand_attempt_count probe < kMaxAttemptsPerCandidate \<and>
         \<not> list_ex (\<lambda>att. att_candidate att = k \<and> \<not> attempt_state_is_terminal (att_state att))
             (map snd (co_attempts c)))"

definition open_slot :: "population_id \<Rightarrow> foundry_core \<Rightarrow> candidate_id option" where
  "open_slot p c =
    (case find (slot_is_open c) (ordered_candidates p c) of
       None \<Rightarrow> None
     | Some k \<Rightarrow> if id_valid k then Some k else None)"

definition seeded_candidate :: "candidate_id \<Rightarrow> population_record \<Rightarrow> candidate_record core_action" where
  "seeded_candidate k pop = readA (\<lambda>c.
    let blank = default_candidate
      \<lparr>cand_id := k, cand_gen := gen_first, cand_population := pop_id pop,
       cand_population_gen := pop_gen pop, cand_task := pop_task pop,
       cand_task_gen := pop_task_gen pop\<rparr> in
    if id_valid (pop_seed_candidate pop) \<and> lineage_contains (co_lineage c) (pop_seed_candidate pop) then
      found_or E_LineageOrphan (tbl_find (co_lineage c) (pop_seed_candidate pop)) (\<lambda>parent.
        thenA (guardA (unat (ln_depth parent + 1) \<le> kMaxLineageDepth) E_GenerationRegression)
        (retA (blank\<lparr>cand_parents := [ln_candidate parent],
           cand_lineage := (if id_valid (pop_seed_lineage pop) then pop_seed_lineage pop else ln_lineage parent),
           cand_depth := ln_depth parent + 1\<rparr>)))
    else bindA (allocate IK_Lineage) (\<lambda>lineage.
      retA (blank\<lparr>cand_lineage := lineage, cand_depth := 0\<rparr>)))"

definition create_slot :: "population_id \<Rightarrow> candidate_id core_action" where
  "create_slot p = readA (\<lambda>c.
    found_or E_Internal (find_population p c) (\<lambda>pop.
    bindA (allocate IK_Candidate) (\<lambda>k.
    bindA (seeded_candidate k pop) (\<lambda>blank.
      let cand = blank\<lparr>cand_state := CS_Registered, cand_created_epoch := co_epoch c,
          cand_state_changed_epoch := co_epoch c, cand_evidence_gen := gen_first\<rparr> in
      thenA (seqA
        [on_lineage (lineage_insert (lineage_node_for cand c)),
         write_population p (\<lambda>r. r\<lparr>pop_candidates := pop_candidates r @ [k]\<rparr>),
         modifyA (\<lambda>c. c\<lparr>co_candidates := tbl_emplace k cand (co_candidates c)\<rparr>),
         count_in st_candidate_slots_created_update])
      (retA k)))))"

text \<open>An action whose failure the caller looks at instead of returning.\<close>

definition tryA :: "'a core_action \<Rightarrow> 'a result core_action" where
  "tryA m = (\<lambda>c. case m c of (r, c') \<Rightarrow> (Inr r, c'))"

definition capacity_for_slot :: "budget_ledger \<Rightarrow> bool" where
  "capacity_for_slot l \<longleftrightarrow> has_capacity BK_Candidates l \<and> has_capacity BK_CandidateAttempts l \<and>
     has_capacity BK_WorkerAssignments l \<and> has_capacity BK_ActiveAttempts l"

text \<open>
  The slot the attempt fills: an open one, or a new one where the budgets allow it. \<open>None\<close>
  is the \<^verbatim>\<open>continue\<close> to the next population.
\<close>

definition choose_slot :: "population_id \<Rightarrow> candidate_id option core_action" where
  "choose_slot p = readA (\<lambda>c.
    case open_slot p c of
      Some k \<Rightarrow> retA (Some k)
    | None \<Rightarrow>
      (case (find_population p c, find_ledger p c) of
         (Some pop, Some l) \<Rightarrow>
           if unat (pop_candidate_budget pop) \<le> length (pop_candidates pop) then retA None
           else if \<not> capacity_for_slot l then retA None
           else
             thenA (on_ledger p (ledger_reserve BK_Candidates))
             (bindA (tryA (create_slot p)) (\<lambda>allocated.
               case allocated of
                 Inl _ \<Rightarrow> thenA (ignoreA (on_ledger p (ledger_release BK_Candidates))) (retA None)
               | Inr k \<Rightarrow> thenA (ignoreA (on_ledger p (ledger_consume BK_Candidates))) (retA (Some k))))
       | _ \<Rightarrow> retA None))"

text \<open>
  The reservations of an attempt, taken in order; a refused one gives back those before it
  and moves on to the next population (\<open>False\<close>), except the first, whose refusal is returned.
\<close>

definition reserve_for_attempt :: "population_id \<Rightarrow> bool \<Rightarrow> bool core_action" where
  "reserve_for_attempt p is_retry = (
    let release = (\<lambda>kind. ignoreA (on_ledger p (ledger_release kind)));
        reserve = (\<lambda>kind. tryA (on_ledger p (ledger_reserve kind))) in
    thenA (on_ledger p (ledger_reserve BK_CandidateAttempts))
    (bindA (reserve BK_WorkerAssignments) (\<lambda>assignments.
      if \<not> is_ok assignments then thenA (release BK_CandidateAttempts) (retA False)
      else bindA (reserve BK_ActiveAttempts) (\<lambda>active.
        if \<not> is_ok active then
          thenA (seqA [release BK_CandidateAttempts, release BK_WorkerAssignments]) (retA False)
        else if \<not> is_retry then retA True
        else bindA (reserve BK_Retries) (\<lambda>retries.
          if \<not> is_ok retries then
            thenA (seqA [release BK_CandidateAttempts, release BK_WorkerAssignments, release BK_ActiveAttempts])
              (retA False)
          else retA True)))))"
definition new_attempt :: "worker_session_authority \<Rightarrow> population_record \<Rightarrow> candidate_record \<Rightarrow>
    attempt_id \<Rightarrow> assignment_id \<Rightarrow> foundry_core \<Rightarrow> attempt_record" where
  "new_attempt session pop cand attempt assignment c = default_attempt
    \<lparr>att_id := attempt, att_gen := gen_first, att_population := pop_id pop,
     att_population_gen := pop_gen pop, att_task := pop_task pop, att_task_gen := pop_task_gen pop,
     att_candidate := cand_id cand, att_candidate_gen := cand_gen cand,
     att_worker := wsa_worker session, att_worker_boot := wsa_boot session,
     att_session := wsa_session session, att_assignment := assignment,
     att_authorized_epoch := co_epoch c, att_state := AS_Authorized,
     att_retry_index := cand_attempt_count cand, att_holds_reservation := True,
     att_previous_attempt := (if id_valid (cand_attempt cand) then cand_attempt cand else null_id)\<rparr>"

definition new_assignment :: "worker_session_authority \<Rightarrow> attempt_id \<Rightarrow> assignment_id \<Rightarrow> foundry_core \<Rightarrow>
    assignment_record" where
  "new_assignment session attempt assignment c = default_assignment
    \<lparr>asg_id := assignment, asg_gen := gen_first, asg_attempt := attempt, asg_attempt_gen := gen_first,
     asg_worker := wsa_worker session, asg_worker_boot := wsa_boot session,
     asg_session := wsa_session session, asg_session_gen := wsa_session_gen session,
     asg_issued_epoch := co_epoch c\<rparr>"

text \<open>The attempt on a chosen slot whose reservations are taken.\<close>

definition open_attempt :: "worker_session_authority \<Rightarrow> population_id \<Rightarrow> candidate_id \<Rightarrow> pending_dispatch core_action" where
  "open_attempt session p slot =
    bindA (allocate IK_Attempt) (\<lambda>attempt.
    bindA (allocate IK_Assignment) (\<lambda>assignment. readA (\<lambda>c.
    found_or E_Internal (find_population p c) (\<lambda>pop.
    found_or E_Internal (find_candidate slot c) (\<lambda>cand.
      let att = new_attempt session pop cand attempt assignment c;
          asg = new_assignment session attempt assignment c in
      thenA (seqA
        [write_candidate slot (\<lambda>r. r\<lparr>cand_attempt := attempt, cand_attempt_gen := gen_first,
           cand_assignment := assignment, cand_attempt_count := cand_attempt_count r + 1\<rparr>),
         set_candidate_state slot CS_Producing ''production attempt authorized'',
         write_worker (wsa_worker session) (\<lambda>w. w\<lparr>wk_state := WS_Busy, wk_state_epoch := co_epoch c,
           wk_active_attempt := attempt, wk_active_attempt_gen := gen_first,
           wk_active_assignment := assignment,
           wk_assignments_accepted := wk_assignments_accepted w + 1\<rparr>),
         modifyA (\<lambda>c. c\<lparr>co_assignments := tbl_emplace assignment asg (co_assignments c)\<rparr>),
         modifyA (\<lambda>c. c\<lparr>co_attempts := tbl_emplace attempt att (co_attempts c)\<rparr>),
         count_in st_attempts_authorized_update,
         touch])
      (retA \<lparr>pd_session = session, pd_attempt = att, pd_assignment = asg\<rparr>))))))"

definition population_dispatches :: "population_id \<Rightarrow> foundry_core \<Rightarrow> bool" where
  "population_dispatches p c \<longleftrightarrow>
    (case find_population p c of
       None \<Rightarrow> False
     | Some pop \<Rightarrow> pop_state pop = PS_Running \<and> pop_worker_budget pop \<noteq> 0 \<and>
         active_attempts_for p c < unat (pop_worker_budget pop) \<and> find_ledger p c \<noteq> None)"

definition authorize_in :: "worker_session_authority \<Rightarrow> population_id \<Rightarrow> pending_dispatch option core_action" where
  "authorize_in session p = readA (\<lambda>c.
    if \<not> population_dispatches p c then retA None
    else bindA (choose_slot p) (\<lambda>chosen.
      case chosen of
        None \<Rightarrow> retA None
      | Some slot \<Rightarrow> readA (\<lambda>c.
          case (find_candidate slot c, find_ledger p c) of
            (Some cand, Some l) \<Rightarrow>
              let is_retry = 0 < cand_attempt_count cand in
              if is_retry \<and> \<not> has_capacity BK_Retries l then retA None
              else bindA (reserve_for_attempt p is_retry) (\<lambda>reserved.
                if reserved then bindA (open_attempt session p slot) (\<lambda>d. retA (Some d))
                else retA None)
          | _ \<Rightarrow> retA None)))"

fun authorize_over :: "worker_session_authority \<Rightarrow> population_id list \<Rightarrow> pending_dispatch core_action" where
  "authorize_over session [] = failA E_Unavailable"
| "authorize_over session (p # ps) = bindA (authorize_in session p) (\<lambda>dispatch.
     case dispatch of Some d \<Rightarrow> retA d | None \<Rightarrow> authorize_over session ps)"

definition authorize_attempt :: "worker_session_authority \<Rightarrow> pending_dispatch core_action" where
  "authorize_attempt session = thenA (validate_worker_session session) (readA (\<lambda>c.
    found_or E_UnknownWorkerIncarnation (find_worker (wsa_worker session) c) (\<lambda>w.
    thenA (seqA
      [guardA (wk_state w \<noteq> WS_RevalidationRequired) E_RevalidationRequired,
       guardA (wk_state w = WS_Ready) E_NotReady])
    (authorize_over session (ordered_populations c)))))"

section \<open>Dispatch\<close>

text \<open>\<^verbatim>\<open>path /= component\<close> for a relative component: a separator unless the path ends in one.\<close>

definition path_append :: "string \<Rightarrow> string \<Rightarrow> string" where
  "path_append base component =
    (if base = [] \<or> last base = CHR ''/'' then base @ component else base @ ''/'' @ component)"

definition attempt_workspace_path :: "foundry_config \<Rightarrow> population_id \<Rightarrow> attempt_id \<Rightarrow> string" where
  "attempt_workspace_path config p k =
    path_append (path_append (cfg_workspace_root config)
      (''population-'' @ decimal (unat (id_counter p))))
      (''attempt-'' @ decimal (unat (id_counter k)))"

definition package_for :: "attempt_record \<Rightarrow> population_record \<Rightarrow> task_spec \<Rightarrow> foundry_core \<Rightarrow> attempt_package" where
  "package_for att pop t c =
    \<lparr>pkg_attempt = att_id att, pkg_attempt_gen = att_gen att, pkg_assignment = att_assignment att,
     pkg_population = pop_id pop, pkg_population_gen = pop_gen pop, pkg_task = task_id_of t,
     pkg_task_gen = task_gen t, pkg_candidate = att_candidate att,
     pkg_candidate_gen = att_candidate_gen att, pkg_task_name = task_name t,
     pkg_objective = task_objective t, pkg_required_outputs = task_required_outputs t,
     pkg_input_files = map (\<lambda>i. (in_name i, in_content i)) (task_inputs t),
     pkg_workspace_root = attempt_workspace_path (co_config c) (pop_id pop) (att_id att),
     pkg_reference_strategy = ''reference''\<rparr>"

definition confirm_dispatch :: "worker_session_authority \<Rightarrow> attempt_id \<Rightarrow> attempt_generation \<Rightarrow>
    attempt_package core_action" where
  "confirm_dispatch session k g = thenA (validate_worker_session session) (readA (\<lambda>c.
    found_or E_UnknownIdentity (find_attempt k c) (\<lambda>att.
    thenA (seqA
      [checkA (check_attempt_generation g (att_gen att)),
       guardA (att_worker att = wsa_worker session \<and> att_worker_boot att = wsa_boot session) E_StaleWorkerBoot,
       guardA (att_state att = AS_Authorized) E_IllegalStateTransition])
    (found_or E_UnknownIdentity (find_population (att_population att) c) (\<lambda>pop.
     found_or E_UnknownIdentity (find_task (att_task att) c) (\<lambda>t.
     thenA (seqA
       [set_attempt_state k AS_Dispatched ''assignment frame durably recorded as sent'',
        write_attempt k (\<lambda>a. a\<lparr>att_dispatched_epoch := co_epoch c\<rparr>)])
     (retA (package_for att pop t c))))))))"

definition abandon_dispatch :: "worker_session_authority \<Rightarrow> attempt_id \<Rightarrow> string \<Rightarrow> unit core_action" where
  "abandon_dispatch session k reason = thenA (validate_worker_session session) (readA (\<lambda>c.
    found_or E_UnknownIdentity (find_attempt k c) (\<lambda>att. seqA
      [guardA (att_state att = AS_Authorized) E_IllegalStateTransition,
       release_attempt_reservations k,
       set_attempt_state k AS_Cancelled reason,
       count_in st_attempts_cancelled_update,
       move_candidate_from {CS_Producing} (att_candidate att) CS_Registered reason,
       free_worker_of att k])))"

definition acknowledge_attempt :: "worker_operation_authority \<Rightarrow> unit core_action" where
  "acknowledge_attempt authority = thenA (validate_worker_operation authority) (readA (\<lambda>c.
    found_or E_UnknownIdentity (find_attempt (woa_attempt authority) c) (\<lambda>att.
      if att_state att = AS_Running then retA ()
      else if att_state att \<noteq> AS_Dispatched then refuse_late E_LateCompletion
      else seqA
        [set_attempt_state (woa_attempt authority) AS_Running ''worker acknowledged the assignment'',
         modifyA (co_assignments_update (tbl_adjust (att_assignment att) (\<lambda>a. a
           \<lparr>asg_acknowledged := True, asg_acknowledged_epoch := co_epoch c\<rparr>))),
         touch])))"

section \<open>Publication\<close>

definition candidate_is_finished :: "candidate_state \<Rightarrow> bool" where
  "candidate_is_finished s \<longleftrightarrow>
    s \<in> {CS_ProductionCancelled, CS_Superseded, CS_Retired, CS_Disqualified, CS_ProductionFailed}"

definition check_publication :: "artifact_ref list \<Rightarrow> string \<Rightarrow> task_spec \<Rightarrow> status" where
  "check_publication artifacts strategy t = first_failure
    [require (length artifacts \<le> kMaxArtifactsPerCandidate) E_LengthOutOfRange,
     for_all validate_artifact_ref artifacts,
     require (distinct (map art_name artifacts)) E_DuplicateIdentity,
     for_all (\<lambda>output. require (output \<in> art_name ` set artifacts) E_MandatoryEvidenceMissing)
       (task_required_outputs t),
     validate_worker_text strategy]"

definition with_output :: "artifact_ref list \<Rightarrow> string \<Rightarrow> attempt_record \<Rightarrow> candidate_record \<Rightarrow> candidate_record" where
  "with_output artifacts strategy att cand = cand
    \<lparr>cand_artifacts := artifacts, cand_artifact_set_digest := artifact_set_digest artifacts,
     cand_diversity_key := reference_diversity_key strategy artifacts,
     cand_producer_worker := att_worker att, cand_producer_boot := att_worker_boot att,
     cand_evidence_gen := gen_bump_or_first (cand_evidence_gen cand)\<rparr>"

text \<open>What a publication spends: the reservations of its attempt are consumed.\<close>

definition spend_attempt :: "population_id \<Rightarrow> attempt_id \<Rightarrow> attempt_record \<Rightarrow> unit core_action" where
  "spend_attempt p k att = seqA
    [whenA (att_holds_reservation att) (seqA
       [ignoreA (on_ledger p (ledger_consume BK_ActiveAttempts)),
        write_attempt k (\<lambda>a. a\<lparr>att_holds_reservation := False\<rparr>)]),
     ignoreA (on_ledger p (ledger_consume BK_CandidateAttempts)),
     ignoreA (on_ledger p (ledger_consume BK_WorkerAssignments)),
     whenA (0 < att_retry_index att) (ignoreA (on_ledger p (ledger_consume BK_Retries)))]"

definition publish_candidate :: "worker_operation_authority \<Rightarrow> artifact_ref list \<Rightarrow> string \<Rightarrow>
    publication_outcome core_action" where
  "publish_candidate authority artifacts strategy = thenA (validate_worker_operation authority) (readA (\<lambda>c.
    found_or E_UnknownIdentity (find_attempt (woa_attempt authority) c) (\<lambda>att.
    found_or E_UnknownIdentity (find_candidate (woa_candidate authority) c) (\<lambda>cand.
    found_or E_UnknownIdentity (find_population (woa_population authority) c) (\<lambda>pop.
    found_or E_UnknownIdentity (find_task (woa_task authority) c) (\<lambda>t.
      if candidate_is_finished (cand_state cand) then refuse_late E_LateCompletion
      else if attempt_state_is_terminal (att_state att) then refuse_late E_LateCompletion
      else if att_state att \<notin> {AS_Running, AS_Dispatched} then refuse_duplicate E_DuplicateResult
      else if cand_artifact_set_digest cand \<noteq> [] then refuse_duplicate E_DuplicateResult
      else thenA (seqA
        [checkA (check_publication artifacts strategy t),
         write_candidate (woa_candidate authority) (with_output artifacts strategy att),
         set_candidate_state (woa_candidate authority) CS_Published ''worker output committed transactionally'',
         set_attempt_state (woa_attempt authority) AS_Published ''candidate output committed'',
         readA (\<lambda>c. if_found (find_ledger (pop_id pop) c) (\<lambda>_.
           spend_attempt (pop_id pop) (woa_attempt authority) att)),
         readA (\<lambda>c. if_found (find_worker (wsa_worker (woa_session authority)) c) (\<lambda>_.
           write_worker (wsa_worker (woa_session authority)) (\<lambda>w. w\<lparr>wk_state := WS_Ready,
             wk_state_epoch := co_epoch c, wk_active_attempt := null_id,
             wk_active_assignment := null_id,
             wk_assignments_completed := wk_assignments_completed w + 1,
             wk_last_diagnostic := ''candidate published''\<rparr>))),
         count_in st_candidates_published_update,
         whenA (pop_state pop = PS_Running)
           (set_population_state (woa_population authority) PS_Evaluating
             ''candidate published; evaluation required'')])
        (retA \<lparr>po_candidate = cand_id cand, po_candidate_gen = cand_gen cand,
          po_evidence_gen = gen_bump_or_first (cand_evidence_gen cand),
          po_replaced = (1 < gen_value (cand_gen cand))\<rparr>)))))))"

text \<open>The candidate of a failed attempt stays retryable while attempts and retries are left.\<close>

definition slot_is_retryable :: "candidate_record \<Rightarrow> population_id \<Rightarrow> foundry_core \<Rightarrow> bool" where
  "slot_is_retryable cand p c \<longleftrightarrow> cand_attempt_count cand < kMaxAttemptsPerCandidate \<and>
     0 < (case find_ledger p c of None \<Rightarrow> 0 | Some l \<Rightarrow> ledger_remaining BK_Retries l)"

definition report_attempt_failure :: "worker_operation_authority \<Rightarrow> string \<Rightarrow> unit core_action" where
  "report_attempt_failure authority reason = thenA (validate_worker_operation authority) (readA (\<lambda>c.
    found_or E_UnknownIdentity (find_attempt (woa_attempt authority) c) (\<lambda>att.
      if attempt_state_is_terminal (att_state att) then refuse_late E_LateCompletion
      else seqA
        [release_attempt_reservations (woa_attempt authority),
         set_attempt_state (woa_attempt authority) AS_Failed reason,
         count_in st_attempts_failed_update,
         readA (\<lambda>c. if_found (find_candidate (att_candidate att) c) (\<lambda>cand.
           whenA (cand_state cand \<in> {CS_Producing, CS_Registered})
             (if slot_is_retryable cand (att_population att) c
              then set_candidate_state (att_candidate att) CS_Registered
                ''attempt failed; the candidate slot remains retryable''
              else set_candidate_state (att_candidate att) CS_ProductionFailed reason))),
         readA (\<lambda>c. if_found (find_worker (wsa_worker (woa_session authority)) c) (\<lambda>_.
           write_worker (wsa_worker (woa_session authority)) (\<lambda>w. w\<lparr>wk_state := WS_Ready,
             wk_state_epoch := co_epoch c, wk_active_attempt := null_id,
             wk_active_assignment := null_id,
             wk_assignments_failed := wk_assignments_failed w + 1,
             wk_last_diagnostic := reason\<rparr>)))])))"

section \<open>Evaluation\<close>

definition enter_evaluation :: "candidate_id \<Rightarrow> attempt_id \<Rightarrow> unit core_action" where
  "enter_evaluation candidate k = readA (\<lambda>c.
    if_found (find_attempt k c) (\<lambda>att.
      if att_candidate att \<noteq> candidate \<or> att_state att \<noteq> AS_Published then retA ()
      else set_attempt_state k AS_Evaluating ''candidate under evaluation''))"

definition begin_evaluation :: "candidate_id \<Rightarrow> unit core_action" where
  "begin_evaluation k = readA (\<lambda>c.
    found_or E_UnknownIdentity (find_candidate k c) (\<lambda>cand.
    thenA (guardA (cand_state cand \<in> {CS_Published, CS_Evaluating}) E_IllegalStateTransition)
    (found_or E_UnknownIdentity (find_population (cand_population cand) c) (\<lambda>pop. seqA
      [checkA (require_live_population_authority pop),
       set_candidate_state k CS_Evaluating ''evaluation started'',
       forA (tbl_keys (co_attempts c)) (enter_evaluation k)]))))"

definition same_evidence_slot :: "evaluation_record \<Rightarrow> evaluation_record \<Rightarrow> bool" where
  "same_evidence_slot a b \<longleftrightarrow> ev_candidate a = ev_candidate b \<and>
     ev_candidate_gen a = ev_candidate_gen b \<and> ev_key a = ev_key b"

definition duplicates_evidence :: "evaluation_record \<Rightarrow> foundry_core \<Rightarrow> bool" where
  "duplicates_evidence r c \<longleftrightarrow>
    list_ex (\<lambda>existing. same_evidence_slot existing r \<and> ev_complete existing \<and> ev_complete r)
      (map snd (co_evaluations c))"

text \<open>The record as it is stored: bound to the current population and to the current epoch.\<close>

definition bound_evaluation :: "evaluation_id \<Rightarrow> population_record \<Rightarrow> foundry_core \<Rightarrow> evaluation_record \<Rightarrow>
    evaluation_record" where
  "bound_evaluation k pop c r = r
    \<lparr>ev_id := k, ev_gen := (if gen_valid (ev_gen r) then ev_gen r else gen_first),
     ev_population := pop_id pop, ev_population_gen := pop_gen pop, ev_task := pop_task pop,
     ev_decided_epoch := co_epoch c, ev_complete := True\<rparr>"

definition record_evaluation :: "evaluation_record \<Rightarrow> unit core_action" where
  "record_evaluation r = readA (\<lambda>c.
    case find_candidate (ev_candidate r) c of
      None \<Rightarrow> refuse_late E_UnknownIdentity
    | Some cand \<Rightarrow>
      if ev_candidate_gen r \<noteq> cand_gen cand then refuse_late E_StaleCandidateGeneration
      else if candidate_is_finished (cand_state cand) then refuse_late E_LateCompletion
      else
        found_or E_StaleAuthority (find_population (ev_population r) c) (\<lambda>pop.
          if pop_id pop \<noteq> cand_population cand then failA E_StaleAuthority
          else if ev_task_gen r \<noteq> pop_task_gen pop then refuse_late E_StaleTaskGeneration
          else if ev_population_gen r \<noteq> pop_gen pop then refuse_late E_StalePopulationGeneration
          else case require_live_population_authority pop of
            Inl e \<Rightarrow> refuse_late e
          | Inr _ \<Rightarrow>
            if duplicates_evidence r c then refuse_duplicate E_DuplicateResult
            else bindA (identity_or_fresh IK_Evaluation (ev_id r)) (\<lambda>k.
              let stored = bound_evaluation k pop c r in seqA
              [checkA (validate_evaluation_record stored),
               modifyA (\<lambda>c. c\<lparr>co_evaluations := tbl_emplace k stored (co_evaluations c)\<rparr>),
               count_in st_evaluations_recorded_update,
               settle_candidate (ev_candidate r),
               touch])))"

definition pending_evaluations :: "candidate_id \<Rightarrow> foundry_core \<Rightarrow> evaluation_requirement list result" where
  "pending_evaluations k c =
    (case find_candidate k c of
       None \<Rightarrow> Inl E_UnknownIdentity
     | Some cand \<Rightarrow>
       (case find_task (cand_task cand) c of
          None \<Rightarrow> Inl E_UnknownIdentity
        | Some t \<Rightarrow> Inr (filter (\<lambda>q. \<not> requirement_complete cand (req_key q) c) (task_requirements t))))"

definition awaits_evaluation :: "foundry_core \<Rightarrow> candidate_id \<Rightarrow> bool" where
  "awaits_evaluation c k \<longleftrightarrow>
    (case find_candidate k c of
       None \<Rightarrow> False
     | Some cand \<Rightarrow> cand_state cand \<in> {CS_Published, CS_Evaluating} \<and>
       (case find_task (cand_task cand) c of
          None \<Rightarrow> False
        | Some t \<Rightarrow> list_ex (\<lambda>q. \<not> requirement_complete cand (req_key q) c) (task_requirements t)))"

definition candidates_awaiting_evaluation :: "foundry_core \<Rightarrow> candidate_id list" where
  "candidates_awaiting_evaluation c =
    sort_by (<) (concat (map (\<lambda>p. case find_population p c of
        None \<Rightarrow> []
      | Some pop \<Rightarrow>
          if population_state_is_terminal (pop_state pop) \<or> pop_state pop = PS_RevalidationRequired then []
          else filter (awaits_evaluation c) (ordered_candidates p c))
      (ordered_populations c)))"

section \<open>Cancellation\<close>

definition cancel_attempt :: "attempt_id \<Rightarrow> string \<Rightarrow> unit core_action" where
  "cancel_attempt k reason = readA (\<lambda>c.
    found_or E_UnknownIdentity (find_attempt k c) (\<lambda>att.
      if att_state att = AS_Cancelled then retA ()
      else if attempt_state_is_terminal (att_state att) then refuse_late E_LateCompletion
      else seqA
        [release_attempt_reservations k,
         set_attempt_state k AS_Cancelled reason,
         count_in st_attempts_cancelled_update,
         move_candidate_from {CS_Producing, CS_Registered, CS_Published, CS_Evaluating}
           (att_candidate att) CS_ProductionCancelled (''attempt cancelled: '' @ reason),
         free_worker_of att k]))"

definition force_attempt_outcome_unknown :: "attempt_id \<Rightarrow> string \<Rightarrow> unit core_action" where
  "force_attempt_outcome_unknown k reason = readA (\<lambda>c.
    found_or E_UnknownIdentity (find_attempt k c) (\<lambda>att. seqA
      [guardA (\<not> attempt_state_is_terminal (att_state att)) E_LateCompletion,
       release_attempt_reservations k,
       set_attempt_state k AS_OutcomeUnknown reason,
       count_in st_attempts_outcome_unknown_update,
       move_candidate_from {CS_Producing, CS_Registered} (att_candidate att) CS_Registered reason]))"

end
