(* ===== verification/Core_Select.thy ===== *)
theory Core_Select
  imports Core_Lifecycle
begin

text \<open>
  Selection, retention, promotion and the advance to a successor population
  (foundry_select.cpp). A decision is prepared from the state and committed against it: the
  digest of the canonical state ties the two phases together.

  \<^verbatim>\<open>std::sort\<close> over a ranking is the sort by the comparator of the code; where a score is
  a NaN the comparator is not a strict weak order and the order is the library's, which the
  model fixes to the insertion of the elements from the right.
\<close>

section \<open>Ranking factors\<close>

record factor_sample =
  fs_available :: bool
  fs_raw :: binary64

definition b64_sum :: "binary64 list \<Rightarrow> binary64" where
  "b64_sum xs = foldl b64_add b64_zero xs"

definition artifact_bytes :: "artifact_ref list \<Rightarrow> u64" where
  "artifact_bytes artifacts = foldl (\<lambda>n a. n + art_size a) 0 artifacts"

definition quality_sample :: "evaluation_record list \<Rightarrow> task_spec \<Rightarrow> factor_sample" where
  "quality_sample evaluations t =
    (let scored = filter (\<lambda>r. ev_class r = RC_Optional \<and> ev_complete r \<and> ev_has_score r) evaluations;
         optional_count = length (filter (\<lambda>q. req_class q = RC_Optional) (task_requirements t))
     in if optional_count = 0 then \<lparr>fs_available = False, fs_raw = b64_zero\<rparr>
        else \<lparr>fs_available = (scored \<noteq> []),
              fs_raw = b64_div (b64_sum (map ev_score scored)) (b64_of_nat optional_count)\<rparr>)"

definition efficiency_sample :: "evaluation_record list \<Rightarrow> factor_sample" where
  "efficiency_sample evaluations =
    (case find (\<lambda>r. ev_key r = ''performance'' \<and> ev_complete r \<and> ev_has_score r) evaluations of
       None \<Rightarrow> \<lparr>fs_available = False, fs_raw = b64_zero\<rparr>
     | Some r \<Rightarrow> \<lparr>fs_available = True, fs_raw = ev_score r\<rparr>)"

definition completeness_sample :: "task_spec \<Rightarrow> nat \<Rightarrow> factor_sample" where
  "completeness_sample t met =
    (if task_requirements t = [] then \<lparr>fs_available = False, fs_raw = b64_zero\<rparr>
     else \<lparr>fs_available = True,
           fs_raw = b64_div (b64_of_nat met) (b64_of_nat (length (task_requirements t)))\<rparr>)"

fun sample_factor :: "ranking_factor_kind \<Rightarrow> candidate_record \<Rightarrow> evaluation_record list \<Rightarrow> task_spec \<Rightarrow>
    nat \<Rightarrow> factor_sample" where
  "sample_factor RF_QualityScore cand evaluations t met = quality_sample evaluations t"
| "sample_factor RF_EfficiencyScore cand evaluations t met = efficiency_sample evaluations"
| "sample_factor RF_EvaluationCompleteness cand evaluations t met = completeness_sample t met"
| "sample_factor RF_LineageDepth cand evaluations t met =
    \<lparr>fs_available = True, fs_raw = b64_of_nat (unat (cand_depth cand))\<rparr>"
| "sample_factor RF_AttemptCount cand evaluations t met =
    \<lparr>fs_available = True, fs_raw = b64_of_nat (unat (cand_attempt_count cand))\<rparr>"
| "sample_factor RF_ArtifactBytes cand evaluations t met =
    \<lparr>fs_available = True, fs_raw = b64_of_nat (unat (artifact_bytes (cand_artifacts cand)))\<rparr>"
| "sample_factor RF_CandidateIdTieBreak cand evaluations t met =
    \<lparr>fs_available = True, fs_raw = b64_of_nat (unat (raw (cand_id cand)))\<rparr>"

definition factor_contribution :: "ranking_factor \<Rightarrow> factor_sample \<Rightarrow> binary64" where
  "factor_contribution f s =
    (if fac_kind f = RF_CandidateIdTieBreak then b64_zero
     else if fs_available s then
       b64_mul (fac_weight f)
         (if fac_direction f = RD_HigherIsBetter then fs_raw s else b64_neg (fs_raw s))
     else b64_zero)"

definition factor_value :: "candidate_record \<Rightarrow> evaluation_record list \<Rightarrow> task_spec \<Rightarrow> nat \<Rightarrow>
    ranking_factor \<Rightarrow> ranking_factor_value" where
  "factor_value cand owned t met f =
    (let s = sample_factor (fac_kind f) cand owned t met in
     \<lparr>rfv_key = fac_key f, rfv_kind = fac_kind f, rfv_direction = fac_direction f,
      rfv_weight = fac_weight f, rfv_raw_value = fs_raw s, rfv_available = fs_available s,
      rfv_contribution = factor_contribution f s\<rparr>)"

section \<open>Canonical state digests\<close>

definition compute_selection_state_digest :: "(binary64 \<Rightarrow> string) \<Rightarrow> population_record \<Rightarrow> task_spec \<Rightarrow>
    foundry_policy \<Rightarrow> candidate_record list \<Rightarrow> evaluation_record list \<Rightarrow> string" where
  "compute_selection_state_digest shortest pop t policy candidates evaluations = sha256_hex
    (digest_u64 ''population'' (raw (pop_id pop))
     @ digest_u64 ''population_generation'' (ucast (gen_value (pop_gen pop)))
     @ digest_u64 ''task'' (raw (task_id_of t))
     @ digest_u64 ''task_generation'' (ucast (gen_value (task_gen t)))
     @ digest_field ''task_digest'' (task_digest t)
     @ digest_u64 ''policy'' (raw (pol_id policy))
     @ digest_u64 ''policy_generation'' (ucast (gen_value (pol_gen policy)))
     @ digest_field ''policy_digest'' (pol_digest policy)
     @ digest_u64 ''candidate_count'' (of_nat (length candidates))
     @ concat (map (\<lambda>cand. encode_candidate_for_digest shortest cand
           (filter (\<lambda>r. ev_candidate r = cand_id cand) evaluations) @ ''#'')
         (sort_by (\<lambda>a b. cand_id a < cand_id b) candidates)))"

definition compute_retention_state_digest :: "(binary64 \<Rightarrow> string) \<Rightarrow> population_record \<Rightarrow>
    foundry_policy \<Rightarrow> selection_decision \<Rightarrow> string" where
  "compute_retention_state_digest shortest pop policy selection = sha256_hex
    (digest_u64 ''population'' (raw (pop_id pop))
     @ digest_u64 ''population_generation'' (ucast (gen_value (pop_gen pop)))
     @ digest_u64 ''policy'' (raw (pol_id policy))
     @ digest_u64 ''policy_generation'' (ucast (gen_value (pol_gen policy)))
     @ digest_field ''policy_digest'' (pol_digest policy)
     @ digest_u64 ''selection_generation'' (ucast (gen_value (sd_gen selection)))
     @ digest_field ''selection_digest'' (sd_digest selection)
     @ digest_u64 ''ranked_count'' (of_nat (length (sd_ranking selection)))
     @ concat (map (\<lambda>e. digest_u64 ''ranked'' (raw (re_candidate e))
           @ digest_field ''score'' (canonical_double shortest (re_total_score e))) (sd_ranking selection))
     @ digest_u64 ''retain_top_k'' (ucast (ret_top_k (pol_retention policy)))
     @ digest_u64 ''max_retained'' (ucast (ret_max_retained (pol_retention policy)))
     @ digest_u64 ''max_per_lineage'' (ucast (ret_max_per_lineage (pol_retention policy))))"

section \<open>Eligibility\<close>

definition quoted :: "string \<Rightarrow> string" where
  "quoted s = [CHR 0x27] @ s @ [CHR 0x27]"

definition exclude :: "candidate_record \<Rightarrow> selection_stage \<Rightarrow> exclusion_reason \<Rightarrow> string \<Rightarrow> exclusion_entry" where
  "exclude cand stage reason detail =
    \<lparr>ex_candidate = cand_id cand, ex_candidate_gen = cand_gen cand, ex_stage = stage,
     ex_reason = reason, ex_detail = detail\<rparr>"

text \<open>The stage of the candidate lifecycle: \<open>None\<close> admits the candidate to the next stage.\<close>

fun lifecycle_exclusion :: "candidate_record \<Rightarrow> candidate_state \<Rightarrow> exclusion_entry option" where
  "lifecycle_exclusion cand CS_Superseded =
    Some (exclude cand SS_CandidateLifecycle ER_Superseded ''candidate was superseded'')"
| "lifecycle_exclusion cand CS_Retired =
    Some (exclude cand SS_CandidateLifecycle ER_Retired ''candidate was retired'')"
| "lifecycle_exclusion cand CS_Disqualified =
    Some (exclude cand SS_CandidateLifecycle ER_LifecycleNotEligible ''candidate was disqualified by a hard gate'')"
| "lifecycle_exclusion cand CS_ProductionFailed =
    Some (exclude cand SS_CandidateLifecycle ER_LifecycleNotEligible ''candidate never produced a published output'')"
| "lifecycle_exclusion cand CS_ProductionCancelled =
    Some (exclude cand SS_CandidateLifecycle ER_LifecycleNotEligible ''candidate never produced a published output'')"
| "lifecycle_exclusion cand CS_RevalidationRequired =
    Some (exclude cand SS_CandidateLifecycle ER_EvidenceGenerationMismatch
      ''candidate evidence must be rebuilt after revalidation'')"
| "lifecycle_exclusion cand CS_Registered =
    Some (exclude cand SS_CandidateLifecycle ER_LifecycleNotEligible ''candidate has not finished evaluation'')"
| "lifecycle_exclusion cand CS_Producing =
    Some (exclude cand SS_CandidateLifecycle ER_LifecycleNotEligible ''candidate has not finished evaluation'')"
| "lifecycle_exclusion cand CS_Published = None"
| "lifecycle_exclusion cand CS_Evaluating = None"
| "lifecycle_exclusion cand CS_Evaluated = None"
| "lifecycle_exclusion cand CS_Selected = None"
| "lifecycle_exclusion cand CS_Retained = None"

fun gate_failure :: "evaluation_outcome \<Rightarrow> selection_stage \<times> exclusion_reason" where
  "gate_failure EO_Fail = (SS_HardConstraints, ER_MandatoryEvaluationFailed)"
| "gate_failure EO_Unknown = (SS_RequiredEvidence, ER_MandatoryEvaluationUnknown)"
| "gate_failure EO_Unsupported = (SS_HardConstraints, ER_MandatoryEvaluationUnsupported)"
| "gate_failure EO_Error = (SS_HardConstraints, ER_MandatoryEvaluationError)"
| "gate_failure EO_Cancelled = (SS_RequiredEvidence, ER_MandatoryEvaluationCancelled)"
| "gate_failure EO_Pass = (SS_RequiredEvidence, ER_MandatoryEvaluationFailed)"

text \<open>The first mandatory requirement that removes the candidate, if one does.\<close>

fun gate_exclusion :: "bool \<Rightarrow> candidate_record \<Rightarrow> foundry_core \<Rightarrow> evaluation_requirement list \<Rightarrow>
    exclusion_entry option" where
  "gate_exclusion require_complete cand c [] = None"
| "gate_exclusion require_complete cand c (q # qs) =
    (if req_class q \<noteq> RC_Mandatory then gate_exclusion require_complete cand c qs
     else (case requirement_record cand (req_key q) c of
         None \<Rightarrow>
           if \<not> require_complete then gate_exclusion require_complete cand c qs
           else Some (exclude cand SS_RequiredEvidence ER_MandatoryEvidenceMissing
             (''mandatory requirement '' @ quoted (req_key q)
              @ '' has no complete authoritative record for candidate generation ''
              @ decimal (unat (gen_value (cand_gen cand)))))
       | Some r \<Rightarrow>
           if ev_outcome r = EO_Pass then gate_exclusion require_complete cand c qs
           else Some (exclude cand (fst (gate_failure (ev_outcome r))) (snd (gate_failure (ev_outcome r)))
             (''mandatory requirement '' @ quoted (req_key q) @ '' reported ''
              @ evaluation_outcome_name (ev_outcome r)))))"

definition exclusion_of :: "task_spec \<Rightarrow> foundry_policy \<Rightarrow> foundry_core \<Rightarrow> candidate_record \<Rightarrow>
    exclusion_entry option" where
  "exclusion_of t policy c cand =
    (case lifecycle_exclusion cand (cand_state cand) of
       Some e \<Rightarrow> Some e
     | None \<Rightarrow>
       if cand_task_gen cand \<noteq> task_gen t then
         Some (exclude cand SS_TaskCompatibility ER_TaskIncompatible
           (''candidate was produced under task generation ''
            @ decimal (unat (gen_value (cand_task_gen cand))) @ '' but the task is now at ''
            @ decimal (unat (gen_value (task_gen t)))))
       else gate_exclusion (sel_require_complete_mandatory (pol_selection policy)) cand c
              (task_requirements t))"

definition missing_exclusion :: "candidate_id \<Rightarrow> exclusion_entry" where
  "missing_exclusion k =
    \<lparr>ex_candidate = k, ex_candidate_gen = gen_none, ex_stage = SS_CandidateLifecycle,
     ex_reason = ER_UnknownCandidate,
     ex_detail = ''candidate is referenced by the population but missing from state''\<rparr>"

text \<open>The fate of each candidate of a population, in identity order.\<close>

definition judge :: "task_spec \<Rightarrow> foundry_policy \<Rightarrow> foundry_core \<Rightarrow> candidate_id \<Rightarrow>
    exclusion_entry + candidate_record" where
  "judge t policy c k =
    (case find_candidate k c of
       None \<Rightarrow> Inl (missing_exclusion k)
     | Some cand \<Rightarrow> (case exclusion_of t policy c cand of Some e \<Rightarrow> Inl e | None \<Rightarrow> Inr cand))"

definition judgements :: "population_id \<Rightarrow> task_spec \<Rightarrow> foundry_policy \<Rightarrow> foundry_core \<Rightarrow>
    (exclusion_entry + candidate_record) list" where
  "judgements p t policy c = map (judge t policy c) (ordered_candidates p c)"

definition exclusions :: "('e + 'r) list \<Rightarrow> 'e list" where
  "exclusions js = concat (map (\<lambda>j. case j of Inl e \<Rightarrow> [e] | Inr _ \<Rightarrow> []) js)"

definition participants :: "('e + 'r) list \<Rightarrow> 'r list" where
  "participants js = concat (map (\<lambda>j. case j of Inl _ \<Rightarrow> [] | Inr r \<Rightarrow> [r]) js)"
section \<open>Ranking\<close>

definition rank_candidate :: "task_spec \<Rightarrow> foundry_policy \<Rightarrow> evaluation_record list \<Rightarrow> foundry_core \<Rightarrow>
    candidate_record \<Rightarrow> ranking_entry" where
  "rank_candidate t policy evidence c cand =
    (let owned = filter (\<lambda>r. ev_candidate r = cand_id cand) evidence;
         values = map (factor_value cand owned t (complete_requirement_count cand c))
           (sel_factors (pol_selection policy))
     in \<lparr>re_candidate = cand_id cand, re_candidate_gen = cand_gen cand, re_rank = 0,
         re_total_score = b64_sum (map rfv_contribution values), re_factors = values,
         re_artifact_bytes = artifact_bytes (cand_artifacts cand),
         re_lineage_depth = cand_depth cand, re_diversity_key = cand_diversity_key cand\<rparr>)"

definition ranks_before :: "ranking_entry \<Rightarrow> ranking_entry \<Rightarrow> bool" where
  "ranks_before a b \<longleftrightarrow>
    (if \<not> b64_equal (re_total_score a) (re_total_score b)
     then b64_less (re_total_score b) (re_total_score a)
     else re_candidate a < re_candidate b)"

fun number_from :: "u32 \<Rightarrow> ranking_entry list \<Rightarrow> ranking_entry list" where
  "number_from n [] = []"
| "number_from n (e # es) = e\<lparr>re_rank := n\<rparr> # number_from (n + 1) es"

definition rank_participants :: "task_spec \<Rightarrow> foundry_policy \<Rightarrow> foundry_core \<Rightarrow> candidate_record list \<Rightarrow>
    ranking_entry list" where
  "rank_participants t policy c admitted =
    (let evidence = concat (map (\<lambda>cand. evaluations_for (cand_id cand) c) admitted)
     in number_from 1 (sort_by ranks_before (map (rank_candidate t policy evidence c) admitted)))"

section \<open>Selection\<close>

definition selection_digest_now :: "(binary64 \<Rightarrow> string) \<Rightarrow> population_record \<Rightarrow> task_spec \<Rightarrow> foundry_policy \<Rightarrow>
    foundry_core \<Rightarrow> string" where
  "selection_digest_now shortest pop t policy c =
    (let (candidates, evaluations) = selection_canonical_inputs (pop_id pop) c
     in compute_selection_state_digest shortest pop t policy candidates evaluations)"

definition blank_decision :: "population_record \<Rightarrow> task_spec \<Rightarrow> foundry_policy \<Rightarrow> foundry_core \<Rightarrow>
    selection_decision" where
  "blank_decision pop t policy c = default_selection_decision
    \<lparr>sd_population := pop_id pop, sd_population_gen := pop_gen pop, sd_task := task_id_of t,
     sd_task_gen := task_gen t, sd_policy := pol_id policy, sd_policy_gen := pol_gen policy,
     sd_epoch := co_epoch c, sd_state := SD_Prepared\<rparr>"

definition selection_rationale :: "(binary64 \<Rightarrow> string) \<Rightarrow> ranking_entry list \<Rightarrow> exclusion_entry list \<Rightarrow> string" where
  "selection_rationale shortest ranking excluded =
    ''ranked '' @ decimal (length ranking) @ '' eligible candidate(s) over ''
    @ decimal (length excluded) @ '' excluded candidate(s); winner ''
    @ candidate_id_text (re_candidate (hd ranking)) @ '' with total score ''
    @ canonical_double shortest (re_total_score (hd ranking))"

definition decide_selection :: "(binary64 \<Rightarrow> string) \<Rightarrow> population_id \<Rightarrow> population_record \<Rightarrow> task_spec \<Rightarrow>
    foundry_policy \<Rightarrow> foundry_core \<Rightarrow> selection_decision" where
  "decide_selection shortest p pop t policy c =
    (let js = judgements p t policy c;
         excluded = exclusions js;
         admitted = participants js;
         digest = selection_digest_now shortest pop t policy c;
         decision = (blank_decision pop t policy c)\<lparr>sd_excluded := excluded, sd_digest := digest\<rparr>
     in if admitted = [] then decision
          \<lparr>sd_state := SD_Impossible,
           sd_rationale := ''no candidate satisfied every mandatory gate; ranking was not entered''\<rparr>
        else let ranking = rank_participants t policy c admitted in decision
          \<lparr>sd_ranking := ranking, sd_selected := re_candidate (hd ranking),
           sd_selected_gen := re_candidate_gen (hd ranking),
           sd_rationale := selection_rationale shortest ranking excluded\<rparr>)"

definition prepare_selection :: "(binary64 \<Rightarrow> string) \<Rightarrow> population_id \<Rightarrow> selection_decision core_action" where
  "prepare_selection shortest p = readA (\<lambda>c.
    found_or E_UnknownIdentity (find_population p c) (\<lambda>pop.
    thenA (seqA
      [guardA (pop_state pop \<noteq> PS_RevalidationRequired) E_RevalidationRequired,
       guardA (pop_state pop \<in> {PS_Running, PS_Evaluating, PS_Selecting, PS_Advancing})
         E_IllegalStateTransition])
    (found_or E_UnknownIdentity (find_task (pop_task pop) c) (\<lambda>t.
     found_or E_UnknownIdentity (find_policy (pop_policy pop) c) (\<lambda>policy.
       let decision = decide_selection shortest p pop t policy c in
       thenA (seqA
         [modifyA (co_selections_update (tbl_assign (pop_id pop) decision)),
          count_in st_selections_prepared_update,
          set_population_state p PS_Selecting
            (if sd_state decision = SD_Impossible then ''selection prepared with no eligible candidate''
             else ''selection prepared'')])
       (retA decision))))))"

definition clear_other_winner :: "candidate_id \<Rightarrow> candidate_id \<Rightarrow> unit core_action" where
  "clear_other_winner winner k = readA (\<lambda>c.
    if_found (find_candidate k c) (\<lambda>cand.
      whenA (cand_selected cand \<and> cand_id cand \<noteq> winner)
        (write_candidate k (\<lambda>r. r\<lparr>cand_selected := False, cand_selection_gen := gen_none\<rparr>))))"

definition mandatory_gates_complete :: "task_spec \<Rightarrow> candidate_record \<Rightarrow> foundry_core \<Rightarrow> bool" where
  "mandatory_gates_complete t cand c \<longleftrightarrow>
    list_all (\<lambda>q. req_class q \<noteq> RC_Mandatory \<or> requirement_complete cand (req_key q) c) (task_requirements t)"

definition crown_winner :: "candidate_id \<Rightarrow> selection_generation \<Rightarrow> task_spec \<Rightarrow> unit core_action" where
  "crown_winner k g t = readA (\<lambda>c.
    found_or E_UnknownIdentity (find_candidate k c) (\<lambda>winner. seqA
      [whenA (mandatory_gates_complete t winner c) (seqA
         [move_candidate_from {CS_Published} k CS_Evaluating ''won selection; evaluation state caught up'',
          move_candidate_from {CS_Evaluating} k CS_Evaluated
            ''won selection; every mandatory gate is satisfied'']),
       set_candidate_state k CS_Selected ''won selection for this population generation'',
       write_candidate k (\<lambda>r. r\<lparr>cand_selected := True, cand_selection_gen := g\<rparr>)]))"

definition check_prepared_selection :: "selection_decision \<Rightarrow> population_record \<Rightarrow> status" where
  "check_prepared_selection prepared pop = first_failure
    [check_population_generation (sd_population_gen prepared) (pop_gen pop),
     check_policy_generation (sd_policy_gen prepared) (pop_policy_gen pop),
     check_task_generation (sd_task_gen prepared) (pop_task_gen pop),
     check_identity (sd_task prepared) (pop_task pop),
     check_identity (sd_policy prepared) (pop_policy pop)]"

definition commit_selection :: "(binary64 \<Rightarrow> string) \<Rightarrow> selection_decision \<Rightarrow> selection_decision core_action" where
  "commit_selection shortest prepared = readA (\<lambda>c.
    found_or E_UnknownIdentity (find_population (sd_population prepared) c) (\<lambda>pop.
    thenA (checkA (check_prepared_selection prepared pop))
    (found_or E_UnknownIdentity (find_task (pop_task pop) c) (\<lambda>t.
     found_or E_UnknownIdentity (find_policy (pop_policy pop) c) (\<lambda>policy.
     thenA (checkA (check_canonical_digest (sd_digest prepared)
       (selection_digest_now shortest pop t policy c)))
     (let g = gen_bump_or_first (pop_committed_selection pop);
          committed = prepared\<lparr>sd_state := SD_Committed, sd_gen := g\<rparr> in
      thenA (seqA
        [forA (pop_candidates pop) (clear_other_winner (sd_selected committed)),
         whenA (id_valid (sd_selected committed)) (crown_winner (sd_selected committed) g t),
         write_population (sd_population prepared) (\<lambda>r. r\<lparr>pop_committed_selection := g\<rparr>),
         modifyA (co_selections_update (tbl_assign (pop_id pop) committed)),
         count_in st_selections_committed_update,
         set_population_state (sd_population prepared) PS_Advancing ''selection committed''])
      (retA committed)))))))"

section \<open>Retention\<close>

text \<open>
  The state of the retention pass: the entries, the retained candidates in the order they
  were kept, and the counts per lineage.
\<close>

record retention_pass =
  rp_entries :: "retention_entry list"
  rp_retained :: "candidate_id list"
  rp_counts :: "(lineage_id, u32) table"

definition retention_line :: "ranking_entry \<Rightarrow> retention_outcome \<Rightarrow> string \<Rightarrow> retention_entry" where
  "retention_line e outcome detail =
    \<lparr>rde_candidate = re_candidate e, rde_candidate_gen = re_candidate_gen e, rde_outcome = outcome,
     rde_rank = re_rank e, rde_lineage_key = [], rde_detail = detail\<rparr>"

definition add_line :: "retention_entry \<Rightarrow> retention_pass \<Rightarrow> retention_pass" where
  "add_line line s = s\<lparr>rp_entries := rp_entries s @ [line]\<rparr>"

definition lineage_count :: "lineage_id \<Rightarrow> retention_pass \<Rightarrow> u32" where
  "lineage_count l s = (case tbl_find (rp_counts s) l of None \<Rightarrow> 0 | Some n \<Rightarrow> n)"

definition try_retain :: "retention_policy \<Rightarrow> foundry_core \<Rightarrow> ranking_entry \<Rightarrow> retention_outcome \<Rightarrow> string \<Rightarrow>
    retention_pass \<Rightarrow> retention_pass" where
  "try_retain policy c e outcome detail s =
    (case find_candidate (re_candidate e) c of
       None \<Rightarrow> s
     | Some cand \<Rightarrow>
       if unat (ret_max_retained policy) \<le> length (rp_retained s) then
         add_line (retention_line e RO_RetiredCapacityLimit ''population retention capacity reached'') s
       else
         let s = s\<lparr>rp_counts := tbl_emplace (cand_lineage cand) 0 (rp_counts s)\<rparr> in
         if ret_max_per_lineage policy \<le> lineage_count (cand_lineage cand) s then
           add_line (retention_line e RO_RetiredLineageCap ''lineage retention cap reached'') s
         else
           add_line (retention_line e outcome detail)
             (s\<lparr>rp_counts := tbl_adjust (cand_lineage cand) (\<lambda>n. n + 1) (rp_counts s),
                rp_retained := rp_retained s @ [re_candidate e]\<rparr>))"

definition retain_ranked :: "retention_policy \<Rightarrow> foundry_core \<Rightarrow> retention_pass \<Rightarrow> ranking_entry \<Rightarrow>
    retention_pass" where
  "retain_ranked policy c s e =
    (if unat (ret_top_k policy) \<le> length (rp_retained s)
     then add_line (retention_line e RO_RetiredRankedBelowCut ''ranked below the retention cut'') s
     else try_retain policy c e RO_Retained ''retained by rank'' s)"

definition retain_all :: "retention_policy \<Rightarrow> foundry_core \<Rightarrow> selection_decision \<Rightarrow> retention_pass" where
  "retain_all policy c selection =
    (let winner_first = id_valid (sd_selected selection) \<and> ret_retain_selected policy;
         is_winner = (\<lambda>e. winner_first \<and> re_candidate e = sd_selected selection);
         start = \<lparr>rp_entries = [], rp_retained = [], rp_counts = []\<rparr>;
         after_winner = (case find is_winner (sd_ranking selection) of
             None \<Rightarrow> start
           | Some e \<Rightarrow> try_retain policy c e RO_RetainedBecauseSelected
               ''selected winner is retained by policy'' start)
     in foldl (retain_ranked policy c) after_winner
          (filter (\<lambda>e. \<not> is_winner e) (sd_ranking selection)))"

text \<open>A candidate the pass did not describe is retired as ineligible.\<close>

definition describe_rest :: "foundry_core \<Rightarrow> retention_pass \<Rightarrow> candidate_id \<Rightarrow> retention_pass" where
  "describe_rest c s k =
    (if k \<in> set (rp_retained s) \<or> k \<in> rde_candidate ` set (rp_entries s) then s
     else add_line
       \<lparr>rde_candidate = k,
        rde_candidate_gen = (case find_candidate k c of None \<Rightarrow> gen_none | Some r \<Rightarrow> cand_gen r),
        rde_outcome = RO_RetiredIneligible, rde_rank = 0, rde_lineage_key = [],
        rde_detail = ''candidate was not eligible for retention''\<rparr> s)"

definition outcome_retires :: "retention_outcome \<Rightarrow> bool" where
  "outcome_retires r \<longleftrightarrow>
    r \<in> {RO_RetiredRankedBelowCut, RO_RetiredLineageCap, RO_RetiredCapacityLimit, RO_RetiredIneligible}"

definition decide_retention :: "(binary64 \<Rightarrow> string) \<Rightarrow> population_record \<Rightarrow> foundry_policy \<Rightarrow>
    selection_decision \<Rightarrow> foundry_core \<Rightarrow> retention_decision" where
  "decide_retention shortest pop policy selection c =
    (let s = foldl (describe_rest c) (retain_all (pol_retention policy) c selection) (pop_candidates pop)
     in \<lparr>rd_selection_gen = sd_gen selection, rd_population = pop_id pop,
         rd_population_gen = pop_gen pop, rd_policy = pol_id policy, rd_policy_gen = pol_gen policy,
         rd_epoch = co_epoch c, rd_entries = rp_entries s,
         rd_retained = sort_by (<) (rp_retained s),
         rd_retired = sort_by (<) (map rde_candidate
           (filter (\<lambda>e. outcome_retires (rde_outcome e)) (rp_entries s))),
         rd_digest = compute_retention_state_digest shortest pop policy selection,
         rd_committed = False\<rparr>)"

definition prepare_retention :: "(binary64 \<Rightarrow> string) \<Rightarrow> population_id \<Rightarrow> retention_decision core_action" where
  "prepare_retention shortest p = readA (\<lambda>c.
    found_or E_UnknownIdentity (find_population p c) (\<lambda>pop.
      case tbl_find (co_selections c) p of
        None \<Rightarrow> failA E_SelectionImpossible
      | Some selection \<Rightarrow>
        if \<not> gen_valid (pop_committed_selection pop) \<or> sd_state selection \<noteq> SD_Committed
        then failA E_SelectionImpossible
        else
          let stored = (case tbl_find (co_retentions c) p of
              None \<Rightarrow> None
            | Some d \<Rightarrow> if rd_committed d \<and> pop_retention_committed pop \<and>
                rd_selection_gen d = pop_committed_selection pop then Some d else None) in
          case stored of
            Some d \<Rightarrow> retA d
          | None \<Rightarrow>
            found_or E_UnknownIdentity (find_policy (pop_policy pop) c) (\<lambda>policy.
              let decision = decide_retention shortest pop policy selection c in
              thenA (modifyA (co_retentions_update (tbl_assign (pop_id pop) decision)))
              (retA decision))))"

definition mark_retained :: "candidate_id \<Rightarrow> unit core_action" where
  "mark_retained k = readA (\<lambda>c.
    found_or E_UnknownIdentity (find_candidate k c) (\<lambda>_.
      write_candidate k (\<lambda>r. r\<lparr>cand_retained := True\<rparr>)))"

definition retire_released :: "candidate_id \<Rightarrow> candidate_id \<Rightarrow> unit core_action" where
  "retire_released winner k = readA (\<lambda>c.
    if_found (find_candidate k c) (\<lambda>cand.
      whenA (cand_id cand \<noteq> winner \<and> candidate_transition_is_legal (cand_state cand) CS_Retired)
        (set_candidate_state k CS_Retired ''retention policy released this candidate'')))"

definition commit_retention :: "(binary64 \<Rightarrow> string) \<Rightarrow> retention_decision \<Rightarrow> retention_decision core_action" where
  "commit_retention shortest prepared = readA (\<lambda>c.
    found_or E_UnknownIdentity (find_population (rd_population prepared) c) (\<lambda>pop.
    thenA (seqA
      [checkA (check_population_generation (rd_population_gen prepared) (pop_gen pop)),
       checkA (check_policy_generation (rd_policy_gen prepared) (pop_policy_gen pop)),
       guardA (pop_committed_selection pop = rd_selection_gen prepared) E_StaleSelection])
    (found_or E_StaleSelection (tbl_find (co_selections c) (pop_id pop)) (\<lambda>selection.
     found_or E_UnknownIdentity (find_policy (pop_policy pop) c) (\<lambda>policy.
     thenA (checkA (check_canonical_digest (rd_digest prepared)
       (compute_retention_state_digest shortest pop policy selection)))
     (let committed = prepared\<lparr>rd_committed := True\<rparr> in
      thenA (seqA
        [forA (rd_retained committed) mark_retained,
         forA (rd_retired committed) (retire_released (sd_selected selection)),
         write_population (rd_population prepared) (\<lambda>r. r\<lparr>pop_retention_committed := True,
           pop_retention_selection_gen := rd_selection_gen committed\<rparr>),
         modifyA (co_retentions_update (tbl_assign (pop_id pop) committed)),
         count_in st_retentions_committed_update,
         touch])
      (retA committed)))))))"

section \<open>Promotion\<close>

definition promotion_summary :: "evaluation_requirement \<Rightarrow> evaluation_record option \<Rightarrow> promotion_evidence" where
  "promotion_summary q found =
    (case found of
       None \<Rightarrow> \<lparr>pe_key = req_key q, pe_kind = EK_PortableReference, pe_outcome = EO_Unknown,
         pe_class = req_class q, pe_complete = False, pe_has_score = False, pe_score = b64_zero,
         pe_gen = gen_none, pe_digest = []\<rparr>
     | Some r \<Rightarrow> \<lparr>pe_key = req_key q, pe_kind = ev_kind r, pe_outcome = ev_outcome r,
         pe_class = req_class q, pe_complete = ev_complete r, pe_has_score = ev_has_score r,
         pe_score = ev_score r, pe_gen = ev_gen r, pe_digest = ev_evidence_digest r\<rparr>)"

definition gate_is_outstanding :: "candidate_record \<Rightarrow> foundry_core \<Rightarrow> evaluation_requirement \<Rightarrow> bool" where
  "gate_is_outstanding winner c q \<longleftrightarrow> req_class q = RC_Mandatory \<and>
     (case requirement_record winner (req_key q) c of
        None \<Rightarrow> True
      | Some r \<Rightarrow> \<not> authoritative_for_mandatory r)"

definition outstanding_requirements :: "task_spec \<Rightarrow> candidate_record \<Rightarrow> foundry_core \<Rightarrow> string list" where
  "outstanding_requirements t winner c =
    map (\<lambda>q. ''mandatory requirement '' @ quoted (req_key q) @ '' is not satisfied'')
      (filter (gate_is_outstanding winner c) (task_requirements t))
    @ (if cand_task_gen winner \<noteq> task_gen t then [''candidate task generation is not current''] else [])
    @ (if \<not> cand_selected winner then [''candidate is not the selected winner''] else [])"

definition promotion_ancestry :: "lineage_graph \<Rightarrow> candidate_id \<Rightarrow> candidate_id list" where
  "promotion_ancestry g k =
    (let path = path_to_root g k in if path \<noteq> [] \<and> last path = k then butlast path else path)"

definition promotion_request_for :: "(binary64 \<Rightarrow> string) \<Rightarrow> promotion_request_id \<Rightarrow> population_record \<Rightarrow>
    selection_decision \<Rightarrow> candidate_record \<Rightarrow> task_spec \<Rightarrow> foundry_policy \<Rightarrow> foundry_core \<Rightarrow>
    promotion_request" where
  "promotion_request_for shortest k pop selection winner t policy c =
    (let outstanding = outstanding_requirements t winner c in
     \<lparr>pr_id = k, pr_foundry = co_foundry c, pr_run = co_run c, pr_epoch = co_epoch c,
      pr_population = pop_id pop, pr_population_gen = pop_gen pop,
      pr_candidate = cand_id winner, pr_candidate_gen = cand_gen winner,
      pr_task = task_id_of t, pr_task_gen = task_gen t, pr_lineage = cand_lineage winner,
      pr_selection_gen = sd_gen selection, pr_policy = pol_id policy, pr_policy_gen = pol_gen policy,
      pr_evidence_gen = cand_evidence_gen winner,
      pr_eligibility = (if outstanding = [] then PE_Eligible else PE_NotEligible),
      pr_outstanding = outstanding,
      pr_artifacts = cand_artifacts winner, pr_total_bytes = artifact_bytes (cand_artifacts winner),
      pr_artifact_set_digest = cand_artifact_set_digest winner,
      pr_evidence = map (\<lambda>q. promotion_summary q (requirement_record winner (req_key q) c)) (task_requirements t),
      pr_ancestry = promotion_ancestry (co_lineage c) (cand_id winner),
      pr_lineage_depth = cand_depth winner,
      pr_digest = compute_candidate_state_digest shortest winner (evaluations_for (cand_id winner) c)\<rparr>)"

definition prepare_promotion_request :: "(binary64 \<Rightarrow> string) \<Rightarrow> population_id \<Rightarrow> promotion_request core_action" where
  "prepare_promotion_request shortest p = readA (\<lambda>c.
    found_or E_UnknownIdentity (find_population p c) (\<lambda>pop.
    thenA (guardA (gen_valid (pop_committed_selection pop) \<and> pop_retention_committed pop) E_PromotionNotEligible)
    (found_or E_PromotionNotEligible (tbl_find (co_selections c) p) (\<lambda>selection.
    thenA (seqA
      [guardA (sd_state selection = SD_Committed) E_PromotionNotEligible,
       guardA (id_valid (sd_selected selection)) E_PromotionNotEligible])
    (found_or E_UnknownIdentity (find_candidate (sd_selected selection) c) (\<lambda>winner.
     found_or E_UnknownIdentity (find_task (pop_task pop) c) (\<lambda>t.
     found_or E_UnknownIdentity (find_policy (pop_policy pop) c) (\<lambda>policy.
     bindA (allocate IK_PromotionRequest) (\<lambda>k.
       let request = promotion_request_for shortest k pop selection winner t policy c in
       thenA (seqA
         [modifyA (co_promotion_requests_update (tbl_assign k request)),
          write_population p (\<lambda>r. r\<lparr>pop_committed_promotion := k,
            pop_promotion_requests := pop_promotion_requests r + 1\<rparr>),
          count_in st_promotion_requests_update,
          touch])
       (retA request))))))))))"

definition record_promotion_receipt :: "promotion_request_id \<Rightarrow> promotion_receipt \<Rightarrow> unit core_action" where
  "record_promotion_receipt k receipt = readA (\<lambda>c.
    found_or E_UnknownIdentity (tbl_find (co_promotion_requests c) k) (\<lambda>request. seqA
      [guardA (rcp_handoff receipt \<noteq> PH_NotRequested) E_InvalidArgument,
       guardA (rcp_request_digest receipt = [] \<or> rcp_request_digest receipt = pr_digest request)
         E_StaleAuthority]))"

section \<open>Advance\<close>

definition successor_spec :: "population_record \<Rightarrow> candidate_record \<Rightarrow> string \<Rightarrow> population_spec" where
  "successor_spec pop winner name =
    \<lparr>ps_name = name, ps_task = pop_task pop, ps_task_gen = pop_task_gen pop, ps_policy = pop_policy pop,
     ps_policy_gen = pop_policy_gen pop, ps_candidate_budget = pop_candidate_budget pop,
     ps_worker_budget = pop_worker_budget pop, ps_index = pop_index pop + 1,
     ps_predecessor = pop_id pop, ps_seed_candidate = cand_id winner,
     ps_seed_candidate_gen = cand_gen winner, ps_seed_lineage = cand_lineage winner,
     ps_require_promotion_request = pop_require_promotion_request pop\<rparr>"

definition advance_population :: "population_id \<Rightarrow> string \<Rightarrow> population_id core_action" where
  "advance_population p next_name = readA (\<lambda>c.
    found_or E_UnknownIdentity (find_population p c) (\<lambda>pop.
    thenA (guardA (gen_valid (pop_committed_selection pop) \<and> pop_retention_committed pop)
      E_IllegalStateTransition)
    (found_or E_SelectionImpossible (tbl_find (co_selections c) p) (\<lambda>selection.
    thenA (guardA (id_valid (sd_selected selection)) E_SelectionImpossible)
    (found_or E_UnknownIdentity (find_policy (pop_policy pop) c) (\<lambda>policy.
     found_or E_UnknownIdentity (find_task (pop_task pop) c) (\<lambda>t.
     thenA (guardA (pop_index pop < pol_max_generation_depth policy) E_PolicyConflict)
     (found_or E_UnknownIdentity (find_candidate (sd_selected selection) c) (\<lambda>winner.
      bindA (create_population (successor_spec pop winner next_name)) (\<lambda>successor.
      thenA (seqA
        [whenA (pol_carry_forward_elite policy) (add_elite_candidate successor winner),
         close_population (pop_id pop)])
      (retA successor)))))))))))"

end
