(* ===== verification/Core_Recovery.thy ===== *)
theory Core_Recovery
  imports Core_Dispatch Core_Select
begin

text \<open>
  Snapshots, recovery after a coordinator restart, and the self-consistency audit
  (foundry_core.cpp, foundry_recovery.cpp, and the traversal of persistence.cpp both use).
\<close>

section \<open>Observed identity counters\<close>

definition bump_identity_counter :: "id_kind \<Rightarrow> u64 \<Rightarrow> u32 list \<Rightarrow> u32 list" where
  "bump_identity_counter kind r observed =
    (let index = id_kind_ordinal kind; counter = ucast (r AND 0xFFFFFFFF) in
     if index = 0 \<or> length observed \<le> index then observed
     else if observed ! index < counter then observed[index := counter] else observed)"

definition note_identities :: "id_kind \<Rightarrow> 'tag strong_id list \<Rightarrow> u32 list \<Rightarrow> u32 list" where
  "note_identities kind ks observed = foldl (\<lambda>obs k. bump_identity_counter kind (raw k) obs) observed ks"

definition observed_identity_counters :: "foundry_snapshot \<Rightarrow> u32 list" where
  "observed_identity_counters s =
    (note_identities IK_WorkerBoot (map (\<lambda>(_, r). cand_producer_boot r) (snap_candidates s))
     \<circ> note_identities IK_Worker (map (\<lambda>(_, r). cand_producer_worker r) (snap_candidates s))
     \<circ> note_identities IK_WorkerBoot (map (\<lambda>(_, w). wk_boot w) (snap_workers s))
     \<circ> note_identities IK_Candidate (tbl_keys (snap_lineage s))
     \<circ> note_identities IK_Population (tbl_keys (snap_ledgers s))
     \<circ> note_identities IK_PromotionRequest (tbl_keys (snap_promotion_requests s))
     \<circ> note_identities IK_Population (tbl_keys (snap_retentions s))
     \<circ> note_identities IK_Population (tbl_keys (snap_selections s))
     \<circ> note_identities IK_Evaluation (tbl_keys (snap_evaluations s))
     \<circ> note_identities IK_Assignment (tbl_keys (snap_assignments s))
     \<circ> note_identities IK_Attempt (tbl_keys (snap_attempts s))
     \<circ> note_identities IK_Worker (tbl_keys (snap_workers s))
     \<circ> note_identities IK_Candidate (tbl_keys (snap_candidates s))
     \<circ> note_identities IK_Population (tbl_keys (snap_populations s))
     \<circ> note_identities IK_Policy (tbl_keys (snap_policies s))
     \<circ> note_identities IK_Task (tbl_keys (snap_tasks s)))
    (replicate kIdKindCount 0)"

definition at_least_observed :: "u32 list \<Rightarrow> u32 list \<Rightarrow> u32 list" where
  "at_least_observed observed declared =
    map (\<lambda>index. if index \<noteq> 0 \<and> declared ! index < observed ! index then observed ! index else declared ! index)
      [0..<length declared]"

definition raw_snapshot :: "foundry_core \<Rightarrow> foundry_snapshot" where
  "raw_snapshot c =
    \<lparr>snap_foundry = co_foundry c, snap_run = co_run c, snap_epoch = co_epoch c,
     snap_revision = co_revision c, snap_id_salt = al_salt (co_ids c),
     snap_id_counters = al_counters (co_ids c), snap_tasks = co_tasks c,
     snap_policies = co_policies c, snap_populations = co_populations c,
     snap_candidates = co_candidates c, snap_workers = co_workers c, snap_attempts = co_attempts c,
     snap_assignments = co_assignments c, snap_evaluations = co_evaluations c,
     snap_selections = co_selections c, snap_retentions = co_retentions c,
     snap_promotion_requests = co_promotion_requests c, snap_ledgers = co_ledgers c,
     snap_lineage = co_lineage c, snap_statistics = co_statistics c\<rparr>"

definition snapshot :: "foundry_core \<Rightarrow> foundry_snapshot" where
  "snapshot c = (raw_snapshot c)\<lparr>snap_id_counters :=
     at_least_observed (observed_identity_counters (raw_snapshot c)) (al_counters (co_ids c))\<rparr>"

section \<open>Recovery\<close>

text \<open>
  \<^verbatim>\<open>recover\<close> moves the tables out of the snapshot before it computes the observed counters:
  what it traverses is a snapshot whose tables are moved-from, which the containers leave
  empty, and whose lineage nodes are still there, since they are reached through a const
  reference and copied.
\<close>

definition moved_from :: "foundry_snapshot \<Rightarrow> foundry_snapshot" where
  "moved_from s = s
    \<lparr>snap_tasks := [], snap_policies := [], snap_populations := [], snap_candidates := [],
     snap_workers := [], snap_attempts := [], snap_assignments := [], snap_evaluations := [],
     snap_selections := [], snap_retentions := [], snap_promotion_requests := [],
     snap_ledgers := []\<rparr>"

definition adopt_tables :: "foundry_snapshot \<Rightarrow> coordinator_epoch \<Rightarrow> foundry_core \<Rightarrow> foundry_core" where
  "adopt_tables s epoch c = c
    \<lparr>co_foundry := (if id_valid (snap_foundry s) then snap_foundry s else co_foundry c),
     co_run := (if id_valid (snap_run s) then snap_run s else co_run c),
     co_epoch := epoch, co_revision := snap_revision s,
     co_tasks := snap_tasks s, co_policies := snap_policies s,
     co_populations := snap_populations s, co_candidates := snap_candidates s,
     co_workers := snap_workers s, co_attempts := snap_attempts s,
     co_assignments := snap_assignments s, co_evaluations := snap_evaluations s,
     co_selections := snap_selections s, co_retentions := snap_retentions s,
     co_promotion_requests := snap_promotion_requests s, co_ledgers := snap_ledgers s,
     co_lineage := snap_lineage s, co_statistics := snap_statistics s\<rparr>"

definition restore_domain :: "nat \<Rightarrow> u32 \<Rightarrow> unit core_action" where
  "restore_domain index seed = (\<lambda>c.
    case restore_counter index seed (co_ids c) of (st, ids) \<Rightarrow> (st, c\<lparr>co_ids := ids\<rparr>))"

definition restore_allocator :: "foundry_snapshot \<Rightarrow> unit core_action" where
  "restore_allocator s =
    (let observed = observed_identity_counters (moved_from s) in
     seqA
      [modifyA (\<lambda>c. c\<lparr>co_ids := make_allocator
         (if snap_id_salt s = 0 then al_salt (co_ids c) else snap_id_salt s)\<rparr>),
       forA [1..<kIdKindCount] (\<lambda>index. restore_domain index
         (if snap_id_counters s ! index < observed ! index then observed ! index
          else snap_id_counters s ! index))])"

definition epoch_text :: "coordinator_epoch \<Rightarrow> string" where
  "epoch_text e = decimal (unat (epoch_value e))"

definition offline_worker :: "coordinator_epoch \<Rightarrow> worker_record \<Rightarrow> worker_record" where
  "offline_worker epoch w = w
    \<lparr>wk_state := WS_Offline, wk_state_epoch := epoch, wk_active_attempt := null_id,
     wk_active_attempt_gen := gen_none, wk_active_assignment := null_id,
     wk_last_diagnostic := ''coordinator restarted at epoch '' @ epoch_text epoch\<rparr>"

definition close_lost_attempt :: "attempt_state \<Rightarrow> string \<Rightarrow> coordinator_epoch \<Rightarrow> attempt_record \<Rightarrow> attempt_record" where
  "close_lost_attempt target detail epoch a = a
    \<lparr>att_state := target, att_terminal_epoch := epoch, att_failure_detail := detail\<rparr>"

definition recover_attempt :: "attempt_id \<Rightarrow> unit core_action" where
  "recover_attempt k = readA (\<lambda>c.
    if_found (find_attempt k c) (\<lambda>att.
      if att_state att \<in> {AS_Created, AS_Authorized} then seqA
        [release_attempt_reservations k,
         write_attempt k (close_lost_attempt AS_Cancelled
           ''coordinator restarted before the assignment was dispatched'' (co_epoch c)),
         count_in st_attempts_cancelled_update]
      else whenA (att_state att \<in> {AS_Dispatched, AS_Running}) (seqA
        [release_attempt_reservations k,
         write_attempt k (close_lost_attempt AS_OutcomeUnknown
           ''coordinator restarted with the assignment in flight; completion is undetermined'' (co_epoch c)),
         count_in st_attempts_outcome_unknown_update])))"

definition recovered_candidate :: "foundry_core \<Rightarrow> candidate_record \<Rightarrow> candidate_record" where
  "recovered_candidate c cand =
    (if cand_state cand \<in> {CS_Registered, CS_Producing} then
       if list_ex (\<lambda>att. att_candidate att = cand_id cand \<and> \<not> attempt_state_is_terminal (att_state att))
            (map snd (co_attempts c))
       then cand
       else cand\<lparr>cand_state := CS_Registered, cand_state_changed_epoch := co_epoch c,
         cand_failure_reason := ''coordinator restarted; the candidate slot is retryable''\<rparr>
     else if cand_state cand \<in> {CS_Published, CS_Evaluating} then
       cand\<lparr>cand_state := CS_RevalidationRequired, cand_state_changed_epoch := co_epoch c,
         cand_failure_reason := ''coordinator restarted during evaluation; evidence must be re-established''\<rparr>
     else cand)"

definition recovered_population :: "foundry_core \<Rightarrow> population_record \<Rightarrow> population_record" where
  "recovered_population c pop =
    (if population_state_is_terminal (pop_state pop) \<or> pop_state pop = PS_Created then pop
     else
       let detail = ''coordinator restart at epoch '' @ epoch_text (co_epoch c)
            @ ''; explicit revalidation is required before further authoritative progress'';
           waiting = pop\<lparr>pop_state := PS_RevalidationRequired, pop_state_epoch := co_epoch c,
             pop_status_detail := detail\<rparr>
       in if gen_valid (pop_committed_selection pop) \<and> tbl_find (co_selections c) (pop_id pop) = None
          then waiting\<lparr>pop_committed_selection := gen_none, pop_retention_committed := False,
            pop_status_detail := detail @ ''; the committed selection record is missing''\<rparr>
          else waiting)"

definition map_values :: "('v \<Rightarrow> 'v) \<Rightarrow> ('k, 'v) table \<Rightarrow> ('k, 'v) table" where
  "map_values f t = map (\<lambda>(k, v). (k, f v)) t"

definition next_epoch_after :: "foundry_snapshot \<Rightarrow> coordinator_epoch option" where
  "next_epoch_after s =
    (if epoch_valid (snap_epoch s) then epoch_next (snap_epoch s) else Some (CoordinatorEpoch 1))"

definition recover :: "foundry_snapshot \<Rightarrow> unit core_action" where
  "recover s = readA (\<lambda>c0. thenA (seqA
    [guardA (\<not> (id_valid (snap_foundry s) \<and> id_valid (co_foundry c0) \<and> snap_foundry s \<noteq> co_foundry c0))
       E_StaleAuthority,
     guardA (\<not> (id_valid (snap_run s) \<and> id_valid (co_run c0) \<and> snap_run s \<noteq> co_run c0)) E_StaleAuthority])
    (found_or E_GenerationRegression (next_epoch_after s) (\<lambda>epoch. seqA
      [modifyA (adopt_tables s epoch),
       restore_allocator s,
       modifyA (\<lambda>c. c\<lparr>co_workers := map_values (offline_worker (co_epoch c)) (co_workers c)\<rparr>),
       readA (\<lambda>c. forA (tbl_keys (co_attempts c)) recover_attempt),
       modifyA (\<lambda>c. c\<lparr>co_candidates := map_values (recovered_candidate c) (co_candidates c)\<rparr>),
       modifyA (co_selections_update (tbl_retain (\<lambda>d. sd_state d = SD_Committed))),
       modifyA (co_retentions_update (tbl_retain rd_committed)),
       modifyA (\<lambda>c. c\<lparr>co_populations := map_values (recovered_population c) (co_populations c)\<rparr>),
       touch])))"

section \<open>Audit\<close>

definition violation :: "bool \<Rightarrow> string \<Rightarrow> string list" where
  "violation b text = (if b then [text] else [])"

definition assignment_id_text :: "assignment_id \<Rightarrow> string" where
  "assignment_id_text k = id_to_string IK_Assignment ''AssignmentId'' k"

definition evaluation_id_text :: "evaluation_id \<Rightarrow> string" where
  "evaluation_id_text k = id_to_string IK_Evaluation ''EvaluationId'' k"

definition task_id_text :: "task_id \<Rightarrow> string" where
  "task_id_text k = id_to_string IK_Task ''TaskId'' k"

definition audit_member :: "foundry_core \<Rightarrow> population_record \<Rightarrow> candidate_id \<Rightarrow> string list" where
  "audit_member c pop k =
    (case find_candidate k c of
       None \<Rightarrow> [''population '' @ population_id_text (pop_id pop) @ '' references missing '' @ candidate_id_text k]
     | Some cand \<Rightarrow> violation (cand_population cand \<noteq> pop_id pop)
         (candidate_id_text k @ '' names a different population''))"

definition audit_population :: "foundry_core \<Rightarrow> population_record \<Rightarrow> string list" where
  "audit_population c pop =
    (let name = ''population '' @ population_id_text (pop_id pop) in
     violation (\<not> gen_valid (pop_gen pop)) (name @ '' has an invalid generation'')
     @ violation (unat kMaxCandidatesPerPopulation < length (pop_candidates pop))
         (name @ '' lists more candidates than the bound allows'')
     @ violation (\<not> distinct (pop_candidates pop)) (name @ '' lists a candidate more than once'')
     @ concat (map (audit_member c pop) (pop_candidates pop))
     @ violation (pop_state pop = PS_Closed \<and> \<not> gen_valid (pop_committed_selection pop))
         (name @ '' is closed without a committed selection'')
     @ violation (pop_state pop = PS_Closed \<and> \<not> pop_retention_committed pop)
         (name @ '' is closed without a committed retention decision''))"

definition audit_candidate :: "foundry_core \<Rightarrow> candidate_record \<Rightarrow> string list" where
  "audit_candidate c cand =
    (let name = ''candidate '' @ candidate_id_text (cand_id cand) in
     violation (\<not> gen_valid (cand_gen cand)) (name @ '' has an invalid generation'')
     @ violation (kMaxCandidateParents < length (cand_parents cand)) (name @ '' declares too many parents'')
     @ concat (map (\<lambda>parent.
         violation (parent = cand_id cand) (name @ '' is its own parent'')
         @ violation (\<not> lineage_contains (co_lineage c) parent)
             (name @ '' names missing parent '' @ candidate_id_text parent)) (cand_parents cand))
     @ violation (cand_selected cand \<and> cand_state cand \<notin> {CS_Selected, CS_Retained, CS_Retired})
         (name @ '' is marked selected while in state '' @ candidate_state_name (cand_state cand))
     @ violation (cand_artifacts cand \<noteq> [] \<and>
           cand_artifact_set_digest cand \<noteq> artifact_set_digest (cand_artifacts cand))
         (name @ '' has an artifact set digest that does not match its artifacts''))"

definition audit_attempt :: "foundry_core \<Rightarrow> attempt_record \<Rightarrow> string list" where
  "audit_attempt c att =
    (let name = ''attempt '' @ attempt_id_text (att_id att) @ '' references missing '' in
     violation (find_candidate (att_candidate att) c = None) (name @ candidate_id_text (att_candidate att))
     @ violation (find_population (att_population att) c = None) (name @ population_id_text (att_population att))
     @ violation (tbl_find (co_assignments c) (att_assignment att) = None)
         (name @ assignment_id_text (att_assignment att)))"

definition audit_evaluation :: "foundry_core \<Rightarrow> evaluation_record \<Rightarrow> string list" where
  "audit_evaluation c r =
    (let name = ''evaluation '' @ evaluation_id_text (ev_id r) in
     violation (find_candidate (ev_candidate r) c = None)
       (name @ '' references missing '' @ candidate_id_text (ev_candidate r))
     @ violation (find_task (ev_task r) c = None) (name @ '' references missing '' @ task_id_text (ev_task r))
     @ (if authoritative_for_mandatory r then
          (case find_candidate (ev_candidate r) c of
             None \<Rightarrow> []
           | Some cand \<Rightarrow> violation (ev_candidate_gen r \<noteq> cand_gen cand)
               (name @ '' is bound to a superseded candidate generation''))
        else []))"

definition audit_selection :: "foundry_core \<Rightarrow> population_id \<Rightarrow> selection_decision \<Rightarrow> string list" where
  "audit_selection c p d =
    violation (find_population p c = None)
      (''selection for '' @ population_id_text p @ '' references a missing population'')
    @ (if sd_state d = SD_Committed \<and> id_valid (sd_selected d) then
         (case find_candidate (sd_selected d) c of
            None \<Rightarrow> [''committed selection names a missing winner'']
          | Some winner \<Rightarrow> violation (\<not> cand_selected winner)
              (''committed selection winner '' @ candidate_id_text (cand_id winner) @ '' is not marked selected''))
       else [])"

definition selected_members :: "foundry_core \<Rightarrow> population_record \<Rightarrow> candidate_id list" where
  "selected_members c pop =
    filter (\<lambda>k. case find_candidate k c of None \<Rightarrow> False | Some r \<Rightarrow> cand_selected r) (pop_candidates pop)"

definition audit :: "foundry_core \<Rightarrow> string list" where
  "audit c =
    concat (map (audit_population c) (map snd (co_populations c)))
    @ concat (map (audit_candidate c) (map snd (co_candidates c)))
    @ concat (map (audit_attempt c) (map snd (co_attempts c)))
    @ concat (map (\<lambda>(k, asg). violation (find_attempt (asg_attempt asg) c = None)
        (''assignment '' @ assignment_id_text k @ '' references missing '' @ attempt_id_text (asg_attempt asg)))
        (co_assignments c))
    @ concat (map (audit_evaluation c) (map snd (co_evaluations c)))
    @ concat (map (\<lambda>(p, d). audit_selection c p d) (co_selections c))
    @ concat (map (\<lambda>pop. violation (1 < length (selected_members c pop))
        (''population '' @ population_id_text (pop_id pop) @ '' has ''
         @ decimal (length (selected_members c pop)) @ '' selected candidates''))
        (map snd (co_populations c)))
    @ concat (map (\<lambda>p. violation (find_population p c = None)
        (''ledger for '' @ population_id_text p @ '' references a missing population''))
        (tbl_keys (co_ledgers c)))
    @ violation (lineage_validate (co_lineage c) \<noteq> OK) ''lineage: ''
    @ violation (\<not> epoch_valid (co_epoch c)) ''the coordinator epoch is invalid''"

end
