(* ===== verification/Core_Rules.thy ===== *)
theory Core_Rules
  imports Core_Recovery
begin

text \<open>
  Reasoning about the operations of the core: the equations that flatten an operation into its
  steps, the interface (a locale) of a two-state relation that does not look at the revision
  and the statistics, and the rules that carry such a relation through the operations.
\<close>

section \<open>Equations of actions\<close>

lemma thenA_assoc: "thenA (thenA m n) p = thenA m (thenA n p)"
  by (rule ext) (simp add: thenA_def bindA_def split: prod.splits sum.splits)

lemma thenA_ret [simp]: "thenA (retA ()) n = n"
  by (rule ext) (simp add: thenA_def bindA_def retA_def)

lemma thenA_seq_Nil [simp]: "thenA (seqA []) n = n"
  by simp

lemma thenA_seq_Cons: "thenA (seqA (m # ms)) n = thenA m (thenA (seqA ms) n)"
  by (simp add: thenA_assoc)

lemmas flatten_simps = thenA_seq_Cons thenA_seq_Nil thenA_assoc thenA_ret seqA.simps

lemma modifyA_result [simp]: "modifyA f s = (OK, f s)"
  by (simp add: modifyA_def)

lemma retA_result [simp]: "retA x s = (Inr x, s)"
  by (simp add: retA_def)

lemma failA_result [simp]: "failA e s = (Inl e, s)"
  by (simp add: failA_def)

lemma checkA_result [simp]: "checkA r s = (r, s)"
  by (simp add: checkA_def)

lemma thenA_modify: "thenA (modifyA f) n s = n (f s)"
  by (simp add: thenA_def bindA_def)

lemma thenA_OK: "m s = (OK, s') \<Longrightarrow> thenA m n s = n s'"
  by (simp add: thenA_def bindA_def)

lemma thenA_Inl: "m s = (Inl e, s') \<Longrightarrow> thenA m n s = (Inl e, s')"
  by (simp add: thenA_def bindA_def)

lemma thenA_success:
  assumes "thenA m n s = (Inr x, s'')"
  obtains s' where "m s = (OK, s')" and "n s' = (Inr x, s'')"
  using assms by (auto simp: thenA_def bindA_def split: prod.splits sum.splits)

lemma bindA_success:
  assumes "bindA m f s = (Inr x, s'')"
  obtains y s' where "m s = (Inr y, s')" and "f y s' = (Inr x, s'')"
  using assms by (auto simp: bindA_def split: prod.splits sum.splits)

lemma readA_apply: "readA f s = f s s"
  by (simp add: readA_def)

lemma ignoreA_apply: "ignoreA m s = (OK, snd (m s))"
  by (simp add: ignoreA_def)

lemma found_or_simps [simp]: "found_or e None use = failA e" "found_or e (Some v) use = use v"
  by (simp_all add: found_or_def)

lemma if_found_simps [simp]: "if_found None use = retA ()" "if_found (Some v) use = use v"
  by (simp_all add: if_found_def)

lemma whenA_simps [simp]: "whenA True m = m" "whenA False m = retA ()"
  by (simp_all add: whenA_def)

lemma guardA_simps [simp]: "guardA True e = retA ()" "guardA False e = failA e"
  by (simp_all add: guardA_def checkA_def retA_def failA_def)

lemma guardA_result: "guardA b e s = (if b then OK else Inl e, s)"
  by (simp add: guardA_def require_def)

lemma refuse_in_result: "refuse_in counter e s = (Inl e, co_statistics_update (counter (\<lambda>n. n + 1)) s)"
  by (simp add: refuse_in_def thenA_def bindA_def count_in_def)

lemma touch_result: "touch s = (OK, s\<lparr>co_revision := co_revision s + 1\<rparr>)"
  by (simp add: touch_def)

lemma count_in_result: "count_in counter s = (OK, co_statistics_update (counter (\<lambda>n. n + 1)) s)"
  by (simp add: count_in_def)

lemma tbl_adjust_twice: "tbl_adjust k f (tbl_adjust k g t) = tbl_adjust k (f \<circ> g) t"
  by (auto simp: tbl_adjust_def)

section \<open>Tables that evolve\<close>

definition table_evolves :: "('v \<Rightarrow> 'v \<Rightarrow> bool) \<Rightarrow> ('k, 'v) table \<Rightarrow> ('k, 'v) table \<Rightarrow> bool" where
  "table_evolves P t t' \<longleftrightarrow> (\<forall>k v. tbl_find t k = Some v \<longrightarrow> (\<exists>v'. tbl_find t' k = Some v' \<and> P v v'))"

lemma table_evolvesD:
  assumes "table_evolves P t t'" and "tbl_find t k = Some v"
  obtains v' where "tbl_find t' k = Some v'" and "P v v'"
  using assms unfolding table_evolves_def by blast

context two_state
begin

lemma table_evolves_refl [simp]: "table_evolves R t t"
  by (auto simp: table_evolves_def R_refl)

lemma table_evolves_trans: "table_evolves R t u \<Longrightarrow> table_evolves R u v \<Longrightarrow> table_evolves R t v"
  unfolding table_evolves_def using R_trans by meson

lemma table_evolves_emplace: "table_evolves R t (tbl_emplace k v t)"
  by (auto simp: table_evolves_def tbl.find_emplace R_refl)

lemma table_evolves_adjust:
  "(\<And>v. tbl_find t k = Some v \<Longrightarrow> R v (f v)) \<Longrightarrow> table_evolves R t (tbl_adjust k f t)"
  by (auto simp: table_evolves_def tbl.find_adjust R_refl)

end

text \<open>A table whose keys are distinct and are the identities of their entries.\<close>

definition keyed :: "('v \<Rightarrow> 'k) \<Rightarrow> ('k, 'v) table \<Rightarrow> bool" where
  "keyed key t \<longleftrightarrow> tbl_ok t \<and> (\<forall>k v. tbl_find t k = Some v \<longrightarrow> key v = k)"

lemma keyedD: "keyed key t \<Longrightarrow> tbl_find t k = Some v \<Longrightarrow> key v = k"
  by (simp add: keyed_def)

lemma keyed_Nil [simp]: "keyed key []"
  by (simp add: keyed_def)

lemma keyed_emplace: "keyed key t \<Longrightarrow> key v = k \<Longrightarrow> keyed key (tbl_emplace k v t)"
  by (auto simp: keyed_def tbl.ok_emplace tbl.find_emplace split: if_splits)

lemma keyed_adjust:
  "keyed key t \<Longrightarrow> (\<And>v. tbl_find t k = Some v \<Longrightarrow> key (f v) = key v) \<Longrightarrow> keyed key (tbl_adjust k f t)"
  by (auto simp: keyed_def tbl.find_adjust split: if_splits)

section \<open>Relations the bookkeeping does not touch\<close>

locale bookkeeping_two_state = two_state R for R :: "foundry_core \<Rightarrow> foundry_core \<Rightarrow> bool" +
  assumes R_revision: "R c (c\<lparr>co_revision := n\<rparr>)"
    and R_statistics: "R c (co_statistics_update f c)"
begin

lemma keeps_touch: "keeps R touch"
  by (simp add: touch_def keeps_modify R_revision)

lemma keeps_count_in: "keeps R (count_in counter)"
  by (simp add: count_in_def keeps_modify R_statistics)

lemma keeps_refuse_in: "keeps R (refuse_in counter e)"
  by (simp add: refuse_in_def keeps_then keeps_count_in keeps_fail)

lemma keeps_guard: "keeps R (guardA b e)"
  by (simp add: guardA_def keeps_check)

lemma keeps_found_or: "(\<And>v. keeps R (use v)) \<Longrightarrow> keeps R (found_or e x use)"
  by (cases x) (simp_all add: keeps_fail)

lemma keeps_if_found: "(\<And>v. keeps R (use v)) \<Longrightarrow> keeps R (if_found x use)"
  by (cases x) (simp_all add: keeps_ret)

lemma keeps_try: "keeps R m \<Longrightarrow> keeps R (tryA m)"
  by (simp add: keeps_def step_ok_def tryA_def split: prod.splits) (metis snd_conv)

lemmas keeps_structure = keeps_ret keeps_fail keeps_check keeps_guard keeps_touch keeps_count_in
  keeps_refuse_in keeps_bind keeps_then keeps_read keeps_when keeps_ignore keeps_found_or
  keeps_if_found keeps_control keeps_try keeps_for

text \<open>The same rules at one state, which remember what was read and what was checked there.\<close>

lemma step_keeps: "keeps R m \<Longrightarrow> step_ok R m s"
  by (rule keeps_stepI)

lemma step_found_or: "(\<And>v. x = Some v \<Longrightarrow> step_ok R (use v) s) \<Longrightarrow> step_ok R (found_or e x use) s"
  by (cases x) (simp_all add: step_keeps keeps_fail)

lemma step_if_found: "(\<And>v. x = Some v \<Longrightarrow> step_ok R (use v) s) \<Longrightarrow> step_ok R (if_found x use) s"
  by (cases x) (simp_all add: step_keeps keeps_ret)

lemma step_if: "(b \<Longrightarrow> step_ok R m s) \<Longrightarrow> (\<not> b \<Longrightarrow> step_ok R n s) \<Longrightarrow> step_ok R (if b then m else n) s"
  by simp

lemma step_when: "(b \<Longrightarrow> step_ok R m s) \<Longrightarrow> step_ok R (whenA b m) s"
  by (cases b) (simp_all add: step_keeps keeps_ret)

lemma step_guard_then: "(b \<Longrightarrow> step_ok R n s) \<Longrightarrow> step_ok R (thenA (guardA b e) n) s"
  by (cases b) (simp_all add: step_ok_def thenA_def bindA_def R_refl)

lemma step_check_then: "(r = OK \<Longrightarrow> step_ok R n s) \<Longrightarrow> step_ok R (thenA (checkA r) n) s"
  by (cases r) (simp_all add: step_ok_def thenA_def bindA_def R_refl)

lemma step_keeps_then: "keeps R m \<Longrightarrow> (\<And>s. step_ok R n s) \<Longrightarrow> step_ok R (thenA m n) s"
  by (rule step_then) (auto intro: step_keeps)

lemmas step_structure = step_read step_found_or step_if_found step_if step_when step_guard_then
  step_check_then step_then

lemmas step_leaves = step_keeps keeps_ret keeps_fail keeps_check keeps_guard keeps_touch
  keeps_count_in keeps_refuse_in keeps_ignore

end

end
