(* ===== verification/Core_Evolution.thy ===== *)
theory Core_Evolution
  imports Core_Rules "HOL-Library.Sublist"
begin

text \<open>
  What no operation of a running core may undo: the relation between the state before and the
  state after any operation, and the proof that each operation keeps it. Identities and
  ancestry are fixed at creation, lifecycles only follow declared edges, a terminal attempt is
  never written again, evidence and lineage are append-only, identity counters never step
  back, and no ledger goes over its limits.
\<close>

section \<open>How one record may change\<close>

definition cand_identity :: "candidate_record \<Rightarrow> _" where
  "cand_identity r = (cand_id r, cand_gen r, cand_population r, cand_population_gen r, cand_task r,
     cand_task_gen r, cand_lineage r, cand_parents r, cand_depth r, cand_created_epoch r)"

definition cand_evolves :: "candidate_record \<Rightarrow> candidate_record \<Rightarrow> bool" where
  "cand_evolves r r' \<longleftrightarrow> cand_identity r' = cand_identity r \<and>
     candidate_transition_is_legal\<^sup>*\<^sup>* (cand_state r) (cand_state r')"

definition pop_contract :: "population_record \<Rightarrow> _" where
  "pop_contract r = (pop_id r, pop_run r, pop_name r, pop_task r, pop_task_gen r, pop_policy r,
     pop_policy_gen r, pop_candidate_budget r, pop_worker_budget r, pop_index r, pop_predecessor r,
     pop_seed_candidate r, pop_seed_candidate_gen r, pop_seed_lineage r, pop_created_epoch r,
     pop_require_promotion_request r)"

definition pop_evolves :: "population_record \<Rightarrow> population_record \<Rightarrow> bool" where
  "pop_evolves r r' \<longleftrightarrow> pop_contract r' = pop_contract r \<and>
     population_transition_is_legal\<^sup>*\<^sup>* (pop_state r) (pop_state r') \<and>
     prefix (pop_candidates r) (pop_candidates r')"

primrec attempt_rank :: "attempt_state \<Rightarrow> nat" where
  "attempt_rank AS_Created = 0"
| "attempt_rank AS_Authorized = 1"
| "attempt_rank AS_Dispatched = 2"
| "attempt_rank AS_Running = 3"
| "attempt_rank AS_Published = 4"
| "attempt_rank AS_Evaluating = 5"
| "attempt_rank AS_Completed = 6"
| "attempt_rank AS_Failed = 6"
| "attempt_rank AS_Cancelled = 6"
| "attempt_rank AS_OutcomeUnknown = 6"

definition att_identity :: "attempt_record \<Rightarrow> _" where
  "att_identity a = (att_id a, att_gen a, att_population a, att_population_gen a, att_task a,
     att_task_gen a, att_candidate a, att_candidate_gen a, att_worker a, att_worker_boot a,
     att_session a, att_assignment a, att_authorized_epoch a, att_retry_index a, att_previous_attempt a)"

definition att_evolves :: "attempt_record \<Rightarrow> attempt_record \<Rightarrow> bool" where
  "att_evolves a a' \<longleftrightarrow> att_identity a' = att_identity a \<and>
     attempt_rank (att_state a) \<le> attempt_rank (att_state a') \<and>
     (att_holds_reservation a' \<longrightarrow> att_holds_reservation a) \<and>
     (attempt_state_is_terminal (att_state a) \<longrightarrow>
        a'\<lparr>att_holds_reservation := False\<rparr> = a\<lparr>att_holds_reservation := False\<rparr>)"

definition asg_identity :: "assignment_record \<Rightarrow> _" where
  "asg_identity a = (asg_id a, asg_gen a, asg_attempt a, asg_attempt_gen a, asg_worker a,
     asg_worker_boot a, asg_session a, asg_session_gen a, asg_issued_epoch a)"

definition asg_evolves :: "assignment_record \<Rightarrow> assignment_record \<Rightarrow> bool" where
  "asg_evolves a a' \<longleftrightarrow> asg_identity a' = asg_identity a \<and> (asg_acknowledged a \<longrightarrow> asg_acknowledged a')"

definition ledger_evolves :: "budget_ledger \<Rightarrow> budget_ledger \<Rightarrow> bool" where
  "ledger_evolves l l' \<longleftrightarrow> lg_limits l' = lg_limits l \<and> (within_limits l \<longrightarrow> within_limits l')"

definition task_evolves :: "task_spec \<Rightarrow> task_spec \<Rightarrow> bool" where
  "task_evolves t t' \<longleftrightarrow> t' = t \<or> task_gen t < task_gen t'"

definition policy_evolves :: "foundry_policy \<Rightarrow> foundry_policy \<Rightarrow> bool" where
  "policy_evolves p p' \<longleftrightarrow> p' = p \<or> pol_gen p < pol_gen p'"

definition node_evolves :: "lineage_node \<Rightarrow> lineage_node \<Rightarrow> bool" where
  "node_evolves n n' \<longleftrightarrow> ancestry n' = ancestry n"

definition worker_evolves :: "worker_record \<Rightarrow> worker_record \<Rightarrow> bool" where
  "worker_evolves w w' \<longleftrightarrow> wk_id w' = wk_id w"

interpretation cand_history: two_state cand_evolves
  by unfold_locales (auto simp: cand_evolves_def)

interpretation pop_history: two_state pop_evolves
  by unfold_locales (auto simp: pop_evolves_def)

lemma frozen_state:
  "a'\<lparr>att_holds_reservation := False\<rparr> = a\<lparr>att_holds_reservation := False\<rparr> \<Longrightarrow> att_state a' = att_state a"
  for a a' :: attempt_record
  by (drule arg_cong [where f = att_state]) simp

interpretation att_history: two_state att_evolves
proof unfold_locales
  fix s t u :: attempt_record
  assume st: "att_evolves s t" and tu: "att_evolves t u"
  then have "attempt_state_is_terminal (att_state t)" if "attempt_state_is_terminal (att_state s)"
    using that by (auto simp: att_evolves_def dest: frozen_state)
  then show "att_evolves s u"
    using st tu by (auto simp: att_evolves_def)
qed (simp add: att_evolves_def)

interpretation asg_history: two_state asg_evolves
  by unfold_locales (auto simp: asg_evolves_def)

interpretation ledger_history: two_state ledger_evolves
  by unfold_locales (auto simp: ledger_evolves_def)

interpretation task_history: two_state task_evolves
  by unfold_locales (auto simp: task_evolves_def)

interpretation policy_history: two_state policy_evolves
  by unfold_locales (auto simp: policy_evolves_def)

interpretation node_history: two_state node_evolves
  by unfold_locales (auto simp: node_evolves_def)

interpretation worker_history: two_state worker_evolves
  by unfold_locales (auto simp: worker_evolves_def)

interpretation same_value: two_state "(=)"
  by unfold_locales auto

section \<open>How the state may change\<close>

definition core_frame :: "foundry_core \<Rightarrow> _" where
  "core_frame c = (co_config c, co_foundry c, co_run c, co_epoch c)"

text \<open>
  The well-formedness of the state: every table is keyed by the identities of its entries, no
  ledger is over its limits, and the lineage is a graph of accepted nodes.
\<close>

definition ledgers_within_limits :: "(population_id, budget_ledger) table \<Rightarrow> bool" where
  "ledgers_within_limits t \<longleftrightarrow> tbl_ok t \<and> (\<forall>k l. tbl_find t k = Some l \<longrightarrow> within_limits l)"

definition core_wf :: "foundry_core \<Rightarrow> bool" where
  "core_wf c \<longleftrightarrow>
     keyed task_id_of (co_tasks c) \<and> keyed pol_id (co_policies c) \<and>
     keyed pop_id (co_populations c) \<and> keyed cand_id (co_candidates c) \<and>
     keyed wk_id (co_workers c) \<and> keyed att_id (co_attempts c) \<and>
     keyed asg_id (co_assignments c) \<and> keyed ev_id (co_evaluations c) \<and>
     ledgers_within_limits (co_ledgers c) \<and> lineage_inv (co_lineage c)"

definition core_evolves :: "foundry_core \<Rightarrow> foundry_core \<Rightarrow> bool" where
  "core_evolves c c' \<longleftrightarrow>
     core_frame c' = core_frame c \<and>
     counters_le (co_ids c) (co_ids c') \<and>
     table_evolves task_evolves (co_tasks c) (co_tasks c') \<and>
     table_evolves policy_evolves (co_policies c) (co_policies c') \<and>
     table_evolves pop_evolves (co_populations c) (co_populations c') \<and>
     table_evolves cand_evolves (co_candidates c) (co_candidates c') \<and>
     table_evolves worker_evolves (co_workers c) (co_workers c') \<and>
     table_evolves att_evolves (co_attempts c) (co_attempts c') \<and>
     table_evolves asg_evolves (co_assignments c) (co_assignments c') \<and>
     table_evolves (=) (co_evaluations c) (co_evaluations c') \<and>
     table_evolves ledger_evolves (co_ledgers c) (co_ledgers c') \<and>
     table_evolves node_evolves (co_lineage c) (co_lineage c') \<and>
     (core_wf c \<longrightarrow> core_wf c')"

lemmas table_refls = cand_history.table_evolves_refl pop_history.table_evolves_refl
  att_history.table_evolves_refl asg_history.table_evolves_refl ledger_history.table_evolves_refl
  task_history.table_evolves_refl policy_history.table_evolves_refl node_history.table_evolves_refl
  worker_history.table_evolves_refl same_value.table_evolves_refl

interpretation core_history: bookkeeping_two_state core_evolves
proof unfold_locales
  fix s t u :: foundry_core and n f
  show "core_evolves s s"
    by (simp add: core_evolves_def table_refls counters.R_refl)
  show "core_evolves s (s\<lparr>co_revision := n\<rparr>)" "core_evolves s (co_statistics_update f s)"
    by (simp_all add: core_evolves_def core_frame_def core_wf_def table_refls counters.R_refl)
  assume st: "core_evolves s t" and tu: "core_evolves t u"
  show "core_evolves s u"
    using st tu unfolding core_evolves_def
    by (elim conjE, intro conjI)
      (erule (1) trans counters.R_trans task_history.table_evolves_trans
         policy_history.table_evolves_trans pop_history.table_evolves_trans
         cand_history.table_evolves_trans worker_history.table_evolves_trans
         att_history.table_evolves_trans asg_history.table_evolves_trans
         same_value.table_evolves_trans ledger_history.table_evolves_trans
         node_history.table_evolves_trans | blast)+
qed

section \<open>The primitive writes\<close>

lemmas table_emplaces = cand_history.table_evolves_emplace pop_history.table_evolves_emplace
  att_history.table_evolves_emplace asg_history.table_evolves_emplace
  ledger_history.table_evolves_emplace task_history.table_evolves_emplace
  policy_history.table_evolves_emplace worker_history.table_evolves_emplace
  same_value.table_evolves_emplace

lemmas evolves_simps = core_evolves_def core_frame_def core_wf_def table_refls table_emplaces counters.R_refl
  keyed_emplace

lemma keeps_allocate: "keeps core_evolves (allocate kind)"
  unfolding keeps_def step_ok_def allocate_def
  by (auto simp: evolves_simps alloc_next_counters_le split: prod.splits)

lemma ledgers_within_limits_emplace:
  "ledgers_within_limits t \<Longrightarrow> within_limits l \<Longrightarrow> ledgers_within_limits (tbl_emplace k l t)"
  by (auto simp: ledgers_within_limits_def tbl.ok_emplace tbl.find_emplace split: if_splits)

lemma keeps_emplace:
  "(\<And>c. task_id_of (t c) = k1) \<Longrightarrow> keeps core_evolves (modifyA (\<lambda>c. c\<lparr>co_tasks := tbl_emplace k1 (t c) (co_tasks c)\<rparr>))"
  "(\<And>c. pol_id (p c) = k2) \<Longrightarrow> keeps core_evolves (modifyA (\<lambda>c. c\<lparr>co_policies := tbl_emplace k2 (p c) (co_policies c)\<rparr>))"
  "(\<And>c. pop_id (pop c) = k3) \<Longrightarrow> keeps core_evolves (modifyA (\<lambda>c. c\<lparr>co_populations := tbl_emplace k3 (pop c) (co_populations c)\<rparr>))"
  "(\<And>c. cand_id (cand c) = k4) \<Longrightarrow> keeps core_evolves (modifyA (\<lambda>c. c\<lparr>co_candidates := tbl_emplace k4 (cand c) (co_candidates c)\<rparr>))"
  "(\<And>c. wk_id (w c) = k5) \<Longrightarrow> keeps core_evolves (modifyA (\<lambda>c. c\<lparr>co_workers := tbl_emplace k5 (w c) (co_workers c)\<rparr>))"
  "(\<And>c. att_id (att c) = k6) \<Longrightarrow> keeps core_evolves (modifyA (\<lambda>c. c\<lparr>co_attempts := tbl_emplace k6 (att c) (co_attempts c)\<rparr>))"
  "(\<And>c. asg_id (asg c) = k7) \<Longrightarrow> keeps core_evolves (modifyA (\<lambda>c. c\<lparr>co_assignments := tbl_emplace k7 (asg c) (co_assignments c)\<rparr>))"
  "(\<And>c. ev_id (ev c) = k8) \<Longrightarrow> keeps core_evolves (modifyA (\<lambda>c. c\<lparr>co_evaluations := tbl_emplace k8 (ev c) (co_evaluations c)\<rparr>))"
  "keeps core_evolves (modifyA (\<lambda>c. c\<lparr>co_ledgers := tbl_emplace k9 (make_ledger limits) (co_ledgers c)\<rparr>))"
  by (rule core_history.keeps_modify;
      simp add: evolves_simps ledgers_within_limits_emplace)+

lemma keeps_decisions:
  "keeps core_evolves (modifyA (co_selections_update f1))"
  "keeps core_evolves (modifyA (co_retentions_update f2))"
  "keeps core_evolves (modifyA (co_promotion_requests_update f3))"
  by (rule core_history.keeps_modify; simp add: evolves_simps)+

lemma record_keys:
  "cand_evolves r r' \<Longrightarrow> cand_id r' = cand_id r"
  "pop_evolves p p' \<Longrightarrow> pop_id p' = pop_id p"
  "att_evolves a a' \<Longrightarrow> att_id a' = att_id a"
  "asg_evolves g g' \<Longrightarrow> asg_id g' = asg_id g"
  by (simp_all add: cand_evolves_def cand_identity_def pop_evolves_def pop_contract_def
      att_evolves_def att_identity_def asg_evolves_def asg_identity_def)

lemma step_write_worker:
  assumes "\<And>w. find_worker k s = Some w \<Longrightarrow> wk_id (f w) = wk_id w"
  shows "step_ok core_evolves (write_worker k f) s"
  using assms unfolding write_worker_def step_ok_def modifyA_def find_worker_def
  by (simp add: evolves_simps worker_history.table_evolves_adjust worker_evolves_def keyed_adjust)

lemma step_write_candidate:
  assumes "\<And>r. find_candidate k s = Some r \<Longrightarrow> cand_evolves r (f r)"
  shows "step_ok core_evolves (write_candidate k f) s"
  using assms unfolding write_candidate_def step_ok_def modifyA_def find_candidate_def
  by (simp add: evolves_simps cand_history.table_evolves_adjust keyed_adjust record_keys)

lemma step_write_population:
  assumes "\<And>r. find_population k s = Some r \<Longrightarrow> pop_evolves r (f r)"
  shows "step_ok core_evolves (write_population k f) s"
  using assms unfolding write_population_def step_ok_def modifyA_def find_population_def
  by (simp add: evolves_simps pop_history.table_evolves_adjust keyed_adjust record_keys)

lemma step_write_attempt:
  assumes "\<And>a. find_attempt k s = Some a \<Longrightarrow> att_evolves a (f a)"
  shows "step_ok core_evolves (write_attempt k f) s"
  using assms unfolding write_attempt_def step_ok_def modifyA_def find_attempt_def
  by (simp add: evolves_simps att_history.table_evolves_adjust keyed_adjust record_keys)

lemma keeps_write_candidate: "(\<And>r. cand_evolves r (f r)) \<Longrightarrow> keeps core_evolves (write_candidate k f)"
  by (simp add: keeps_def step_write_candidate)

lemma keeps_write_population: "(\<And>r. pop_evolves r (f r)) \<Longrightarrow> keeps core_evolves (write_population k f)"
  by (simp add: keeps_def step_write_population)

lemma keeps_write_worker: "(\<And>w. wk_id (f w) = wk_id w) \<Longrightarrow> keeps core_evolves (write_worker k f)"
  by (simp add: keeps_def step_write_worker)

lemma keeps_acknowledge:
  "keeps core_evolves (modifyA (co_assignments_update (tbl_adjust k (\<lambda>a. a
     \<lparr>asg_acknowledged := True, asg_acknowledged_epoch := e\<rparr>))))"
  by (rule core_history.keeps_modify)
    (simp add: evolves_simps asg_history.table_evolves_adjust asg_evolves_def asg_identity_def keyed_adjust)

lemma ledger_evolves_apply: "ledger_evolves l (snd (ledger_apply e l))"
proof (cases "fst (ledger_apply e l)")
  case (Inl err)
  then show ?thesis
    using ledger_apply_refused [of e l] by (simp add: ledger_history.R_refl)
next
  case (Inr u)
  then obtain l' where applied: "ledger_apply e l = (OK, l')"
    by (cases "ledger_apply e l") simp
  have "lg_limits l' = lg_limits l"
    using applied
    by (cases e) (auto simp: ledger_reserve_def ledger_consume_def ledger_release_def
        ledger_consume_direct_def Let_def set_counter_def split: if_splits)
  then show ?thesis
    using within_limits_after [OF _ applied] by (simp add: ledger_evolves_def applied)
qed

lemmas ledger_evolves_operations = ledger_evolves_apply [of _ "Reserve kind" for kind, simplified]
  ledger_evolves_apply [of _ "Consume kind" for kind, simplified]
  ledger_evolves_apply [of _ "Release kind" for kind, simplified]

lemma keeps_on_ledger_if:
  assumes "\<And>l. ledger_evolves l (snd (operation l))"
  shows "keeps core_evolves (on_ledger k operation)"
proof -
  have "step_ok core_evolves (on_ledger k operation) c" for c
  proof (cases "find_ledger k c")
    case None
    then show ?thesis by (simp add: step_ok_def on_ledger_def core_history.R_refl)
  next
    case (Some l)
    then have "table_evolves ledger_evolves (co_ledgers c)
        (tbl_adjust k (\<lambda>_. snd (operation l)) (co_ledgers c))"
      using assms by (intro ledger_history.table_evolves_adjust) (simp add: find_ledger_def)
    moreover have "ledgers_within_limits (tbl_adjust k (\<lambda>_. snd (operation l)) (co_ledgers c))"
      if "ledgers_within_limits (co_ledgers c)"
      using that Some assms [of l]
      by (auto simp: ledgers_within_limits_def tbl.find_adjust find_ledger_def ledger_evolves_def)
    ultimately show ?thesis
      using Some by (auto simp: step_ok_def on_ledger_def evolves_simps split: prod.splits)
  qed
  then show ?thesis by (simp add: keeps_def)
qed

lemmas keeps_on_ledger = ledger_evolves_operations [THEN keeps_on_ledger_if]

lemma lineage_insert_evolves:
  "table_evolves node_evolves g (snd (lineage_insert n g))"
  "lineage_inv g \<Longrightarrow> lineage_inv (snd (lineage_insert n g))"
proof -
  show "table_evolves node_evolves g (snd (lineage_insert n g))"
    by (auto simp: lineage_insert_def node_history.table_evolves_emplace split: sum.splits option.splits)
  show "lineage_inv g \<Longrightarrow> lineage_inv (snd (lineage_insert n g))"
    by (rule lineage_insert_inv)
qed

lemma keeps_on_lineage: "keeps core_evolves (on_lineage (lineage_insert n))"
  unfolding keeps_def step_ok_def on_lineage_def
proof
  fix c
  show "core_evolves c (snd (case lineage_insert n (co_lineage c) of (st, g) \<Rightarrow> (st, c\<lparr>co_lineage := g\<rparr>)))"
    using lineage_insert_evolves [where g = "co_lineage c" and n = n]
    by (auto simp: evolves_simps split: prod.splits)
qed

section \<open>Transitions\<close>

lemma legal_step:
  "candidate_transition_is_legal s t \<Longrightarrow> candidate_transition_is_legal\<^sup>*\<^sup>* s t"
  "population_transition_is_legal s' t' \<Longrightarrow> population_transition_is_legal\<^sup>*\<^sup>* s' t'"
  by blast+

lemmas record_evolves = cand_evolves_def cand_identity_def pop_evolves_def pop_contract_def
  att_evolves_def att_identity_def legal_step

lemma step_set_candidate_state: "step_ok core_evolves (set_candidate_state k target reason) s"
  unfolding set_candidate_state_def flatten_simps
  by (intro core_history.step_structure)
    (auto intro!: core_history.step_leaves step_write_candidate simp: record_evolves)

lemma step_set_population_state: "step_ok core_evolves (set_population_state k target detail) s"
  unfolding set_population_state_def flatten_simps
  by (intro core_history.step_structure)
    (auto intro!: core_history.step_leaves step_write_population simp: record_evolves)

lemma keeps_transitions:
  "keeps core_evolves (set_candidate_state k target reason)"
  "keeps core_evolves (set_population_state p goal detail)"
  by (simp_all add: keeps_def step_set_candidate_state step_set_population_state)

text \<open>An attempt may be written while it is not terminal, towards a state of no lower rank.\<close>

definition attempt_may_become :: "attempt_id \<Rightarrow> attempt_state \<Rightarrow> foundry_core \<Rightarrow> bool" where
  "attempt_may_become k target c \<longleftrightarrow>
    (\<forall>a. find_attempt k c = Some a \<longrightarrow> att_state a = target \<or>
      \<not> attempt_state_is_terminal (att_state a) \<and> attempt_rank (att_state a) \<le> attempt_rank target)"

definition attempt_moved :: "attempt_state \<Rightarrow> string \<Rightarrow> coordinator_epoch \<Rightarrow> attempt_record \<Rightarrow> attempt_record" where
  "attempt_moved target detail epoch a =
    (let a' = a\<lparr>att_state := target, att_failure_detail := detail\<rparr> in
     if attempt_state_is_terminal target then a'\<lparr>att_terminal_epoch := epoch\<rparr> else a')"

lemma set_attempt_state_effect:
  "snd (set_attempt_state k target detail c) =
    (case find_attempt k c of
       None \<Rightarrow> c
     | Some a \<Rightarrow>
       if att_state a = target then c
       else if attempt_state_is_terminal (att_state a) \<and> \<not> attempt_state_is_terminal target
         then co_statistics_update (st_illegal_transition_rejections_update (\<lambda>n. n + 1)) c
       else (co_attempts_update (tbl_adjust k (attempt_moved target detail (co_epoch c))) c)
              \<lparr>co_revision := co_revision c + 1\<rparr>)"
proof (cases "find_attempt k c")
  case None
  then show ?thesis by (simp add: set_attempt_state_def readA_apply)
next
  case (Some a)
  have written: "thenA (write_attempt k f) n c = n (co_attempts_update (tbl_adjust k f) c)" for f n c
    by (simp add: write_attempt_def thenA_modify)
  show ?thesis
    unfolding set_attempt_state_def readA_apply Some if_found_simps
    by (cases "attempt_state_is_terminal target")
      (simp_all add: refuse_in_result written touch_result thenA_modify tbl_adjust_twice
         attempt_moved_def [abs_def] comp_def Let_def thenA_OK [OF touch_result])
qed

lemma step_set_attempt_state:
  assumes "attempt_may_become k target s"
  shows "step_ok core_evolves (set_attempt_state k target detail) s"
proof (cases "find_attempt k s")
  case None
  then show ?thesis
    by (simp add: step_ok_def set_attempt_state_effect core_history.R_refl)
next
  case (Some a)
  have "table_evolves att_evolves (co_attempts s)
      (tbl_adjust k (attempt_moved target detail (co_epoch s)) (co_attempts s))"
    if "att_state a \<noteq> target"
    using assms Some that
    by (intro att_history.table_evolves_adjust)
      (auto simp: attempt_may_become_def find_attempt_def record_evolves attempt_moved_def Let_def)
  moreover have "att_id (attempt_moved target detail e b) = att_id b" for e b
    by (simp add: attempt_moved_def Let_def)
  ultimately show ?thesis
    using Some by (simp add: step_ok_def set_attempt_state_effect evolves_simps keyed_adjust)
qed

text \<open>Releasing the reservations of an attempt leaves the states of all attempts as they are.\<close>

definition same_attempt_states :: "foundry_core \<Rightarrow> foundry_core \<Rightarrow> bool" where
  "same_attempt_states c c' \<longleftrightarrow>
    (\<forall>k. map_option att_state (find_attempt k c') = map_option att_state (find_attempt k c))"

interpretation attempt_states: bookkeeping_two_state same_attempt_states
  by unfold_locales (simp_all add: same_attempt_states_def find_attempt_def)

lemma on_ledger_attempts: "co_attempts (snd (on_ledger p operation c)) = co_attempts c"
  by (simp add: on_ledger_def split: option.splits prod.splits)

lemma attempts_on_ledger: "keeps same_attempt_states (on_ledger p operation)"
  by (simp add: keeps_def step_ok_def same_attempt_states_def find_attempt_def on_ledger_attempts)

lemma states_write_hold:
  "keeps same_attempt_states (write_attempt k (\<lambda>a. a\<lparr>att_holds_reservation := b\<rparr>))"
  unfolding write_attempt_def
  by (rule attempt_states.keeps_modify)
    (simp add: same_attempt_states_def find_attempt_def tbl.find_adjust option.map_comp comp_def)

lemma states_release: "keeps same_attempt_states (release_attempt_reservations k)"
  unfolding release_attempt_reservations_def
  by (intro attempt_states.keeps_structure attempts_on_ledger states_write_hold)

definition attempt_open :: "attempt_id \<Rightarrow> foundry_core \<Rightarrow> bool" where
  "attempt_open k c \<longleftrightarrow>
    (\<forall>a. find_attempt k c = Some a \<longrightarrow> \<not> attempt_state_is_terminal (att_state a))"

lemma attempt_open_same: "same_attempt_states c c' \<Longrightarrow> attempt_open k c \<Longrightarrow> attempt_open k c'"
  unfolding same_attempt_states_def attempt_open_def
  by (metis (no_types, lifting) map_option_eq_Some option.inject)

lemma rank_terminal: "attempt_state_is_terminal t \<Longrightarrow> attempt_rank s \<le> attempt_rank t"
  by (cases t; cases s) (simp_all add: attempt_state_is_terminal_def)

lemma attempt_open_may_end:
  "attempt_open k c \<Longrightarrow> attempt_state_is_terminal target \<Longrightarrow> attempt_may_become k target c"
  by (simp add: attempt_open_def attempt_may_become_def rank_terminal)

lemma keeps_write_hold: "keeps core_evolves (write_attempt k (\<lambda>a. a\<lparr>att_holds_reservation := False\<rparr>))"
  by (simp add: keeps_def step_write_attempt record_evolves)

lemma keeps_release: "keeps core_evolves (release_attempt_reservations k)"
  unfolding release_attempt_reservations_def
  by (intro core_history.keeps_structure keeps_on_ledger keeps_write_hold)

text \<open>How an attempt ends: its reservations are released and it moves to a terminal state.\<close>

lemma step_end_attempt:
  assumes "attempt_open k s" and "attempt_state_is_terminal target" and "\<And>s. step_ok core_evolves n s"
  shows "step_ok core_evolves
    (thenA (release_attempt_reservations k) (thenA (set_attempt_state k target detail) n)) s"
proof (rule core_history.step_then)
  show "step_ok core_evolves (release_attempt_reservations k) s"
    by (intro core_history.step_keeps keeps_release)
next
  fix s' assume "release_attempt_reservations k s = (OK, s')"
  then have "same_attempt_states s s'"
    using states_release [of k] by (auto simp: keeps_def step_ok_def dest!: spec [of _ s])
  then have "attempt_may_become k target s'"
    using assms(1,2) attempt_open_same attempt_open_may_end by blast
  then show "step_ok core_evolves (thenA (set_attempt_state k target detail) n) s'"
    by (rule core_history.step_then [OF step_set_attempt_state assms(3)])
qed

section \<open>The operations\<close>

lemma keeps_settle_attempt: "keeps core_evolves (settle_attempt candidate k)"
proof -
  have "step_ok core_evolves (settle_attempt candidate k) s" for s
    unfolding settle_attempt_def
  proof (intro core_history.step_read core_history.step_if_found core_history.step_if
      core_history.step_when, goal_cases)
    case (2 a)
    then have "attempt_may_become k AS_Completed s"
      by (auto simp: attempt_may_become_def attempt_state_is_terminal_def)
    then have "step_ok core_evolves (ignoreA (set_attempt_state k AS_Completed d)) s" for d
      using step_set_attempt_state [of k AS_Completed s d] by (simp add: step_ok_def ignoreA_apply)
    then show ?case
      by (rule core_history.step_then)
        (intro core_history.step_keeps core_history.keeps_structure keeps_release)
  qed (intro core_history.step_leaves)
  then show ?thesis by (simp add: keeps_def)
qed

lemma keeps_settle_candidate: "keeps core_evolves (settle_candidate k)"
  unfolding settle_candidate_def
  by (intro core_history.keeps_structure keeps_transitions keeps_settle_attempt)

lemma keeps_move_candidate_from: "keeps core_evolves (move_candidate_from sources k target reason)"
  unfolding move_candidate_from_def by (intro core_history.keeps_structure keeps_transitions)

lemma keeps_free_worker_of: "keeps core_evolves (free_worker_of att k)"
  unfolding free_worker_of_def by (intro core_history.keeps_structure keeps_write_worker) simp

lemma keeps_validate_worker_session: "keeps core_evolves (validate_worker_session session)"
  unfolding validate_worker_session_def by (intro core_history.keeps_structure)

lemma keeps_validate_worker_operation: "keeps core_evolves (validate_worker_operation authority)"
  unfolding validate_worker_operation_def
  by (intro core_history.keeps_structure keeps_validate_worker_session)

lemma keeps_bump_population_generation: "keeps core_evolves (bump_population_generation p)"
  unfolding bump_population_generation_def by (intro keeps_write_population) (simp add: record_evolves)

lemma keeps_identity_or_fresh: "keeps core_evolves (identity_or_fresh kind k)"
  unfolding identity_or_fresh_def by (intro core_history.keeps_structure keeps_allocate)

lemma keeps_create_population: "keeps core_evolves (create_population spec)"
  unfolding create_population_def
  by (intro core_history.keeps_structure keeps_allocate keeps_emplace) (simp add: population_from_spec_def)

lemma keeps_close_population: "keeps core_evolves (close_population p)"
  unfolding close_population_def
  by (intro core_history.keeps_structure keeps_transitions keeps_bump_population_generation
      keeps_write_population) (simp_all add: record_evolves)

lemma keeps_add_candidate_to:
  "keeps core_evolves (write_population p (\<lambda>r. r\<lparr>pop_candidates := pop_candidates r @ [k]\<rparr>))"
  by (intro keeps_write_population) (simp add: record_evolves)

lemma keeps_add_elite_candidate: "keeps core_evolves (add_elite_candidate p winner)"
  unfolding add_elite_candidate_def Let_def
  by (intro core_history.keeps_structure keeps_on_ledger keeps_allocate keeps_on_lineage
      keeps_add_candidate_to keeps_emplace) (simp add: elite_candidate_def)

lemma keeps_define_task: "keeps core_evolves (define_task spec)"
  unfolding define_task_def Let_def
  by (intro core_history.keeps_structure keeps_identity_or_fresh keeps_emplace) simp

lemma keeps_define_policy: "keeps core_evolves (define_policy policy)"
  unfolding define_policy_def Let_def
  by (intro core_history.keeps_structure keeps_identity_or_fresh keeps_emplace) simp

lemma keeps_start_population: "keeps core_evolves (start_population p g)"
  unfolding start_population_def
  by (intro core_history.keeps_structure keeps_transitions keeps_bump_population_generation)

lemma keeps_cancel_open_attempt: "keeps core_evolves (cancel_open_attempt p reason k)"
proof -
  have "step_ok core_evolves (cancel_open_attempt p reason k) s" for s
    unfolding cancel_open_attempt_def flatten_simps
    by (intro core_history.step_read core_history.step_if_found core_history.step_if
        step_end_attempt core_history.step_keeps core_history.keeps_structure
        keeps_move_candidate_from keeps_free_worker_of)
      (auto simp: attempt_open_def attempt_state_is_terminal_def)
  then show ?thesis by (simp add: keeps_def)
qed

lemma keeps_cancel_population: "keeps core_evolves (cancel_population p g reason)"
  unfolding cancel_population_def
  by (intro core_history.keeps_structure keeps_cancel_open_attempt keeps_transitions
      keeps_bump_population_generation)

lemma keeps_request_population_revalidation: "keeps core_evolves (request_population_revalidation p reason)"
  unfolding request_population_revalidation_def
  by (intro core_history.keeps_structure keeps_transitions keeps_move_candidate_from
      keeps_bump_population_generation)

lemma keeps_revalidate_population: "keeps core_evolves (revalidate_population p g detail)"
  unfolding revalidate_population_def revalidate_candidate_def
  by (intro core_history.keeps_structure keeps_transitions keeps_settle_candidate
      keeps_bump_population_generation)

lemma gen_next_less: "gen_next g = Some g' \<Longrightarrow> g < g'"
  by (auto simp: gen_next_def less_generation_def u32_inc split: if_splits)

lemma keeps_revise_task: "keeps core_evolves (revise_task k replacement)"
proof -
  have adjust: "step_ok core_evolves (modifyA (\<lambda>c. c\<lparr>co_tasks := tbl_adjust k (\<lambda>_. t') (co_tasks c)\<rparr>)) s"
    if "find_task k s = Some t" and "task_gen t < task_gen t'" and "task_id_of t' = k" for s t t'
  proof -
    have "table_evolves task_evolves (co_tasks s) (tbl_adjust k (\<lambda>_. t') (co_tasks s))"
      using that by (intro task_history.table_evolves_adjust) (simp add: find_task_def task_evolves_def)
    moreover have "keyed task_id_of (tbl_adjust k (\<lambda>_. t') (co_tasks s))" if "keyed task_id_of (co_tasks s)"
      by (rule keyed_adjust) (use that \<open>task_id_of t' = k\<close> in \<open>auto dest: keyedD\<close>)
    ultimately show ?thesis by (simp add: step_ok_def evolves_simps)
  qed
  have "step_ok core_evolves (revise_task k replacement) s" for s
    unfolding revise_task_def Let_def
  proof (intro core_history.step_read core_history.step_found_or core_history.step_check_then, goal_cases)
    case (1 t g)
    show ?case
    proof (rule core_history.step_bind, goal_cases)
      case 1
      show ?case by (intro core_history.step_keeps core_history.keeps_check)
    next
      case (2 digest s')
      then have "s' = s" by simp
      then show ?case
        unfolding flatten_simps
        using 1 by (intro core_history.step_then adjust) (auto intro!: core_history.step_leaves dest: gen_next_less)
    qed
  qed
  then show ?thesis by (simp add: keeps_def)
qed

lemma keeps_revise_policy: "keeps core_evolves (revise_policy k replacement)"
proof -
  have adjust: "step_ok core_evolves (modifyA (\<lambda>c. c\<lparr>co_policies := tbl_adjust k (\<lambda>_. p') (co_policies c)\<rparr>)) s"
    if "find_policy k s = Some p" and "pol_gen p < pol_gen p'" and "pol_id p' = k" for s p p'
  proof -
    have "table_evolves policy_evolves (co_policies s) (tbl_adjust k (\<lambda>_. p') (co_policies s))"
      using that by (intro policy_history.table_evolves_adjust) (simp add: find_policy_def policy_evolves_def)
    moreover have "keyed pol_id (tbl_adjust k (\<lambda>_. p') (co_policies s))" if "keyed pol_id (co_policies s)"
      by (rule keyed_adjust) (use that \<open>pol_id p' = k\<close> in \<open>auto dest: keyedD\<close>)
    ultimately show ?thesis by (simp add: step_ok_def evolves_simps)
  qed
  have "step_ok core_evolves (revise_policy k replacement) s" for s
    unfolding revise_policy_def Let_def
  proof (intro core_history.step_read core_history.step_found_or core_history.step_check_then, goal_cases)
    case (1 p g)
    show ?case
    proof (rule core_history.step_bind, goal_cases)
      case 1
      show ?case by (intro core_history.step_keeps core_history.keeps_check)
    next
      case (2 digest s')
      then have "s' = s" by simp
      then show ?case
        unfolding flatten_simps
        using 1 by (intro core_history.step_then adjust) (auto intro!: core_history.step_leaves dest: gen_next_less)
    qed
  qed
  then show ?thesis by (simp add: keeps_def)
qed

lemma keeps_lose_attempt: "keeps core_evolves (lose_attempt concerned why slot_reason k)"
proof -
  have "step_ok core_evolves (lose_attempt concerned why slot_reason k) s" for s
    unfolding lose_attempt_def flatten_simps
    by (intro core_history.step_read core_history.step_if_found core_history.step_if
        step_end_attempt core_history.step_keeps core_history.keeps_structure
        keeps_move_candidate_from)
      (auto simp: attempt_open_def attempt_state_is_terminal_def)
  then show ?thesis by (simp add: keeps_def)
qed

lemma keeps_register_worker: "keeps core_evolves (register_worker request)"
  unfolding register_worker_def admit_incarnation_def
  by (intro core_history.keeps_structure keeps_emplace keeps_lose_attempt keeps_allocate keeps_write_worker)
    simp_all

lemma keeps_worker_ready: "keeps core_evolves (worker_ready session capability)"
  unfolding worker_ready_def
  by (intro core_history.keeps_structure keeps_validate_worker_session keeps_write_worker) simp

lemma allocate_frame: "allocate kind s = (r, s') \<Longrightarrow> s' = s\<lparr>co_ids := co_ids s'\<rparr>"
  by (auto simp: allocate_def split: prod.splits)

lemma keeps_revalidate_worker: "keeps core_evolves (revalidate_worker session detail)"
proof -
  have "step_ok core_evolves (revalidate_worker session detail) s" for s
    unfolding revalidate_worker_def Let_def flatten_simps
  proof (rule core_history.step_then, goal_cases)
    case 1
    show ?case by (intro core_history.step_keeps keeps_validate_worker_session)
  next
    case (2 s')
    show ?case
    proof (intro core_history.step_read core_history.step_found_or core_history.step_guard_then
        core_history.step_bind, goal_cases)
      case (1 w)
      show ?case by (intro core_history.step_keeps keeps_allocate)
    next
      case (2 w fresh s'')
      then have "find_worker (wsa_worker session) s'' = Some w"
        using allocate_frame [OF 2(3)] by (metis find_worker_def foundry_core.ext_inject foundry_core.surjective foundry_core.update_convs(6))
      then show ?case
        by (intro core_history.step_then step_write_worker) (auto intro!: core_history.step_leaves)
    qed
  qed
  then show ?thesis by (simp add: keeps_def)
qed

lemma keeps_worker_disconnected: "keeps core_evolves (worker_disconnected session reason)"
  unfolding worker_disconnected_def
  by (intro core_history.keeps_structure keeps_validate_worker_session keeps_lose_attempt keeps_write_worker) simp

lemma keeps_reject_worker_session: "keeps core_evolves (reject_worker_session session reason)"
  unfolding reject_worker_session_def
  by (intro core_history.keeps_structure keeps_write_worker) simp

lemma set_attempt_state_reaches:
  assumes "attempt_may_become k target s" and "set_attempt_state k target detail s = (r, s')"
    and "find_attempt k s' = Some a'"
  shows "att_state a' = target"
proof (cases "find_attempt k s")
  case None
  then show ?thesis
    using assms set_attempt_state_effect [of k target detail s] by simp
next
  case (Some a)
  show ?thesis
  proof (cases "att_state a = target")
    case True
    then show ?thesis
      using Some assms(2,3) set_attempt_state_effect [of k target detail s] by simp
  next
    case False
    then have "\<not> attempt_state_is_terminal (att_state a)"
      using Some assms(1) by (simp add: attempt_may_become_def)
    then have "find_attempt k s' = Some (attempt_moved target detail (co_epoch s) a)"
      using Some False assms(2) set_attempt_state_effect [of k target detail s]
      by (simp add: find_attempt_def tbl.find_adjust)
    then show ?thesis
      using assms(3) by (auto simp: attempt_moved_def Let_def)
  qed
qed

lemma keeps_seeded_candidate: "keeps core_evolves (seeded_candidate k pop)"
  unfolding seeded_candidate_def Let_def by (intro core_history.keeps_structure keeps_allocate)

lemma seeded_candidate_names: "seeded_candidate k pop s = (Inr cand, s') \<Longrightarrow> cand_id cand = k"
  by (auto simp: seeded_candidate_def readA_apply Let_def retA_def found_or_def failA_def
      split: if_splits option.splits elim!: bindA_success thenA_success)

lemma keeps_create_slot: "keeps core_evolves (create_slot p)"
proof -
  have "step_ok core_evolves (create_slot p) s" for s
    unfolding create_slot_def Let_def
  proof (intro core_history.step_read core_history.step_found_or core_history.step_bind, goal_cases)
    case (1 pop)
    show ?case by (intro core_history.step_keeps keeps_allocate)
  next
    case (2 pop k s')
    show ?case by (intro core_history.step_keeps keeps_seeded_candidate)
  next
    case (3 pop k s' cand s'')
    then have "cand_id cand = k"
      by (blast intro: seeded_candidate_names)
    then show ?case
      by (intro core_history.step_keeps core_history.keeps_structure keeps_on_lineage
          keeps_add_candidate_to keeps_emplace) simp
  qed
  then show ?thesis by (simp add: keeps_def)
qed

lemma keeps_choose_slot: "keeps core_evolves (choose_slot p)"
  unfolding choose_slot_def
  by (intro core_history.keeps_structure keeps_on_ledger keeps_create_slot)

lemma keeps_reserve_for_attempt: "keeps core_evolves (reserve_for_attempt p is_retry)"
  unfolding reserve_for_attempt_def Let_def by (intro core_history.keeps_structure keeps_on_ledger)

lemma keeps_open_attempt: "keeps core_evolves (open_attempt session p slot)"
  unfolding open_attempt_def Let_def
  by (intro core_history.keeps_structure keeps_allocate keeps_transitions keeps_emplace
      keeps_write_candidate keeps_write_worker)
    (simp_all add: record_evolves new_attempt_def new_assignment_def)

lemma keeps_authorize_in: "keeps core_evolves (authorize_in session p)"
  unfolding authorize_in_def Let_def
  by (intro core_history.keeps_structure keeps_choose_slot keeps_reserve_for_attempt keeps_open_attempt)

lemma keeps_authorize_over: "keeps core_evolves (authorize_over session ps)"
proof (induction ps)
  case Nil
  show ?case unfolding authorize_over.simps by (intro core_history.keeps_structure)
next
  case (Cons p ps)
  show ?case
    unfolding authorize_over.simps
    by (intro core_history.keeps_structure keeps_authorize_in Cons.IH)
qed

lemma keeps_authorize_attempt: "keeps core_evolves (authorize_attempt session)"
  unfolding authorize_attempt_def
  by (intro core_history.keeps_structure keeps_validate_worker_session keeps_authorize_over)

text \<open>The forward moves of an attempt: its state at the time of the move allows it.\<close>

lemma step_move_attempt:
  assumes "find_attempt k s = Some a" and "\<not> attempt_state_is_terminal (att_state a)"
    and "attempt_rank (att_state a) \<le> attempt_rank target"
  shows "step_ok core_evolves (set_attempt_state k target detail) s"
  using assms by (intro step_set_attempt_state) (simp add: attempt_may_become_def)

lemma keeps_confirm_dispatch: "keeps core_evolves (confirm_dispatch session k g)"
proof -
  have "step_ok core_evolves (confirm_dispatch session k g) s" for s
    unfolding confirm_dispatch_def flatten_simps
  proof (rule core_history.step_then, goal_cases)
    case 1
    show ?case by (intro core_history.step_keeps keeps_validate_worker_session)
  next
    case (2 s1)
    show ?case
    proof (intro core_history.step_read core_history.step_found_or core_history.step_guard_then
        core_history.step_check_then, goal_cases)
      case (1 a pop t)
      then have may: "attempt_may_become k AS_Dispatched s1"
        by (simp add: attempt_may_become_def attempt_state_is_terminal_def)
      show ?case
      proof (rule core_history.step_then [OF step_set_attempt_state [OF may]])
        fix s2 assume moved: "set_attempt_state k AS_Dispatched
          ''assignment frame durably recorded as sent'' s1 = (OK, s2)"
        have "step_ok core_evolves (write_attempt k (\<lambda>a. a\<lparr>att_dispatched_epoch := co_epoch s1\<rparr>)) s2"
          using set_attempt_state_reaches [OF may moved]
          by (intro step_write_attempt) (simp add: record_evolves attempt_state_is_terminal_def)
        then show "step_ok core_evolves (thenA (write_attempt k (\<lambda>a. a\<lparr>att_dispatched_epoch := co_epoch s1\<rparr>))
            (retA (package_for a pop t s1))) s2"
          by (rule core_history.step_then) (intro core_history.step_leaves)
      qed
    qed
  qed
  then show ?thesis by (simp add: keeps_def)
qed

lemma keeps_abandon_dispatch: "keeps core_evolves (abandon_dispatch session k reason)"
proof -
  have "step_ok core_evolves (abandon_dispatch session k reason) s" for s
    unfolding abandon_dispatch_def flatten_simps
  proof (rule core_history.step_then, goal_cases)
    case 1
    show ?case by (intro core_history.step_keeps keeps_validate_worker_session)
  next
    case (2 s1)
    show ?case
      by (intro core_history.step_read core_history.step_found_or core_history.step_guard_then
          step_end_attempt core_history.step_keeps core_history.keeps_structure
          keeps_move_candidate_from keeps_free_worker_of)
        (auto simp: attempt_open_def attempt_state_is_terminal_def)
  qed
  then show ?thesis by (simp add: keeps_def)
qed

lemma keeps_acknowledge_attempt: "keeps core_evolves (acknowledge_attempt authority)"
proof -
  have "step_ok core_evolves (acknowledge_attempt authority) s" for s
    unfolding acknowledge_attempt_def flatten_simps
  proof (rule core_history.step_then, goal_cases)
    case 1
    show ?case by (intro core_history.step_keeps keeps_validate_worker_operation)
  next
    case (2 s1)
    show ?case
    proof (intro core_history.step_read core_history.step_found_or core_history.step_if, goal_cases)
      case (3 a)
      show ?case
        by (rule core_history.step_then [OF step_move_attempt])
          (use 3 in \<open>auto simp: attempt_state_is_terminal_def
             intro!: core_history.step_keeps core_history.keeps_structure keeps_acknowledge\<close>)
    qed (intro core_history.step_leaves)+
  qed
  then show ?thesis by (simp add: keeps_def)
qed

lemma attempt_may_become_same:
  assumes "same_attempt_states c c'" and "attempt_may_become k target c"
  shows "attempt_may_become k target c'"
  unfolding attempt_may_become_def
proof (intro allI impI)
  fix a' assume "find_attempt k c' = Some a'"
  then obtain a where "find_attempt k c = Some a" "att_state a = att_state a'"
    using assms(1) by (metis (no_types, lifting) map_option_eq_Some same_attempt_states_def)
  then show "att_state a' = target \<or> \<not> attempt_state_is_terminal (att_state a') \<and>
      attempt_rank (att_state a') \<le> attempt_rank target"
    using assms(2) by (auto simp: attempt_may_become_def)
qed

lemma step_then_same:
  assumes "keeps core_evolves m" and "keeps same_attempt_states m" and "attempt_may_become k target s"
    and "\<And>s'. attempt_may_become k target s' \<Longrightarrow> step_ok core_evolves n s'"
  shows "step_ok core_evolves (thenA m n) s"
proof (rule core_history.step_then)
  show "step_ok core_evolves m s"
    using assms(1) by (rule core_history.step_keeps)
next
  fix s' assume "m s = (OK, s')"
  then have "same_attempt_states s s'"
    using assms(2) by (auto simp: keeps_def step_ok_def dest!: spec [of _ s])
  then show "step_ok core_evolves n s'"
    using assms(3,4) attempt_may_become_same by blast
qed

lemma states_write_candidate: "keeps same_attempt_states (write_candidate k f)"
  by (simp add: keeps_def step_ok_def write_candidate_def same_attempt_states_def find_attempt_def)

lemma states_set_candidate_state: "keeps same_attempt_states (set_candidate_state k target reason)"
  unfolding set_candidate_state_def
  by (intro attempt_states.keeps_structure states_write_candidate)

lemma keeps_spend_attempt: "keeps core_evolves (spend_attempt p k att)"
  unfolding spend_attempt_def
  by (intro core_history.keeps_structure keeps_on_ledger keeps_write_hold)

lemma keeps_publish_candidate: "keeps core_evolves (publish_candidate authority artifacts strategy)"
proof -
  have "step_ok core_evolves (publish_candidate authority artifacts strategy) s" for s
    unfolding publish_candidate_def flatten_simps
  proof (rule core_history.step_then, goal_cases)
    case 1
    show ?case by (intro core_history.step_keeps keeps_validate_worker_operation)
  next
    case (2 s1)
    show ?case
    proof (intro core_history.step_read core_history.step_found_or core_history.step_if
        core_history.step_check_then, goal_cases)
      case (5 a cand pop t)
      then have may: "attempt_may_become (woa_attempt authority) AS_Published s1"
        by (auto simp: attempt_may_become_def)
      show ?case
        by (rule step_then_same [OF keeps_write_candidate states_write_candidate may],
            simp add: record_evolves with_output_def,
            rule step_then_same [OF keeps_transitions(1) states_set_candidate_state], assumption,
            rule core_history.step_then [OF step_set_attempt_state], assumption)
          (intro core_history.step_keeps core_history.keeps_structure keeps_spend_attempt
             keeps_write_worker keeps_transitions, simp)
    qed (intro core_history.step_leaves)+
  qed
  then show ?thesis by (simp add: keeps_def)
qed

lemma keeps_report_attempt_failure: "keeps core_evolves (report_attempt_failure authority reason)"
proof -
  have "step_ok core_evolves (report_attempt_failure authority reason) s" for s
    unfolding report_attempt_failure_def flatten_simps
  proof (rule core_history.step_then, goal_cases)
    case 1
    show ?case by (intro core_history.step_keeps keeps_validate_worker_operation)
  next
    case (2 s1)
    show ?case
    proof (intro core_history.step_read core_history.step_found_or core_history.step_if, goal_cases)
      case (2 a)
      then show ?case
        by (intro step_end_attempt core_history.step_keeps core_history.keeps_structure
            keeps_transitions keeps_write_worker)
          (auto simp: attempt_open_def attempt_state_is_terminal_def)
    qed (intro core_history.step_leaves)
  qed
  then show ?thesis by (simp add: keeps_def)
qed

lemma keeps_enter_evaluation: "keeps core_evolves (enter_evaluation candidate k)"
proof -
  have "step_ok core_evolves (enter_evaluation candidate k) s" for s
    unfolding enter_evaluation_def
    by (intro core_history.step_read core_history.step_if_found core_history.step_if
        core_history.step_keeps [OF core_history.keeps_ret] step_move_attempt)
      (auto simp: attempt_state_is_terminal_def)
  then show ?thesis by (simp add: keeps_def)
qed

lemma keeps_begin_evaluation: "keeps core_evolves (begin_evaluation k)"
  unfolding begin_evaluation_def
  by (intro core_history.keeps_structure keeps_transitions keeps_enter_evaluation)

lemma keeps_record_evaluation: "keeps core_evolves (record_evaluation r)"
  unfolding record_evaluation_def Let_def
  by (intro core_history.keeps_structure keeps_identity_or_fresh keeps_emplace keeps_settle_candidate)
    (simp add: bound_evaluation_def)

lemma keeps_cancel_attempt: "keeps core_evolves (cancel_attempt k reason)"
proof -
  have "step_ok core_evolves (cancel_attempt k reason) s" for s
    unfolding cancel_attempt_def flatten_simps
    by (intro core_history.step_read core_history.step_found_or core_history.step_if
        step_end_attempt core_history.step_keeps core_history.keeps_structure
        keeps_move_candidate_from keeps_free_worker_of)
      (auto simp: attempt_open_def attempt_state_is_terminal_def)
  then show ?thesis by (simp add: keeps_def)
qed

lemma keeps_force_attempt_outcome_unknown: "keeps core_evolves (force_attempt_outcome_unknown k reason)"
proof -
  have "step_ok core_evolves (force_attempt_outcome_unknown k reason) s" for s
    unfolding force_attempt_outcome_unknown_def flatten_simps
    by (intro core_history.step_read core_history.step_found_or core_history.step_guard_then
        step_end_attempt core_history.step_keeps core_history.keeps_structure keeps_move_candidate_from)
      (auto simp: attempt_open_def attempt_state_is_terminal_def)
  then show ?thesis by (simp add: keeps_def)
qed

lemma keeps_prepare_selection: "keeps core_evolves (prepare_selection shortest p)"
  unfolding prepare_selection_def Let_def
  by (intro core_history.keeps_structure keeps_decisions keeps_transitions)

lemma keeps_commit_selection: "keeps core_evolves (commit_selection shortest prepared)"
  unfolding commit_selection_def crown_winner_def clear_other_winner_def Let_def
  by (intro core_history.keeps_structure keeps_decisions keeps_transitions keeps_move_candidate_from
      keeps_write_candidate keeps_write_population) (simp_all add: record_evolves)

lemma keeps_prepare_retention: "keeps core_evolves (prepare_retention shortest p)"
  unfolding prepare_retention_def Let_def
  by (intro core_history.keeps_structure keeps_decisions)

lemma keeps_commit_retention: "keeps core_evolves (commit_retention shortest prepared)"
  unfolding commit_retention_def mark_retained_def retire_released_def Let_def
  by (intro core_history.keeps_structure keeps_decisions keeps_transitions
      keeps_write_candidate keeps_write_population) (simp_all add: record_evolves)

lemma keeps_prepare_promotion_request: "keeps core_evolves (prepare_promotion_request shortest p)"
  unfolding prepare_promotion_request_def Let_def
  by (intro core_history.keeps_structure keeps_allocate keeps_decisions keeps_write_population)
    (simp add: record_evolves)

lemma keeps_record_promotion_receipt: "keeps core_evolves (record_promotion_receipt k receipt)"
  unfolding record_promotion_receipt_def by (intro core_history.keeps_structure)

lemma keeps_advance_population: "keeps core_evolves (advance_population p next_name)"
  unfolding advance_population_def
  by (intro core_history.keeps_structure keeps_create_population keeps_add_elite_candidate
      keeps_close_population)

end
