(* ===== verification/Reference_Task.thy ===== *)
theory Reference_Task
  imports Task Worker
begin

text \<open>
  The reference task (reference_task.hpp, reference_task.cpp): the contract it asks for, the
  candidate implementations the reference worker produces, the expected value.

  The candidates are C++ text. What their functions compute is modelled beside the text, so that
  the claims of the file about them can be stated.
\<close>

section \<open>The texts\<close>

definition kReferenceTaskApiName :: string where "kReferenceTaskApiName = ''af_reference_sum_of_squares''"
definition kReferenceTaskSourceArtifact :: string where "kReferenceTaskSourceArtifact = ''solution.cpp''"
definition kReferenceTaskHeaderArtifact :: string where "kReferenceTaskHeaderArtifact = ''af_reference.hpp''"
definition kEvaluatorCompileAndRun :: string where "kEvaluatorCompileAndRun = ''compile-and-run''"
definition kEvaluatorSourcePolicy :: string where "kEvaluatorSourcePolicy = ''source-policy''"
definition kEvaluatorPerformance :: string where "kEvaluatorPerformance = ''performance''"
definition kEvaluatorParsimony :: string where "kEvaluatorParsimony = ''parsimony''"

definition kApiHeader :: string where \<open>kApiHeader =
''#pragma once

#include <cstdint>

// Returns sum(i * i for i in 1..n), computed with wrapping 64-bit arithmetic:
// the accumulation is performed on std::uint64_t, so a result that would exceed
// 2^64 - 1 wraps modulo 2^64 exactly as the accumulation loop does.
//
// n == 0 must return 0.
//
// The definition must live in the global namespace with exactly this name,
// because the conformance harness links against this declaration.
std::uint64_t af_reference_sum_of_squares(std::uint32_t n);
''\<close>

definition kClosedFormSolution :: string where \<open>kClosedFormSolution =
''#include "af_reference.hpp"

std::uint64_t af_reference_sum_of_squares(std::uint32_t n) {
  // Closed form n * (n + 1) * (2n + 1) / 6. The division is performed on the
  // factors before multiplying so that the result is exact for every input and
  // the final multiply wraps exactly like the accumulation loop would.
  std::uint64_t a = static_cast<std::uint64_t>(n);
  std::uint64_t b = static_cast<std::uint64_t>(n) + 1ull;
  std::uint64_t c = 2ull * static_cast<std::uint64_t>(n) + 1ull;

  if ((a % 2ull) == 0ull) {
    a /= 2ull;
  } else {
    b /= 2ull;
  }
  if ((a % 3ull) == 0ull) {
    a /= 3ull;
  } else if ((b % 3ull) == 0ull) {
    b /= 3ull;
  } else {
    c /= 3ull;
  }
  return a * b * c;
}
''\<close>

definition kIterativeSolution :: string where \<open>kIterativeSolution =
''#include "af_reference.hpp"

std::uint64_t af_reference_sum_of_squares(std::uint32_t n) {
  // Correct, but linear in n: the foundry should rank this below the closed
  // form on the measured performance factor while still accepting it.
  std::uint64_t total = 0;
  for (std::uint64_t value = 1; value <= static_cast<std::uint64_t>(n); ++value) {
    total += value * value;
  }
  return total;
}
''\<close>

definition kOffByOneSolution :: string where \<open>kOffByOneSolution =
''#include "af_reference.hpp"

std::uint64_t af_reference_sum_of_squares(std::uint32_t n) {
  // Subtly wrong: the final term is dropped, so every non-zero input is
  // rejected by the conformance harness.
  std::uint64_t total = 0;
  for (std::uint64_t value = 1; value < static_cast<std::uint64_t>(n); ++value) {
    total += value * value;
  }
  return total;
}
''\<close>

definition kSelfReportedSolution :: string where \<open>kSelfReportedSolution =
''#include "af_reference.hpp"

std::uint64_t af_reference_sum_of_squares(std::uint32_t n) {
  // Subtly wrong in a different way from the off-by-one variant: the first
  // term is dropped. A worker using this strategy additionally reports
  // unconditional success, which is exactly the situation the mandatory
  // compile-and-run gate exists to catch.
  std::uint64_t total = 0;
  for (std::uint64_t value = 2; value <= static_cast<std::uint64_t>(n); ++value) {
    total += value * value;
  }
  return total;
}
''\<close>

definition reference_api_header_source :: string where
  "reference_api_header_source = kApiHeader"

primrec generate_reference_solution :: "reference_strategy \<Rightarrow> string" where
  "generate_reference_solution ST_ClosedForm = kClosedFormSolution"
| "generate_reference_solution ST_Iterative = kIterativeSolution"
| "generate_reference_solution ST_OffByOne = kOffByOneSolution"
| "generate_reference_solution ST_SelfReportedPass = kSelfReportedSolution"

section \<open>The contract\<close>

definition default_requirement :: evaluation_requirement where
  "default_requirement =
    \<lparr>req_class = RC_Mandatory, req_key = [], req_description = [], req_has_score_floor = False,
     req_score_floor = b64_zero, req_ranking_weight = Binary64 0x3FF0000000000000\<rparr>"

definition reference_requirements :: "evaluation_requirement list" where
  "reference_requirements =
    [default_requirement\<lparr>req_class := RC_Mandatory, req_key := kEvaluatorCompileAndRun,
       req_description := ''Compile the candidate against the fixed conformance harness and run it. ''
         @ ''The process must exit with status 0 and report AF_REFERENCE_OK.''\<rparr>,
     default_requirement\<lparr>req_class := RC_Mandatory, req_key := kEvaluatorSourcePolicy,
       req_description := ''Static policy over the candidate source: the required symbol must be defined and ''
         @ ''no forbidden construct may appear.''\<rparr>,
     default_requirement\<lparr>req_class := RC_Optional, req_key := kEvaluatorPerformance,
       req_description := ''Measured calls per second of the reference workload. Real elapsed time, not an estimate.''\<rparr>,
     default_requirement\<lparr>req_class := RC_Optional, req_key := kEvaluatorParsimony,
       req_description := ''Reference structural metric: number of identifier-like tokens in the candidate source.''\<rparr>]"

definition reference_task_spec ::
  "task_id \<Rightarrow> policy_id \<Rightarrow> policy_generation \<Rightarrow> budget_limits \<Rightarrow> task_spec" where
  "reference_task_spec k policy policy_gen budgets =
    \<lparr>task_id_of = k, task_gen = gen_first, task_name = ''reference-sum-of-squares'',
     task_objective = ''Produce a single C++20 translation unit named solution.cpp that implements ''
       @ ''af_reference_sum_of_squares exactly as declared in the task input header.'',
     task_inputs = [\<lparr>in_name = kReferenceTaskHeaderArtifact, in_content = reference_api_header_source,
       in_digest = sha256_hex reference_api_header_source\<rparr>],
     task_required_outputs = [kReferenceTaskSourceArtifact],
     task_requirements = reference_requirements,
     task_hard_constraints = [''the candidate must compile with the configured C++20 compiler'',
       ''the candidate must not spawn processes or open sockets''],
     task_closure_criteria = [''every mandatory requirement has a complete authoritative record'',
       ''a selection decision is committed for the population generation''],
     task_policy = policy, task_policy_gen = policy_gen, task_budgets = budgets, task_digest = []\<rparr>"

definition make_reference_task ::
  "task_id \<Rightarrow> policy_id \<Rightarrow> policy_generation \<Rightarrow> u32 \<Rightarrow> budget_limits \<Rightarrow> task_spec result" where
  "make_reference_task k policy policy_gen candidate_budget budgets =
    (case first_failure
        [require (id_valid k) E_NullIdentity, require (id_valid policy) E_NullIdentity,
         require (gen_valid policy_gen) E_InvalidArgument,
         require (candidate_budget \<noteq> 0) E_InvalidArgument] of
      Inl e \<Rightarrow> Inl e
    | Inr _ \<Rightarrow> (case compute_task_digest (reference_task_spec k policy policy_gen budgets) of
        Inl e \<Rightarrow> Inl e
      | Inr digest \<Rightarrow>
          let task = (reference_task_spec k policy policy_gen budgets)\<lparr>task_digest := digest\<rparr>
          in case validate_task task of Inl e \<Rightarrow> Inl e | Inr _ \<Rightarrow> Inr task))"

text \<open>The contract passes the validation of its own kind, whatever the budgets allow.\<close>

lemma reference_task_accepted:
  assumes "id_valid k" and "id_valid policy" and "gen_valid policy_gen" and "candidate_budget \<noteq> 0"
    and "budget_limits_validate budgets = OK"
  shows "\<exists>task. make_reference_task k policy policy_gen candidate_budget budgets = Inr task \<and>
    validate_task task = OK \<and> task_digest task = sha256_hex (encode_task_canonical task)"
proof -
  let ?t = "reference_task_spec k policy policy_gen budgets"
  define d where "d = sha256_hex (encode_task_canonical ?t)"
  have header: "length kApiHeader \<le> 1024"
    by (simp add: kApiHeader_def)
  note name_simps = validate_artifact_name_def kMaxArtifactNameLength_def is_allowed_name_byte_def is_ascii_letter_def
    is_digit_char_def is_reserved_device_name_def kReservedDeviceNames_def lower_char_def
  have inputs: "validate_task_input [] \<lparr>in_name = kReferenceTaskHeaderArtifact, in_content = reference_api_header_source,
       in_digest = sha256_hex reference_api_header_source\<rparr> = OK"
    using header
    by (simp add: validate_task_input_def kMaxInputFileBytes_def kReferenceTaskHeaderArtifact_def reference_api_header_source_def
        name_simps)
  have outputs: "validate_required_output [] kReferenceTaskSourceArtifact = OK"
    by (simp add: validate_required_output_def kReferenceTaskSourceArtifact_def name_simps)
  have weight: "b64_is_finite (Binary64 0x3FF0000000000000)" "\<not> b64_less (Binary64 0x3FF0000000000000) b64_zero"
    by (simp_all add: b64_is_finite_def b64_magnitude_def b64_infinite_magnitude_def b64_zero_def
        b64_less_def b64_key_def b64_sign_def b64_is_nan_def)
  have requirements: "each_with_earlier validate_requirement [] reference_requirements = OK" "length reference_requirements = 4"
    by (simp_all add: reference_requirements_def validate_requirement_def default_requirement_def weight
        validate_evaluator_key_def kMaxNameLength_def is_allowed_name_byte_def is_ascii_letter_def is_digit_char_def
        kEvaluatorCompileAndRun_def kEvaluatorSourcePolicy_def kEvaluatorPerformance_def kEvaluatorParsimony_def)
  have "validate_task (?t\<lparr>task_digest := d\<rparr>) = OK"
    using assms
    by (simp add: validate_task_def reference_task_spec_def kMaxNameLength_def kMaxObjectiveLength_def
       kMaxInputFiles_def kMaxRequiredOutputs_def kMaxEvaluationRequirements_def kMaxConstraints_def is_printable_ascii_def
       gen_valid_def gen_first_def inputs outputs requirements) 
  moreover have "encode_task_canonical (?t\<lparr>task_digest := d\<rparr>) = encode_task_canonical ?t"
    by (simp add: encode_task_canonical_def task_fields_def)
  ultimately show ?thesis
    using assms by (simp add: make_reference_task_def compute_task_digest_def Let_def d_def)
qed

section \<open>What the functions compute\<close>

text \<open>
  The loop of \<^verbatim>\<open>reference_expected_value\<close> counts in 32 bits. The loops of the candidates count
  in 64 bits up to a bound of 32 bits.
\<close>

partial_function (option) expected_loop :: "u32 \<Rightarrow> u32 \<Rightarrow> u64 \<Rightarrow> u64 option" where
  "expected_loop n value acc =
    (if value \<le> n then expected_loop n (value + 1) (acc + ucast value * ucast value)
     else Some acc)"

definition reference_expected_value :: "u32 \<Rightarrow> u64 option" where
  "reference_expected_value n = expected_loop n 1 0"

partial_function (option) candidate_loop :: "(u64 \<Rightarrow> bool) \<Rightarrow> u64 \<Rightarrow> u64 \<Rightarrow> u64 option" where
  "candidate_loop goes_on value acc =
    (if goes_on value then candidate_loop goes_on (value + 1) (acc + value * value) else Some acc)"

definition closed_form_solution :: "u32 \<Rightarrow> u64 option" where
  "closed_form_solution n =
    (let a = ucast n; b = ucast n + 1; c = 2 * ucast n + 1;
         (a, b) = (if a mod 2 = 0 then (a div 2, b) else (a, b div 2));
         (a, b, c) = (if a mod 3 = 0 then (a div 3, b, c) else if b mod 3 = 0 then (a, b div 3, c) else (a, b, c div 3))
     in Some (a * b * c))"

definition iterative_solution :: "u32 \<Rightarrow> u64 option" where
  "iterative_solution n = candidate_loop (\<lambda>value. value \<le> ucast n) 1 0"

definition off_by_one_solution :: "u32 \<Rightarrow> u64 option" where
  "off_by_one_solution n = candidate_loop (\<lambda>value. value < ucast n) 1 0"

definition self_reported_solution :: "u32 \<Rightarrow> u64 option" where
  "self_reported_solution n = candidate_loop (\<lambda>value. value \<le> ucast n) 2 0"

primrec solution_function :: "reference_strategy \<Rightarrow> u32 \<Rightarrow> u64 option" where
  "solution_function ST_ClosedForm = closed_form_solution"
| "solution_function ST_Iterative = iterative_solution"
| "solution_function ST_OffByOne = off_by_one_solution"
| "solution_function ST_SelfReportedPass = self_reported_solution"

section \<open>The sum of squares\<close>

definition squares :: "nat \<Rightarrow> nat" where
  "squares n = (\<Sum>i = 1..n. i * i)"

lemma squares_simps [simp]: "squares 0 = 0" "squares (Suc n) = squares n + Suc n * Suc n"
  by (simp_all add: squares_def)

lemma six_squares: "6 * squares n = n * (n + 1) * (2 * n + 1)"
  by (induction n) (simp_all add: algebra_simps)

text \<open>A loop that starts at \<open>k\<close> and stops at \<open>m\<close> adds the squares in between.\<close>

lemma candidate_loop_runs:
  assumes "\<forall>j. k \<le> j \<and> j < m \<longrightarrow> goes_on (of_nat j)" and "\<not> goes_on (of_nat m)" and "k \<le> m"
  shows "candidate_loop goes_on (of_nat k) acc = Some (acc + of_nat (\<Sum>i = k..<m. i * i))"
  using assms
proof (induction "m - k" arbitrary: k acc)
  case 0
  then show ?case by (simp add: candidate_loop.simps)
next
  case (Suc d)
  then have k: "k < m" "d = m - Suc k" by simp_all
  have "candidate_loop goes_on (of_nat (Suc k)) (acc + of_nat k * of_nat k) =
      Some (acc + of_nat k * of_nat k + of_nat (\<Sum>i = Suc k..<m. i * i))"
    using Suc.prems k by (intro Suc.hyps(1)) auto
  then show ?case
    using Suc.prems(1) k by (subst candidate_loop.simps) (simp add: sum.atLeast_Suc_lessThan add.commute add.assoc)
qed

lemma squares_from_one: "(\<Sum>i = 1..<Suc n. i * i) = squares n"
  by (simp add: squares_def atLeastLessThanSuc_atLeastAtMost)

lemma small_u64: "j < 2 ^ 64 \<Longrightarrow> unat (of_nat j :: u64) = j"
  by (simp add: unat_of_nat take_bit_nat_eq_self_iff [THEN iffD2] flip: take_bit_eq_mod)

lemma bound_small: "unat (n :: u32) < 4294967296"
  using unsigned_less [of n] by simp

lemma ucast_u32: "(ucast n :: u64) = of_nat (unat (n :: u32))"
  by simp

lemma less_bound:
  assumes "j < 2 ^ 64"
  shows "(of_nat j :: u64) \<le> ucast (n :: u32) \<longleftrightarrow> j \<le> unat n" and "(of_nat j :: u64) < ucast n \<longleftrightarrow> j < unat n"
  using small_u64 [OF assms] small_u64 [of "unat n"] bound_small [of n]
  unfolding ucast_u32 word_le_nat_alt word_less_nat_alt by simp_all

lemma iterative_value: "iterative_solution n = Some (of_nat (squares (unat n)))"
proof -
  have "candidate_loop (\<lambda>value. value \<le> ucast n) (of_nat 1) 0 =
      Some (0 + of_nat (\<Sum>i = 1..<Suc (unat n). i * i))"
    using bound_small [of n] by (intro candidate_loop_runs) (simp_all add: less_bound del: of_nat_Suc)
  then show ?thesis
    by (simp only: iterative_solution_def squares_from_one of_nat_1 add_0)
qed

lemma off_by_one_value: "off_by_one_solution n = Some (of_nat (squares (unat n - 1)))"
proof (cases "n = 0")
  case True
  then show ?thesis
    by (simp add: off_by_one_solution_def) (subst candidate_loop.simps, simp)
next
  case False
  then obtain m where m: "unat n = Suc m" by (cases "unat n") (auto simp: unat_eq_0)
  have "candidate_loop (\<lambda>value. value < ucast n) (of_nat 1) 0 = Some (0 + of_nat (\<Sum>i = 1..<Suc m. i * i))"
    using bound_small [of n] m by (intro candidate_loop_runs) (simp_all add: less_bound del: of_nat_Suc)
  then show ?thesis
    by (simp only: off_by_one_solution_def squares_from_one of_nat_1 add_0 m diff_Suc_1)
qed

lemma self_reported_value: "self_reported_solution n = Some (of_nat (squares (unat n) - (if n = 0 then 0 else 1)))"
proof (cases "n = 0")
  case True
  then show ?thesis
    by (simp add: self_reported_solution_def) (subst candidate_loop.simps, simp)
next
  case False
  then have n: "1 \<le> unat n" using unat_eq_0 [of n] by simp
  have "candidate_loop (\<lambda>value. value \<le> ucast n) (of_nat 2) 0 = Some (0 + of_nat (\<Sum>i = 2..<Suc (unat n). i * i))"
    using bound_small [of n] n by (intro candidate_loop_runs) (simp_all add: less_bound del: of_nat_Suc)
  moreover have "squares (unat n) = 1 + (\<Sum>i = 2..<Suc (unat n). i * i)"
    using n unfolding squares_from_one [symmetric] by (simp add: sum.atLeast_Suc_lessThan numeral_2_eq_2)
  ultimately show ?thesis
    using False by (simp add: self_reported_solution_def)
qed

lemma closed_form_value: "closed_form_solution n = Some (of_nat (squares (unat n)))"
proof -
  define N where "N = unat n"
  have small: "N < 4294967296" using bound_small [of n] by (simp add: N_def)
  have words: "(ucast n :: u64) = of_nat N" "(ucast n + 1 :: u64) = of_nat (N + 1)"
    "(2 * ucast n + 1 :: u64) = of_nat (2 * N + 1)"
    by (simp_all add: N_def)
  have div_mod: "(of_nat x :: u64) div of_nat d = of_nat (x div d)" "(of_nat x :: u64) mod of_nat d = of_nat (x mod d)"
    if "x < 2 ^ 64" "d < 2 ^ 64" for x d
    using that by (simp_all add: word_arith_nat_div word_arith_nat_mod small_u64)
  define a b c where "a = (if even N then N div 2 else N)" and "b = (if even N then N + 1 else (N + 1) div 2)"
    and "c = 2 * N + 1"
  have abc: "2 * (a * b * c) = N * (N + 1) * (2 * N + 1)"
    by (auto simp: a_def b_def c_def elim!: evenE oddE)
  have lt: "a < 2 ^ 64" "b < 2 ^ 64" "c < 2 ^ 64"
    using small div_le_dividend [of N 2] by (auto simp: a_def b_def c_def)
  define r where "r = (if 3 dvd a then a div 3 * b * c else if 3 dvd b then a * (b div 3) * c else a * b * (c div 3))"
  have "3 dvd a \<or> 3 dvd b \<or> 3 dvd c"
    unfolding a_def b_def c_def by presburger
  then have "3 * r = a * b * c"
    by (auto simp: r_def)
  then have r: "r = squares N"
    using six_squares [of N] abc by simp
  have zero: "(of_nat x :: u64) = 0 \<longleftrightarrow> x = 0" if "x < 2 ^ 64" for x
    unfolding unat_eq_0 [symmetric] small_u64 [OF that] ..
  have two: "(of_nat x :: u64) div 2 = of_nat (x div 2)" "(of_nat x :: u64) mod 2 = 0 \<longleftrightarrow> even x"
    "(of_nat x :: u64) div 3 = of_nat (x div 3)" "(of_nat x :: u64) mod 3 = 0 \<longleftrightarrow> 3 dvd x" if "x < 2 ^ 64" for x
  proof -
    have "x mod 2 < 2 ^ 64" "x mod 3 < 2 ^ 64"
      using that by (rule le_less_trans [OF mod_less_eq_dividend])+
    then have z: "(of_nat (x mod 2) :: u64) = 0 \<longleftrightarrow> x mod 2 = 0" "(of_nat (x mod 3) :: u64) = 0 \<longleftrightarrow> x mod 3 = 0"
      by (simp_all only: zero)
    show "(of_nat x :: u64) div 2 = of_nat (x div 2)" "(of_nat x :: u64) div 3 = of_nat (x div 3)"
      using div_mod(1) [OF that, of 2] div_mod(1) [OF that, of 3] by simp_all
    have "(of_nat x :: u64) mod 2 = of_nat (x mod 2)" "(of_nat x :: u64) mod 3 = of_nat (x mod 3)"
      using div_mod(2) [OF that, of 2] div_mod(2) [OF that, of 3] by simp_all
    with z show "(of_nat x :: u64) mod 2 = 0 \<longleftrightarrow> even x" "(of_nat x :: u64) mod 3 = 0 \<longleftrightarrow> 3 dvd x"
      by (simp_all only: dvd_eq_mod_eq_0)
  qed
  have N: "N < 2 ^ 64" "N + 1 < 2 ^ 64" using small by simp_all
  have half: "(if (of_nat N :: u64) mod 2 = 0 then (of_nat N div 2, of_nat (N + 1)) else (of_nat N, of_nat (N + 1) div 2)) =
      (of_nat a :: u64, of_nat b :: u64)"
    by (simp only: two [OF N(1)] two [OF N(2)] a_def b_def split: if_split) simp
  have third: "(if (of_nat a :: u64) mod 3 = 0 then (of_nat a div 3, of_nat b, of_nat c)
      else if (of_nat b :: u64) mod 3 = 0 then (of_nat a, of_nat b div 3, of_nat c) else (of_nat a, of_nat b, of_nat c div 3)) =
      (if 3 dvd a then (of_nat (a div 3) :: u64, of_nat b :: u64, of_nat c :: u64) else if 3 dvd b then (of_nat a, of_nat (b div 3), of_nat c)
       else (of_nat a, of_nat b, of_nat (c div 3) :: u64))"
    by (simp only: two [OF lt(1)] two [OF lt(2)] two [OF lt(3)])
  have "closed_form_solution n = Some (of_nat r)"
    unfolding closed_form_solution_def Let_def words(2,3)
    unfolding words(1) half prod.case c_def [symmetric] third
    by (simp add: r_def)
  then show ?thesis by (simp add: r N_def)
qed

text \<open>
  The 32-bit counter of \<^verbatim>\<open>reference_expected_value\<close> cannot exceed the largest bound, so for that
  bound the loop never ends.
\<close>

lemma expected_loop_runs:
  assumes "n \<noteq> - 1" and "k \<le> Suc (unat n)"
  shows "expected_loop n (of_nat k) acc = Some (acc + of_nat (\<Sum>i = k..<Suc (unat n). i * i))"
  using assms(2)
proof (induction "Suc (unat n) - k" arbitrary: k acc)
  case 0
  have "unat n \<noteq> 4294967295"
  proof
    assume "unat n = 4294967295"
    then have "(of_nat (unat n) :: u32) = of_nat 4294967295" by simp
    then show False using assms(1) by simp
  qed
  then have "unat (of_nat (Suc (unat n)) :: u32) = Suc (unat n)"
    using bound_small [of n] by (simp add: unat_of_nat del: of_nat_Suc)
  moreover have "k = Suc (unat n)" using 0 by simp
  ultimately show ?case
    by (subst expected_loop.simps) (simp add: word_le_nat_alt del: of_nat_Suc)
next
  case (Suc d)
  then have k: "k \<le> unat n" "d = Suc (unat n) - Suc k" by simp_all
  then have "unat (of_nat k :: u32) = k"
    using bound_small [of n] by (simp add: unat_of_nat)
  moreover have "expected_loop n (of_nat (Suc k)) (acc + of_nat k * of_nat k) =
      Some (acc + of_nat k * of_nat k + of_nat (\<Sum>i = Suc k..<Suc (unat n). i * i))"
    using k by (intro Suc.hyps(1)) auto
  ultimately show ?case
    using k
    by (subst expected_loop.simps)
      (simp add: word_le_nat_alt ucast_u32 sum.atLeast_Suc_lessThan add.commute add.assoc del: sum.op_ivl_Suc)
qed

lemma expected_loop_stuck:
  assumes "expected_loop n value acc = Some r"
  shows "n \<noteq> - 1"
  using _ assms
proof (rule expected_loop.raw_induct [where P = "\<lambda>n _ _ _. n \<noteq> - 1"])
  fix loop n v acc r
  assume "\<And>n v acc r. loop n v acc = Some r \<Longrightarrow> n \<noteq> (- 1 :: u32)"
    and "(if v \<le> n then loop n (v + 1) (acc + ucast v * ucast v) else Some acc) = Some r"
  then show "n \<noteq> - 1" by (cases "n = - 1") auto
qed

text \<open>
  The expected value is the sum of the squares in 64-bit arithmetic for every bound but the
  largest, for which the function never returns. The closed form and the accumulation loop agree
  with that sum for every bound, and each of the two wrong candidates differs from it for every
  bound but zero.
\<close>

theorem reference_candidates_compute:
  "reference_expected_value n = (if n = - 1 then None else Some (of_nat (squares (unat n)))) \<and>
   solution_function ST_ClosedForm n = Some (of_nat (squares (unat n))) \<and>
   solution_function ST_Iterative n = Some (of_nat (squares (unat n))) \<and>
   (solution_function ST_OffByOne n = Some (of_nat (squares (unat n))) \<longleftrightarrow> n = 0) \<and>
   (solution_function ST_SelfReportedPass n = Some (of_nat (squares (unat n))) \<longleftrightarrow> n = 0)"
proof (intro conjI)
  have "reference_expected_value n = Some (of_nat (squares (unat n)))" if "n \<noteq> - 1"
    using expected_loop_runs [OF that, of 1 0]
    by (simp only: reference_expected_value_def squares_from_one of_nat_1 add_0)
  moreover have "reference_expected_value (- 1) = None"
    using expected_loop_stuck [of "- 1" 1 0] by (cases "expected_loop (- 1) 1 0") (auto simp: reference_expected_value_def)
  ultimately show "reference_expected_value n = (if n = - 1 then None else Some (of_nat (squares (unat n))))"
    by simp
  show "solution_function ST_OffByOne n = Some (of_nat (squares (unat n))) \<longleftrightarrow> n = 0"
  proof (cases "unat n")
    case 0
    then show ?thesis by (simp add: off_by_one_value unat_eq_0)
  next
    case (Suc m)
    then have "Suc m * Suc m < 2 ^ 64"
      using bound_small [of n] mult_strict_mono' [of "Suc m" 4294967296 "Suc m" 4294967296] by simp
    then have "(of_nat (Suc m * Suc m) :: u64) \<noteq> 0"
      using small_u64 [of "Suc m * Suc m"] by (metis unat_0 mult_is_0 nat.distinct(1))
    moreover have "n \<noteq> 0" using Suc by auto
    moreover have "(of_nat (squares (Suc m)) :: u64) = of_nat (squares m) + of_nat (Suc m * Suc m)"
      by (simp only: squares_simps of_nat_add)
    ultimately show ?thesis
      by (simp only: solution_function.simps off_by_one_value Suc diff_Suc_1 option.inject add_cancel_right_right)
  qed
  show "solution_function ST_SelfReportedPass n = Some (of_nat (squares (unat n))) \<longleftrightarrow> n = 0"
  proof (cases "unat n")
    case 0
    then show ?thesis by (simp add: self_reported_value unat_eq_0)
  next
    case (Suc m)
    then have "n \<noteq> 0" "1 \<le> squares (unat n)" by auto
    then have "(of_nat (squares (unat n) - 1) :: u64) + 1 = of_nat (squares (unat n))"
      by (metis of_nat_1 of_nat_add le_add_diff_inverse2)
    then show ?thesis
      using \<open>n \<noteq> 0\<close> by (auto simp: self_reported_value)
  qed
qed (simp_all add: closed_form_value iterative_value)

end
