(* ===== verification/Core_Histories.thy ===== *)
theory Core_Histories
  imports Core_Evolution Reference_Task
begin

text \<open>
  Histories of a running core: the calls that change its state, the step relation they
  define, and what holds along every history between two restarts.
\<close>

datatype foundry_call =
    DefineTask task_spec
  | ReviseTask task_id task_spec
  | DefinePolicy foundry_policy
  | RevisePolicy policy_id foundry_policy
  | CreatePopulation population_spec
  | StartPopulation population_id population_generation
  | CancelPopulation population_id population_generation string
  | RequestPopulationRevalidation population_id string
  | RevalidatePopulation population_id population_generation string
  | PrepareSelection population_id
  | CommitSelection selection_decision
  | PrepareRetention population_id
  | CommitRetention retention_decision
  | PreparePromotionRequest population_id
  | RecordPromotionReceipt promotion_request_id promotion_receipt
  | ClosePopulation population_id
  | AdvancePopulation population_id string
  | CancelAttempt attempt_id string
  | ForceAttemptOutcomeUnknown attempt_id string
  | RegisterWorker worker_registration_request
  | WorkerReady worker_session_authority string
  | RevalidateWorker worker_session_authority string
  | WorkerDisconnected worker_session_authority string
  | RejectWorkerSession worker_session_authority string
  | AuthorizeAttempt worker_session_authority
  | ConfirmDispatch worker_session_authority attempt_id attempt_generation
  | AbandonDispatch worker_session_authority attempt_id string
  | AcknowledgeAttempt worker_operation_authority
  | PublishCandidate worker_operation_authority "artifact_ref list" string
  | ReportAttemptFailure worker_operation_authority string
  | BeginEvaluation candidate_id
  | RecordEvaluation evaluation_record

text \<open>The state a call leaves, whether it succeeds or fails.\<close>

fun perform :: "(binary64 \<Rightarrow> string) \<Rightarrow> foundry_call \<Rightarrow> foundry_core \<Rightarrow> foundry_core" where
  "perform shortest (DefineTask spec) c = snd (define_task spec c)"
| "perform shortest (ReviseTask k spec) c = snd (revise_task k spec c)"
| "perform shortest (DefinePolicy policy) c = snd (define_policy policy c)"
| "perform shortest (RevisePolicy k policy) c = snd (revise_policy k policy c)"
| "perform shortest (CreatePopulation spec) c = snd (create_population spec c)"
| "perform shortest (StartPopulation p g) c = snd (start_population p g c)"
| "perform shortest (CancelPopulation p g reason) c = snd (cancel_population p g reason c)"
| "perform shortest (RequestPopulationRevalidation p reason) c = snd (request_population_revalidation p reason c)"
| "perform shortest (RevalidatePopulation p g detail) c = snd (revalidate_population p g detail c)"
| "perform shortest (PrepareSelection p) c = snd (prepare_selection shortest p c)"
| "perform shortest (CommitSelection d) c = snd (commit_selection shortest d c)"
| "perform shortest (PrepareRetention p) c = snd (prepare_retention shortest p c)"
| "perform shortest (CommitRetention d) c = snd (commit_retention shortest d c)"
| "perform shortest (PreparePromotionRequest p) c = snd (prepare_promotion_request shortest p c)"
| "perform shortest (RecordPromotionReceipt k receipt) c = snd (record_promotion_receipt k receipt c)"
| "perform shortest (ClosePopulation p) c = snd (close_population p c)"
| "perform shortest (AdvancePopulation p name) c = snd (advance_population p name c)"
| "perform shortest (CancelAttempt k reason) c = snd (cancel_attempt k reason c)"
| "perform shortest (ForceAttemptOutcomeUnknown k reason) c = snd (force_attempt_outcome_unknown k reason c)"
| "perform shortest (RegisterWorker request) c = snd (register_worker request c)"
| "perform shortest (WorkerReady session capability) c = snd (worker_ready session capability c)"
| "perform shortest (RevalidateWorker session detail) c = snd (revalidate_worker session detail c)"
| "perform shortest (WorkerDisconnected session reason) c = snd (worker_disconnected session reason c)"
| "perform shortest (RejectWorkerSession session reason) c = snd (reject_worker_session session reason c)"
| "perform shortest (AuthorizeAttempt session) c = snd (authorize_attempt session c)"
| "perform shortest (ConfirmDispatch session k g) c = snd (confirm_dispatch session k g c)"
| "perform shortest (AbandonDispatch session k reason) c = snd (abandon_dispatch session k reason c)"
| "perform shortest (AcknowledgeAttempt authority) c = snd (acknowledge_attempt authority c)"
| "perform shortest (PublishCandidate authority artifacts strategy) c = snd (publish_candidate authority artifacts strategy c)"
| "perform shortest (ReportAttemptFailure authority reason) c = snd (report_attempt_failure authority reason c)"
| "perform shortest (BeginEvaluation k) c = snd (begin_evaluation k c)"
| "perform shortest (RecordEvaluation r) c = snd (record_evaluation r c)"

inductive core_reaches :: "(binary64 \<Rightarrow> string) \<Rightarrow> foundry_core \<Rightarrow> foundry_core \<Rightarrow> bool"
  for shortest where
  start: "core_reaches shortest c c"
| call: "core_reaches shortest c c' \<Longrightarrow> core_reaches shortest c (perform shortest f c')"

inductive_cases core_reachesE: "core_reaches shortest c c'"

lemmas keeps_operations =
  keeps_define_task keeps_revise_task keeps_define_policy keeps_revise_policy
  keeps_create_population keeps_start_population keeps_cancel_population
  keeps_request_population_revalidation keeps_revalidate_population keeps_prepare_selection
  keeps_commit_selection keeps_prepare_retention keeps_commit_retention
  keeps_prepare_promotion_request keeps_record_promotion_receipt keeps_close_population
  keeps_advance_population keeps_cancel_attempt keeps_force_attempt_outcome_unknown
  keeps_register_worker keeps_worker_ready keeps_revalidate_worker keeps_worker_disconnected
  keeps_reject_worker_session keeps_authorize_attempt keeps_confirm_dispatch
  keeps_abandon_dispatch keeps_acknowledge_attempt keeps_publish_candidate
  keeps_report_attempt_failure keeps_begin_evaluation keeps_record_evaluation

lemma keepsD: "keeps R m \<Longrightarrow> R s (snd (m s))"
  by (simp add: keeps_def step_ok_def)

lemma perform_evolves: "core_evolves c (perform shortest f c)"
  by (cases f) (simp_all add: keeps_operations [THEN keepsD])

lemma core_reaches_evolves: "core_reaches shortest c c' \<Longrightarrow> core_evolves c c'"
  by (induction rule: core_reaches.induct) (auto intro: core_history.R_refl core_history.R_trans perform_evolves)

lemma lineage_inv_empty: "lineage_inv []"
  using lineage_run_inv [of "[]"] by (simp add: lineage_run_def)

lemma core_wf_make_core: "core_wf (make_core salt config)"
  by (simp add: core_wf_def make_core_def ledgers_within_limits_def lineage_inv_empty)

lemma reachable_wf: "core_reaches shortest (make_core salt config) c \<Longrightarrow> core_wf c"
  using core_reaches_evolves core_wf_make_core by (auto simp: core_evolves_def)

lemma evolves_tables:
  assumes "core_evolves c c'"
  shows "find_attempt k1 c = Some a \<Longrightarrow> \<exists>a'. find_attempt k1 c' = Some a' \<and> att_evolves a a'"
    and "find_candidate k2 c = Some r \<Longrightarrow> \<exists>r'. find_candidate k2 c' = Some r' \<and> cand_evolves r r'"
    and "find_population k3 c = Some p \<Longrightarrow> \<exists>p'. find_population k3 c' = Some p' \<and> pop_evolves p p'"
    and "tbl_find (co_evaluations c) k4 = Some e \<Longrightarrow> tbl_find (co_evaluations c') k4 = Some e"
  using assms by (auto simp: core_evolves_def table_evolves_def find_attempt_def find_candidate_def
      find_population_def)

lemma reachable_lineage_ok: "core_wf c \<Longrightarrow> lineage_ok (co_lineage c) \<and> tbl_ok (co_lineage c)"
  by (simp add: core_wf_def lineage_inv_def lineage_ok_def)

lemma allocations_differ:
  assumes "alloc_next kind a = (Inr k, a1)" and "counters_le a1 a2" and "alloc_next kind a2 = (Inr k', a3)"
  shows "id_counter k < id_counter k'"
proof -
  note first = alloc_next_OK_cases [OF assms(1)] and second = alloc_next_OK_cases [OF assms(3)]
  have "id_counter k = al_counters a1 ! id_kind_ordinal kind"
    using first by simp
  also have "\<dots> \<le> al_counters a2 ! id_kind_ordinal kind"
    using assms(2) first(2,7) by (auto simp: counters_le_def)
  also have "\<dots> < id_counter k'"
    using second u32_inc(1) by simp
  finally show ?thesis .
qed

lemma allocate_counters:
  assumes "allocate kind c = (Inr k, c1)"
  shows "alloc_next kind (co_ids c) = (Inr k, co_ids c1)"
  using assms by (auto simp: allocate_def split: prod.splits)

section \<open>An example state\<close>

definition example_config :: foundry_config where
  "example_config = \<lparr>cfg_foundry = StrongId 0x0100000700000001, cfg_run = StrongId 0x0200000700000001,
     cfg_epoch = CoordinatorEpoch 1, cfg_id_salt = 7, cfg_workspace_root = ''/w'',
     cfg_default_budgets = default_budget_limits\<rparr>"

definition example_attempt :: attempt_record where
  "example_attempt = default_attempt\<lparr>att_id := StrongId 4, att_gen := gen_first,
     att_population := StrongId 2, att_candidate := StrongId 3, att_worker := StrongId 5,
     att_worker_boot := StrongId 6, att_state := AS_Running\<rparr>"

definition example_candidate :: candidate_record where
  "example_candidate = default_candidate\<lparr>cand_id := StrongId 3, cand_gen := gen_first,
     cand_population := StrongId 2, cand_lineage := StrongId 7, cand_state := CS_Producing\<rparr>"

definition example_population :: population_record where
  "example_population = default_population\<lparr>pop_id := StrongId 2, pop_gen := gen_first,
     pop_state := PS_Running, pop_candidates := [StrongId 3]\<rparr>"

definition example_evaluation :: evaluation_record where
  "example_evaluation = \<lparr>ev_id = StrongId 8, ev_gen = gen_first, ev_candidate = StrongId 3,
     ev_candidate_gen = gen_first, ev_task = StrongId 9, ev_task_gen = gen_first,
     ev_population = StrongId 2, ev_population_gen = gen_first, ev_evaluator = StrongId 1,
     ev_key = ''k'', ev_kind = EK_ProcessCommand, ev_class = RC_Mandatory, ev_outcome = EO_Pass,
     ev_complete = True, ev_has_score = False, ev_score = b64_zero,
     ev_decided_epoch = CoordinatorEpoch 1, ev_diagnostics = [], ev_evidence_digest = [],
     ev_duration_micros = 0\<rparr>"

definition example_core :: foundry_core where
  "example_core = (make_core 1 example_config)
    \<lparr>co_populations := [(StrongId 2, example_population)],
     co_candidates := [(StrongId 3, example_candidate)],
     co_attempts := [(StrongId 4, example_attempt)],
     co_evaluations := [(StrongId 8, example_evaluation)]\<rparr>"

definition example_text :: "binary64 \<Rightarrow> string" where
  "example_text v = ''0''"

lemma example_entries:
  "find_population (StrongId 2) example_core = Some example_population"
  "find_candidate (StrongId 3) example_core = Some example_candidate"
  "find_attempt (StrongId 4) example_core = Some example_attempt"
  "tbl_find (co_evaluations example_core) (StrongId 8) = Some example_evaluation"
  by (simp_all add: example_core_def find_population_def find_candidate_def find_attempt_def tbl_find_def)

lemmas one_call = core_reaches.call [OF core_reaches.start]

section \<open>An example history\<close>

text \<open>
  A fresh core is given the reference policy and the reference task, opens and starts a
  population, admits a worker and authorizes an attempt on a first candidate.
\<close>

definition sample_policy :: foundry_policy where
  "sample_policy = make_reference_policy (StrongId 21) gen_first"

definition sample_task :: task_spec where
  "sample_task =
    (let t = reference_task_spec (StrongId 22) (StrongId 21) gen_first default_budget_limits
     in t\<lparr>task_digest := sha256_hex (encode_task_canonical t)\<rparr>)"

definition sample_population :: population_spec where
  "sample_population = \<lparr>ps_name = ''first'', ps_task = StrongId 22, ps_task_gen = gen_first,
     ps_policy = StrongId 21, ps_policy_gen = gen_first, ps_candidate_budget = 4, ps_worker_budget = 2,
     ps_index = 1, ps_predecessor = null_id, ps_seed_candidate = null_id, ps_seed_candidate_gen = gen_none,
     ps_seed_lineage = null_id, ps_require_promotion_request = False\<rparr>"

abbreviation sample_population_id :: population_id where
  "sample_population_id \<equiv> StrongId 0x0300000700000001"

definition sample_session :: worker_session_authority where
  "sample_session = \<lparr>wsa_epoch = CoordinatorEpoch 1, wsa_run = StrongId 0x0200000700000001,
     wsa_worker = StrongId 5, wsa_boot = StrongId 6, wsa_session = StrongId 0x1000000700000001,
     wsa_session_gen = gen_first\<rparr>"

definition sample_setup :: "foundry_call list" where
  "sample_setup = [DefinePolicy sample_policy, DefineTask sample_task, CreatePopulation sample_population]"

definition sample_work :: "foundry_call list" where
  "sample_work =
    [StartPopulation sample_population_id gen_first,
     RegisterWorker \<lparr>wrr_worker = StrongId 5, wrr_boot = StrongId 6, wrr_label = ''w'',
       wrr_capability = ''c'', wrr_process_id = 1\<rparr>,
     WorkerReady sample_session ''c'',
     AuthorizeAttempt sample_session]"

definition perform_all :: "(binary64 \<Rightarrow> string) \<Rightarrow> foundry_call list \<Rightarrow> foundry_core \<Rightarrow> foundry_core" where
  "perform_all shortest fs c = foldl (\<lambda>c f. perform shortest f c) c fs"

lemma core_reaches_perform_all: "core_reaches shortest c (perform_all shortest fs c)"
proof (induction fs rule: rev_induct)
  case Nil
  show ?case by (simp add: perform_all_def core_reaches.start)
next
  case (snoc f fs)
  then show ?case by (simp add: perform_all_def core_reaches.call)
qed

definition prepared_core :: "foundry_policy \<Rightarrow> task_spec \<Rightarrow> foundry_core" where
  "prepared_core p t = (let c = make_core 1 example_config in c
    \<lparr>co_policies := [(StrongId 21, p)], co_tasks := [(StrongId 22, t)],
     co_populations := [(sample_population_id, population_from_spec sample_population sample_population_id c)],
     co_ledgers := [(sample_population_id, make_ledger default_budget_limits)],
     co_ids := (co_ids c)\<lparr>al_counters := (al_counters (co_ids c))[3 := 1]\<rparr>,
     co_statistics := (co_statistics c)\<lparr>st_populations_created := 1\<rparr>, co_revision := 3\<rparr>)"

lemma sample_task_valid: "validate_task sample_task = OK"
  using reference_task_accepted [of "StrongId 22" "StrongId 21" gen_first 1 default_budget_limits]
  by (simp add: make_reference_task_def compute_task_digest_def Let_def sample_task_def id_valid_def
      gen_valid_def gen_first_def default_budget_limits_def budget_limits_validate_def split: sum.splits)

lemma define_policy_fresh:
  assumes "id_valid (pol_id p)" and "find_policy (pol_id p) c = None" and "pol_gen p = gen_first"
    and "validate_policy p = OK" and "p\<lparr>pol_digest := sha256_hex (encode_policy_canonical p)\<rparr> = p"
  shows "snd (define_policy p c) = c\<lparr>co_policies := tbl_emplace (pol_id p) p (co_policies c),
    co_revision := co_revision c + 1\<rparr>"
proof -
  have "p\<lparr>pol_id := pol_id p\<rparr> = p" by (cases p) simp
  then show ?thesis
    using assms
    by (simp add: define_policy_def identity_or_fresh_def readA_apply Let_def bindA_def thenA_def
        gen_valid_def gen_first_def compute_policy_digest_def touch_def)
qed

lemma define_task_fresh:
  assumes "id_valid (task_id_of t)" and "find_task (task_id_of t) c = None" and "task_gen t = gen_first"
    and "validate_task t = OK" and "t\<lparr>task_digest := sha256_hex (encode_task_canonical t)\<rparr> = t"
  shows "snd (define_task t c) = c\<lparr>co_tasks := tbl_emplace (task_id_of t) t (co_tasks c),
    co_revision := co_revision c + 1\<rparr>"
proof -
  have "t\<lparr>task_id_of := task_id_of t\<rparr> = t" by (cases t) simp
  then show ?thesis
    using assms
    by (simp add: define_task_def identity_or_fresh_def readA_apply Let_def bindA_def thenA_def
        gen_valid_def gen_first_def compute_task_digest_def touch_def)
qed

lemma sample_setup_runs:
  "perform_all shortest sample_setup (make_core 1 example_config) = prepared_core sample_policy sample_task"
proof -
  have policy: "pol_id sample_policy = StrongId 21" "pol_gen sample_policy = gen_first"
    "pol_budgets sample_policy = default_budget_limits" "validate_policy sample_policy = OK"
    "sample_policy\<lparr>pol_digest := sha256_hex (encode_policy_canonical sample_policy)\<rparr> = sample_policy"
    using reference_policy_valid [of "StrongId 21" gen_first]
    by (simp_all add: sample_policy_def make_reference_policy_def Let_def encode_policy_canonical_def policy_fields_def
       id_valid_def gen_valid_def gen_first_def)
  have task: "task_id_of sample_task = StrongId 22" "task_gen sample_task = gen_first"
    "sample_task\<lparr>task_digest := sha256_hex (encode_task_canonical sample_task)\<rparr> = sample_task"
    by (simp_all add: sample_task_def reference_task_spec_def Let_def encode_task_canonical_def task_fields_def)
  have valid: "id_valid (StrongId 21 :: policy_id)" "id_valid (StrongId 22 :: task_id)"
    by (simp_all add: id_valid_def)
  let ?c0 = "make_core 1 example_config"
  let ?c1 = "?c0\<lparr>co_policies := [(StrongId 21, sample_policy)], co_revision := 1\<rparr>"
  let ?c2 = "?c1\<lparr>co_tasks := [(StrongId 22, sample_task)], co_revision := 2\<rparr>"
  have "snd (define_policy sample_policy ?c0) = ?c1"
    by (subst define_policy_fresh) (simp_all add: policy valid make_core_def find_policy_def tbl_emplace_def tbl_find_def)
  have "snd (define_task sample_task ?c1) = ?c2"
    by (subst define_task_fresh) (simp_all add: task valid sample_task_valid make_core_def find_task_def tbl_emplace_def tbl_find_def)
  have "check_population_spec sample_population ?c2 = Inr sample_policy"
    by (simp add: check_population_spec_def sample_population_def find_task_def find_policy_def tbl_find_def task policy
        validate_worker_text_def kMaxNameLength_def is_printable_byte_def check_task_generation_def
        check_policy_generation_def kMaxCandidatesPerPopulation_def default_budget_limits_def check_predecessor_def
        id_valid_def null_id_def)
  moreover have "allocate IK_Population ?c2 = (Inr sample_population_id,
      ?c2\<lparr>co_ids := (co_ids ?c0)\<lparr>al_counters := (al_counters (co_ids ?c0))[3 := 1]\<rparr>\<rparr>)"
    by (simp add: allocate_def make_core_def example_config_def alloc_next_def make_allocator_def
        kIdKindCount_def kIdSaltMask_def kIdCounterMask_def)
  ultimately have "snd (create_population sample_population ?c2) = prepared_core sample_policy sample_task"
    by (simp add: create_population_def readA_apply bindA_def thenA_def policy prepared_core_def Let_def
        make_core_def population_from_spec_def tbl_emplace_def tbl_find_def count_in_def touch_def zero_statistics_def)
  then show ?thesis
    using \<open>snd (define_policy sample_policy ?c0) = ?c1\<close> \<open>snd (define_task sample_task ?c1) = ?c2\<close>
    by (simp add: perform_all_def sample_setup_def)
qed

lemma sample_work_runs:
  "(let c = perform_all example_text sample_work (prepared_core p t) in
     map_option (lg_used BK_ActiveAttempts) (find_ledger sample_population_id c) = Some 1 \<and>
     map fst (co_candidates c) = [StrongId 0x0500000700000001] \<and>
     map (att_state \<circ> snd) (co_attempts c) = [AS_Authorized] \<and>
     length (co_assignments c) = 1 \<and> length (co_lineage c) = 1)"
  by code_simp

definition sample_core :: foundry_core where
  "sample_core = perform_all example_text (sample_setup @ sample_work) (make_core 1 example_config)"

lemma sample_core_reached: "core_reaches example_text (make_core 1 example_config) sample_core"
  unfolding sample_core_def by (rule core_reaches_perform_all)

lemma sample_core_entries:
  "map_option (lg_used BK_ActiveAttempts) (find_ledger sample_population_id sample_core) = Some 1"
  "map fst (co_candidates sample_core) = [StrongId 0x0500000700000001]"
  "map (att_state \<circ> snd) (co_attempts sample_core) = [AS_Authorized]"
  "length (co_assignments sample_core) = 1" "length (co_lineage sample_core) = 1"
proof -
  have "sample_core = perform_all example_text sample_work (prepared_core sample_policy sample_task)"
    using sample_setup_runs [of example_text] by (simp add: sample_core_def perform_all_def)
  then show "map_option (lg_used BK_ActiveAttempts) (find_ledger sample_population_id sample_core) = Some 1"
    "map fst (co_candidates sample_core) = [StrongId 0x0500000700000001]"
    "map (att_state \<circ> snd) (co_attempts sample_core) = [AS_Authorized]"
    "length (co_assignments sample_core) = 1" "length (co_lineage sample_core) = 1"
    using sample_work_runs [of sample_policy sample_task] by (simp_all only: Let_def)
qed

section \<open>Properties\<close>

text \<open>
  C1: Along every history of calls, successful or not, a recorded attempt stays recorded under
  the same identities, it only moves forward in its lifecycle, and once it is terminal nothing
  of it changes but the reservation flag, which can only be dropped.
\<close>

theorem attempts_only_move_forward:
  assumes "core_reaches shortest c c'" and "find_attempt k c = Some a"
  shows "\<exists>a'. find_attempt k c' = Some a' \<and> att_identity a' = att_identity a \<and>
    attempt_rank (att_state a) \<le> attempt_rank (att_state a') \<and>
    (att_holds_reservation a' \<longrightarrow> att_holds_reservation a) \<and>
    (attempt_state_is_terminal (att_state a) \<longrightarrow>
      a'\<lparr>att_holds_reservation := False\<rparr> = a\<lparr>att_holds_reservation := False\<rparr>)"
  using evolves_tables(1) [OF core_reaches_evolves [OF assms(1)] assms(2)] by (simp add: att_evolves_def)

theorem attempts_only_move_forward_witness:
  "\<exists>a'. find_attempt (StrongId 4) (perform example_text (CancelAttempt (StrongId 4) ''stop'') example_core) = Some a' \<and>
    att_identity a' = att_identity example_attempt \<and>
    attempt_rank AS_Running \<le> attempt_rank (att_state a')"
  using attempts_only_move_forward [OF one_call example_entries(3), of example_text "CancelAttempt (StrongId 4) ''stop''"]
  by (auto simp: example_attempt_def)

text \<open>
  C2: Along every history of calls a candidate keeps its identity, its generation, the task
  and population it was made for, and its ancestry; its state only follows declared edges of
  the candidate lifecycle, so a terminal candidate stays in its state for good.
\<close>

theorem candidates_keep_identity_and_lifecycle:
  assumes "core_reaches shortest c c'" and "find_candidate k c = Some r"
  shows "\<exists>r'. find_candidate k c' = Some r' \<and> cand_identity r' = cand_identity r \<and>
    candidate_transition_is_legal\<^sup>*\<^sup>* (cand_state r) (cand_state r') \<and>
    (candidate_state_is_terminal (cand_state r) \<longrightarrow> cand_state r' = cand_state r)"
  using evolves_tables(2) [OF core_reaches_evolves [OF assms(1)] assms(2)]
    candidate_lifecycle.terminal_absorbing
  by (auto simp: cand_evolves_def)

theorem candidates_keep_identity_and_lifecycle_witness:
  "\<exists>r'. find_candidate (StrongId 3) (perform example_text (CancelAttempt (StrongId 4) ''stop'') example_core) = Some r' \<and>
    cand_identity r' = cand_identity example_candidate \<and>
    candidate_transition_is_legal\<^sup>*\<^sup>* CS_Producing (cand_state r')"
  using candidates_keep_identity_and_lifecycle [OF one_call example_entries(2), of example_text "CancelAttempt (StrongId 4) ''stop''"]
  by (auto simp: example_candidate_def)

text \<open>
  C3: Along every history of calls the contract of a population (task, policy, budgets,
  index, predecessor, seed) is fixed, its candidates are only appended, its state only
  follows declared edges, and a closed, failed or cancelled population never comes back.
\<close>

theorem populations_keep_contract_and_lifecycle:
  assumes "core_reaches shortest c c'" and "find_population k c = Some p"
  shows "\<exists>p'. find_population k c' = Some p' \<and> pop_contract p' = pop_contract p \<and>
    prefix (pop_candidates p) (pop_candidates p') \<and>
    population_transition_is_legal\<^sup>*\<^sup>* (pop_state p) (pop_state p') \<and>
    (population_state_is_terminal (pop_state p) \<longrightarrow> pop_state p' = pop_state p)"
  using evolves_tables(3) [OF core_reaches_evolves [OF assms(1)] assms(2)]
    population_lifecycle.terminal_absorbing
  by (auto simp: pop_evolves_def)

theorem populations_keep_contract_and_lifecycle_witness:
  "\<exists>p'. find_population (StrongId 2) (perform example_text
      (CancelPopulation (StrongId 2) gen_first ''stop'') example_core) = Some p' \<and>
    pop_contract p' = pop_contract example_population \<and> prefix [StrongId 3] (pop_candidates p')"
  using populations_keep_contract_and_lifecycle [OF one_call example_entries(1), of example_text
      "CancelPopulation (StrongId 2) gen_first ''stop''"]
  by (auto simp: example_population_def)

text \<open>
  C4: Evidence is append-only: an evaluation record, once stored, is never changed or dropped
  by any call.
\<close>

theorem evidence_is_append_only:
  assumes "core_reaches shortest c c'" and "tbl_find (co_evaluations c) k = Some r"
  shows "tbl_find (co_evaluations c') k = Some r"
  by (rule evolves_tables(4) [OF core_reaches_evolves [OF assms(1)] assms(2)])

theorem evidence_is_append_only_witness:
  "tbl_find (co_evaluations (perform example_text (RecordEvaluation example_evaluation) example_core))
    (StrongId 8) = Some example_evaluation"
  by (rule evidence_is_append_only [OF one_call example_entries(4)])

text \<open>
  C5: In every state a fresh core reaches, no budget of any population is overdrawn, the
  lineage passes \<^verbatim>\<open>validate\<close> and has no cycle, and the tables of tasks, policies, populations,
  candidates, workers, attempts, assignments and evaluations hold every key once, with the
  entry that carries that identity.
\<close>

theorem reachable_states_are_sound:
  assumes "core_reaches shortest (make_core salt config) c"
  shows "(\<forall>p l kind. find_ledger p c = Some l \<longrightarrow> lg_used kind l \<le> lg_cap kind l) \<and>
    lineage_validate (co_lineage c) = OK \<and> \<not> (parent_of (co_lineage c))\<^sup>+\<^sup>+ k k \<and>
    keyed task_id_of (co_tasks c) \<and> keyed pol_id (co_policies c) \<and>
    keyed pop_id (co_populations c) \<and> keyed cand_id (co_candidates c) \<and>
    keyed wk_id (co_workers c) \<and> keyed att_id (co_attempts c) \<and>
    keyed asg_id (co_assignments c) \<and> keyed ev_id (co_evaluations c)"
proof -
  have wf: "core_wf c"
    by (rule reachable_wf [OF assms])
  then have "within_limits l" if "find_ledger p c = Some l" for p l
    using that by (auto simp: core_wf_def ledgers_within_limits_def find_ledger_def)
  then show ?thesis
    using wf reachable_lineage_ok [OF wf] lineage_validate_iff lineage_acyclic
    by (auto simp: core_wf_def within_limits_iff)
qed

theorem reachable_states_are_sound_witness:
  "length (co_lineage sample_core) = 1 \<and> lineage_validate (co_lineage sample_core) = OK \<and>
   (\<exists>l. find_ledger sample_population_id sample_core = Some l \<and> lg_used BK_ActiveAttempts l = 1 \<and>
      1 \<le> lg_cap BK_ActiveAttempts l) \<and>
   (\<exists>k a. co_attempts sample_core = [(k, a)] \<and> att_state a = AS_Authorized \<and> att_id a = k)"
proof -
  note sound = reachable_states_are_sound [OF sample_core_reached]
  obtain l where l: "find_ledger sample_population_id sample_core = Some l" "lg_used BK_ActiveAttempts l = 1"
    using sample_core_entries(1) by auto
  moreover have "lg_used BK_ActiveAttempts l \<le> lg_cap BK_ActiveAttempts l"
    using sound l(1) by blast
  moreover obtain k a where a: "co_attempts sample_core = [(k, a)]" "att_state a = AS_Authorized"
    using sample_core_entries(3) by (auto simp: map_eq_Cons_conv)
  moreover have "att_id a = k"
    using sound a(1) by (intro keyedD [of att_id "co_attempts sample_core"]) (auto simp: tbl_find_def)
  ultimately show ?thesis
    using sound sample_core_entries(5) by auto
qed

text \<open>
  C6: An identity handed out to an operation is never handed out again in its domain,
  whatever is called in between: the later counter is strictly greater.
\<close>

theorem identities_never_reissued:
  assumes "allocate kind c = (Inr k, c1)" and "core_reaches shortest c1 c2"
    and "allocate kind c2 = (Inr k', c3)"
  shows "id_counter k < id_counter k' \<and> k \<noteq> k'"
proof -
  have "counters_le (co_ids c1) (co_ids c2)"
    using core_reaches_evolves [OF assms(2)] by (simp add: core_evolves_def)
  then show ?thesis
    using allocations_differ [OF allocate_counters [OF assms(1)] _ allocate_counters [OF assms(3)]] by auto
qed

theorem identities_never_reissued_witness:
  "id_counter (StrongId 0x0400000700000001 :: task_id) < id_counter (StrongId 0x0400000700000002 :: task_id)"
proof -
  let ?c = "make_core 1 example_config"
  let ?c1 = "?c\<lparr>co_ids := (co_ids ?c)\<lparr>al_counters := (replicate 18 0)[4 := 1]\<rparr>\<rparr>"
  let ?c2 = "?c1\<lparr>co_ids := (co_ids ?c)\<lparr>al_counters := (replicate 18 0)[4 := 2]\<rparr>\<rparr>"
  have "allocate IK_Task ?c = (Inr (StrongId 0x0400000700000001 :: task_id), ?c1)"
    "allocate IK_Task ?c1 = (Inr (StrongId 0x0400000700000002 :: task_id), ?c2)"
    by (simp_all add: allocate_def make_core_def example_config_def alloc_next_def make_allocator_def
        kIdKindCount_def kIdSaltMask_def kIdCounterMask_def)
  from identities_never_reissued [OF this(1) core_reaches.start this(2)] show ?thesis by simp
qed

end
