(* ===== verification/Core_Restart.thy ===== *)
theory Core_Restart
  imports Core_Histories
begin

text \<open>
  What a restart guarantees (foundry_recovery.cpp): the coordinator epoch strictly advances, so
  no authority of the previous incarnation is accepted; nothing in flight is resumed; and the
  identities of the previous incarnation are never handed out again.
\<close>

section \<open>Attempts that were in flight\<close>

fun settled_state :: "attempt_state \<Rightarrow> attempt_state" where
  "settled_state AS_Created = AS_Cancelled"
| "settled_state AS_Authorized = AS_Cancelled"
| "settled_state AS_Dispatched = AS_OutcomeUnknown"
| "settled_state AS_Running = AS_OutcomeUnknown"
| "settled_state s = s"

lemma settled_twice [simp]: "settled_state (settled_state s) = settled_state s"
  by (cases s) auto

text \<open>The record an attempt has after the restart: closed if it was in flight, untouched if not.\<close>

definition restarted_attempt :: "coordinator_epoch \<Rightarrow> attempt_record \<Rightarrow> attempt_record" where
  "restarted_attempt epoch a =
    (if att_state a \<in> {AS_Created, AS_Authorized} then
       close_lost_attempt AS_Cancelled ''coordinator restarted before the assignment was dispatched'' epoch
         (a\<lparr>att_holds_reservation := False\<rparr>)
     else if att_state a \<in> {AS_Dispatched, AS_Running} then
       close_lost_attempt AS_OutcomeUnknown
         ''coordinator restarted with the assignment in flight; completion is undetermined'' epoch
         (a\<lparr>att_holds_reservation := False\<rparr>)
     else a)"

lemma restarted_twice [simp]: "restarted_attempt epoch (restarted_attempt epoch a) = restarted_attempt epoch a"
  by (auto simp: restarted_attempt_def close_lost_attempt_def)

lemma dropped_hold: "\<not> att_holds_reservation a \<Longrightarrow> a\<lparr>att_holds_reservation := False\<rparr> = a"
  for a :: attempt_record
  by (cases a) simp

lemma map_option_unchanged [simp]: "map_option id x = x" "map_option (\<lambda>v. v) x = x"
  by (cases x; simp)+

lemma release_result: "fst (release_attempt_reservations k c) = OK"
  by (cases "find_attempt k c"; cases "0 < att_retry_index (the (find_attempt k c))";
      cases "find_ledger (att_population (the (find_attempt k c))) c")
    (simp_all add: release_attempt_reservations_def readA_apply thenA_def bindA_def ignoreA_apply
      write_attempt_def)

lemma on_ledger_frame:
  "co_attempts (snd (on_ledger p operation c)) = co_attempts c"
  "co_epoch (snd (on_ledger p operation c)) = co_epoch c"
  by (simp_all add: on_ledger_def split: option.splits prod.splits)

lemma release_frame:
  "co_epoch (snd (release_attempt_reservations k c)) = co_epoch c"
  "find_attempt j (snd (release_attempt_reservations k c)) =
     map_option (if j = k then (\<lambda>a. a\<lparr>att_holds_reservation := False\<rparr>) else id) (find_attempt j c)"
proof -
  have "co_epoch (snd (release_attempt_reservations k c)) = co_epoch c \<and>
    find_attempt j (snd (release_attempt_reservations k c)) =
     map_option (if j = k then (\<lambda>a. a\<lparr>att_holds_reservation := False\<rparr>) else id) (find_attempt j c)"
  proof (cases "find_attempt k c")
    case None
    then show ?thesis
      by (auto simp: release_attempt_reservations_def readA_apply)
  next
    case (Some a)
    show ?thesis
    proof (cases "att_holds_reservation a")
      case False
      then show ?thesis
        using Some dropped_hold [OF False] by (auto simp: release_attempt_reservations_def readA_apply)
    next
      case True
      then show ?thesis
        using Some
        by (cases "0 < att_retry_index a"; cases "find_ledger (att_population a) c")
          (simp_all add: release_attempt_reservations_def readA_apply thenA_def bindA_def ignoreA_apply
            write_attempt_def on_ledger_frame find_attempt_def tbl.find_adjust)
    qed
  qed
  then show "co_epoch (snd (release_attempt_reservations k c)) = co_epoch c"
    "find_attempt j (snd (release_attempt_reservations k c)) =
     map_option (if j = k then (\<lambda>a. a\<lparr>att_holds_reservation := False\<rparr>) else id) (find_attempt j c)"
    by blast+
qed

lemma release_effect:
  obtains c' where "release_attempt_reservations k c = (OK, c')" and "co_epoch c' = co_epoch c"
    and "\<forall>j. find_attempt j c' =
      map_option (if j = k then (\<lambda>a. a\<lparr>att_holds_reservation := False\<rparr>) else id) (find_attempt j c)"
  by (rule that [of "snd (release_attempt_reservations k c)"])
    (simp add: prod_eq_iff release_result, simp_all only: release_frame simp_thms)

lemma recover_attempt_effect:
  obtains c' where "recover_attempt k c = (OK, c')" and "co_epoch c' = co_epoch c"
    and "\<forall>j. find_attempt j c' =
      map_option (if j = k then restarted_attempt (co_epoch c) else id) (find_attempt j c)"
proof -
  obtain c1 where released: "release_attempt_reservations k c = (OK, c1)" and epoch: "co_epoch c1 = co_epoch c"
    and dropped: "\<forall>j. find_attempt j c1 =
      map_option (if j = k then (\<lambda>a. a\<lparr>att_holds_reservation := False\<rparr>) else id) (find_attempt j c)"
    by (rule release_effect [of k c])
  note result = that
  define closed where "closed t d f =
    co_statistics_update f (co_attempts_update (tbl_adjust k (close_lost_attempt t d (co_epoch c))) c1)" for t d f
  have found: "find_attempt j (closed t d f) =
      map_option (if j = k then (\<lambda>a. close_lost_attempt t d (co_epoch c) (a\<lparr>att_holds_reservation := False\<rparr>)) else id)
        (find_attempt j c)" for j t d f
    using dropped [rule_format, of j]
    by (auto simp: closed_def find_attempt_def tbl.find_adjust option.map_comp comp_def)
  have ended: "thesis" if "recover_attempt k c = (OK, closed t d f)" and "find_attempt k c = Some a"
    and "close_lost_attempt t d (co_epoch c) (a\<lparr>att_holds_reservation := False\<rparr>) = restarted_attempt (co_epoch c) a"
    for t d f a
  proof (rule result)
    show "recover_attempt k c = (OK, closed t d f)" by (rule \<open>recover_attempt k c = _\<close>)
    show "co_epoch (closed t d f) = co_epoch c" by (simp add: closed_def epoch)
    show "\<forall>j. find_attempt j (closed t d f) =
        map_option (if j = k then restarted_attempt (co_epoch c) else id) (find_attempt j c)"
      unfolding found using that(2,3) by simp
  qed
  note run = recover_attempt_def readA_apply flatten_simps write_attempt_def thenA_modify
    thenA_OK [where m = "release_attempt_reservations k", OF released] thenA_OK [OF count_in_result]
    closed_def
  show thesis
  proof (cases "find_attempt k c")
    case None
    show thesis
      by (rule that [of c]) (use None in \<open>simp_all add: run\<close>)
  next
    case (Some a)
    consider "att_state a \<in> {AS_Created, AS_Authorized}" | "att_state a \<in> {AS_Dispatched, AS_Running}"
      | "att_state a \<notin> {AS_Created, AS_Authorized, AS_Dispatched, AS_Running}"
      by blast
    then show thesis
    proof cases
      case 1
      show thesis
        by (rule ended [OF _ Some, where t = AS_Cancelled]) (use 1 Some in \<open>simp_all add: run restarted_attempt_def\<close>)
    next
      case 2
      then have "att_state a \<notin> {AS_Created, AS_Authorized}" by auto
      then show thesis
        by (intro ended [OF _ Some, where t = AS_OutcomeUnknown]) (use 2 Some in \<open>simp_all add: run restarted_attempt_def\<close>)
    next
      case 3
      then have "recover_attempt k c = (OK, c)" "restarted_attempt (co_epoch c) a = a"
        by (simp_all add: run Some restarted_attempt_def)
      then show thesis
        using Some by (intro that [of c]) simp_all
    qed
  qed
qed

lemma recover_attempts_effect:
  obtains c' where "forA ks recover_attempt c = (OK, c')" and "co_epoch c' = co_epoch c"
    and "\<forall>j. find_attempt j c' =
      map_option (if j \<in> set ks then restarted_attempt (co_epoch c) else id) (find_attempt j c)"
proof (induction ks arbitrary: c thesis)
  case Nil
  show ?case by (rule Nil.prems [of c]) (simp_all add:)
next
  case (Cons k ks)
  obtain c1 where step: "recover_attempt k c = (OK, c1)" and e1: "co_epoch c1 = co_epoch c"
    and first: "\<forall>j. find_attempt j c1 =
      map_option (if j = k then restarted_attempt (co_epoch c) else id) (find_attempt j c)"
    by (rule recover_attempt_effect [of k c])
  obtain c2 where loop: "forA ks recover_attempt c1 = (OK, c2)" and e2: "co_epoch c2 = co_epoch c1"
    and others: "\<forall>j. find_attempt j c2 =
      map_option (if j \<in> set ks then restarted_attempt (co_epoch c1) else id) (find_attempt j c1)"
    by (rule Cons.IH [of c1])
  show ?case
  proof (rule Cons.prems [of c2])
    show "forA (k # ks) recover_attempt c = (OK, c2)"
      by (simp add: thenA_OK [where m = "recover_attempt k", OF step] loop)
    show "co_epoch c2 = co_epoch c"
      using e1 e2 by simp
    show "\<forall>j. find_attempt j c2 =
        map_option (if j \<in> set (k # ks) then restarted_attempt (co_epoch c) else id) (find_attempt j c)"
      using others first e1 by (auto simp: option.map_comp comp_def)
  qed
qed

lemma recover_attempts_ok: "fst (forA ks recover_attempt c) = OK"
  by (rule recover_attempts_effect [of ks c]) simp

lemma recover_attempts_find:
  "find_attempt j (snd (forA ks recover_attempt c)) =
    map_option (if j \<in> set ks then restarted_attempt (co_epoch c) else id) (find_attempt j c)"
  by (rule recover_attempts_effect [of ks c]) simp

text \<open>The limits of the ledgers are no part of what a recovery writes.\<close>

definition same_limits :: "foundry_core \<Rightarrow> foundry_core \<Rightarrow> bool" where
  "same_limits c c' \<longleftrightarrow> (\<forall>p. map_option lg_limits (find_ledger p c') = map_option lg_limits (find_ledger p c))"

interpretation limits: bookkeeping_two_state same_limits
  by unfold_locales (simp_all add: same_limits_def find_ledger_def)

lemma limits_release_ledger: "keeps same_limits (on_ledger p (ledger_release kind))"
proof -
  have "lg_limits l' = lg_limits l" if "ledger_release kind l = (st, l')" for l l' st
    using ledger_evolves_operations(3) [of l kind] that by (simp add: ledger_evolves_def)
  then show ?thesis
    by (auto simp: keeps_def step_ok_def same_limits_def find_ledger_def on_ledger_def
        tbl.find_adjust split: option.splits prod.splits)
qed

lemma limits_write_attempt: "keeps same_limits (write_attempt k f)"
  unfolding write_attempt_def by (rule limits.keeps_modify) (simp add: same_limits_def find_ledger_def)

lemma limits_recover_attempts: "same_limits c (snd (forA ks recover_attempt c))"
proof -
  have "keeps same_limits (recover_attempt k)" for k
    unfolding recover_attempt_def release_attempt_reservations_def
    by (intro limits.keeps_structure limits_release_ledger limits_write_attempt)
  then show ?thesis
    using limits.keeps_for [of ks recover_attempt] by (simp add: keeps_def step_ok_def)
qed

section \<open>The frame of the recovery of attempts\<close>

definition restart_frame :: "foundry_core \<Rightarrow> _" where
  "restart_frame c = (co_epoch c, co_ids c, co_workers c, co_candidates c, co_populations c,
     co_selections c, co_retentions c, co_tasks c, co_policies c, co_evaluations c, co_lineage c,
     co_assignments c, co_promotion_requests c, co_config c, co_foundry c, co_run c)"

definition same_frame :: "foundry_core \<Rightarrow> foundry_core \<Rightarrow> bool" where
  "same_frame c c' \<longleftrightarrow> restart_frame c' = restart_frame c"

interpretation restart: bookkeeping_two_state same_frame
  by unfold_locales (simp_all add: same_frame_def restart_frame_def)

lemma frame_on_ledger: "keeps same_frame (on_ledger p operation)"
  by (simp add: keeps_def step_ok_def same_frame_def restart_frame_def on_ledger_def
      split: option.splits prod.splits)

lemma frame_write_attempt: "keeps same_frame (write_attempt k f)"
  unfolding write_attempt_def by (rule restart.keeps_modify) (simp add: same_frame_def restart_frame_def)

lemma frame_release: "keeps same_frame (release_attempt_reservations k)"
  unfolding release_attempt_reservations_def
  by (intro restart.keeps_structure frame_on_ledger frame_write_attempt)

lemma frame_recover_attempt: "keeps same_frame (recover_attempt k)"
  unfolding recover_attempt_def
  by (intro restart.keeps_structure frame_release frame_write_attempt)

lemma frame_recover_attempts: "same_frame c (snd (forA ks recover_attempt c))"
  using restart.keeps_for [of ks recover_attempt] frame_recover_attempt
  by (simp add: keeps_def step_ok_def)

section \<open>The whole recovery\<close>

definition update_all :: "nat list \<Rightarrow> (nat \<Rightarrow> 'a) \<Rightarrow> 'a list \<Rightarrow> 'a list" where
  "update_all ix f xs = foldl (\<lambda>xs i. xs[i := f i]) xs ix"

lemma update_all_simps [simp]:
  "update_all [] f xs = xs" "update_all (i # ix) f xs = update_all ix f (xs[i := f i])"
  "length (update_all ix f xs) = length xs"
  by (simp_all add: update_all_def) (induction ix arbitrary: xs; simp)

lemma nth_update_all:
  "i < length xs \<Longrightarrow> update_all ix f xs ! i = (if i \<in> set ix then f i else xs ! i)"
  by (induction ix arbitrary: xs) (auto simp: nth_list_update)

lemma restore_domains_result:
  assumes "distinct ix" and "\<forall>i \<in> set ix. 0 < i \<and> i < length (al_counters (co_ids c)) \<and> al_counters (co_ids c) ! i = 0"
  shows "forA ix (\<lambda>i. restore_domain i (f i)) c =
    (OK, c\<lparr>co_ids := (co_ids c)\<lparr>al_counters := update_all ix f (al_counters (co_ids c))\<rparr>\<rparr>)"
  using assms
proof (induction ix arbitrary: c)
  case (Cons i ix)
  let ?c = "c\<lparr>co_ids := (co_ids c)\<lparr>al_counters := (al_counters (co_ids c))[i := f i]\<rparr>\<rparr>"
  have "restore_domain i (f i) c = (OK, ?c)"
    using Cons.prems by (simp add: restore_domain_def restore_counter_def)
  then have "thenA (restore_domain i (f i)) n c = n ?c" for n :: "unit core_action"
    by (rule thenA_OK)
  moreover have "\<forall>j \<in> set ix. al_counters (co_ids ?c) ! j = 0"
    using Cons.prems by (auto simp: nth_list_update)
  ultimately show ?case
    using Cons.IH [of ?c] Cons.prems by simp
qed simp

definition restored_counters :: "foundry_snapshot \<Rightarrow> u32 list" where
  "restored_counters s = update_all [1..<kIdKindCount]
     (\<lambda>index. if snap_id_counters s ! index < observed_identity_counters (moved_from s) ! index
       then observed_identity_counters (moved_from s) ! index else snap_id_counters s ! index)
     (replicate kIdKindCount 0)"

definition restored_ids :: "foundry_snapshot \<Rightarrow> u32 \<Rightarrow> id_allocator" where
  "restored_ids s salt = (make_allocator (if snap_id_salt s = 0 then salt else snap_id_salt s))
     \<lparr>al_counters := restored_counters s\<rparr>"

lemma restore_allocator_result:
  "restore_allocator s c = (OK, c\<lparr>co_ids := restored_ids s (al_salt (co_ids c))\<rparr>)"
  unfolding restore_allocator_def Let_def flatten_simps seqA.simps thenA_modify
  by (simp add: thenA_def bindA_def restore_domains_result make_allocator_def
      restored_ids_def restored_counters_def)

definition recover_start :: "foundry_snapshot \<Rightarrow> coordinator_epoch \<Rightarrow> foundry_core \<Rightarrow> foundry_core" where
  "recover_start s epoch c = (adopt_tables s epoch c)
     \<lparr>co_ids := restored_ids s (al_salt (co_ids c)),
      co_workers := map_values (offline_worker epoch) (snap_workers s)\<rparr>"

definition recover_finish :: "foundry_core \<Rightarrow> foundry_core" where
  "recover_finish c =
    (let c1 = c\<lparr>co_candidates := map_values (recovered_candidate c) (co_candidates c)\<rparr>;
         c2 = co_selections_update (tbl_retain (\<lambda>d. sd_state d = SD_Committed)) c1;
         c3 = co_retentions_update (tbl_retain rd_committed) c2;
         c4 = c3\<lparr>co_populations := map_values (recovered_population c3) (co_populations c3)\<rparr>
     in c4\<lparr>co_revision := co_revision c4 + 1\<rparr>)"

definition same_installation :: "foundry_snapshot \<Rightarrow> foundry_core \<Rightarrow> bool" where
  "same_installation s c \<longleftrightarrow>
     \<not> (id_valid (snap_foundry s) \<and> id_valid (co_foundry c) \<and> snap_foundry s \<noteq> co_foundry c) \<and>
     \<not> (id_valid (snap_run s) \<and> id_valid (co_run c) \<and> snap_run s \<noteq> co_run c)"

lemma adopted:
  "co_epoch (adopt_tables s epoch c) = epoch" "co_ids (adopt_tables s epoch c) = co_ids c"
  "co_workers (adopt_tables s epoch c) = snap_workers s"
  by (simp_all add: adopt_tables_def)

lemma recover_eq:
  assumes "same_installation s c0" and "next_epoch_after s = Some epoch"
  shows "recover s c0 = (OK, recover_finish
    (snd (forA (tbl_keys (snap_attempts s)) recover_attempt (recover_start s epoch c0))))"
proof -
  let ?c1 = "recover_start s epoch c0"
  have attempts: "tbl_keys (co_attempts ?c1) = tbl_keys (snap_attempts s)"
    by (simp add: recover_start_def adopt_tables_def)
  have loop: "forA (tbl_keys (snap_attempts s)) recover_attempt ?c1 =
      (OK, snd (forA (tbl_keys (snap_attempts s)) recover_attempt ?c1))"
    using recover_attempts_ok [of "tbl_keys (snap_attempts s)" ?c1] by (simp add: prod_eq_iff)
  have "readA (\<lambda>c. forA (tbl_keys (co_attempts c)) recover_attempt) ?c1 =
      (OK, snd (forA (tbl_keys (snap_attempts s)) recover_attempt ?c1))"
    using loop attempts by (simp add: readA_apply)
  note loop = thenA_OK [where m = "readA (\<lambda>c. forA (tbl_keys (co_attempts c)) recover_attempt)", OF this]
  have guards: "(\<not> (id_valid (snap_foundry s) \<and> id_valid (co_foundry c0) \<and> snap_foundry s \<noteq> co_foundry c0)) = True"
    "(\<not> (id_valid (snap_run s) \<and> id_valid (co_run c0) \<and> snap_run s \<noteq> co_run c0)) = True"
    using assms(1) by (auto simp: same_installation_def)
  show ?thesis
    unfolding recover_def readA_apply [of _ c0] guards assms(2) found_or_simps
    by (simp add: flatten_simps thenA_modify adopted
        thenA_OK [where m = "restore_allocator s", OF restore_allocator_result]
        recover_start_def [symmetric] loop thenA_OK [OF touch_result] recover_finish_def Let_def)
qed

lemma recover_success:
  assumes "recover s c0 = (OK, c)"
  obtains epoch where "same_installation s c0" and "next_epoch_after s = Some epoch"
    and "c = recover_finish (snd (forA (tbl_keys (snap_attempts s)) recover_attempt (recover_start s epoch c0)))"
proof -
  have same: "same_installation s c0"
    using assms
    by (auto simp: recover_def readA_apply same_installation_def thenA_def bindA_def guardA_result split: if_splits)
  then obtain epoch where epoch: "next_epoch_after s = Some epoch"
    using assms
    by (cases "next_epoch_after s")
      (auto simp: recover_def readA_apply same_installation_def thenA_def bindA_def guardA_result)
  then show thesis
    using that [OF same epoch] assms recover_eq [OF same epoch] by simp
qed

lemma next_epoch_greater: "next_epoch_after s = Some epoch \<Longrightarrow> snap_epoch s < epoch"
  by (cases "snap_epoch s")
    (auto simp: next_epoch_after_def epoch_valid_def less_coordinator_epoch_def split: if_splits dest: epoch_next_greater)

lemma find_map_values: "tbl_find (map_values f t) k = map_option f (tbl_find t k)"
  by (induction t) (auto simp: map_values_def tbl_find_def)

lemma keys_map_values [simp]: "tbl_keys (map_values f t) = tbl_keys t"
  by (induction t) (auto simp: map_values_def tbl_keys_def)

text \<open>The tables after a recovery, from those of the snapshot.\<close>

lemma recovered_tables:
  assumes "recover s c0 = (OK, c)"
  shows "snap_epoch s < co_epoch c"
    and "co_ids c = restored_ids s (al_salt (co_ids c0))"
    and "co_workers c = map_values (offline_worker (co_epoch c)) (snap_workers s)"
    and "find_attempt k c = map_option (restarted_attempt (co_epoch c)) (tbl_find (snap_attempts s) k)"
    and "co_candidates c = map_values (recovered_candidate c) (snap_candidates s)"
    and "co_populations c = map_values (recovered_population c) (snap_populations s)"
    and "co_selections c = tbl_retain (\<lambda>d. sd_state d = SD_Committed) (snap_selections s)"
    and "co_retentions c = tbl_retain rd_committed (snap_retentions s)"
    and "co_tasks c = snap_tasks s" and "co_policies c = snap_policies s"
    and "co_evaluations c = snap_evaluations s" and "co_lineage c = snap_lineage s"
    and "co_assignments c = snap_assignments s"
    and "co_promotion_requests c = snap_promotion_requests s"
    and "map_option lg_limits (find_ledger p c) = map_option lg_limits (tbl_find (snap_ledgers s) p)"
proof -
  from assms obtain epoch where epoch: "next_epoch_after s = Some epoch"
    and c: "c = recover_finish (snd (forA (tbl_keys (snap_attempts s)) recover_attempt (recover_start s epoch c0)))"
    by (rule recover_success)
  let ?c1 = "recover_start s epoch c0"
  let ?c2 = "snd (forA (tbl_keys (snap_attempts s)) recover_attempt ?c1)"
  have "restart_frame ?c2 = restart_frame ?c1"
    using frame_recover_attempts [of ?c1 "tbl_keys (snap_attempts s)"] by (simp add: same_frame_def)
  then have frame: "co_epoch ?c2 = epoch" "co_ids ?c2 = restored_ids s (al_salt (co_ids c0))"
    "co_workers ?c2 = map_values (offline_worker epoch) (snap_workers s)"
    "co_candidates ?c2 = snap_candidates s" "co_populations ?c2 = snap_populations s"
    "co_selections ?c2 = snap_selections s" "co_retentions ?c2 = snap_retentions s"
    "co_tasks ?c2 = snap_tasks s" "co_policies ?c2 = snap_policies s"
    "co_evaluations ?c2 = snap_evaluations s" "co_lineage ?c2 = snap_lineage s"
    "co_assignments ?c2 = snap_assignments s" "co_promotion_requests ?c2 = snap_promotion_requests s"
    by (simp_all add: restart_frame_def recover_start_def adopt_tables_def)
  have finish: "co_epoch c = co_epoch ?c2" "co_ids c = co_ids ?c2" "co_workers c = co_workers ?c2"
    "co_attempts c = co_attempts ?c2" "co_ledgers c = co_ledgers ?c2"
    "co_selections c = tbl_retain (\<lambda>d. sd_state d = SD_Committed) (co_selections ?c2)"
    "co_retentions c = tbl_retain rd_committed (co_retentions ?c2)"
    "co_tasks c = co_tasks ?c2" "co_policies c = co_policies ?c2"
    "co_evaluations c = co_evaluations ?c2" "co_lineage c = co_lineage ?c2"
    "co_assignments c = co_assignments ?c2" "co_promotion_requests c = co_promotion_requests ?c2"
    unfolding c recover_finish_def Let_def by auto
  have "recovered_candidate c = recovered_candidate ?c2"
    by (intro ext) (simp add: recovered_candidate_def finish(1,4))
  then show "co_candidates c = map_values (recovered_candidate c) (snap_candidates s)"
    using frame(4) unfolding c recover_finish_def Let_def by simp
  define before where "before = co_retentions_update (tbl_retain rd_committed)
    (co_selections_update (tbl_retain (\<lambda>d. sd_state d = SD_Committed))
      (?c2\<lparr>co_candidates := map_values (recovered_candidate ?c2) (co_candidates ?c2)\<rparr>))"
  have "recovered_population c = recovered_population before"
    by (intro ext) (simp add: recovered_population_def before_def finish(1,6) cong: if_cong)
  moreover have "co_populations c = map_values (recovered_population before) (co_populations ?c2)"
    unfolding c recover_finish_def Let_def before_def by simp
  ultimately show "co_populations c = map_values (recovered_population c) (snap_populations s)"
    using frame(5) by simp
  have "co_epoch ?c1 = epoch" "find_attempt k ?c1 = tbl_find (snap_attempts s) k"
    by (simp_all add: recover_start_def adopt_tables_def find_attempt_def)
  then have "find_attempt k ?c2 = map_option (restarted_attempt epoch) (tbl_find (snap_attempts s) k)"
    unfolding recover_attempts_find by (auto simp: tbl.set_keys)
  then show "find_attempt k c = map_option (restarted_attempt (co_epoch c)) (tbl_find (snap_attempts s) k)"
    using finish(1,4) frame(1) by (simp add: find_attempt_def)
  have "same_limits ?c1 ?c2"
    by (rule limits_recover_attempts)
  moreover have "find_ledger p ?c1 = tbl_find (snap_ledgers s) p" "find_ledger p c = find_ledger p ?c2"
    by (simp_all add: recover_start_def adopt_tables_def find_ledger_def finish(5))
  ultimately show "map_option lg_limits (find_ledger p c) = map_option lg_limits (tbl_find (snap_ledgers s) p)"
    by (simp add: same_limits_def)
  show "snap_epoch s < co_epoch c"
    using next_epoch_greater [OF epoch] finish frame by simp
  show "co_ids c = restored_ids s (al_salt (co_ids c0))"
    "co_workers c = map_values (offline_worker (co_epoch c)) (snap_workers s)"
    "co_selections c = tbl_retain (\<lambda>d. sd_state d = SD_Committed) (snap_selections s)"
    "co_retentions c = tbl_retain rd_committed (snap_retentions s)"
    "co_tasks c = snap_tasks s" "co_policies c = snap_policies s"
    "co_evaluations c = snap_evaluations s" "co_lineage c = snap_lineage s"
    "co_assignments c = snap_assignments s" "co_promotion_requests c = snap_promotion_requests s"
    by (simp_all only: finish frame)
qed

section \<open>Identities across a restart\<close>

lemma note_identities_other:
  "id_kind_ordinal kind \<noteq> i \<Longrightarrow> note_identities kind ks observed ! i = observed ! i"
proof (induction ks arbitrary: observed)
  case (Cons k ks)
  then have "bump_identity_counter kind (raw k) observed ! i = observed ! i"
    by (simp add: bump_identity_counter_def Let_def)
  then show ?case
    using Cons by (simp add: note_identities_def)
qed (simp add: note_identities_def)

lemma note_no_identities [simp]: "note_identities kind [] observed = observed"
  by (simp add: note_identities_def)

lemma observed_after_the_move:
  assumes "kind \<noteq> IK_Candidate"
  shows "observed_identity_counters (moved_from s) ! id_kind_ordinal kind = 0"
proof -
  have "id_kind_ordinal IK_Candidate \<noteq> id_kind_ordinal kind" "id_kind_ordinal kind < kIdKindCount"
    using assms by (cases kind; simp add: kIdKindCount_def)+
  then show ?thesis
    by (simp add: observed_identity_counters_def moved_from_def tbl_keys_def note_identities_other)
qed

lemma restored_counter:
  assumes "0 < i" and "i < kIdKindCount"
  shows "al_counters (restored_ids s salt) ! i =
    max (snap_id_counters s ! i) (observed_identity_counters (moved_from s) ! i)"
  using assms by (auto simp: restored_ids_def restored_counters_def nth_update_all max_def)

lemma snapshot_counters:
  "i < length (al_counters (co_ids c)) \<Longrightarrow> al_counters (co_ids c) ! i \<le> snap_id_counters (snapshot c) ! i"
  by (auto simp: snapshot_def at_least_observed_def)

lemma restored_counters_length [simp]: "length (al_counters (restored_ids s salt)) = kIdKindCount"
  by (simp add: restored_ids_def restored_counters_def)

section \<open>Properties\<close>

text \<open>
  C7: A successful recovery strictly advances the coordinator epoch beyond that of the
  snapshot, so every session authority issued up to then is refused as stale, and every worker
  is offline and holds no attempt.
\<close>

theorem recovery_withdraws_authority:
  assumes "recover s c0 = (OK, c)"
  shows "snap_epoch s < co_epoch c \<and>
    (\<forall>session. wsa_epoch session \<le> snap_epoch s \<longrightarrow>
       check_worker_session session c = Inl E_StaleCoordinatorEpoch) \<and>
    (\<forall>k w. find_worker k c = Some w \<longrightarrow>
       wk_state w = WS_Offline \<and> wk_active_attempt w = null_id \<and> wk_active_assignment w = null_id)"
proof -
  note recovered = recovered_tables [OF assms]
  have "wk_state w = WS_Offline \<and> wk_active_attempt w = null_id \<and> wk_active_assignment w = null_id"
    if "find_worker k c = Some w" for k w
    using that recovered(3)
    by (auto simp: find_worker_def find_map_values offline_worker_def)
  moreover have "check_worker_session session c = Inl E_StaleCoordinatorEpoch"
    if "wsa_epoch session \<le> snap_epoch s" for session
    using that recovered(1)
    by (auto simp: check_worker_session_def check_coordinator_epoch_def require_def)
  ultimately show ?thesis
    using recovered(1) by blast
qed

lemma example_recovers:
  obtains c where "recover (snapshot example_core) (make_core 1 example_config) = (OK, c)"
proof -
  have "same_installation (snapshot example_core) (make_core 1 example_config)"
    "next_epoch_after (snapshot example_core) = Some (CoordinatorEpoch 2)"
    by (simp_all add: same_installation_def snapshot_def raw_snapshot_def example_core_def make_core_def
        example_config_def next_epoch_after_def epoch_valid_def epoch_next_def)
  from recover_eq [OF this] show thesis by (rule that)
qed

theorem recovery_withdraws_authority_witness:
  "\<exists>c. recover (snapshot example_core) (make_core 1 example_config) = (OK, c) \<and>
     CoordinatorEpoch 1 < co_epoch c"
proof -
  obtain c where c: "recover (snapshot example_core) (make_core 1 example_config) = (OK, c)"
    by (rule example_recovers)
  have "snap_epoch (snapshot example_core) = CoordinatorEpoch 1"
    by (simp add: snapshot_def raw_snapshot_def example_core_def make_core_def example_config_def epoch_valid_def)
  with recovery_withdraws_authority [OF c] c show ?thesis by auto
qed

text \<open>
  How one record differs after the restart. An attempt that was in flight is closed, holds no
  reservation and keeps its identities; any other attempt is untouched. A candidate keeps
  everything but its state, the epoch of that change and the reason: one being produced goes
  back to its slot unless an attempt of the recovered table is still pending for it, a
  published one or one under evaluation waits for revalidation. A population that had started
  and had not ended waits for revalidation under the same contract and with the same members;
  any other is untouched.
\<close>

definition attempt_pending_for :: "candidate_id \<Rightarrow> foundry_core \<Rightarrow> bool" where
  "attempt_pending_for k c \<longleftrightarrow> (\<exists>(_, a) \<in> set (co_attempts c).
     att_candidate a = k \<and> \<not> attempt_state_is_terminal (att_state a))"

definition attempt_restarts :: "foundry_core \<Rightarrow> attempt_record \<Rightarrow> attempt_record \<Rightarrow> bool" where
  "attempt_restarts c a a' \<longleftrightarrow>
     att_identity a' = att_identity a \<and> att_state a' = settled_state (att_state a) \<and>
     (if att_state a \<in> {AS_Created, AS_Authorized, AS_Dispatched, AS_Running}
      then \<not> att_holds_reservation a' \<and> att_terminal_epoch a' = co_epoch c
      else a' = a)"

definition candidate_restarts :: "foundry_core \<Rightarrow> candidate_record \<Rightarrow> candidate_record \<Rightarrow> bool" where
  "candidate_restarts c r r' \<longleftrightarrow>
     r'\<lparr>cand_state := cand_state r, cand_state_changed_epoch := cand_state_changed_epoch r,
       cand_failure_reason := cand_failure_reason r\<rparr> = r \<and>
     cand_state r' =
       (if cand_state r \<in> {CS_Published, CS_Evaluating} then CS_RevalidationRequired
        else if cand_state r \<in> {CS_Registered, CS_Producing} \<and> \<not> attempt_pending_for (cand_id r) c
          then CS_Registered
        else cand_state r) \<and>
     (cand_state r \<in> {CS_Registered, CS_Producing, CS_Published, CS_Evaluating} \<or> r' = r)"

definition population_restarts :: "foundry_core \<Rightarrow> population_record \<Rightarrow> population_record \<Rightarrow> bool" where
  "population_restarts c p p' \<longleftrightarrow>
     (if population_state_is_terminal (pop_state p) \<or> pop_state p = PS_Created then p' = p
      else pop_state p' = PS_RevalidationRequired \<and> pop_state_epoch p' = co_epoch c \<and>
        pop_contract p' = pop_contract p \<and> pop_gen p' = pop_gen p \<and>
        pop_candidates p' = pop_candidates p \<and>
        (if gen_valid (pop_committed_selection p) \<and> tbl_find (co_selections c) (pop_id p) = None
         then pop_committed_selection p' = gen_none \<and> \<not> pop_retention_committed p'
         else pop_committed_selection p' = pop_committed_selection p \<and>
           pop_retention_committed p' = pop_retention_committed p))"

lemma rel_option_map_option: "(\<And>v. R v (f v)) \<Longrightarrow> rel_option R x (map_option f x)"
  by (cases x) simp_all

lemma restarts_attempt: "attempt_restarts c a (restarted_attempt (co_epoch c) a)"
  by (cases "att_state a")
    (simp_all add: attempt_restarts_def restarted_attempt_def close_lost_attempt_def att_identity_def)

lemma restarts_candidate: "candidate_restarts c r (recovered_candidate c r)"
proof -
  have "list_ex (\<lambda>att. att_candidate att = cand_id r \<and> \<not> attempt_state_is_terminal (att_state att))
      (map snd (co_attempts c)) = attempt_pending_for (cand_id r) c"
    by (force simp: attempt_pending_for_def list_ex_iff)
  then show ?thesis
    by (cases "cand_state r") (auto simp: candidate_restarts_def recovered_candidate_def)
qed

lemma restarts_population: "population_restarts c p (recovered_population c p)"
  by (auto simp: population_restarts_def recovered_population_def Let_def pop_contract_def)

text \<open>
  C8: A successful recovery drops no record and resumes nothing that was in flight. Every
  attempt, candidate and population of the snapshot is found again under its identity, and
  differs from what it was as \<open>attempt_restarts\<close>, \<open>candidate_restarts\<close> and
  \<open>population_restarts\<close> say: an undispatched attempt is cancelled and a dispatched or running
  one has an unknown outcome, in both cases without its reservation; a published candidate, or
  one under evaluation, waits for revalidation; a population that had started and had not
  ended waits for revalidation; all others are untouched, but a candidate in production, which
  goes back to its slot. Of the decisions exactly the committed ones survive; tasks, policies,
  assignments, evidence, promotion requests and lineage are those of the snapshot, and every
  ledger keeps its limits.
\<close>

theorem recovery_resumes_nothing:
  assumes "recover s c0 = (OK, c)"
  shows "rel_option (attempt_restarts c) (tbl_find (snap_attempts s) k1) (find_attempt k1 c) \<and>
    rel_option (candidate_restarts c) (tbl_find (snap_candidates s) k2) (find_candidate k2 c) \<and>
    rel_option (population_restarts c) (tbl_find (snap_populations s) k3) (find_population k3 c) \<and>
    co_selections c = filter (\<lambda>(_, d). sd_state d = SD_Committed) (snap_selections s) \<and>
    co_retentions c = filter (\<lambda>(_, d). rd_committed d) (snap_retentions s) \<and>
    co_tasks c = snap_tasks s \<and> co_policies c = snap_policies s \<and>
    co_assignments c = snap_assignments s \<and> co_evaluations c = snap_evaluations s \<and>
    co_promotion_requests c = snap_promotion_requests s \<and> co_lineage c = snap_lineage s \<and>
    map_option lg_limits (find_ledger k3 c) = map_option lg_limits (tbl_find (snap_ledgers s) k3)"
proof -
  note recovered = recovered_tables [OF assms]
  have "rel_option (attempt_restarts c) (tbl_find (snap_attempts s) k1) (find_attempt k1 c)"
    unfolding recovered(4) by (rule rel_option_map_option) (rule restarts_attempt)
  moreover have "rel_option (candidate_restarts c) (tbl_find (snap_candidates s) k2) (find_candidate k2 c)"
    unfolding find_candidate_def by (subst recovered(5)) (simp only: find_map_values rel_option_map_option restarts_candidate)
  moreover have "rel_option (population_restarts c) (tbl_find (snap_populations s) k3) (find_population k3 c)"
    unfolding find_population_def by (subst recovered(6)) (simp only: find_map_values rel_option_map_option restarts_population)
  ultimately show ?thesis
    using recovered(7-15) by (simp add: tbl_retain_def)
qed

theorem recovery_resumes_nothing_witness:
  "\<exists>c a r p. recover (snapshot example_core) (make_core 1 example_config) = (OK, c) \<and>
     find_attempt (StrongId 4) c = Some a \<and> att_state a = AS_OutcomeUnknown \<and>
     find_candidate (StrongId 3) c = Some r \<and> cand_state r \<in> {CS_Registered, CS_Producing} \<and>
     find_population (StrongId 2) c = Some p \<and> pop_state p = PS_RevalidationRequired \<and>
     pop_candidates p = [StrongId 3]"
proof -
  obtain c where c: "recover (snapshot example_core) (make_core 1 example_config) = (OK, c)"
    by (rule example_recovers)
  have "tbl_find (snap_attempts (snapshot example_core)) (StrongId 4) = Some example_attempt"
    "tbl_find (snap_candidates (snapshot example_core)) (StrongId 3) = Some example_candidate"
    "tbl_find (snap_populations (snapshot example_core)) (StrongId 2) = Some example_population"
    using example_entries
    by (simp_all add: snapshot_def raw_snapshot_def find_attempt_def find_candidate_def find_population_def)
  with recovery_resumes_nothing [OF c, of "StrongId 4" "StrongId 3" "StrongId 2"] c show ?thesis
    by (auto simp: option_rel_Some1 attempt_restarts_def candidate_restarts_def population_restarts_def
        example_attempt_def example_candidate_def example_population_def population_state_is_terminal_def)
qed

text \<open>
  C9: An identity handed out before a snapshot is never handed out again in its domain after
  the recovery from that snapshot, whatever was called before and after the restart.
\<close>

theorem identities_never_reissued_after_restart:
  assumes "allocate kind c = (Inr k, c1)" and "core_reaches shortest c1 c2"
    and "recover (snapshot c2) c0 = (OK, c3)" and "core_reaches shortest c3 c4"
    and "allocate kind c4 = (Inr k', c5)"
  shows "id_counter k < id_counter k' \<and> k \<noteq> k'"
proof -
  let ?i = "id_kind_ordinal kind"
  note first = alloc_next_OK_cases [OF allocate_counters [OF assms(1)]]
    and last = alloc_next_OK_cases [OF allocate_counters [OF assms(5)]]
  have le: "counters_le (co_ids c1) (co_ids c2)" "counters_le (co_ids c3) (co_ids c4)"
    using core_reaches_evolves assms(2,4) by (auto simp: core_evolves_def)
  have i: "0 < ?i" "?i < kIdKindCount"
    using first(1) id_kind_ordinal_less by (simp_all add: kIdKindCount_def)
  have ids: "co_ids c3 = restored_ids (snapshot c2) (al_salt (co_ids c0))"
    by (rule recovered_tables(2) [OF assms(3)])
  have "?i < length (al_counters (co_ids c1))" "id_counter k = al_counters (co_ids c1) ! ?i"
    using first(2,5,7) by auto
  then have "?i < length (al_counters (co_ids c2))" "id_counter k \<le> al_counters (co_ids c2) ! ?i"
    using le(1) by (auto simp: counters_le_def)
  then have "id_counter k \<le> snap_id_counters (snapshot c2) ! ?i"
    using snapshot_counters order_trans by blast
  also have "\<dots> \<le> al_counters (co_ids c3) ! ?i"
    by (simp add: ids restored_counter i)
  also have "\<dots> \<le> al_counters (co_ids c4) ! ?i"
    using le(2) i by (auto simp: counters_le_def ids)
  also have "\<dots> < id_counter k'"
    using last(3,5) u32_inc(1) by simp
  finally show ?thesis by auto
qed

definition numbered_core :: foundry_core where
  "numbered_core = (make_core 1 example_config)\<lparr>co_ids := \<lparr>al_salt = 7, al_counters = (replicate 18 0)[4 := 1]\<rparr>\<rparr>"

lemma numbered_same:
  "same_installation (snapshot numbered_core) (make_core 1 example_config)"
  "next_epoch_after (snapshot numbered_core) = Some (CoordinatorEpoch 2)"
  by (simp_all add: same_installation_def snapshot_def raw_snapshot_def numbered_core_def make_core_def
      example_config_def next_epoch_after_def epoch_valid_def epoch_next_def)

lemma numbered_restored:
  assumes "co_ids c3 = restored_ids (snapshot numbered_core) salt"
  shows "al_counters (co_ids c3) ! 4 = 1" and "al_salt (co_ids c3) = 7"
    and "length (al_counters (co_ids c3)) = 18"
proof -
  have "snap_id_counters (snapshot numbered_core) ! 4 = 1" "snap_id_salt (snapshot numbered_core) = 7"
    by (simp_all add: snapshot_def raw_snapshot_def numbered_core_def make_core_def example_config_def
        kIdKindCount_def observed_identity_counters_def tbl_keys_def at_least_observed_def)
  then show "al_counters (co_ids c3) ! 4 = 1" "al_salt (co_ids c3) = 7" "length (al_counters (co_ids c3)) = 18"
    using restored_counter [of 4 "snapshot numbered_core" salt] observed_after_the_move [of IK_Task "snapshot numbered_core"]
    by (simp_all add: assms kIdKindCount_def, simp add: restored_ids_def make_allocator_def kIdSaltMask_def)
qed

theorem identities_never_reissued_after_restart_witness:
  "id_counter (StrongId 0x0400000700000001 :: task_id) < id_counter (StrongId 0x0400000700000002 :: task_id)"
proof -
  let ?c = "make_core 1 example_config"
  obtain c3 where c3: "recover (snapshot numbered_core) ?c = (OK, c3)"
    using recover_eq [OF numbered_same] by blast
  have "allocate IK_Task ?c = (Inr (StrongId 0x0400000700000001 :: task_id), numbered_core)"
    by (simp add: allocate_def numbered_core_def make_core_def example_config_def alloc_next_def
        make_allocator_def kIdKindCount_def kIdSaltMask_def kIdCounterMask_def)
  moreover have "\<exists>c4. allocate IK_Task c3 = (Inr (StrongId 0x0400000700000002 :: task_id), c4)"
    using numbered_restored [OF recovered_tables(2) [OF c3]]
    by (simp add: allocate_def alloc_next_def kIdSaltMask_def kIdCounterMask_def)
  ultimately show ?thesis
    using identities_never_reissued_after_restart [OF _ core_reaches.start c3 core_reaches.start] by blast
qed

text \<open>
  C10: What \<^verbatim>\<open>recover\<close> seeds a domain with is the declared counter alone, for every domain but
  that of the candidates: the tables have been moved out of the snapshot before the counters
  of the restored identities are observed, so an identity the tables hold does not raise them.
\<close>

theorem recovery_seeds_declared_counters_only:
  assumes "recover s c0 = (OK, c)" and "kind \<noteq> IK_Candidate" and "kind \<noteq> IK_None"
  shows "peek_counter (id_kind_ordinal kind) (co_ids c) = snap_id_counters s ! id_kind_ordinal kind"
proof -
  have i: "0 < id_kind_ordinal kind" "id_kind_ordinal kind < kIdKindCount"
    using assms(3) by (cases kind; simp add: kIdKindCount_def)+
  have "al_counters (co_ids c) ! id_kind_ordinal kind = snap_id_counters s ! id_kind_ordinal kind"
    unfolding recovered_tables(2) [OF assms(1)]
    using restored_counter [OF i] observed_after_the_move [OF assms(2)] by simp
  moreover have "length (al_counters (co_ids c)) = kIdKindCount"
    by (simp add: recovered_tables(2) [OF assms(1)])
  ultimately show ?thesis
    using i by (simp add: peek_counter_def)
qed

definition embedder_snapshot :: foundry_snapshot where
  "embedder_snapshot = (snapshot (make_core 1 example_config))
     \<lparr>snap_populations := [(StrongId 0x0300000700000001, default_population)]\<rparr>"

theorem recovery_seeds_declared_counters_only_witness:
  "\<exists>c. recover embedder_snapshot (make_core 1 example_config) = (OK, c) \<and>
     find_population (StrongId 0x0300000700000001) c \<noteq> None \<and>
     peek_counter (id_kind_ordinal IK_Population) (co_ids c) = 0"
proof -
  have "same_installation embedder_snapshot (make_core 1 example_config)"
    "next_epoch_after embedder_snapshot = Some (CoordinatorEpoch 2)"
    by (simp_all add: same_installation_def snapshot_def raw_snapshot_def embedder_snapshot_def make_core_def
        example_config_def next_epoch_after_def epoch_valid_def epoch_next_def)
  then obtain c where c: "recover embedder_snapshot (make_core 1 example_config) = (OK, c)"
    using recover_eq by blast
  have "snap_id_counters embedder_snapshot ! 3 = 0"
    by (simp add: embedder_snapshot_def snapshot_def raw_snapshot_def at_least_observed_def make_core_def
        example_config_def make_allocator_def kIdKindCount_def observed_identity_counters_def tbl_keys_def)
  moreover have "find_population (StrongId 0x0300000700000001) c \<noteq> None"
    using recovered_tables(6) [OF c]
    by (auto simp: find_population_def find_map_values embedder_snapshot_def) (simp add: tbl_find_def)
  ultimately show ?thesis
    using recovery_seeds_declared_counters_only [OF c, of IK_Population] c by simp
qed

end
