(* ===== verification/Wire.thy ===== *)
theory Wire
  imports Identity Binary64 Encoding Hashing
begin

text \<open>
  The byte layer of the wire protocol (protocol.hpp, protocol.cpp): little-endian primitives,
  \<^verbatim>\<open>ByteWriter\<close> and \<^verbatim>\<open>ByteReader\<close>, bounded element counts. A writer is a function from the
  value to the bytes it appends; a reader is an action on the bytes that are left, so that
  \<^verbatim>\<open>data_.substr(offset_)\<close> is the state and every early return is an error of the action.

  The interface \<open>codec\<close> is what every encoder and decoder pair of the protocol promises: what
  was written is read back and the rest is left alone, nothing else is accepted, a rejection
  is one of four codes, and an encoding is at least as long as the decoder assumes when it
  bounds an element count.
\<close>

named_theorems wire_simps "reading back what was written, and the lengths of encodings"
named_theorems wire_defs "the definitions of the writers, the readers and the values they carry"
named_theorems wire_exact "what a reader accepted is what a writer writes"
named_theorems wire_rejects "readers fail with the rejections of the decoding boundary only"

section \<open>Little-endian primitives\<close>

definition byte_char :: "u64 \<Rightarrow> char" where
  "byte_char w = char_of (unat (w AND 0xFF))"

definition little_endian :: "nat \<Rightarrow> u64 \<Rightarrow> string" where
  "little_endian width wide = map (\<lambda>i. byte_char (drop_bit (8 * i) wide)) [0..<width]"

definition load_little_endian :: "string \<Rightarrow> u64" where
  "load_little_endian bytes =
    fold (\<lambda>(i, c) v. v OR push_bit (8 * i) (of_char c)) (enumerate 0 bytes) 0"

lemma length_little_endian [simp]: "length (little_endian n w) = n"
  by (simp add: little_endian_def)

lemma little_endian_0 [simp]: "little_endian 0 w = []"
  by (simp add: little_endian_def)

lemma little_endian_Suc:
  "little_endian (Suc n) w = byte_char w # little_endian n (drop_bit 8 w)"
  by (simp add: little_endian_def map_upt_Suc drop_bit_drop_bit add.commute del: upt_Suc)

lemma load_from:
  "fold (\<lambda>(i, c) v. v OR push_bit (8 * i) (of_char c)) (enumerate k cs) v =
   v OR push_bit (8 * k) (load_little_endian cs)"
proof (induction cs arbitrary: k v)
  case Nil
  then show ?case by (simp add: load_little_endian_def)
next
  case (Cons c cs)
  have "load_little_endian (c # cs) = of_char c OR push_bit 8 (load_little_endian cs)"
    using Cons.IH [of 1 "of_char c"] by (simp add: load_little_endian_def)
  then show ?case
    by (simp add: Cons.IH push_bit_or or.assoc add.commute)
qed

lemma load_Nil [simp]: "load_little_endian [] = 0"
  by (simp add: load_little_endian_def)

lemma load_Cons: "load_little_endian (c # cs) = of_char c OR push_bit 8 (load_little_endian cs)"
  using load_from [of 1 cs "of_char c"] by (simp add: load_little_endian_def)

lemma of_char_word: "(of_char c :: 'a::len word) = word_of_nat (of_char c)"
  by (rule of_nat_of_char [symmetric])

lemma unat_of_char: "unat (of_char c :: u64) = of_char c"
proof -
  have small: "(of_char c :: nat) < 256"
    using mod_less_divisor [of 256 "of_char c"] by (simp only: of_char_mod_256)
  have "(of_char c :: nat) mod 18446744073709551616 = of_char c"
    by (rule mod_less, rule less_trans [OF small]) simp
  then show ?thesis
    unfolding of_char_word [where 'a = 64] unat_of_nat by simp
qed

lemma take_bit_of_char: "take_bit 8 (of_char c :: u64) = of_char c"
  by (rule word_unat_eq_iff [THEN iffD2])
    (simp only: unsigned_take_bit_eq unat_of_char, simp add: take_bit_eq_mod)

lemma low_byte: "w AND 0xFF = take_bit 8 w" for w :: u64
  by (simp add: take_bit_eq_mask mask_eq_exp_minus_1)

lemma of_byte_char: "(of_char (byte_char w) :: u64) = take_bit 8 w"
proof -
  have "(of_char (byte_char w) :: nat) = unat (take_bit 8 w) mod 256"
    by (simp add: byte_char_def low_byte)
  also have "\<dots> = unat (take_bit 8 (take_bit 8 w))"
    by (simp only: unsigned_take_bit_eq) (simp add: take_bit_eq_mod)
  finally have "(of_char (byte_char w) :: nat) = unat (take_bit 8 w)"
    by simp
  then show ?thesis by (simp only: of_char_word) simp
qed

lemma byte_char_of_char: "byte_char (of_char c OR push_bit 8 w) = c"
proof -
  have "byte_char (of_char c OR push_bit 8 w) = byte_char (of_char c)"
    by (simp add: byte_char_def low_byte take_bit_push_bit take_bit_of_char)
  also have "\<dots> = c"
    by (simp add: byte_char_def low_byte take_bit_of_char unat_of_char)
  finally show ?thesis .
qed

lemma load_little_endian_write: "load_little_endian (little_endian n w) = take_bit (8 * n) w"
proof (induction n arbitrary: w)
  case 0
  then show ?case by simp
next
  case (Suc n)
  have "take_bit 8 w OR push_bit 8 (take_bit (8 * n) (drop_bit 8 w)) = take_bit (8 * Suc n) w"
    by (rule bit_eqI) (auto simp: bit_simps)
  then show ?case by (simp add: little_endian_Suc load_Cons of_byte_char Suc.IH)
qed

lemma load_bound: "take_bit (8 * length cs) (load_little_endian cs) = load_little_endian cs"
proof (induction cs)
  case Nil
  then show ?case by simp
next
  case (Cons c cs)
  have "take_bit (8 * length (c # cs)) (of_char c :: u64) = of_char c"
    by (metis length_Cons min.absorb2 le_add1 mult_Suc_right take_bit_of_char take_bit_take_bit)
  moreover have "take_bit (8 * length (c # cs)) (push_bit 8 (load_little_endian cs)) =
      push_bit 8 (load_little_endian cs)"
    by (simp add: take_bit_push_bit Cons.IH)
  ultimately show ?case by (simp only: load_Cons take_bit_or)
qed

lemma write_load_little_endian:
  "length cs \<le> 8 \<Longrightarrow> little_endian (length cs) (load_little_endian cs) = cs"
proof (induction cs)
  case Nil
  then show ?case by simp
next
  case (Cons c cs)
  have "drop_bit 8 (of_char c OR push_bit 8 (load_little_endian cs)) =
      drop_bit 8 (of_char c) OR take_bit 56 (load_little_endian cs)"
    by (rule bit_eqI) (auto simp: bit_simps)
  moreover have "drop_bit 8 (of_char c :: u64) = 0"
    by (subst take_bit_of_char [symmetric]) (simp add: drop_bit_take_bit)
  moreover have "take_bit 56 (load_little_endian cs) = load_little_endian cs"
  proof -
    have "8 * length cs \<le> 56" using Cons.prems by simp
    then have "take_bit 56 (take_bit (8 * length cs) (load_little_endian cs)) =
        take_bit (8 * length cs) (load_little_endian cs)"
      by (simp add: take_bit_take_bit min.absorb2)
    then show ?thesis by (simp only: load_bound)
  qed
  ultimately show ?case
    using Cons by (simp add: little_endian_Suc load_Cons byte_char_of_char)
qed

section \<open>ByteWriter\<close>

definition write_u8 :: "u8 \<Rightarrow> string" where
  "write_u8 value = [byte_char (ucast value)]"

definition write_u16 :: "u16 \<Rightarrow> string" where
  "write_u16 value = little_endian 2 (ucast value)"

definition write_u32 :: "u32 \<Rightarrow> string" where
  "write_u32 value = little_endian 4 (ucast value)"

definition write_u64 :: "u64 \<Rightarrow> string" where
  "write_u64 value = little_endian 8 value"

definition write_f64 :: "binary64 \<Rightarrow> string" where
  "write_f64 value = write_u64 (b64_bits value)"

definition write_boolean :: "bool \<Rightarrow> string" where
  "write_boolean value = write_u8 (if value then 1 else 0)"

definition write_str :: "string \<Rightarrow> string" where
  "write_str value = write_u32 (of_nat (length value)) @ value"

definition write_identity :: "'tag strong_id \<Rightarrow> string" where
  "write_identity i = write_u64 (raw i)"

definition write_generation :: "'tag generation \<Rightarrow> string" where
  "write_generation g = write_u32 (gen_value g)"

definition write_epoch :: "coordinator_epoch \<Rightarrow> string" where
  "write_epoch e = write_u64 (epoch_value e)"

section \<open>ByteReader\<close>

type_synonym 'a reader = "(string, 'a) action"

definition take_bytes :: "nat \<Rightarrow> string reader" where
  "take_bytes n = (\<lambda>data.
    if length data < n then (Inl E_MalformedEncoding, data)
    else (Inr (take n data), drop n data))"

definition read_u8 :: "u8 reader" where
  "read_u8 = bindA (take_bytes 1) (\<lambda>slice. retA (of_char (slice ! 0)))"

definition read_u16 :: "u16 reader" where
  "read_u16 = bindA (take_bytes 2) (\<lambda>slice. retA (ucast (load_little_endian slice)))"

definition read_u32 :: "u32 reader" where
  "read_u32 = bindA (take_bytes 4) (\<lambda>slice. retA (ucast (load_little_endian slice)))"

definition read_u64 :: "u64 reader" where
  "read_u64 = bindA (take_bytes 8) (\<lambda>slice. retA (load_little_endian slice))"

definition read_f64 :: "binary64 reader" where
  "read_f64 = bindA (take_bytes 8) (\<lambda>slice. retA (Binary64 (load_little_endian slice)))"

definition read_boolean :: "bool reader" where
  "read_boolean = bindA read_u8 (\<lambda>r. if 1 < r then failA E_MalformedEncoding else retA (r \<noteq> 0))"

definition read_str :: "string reader" where
  "read_str = bindA read_u32 (\<lambda>len. readA (\<lambda>data.
    if length data < unat len then failA E_MalformedEncoding else take_bytes (unat len)))"

definition read_identity :: "id_kind \<Rightarrow> 'tag strong_id reader" where
  "read_identity kind = bindA read_u64 (\<lambda>r. checkA (strong_id_from_raw_checked kind r))"

definition read_optional_identity :: "id_kind \<Rightarrow> 'tag strong_id reader" where
  "read_optional_identity kind = bindA read_u64 (\<lambda>r.
    if r = 0 then retA null_id else checkA (strong_id_from_raw_checked kind r))"

definition read_generation :: "'tag generation reader" where
  "read_generation = bindA read_u32 (\<lambda>r. retA (Generation r))"

definition read_epoch :: "coordinator_epoch reader" where
  "read_epoch = bindA read_u64 (\<lambda>r. retA (CoordinatorEpoch r))"

definition require_exhausted :: "unit reader" where
  "require_exhausted = readA (\<lambda>data. if 0 < length data then failA E_MalformedEncoding else retA ())"

text \<open>The body of every payload decoder: read the fields, then \<^verbatim>\<open>require_exhausted()\<close>.\<close>

definition decode_with :: "'a reader \<Rightarrow> string \<Rightarrow> 'a result" where
  "decode_with r payload = fst (bindA r (\<lambda>message. thenA require_exhausted (retA message)) payload)"

text \<open>Element counts: bounded by a ceiling and by the bytes that remain.\<close>

definition read_count :: "nat \<Rightarrow> nat \<Rightarrow> u32 reader" where
  "read_count most min_element_bytes = bindA read_u32 (\<lambda>count.
    if most < unat count then failA E_LengthOutOfRange
    else if count = 0 then retA count
    else readA (\<lambda>data.
      if length data < unat count * min_element_bytes then failA E_LengthOutOfRange
      else retA count))"

primrec read_times :: "nat \<Rightarrow> 'a reader \<Rightarrow> 'a list reader" where
  "read_times 0 r = retA []"
| "read_times (Suc n) r = bindA r (\<lambda>x. bindA (read_times n r) (\<lambda>xs. retA (x # xs)))"

definition write_list :: "('a \<Rightarrow> string) \<Rightarrow> 'a list \<Rightarrow> string" where
  "write_list w values = write_u32 (of_nat (length values)) @ concat (map w values)"

definition read_list :: "nat \<Rightarrow> nat \<Rightarrow> 'a reader \<Rightarrow> 'a list reader" where
  "read_list most min_element_bytes r =
    bindA (read_count most min_element_bytes) (\<lambda>count. read_times (unat count) r)"

text \<open>
  An enumeration is written as the byte of its ordinal and read back after a range check; its
  enumerators are listed in the order of the header.
\<close>

fun enum_ordinal :: "'a list \<Rightarrow> 'a \<Rightarrow> nat" where
  "enum_ordinal [] x = 0"
| "enum_ordinal (y # ys) x = (if y = x then 0 else Suc (enum_ordinal ys x))"

definition write_enum :: "'a list \<Rightarrow> 'a \<Rightarrow> string" where
  "write_enum enumerators value = write_u8 (of_nat (enum_ordinal enumerators value))"

definition read_enum :: "'a list \<Rightarrow> 'a reader" where
  "read_enum enumerators = bindA read_u8 (\<lambda>b.
    if length enumerators \<le> unat b then failA E_MalformedEncoding
    else retA (enumerators ! unat b))"

section \<open>The interface of an encoder and its decoder\<close>

definition wire_rejections :: "error_code set" where
  "wire_rejections =
    {E_MalformedEncoding, E_LengthOutOfRange, E_NullIdentity, E_CrossDomainIdentity}"

definition rejecting :: "error_code set \<Rightarrow> 'a reader \<Rightarrow> bool" where
  "rejecting R r \<longleftrightarrow> (\<forall>s e t. r s = (Inl e, t) \<longrightarrow> e \<in> R)"

lemma bindA_accepts [wire_exact]:
  assumes "bindA m f s = (Inr y, t)"
  obtains x u where "m s = (Inr x, u)" and "f x u = (Inr y, t)"
  using assms by (auto simp: bindA_def split: prod.splits sum.splits)

lemma retA_run [wire_simps]: "retA x s = (Inr x, s)"
  by (simp add: retA_def)

lemma rejecting_bind [wire_rejects]:
  "rejecting R m \<Longrightarrow> (\<And>x. rejecting R (f x)) \<Longrightarrow> rejecting R (bindA m f)"
  by (force simp: rejecting_def bindA_def split: prod.splits sum.splits)

lemma rejecting_basic [wire_rejects]:
  "rejecting R (retA x)"
  "e \<in> R \<Longrightarrow> rejecting R (failA e)"
  "(\<And>s. rejecting R (g s)) \<Longrightarrow> rejecting R (readA g)"
  "E_NullIdentity \<in> R \<Longrightarrow> E_CrossDomainIdentity \<in> R \<Longrightarrow>
   rejecting R (checkA (strong_id_from_raw_checked kind r))"
  "E_MalformedEncoding \<in> R \<Longrightarrow> rejecting R (take_bytes n)"
  "rejecting R m \<Longrightarrow> rejecting R n' \<Longrightarrow> rejecting R (if b then m else n')"
  by (auto simp: rejecting_def retA_def failA_def readA_def checkA_def take_bytes_def
      strong_id_from_raw_checked_def Let_def split: if_splits)

lemma in_wire_rejections [wire_rejects]:
  "E_MalformedEncoding \<in> wire_rejections" "E_LengthOutOfRange \<in> wire_rejections"
  "E_NullIdentity \<in> wire_rejections" "E_CrossDomainIdentity \<in> wire_rejections"
  by (simp_all add: wire_rejections_def)

lemma rejecting_times [wire_rejects]: "rejecting R r \<Longrightarrow> rejecting R (read_times n r)"
  by (induction n) (auto intro!: wire_rejects)

lemma rejecting_count [wire_rejects]: "rejecting wire_rejections (read_count most m)"
  unfolding read_count_def read_u32_def by (intro wire_rejects)

definition list_ok :: "nat \<Rightarrow> ('a \<Rightarrow> bool) \<Rightarrow> 'a list \<Rightarrow> bool" where
  "list_ok most ok xs \<longleftrightarrow> length xs \<le> most \<and> (\<forall>x\<in>set xs. ok x)"

locale codec =
  fixes put :: "'a \<Rightarrow> string" and get :: "'a reader"
    and ok :: "'a \<Rightarrow> bool" and smallest :: nat and failures :: "error_code set"
  assumes reads: "ok x \<Longrightarrow> get (put x @ t) = (Inr x, t)"
    and exact: "get s = (Inr x, t) \<Longrightarrow> ok x \<and> s = put x @ t"
    and rejects: "rejecting failures get"
    and size: "ok x \<Longrightarrow> smallest \<le> length (put x)"
begin

lemma reads_back [wire_simps]: "ok x \<Longrightarrow> get (put x @ t) = (Inr x, t)"
  by (rule reads)

lemma runs [wire_simps]: "ok x \<Longrightarrow> bindA get f (put x @ t) = f x t"
  by (simp add: bindA_def reads)

lemma accepts [wire_exact]:
  assumes "get s = (Inr x, t)"
  obtains "ok x" and "s = put x @ t"
  using exact [OF assms] by blast

lemmas rejects_only [wire_rejects] = rejects

lemma decodes_iff: "decode_with get payload = Inr x \<longleftrightarrow> ok x \<and> payload = put x"
proof
  assume "decode_with get payload = Inr x"
  then obtain t where "bindA get (\<lambda>m. thenA require_exhausted (retA m)) payload = (Inr x, t)"
    by (metis decode_with_def prod.collapse)
  then obtain y u where "get payload = (Inr y, u)"
    and "thenA require_exhausted (retA y) u = (Inr x, t)"
    by (rule bindA_accepts)
  then have "get payload = (Inr x, [])"
    by (auto simp: require_exhausted_def action_defs split: if_splits)
  from exact [OF this] show "ok x \<and> payload = put x" by simp
next
  assume "ok x \<and> payload = put x"
  then show "decode_with get payload = Inr x"
    using reads [of x "[]"]
    by (simp add: decode_with_def require_exhausted_def action_defs)
qed

lemma decode_rejects:
  "E_MalformedEncoding \<in> failures \<Longrightarrow> decode_with get payload = Inl e \<Longrightarrow> e \<in> failures"
  using rejects
  by (auto simp: decode_with_def require_exhausted_def action_defs rejecting_def
      split: prod.splits sum.splits if_splits)

lemma prefix_free: "ok x \<Longrightarrow> ok y \<Longrightarrow> put x @ t = put y @ u \<Longrightarrow> x = y \<and> t = u"
  using reads [of x t] reads [of y u] by (metis Pair_inject sum.inject(2))

lemma times_reads:
  "\<forall>x\<in>set xs. ok x \<Longrightarrow> read_times (length xs) get (concat (map put xs) @ t) = (Inr xs, t)"
proof (induction xs)
  case Nil
  then show ?case by (simp add: retA_def)
next
  case (Cons x xs)
  then have "ok x" by simp
  with Cons show ?case by (simp add: reads [OF \<open>ok x\<close>] bindA_def retA_def)
qed

lemma times_exact:
  "read_times n get s = (Inr xs, t) \<Longrightarrow>
   length xs = n \<and> (\<forall>x\<in>set xs. ok x) \<and> s = concat (map put xs) @ t"
proof (induction n arbitrary: s xs)
  case 0
  then show ?case by (simp add: retA_def)
next
  case (Suc n)
  from Suc.prems obtain x u where "get s = (Inr x, u)"
    and "bindA (read_times n get) (\<lambda>xs. retA (x # xs)) u = (Inr xs, t)"
    by (auto elim: bindA_accepts)
  moreover from this(2) obtain ys where "read_times n get u = (Inr ys, t)" and "xs = x # ys"
    by (auto simp: retA_def elim!: bindA_accepts)
  ultimately show ?case
    using exact Suc.IH by fastforce
qed

lemma sizes: "\<forall>x\<in>set xs. ok x \<Longrightarrow> length xs * smallest \<le> length (concat (map put xs))"
  by (induction xs) (auto dest: size)

end

locale wire_codec = codec put get ok smallest wire_rejections
  for put :: "'a \<Rightarrow> string" and get :: "'a reader" and ok :: "'a \<Rightarrow> bool" and smallest :: nat

text \<open>The fixed-width fields.\<close>

lemma take_bytes_accepts: "take_bytes n s = (Inr x, t) \<longleftrightarrow> length x = n \<and> s = x @ t"
  by (auto simp: take_bytes_def)

lemma fixed_width_codec:
  assumes "\<And>x. ld (sv x) = x" and "\<And>b. length b = n \<Longrightarrow> sv (ld b) = b"
    and "\<And>x. length (sv x) = n"
  shows "wire_codec sv (bindA (take_bytes n) (\<lambda>b. retA (ld b))) (\<lambda>_. True) n"
proof
  show "bindA (take_bytes n) (\<lambda>b. retA (ld b)) (sv x @ t) = (Inr x, t)" for x t
    using assms(1,3) by (simp add: bindA_def retA_def take_bytes_def)
next
  show "True \<and> s = sv x @ t"
    if "bindA (take_bytes n) (\<lambda>b. retA (ld b)) s = (Inr x, t)" for s x t
    using that assms(2) by (auto simp: retA_def take_bytes_accepts elim!: bindA_accepts)
next
  show "rejecting wire_rejections (bindA (take_bytes n) (\<lambda>b. retA (ld b)))"
    by (intro wire_rejects)
qed (simp add: assms(3))

lemma ucast_load:
  "ucast (take_bit (8 * n) (ucast w :: u64)) = w" if "8 * n = LENGTH('a)" and "n \<le> 8" for w :: "'a::len word"
  using that by (intro bit_eqI) (auto simp: bit_simps)

lemma load_ucast:
  assumes "length b = n" and "8 * n = LENGTH('a)" and "n \<le> 8"
  shows "little_endian n (ucast (ucast (load_little_endian b) :: 'a::len word)) = b"
proof -
  have "ucast (ucast (load_little_endian b) :: 'a word) = take_bit (8 * n) (load_little_endian b)"
    using assms by (intro bit_eqI) (auto simp: bit_simps)
  then show ?thesis
    using assms load_bound [of b] write_load_little_endian [of b] by simp
qed

lemma of_char_u8: "(of_char c :: u8) = ucast (of_char c :: u64)"
  by (subst of_char_word) (metis unat_of_char of_nat_unat)

lemma ucast_take_bit_8: "take_bit 8 w = w \<Longrightarrow> ucast (ucast w :: u8) = w" for w :: u64
proof -
  assume "take_bit 8 w = w"
  moreover have "ucast (ucast w :: u8) = take_bit 8 w"
    by (rule bit_eqI) (auto simp: bit_simps)
  ultimately show ?thesis by simp
qed

lemma load_write_64: "load_little_endian (little_endian 8 w) = w"
proof -
  have "take_bit 64 w = w" by (rule bit_eqI) (auto simp: bit_simps)
  then show ?thesis using load_little_endian_write [of 8 w] by simp
qed

lemma write_load_64: "length b = 8 \<Longrightarrow> little_endian 8 (load_little_endian b) = b"
  using write_load_little_endian [of b] by simp

interpretation wire_u8: wire_codec write_u8 read_u8 "\<lambda>_. True" 1
proof -
  have "wire_codec write_u8 (bindA (take_bytes 1) (\<lambda>slice. retA (of_char (slice ! 0)))) (\<lambda>_. True) 1"
  proof (rule fixed_width_codec)
    show "of_char (write_u8 x ! 0) = x" for x
      by (simp add: write_u8_def of_char_u8 of_byte_char ucast_load [of 1, simplified])
  next
    show "write_u8 (of_char (b ! 0)) = b" if "length b = 1" for b
      using that byte_char_of_char [of "b ! 0" 0] take_bit_of_char [of "b ! 0"]
      by (cases b) (simp_all add: write_u8_def of_char_u8 ucast_take_bit_8)
  qed (simp add: write_u8_def)
  then show "wire_codec write_u8 read_u8 (\<lambda>_. True) 1"
    by (simp only: read_u8_def)
qed

interpretation wire_u16: wire_codec write_u16 read_u16 "\<lambda>_. True" 2
  unfolding read_u16_def
  by (rule fixed_width_codec)
    (simp_all add: write_u16_def load_little_endian_write ucast_load [of 2, simplified] load_ucast)

interpretation wire_u32: wire_codec write_u32 read_u32 "\<lambda>_. True" 4
  unfolding read_u32_def
  by (rule fixed_width_codec)
    (simp_all add: write_u32_def load_little_endian_write ucast_load [of 4, simplified] load_ucast)

interpretation wire_u64: wire_codec write_u64 read_u64 "\<lambda>_. True" 8
  unfolding read_u64_def
  by (rule fixed_width_codec)
    (simp_all add: write_u64_def load_write_64 write_load_64)

interpretation wire_f64: wire_codec write_f64 read_f64 "\<lambda>_. True" 8
  unfolding read_f64_def
  by (rule fixed_width_codec)
    (simp_all add: write_f64_def write_u64_def load_write_64 write_load_64)

lemma length_primitives [wire_simps]:
  "length (write_u8 a) = 1" "length (write_u16 b) = 2" "length (write_u32 c) = 4"
  "length (write_u64 d) = 8" "length (write_f64 f) = 8" "length (write_boolean v) = 1"
  "length (write_str s) = 4 + length s" "length (write_identity i) = 8"
  "length (write_generation g) = 4" "length (write_epoch e) = 8" "length (write_enum es y) = 1"
  by (simp_all add: write_u8_def write_u16_def write_u32_def write_u64_def write_f64_def
      write_boolean_def write_str_def write_identity_def write_generation_def write_epoch_def
      write_enum_def)

lemma write_boolean_reads [wire_simps]: "read_boolean (write_boolean v @ t) = (Inr v, t)"
  by (simp add: read_boolean_def write_boolean_def bindA_def wire_simps retA_def)

interpretation wire_boolean: wire_codec write_boolean read_boolean "\<lambda>_. True" 1
proof
  show "True \<and> s = write_boolean v @ t" if "read_boolean s = (Inr v, t)" for s v t
  proof -
    from that obtain r u where "read_u8 s = (Inr r, u)"
      and "(if 1 < r then failA E_MalformedEncoding else retA (r \<noteq> 0)) u = (Inr v, t)"
      unfolding read_boolean_def by (rule bindA_accepts)
    moreover have "r = 0 \<or> r = 1" if "\<not> 1 < r"
      using that by (simp add: word_less_nat_alt word_unat_eq_iff) linarith
    ultimately show ?thesis
      by (auto simp: write_boolean_def failA_def retA_def split: if_splits elim!: wire_exact)
  qed
next
  show "rejecting wire_rejections read_boolean"
    unfolding read_boolean_def by (intro wire_rejects)
qed (simp_all add: wire_simps)

text \<open>Strings are prefixed with a 32-bit length.\<close>

definition wire_string :: "string \<Rightarrow> bool" where
  "wire_string s \<longleftrightarrow> length s < 2 ^ 32"

lemma unat_length_u32: "n < 2 ^ 32 \<Longrightarrow> unat (of_nat n :: u32) = n"
  by (simp add: unat_of_nat take_bit_nat_eq_self_iff [THEN iffD2] flip: take_bit_eq_mod)

interpretation wire_str: wire_codec write_str read_str wire_string 4
proof
  show "read_str (write_str x @ t) = (Inr x, t)" if "wire_string x" for x t
    using that unat_length_u32 [of "length x"]
    by (simp add: wire_string_def read_str_def write_str_def bindA_def wire_simps readA_def
        take_bytes_def)
next
  show "wire_string x \<and> s = write_str x @ t" if "read_str s = (Inr x, t)" for s x t
  proof -
    from that obtain n u where n: "read_u32 s = (Inr n, u)"
      and "readA (\<lambda>data. if length data < unat n then failA E_MalformedEncoding
             else take_bytes (unat n)) u = (Inr x, t)"
      unfolding read_str_def by (rule bindA_accepts)
    then have "length x = unat n" and "u = x @ t"
      by (auto simp: readA_def failA_def take_bytes_accepts split: if_splits)
    with n show ?thesis
      using unsigned_less [of n]
      by (auto simp: wire_string_def write_str_def elim!: wire_exact)
  qed
next
  show "rejecting wire_rejections read_str"
    unfolding read_str_def by (intro wire_rejects)
qed (simp add: wire_simps)

text \<open>Identities, generations and the epoch.\<close>

definition wire_identity :: "id_kind \<Rightarrow> 'tag strong_id \<Rightarrow> bool" where
  "wire_identity kind i \<longleftrightarrow> kind \<noteq> IK_None \<and> id_kind_byte i = id_kind_ordinal kind"

definition wire_optional_identity :: "id_kind \<Rightarrow> 'tag strong_id \<Rightarrow> bool" where
  "wire_optional_identity kind i \<longleftrightarrow> i = null_id \<or> wire_identity kind i"

interpretation wire_id: wire_codec write_identity "read_identity kind" "wire_identity kind" 8 for kind
proof
  show "read_identity kind (write_identity x @ t) = (Inr x, t)" if "wire_identity kind x" for x t
    using that from_raw_checked_iff [of kind "raw x" x]
    by (simp add: wire_identity_def read_identity_def write_identity_def bindA_def wire_simps
        checkA_def)
next
  show "wire_identity kind x \<and> s = write_identity x @ t"
    if "read_identity kind s = (Inr x, t)" for s x t
    using that
    by (auto simp: read_identity_def checkA_def wire_identity_def write_identity_def
        from_raw_checked_iff elim!: bindA_accepts wire_exact)
next
  show "rejecting wire_rejections (read_identity kind)"
    unfolding read_identity_def by (intro wire_rejects)
qed (simp add: wire_simps)

interpretation wire_optional_id: wire_codec write_identity "read_optional_identity kind"
  "wire_optional_identity kind" 8 for kind
proof
  show "read_optional_identity kind (write_identity x @ t) = (Inr x, t)"
    if "wire_optional_identity kind x" for x t
    using that from_raw_checked_iff [of kind "raw x" x]
    by (cases x) (auto simp: wire_optional_identity_def wire_identity_def read_optional_identity_def
        write_identity_def bindA_def wire_simps checkA_def null_id_def retA_def)
next
  show "wire_optional_identity kind x \<and> s = write_identity x @ t"
    if "read_optional_identity kind s = (Inr x, t)" for s x t
    using that
    by (auto simp: read_optional_identity_def checkA_def wire_optional_identity_def
        wire_identity_def write_identity_def from_raw_checked_iff null_id_def retA_def
        split: if_splits elim!: bindA_accepts wire_exact)
next
  show "rejecting wire_rejections (read_optional_identity kind)"
    unfolding read_optional_identity_def by (intro wire_rejects)
qed (simp add: wire_simps)

interpretation wire_gen: wire_codec write_generation read_generation "\<lambda>_. True" 4
proof
  show "read_generation (write_generation x @ t) = (Inr x, t)" for x t
    by (simp add: read_generation_def write_generation_def bindA_def wire_simps retA_def)
next
  show "True \<and> s = write_generation x @ t" if "read_generation s = (Inr x, t)" for s x t
    using that
    by (auto simp: read_generation_def write_generation_def retA_def elim!: bindA_accepts wire_exact)
next
  show "rejecting wire_rejections read_generation"
    unfolding read_generation_def by (intro wire_rejects)
qed (simp add: wire_simps)

interpretation wire_ep: wire_codec write_epoch read_epoch "\<lambda>_. True" 8
proof
  show "read_epoch (write_epoch x @ t) = (Inr x, t)" for x t
    by (simp add: read_epoch_def write_epoch_def bindA_def wire_simps retA_def)
next
  show "True \<and> s = write_epoch x @ t" if "read_epoch s = (Inr x, t)" for s x t
    using that
    by (auto simp: read_epoch_def write_epoch_def retA_def elim!: bindA_accepts wire_exact)
next
  show "rejecting wire_rejections read_epoch"
    unfolding read_epoch_def by (intro wire_rejects)
qed (simp add: wire_simps)

section \<open>Enumerations and element lists\<close>

lemma length_list [wire_simps]: "length (write_list w xs) = 4 + length (concat (map w xs))"
  by (simp add: write_list_def wire_simps)

locale enum_codec =
  fixes enumerators :: "'a list"
  assumes every: "x \<in> set enumerators" and few: "length enumerators \<le> 256"
begin

lemma ordinal: "enum_ordinal enumerators x < length enumerators"
  "enumerators ! enum_ordinal enumerators x = x"
proof -
  have "enum_ordinal es x < length es \<and> es ! enum_ordinal es x = x" if "x \<in> set es" for es
    using that by (induction es) auto
  with every show "enum_ordinal enumerators x < length enumerators"
    "enumerators ! enum_ordinal enumerators x = x" by blast+
qed

lemma byte_of_ordinal: "unat (of_nat (enum_ordinal enumerators x) :: u8) = enum_ordinal enumerators x"
  using ordinal(1) [of x] few by (simp add: unat_of_nat)

end

locale distinct_enum_codec = enum_codec +
  assumes once: "distinct enumerators"
begin

lemma ordinal_nth: "n < length enumerators \<Longrightarrow> enum_ordinal enumerators (enumerators ! n) = n"
  using nth_eq_iff_index_eq [OF once ordinal(1) [of "enumerators ! n"], of n] ordinal(2) by auto

end

sublocale distinct_enum_codec \<subseteq> enum: wire_codec "write_enum enumerators" "read_enum enumerators" "\<lambda>_. True" 1
proof
  show "read_enum enumerators (write_enum enumerators x @ t) = (Inr x, t)" for x t
    using ordinal(1) [of x]
    by (simp add: read_enum_def write_enum_def bindA_def wire_simps retA_def byte_of_ordinal ordinal(2)
        flip: not_less)
next
  show "True \<and> s = write_enum enumerators x @ t" if "read_enum enumerators s = (Inr x, t)" for s x t
    using that
    by (auto simp: read_enum_def write_enum_def retA_def failA_def ordinal_nth split: if_splits
        elim!: bindA_accepts wire_exact)
next
  show "rejecting wire_rejections (read_enum enumerators)"
    unfolding read_enum_def by (intro wire_rejects)
qed (simp add: wire_simps)

context wire_codec
begin

lemma list_codec:
  assumes "most < 2 ^ 32" and "m \<le> smallest"
  shows "wire_codec (write_list put) (read_list most m get) (list_ok most ok) 4"
proof
  show "read_list most m get (write_list put xs @ t) = (Inr xs, t)" if xs: "list_ok most ok xs" for xs t
  proof -
    have "length xs * m \<le> length (concat (map put xs))"
      using sizes [of xs] xs assms(2)
      by (metis list_ok_def le_trans mult_le_mono2)
    moreover have "unat (of_nat (length xs) :: u32) = length xs"
      using xs assms(1) by (intro unat_length_u32) (auto simp: list_ok_def)
    ultimately show ?thesis
      using xs times_reads [of xs t]
      by (auto simp: read_list_def write_list_def read_count_def bindA_def wire_simps readA_def
          retA_def failA_def list_ok_def word_unat_eq_iff)
  qed
next
  show "list_ok most ok xs \<and> s = write_list put xs @ t" if get: "read_list most m get s = (Inr xs, t)" for s xs t
  proof -
    from get obtain n u where n: "read_count most m s = (Inr n, u)"
      and xs: "read_times (unat n) get u = (Inr xs, t)"
      unfolding read_list_def by (rule bindA_accepts)
    from n have "unat n \<le> most" and "s = write_u32 n @ u"
      by (auto simp: read_count_def readA_def retA_def failA_def split: if_splits
          elim!: bindA_accepts wire_exact)
    with times_exact [OF xs] show ?thesis
      by (auto simp: list_ok_def write_list_def)
  qed
next
  show "rejecting wire_rejections (read_list most m get)"
    unfolding read_list_def by (intro wire_rejects rejects)
qed (simp add: write_list_def wire_simps)

end

end
