(* ===== verification/Wire_Records.thy ===== *)
theory Wire_Records
  imports Wire Authority Decision Attempt Core_State
begin

text \<open>
  The shared field codecs of the wire protocol (the anonymous namespace of protocol.cpp): for
  every structure that travels in a payload its writer, its reader and the values the pair
  carries (\<open>wire_\<dots>\<close>). The readers check element counts against a ceiling and against the
  bytes that remain, enumerations against their cardinality, identities against their domain.

  Every pair is an instance of the interface \<open>wire_codec\<close>. The instance states the least length
  of an encoding; an element list is an instance only because the minimum the decoder assumes
  for one element is at most that length.
\<close>

section \<open>Wire bounds\<close>

definition kMaxProtocolElements :: nat where "kMaxProtocolElements = kMaxArtifactNameLength * 16"
definition kMaxProtocolArtifacts :: nat where "kMaxProtocolArtifacts = kMaxArtifactsPerCandidate"
definition kMaxProtocolRankingFactors :: nat where "kMaxProtocolRankingFactors = kMaxRankingFactors"

definition kMinIdentityBytes :: nat where "kMinIdentityBytes = 8"
definition kMinStringBytes :: nat where "kMinStringBytes = 4"
definition kMinArtifactRefBytes :: nat where "kMinArtifactRefBytes = 16"
definition kMinRankingFactorBytes :: nat where "kMinRankingFactorBytes = 12"
definition kMinRankingFactorValueBytes :: nat where "kMinRankingFactorValueBytes = 31"
definition kMinRankingEntryBytes :: nat where "kMinRankingEntryBytes = 40"
definition kMinExclusionEntryBytes :: nat where "kMinExclusionEntryBytes = 14"
definition kMinRetentionEntryBytes :: nat where "kMinRetentionEntryBytes = 21"
definition kMinEvaluationRecordBytes :: nat where "kMinEvaluationRecordBytes = 97"
definition kMinLineageNodeBytes :: nat where "kMinLineageNodeBytes = 45"
definition kMinPromotionEvidenceBytes :: nat where "kMinPromotionEvidenceBytes = 25"
definition kMinInputFileBytes :: nat where "kMinInputFileBytes = 12"
definition kMinRequirementBytes :: nat where "kMinRequirementBytes = 26"

lemmas wire_bounds =
  kMaxProtocolElements_def kMaxProtocolArtifacts_def kMaxProtocolRankingFactors_def
  kMaxArtifactNameLength_def kMaxArtifactsPerCandidate_def kMaxRankingFactors_def
  kMinIdentityBytes_def kMinStringBytes_def kMinArtifactRefBytes_def
  kMinRankingFactorBytes_def kMinRankingFactorValueBytes_def kMinRankingEntryBytes_def
  kMinExclusionEntryBytes_def kMinRetentionEntryBytes_def kMinEvaluationRecordBytes_def
  kMinLineageNodeBytes_def kMinPromotionEvidenceBytes_def kMinInputFileBytes_def
  kMinRequirementBytes_def

section \<open>Enumerators in the order of their ordinals\<close>

definition requirement_classes :: "requirement_class list" where
  "requirement_classes =
    [RC_Mandatory, RC_Optional]"

definition ranking_factor_kinds :: "ranking_factor_kind list" where
  "ranking_factor_kinds =
    [RF_QualityScore, RF_EfficiencyScore, RF_EvaluationCompleteness, RF_LineageDepth,
     RF_AttemptCount, RF_ArtifactBytes, RF_CandidateIdTieBreak]"

definition ranking_directions :: "ranking_direction list" where
  "ranking_directions =
    [RD_HigherIsBetter, RD_LowerIsBetter]"

definition population_states :: "population_state list" where
  "population_states =
    [PS_Created, PS_Ready, PS_Running, PS_Evaluating, PS_Selecting, PS_Advancing,
     PS_RevalidationRequired, PS_Closing, PS_Closed, PS_Failed, PS_Cancelled]"

definition candidate_states :: "candidate_state list" where
  "candidate_states =
    [CS_Registered, CS_Producing, CS_Published, CS_Evaluating, CS_Evaluated,
     CS_RevalidationRequired, CS_Selected, CS_Retained, CS_Retired, CS_Superseded,
     CS_ProductionFailed, CS_ProductionCancelled, CS_Disqualified]"

definition attempt_states :: "attempt_state list" where
  "attempt_states =
    [AS_Created, AS_Authorized, AS_Dispatched, AS_Running, AS_Published, AS_Evaluating,
     AS_Completed, AS_Failed, AS_Cancelled, AS_OutcomeUnknown]"

definition evaluator_kinds :: "evaluator_kind list" where
  "evaluator_kinds =
    [EK_ProcessCommand, EK_SourcePolicy, EK_PortableReference, EK_WorkerSelfReport]"

definition evaluation_outcomes :: "evaluation_outcome list" where
  "evaluation_outcomes =
    [EO_Pass, EO_Fail, EO_Unknown, EO_Unsupported, EO_Error, EO_Cancelled]"

definition selection_stages :: "selection_stage list" where
  "selection_stages =
    [SS_Authority, SS_CandidateLifecycle, SS_RequiredEvidence, SS_HardConstraints,
     SS_TaskCompatibility, SS_PolicyFeasibility, SS_Ranking, SS_TieBreak, SS_Decision]"

definition selection_decision_states :: "selection_decision_state list" where
  "selection_decision_states =
    [SD_Prepared, SD_Committed, SD_Rejected, SD_Impossible]"

definition exclusion_reasons :: "exclusion_reason list" where
  "exclusion_reasons =
    [ER_None, ER_UnknownCandidate, ER_LifecycleNotEligible, ER_MandatoryEvidenceMissing,
     ER_MandatoryEvaluationFailed, ER_MandatoryEvaluationUnknown,
     ER_MandatoryEvaluationUnsupported, ER_MandatoryEvaluationError,
     ER_MandatoryEvaluationCancelled, ER_MandatoryEvaluatorNotAuthoritative,
     ER_TaskIncompatible, ER_EvidenceGenerationMismatch, ER_Superseded, ER_Retired,
     ER_PolicyInfeasible, ER_BudgetExhausted, ER_LineageRetired]"

definition retention_outcomes :: "retention_outcome list" where
  "retention_outcomes =
    [RO_Retained, RO_RetainedBecauseSelected, RO_RetainedForLineageDiversity,
     RO_RetiredRankedBelowCut, RO_RetiredLineageCap, RO_RetiredCapacityLimit,
     RO_RetiredIneligible]"

definition promotion_eligibilities :: "promotion_eligibility list" where
  "promotion_eligibilities =
    [PE_NotEvaluated, PE_Eligible, PE_NotEligible, PE_Withdrawn]"

definition promotion_handoffs :: "promotion_handoff list" where
  "promotion_handoffs =
    [PH_NotRequested, PH_Requested, PH_AcceptedForProcessing, PH_DeclinedBySink,
     PH_SinkUnavailable]"

datatype (plugins only: code size) session_role = SR_Worker | SR_Controller | SR_Observer

definition session_roles :: "session_role list" where
  "session_roles =
    [SR_Worker, SR_Controller, SR_Observer]"

interpretation w_requirement_classes: distinct_enum_codec requirement_classes
proof
  show "x \<in> set requirement_classes" for x
    by (cases x) (simp_all add: requirement_classes_def)
qed (simp_all add: requirement_classes_def)

interpretation w_ranking_factor_kinds: distinct_enum_codec ranking_factor_kinds
proof
  show "x \<in> set ranking_factor_kinds" for x
    by (cases x) (simp_all add: ranking_factor_kinds_def)
qed (simp_all add: ranking_factor_kinds_def)

interpretation w_ranking_directions: distinct_enum_codec ranking_directions
proof
  show "x \<in> set ranking_directions" for x
    by (cases x) (simp_all add: ranking_directions_def)
qed (simp_all add: ranking_directions_def)

interpretation w_population_states: distinct_enum_codec population_states
proof
  show "x \<in> set population_states" for x
    by (cases x) (simp_all add: population_states_def)
qed (simp_all add: population_states_def)

interpretation w_candidate_states: distinct_enum_codec candidate_states
proof
  show "x \<in> set candidate_states" for x
    by (cases x) (simp_all add: candidate_states_def)
qed (simp_all add: candidate_states_def)

interpretation w_attempt_states: distinct_enum_codec attempt_states
proof
  show "x \<in> set attempt_states" for x
    by (cases x) (simp_all add: attempt_states_def)
qed (simp_all add: attempt_states_def)

interpretation w_evaluator_kinds: distinct_enum_codec evaluator_kinds
proof
  show "x \<in> set evaluator_kinds" for x
    by (cases x) (simp_all add: evaluator_kinds_def)
qed (simp_all add: evaluator_kinds_def)

interpretation w_evaluation_outcomes: distinct_enum_codec evaluation_outcomes
proof
  show "x \<in> set evaluation_outcomes" for x
    by (cases x) (simp_all add: evaluation_outcomes_def)
qed (simp_all add: evaluation_outcomes_def)

interpretation w_selection_stages: distinct_enum_codec selection_stages
proof
  show "x \<in> set selection_stages" for x
    by (cases x) (simp_all add: selection_stages_def)
qed (simp_all add: selection_stages_def)

interpretation w_selection_decision_states: distinct_enum_codec selection_decision_states
proof
  show "x \<in> set selection_decision_states" for x
    by (cases x) (simp_all add: selection_decision_states_def)
qed (simp_all add: selection_decision_states_def)

interpretation w_exclusion_reasons: distinct_enum_codec exclusion_reasons
proof
  show "x \<in> set exclusion_reasons" for x
    by (cases x) (simp_all add: exclusion_reasons_def)
qed (simp_all add: exclusion_reasons_def)

interpretation w_retention_outcomes: distinct_enum_codec retention_outcomes
proof
  show "x \<in> set retention_outcomes" for x
    by (cases x) (simp_all add: retention_outcomes_def)
qed (simp_all add: retention_outcomes_def)

interpretation w_promotion_eligibilities: distinct_enum_codec promotion_eligibilities
proof
  show "x \<in> set promotion_eligibilities" for x
    by (cases x) (simp_all add: promotion_eligibilities_def)
qed (simp_all add: promotion_eligibilities_def)

interpretation w_promotion_handoffs: distinct_enum_codec promotion_handoffs
proof
  show "x \<in> set promotion_handoffs" for x
    by (cases x) (simp_all add: promotion_handoffs_def)
qed (simp_all add: promotion_handoffs_def)

interpretation w_session_roles: distinct_enum_codec session_roles
proof
  show "x \<in> set session_roles" for x
    by (cases x) (simp_all add: session_roles_def)
qed (simp_all add: session_roles_def)

section \<open>Shared field codecs, in dependency order\<close>

definition write_artifact_ref :: "artifact_ref \<Rightarrow> string" where
  "write_artifact_ref v =
     write_str (art_name v) @ write_u64 (art_size v) @ write_str (art_digest v)"

definition read_artifact_ref :: "artifact_ref reader" where
  "read_artifact_ref =
     bindA read_str (\<lambda>name.
     bindA read_u64 (\<lambda>size_bytes.
     bindA read_str (\<lambda>content_digest.
     retA \<lparr>art_name = name, art_size = size_bytes, art_digest = content_digest\<rparr>)))"

definition wire_artifact_ref :: "artifact_ref \<Rightarrow> bool" where
  "wire_artifact_ref v \<longleftrightarrow>
     wire_string (art_name v) \<and> wire_string (art_digest v)"

interpretation w_artifact_ref: wire_codec write_artifact_ref read_artifact_ref wire_artifact_ref 16
  by unfold_locales
    (auto simp: read_artifact_ref_def write_artifact_ref_def wire_artifact_ref_def wire_simps
      elim!: wire_exact intro!: wire_rejects)

definition write_artifact_list :: "artifact_ref list \<Rightarrow> string" where
  "write_artifact_list values = write_list write_artifact_ref values"

definition read_artifact_list :: "artifact_ref list reader" where
  "read_artifact_list = read_list kMaxProtocolArtifacts kMinArtifactRefBytes read_artifact_ref"

definition wire_artifact_list :: "artifact_ref list \<Rightarrow> bool" where
  "wire_artifact_list = list_ok kMaxProtocolArtifacts wire_artifact_ref"

interpretation w_artifact_list: wire_codec write_artifact_list read_artifact_list wire_artifact_list 4
  unfolding write_artifact_list_def [abs_def] read_artifact_list_def wire_artifact_list_def
  by (rule w_artifact_ref.list_codec) (simp_all add: wire_bounds)

definition write_string_list :: "string list \<Rightarrow> string" where
  "write_string_list values = write_list write_str values"

definition read_string_list :: "string list reader" where
  "read_string_list = read_list kMaxProtocolElements kMinStringBytes read_str"

definition wire_string_list :: "string list \<Rightarrow> bool" where
  "wire_string_list = list_ok kMaxProtocolElements wire_string"

interpretation w_string_list: wire_codec write_string_list read_string_list wire_string_list 4
  unfolding write_string_list_def [abs_def] read_string_list_def wire_string_list_def
  by (rule wire_str.list_codec) (simp_all add: wire_bounds)

definition write_identity_list :: "'tag strong_id list \<Rightarrow> string" where
  "write_identity_list values = write_list write_identity values"

definition read_identity_list :: "id_kind \<Rightarrow> 'tag strong_id list reader" where
  "read_identity_list kind = read_list kMaxProtocolElements kMinIdentityBytes (read_identity kind)"

definition wire_identity_list :: "id_kind \<Rightarrow> 'tag strong_id list \<Rightarrow> bool" where
  "wire_identity_list kind = list_ok kMaxProtocolElements (wire_identity kind)"

interpretation w_identity_list: wire_codec write_identity_list "read_identity_list kind"
  "wire_identity_list kind" 4 for kind
  unfolding write_identity_list_def [abs_def] read_identity_list_def wire_identity_list_def
  by (rule wire_id.list_codec) (simp_all add: wire_bounds)

lemma length_lists [wire_simps]:
  "length (write_artifact_list a) = 4 + length (concat (map write_artifact_ref a))"
  "length (write_string_list b) = 4 + length (concat (map write_str b))"
  "length (write_identity_list c) = 4 + length (concat (map write_identity c))"
  by (simp_all add: write_artifact_list_def write_string_list_def write_identity_list_def wire_simps)

definition write_budget_limits :: "budget_limits \<Rightarrow> string" where
  "write_budget_limits v =
     write_u32 (max_candidate_attempts v) @ write_u32 (max_worker_assignments v) @
     write_u32 (max_evaluation_attempts v) @ write_u32 (max_retained_candidates v) @
     write_u32 (max_retries v) @ write_u32 (max_candidates v) @ write_u32 (max_workers v) @
     write_u32 (max_active_attempts v) @ write_u32 (max_evaluation_concurrency v)"

definition read_budget_limits :: "budget_limits reader" where
  "read_budget_limits =
     bindA read_u32 (\<lambda>max_candidate_attempts.
     bindA read_u32 (\<lambda>max_worker_assignments.
     bindA read_u32 (\<lambda>max_evaluation_attempts.
     bindA read_u32 (\<lambda>max_retained_candidates.
     bindA read_u32 (\<lambda>max_retries.
     bindA read_u32 (\<lambda>max_candidates.
     bindA read_u32 (\<lambda>max_workers.
     bindA read_u32 (\<lambda>max_active_attempts.
     bindA read_u32 (\<lambda>max_evaluation_concurrency.
     retA \<lparr>max_candidate_attempts = max_candidate_attempts,
     max_worker_assignments = max_worker_assignments,
     max_evaluation_attempts = max_evaluation_attempts,
     max_retained_candidates = max_retained_candidates, max_retries = max_retries,
     max_candidates = max_candidates, max_workers = max_workers,
     max_active_attempts = max_active_attempts,
     max_evaluation_concurrency = max_evaluation_concurrency\<rparr>)))))))))"

interpretation w_budget_limits: wire_codec write_budget_limits read_budget_limits "\<lambda>_. True" 36
  by unfold_locales
    (auto simp: read_budget_limits_def write_budget_limits_def wire_simps
      elim!: wire_exact intro!: wire_rejects)

definition write_input_file :: "input_file \<Rightarrow> string" where
  "write_input_file v =
     write_str (in_name v) @ write_str (in_content v) @ write_str (in_digest v)"

definition read_input_file :: "input_file reader" where
  "read_input_file =
     bindA read_str (\<lambda>name.
     bindA read_str (\<lambda>content.
     bindA read_str (\<lambda>content_digest.
     retA \<lparr>in_name = name, in_content = content, in_digest = content_digest\<rparr>)))"

definition wire_input_file :: "input_file \<Rightarrow> bool" where
  "wire_input_file v \<longleftrightarrow>
     wire_string (in_name v) \<and> wire_string (in_content v) \<and> wire_string (in_digest v)"

interpretation w_input_file: wire_codec write_input_file read_input_file wire_input_file 12
  by unfold_locales
    (auto simp: read_input_file_def write_input_file_def wire_input_file_def wire_simps
      elim!: wire_exact intro!: wire_rejects)

interpretation w_input_file_list: wire_codec "write_list write_input_file"
  "read_list kMaxProtocolElements kMinInputFileBytes read_input_file"
  "list_ok kMaxProtocolElements wire_input_file" 4
  by (rule w_input_file.list_codec) (simp_all add: wire_bounds)

definition write_evaluation_requirement :: "evaluation_requirement \<Rightarrow> string" where
  "write_evaluation_requirement v =
     write_enum requirement_classes (req_class v) @ write_str (req_key v) @
     write_str (req_description v) @ write_boolean (req_has_score_floor v) @
     write_f64 (req_score_floor v) @ write_f64 (req_ranking_weight v)"

definition read_evaluation_requirement :: "evaluation_requirement reader" where
  "read_evaluation_requirement =
     bindA (read_enum requirement_classes) (\<lambda>requirement_class.
     bindA read_str (\<lambda>evaluator_key.
     bindA read_str (\<lambda>description.
     bindA read_boolean (\<lambda>has_score_floor.
     bindA read_f64 (\<lambda>score_floor.
     bindA read_f64 (\<lambda>ranking_weight.
     retA \<lparr>req_class = requirement_class, req_key = evaluator_key,
     req_description = description, req_has_score_floor = has_score_floor,
     req_score_floor = score_floor, req_ranking_weight = ranking_weight\<rparr>))))))"

definition wire_evaluation_requirement :: "evaluation_requirement \<Rightarrow> bool" where
  "wire_evaluation_requirement v \<longleftrightarrow>
     wire_string (req_key v) \<and> wire_string (req_description v)"

interpretation w_evaluation_requirement: wire_codec write_evaluation_requirement read_evaluation_requirement wire_evaluation_requirement 26
  by unfold_locales
    (auto simp: read_evaluation_requirement_def write_evaluation_requirement_def wire_evaluation_requirement_def wire_simps
      elim!: wire_exact intro!: wire_rejects)

interpretation w_evaluation_requirement_list: wire_codec "write_list write_evaluation_requirement"
  "read_list kMaxProtocolElements kMinRequirementBytes read_evaluation_requirement"
  "list_ok kMaxProtocolElements wire_evaluation_requirement" 4
  by (rule w_evaluation_requirement.list_codec) (simp_all add: wire_bounds)

definition write_task_spec :: "task_spec \<Rightarrow> string" where
  "write_task_spec v =
     write_identity (task_id_of v) @ write_generation (task_gen v) @ write_str (task_name v) @
     write_str (task_objective v) @ write_list write_input_file (task_inputs v) @
     write_string_list (task_required_outputs v) @
     write_list write_evaluation_requirement (task_requirements v) @
     write_string_list (task_hard_constraints v) @
     write_string_list (task_closure_criteria v) @ write_identity (task_policy v) @
     write_generation (task_policy_gen v) @ write_budget_limits (task_budgets v) @
     write_str (task_digest v)"

definition read_task_spec :: "task_spec reader" where
  "read_task_spec =
     bindA (read_identity IK_Task) (\<lambda>id.
     bindA read_generation (\<lambda>generation.
     bindA read_str (\<lambda>name.
     bindA read_str (\<lambda>objective.
     bindA (read_list kMaxProtocolElements kMinInputFileBytes read_input_file) (\<lambda>inputs.
     bindA read_string_list (\<lambda>required_outputs.
     bindA (read_list kMaxProtocolElements kMinRequirementBytes read_evaluation_requirement) (\<lambda>requirements.
     bindA read_string_list (\<lambda>hard_constraints.
     bindA read_string_list (\<lambda>closure_criteria.
     bindA (read_identity IK_Policy) (\<lambda>policy.
     bindA read_generation (\<lambda>policy_generation.
     bindA read_budget_limits (\<lambda>budgets.
     bindA read_str (\<lambda>content_digest.
     retA \<lparr>task_id_of = id, task_gen = generation, task_name = name,
     task_objective = objective, task_inputs = inputs,
     task_required_outputs = required_outputs, task_requirements = requirements,
     task_hard_constraints = hard_constraints, task_closure_criteria = closure_criteria,
     task_policy = policy, task_policy_gen = policy_generation, task_budgets = budgets,
     task_digest = content_digest\<rparr>)))))))))))))"

definition wire_task_spec :: "task_spec \<Rightarrow> bool" where
  "wire_task_spec v \<longleftrightarrow>
     wire_identity IK_Task (task_id_of v) \<and> wire_string (task_name v) \<and>
     wire_string (task_objective v) \<and>
     list_ok kMaxProtocolElements wire_input_file (task_inputs v) \<and>
     wire_string_list (task_required_outputs v) \<and>
     list_ok kMaxProtocolElements wire_evaluation_requirement (task_requirements v) \<and>
     wire_string_list (task_hard_constraints v) \<and>
     wire_string_list (task_closure_criteria v) \<and>
     wire_identity IK_Policy (task_policy v) \<and> wire_string (task_digest v)"

interpretation w_task_spec: wire_codec write_task_spec read_task_spec wire_task_spec 56
  by unfold_locales
    (auto simp: read_task_spec_def write_task_spec_def wire_task_spec_def wire_simps
      elim!: wire_exact intro!: wire_rejects)

definition write_ranking_factor :: "ranking_factor \<Rightarrow> string" where
  "write_ranking_factor v =
     write_enum ranking_factor_kinds (fac_kind v) @
     write_enum ranking_directions (fac_direction v) @ write_f64 (fac_weight v) @
     write_str (fac_key v)"

definition read_ranking_factor :: "ranking_factor reader" where
  "read_ranking_factor =
     bindA (read_enum ranking_factor_kinds) (\<lambda>kind.
     bindA (read_enum ranking_directions) (\<lambda>direction.
     bindA read_f64 (\<lambda>weight.
     bindA read_str (\<lambda>key.
     retA \<lparr>fac_kind = kind, fac_direction = direction, fac_weight = weight,
     fac_key = key\<rparr>))))"

definition wire_ranking_factor :: "ranking_factor \<Rightarrow> bool" where
  "wire_ranking_factor v \<longleftrightarrow>
     wire_string (fac_key v)"

interpretation w_ranking_factor: wire_codec write_ranking_factor read_ranking_factor wire_ranking_factor 14
  by unfold_locales
    (auto simp: read_ranking_factor_def write_ranking_factor_def wire_ranking_factor_def wire_simps
      elim!: wire_exact intro!: wire_rejects)

interpretation w_ranking_factor_list: wire_codec "write_list write_ranking_factor"
  "read_list kMaxProtocolRankingFactors kMinRankingFactorBytes read_ranking_factor"
  "list_ok kMaxProtocolRankingFactors wire_ranking_factor" 4
  by (rule w_ranking_factor.list_codec) (simp_all add: wire_bounds)

definition write_policy :: "foundry_policy \<Rightarrow> string" where
  "write_policy v =
     write_identity (pol_id v) @ write_generation (pol_gen v) @ write_str (pol_name v) @
     write_list write_ranking_factor (sel_factors (pol_selection v)) @
     write_boolean (sel_require_complete_mandatory (pol_selection v)) @
     write_u32 (ret_top_k (pol_retention v)) @
     write_u32 (ret_max_retained (pol_retention v)) @
     write_u32 (ret_max_per_lineage (pol_retention v)) @
     write_boolean (ret_retain_selected (pol_retention v)) @
     write_budget_limits (pol_budgets v) @ write_u32 (pol_max_generation_depth v) @
     write_boolean (pol_carry_forward_elite v) @ write_str (pol_digest v)"

definition read_policy :: "foundry_policy reader" where
  "read_policy =
     bindA (read_identity IK_Policy) (\<lambda>id.
     bindA read_generation (\<lambda>generation.
     bindA read_str (\<lambda>name.
     bindA (read_list kMaxProtocolRankingFactors kMinRankingFactorBytes read_ranking_factor) (\<lambda>factors.
     bindA read_boolean (\<lambda>require_complete_mandatory.
     bindA read_u32 (\<lambda>retain_top_k.
     bindA read_u32 (\<lambda>max_retained.
     bindA read_u32 (\<lambda>max_per_lineage.
     bindA read_boolean (\<lambda>retain_selected.
     bindA read_budget_limits (\<lambda>budgets.
     bindA read_u32 (\<lambda>max_generation_depth.
     bindA read_boolean (\<lambda>carry_forward_elite.
     bindA read_str (\<lambda>content_digest.
     retA \<lparr>pol_id = id, pol_gen = generation, pol_name = name,
     pol_selection = \<lparr>sel_factors = factors,
     sel_require_complete_mandatory = require_complete_mandatory\<rparr>,
     pol_retention = \<lparr>ret_top_k = retain_top_k, ret_max_retained = max_retained,
     ret_max_per_lineage = max_per_lineage, ret_retain_selected = retain_selected\<rparr>,
     pol_budgets = budgets, pol_max_generation_depth = max_generation_depth,
     pol_carry_forward_elite = carry_forward_elite, pol_digest = content_digest\<rparr>)))))))))))))"

definition wire_policy :: "foundry_policy \<Rightarrow> bool" where
  "wire_policy v \<longleftrightarrow>
     wire_identity IK_Policy (pol_id v) \<and> wire_string (pol_name v) \<and>
     list_ok kMaxProtocolRankingFactors wire_ranking_factor (sel_factors (pol_selection v)) \<and>
     wire_string (pol_digest v)"

interpretation w_policy: wire_codec write_policy read_policy wire_policy 43
  by unfold_locales
    (auto simp: read_policy_def write_policy_def wire_policy_def wire_simps
      elim!: wire_exact intro!: wire_rejects)

definition write_population_spec :: "population_spec \<Rightarrow> string" where
  "write_population_spec v =
     write_str (ps_name v) @ write_identity (ps_task v) @ write_generation (ps_task_gen v) @
     write_identity (ps_policy v) @ write_generation (ps_policy_gen v) @
     write_u32 (ps_candidate_budget v) @ write_u32 (ps_worker_budget v) @
     write_u32 (ps_index v) @ write_identity (ps_predecessor v) @
     write_identity (ps_seed_candidate v) @ write_generation (ps_seed_candidate_gen v) @
     write_identity (ps_seed_lineage v) @ write_boolean (ps_require_promotion_request v)"

definition read_population_spec :: "population_spec reader" where
  "read_population_spec =
     bindA read_str (\<lambda>name.
     bindA (read_identity IK_Task) (\<lambda>task.
     bindA read_generation (\<lambda>task_generation.
     bindA (read_identity IK_Policy) (\<lambda>policy.
     bindA read_generation (\<lambda>policy_generation.
     bindA read_u32 (\<lambda>candidate_budget.
     bindA read_u32 (\<lambda>worker_budget.
     bindA read_u32 (\<lambda>population_index.
     bindA (read_optional_identity IK_Population) (\<lambda>predecessor.
     bindA (read_optional_identity IK_Candidate) (\<lambda>seed_candidate.
     bindA read_generation (\<lambda>seed_candidate_generation.
     bindA (read_optional_identity IK_Lineage) (\<lambda>seed_lineage.
     bindA read_boolean (\<lambda>require_promotion_request.
     retA \<lparr>ps_name = name, ps_task = task, ps_task_gen = task_generation,
     ps_policy = policy, ps_policy_gen = policy_generation,
     ps_candidate_budget = candidate_budget, ps_worker_budget = worker_budget,
     ps_index = population_index, ps_predecessor = predecessor,
     ps_seed_candidate = seed_candidate, ps_seed_candidate_gen = seed_candidate_generation,
     ps_seed_lineage = seed_lineage,
     ps_require_promotion_request = require_promotion_request\<rparr>)))))))))))))"

definition wire_population_spec :: "population_spec \<Rightarrow> bool" where
  "wire_population_spec v \<longleftrightarrow>
     wire_string (ps_name v) \<and> wire_identity IK_Task (ps_task v) \<and>
     wire_identity IK_Policy (ps_policy v) \<and>
     wire_optional_identity IK_Population (ps_predecessor v) \<and>
     wire_optional_identity IK_Candidate (ps_seed_candidate v) \<and>
     wire_optional_identity IK_Lineage (ps_seed_lineage v)"

interpretation w_population_spec: wire_codec write_population_spec read_population_spec wire_population_spec 69
  by unfold_locales
    (auto simp: read_population_spec_def write_population_spec_def wire_population_spec_def wire_simps
      elim!: wire_exact intro!: wire_rejects)

definition write_population_record :: "population_record \<Rightarrow> string" where
  "write_population_record v =
     write_identity (pop_id v) @ write_generation (pop_gen v) @ write_identity (pop_run v) @
     write_str (pop_name v) @ write_identity (pop_task v) @
     write_generation (pop_task_gen v) @ write_identity (pop_policy v) @
     write_generation (pop_policy_gen v) @ write_u32 (pop_candidate_budget v) @
     write_u32 (pop_worker_budget v) @ write_u32 (pop_index v) @
     write_identity (pop_predecessor v) @ write_identity (pop_seed_candidate v) @
     write_generation (pop_seed_candidate_gen v) @ write_identity (pop_seed_lineage v) @
     write_enum population_states (pop_state v) @ write_epoch (pop_created_epoch v) @
     write_epoch (pop_state_epoch v) @ write_generation (pop_committed_selection v) @
     write_boolean (pop_retention_committed v) @
     write_generation (pop_retention_selection_gen v) @
     write_boolean (pop_require_promotion_request v) @
     write_identity_list (pop_candidates v) @ write_u64 (pop_promotion_requests v) @
     write_identity (pop_committed_promotion v) @ write_str (pop_status_detail v) @
     write_string_list (pop_closure_blockers v)"

definition read_population_record :: "population_record reader" where
  "read_population_record =
     bindA (read_identity IK_Population) (\<lambda>id.
     bindA read_generation (\<lambda>generation.
     bindA (read_identity IK_FoundryRun) (\<lambda>run.
     bindA read_str (\<lambda>name.
     bindA (read_identity IK_Task) (\<lambda>task.
     bindA read_generation (\<lambda>task_generation.
     bindA (read_identity IK_Policy) (\<lambda>policy.
     bindA read_generation (\<lambda>policy_generation.
     bindA read_u32 (\<lambda>candidate_budget.
     bindA read_u32 (\<lambda>worker_budget.
     bindA read_u32 (\<lambda>population_index.
     bindA (read_optional_identity IK_Population) (\<lambda>predecessor.
     bindA (read_optional_identity IK_Candidate) (\<lambda>seed_candidate.
     bindA read_generation (\<lambda>seed_candidate_generation.
     bindA (read_optional_identity IK_Lineage) (\<lambda>seed_lineage.
     bindA (read_enum population_states) (\<lambda>state.
     bindA read_epoch (\<lambda>created_epoch.
     bindA read_epoch (\<lambda>state_epoch.
     bindA read_generation (\<lambda>committed_selection.
     bindA read_boolean (\<lambda>retention_committed.
     bindA read_generation (\<lambda>retention_selection_generation.
     bindA read_boolean (\<lambda>require_promotion_request.
     bindA (read_identity_list IK_Candidate) (\<lambda>candidates.
     bindA read_u64 (\<lambda>promotion_requests.
     bindA (read_optional_identity IK_PromotionRequest) (\<lambda>committed_promotion_request.
     bindA read_str (\<lambda>status_detail.
     bindA read_string_list (\<lambda>closure_blockers.
     retA \<lparr>pop_id = id, pop_gen = generation, pop_run = run, pop_name = name,
     pop_task = task, pop_task_gen = task_generation, pop_policy = policy,
     pop_policy_gen = policy_generation, pop_candidate_budget = candidate_budget,
     pop_worker_budget = worker_budget, pop_index = population_index,
     pop_predecessor = predecessor, pop_seed_candidate = seed_candidate,
     pop_seed_candidate_gen = seed_candidate_generation, pop_seed_lineage = seed_lineage,
     pop_state = state, pop_created_epoch = created_epoch, pop_state_epoch = state_epoch,
     pop_committed_selection = committed_selection,
     pop_retention_committed = retention_committed,
     pop_retention_selection_gen = retention_selection_generation,
     pop_require_promotion_request = require_promotion_request, pop_candidates = candidates,
     pop_promotion_requests = promotion_requests,
     pop_committed_promotion = committed_promotion_request, pop_status_detail = status_detail,
     pop_closure_blockers = closure_blockers\<rparr>)))))))))))))))))))))))))))"

definition wire_population_record :: "population_record \<Rightarrow> bool" where
  "wire_population_record v \<longleftrightarrow>
     wire_identity IK_Population (pop_id v) \<and>
     wire_identity IK_FoundryRun (pop_run v) \<and> wire_string (pop_name v) \<and>
     wire_identity IK_Task (pop_task v) \<and> wire_identity IK_Policy (pop_policy v) \<and>
     wire_optional_identity IK_Population (pop_predecessor v) \<and>
     wire_optional_identity IK_Candidate (pop_seed_candidate v) \<and>
     wire_optional_identity IK_Lineage (pop_seed_lineage v) \<and>
     wire_identity_list IK_Candidate (pop_candidates v) \<and>
     wire_optional_identity IK_PromotionRequest (pop_committed_promotion v) \<and>
     wire_string (pop_status_detail v) \<and> wire_string_list (pop_closure_blockers v)"

interpretation w_population_record: wire_codec write_population_record read_population_record wire_population_record 143
  by unfold_locales
    (auto simp: read_population_record_def write_population_record_def wire_population_record_def wire_simps
      elim!: wire_exact intro!: wire_rejects)

definition write_candidate_record :: "candidate_record \<Rightarrow> string" where
  "write_candidate_record v =
     write_identity (cand_id v) @ write_generation (cand_gen v) @
     write_identity (cand_population v) @ write_generation (cand_population_gen v) @
     write_identity (cand_task v) @ write_generation (cand_task_gen v) @
     write_identity (cand_lineage v) @ write_identity_list (cand_parents v) @
     write_u32 (cand_depth v) @ write_identity (cand_producer_worker v) @
     write_identity (cand_producer_boot v) @ write_identity (cand_attempt v) @
     write_generation (cand_attempt_gen v) @ write_identity (cand_assignment v) @
     write_epoch (cand_created_epoch v) @ write_epoch (cand_state_changed_epoch v) @
     write_enum candidate_states (cand_state v) @ write_artifact_list (cand_artifacts v) @
     write_str (cand_artifact_set_digest v) @ write_u32 (cand_attempt_count v) @
     write_generation (cand_evidence_gen v) @ write_generation (cand_evaluation_gen v) @
     write_generation (cand_selection_gen v) @ write_boolean (cand_selected v) @
     write_boolean (cand_retained v) @ write_boolean (cand_promotion_eligible v) @
     write_boolean (cand_promotion_requested v) @ write_str (cand_diversity_key v) @
     write_str (cand_failure_reason v) @ write_str (cand_superseded_by_reason v)"

definition read_candidate_record :: "candidate_record reader" where
  "read_candidate_record =
     bindA (read_identity IK_Candidate) (\<lambda>id.
     bindA read_generation (\<lambda>generation.
     bindA (read_identity IK_Population) (\<lambda>population.
     bindA read_generation (\<lambda>population_generation.
     bindA (read_identity IK_Task) (\<lambda>task.
     bindA read_generation (\<lambda>task_generation.
     bindA (read_identity IK_Lineage) (\<lambda>lineage.
     bindA (read_identity_list IK_Candidate) (\<lambda>parents.
     bindA read_u32 (\<lambda>depth.
     bindA (read_optional_identity IK_Worker) (\<lambda>producer_worker.
     bindA (read_optional_identity IK_WorkerBoot) (\<lambda>producer_boot.
     bindA (read_optional_identity IK_Attempt) (\<lambda>attempt.
     bindA read_generation (\<lambda>attempt_generation.
     bindA (read_optional_identity IK_Assignment) (\<lambda>assignment.
     bindA read_epoch (\<lambda>created_epoch.
     bindA read_epoch (\<lambda>state_changed_epoch.
     bindA (read_enum candidate_states) (\<lambda>state.
     bindA read_artifact_list (\<lambda>artifacts.
     bindA read_str (\<lambda>artifact_set_digest.
     bindA read_u32 (\<lambda>attempt_count.
     bindA read_generation (\<lambda>evidence_generation.
     bindA read_generation (\<lambda>evaluation_generation.
     bindA read_generation (\<lambda>selection_generation.
     bindA read_boolean (\<lambda>selected.
     bindA read_boolean (\<lambda>retained.
     bindA read_boolean (\<lambda>promotion_eligible.
     bindA read_boolean (\<lambda>promotion_requested.
     bindA read_str (\<lambda>diversity_key.
     bindA read_str (\<lambda>failure_reason.
     bindA read_str (\<lambda>superseded_by_reason.
     retA \<lparr>cand_id = id, cand_gen = generation, cand_population = population,
     cand_population_gen = population_generation, cand_task = task,
     cand_task_gen = task_generation, cand_lineage = lineage, cand_parents = parents,
     cand_depth = depth, cand_producer_worker = producer_worker,
     cand_producer_boot = producer_boot, cand_attempt = attempt,
     cand_attempt_gen = attempt_generation, cand_assignment = assignment,
     cand_created_epoch = created_epoch, cand_state_changed_epoch = state_changed_epoch,
     cand_state = state, cand_artifacts = artifacts,
     cand_artifact_set_digest = artifact_set_digest, cand_attempt_count = attempt_count,
     cand_evidence_gen = evidence_generation, cand_evaluation_gen = evaluation_generation,
     cand_selection_gen = selection_generation, cand_selected = selected,
     cand_retained = retained, cand_promotion_eligible = promotion_eligible,
     cand_promotion_requested = promotion_requested, cand_diversity_key = diversity_key,
     cand_failure_reason = failure_reason,
     cand_superseded_by_reason = superseded_by_reason\<rparr>))))))))))))))))))))))))))))))"

definition wire_candidate_record :: "candidate_record \<Rightarrow> bool" where
  "wire_candidate_record v \<longleftrightarrow>
     wire_identity IK_Candidate (cand_id v) \<and>
     wire_identity IK_Population (cand_population v) \<and>
     wire_identity IK_Task (cand_task v) \<and>
     wire_identity IK_Lineage (cand_lineage v) \<and>
     wire_identity_list IK_Candidate (cand_parents v) \<and>
     wire_optional_identity IK_Worker (cand_producer_worker v) \<and>
     wire_optional_identity IK_WorkerBoot (cand_producer_boot v) \<and>
     wire_optional_identity IK_Attempt (cand_attempt v) \<and>
     wire_optional_identity IK_Assignment (cand_assignment v) \<and>
     wire_artifact_list (cand_artifacts v) \<and>
     wire_string (cand_artifact_set_digest v) \<and> wire_string (cand_diversity_key v) \<and>
     wire_string (cand_failure_reason v) \<and> wire_string (cand_superseded_by_reason v)"

interpretation w_candidate_record: wire_codec write_candidate_record read_candidate_record wire_candidate_record 145
  by unfold_locales
    (auto simp: read_candidate_record_def write_candidate_record_def wire_candidate_record_def wire_simps
      elim!: wire_exact intro!: wire_rejects)

definition write_lineage_node :: "lineage_node \<Rightarrow> string" where
  "write_lineage_node v =
     write_identity (ln_candidate v) @ write_generation (ln_candidate_gen v) @
     write_identity (ln_lineage v) @ write_identity_list (ln_parents v) @
     write_u32 (ln_depth v) @ write_epoch (ln_created_epoch v) @
     write_boolean (ln_retired v) @ write_epoch (ln_retired_epoch v) @
     write_str (ln_retirement_reason v)"

definition read_lineage_node :: "lineage_node reader" where
  "read_lineage_node =
     bindA (read_identity IK_Candidate) (\<lambda>candidate.
     bindA read_generation (\<lambda>candidate_generation.
     bindA (read_identity IK_Lineage) (\<lambda>lineage.
     bindA (read_identity_list IK_Candidate) (\<lambda>parents.
     bindA read_u32 (\<lambda>depth.
     bindA read_epoch (\<lambda>created_epoch.
     bindA read_boolean (\<lambda>retired.
     bindA read_epoch (\<lambda>retired_epoch.
     bindA read_str (\<lambda>retirement_reason.
     retA \<lparr>ln_candidate = candidate, ln_candidate_gen = candidate_generation,
     ln_lineage = lineage, ln_parents = parents, ln_depth = depth,
     ln_created_epoch = created_epoch, ln_retired = retired, ln_retired_epoch = retired_epoch,
     ln_retirement_reason = retirement_reason\<rparr>)))))))))"

definition wire_lineage_node :: "lineage_node \<Rightarrow> bool" where
  "wire_lineage_node v \<longleftrightarrow>
     wire_identity IK_Candidate (ln_candidate v) \<and>
     wire_identity IK_Lineage (ln_lineage v) \<and>
     wire_identity_list IK_Candidate (ln_parents v) \<and> wire_string (ln_retirement_reason v)"

interpretation w_lineage_node: wire_codec write_lineage_node read_lineage_node wire_lineage_node 49
  by unfold_locales
    (auto simp: read_lineage_node_def write_lineage_node_def wire_lineage_node_def wire_simps
      elim!: wire_exact intro!: wire_rejects)

interpretation w_lineage_node_list: wire_codec "write_list write_lineage_node"
  "read_list kMaxProtocolElements kMinLineageNodeBytes read_lineage_node"
  "list_ok kMaxProtocolElements wire_lineage_node" 4
  by (rule w_lineage_node.list_codec) (simp_all add: wire_bounds)

definition write_statistics :: "foundry_statistics \<Rightarrow> string" where
  "write_statistics v =
     write_u64 (st_task_revisions v) @ write_u64 (st_policy_revisions v) @
     write_u64 (st_populations_created v) @ write_u64 (st_populations_closed v) @
     write_u64 (st_candidate_slots_created v) @ write_u64 (st_candidates_published v) @
     write_u64 (st_attempts_authorized v) @ write_u64 (st_attempts_completed v) @
     write_u64 (st_attempts_failed v) @ write_u64 (st_attempts_cancelled v) @
     write_u64 (st_attempts_outcome_unknown v) @ write_u64 (st_evaluations_recorded v) @
     write_u64 (st_selections_prepared v) @ write_u64 (st_selections_committed v) @
     write_u64 (st_retentions_committed v) @ write_u64 (st_promotion_requests v) @
     write_u64 (st_stale_authority_rejections v) @ write_u64 (st_duplicate_rejections v) @
     write_u64 (st_late_rejections v) @ write_u64 (st_illegal_transition_rejections v)"

definition read_statistics :: "foundry_statistics reader" where
  "read_statistics =
     bindA read_u64 (\<lambda>task_revisions.
     bindA read_u64 (\<lambda>policy_revisions.
     bindA read_u64 (\<lambda>populations_created.
     bindA read_u64 (\<lambda>populations_closed.
     bindA read_u64 (\<lambda>candidate_slots_created.
     bindA read_u64 (\<lambda>candidates_published.
     bindA read_u64 (\<lambda>attempts_authorized.
     bindA read_u64 (\<lambda>attempts_completed.
     bindA read_u64 (\<lambda>attempts_failed.
     bindA read_u64 (\<lambda>attempts_cancelled.
     bindA read_u64 (\<lambda>attempts_outcome_unknown.
     bindA read_u64 (\<lambda>evaluations_recorded.
     bindA read_u64 (\<lambda>selections_prepared.
     bindA read_u64 (\<lambda>selections_committed.
     bindA read_u64 (\<lambda>retentions_committed.
     bindA read_u64 (\<lambda>promotion_requests.
     bindA read_u64 (\<lambda>stale_authority_rejections.
     bindA read_u64 (\<lambda>duplicate_rejections.
     bindA read_u64 (\<lambda>late_rejections.
     bindA read_u64 (\<lambda>illegal_transition_rejections.
     retA \<lparr>st_task_revisions = task_revisions, st_policy_revisions = policy_revisions,
     st_populations_created = populations_created, st_populations_closed = populations_closed,
     st_candidate_slots_created = candidate_slots_created,
     st_candidates_published = candidates_published,
     st_attempts_authorized = attempts_authorized, st_attempts_completed = attempts_completed,
     st_attempts_failed = attempts_failed, st_attempts_cancelled = attempts_cancelled,
     st_attempts_outcome_unknown = attempts_outcome_unknown,
     st_evaluations_recorded = evaluations_recorded,
     st_selections_prepared = selections_prepared,
     st_selections_committed = selections_committed,
     st_retentions_committed = retentions_committed,
     st_promotion_requests = promotion_requests,
     st_stale_authority_rejections = stale_authority_rejections,
     st_duplicate_rejections = duplicate_rejections, st_late_rejections = late_rejections,
     st_illegal_transition_rejections = illegal_transition_rejections\<rparr>))))))))))))))))))))"

interpretation w_statistics: wire_codec write_statistics read_statistics "\<lambda>_. True" 160
  by unfold_locales
    (auto simp: read_statistics_def write_statistics_def wire_simps
      elim!: wire_exact intro!: wire_rejects)

definition write_evaluation_record :: "evaluation_record \<Rightarrow> string" where
  "write_evaluation_record v =
     write_identity (ev_id v) @ write_generation (ev_gen v) @
     write_identity (ev_candidate v) @ write_generation (ev_candidate_gen v) @
     write_identity (ev_task v) @ write_generation (ev_task_gen v) @
     write_identity (ev_population v) @ write_generation (ev_population_gen v) @
     write_identity (ev_evaluator v) @ write_str (ev_key v) @
     write_enum evaluator_kinds (ev_kind v) @ write_enum requirement_classes (ev_class v) @
     write_enum evaluation_outcomes (ev_outcome v) @ write_boolean (ev_complete v) @
     write_boolean (ev_has_score v) @ write_f64 (ev_score v) @
     write_epoch (ev_decided_epoch v) @ write_str (ev_diagnostics v) @
     write_str (ev_evidence_digest v) @ write_u64 (ev_duration_micros v)"

definition read_evaluation_record :: "evaluation_record reader" where
  "read_evaluation_record =
     bindA (read_identity IK_Evaluation) (\<lambda>id.
     bindA read_generation (\<lambda>generation.
     bindA (read_identity IK_Candidate) (\<lambda>candidate.
     bindA read_generation (\<lambda>candidate_generation.
     bindA (read_identity IK_Task) (\<lambda>task.
     bindA read_generation (\<lambda>task_generation.
     bindA (read_identity IK_Population) (\<lambda>population.
     bindA read_generation (\<lambda>population_generation.
     bindA (read_identity IK_Evaluator) (\<lambda>evaluator.
     bindA read_str (\<lambda>evaluator_key.
     bindA (read_enum evaluator_kinds) (\<lambda>kind.
     bindA (read_enum requirement_classes) (\<lambda>requirement_class.
     bindA (read_enum evaluation_outcomes) (\<lambda>outcome.
     bindA read_boolean (\<lambda>complete.
     bindA read_boolean (\<lambda>has_score.
     bindA read_f64 (\<lambda>score.
     bindA read_epoch (\<lambda>decided_epoch.
     bindA read_str (\<lambda>diagnostics.
     bindA read_str (\<lambda>evidence_digest.
     bindA read_u64 (\<lambda>duration_micros.
     retA \<lparr>ev_id = id, ev_gen = generation, ev_candidate = candidate,
     ev_candidate_gen = candidate_generation, ev_task = task, ev_task_gen = task_generation,
     ev_population = population, ev_population_gen = population_generation,
     ev_evaluator = evaluator, ev_key = evaluator_key, ev_kind = kind,
     ev_class = requirement_class, ev_outcome = outcome, ev_complete = complete,
     ev_has_score = has_score, ev_score = score, ev_decided_epoch = decided_epoch,
     ev_diagnostics = diagnostics, ev_evidence_digest = evidence_digest,
     ev_duration_micros = duration_micros\<rparr>))))))))))))))))))))"

definition wire_evaluation_record :: "evaluation_record \<Rightarrow> bool" where
  "wire_evaluation_record v \<longleftrightarrow>
     wire_identity IK_Evaluation (ev_id v) \<and>
     wire_identity IK_Candidate (ev_candidate v) \<and>
     wire_identity IK_Task (ev_task v) \<and>
     wire_identity IK_Population (ev_population v) \<and>
     wire_identity IK_Evaluator (ev_evaluator v) \<and> wire_string (ev_key v) \<and>
     wire_string (ev_diagnostics v) \<and> wire_string (ev_evidence_digest v)"

interpretation w_evaluation_record: wire_codec write_evaluation_record read_evaluation_record wire_evaluation_record 97
  by unfold_locales
    (auto simp: read_evaluation_record_def write_evaluation_record_def wire_evaluation_record_def wire_simps
      elim!: wire_exact intro!: wire_rejects)

interpretation w_evaluation_record_list: wire_codec "write_list write_evaluation_record"
  "read_list kMaxProtocolElements kMinEvaluationRecordBytes read_evaluation_record"
  "list_ok kMaxProtocolElements wire_evaluation_record" 4
  by (rule w_evaluation_record.list_codec) (simp_all add: wire_bounds)

definition write_ranking_factor_value :: "ranking_factor_value \<Rightarrow> string" where
  "write_ranking_factor_value v =
     write_str (rfv_key v) @ write_enum ranking_factor_kinds (rfv_kind v) @
     write_enum ranking_directions (rfv_direction v) @ write_f64 (rfv_weight v) @
     write_f64 (rfv_raw_value v) @ write_boolean (rfv_available v) @
     write_f64 (rfv_contribution v)"

definition read_ranking_factor_value :: "ranking_factor_value reader" where
  "read_ranking_factor_value =
     bindA read_str (\<lambda>key.
     bindA (read_enum ranking_factor_kinds) (\<lambda>kind.
     bindA (read_enum ranking_directions) (\<lambda>direction.
     bindA read_f64 (\<lambda>weight.
     bindA read_f64 (\<lambda>raw_value.
     bindA read_boolean (\<lambda>available.
     bindA read_f64 (\<lambda>contribution.
     retA \<lparr>rfv_key = key, rfv_kind = kind, rfv_direction = direction,
     rfv_weight = weight, rfv_raw_value = raw_value, rfv_available = available,
     rfv_contribution = contribution\<rparr>)))))))"

definition wire_ranking_factor_value :: "ranking_factor_value \<Rightarrow> bool" where
  "wire_ranking_factor_value v \<longleftrightarrow>
     wire_string (rfv_key v)"

interpretation w_ranking_factor_value: wire_codec write_ranking_factor_value read_ranking_factor_value wire_ranking_factor_value 31
  by unfold_locales
    (auto simp: read_ranking_factor_value_def write_ranking_factor_value_def wire_ranking_factor_value_def wire_simps
      elim!: wire_exact intro!: wire_rejects)

interpretation w_ranking_factor_value_list: wire_codec "write_list write_ranking_factor_value"
  "read_list kMaxProtocolRankingFactors kMinRankingFactorValueBytes read_ranking_factor_value"
  "list_ok kMaxProtocolRankingFactors wire_ranking_factor_value" 4
  by (rule w_ranking_factor_value.list_codec) (simp_all add: wire_bounds)

definition write_ranking_entry :: "ranking_entry \<Rightarrow> string" where
  "write_ranking_entry v =
     write_identity (re_candidate v) @ write_generation (re_candidate_gen v) @
     write_u32 (re_rank v) @ write_f64 (re_total_score v) @
     write_list write_ranking_factor_value (re_factors v) @ write_u64 (re_artifact_bytes v) @
     write_u32 (re_lineage_depth v) @ write_str (re_diversity_key v)"

definition read_ranking_entry :: "ranking_entry reader" where
  "read_ranking_entry =
     bindA (read_identity IK_Candidate) (\<lambda>candidate.
     bindA read_generation (\<lambda>candidate_generation.
     bindA read_u32 (\<lambda>rank.
     bindA read_f64 (\<lambda>total_score.
     bindA (read_list kMaxProtocolRankingFactors kMinRankingFactorValueBytes read_ranking_factor_value) (\<lambda>factors.
     bindA read_u64 (\<lambda>artifact_bytes.
     bindA read_u32 (\<lambda>lineage_depth.
     bindA read_str (\<lambda>diversity_key.
     retA \<lparr>re_candidate = candidate, re_candidate_gen = candidate_generation,
     re_rank = rank, re_total_score = total_score, re_factors = factors,
     re_artifact_bytes = artifact_bytes, re_lineage_depth = lineage_depth,
     re_diversity_key = diversity_key\<rparr>))))))))"

definition wire_ranking_entry :: "ranking_entry \<Rightarrow> bool" where
  "wire_ranking_entry v \<longleftrightarrow>
     wire_identity IK_Candidate (re_candidate v) \<and>
     list_ok kMaxProtocolRankingFactors wire_ranking_factor_value (re_factors v) \<and>
     wire_string (re_diversity_key v)"

interpretation w_ranking_entry: wire_codec write_ranking_entry read_ranking_entry wire_ranking_entry 44
  by unfold_locales
    (auto simp: read_ranking_entry_def write_ranking_entry_def wire_ranking_entry_def wire_simps
      elim!: wire_exact intro!: wire_rejects)

interpretation w_ranking_entry_list: wire_codec "write_list write_ranking_entry"
  "read_list kMaxProtocolElements kMinRankingEntryBytes read_ranking_entry"
  "list_ok kMaxProtocolElements wire_ranking_entry" 4
  by (rule w_ranking_entry.list_codec) (simp_all add: wire_bounds)

definition write_exclusion_entry :: "exclusion_entry \<Rightarrow> string" where
  "write_exclusion_entry v =
     write_identity (ex_candidate v) @ write_generation (ex_candidate_gen v) @
     write_enum selection_stages (ex_stage v) @ write_enum exclusion_reasons (ex_reason v) @
     write_str (ex_detail v)"

definition read_exclusion_entry :: "exclusion_entry reader" where
  "read_exclusion_entry =
     bindA (read_identity IK_Candidate) (\<lambda>candidate.
     bindA read_generation (\<lambda>candidate_generation.
     bindA (read_enum selection_stages) (\<lambda>stage.
     bindA (read_enum exclusion_reasons) (\<lambda>reason.
     bindA read_str (\<lambda>detail.
     retA \<lparr>ex_candidate = candidate, ex_candidate_gen = candidate_generation,
     ex_stage = stage, ex_reason = reason, ex_detail = detail\<rparr>)))))"

definition wire_exclusion_entry :: "exclusion_entry \<Rightarrow> bool" where
  "wire_exclusion_entry v \<longleftrightarrow>
     wire_identity IK_Candidate (ex_candidate v) \<and> wire_string (ex_detail v)"

interpretation w_exclusion_entry: wire_codec write_exclusion_entry read_exclusion_entry wire_exclusion_entry 18
  by unfold_locales
    (auto simp: read_exclusion_entry_def write_exclusion_entry_def wire_exclusion_entry_def wire_simps
      elim!: wire_exact intro!: wire_rejects)

interpretation w_exclusion_entry_list: wire_codec "write_list write_exclusion_entry"
  "read_list kMaxProtocolElements kMinExclusionEntryBytes read_exclusion_entry"
  "list_ok kMaxProtocolElements wire_exclusion_entry" 4
  by (rule w_exclusion_entry.list_codec) (simp_all add: wire_bounds)

definition write_selection_decision :: "selection_decision \<Rightarrow> string" where
  "write_selection_decision v =
     write_generation (sd_gen v) @ write_identity (sd_population v) @
     write_generation (sd_population_gen v) @ write_identity (sd_task v) @
     write_generation (sd_task_gen v) @ write_identity (sd_policy v) @
     write_generation (sd_policy_gen v) @ write_epoch (sd_epoch v) @
     write_enum selection_decision_states (sd_state v) @ write_identity (sd_selected v) @
     write_generation (sd_selected_gen v) @ write_list write_ranking_entry (sd_ranking v) @
     write_list write_exclusion_entry (sd_excluded v) @ write_str (sd_digest v) @
     write_str (sd_rationale v)"

definition read_selection_decision :: "selection_decision reader" where
  "read_selection_decision =
     bindA read_generation (\<lambda>generation.
     bindA (read_identity IK_Population) (\<lambda>population.
     bindA read_generation (\<lambda>population_generation.
     bindA (read_identity IK_Task) (\<lambda>task.
     bindA read_generation (\<lambda>task_generation.
     bindA (read_identity IK_Policy) (\<lambda>policy.
     bindA read_generation (\<lambda>policy_generation.
     bindA read_epoch (\<lambda>coordinator_epoch.
     bindA (read_enum selection_decision_states) (\<lambda>state.
     bindA (read_optional_identity IK_Candidate) (\<lambda>selected.
     bindA read_generation (\<lambda>selected_generation.
     bindA (read_list kMaxProtocolElements kMinRankingEntryBytes read_ranking_entry) (\<lambda>ranking.
     bindA (read_list kMaxProtocolElements kMinExclusionEntryBytes read_exclusion_entry) (\<lambda>excluded.
     bindA read_str (\<lambda>canonical_state_digest.
     bindA read_str (\<lambda>rationale.
     retA \<lparr>sd_gen = generation, sd_population = population,
     sd_population_gen = population_generation, sd_task = task, sd_task_gen = task_generation,
     sd_policy = policy, sd_policy_gen = policy_generation, sd_epoch = coordinator_epoch,
     sd_state = state, sd_selected = selected, sd_selected_gen = selected_generation,
     sd_ranking = ranking, sd_excluded = excluded, sd_digest = canonical_state_digest,
     sd_rationale = rationale\<rparr>)))))))))))))))"

definition wire_selection_decision :: "selection_decision \<Rightarrow> bool" where
  "wire_selection_decision v \<longleftrightarrow>
     wire_identity IK_Population (sd_population v) \<and>
     wire_identity IK_Task (sd_task v) \<and> wire_identity IK_Policy (sd_policy v) \<and>
     wire_optional_identity IK_Candidate (sd_selected v) \<and>
     list_ok kMaxProtocolElements wire_ranking_entry (sd_ranking v) \<and>
     list_ok kMaxProtocolElements wire_exclusion_entry (sd_excluded v) \<and>
     wire_string (sd_digest v) \<and> wire_string (sd_rationale v)"

interpretation w_selection_decision: wire_codec write_selection_decision read_selection_decision wire_selection_decision 77
  by unfold_locales
    (auto simp: read_selection_decision_def write_selection_decision_def wire_selection_decision_def wire_simps
      elim!: wire_exact intro!: wire_rejects)

definition write_retention_entry :: "retention_entry \<Rightarrow> string" where
  "write_retention_entry v =
     write_identity (rde_candidate v) @ write_generation (rde_candidate_gen v) @
     write_enum retention_outcomes (rde_outcome v) @ write_u32 (rde_rank v) @
     write_str (rde_lineage_key v) @ write_str (rde_detail v)"

definition read_retention_entry :: "retention_entry reader" where
  "read_retention_entry =
     bindA (read_identity IK_Candidate) (\<lambda>candidate.
     bindA read_generation (\<lambda>candidate_generation.
     bindA (read_enum retention_outcomes) (\<lambda>outcome.
     bindA read_u32 (\<lambda>rank.
     bindA read_str (\<lambda>lineage_key.
     bindA read_str (\<lambda>detail.
     retA \<lparr>rde_candidate = candidate, rde_candidate_gen = candidate_generation,
     rde_outcome = outcome, rde_rank = rank, rde_lineage_key = lineage_key,
     rde_detail = detail\<rparr>))))))"

definition wire_retention_entry :: "retention_entry \<Rightarrow> bool" where
  "wire_retention_entry v \<longleftrightarrow>
     wire_identity IK_Candidate (rde_candidate v) \<and>
     wire_string (rde_lineage_key v) \<and> wire_string (rde_detail v)"

interpretation w_retention_entry: wire_codec write_retention_entry read_retention_entry wire_retention_entry 25
  by unfold_locales
    (auto simp: read_retention_entry_def write_retention_entry_def wire_retention_entry_def wire_simps
      elim!: wire_exact intro!: wire_rejects)

interpretation w_retention_entry_list: wire_codec "write_list write_retention_entry"
  "read_list kMaxProtocolElements kMinRetentionEntryBytes read_retention_entry"
  "list_ok kMaxProtocolElements wire_retention_entry" 4
  by (rule w_retention_entry.list_codec) (simp_all add: wire_bounds)

definition write_retention_decision :: "retention_decision \<Rightarrow> string" where
  "write_retention_decision v =
     write_generation (rd_selection_gen v) @ write_identity (rd_population v) @
     write_generation (rd_population_gen v) @ write_identity (rd_policy v) @
     write_generation (rd_policy_gen v) @ write_epoch (rd_epoch v) @
     write_list write_retention_entry (rd_entries v) @ write_identity_list (rd_retained v) @
     write_identity_list (rd_retired v) @ write_str (rd_digest v) @
     write_boolean (rd_committed v)"

definition read_retention_decision :: "retention_decision reader" where
  "read_retention_decision =
     bindA read_generation (\<lambda>selection_generation.
     bindA (read_identity IK_Population) (\<lambda>population.
     bindA read_generation (\<lambda>population_generation.
     bindA (read_identity IK_Policy) (\<lambda>policy.
     bindA read_generation (\<lambda>policy_generation.
     bindA read_epoch (\<lambda>coordinator_epoch.
     bindA (read_list kMaxProtocolElements kMinRetentionEntryBytes read_retention_entry) (\<lambda>entries.
     bindA (read_identity_list IK_Candidate) (\<lambda>retained.
     bindA (read_identity_list IK_Candidate) (\<lambda>retired.
     bindA read_str (\<lambda>canonical_state_digest.
     bindA read_boolean (\<lambda>committed.
     retA \<lparr>rd_selection_gen = selection_generation, rd_population = population,
     rd_population_gen = population_generation, rd_policy = policy,
     rd_policy_gen = policy_generation, rd_epoch = coordinator_epoch, rd_entries = entries,
     rd_retained = retained, rd_retired = retired, rd_digest = canonical_state_digest,
     rd_committed = committed\<rparr>)))))))))))"

definition wire_retention_decision :: "retention_decision \<Rightarrow> bool" where
  "wire_retention_decision v \<longleftrightarrow>
     wire_identity IK_Population (rd_population v) \<and>
     wire_identity IK_Policy (rd_policy v) \<and>
     list_ok kMaxProtocolElements wire_retention_entry (rd_entries v) \<and>
     wire_identity_list IK_Candidate (rd_retained v) \<and>
     wire_identity_list IK_Candidate (rd_retired v) \<and> wire_string (rd_digest v)"

interpretation w_retention_decision: wire_codec write_retention_decision read_retention_decision wire_retention_decision 53
  by unfold_locales
    (auto simp: read_retention_decision_def write_retention_decision_def wire_retention_decision_def wire_simps
      elim!: wire_exact intro!: wire_rejects)

definition write_promotion_evidence_summary :: "promotion_evidence \<Rightarrow> string" where
  "write_promotion_evidence_summary v =
     write_str (pe_key v) @ write_enum evaluator_kinds (pe_kind v) @
     write_enum evaluation_outcomes (pe_outcome v) @
     write_enum requirement_classes (pe_class v) @ write_boolean (pe_complete v) @
     write_boolean (pe_has_score v) @ write_f64 (pe_score v) @ write_generation (pe_gen v) @
     write_str (pe_digest v)"

definition read_promotion_evidence_summary :: "promotion_evidence reader" where
  "read_promotion_evidence_summary =
     bindA read_str (\<lambda>evaluator_key.
     bindA (read_enum evaluator_kinds) (\<lambda>kind.
     bindA (read_enum evaluation_outcomes) (\<lambda>outcome.
     bindA (read_enum requirement_classes) (\<lambda>requirement_class.
     bindA read_boolean (\<lambda>complete.
     bindA read_boolean (\<lambda>has_score.
     bindA read_f64 (\<lambda>score.
     bindA read_generation (\<lambda>generation.
     bindA read_str (\<lambda>evidence_digest.
     retA \<lparr>pe_key = evaluator_key, pe_kind = kind, pe_outcome = outcome,
     pe_class = requirement_class, pe_complete = complete, pe_has_score = has_score,
     pe_score = score, pe_gen = generation, pe_digest = evidence_digest\<rparr>)))))))))"

definition wire_promotion_evidence_summary :: "promotion_evidence \<Rightarrow> bool" where
  "wire_promotion_evidence_summary v \<longleftrightarrow>
     wire_string (pe_key v) \<and> wire_string (pe_digest v)"

interpretation w_promotion_evidence_summary: wire_codec write_promotion_evidence_summary read_promotion_evidence_summary wire_promotion_evidence_summary 25
  by unfold_locales
    (auto simp: read_promotion_evidence_summary_def write_promotion_evidence_summary_def wire_promotion_evidence_summary_def wire_simps
      elim!: wire_exact intro!: wire_rejects)

interpretation w_promotion_evidence_summary_list: wire_codec "write_list write_promotion_evidence_summary"
  "read_list kMaxProtocolElements kMinPromotionEvidenceBytes read_promotion_evidence_summary"
  "list_ok kMaxProtocolElements wire_promotion_evidence_summary" 4
  by (rule w_promotion_evidence_summary.list_codec) (simp_all add: wire_bounds)

definition write_promotion_request :: "promotion_request \<Rightarrow> string" where
  "write_promotion_request v =
     write_identity (pr_id v) @ write_identity (pr_foundry v) @ write_identity (pr_run v) @
     write_epoch (pr_epoch v) @ write_identity (pr_population v) @
     write_generation (pr_population_gen v) @ write_identity (pr_candidate v) @
     write_generation (pr_candidate_gen v) @ write_identity (pr_task v) @
     write_generation (pr_task_gen v) @ write_identity (pr_lineage v) @
     write_generation (pr_selection_gen v) @ write_identity (pr_policy v) @
     write_generation (pr_policy_gen v) @ write_generation (pr_evidence_gen v) @
     write_enum promotion_eligibilities (pr_eligibility v) @
     write_string_list (pr_outstanding v) @ write_artifact_list (pr_artifacts v) @
     write_u64 (pr_total_bytes v) @ write_str (pr_artifact_set_digest v) @
     write_list write_promotion_evidence_summary (pr_evidence v) @
     write_identity_list (pr_ancestry v) @ write_u32 (pr_lineage_depth v) @
     write_str (pr_digest v)"

definition read_promotion_request :: "promotion_request reader" where
  "read_promotion_request =
     bindA (read_identity IK_PromotionRequest) (\<lambda>id.
     bindA (read_identity IK_Foundry) (\<lambda>foundry.
     bindA (read_identity IK_FoundryRun) (\<lambda>run.
     bindA read_epoch (\<lambda>coordinator_epoch.
     bindA (read_identity IK_Population) (\<lambda>population.
     bindA read_generation (\<lambda>population_generation.
     bindA (read_identity IK_Candidate) (\<lambda>candidate.
     bindA read_generation (\<lambda>candidate_generation.
     bindA (read_identity IK_Task) (\<lambda>task.
     bindA read_generation (\<lambda>task_generation.
     bindA (read_identity IK_Lineage) (\<lambda>lineage.
     bindA read_generation (\<lambda>selection_generation.
     bindA (read_identity IK_Policy) (\<lambda>policy.
     bindA read_generation (\<lambda>policy_generation.
     bindA read_generation (\<lambda>evidence_generation.
     bindA (read_enum promotion_eligibilities) (\<lambda>eligibility.
     bindA read_string_list (\<lambda>outstanding_requirements.
     bindA read_artifact_list (\<lambda>artifacts.
     bindA read_u64 (\<lambda>total_artifact_bytes.
     bindA read_str (\<lambda>artifact_set_digest.
     bindA (read_list kMaxProtocolElements kMinPromotionEvidenceBytes read_promotion_evidence_summary) (\<lambda>mandatory_evidence.
     bindA (read_identity_list IK_Candidate) (\<lambda>ancestry.
     bindA read_u32 (\<lambda>lineage_depth.
     bindA read_str (\<lambda>canonical_state_digest.
     retA \<lparr>pr_id = id, pr_foundry = foundry, pr_run = run,
     pr_epoch = coordinator_epoch, pr_population = population,
     pr_population_gen = population_generation, pr_candidate = candidate,
     pr_candidate_gen = candidate_generation, pr_task = task, pr_task_gen = task_generation,
     pr_lineage = lineage, pr_selection_gen = selection_generation, pr_policy = policy,
     pr_policy_gen = policy_generation, pr_evidence_gen = evidence_generation,
     pr_eligibility = eligibility, pr_outstanding = outstanding_requirements,
     pr_artifacts = artifacts, pr_total_bytes = total_artifact_bytes,
     pr_artifact_set_digest = artifact_set_digest, pr_evidence = mandatory_evidence,
     pr_ancestry = ancestry, pr_lineage_depth = lineage_depth,
     pr_digest = canonical_state_digest\<rparr>))))))))))))))))))))))))"

definition wire_promotion_request :: "promotion_request \<Rightarrow> bool" where
  "wire_promotion_request v \<longleftrightarrow>
     wire_identity IK_PromotionRequest (pr_id v) \<and>
     wire_identity IK_Foundry (pr_foundry v) \<and>
     wire_identity IK_FoundryRun (pr_run v) \<and>
     wire_identity IK_Population (pr_population v) \<and>
     wire_identity IK_Candidate (pr_candidate v) \<and>
     wire_identity IK_Task (pr_task v) \<and> wire_identity IK_Lineage (pr_lineage v) \<and>
     wire_identity IK_Policy (pr_policy v) \<and> wire_string_list (pr_outstanding v) \<and>
     wire_artifact_list (pr_artifacts v) \<and> wire_string (pr_artifact_set_digest v) \<and>
     list_ok kMaxProtocolElements wire_promotion_evidence_summary (pr_evidence v) \<and>
     wire_identity_list IK_Candidate (pr_ancestry v) \<and> wire_string (pr_digest v)"

interpretation w_promotion_request: wire_codec write_promotion_request read_promotion_request wire_promotion_request 133
  by unfold_locales
    (auto simp: read_promotion_request_def write_promotion_request_def wire_promotion_request_def wire_simps
      elim!: wire_exact intro!: wire_rejects)

definition write_promotion_receipt :: "promotion_receipt \<Rightarrow> string" where
  "write_promotion_receipt v =
     write_enum promotion_handoffs (rcp_handoff v) @ write_str (rcp_sink_name v) @
     write_str (rcp_sink_reference v) @ write_str (rcp_detail v) @
     write_str (rcp_request_digest v)"

definition read_promotion_receipt :: "promotion_receipt reader" where
  "read_promotion_receipt =
     bindA (read_enum promotion_handoffs) (\<lambda>handoff.
     bindA read_str (\<lambda>sink_name.
     bindA read_str (\<lambda>sink_reference.
     bindA read_str (\<lambda>detail.
     bindA read_str (\<lambda>request_digest.
     retA \<lparr>rcp_handoff = handoff, rcp_sink_name = sink_name,
     rcp_sink_reference = sink_reference, rcp_detail = detail,
     rcp_request_digest = request_digest\<rparr>)))))"

definition wire_promotion_receipt :: "promotion_receipt \<Rightarrow> bool" where
  "wire_promotion_receipt v \<longleftrightarrow>
     wire_string (rcp_sink_name v) \<and> wire_string (rcp_sink_reference v) \<and>
     wire_string (rcp_detail v) \<and> wire_string (rcp_request_digest v)"

interpretation w_promotion_receipt: wire_codec write_promotion_receipt read_promotion_receipt wire_promotion_receipt 17
  by unfold_locales
    (auto simp: read_promotion_receipt_def write_promotion_receipt_def wire_promotion_receipt_def wire_simps
      elim!: wire_exact intro!: wire_rejects)

definition write_worker_session_authority :: "worker_session_authority \<Rightarrow> string" where
  "write_worker_session_authority v =
     write_epoch (wsa_epoch v) @ write_identity (wsa_run v) @ write_identity (wsa_worker v) @
     write_identity (wsa_boot v) @ write_identity (wsa_session v) @
     write_generation (wsa_session_gen v)"

definition read_worker_session_authority :: "worker_session_authority reader" where
  "read_worker_session_authority =
     bindA read_epoch (\<lambda>coordinator_epoch.
     bindA (read_identity IK_FoundryRun) (\<lambda>run.
     bindA (read_identity IK_Worker) (\<lambda>worker.
     bindA (read_identity IK_WorkerBoot) (\<lambda>boot.
     bindA (read_identity IK_Session) (\<lambda>session.
     bindA read_generation (\<lambda>session_generation.
     retA \<lparr>wsa_epoch = coordinator_epoch, wsa_run = run, wsa_worker = worker,
     wsa_boot = boot, wsa_session = session, wsa_session_gen = session_generation\<rparr>))))))"

definition wire_worker_session_authority :: "worker_session_authority \<Rightarrow> bool" where
  "wire_worker_session_authority v \<longleftrightarrow>
     wire_identity IK_FoundryRun (wsa_run v) \<and>
     wire_identity IK_Worker (wsa_worker v) \<and>
     wire_identity IK_WorkerBoot (wsa_boot v) \<and> wire_identity IK_Session (wsa_session v)"

interpretation w_worker_session_authority: wire_codec write_worker_session_authority read_worker_session_authority wire_worker_session_authority 44
  by unfold_locales
    (auto simp: read_worker_session_authority_def write_worker_session_authority_def wire_worker_session_authority_def wire_simps
      elim!: wire_exact intro!: wire_rejects)

definition write_worker_operation_authority :: "worker_operation_authority \<Rightarrow> string" where
  "write_worker_operation_authority v =
     write_worker_session_authority (woa_session v) @ write_identity (woa_population v) @
     write_generation (woa_population_gen v) @ write_identity (woa_task v) @
     write_generation (woa_task_gen v) @ write_identity (woa_candidate v) @
     write_generation (woa_candidate_gen v) @ write_identity (woa_attempt v) @
     write_generation (woa_attempt_gen v) @ write_identity (woa_assignment v)"

definition read_worker_operation_authority :: "worker_operation_authority reader" where
  "read_worker_operation_authority =
     bindA read_worker_session_authority (\<lambda>session.
     bindA (read_identity IK_Population) (\<lambda>population.
     bindA read_generation (\<lambda>population_generation.
     bindA (read_identity IK_Task) (\<lambda>task.
     bindA read_generation (\<lambda>task_generation.
     bindA (read_identity IK_Candidate) (\<lambda>candidate.
     bindA read_generation (\<lambda>candidate_generation.
     bindA (read_identity IK_Attempt) (\<lambda>attempt.
     bindA read_generation (\<lambda>attempt_generation.
     bindA (read_optional_identity IK_Assignment) (\<lambda>assignment.
     retA \<lparr>woa_session = session, woa_population = population,
     woa_population_gen = population_generation, woa_task = task,
     woa_task_gen = task_generation, woa_candidate = candidate,
     woa_candidate_gen = candidate_generation, woa_attempt = attempt,
     woa_attempt_gen = attempt_generation, woa_assignment = assignment\<rparr>))))))))))"

definition wire_worker_operation_authority :: "worker_operation_authority \<Rightarrow> bool" where
  "wire_worker_operation_authority v \<longleftrightarrow>
     wire_worker_session_authority (woa_session v) \<and>
     wire_identity IK_Population (woa_population v) \<and>
     wire_identity IK_Task (woa_task v) \<and>
     wire_identity IK_Candidate (woa_candidate v) \<and>
     wire_identity IK_Attempt (woa_attempt v) \<and>
     wire_optional_identity IK_Assignment (woa_assignment v)"

interpretation w_worker_operation_authority: wire_codec write_worker_operation_authority read_worker_operation_authority wire_worker_operation_authority 56
  by unfold_locales
    (auto simp: read_worker_operation_authority_def write_worker_operation_authority_def wire_worker_operation_authority_def wire_simps
      elim!: wire_exact intro!: wire_rejects)

datatype (plugins only: code size) controller_tag = ControllerTag

type_synonym controller_id = "controller_tag strong_id"

record controller_session_authority =
  csa_epoch :: coordinator_epoch
  csa_run :: foundry_run_id
  csa_controller :: controller_id
  csa_session :: session_id
  csa_session_gen :: worker_session_generation

record controller_operation_authority =
  coa_session :: controller_session_authority
  coa_population :: population_id
  coa_population_gen :: population_generation
  coa_task :: task_id
  coa_task_gen :: task_generation
  coa_policy :: policy_id
  coa_policy_gen :: policy_generation

definition write_controller_session_authority :: "controller_session_authority \<Rightarrow> string" where
  "write_controller_session_authority v =
     write_epoch (csa_epoch v) @ write_identity (csa_run v) @
     write_identity (csa_controller v) @ write_identity (csa_session v) @
     write_generation (csa_session_gen v)"

definition read_controller_session_authority :: "controller_session_authority reader" where
  "read_controller_session_authority =
     bindA read_epoch (\<lambda>coordinator_epoch.
     bindA (read_identity IK_FoundryRun) (\<lambda>run.
     bindA (read_optional_identity IK_Controller) (\<lambda>controller.
     bindA (read_identity IK_Session) (\<lambda>session.
     bindA read_generation (\<lambda>session_generation.
     retA \<lparr>csa_epoch = coordinator_epoch, csa_run = run, csa_controller = controller,
     csa_session = session, csa_session_gen = session_generation\<rparr>)))))"

definition wire_controller_session_authority :: "controller_session_authority \<Rightarrow> bool" where
  "wire_controller_session_authority v \<longleftrightarrow>
     wire_identity IK_FoundryRun (csa_run v) \<and>
     wire_optional_identity IK_Controller (csa_controller v) \<and>
     wire_identity IK_Session (csa_session v)"

interpretation w_controller_session_authority: wire_codec write_controller_session_authority read_controller_session_authority wire_controller_session_authority 36
  by unfold_locales
    (auto simp: read_controller_session_authority_def write_controller_session_authority_def wire_controller_session_authority_def wire_simps
      elim!: wire_exact intro!: wire_rejects)

definition write_controller_operation_authority :: "controller_operation_authority \<Rightarrow> string" where
  "write_controller_operation_authority v =
     write_controller_session_authority (coa_session v) @ write_identity (coa_population v) @
     write_generation (coa_population_gen v) @ write_identity (coa_task v) @
     write_generation (coa_task_gen v) @ write_identity (coa_policy v) @
     write_generation (coa_policy_gen v)"

definition read_controller_operation_authority :: "controller_operation_authority reader" where
  "read_controller_operation_authority =
     bindA read_controller_session_authority (\<lambda>session.
     bindA (read_identity IK_Population) (\<lambda>population.
     bindA read_generation (\<lambda>population_generation.
     bindA (read_identity IK_Task) (\<lambda>task.
     bindA read_generation (\<lambda>task_generation.
     bindA (read_identity IK_Policy) (\<lambda>policy.
     bindA read_generation (\<lambda>policy_generation.
     retA \<lparr>coa_session = session, coa_population = population,
     coa_population_gen = population_generation, coa_task = task,
     coa_task_gen = task_generation, coa_policy = policy,
     coa_policy_gen = policy_generation\<rparr>)))))))"

definition wire_controller_operation_authority :: "controller_operation_authority \<Rightarrow> bool" where
  "wire_controller_operation_authority v \<longleftrightarrow>
     wire_controller_session_authority (coa_session v) \<and>
     wire_identity IK_Population (coa_population v) \<and>
     wire_identity IK_Task (coa_task v) \<and> wire_identity IK_Policy (coa_policy v)"

interpretation w_controller_operation_authority: wire_codec write_controller_operation_authority read_controller_operation_authority wire_controller_operation_authority 36
  by unfold_locales
    (auto simp: read_controller_operation_authority_def write_controller_operation_authority_def wire_controller_operation_authority_def wire_simps
      elim!: wire_exact intro!: wire_rejects)

text \<open>One input file of a package: its name and its content.\<close>

definition write_input_pair :: "string \<times> string \<Rightarrow> string" where
  "write_input_pair input = write_str (fst input) @ write_str (snd input)"

definition read_input_pair :: "(string \<times> string) reader" where
  "read_input_pair = bindA read_str (\<lambda>first. bindA read_str (\<lambda>second. retA (first, second)))"

definition wire_input_pair :: "string \<times> string \<Rightarrow> bool" where
  "wire_input_pair input \<longleftrightarrow> wire_string (fst input) \<and> wire_string (snd input)"

interpretation w_input_pair: wire_codec write_input_pair read_input_pair wire_input_pair 8
  by unfold_locales
    (auto simp: read_input_pair_def write_input_pair_def wire_input_pair_def wire_simps
      elim!: wire_exact intro!: wire_rejects)

interpretation w_input_pair_list: wire_codec "write_list write_input_pair"
  "read_list kMaxProtocolElements (2 * kMinStringBytes) read_input_pair"
  "list_ok kMaxProtocolElements wire_input_pair" 4
  by (rule w_input_pair.list_codec) (simp_all add: wire_bounds)

definition write_attempt_package :: "attempt_package \<Rightarrow> string" where
  "write_attempt_package v =
     write_identity (pkg_attempt v) @ write_generation (pkg_attempt_gen v) @
     write_identity (pkg_assignment v) @ write_identity (pkg_population v) @
     write_generation (pkg_population_gen v) @ write_identity (pkg_task v) @
     write_generation (pkg_task_gen v) @ write_identity (pkg_candidate v) @
     write_generation (pkg_candidate_gen v) @ write_str (pkg_task_name v) @
     write_str (pkg_objective v) @ write_string_list (pkg_required_outputs v) @
     write_list write_input_pair (pkg_input_files v) @ write_str (pkg_workspace_root v) @
     write_str (pkg_reference_strategy v)"

definition read_attempt_package :: "attempt_package reader" where
  "read_attempt_package =
     bindA (read_identity IK_Attempt) (\<lambda>attempt.
     bindA read_generation (\<lambda>attempt_generation.
     bindA (read_identity IK_Assignment) (\<lambda>assignment.
     bindA (read_identity IK_Population) (\<lambda>population.
     bindA read_generation (\<lambda>population_generation.
     bindA (read_identity IK_Task) (\<lambda>task.
     bindA read_generation (\<lambda>task_generation.
     bindA (read_identity IK_Candidate) (\<lambda>candidate.
     bindA read_generation (\<lambda>candidate_generation.
     bindA read_str (\<lambda>task_name.
     bindA read_str (\<lambda>objective.
     bindA read_string_list (\<lambda>required_outputs.
     bindA (read_list kMaxProtocolElements (2 * kMinStringBytes) read_input_pair) (\<lambda>input_files.
     bindA read_str (\<lambda>workspace_root.
     bindA read_str (\<lambda>reference_strategy.
     retA \<lparr>pkg_attempt = attempt, pkg_attempt_gen = attempt_generation,
     pkg_assignment = assignment, pkg_population = population,
     pkg_population_gen = population_generation, pkg_task = task,
     pkg_task_gen = task_generation, pkg_candidate = candidate,
     pkg_candidate_gen = candidate_generation, pkg_task_name = task_name,
     pkg_objective = objective, pkg_required_outputs = required_outputs,
     pkg_input_files = input_files, pkg_workspace_root = workspace_root,
     pkg_reference_strategy = reference_strategy\<rparr>)))))))))))))))"

definition wire_attempt_package :: "attempt_package \<Rightarrow> bool" where
  "wire_attempt_package v \<longleftrightarrow>
     wire_identity IK_Attempt (pkg_attempt v) \<and>
     wire_identity IK_Assignment (pkg_assignment v) \<and>
     wire_identity IK_Population (pkg_population v) \<and>
     wire_identity IK_Task (pkg_task v) \<and>
     wire_identity IK_Candidate (pkg_candidate v) \<and> wire_string (pkg_task_name v) \<and>
     wire_string (pkg_objective v) \<and> wire_string_list (pkg_required_outputs v) \<and>
     list_ok kMaxProtocolElements wire_input_pair (pkg_input_files v) \<and>
     wire_string (pkg_workspace_root v) \<and> wire_string (pkg_reference_strategy v)"

interpretation w_attempt_package: wire_codec write_attempt_package read_attempt_package wire_attempt_package 80
  by unfold_locales
    (auto simp: read_attempt_package_def write_attempt_package_def wire_attempt_package_def wire_simps
      elim!: wire_exact intro!: wire_rejects)

end
