(* ===== verification/Wire_Messages.thy ===== *)
theory Wire_Messages
  imports Wire_Records
begin

text \<open>
  The messages of the wire protocol (protocol.hpp, protocol.cpp): the message types, the frame
  header, one record per payload structure with its encoder and decoder, and the frame layer.
  \<open>encode_payload\<close> is overloaded in the code; here each overload has its own name and the
  datatype \<open>payload\<close> collects them. An encoder returns \<^verbatim>\<open>Result<std::string>\<close> and never fails,
  so its model is the string.
\<close>

section \<open>Message types\<close>

datatype message_type = MessageType (message_code: u16)

abbreviation MT_Invalid :: message_type where "MT_Invalid \<equiv> MessageType 0"
abbreviation MT_Hello :: message_type where "MT_Hello \<equiv> MessageType 1"
abbreviation MT_HelloAck :: message_type where "MT_HelloAck \<equiv> MessageType 2"
abbreviation MT_WorkerReady :: message_type where "MT_WorkerReady \<equiv> MessageType 3"
abbreviation MT_Revalidate :: message_type where "MT_Revalidate \<equiv> MessageType 4"
abbreviation MT_RevalidateAck :: message_type where "MT_RevalidateAck \<equiv> MessageType 5"
abbreviation MT_Heartbeat :: message_type where "MT_Heartbeat \<equiv> MessageType 6"
abbreviation MT_HeartbeatAck :: message_type where "MT_HeartbeatAck \<equiv> MessageType 7"
abbreviation MT_CreateTask :: message_type where "MT_CreateTask \<equiv> MessageType 10"
abbreviation MT_TaskCreated :: message_type where "MT_TaskCreated \<equiv> MessageType 11"
abbreviation MT_DefinePolicy :: message_type where "MT_DefinePolicy \<equiv> MessageType 12"
abbreviation MT_PolicyDefined :: message_type where "MT_PolicyDefined \<equiv> MessageType 13"
abbreviation MT_CreatePopulation :: message_type where "MT_CreatePopulation \<equiv> MessageType 14"
abbreviation MT_PopulationCreated :: message_type where "MT_PopulationCreated \<equiv> MessageType 15"
abbreviation MT_StartPopulation :: message_type where "MT_StartPopulation \<equiv> MessageType 16"
abbreviation MT_PopulationStarted :: message_type where "MT_PopulationStarted \<equiv> MessageType 17"
abbreviation MT_ClosePopulation :: message_type where "MT_ClosePopulation \<equiv> MessageType 18"
abbreviation MT_PopulationClosed :: message_type where "MT_PopulationClosed \<equiv> MessageType 19"
abbreviation MT_AdvancePopulation :: message_type where "MT_AdvancePopulation \<equiv> MessageType 20"
abbreviation MT_PopulationAdvanced :: message_type where "MT_PopulationAdvanced \<equiv> MessageType 21"
abbreviation MT_RequestSelection :: message_type where "MT_RequestSelection \<equiv> MessageType 22"
abbreviation MT_SelectionDecisionMessage :: message_type where "MT_SelectionDecisionMessage \<equiv> MessageType 23"
abbreviation MT_RequestRetention :: message_type where "MT_RequestRetention \<equiv> MessageType 24"
abbreviation MT_RetentionDecisionMessage :: message_type where "MT_RetentionDecisionMessage \<equiv> MessageType 25"
abbreviation MT_RequestPromotion :: message_type where "MT_RequestPromotion \<equiv> MessageType 26"
abbreviation MT_PromotionRequestMessage :: message_type where "MT_PromotionRequestMessage \<equiv> MessageType 27"
abbreviation MT_RequestRevalidation :: message_type where "MT_RequestRevalidation \<equiv> MessageType 28"
abbreviation MT_RevalidationApplied :: message_type where "MT_RevalidationApplied \<equiv> MessageType 29"
abbreviation MT_CancelAttemptRequest :: message_type where "MT_CancelAttemptRequest \<equiv> MessageType 30"
abbreviation MT_AttemptCancelled :: message_type where "MT_AttemptCancelled \<equiv> MessageType 31"
abbreviation MT_AssignAttempt :: message_type where "MT_AssignAttempt \<equiv> MessageType 40"
abbreviation MT_AttemptAccepted :: message_type where "MT_AttemptAccepted \<equiv> MessageType 41"
abbreviation MT_AttemptResult :: message_type where "MT_AttemptResult \<equiv> MessageType 42"
abbreviation MT_CandidatePublish :: message_type where "MT_CandidatePublish \<equiv> MessageType 43"
abbreviation MT_PublishAck :: message_type where "MT_PublishAck \<equiv> MessageType 44"
abbreviation MT_AttemptFailed :: message_type where "MT_AttemptFailed \<equiv> MessageType 45"
abbreviation MT_EvaluationReport :: message_type where "MT_EvaluationReport \<equiv> MessageType 46"
abbreviation MT_SelfReport :: message_type where "MT_SelfReport \<equiv> MessageType 47"
abbreviation MT_QueryPopulation :: message_type where "MT_QueryPopulation \<equiv> MessageType 60"
abbreviation MT_PopulationDetail :: message_type where "MT_PopulationDetail \<equiv> MessageType 61"
abbreviation MT_QueryCandidate :: message_type where "MT_QueryCandidate \<equiv> MessageType 62"
abbreviation MT_CandidateDetail :: message_type where "MT_CandidateDetail \<equiv> MessageType 63"
abbreviation MT_QueryLineage :: message_type where "MT_QueryLineage \<equiv> MessageType 64"
abbreviation MT_LineageDetail :: message_type where "MT_LineageDetail \<equiv> MessageType 65"
abbreviation MT_QueryStatistics :: message_type where "MT_QueryStatistics \<equiv> MessageType 66"
abbreviation MT_StatisticsDetail :: message_type where "MT_StatisticsDetail \<equiv> MessageType 67"
abbreviation MT_QueryAudit :: message_type where "MT_QueryAudit \<equiv> MessageType 68"
abbreviation MT_AuditDetail :: message_type where "MT_AuditDetail \<equiv> MessageType 69"
abbreviation MT_ShutdownCoordinator :: message_type where "MT_ShutdownCoordinator \<equiv> MessageType 80"
abbreviation MT_ShutdownAck :: message_type where "MT_ShutdownAck \<equiv> MessageType 81"
abbreviation MT_ErrorResponse :: message_type where "MT_ErrorResponse \<equiv> MessageType 90"
abbreviation MT_ControlAck :: message_type where "MT_ControlAck \<equiv> MessageType 91"

definition message_type_names :: "(message_type \<times> string) list" where
  "message_type_names =
    [(MT_Invalid, ''Invalid''),
     (MT_Hello, ''Hello''),
     (MT_HelloAck, ''HelloAck''),
     (MT_WorkerReady, ''WorkerReady''),
     (MT_Revalidate, ''Revalidate''),
     (MT_RevalidateAck, ''RevalidateAck''),
     (MT_Heartbeat, ''Heartbeat''),
     (MT_HeartbeatAck, ''HeartbeatAck''),
     (MT_CreateTask, ''CreateTask''),
     (MT_TaskCreated, ''TaskCreated''),
     (MT_DefinePolicy, ''DefinePolicy''),
     (MT_PolicyDefined, ''PolicyDefined''),
     (MT_CreatePopulation, ''CreatePopulation''),
     (MT_PopulationCreated, ''PopulationCreated''),
     (MT_StartPopulation, ''StartPopulation''),
     (MT_PopulationStarted, ''PopulationStarted''),
     (MT_ClosePopulation, ''ClosePopulation''),
     (MT_PopulationClosed, ''PopulationClosed''),
     (MT_AdvancePopulation, ''AdvancePopulation''),
     (MT_PopulationAdvanced, ''PopulationAdvanced''),
     (MT_RequestSelection, ''RequestSelection''),
     (MT_SelectionDecisionMessage, ''SelectionDecisionMessage''),
     (MT_RequestRetention, ''RequestRetention''),
     (MT_RetentionDecisionMessage, ''RetentionDecisionMessage''),
     (MT_RequestPromotion, ''RequestPromotion''),
     (MT_PromotionRequestMessage, ''PromotionRequestMessage''),
     (MT_RequestRevalidation, ''RequestRevalidation''),
     (MT_RevalidationApplied, ''RevalidationApplied''),
     (MT_CancelAttemptRequest, ''CancelAttemptRequest''),
     (MT_AttemptCancelled, ''AttemptCancelled''),
     (MT_AssignAttempt, ''AssignAttempt''),
     (MT_AttemptAccepted, ''AttemptAccepted''),
     (MT_AttemptResult, ''AttemptResult''),
     (MT_CandidatePublish, ''CandidatePublish''),
     (MT_PublishAck, ''PublishAck''),
     (MT_AttemptFailed, ''AttemptFailed''),
     (MT_EvaluationReport, ''EvaluationReport''),
     (MT_SelfReport, ''SelfReport''),
     (MT_QueryPopulation, ''QueryPopulation''),
     (MT_PopulationDetail, ''PopulationDetail''),
     (MT_QueryCandidate, ''QueryCandidate''),
     (MT_CandidateDetail, ''CandidateDetail''),
     (MT_QueryLineage, ''QueryLineage''),
     (MT_LineageDetail, ''LineageDetail''),
     (MT_QueryStatistics, ''QueryStatistics''),
     (MT_StatisticsDetail, ''StatisticsDetail''),
     (MT_QueryAudit, ''QueryAudit''),
     (MT_AuditDetail, ''AuditDetail''),
     (MT_ShutdownCoordinator, ''ShutdownCoordinator''),
     (MT_ShutdownAck, ''ShutdownAck''),
     (MT_ErrorResponse, ''ErrorResponse''),
     (MT_ControlAck, ''ControlAck'')]"

definition message_type_name :: "message_type \<Rightarrow> string" where
  "message_type_name t =
    (case map_of message_type_names t of Some name \<Rightarrow> name | None \<Rightarrow> ''MessageTypeUnknown'')"

definition write_error_code :: "error_code \<Rightarrow> string" where
  "write_error_code e = write_u16 (code e)"

definition read_error_code :: "error_code reader" where
  "read_error_code = bindA read_u16 (\<lambda>raw. retA (ErrorCode raw))"

definition write_message_type :: "message_type \<Rightarrow> string" where
  "write_message_type t = write_u16 (message_code t)"

definition read_message_type :: "message_type reader" where
  "read_message_type = bindA read_u16 (\<lambda>raw. retA (MessageType raw))"

lemma length_codes [wire_simps]: "length (write_error_code e) = 2" "length (write_message_type m) = 2"
  by (simp_all add: write_error_code_def write_message_type_def wire_simps)

interpretation w_error_code: wire_codec write_error_code read_error_code "\<lambda>_. True" 2
  by unfold_locales
    (auto simp: read_error_code_def write_error_code_def wire_simps
      elim!: wire_exact intro!: wire_rejects)

interpretation w_message_type: wire_codec write_message_type read_message_type "\<lambda>_. True" 2
  by unfold_locales
    (auto simp: read_message_type_def write_message_type_def wire_simps
      elim!: wire_exact intro!: wire_rejects)

section \<open>Session messages\<close>

record hello_message =
  hello_role :: session_role
  hello_run :: foundry_run_id
  hello_worker :: worker_id
  hello_boot :: worker_boot_id
  hello_controller :: controller_id
  hello_label :: string
  hello_capability :: string
  hello_process_id :: u32
  hello_observed_epoch :: coordinator_epoch

definition encode_hello_message :: "hello_message \<Rightarrow> string" where
  "encode_hello_message v =
     write_enum session_roles (hello_role v) @ write_identity (hello_run v) @
     write_identity (hello_worker v) @ write_identity (hello_boot v) @
     write_identity (hello_controller v) @ write_str (hello_label v) @
     write_str (hello_capability v) @ write_u32 (hello_process_id v) @
     write_epoch (hello_observed_epoch v)"

definition read_hello_message :: "hello_message reader" where
  "read_hello_message =
     bindA (read_enum session_roles) (\<lambda>role.
     bindA (read_optional_identity IK_FoundryRun) (\<lambda>run.
     bindA (read_optional_identity IK_Worker) (\<lambda>worker.
     bindA (read_optional_identity IK_WorkerBoot) (\<lambda>boot.
     bindA (read_optional_identity IK_Controller) (\<lambda>controller.
     bindA read_str (\<lambda>label.
     bindA read_str (\<lambda>capability.
     bindA read_u32 (\<lambda>process_id.
     bindA read_epoch (\<lambda>observed_epoch.
     retA \<lparr>hello_role = role, hello_run = run, hello_worker = worker,
     hello_boot = boot, hello_controller = controller, hello_label = label,
     hello_capability = capability, hello_process_id = process_id,
     hello_observed_epoch = observed_epoch\<rparr>)))))))))"

definition wire_hello_message :: "hello_message \<Rightarrow> bool" where
  "wire_hello_message v \<longleftrightarrow>
     wire_optional_identity IK_FoundryRun (hello_run v) \<and>
     wire_optional_identity IK_Worker (hello_worker v) \<and>
     wire_optional_identity IK_WorkerBoot (hello_boot v) \<and>
     wire_optional_identity IK_Controller (hello_controller v) \<and>
     wire_string (hello_label v) \<and> wire_string (hello_capability v)"

definition decode_hello :: "string \<Rightarrow> hello_message result" where
  "decode_hello payload = decode_with read_hello_message payload"

interpretation w_hello_message: wire_codec encode_hello_message read_hello_message wire_hello_message 53
  by unfold_locales
    (auto simp: read_hello_message_def encode_hello_message_def wire_hello_message_def wire_simps
      elim!: wire_exact intro!: wire_rejects)

record hello_ack_message =
  hello_ack_coordinator_epoch :: coordinator_epoch
  hello_ack_run :: foundry_run_id
  hello_ack_session :: session_id
  hello_ack_session_generation :: worker_session_generation
  hello_ack_revalidation_required :: bool
  hello_ack_detail :: string

definition encode_hello_ack_message :: "hello_ack_message \<Rightarrow> string" where
  "encode_hello_ack_message v =
     write_epoch (hello_ack_coordinator_epoch v) @ write_identity (hello_ack_run v) @
     write_identity (hello_ack_session v) @
     write_generation (hello_ack_session_generation v) @
     write_boolean (hello_ack_revalidation_required v) @ write_str (hello_ack_detail v)"

definition read_hello_ack_message :: "hello_ack_message reader" where
  "read_hello_ack_message =
     bindA read_epoch (\<lambda>coordinator_epoch.
     bindA (read_identity IK_FoundryRun) (\<lambda>run.
     bindA (read_identity IK_Session) (\<lambda>session.
     bindA read_generation (\<lambda>session_generation.
     bindA read_boolean (\<lambda>revalidation_required.
     bindA read_str (\<lambda>detail.
     retA \<lparr>hello_ack_coordinator_epoch = coordinator_epoch, hello_ack_run = run,
     hello_ack_session = session, hello_ack_session_generation = session_generation,
     hello_ack_revalidation_required = revalidation_required, hello_ack_detail = detail\<rparr>))))))"

definition wire_hello_ack_message :: "hello_ack_message \<Rightarrow> bool" where
  "wire_hello_ack_message v \<longleftrightarrow>
     wire_identity IK_FoundryRun (hello_ack_run v) \<and>
     wire_identity IK_Session (hello_ack_session v) \<and> wire_string (hello_ack_detail v)"

definition decode_hello_ack :: "string \<Rightarrow> hello_ack_message result" where
  "decode_hello_ack payload = decode_with read_hello_ack_message payload"

interpretation w_hello_ack_message: wire_codec encode_hello_ack_message read_hello_ack_message wire_hello_ack_message 33
  by unfold_locales
    (auto simp: read_hello_ack_message_def encode_hello_ack_message_def wire_hello_ack_message_def wire_simps
      elim!: wire_exact intro!: wire_rejects)

record worker_ready_message =
  worker_ready_session :: worker_session_authority
  worker_ready_capability :: string

definition encode_worker_ready_message :: "worker_ready_message \<Rightarrow> string" where
  "encode_worker_ready_message v =
     write_worker_session_authority (worker_ready_session v) @
     write_str (worker_ready_capability v)"

definition read_worker_ready_message :: "worker_ready_message reader" where
  "read_worker_ready_message =
     bindA read_worker_session_authority (\<lambda>session.
     bindA read_str (\<lambda>capability.
     retA \<lparr>worker_ready_session = session, worker_ready_capability = capability\<rparr>))"

definition wire_worker_ready_message :: "worker_ready_message \<Rightarrow> bool" where
  "wire_worker_ready_message v \<longleftrightarrow>
     wire_worker_session_authority (worker_ready_session v) \<and>
     wire_string (worker_ready_capability v)"

definition decode_worker_ready :: "string \<Rightarrow> worker_ready_message result" where
  "decode_worker_ready payload = decode_with read_worker_ready_message payload"

interpretation w_worker_ready_message: wire_codec encode_worker_ready_message read_worker_ready_message wire_worker_ready_message 4
  by unfold_locales
    (auto simp: read_worker_ready_message_def encode_worker_ready_message_def wire_worker_ready_message_def wire_simps
      elim!: wire_exact intro!: wire_rejects)

record revalidate_message =
  revalidate_session :: worker_session_authority
  revalidate_detail :: string

definition encode_revalidate_message :: "revalidate_message \<Rightarrow> string" where
  "encode_revalidate_message v =
     write_worker_session_authority (revalidate_session v) @ write_str (revalidate_detail v)"

definition read_revalidate_message :: "revalidate_message reader" where
  "read_revalidate_message =
     bindA read_worker_session_authority (\<lambda>session.
     bindA read_str (\<lambda>detail.
     retA \<lparr>revalidate_session = session, revalidate_detail = detail\<rparr>))"

definition wire_revalidate_message :: "revalidate_message \<Rightarrow> bool" where
  "wire_revalidate_message v \<longleftrightarrow>
     wire_worker_session_authority (revalidate_session v) \<and>
     wire_string (revalidate_detail v)"

definition decode_revalidate :: "string \<Rightarrow> revalidate_message result" where
  "decode_revalidate payload = decode_with read_revalidate_message payload"

interpretation w_revalidate_message: wire_codec encode_revalidate_message read_revalidate_message wire_revalidate_message 4
  by unfold_locales
    (auto simp: read_revalidate_message_def encode_revalidate_message_def wire_revalidate_message_def wire_simps
      elim!: wire_exact intro!: wire_rejects)

record revalidate_ack_message =
  revalidate_ack_session :: worker_session_authority
  revalidate_ack_accepted :: bool
  revalidate_ack_detail :: string

definition encode_revalidate_ack_message :: "revalidate_ack_message \<Rightarrow> string" where
  "encode_revalidate_ack_message v =
     write_worker_session_authority (revalidate_ack_session v) @
     write_boolean (revalidate_ack_accepted v) @ write_str (revalidate_ack_detail v)"

definition read_revalidate_ack_message :: "revalidate_ack_message reader" where
  "read_revalidate_ack_message =
     bindA read_worker_session_authority (\<lambda>session.
     bindA read_boolean (\<lambda>accepted.
     bindA read_str (\<lambda>detail.
     retA \<lparr>revalidate_ack_session = session, revalidate_ack_accepted = accepted,
     revalidate_ack_detail = detail\<rparr>)))"

definition wire_revalidate_ack_message :: "revalidate_ack_message \<Rightarrow> bool" where
  "wire_revalidate_ack_message v \<longleftrightarrow>
     wire_worker_session_authority (revalidate_ack_session v) \<and>
     wire_string (revalidate_ack_detail v)"

definition decode_revalidate_ack :: "string \<Rightarrow> revalidate_ack_message result" where
  "decode_revalidate_ack payload = decode_with read_revalidate_ack_message payload"

interpretation w_revalidate_ack_message: wire_codec encode_revalidate_ack_message read_revalidate_ack_message wire_revalidate_ack_message 5
  by unfold_locales
    (auto simp: read_revalidate_ack_message_def encode_revalidate_ack_message_def wire_revalidate_ack_message_def wire_simps
      elim!: wire_exact intro!: wire_rejects)

record heartbeat_message =
  heartbeat_session :: worker_session_authority
  heartbeat_sequence :: u64

definition encode_heartbeat_message :: "heartbeat_message \<Rightarrow> string" where
  "encode_heartbeat_message v =
     write_worker_session_authority (heartbeat_session v) @ write_u64 (heartbeat_sequence v)"

definition read_heartbeat_message :: "heartbeat_message reader" where
  "read_heartbeat_message =
     bindA read_worker_session_authority (\<lambda>session.
     bindA read_u64 (\<lambda>sequence'.
     retA \<lparr>heartbeat_session = session, heartbeat_sequence = sequence'\<rparr>))"

definition wire_heartbeat_message :: "heartbeat_message \<Rightarrow> bool" where
  "wire_heartbeat_message v \<longleftrightarrow>
     wire_worker_session_authority (heartbeat_session v)"

definition decode_heartbeat :: "string \<Rightarrow> heartbeat_message result" where
  "decode_heartbeat payload = decode_with read_heartbeat_message payload"

interpretation w_heartbeat_message: wire_codec encode_heartbeat_message read_heartbeat_message wire_heartbeat_message 8
  by unfold_locales
    (auto simp: read_heartbeat_message_def encode_heartbeat_message_def wire_heartbeat_message_def wire_simps
      elim!: wire_exact intro!: wire_rejects)

section \<open>Control plane\<close>

record create_task_message =
  create_task_session :: controller_session_authority
  create_task_task :: task_spec

definition encode_create_task_message :: "create_task_message \<Rightarrow> string" where
  "encode_create_task_message v =
     write_controller_session_authority (create_task_session v) @
     write_task_spec (create_task_task v)"

definition read_create_task_message :: "create_task_message reader" where
  "read_create_task_message =
     bindA read_controller_session_authority (\<lambda>session.
     bindA read_task_spec (\<lambda>task.
     retA \<lparr>create_task_session = session, create_task_task = task\<rparr>))"

definition wire_create_task_message :: "create_task_message \<Rightarrow> bool" where
  "wire_create_task_message v \<longleftrightarrow>
     wire_controller_session_authority (create_task_session v) \<and>
     wire_task_spec (create_task_task v)"

definition decode_create_task :: "string \<Rightarrow> create_task_message result" where
  "decode_create_task payload = decode_with read_create_task_message payload"

interpretation w_create_task_message: wire_codec encode_create_task_message read_create_task_message wire_create_task_message 0
  by unfold_locales
    (auto simp: read_create_task_message_def encode_create_task_message_def wire_create_task_message_def wire_simps
      elim!: wire_exact intro!: wire_rejects)

record task_created_message =
  task_created_task :: task_id
  task_created_generation :: task_generation
  task_created_content_digest :: string
  task_created_detail :: string

definition encode_task_created_message :: "task_created_message \<Rightarrow> string" where
  "encode_task_created_message v =
     write_identity (task_created_task v) @ write_generation (task_created_generation v) @
     write_str (task_created_content_digest v) @ write_str (task_created_detail v)"

definition read_task_created_message :: "task_created_message reader" where
  "read_task_created_message =
     bindA (read_identity IK_Task) (\<lambda>task.
     bindA read_generation (\<lambda>generation.
     bindA read_str (\<lambda>content_digest.
     bindA read_str (\<lambda>detail.
     retA \<lparr>task_created_task = task, task_created_generation = generation,
     task_created_content_digest = content_digest, task_created_detail = detail\<rparr>))))"

definition wire_task_created_message :: "task_created_message \<Rightarrow> bool" where
  "wire_task_created_message v \<longleftrightarrow>
     wire_identity IK_Task (task_created_task v) \<and>
     wire_string (task_created_content_digest v) \<and> wire_string (task_created_detail v)"

definition decode_task_created :: "string \<Rightarrow> task_created_message result" where
  "decode_task_created payload = decode_with read_task_created_message payload"

interpretation w_task_created_message: wire_codec encode_task_created_message read_task_created_message wire_task_created_message 20
  by unfold_locales
    (auto simp: read_task_created_message_def encode_task_created_message_def wire_task_created_message_def wire_simps
      elim!: wire_exact intro!: wire_rejects)

record define_policy_message =
  define_policy_session :: controller_session_authority
  define_policy_policy :: foundry_policy

definition encode_define_policy_message :: "define_policy_message \<Rightarrow> string" where
  "encode_define_policy_message v =
     write_controller_session_authority (define_policy_session v) @
     write_policy (define_policy_policy v)"

definition read_define_policy_message :: "define_policy_message reader" where
  "read_define_policy_message =
     bindA read_controller_session_authority (\<lambda>session.
     bindA read_policy (\<lambda>policy.
     retA \<lparr>define_policy_session = session, define_policy_policy = policy\<rparr>))"

definition wire_define_policy_message :: "define_policy_message \<Rightarrow> bool" where
  "wire_define_policy_message v \<longleftrightarrow>
     wire_controller_session_authority (define_policy_session v) \<and>
     wire_policy (define_policy_policy v)"

definition decode_define_policy :: "string \<Rightarrow> define_policy_message result" where
  "decode_define_policy payload = decode_with read_define_policy_message payload"

interpretation w_define_policy_message: wire_codec encode_define_policy_message read_define_policy_message wire_define_policy_message 0
  by unfold_locales
    (auto simp: read_define_policy_message_def encode_define_policy_message_def wire_define_policy_message_def wire_simps
      elim!: wire_exact intro!: wire_rejects)

record policy_defined_message =
  policy_defined_policy :: policy_id
  policy_defined_generation :: policy_generation
  policy_defined_content_digest :: string

definition encode_policy_defined_message :: "policy_defined_message \<Rightarrow> string" where
  "encode_policy_defined_message v =
     write_identity (policy_defined_policy v) @
     write_generation (policy_defined_generation v) @
     write_str (policy_defined_content_digest v)"

definition read_policy_defined_message :: "policy_defined_message reader" where
  "read_policy_defined_message =
     bindA (read_identity IK_Policy) (\<lambda>policy.
     bindA read_generation (\<lambda>generation.
     bindA read_str (\<lambda>content_digest.
     retA \<lparr>policy_defined_policy = policy, policy_defined_generation = generation,
     policy_defined_content_digest = content_digest\<rparr>)))"

definition wire_policy_defined_message :: "policy_defined_message \<Rightarrow> bool" where
  "wire_policy_defined_message v \<longleftrightarrow>
     wire_identity IK_Policy (policy_defined_policy v) \<and>
     wire_string (policy_defined_content_digest v)"

definition decode_policy_defined :: "string \<Rightarrow> policy_defined_message result" where
  "decode_policy_defined payload = decode_with read_policy_defined_message payload"

interpretation w_policy_defined_message: wire_codec encode_policy_defined_message read_policy_defined_message wire_policy_defined_message 16
  by unfold_locales
    (auto simp: read_policy_defined_message_def encode_policy_defined_message_def wire_policy_defined_message_def wire_simps
      elim!: wire_exact intro!: wire_rejects)

record create_population_message =
  create_population_session :: controller_session_authority
  create_population_spec :: population_spec

definition encode_create_population_message :: "create_population_message \<Rightarrow> string" where
  "encode_create_population_message v =
     write_controller_session_authority (create_population_session v) @
     write_population_spec (create_population_spec v)"

definition read_create_population_message :: "create_population_message reader" where
  "read_create_population_message =
     bindA read_controller_session_authority (\<lambda>session.
     bindA read_population_spec (\<lambda>spec.
     retA \<lparr>create_population_session = session, create_population_spec = spec\<rparr>))"

definition wire_create_population_message :: "create_population_message \<Rightarrow> bool" where
  "wire_create_population_message v \<longleftrightarrow>
     wire_controller_session_authority (create_population_session v) \<and>
     wire_population_spec (create_population_spec v)"

definition decode_create_population :: "string \<Rightarrow> create_population_message result" where
  "decode_create_population payload = decode_with read_create_population_message payload"

interpretation w_create_population_message: wire_codec encode_create_population_message read_create_population_message wire_create_population_message 0
  by unfold_locales
    (auto simp: read_create_population_message_def encode_create_population_message_def wire_create_population_message_def wire_simps
      elim!: wire_exact intro!: wire_rejects)

record population_created_message =
  population_created_population :: population_id
  population_created_generation :: population_generation

definition encode_population_created_message :: "population_created_message \<Rightarrow> string" where
  "encode_population_created_message v =
     write_identity (population_created_population v) @
     write_generation (population_created_generation v)"

definition read_population_created_message :: "population_created_message reader" where
  "read_population_created_message =
     bindA (read_identity IK_Population) (\<lambda>population.
     bindA read_generation (\<lambda>generation.
     retA \<lparr>population_created_population = population,
     population_created_generation = generation\<rparr>))"

definition wire_population_created_message :: "population_created_message \<Rightarrow> bool" where
  "wire_population_created_message v \<longleftrightarrow>
     wire_identity IK_Population (population_created_population v)"

definition decode_population_created :: "string \<Rightarrow> population_created_message result" where
  "decode_population_created payload = decode_with read_population_created_message payload"

interpretation w_population_created_message: wire_codec encode_population_created_message read_population_created_message wire_population_created_message 12
  by unfold_locales
    (auto simp: read_population_created_message_def encode_population_created_message_def wire_population_created_message_def wire_simps
      elim!: wire_exact intro!: wire_rejects)

record start_population_message =
  start_population_authority :: controller_operation_authority

definition encode_start_population_message :: "start_population_message \<Rightarrow> string" where
  "encode_start_population_message v =
     write_controller_operation_authority (start_population_authority v)"

definition read_start_population_message :: "start_population_message reader" where
  "read_start_population_message =
     bindA read_controller_operation_authority (\<lambda>authority.
     retA \<lparr>start_population_authority = authority\<rparr>)"

definition wire_start_population_message :: "start_population_message \<Rightarrow> bool" where
  "wire_start_population_message v \<longleftrightarrow>
     wire_controller_operation_authority (start_population_authority v)"

definition decode_start_population :: "string \<Rightarrow> start_population_message result" where
  "decode_start_population payload = decode_with read_start_population_message payload"

interpretation w_start_population_message: wire_codec encode_start_population_message read_start_population_message wire_start_population_message 0
  by unfold_locales
    (auto simp: read_start_population_message_def encode_start_population_message_def wire_start_population_message_def wire_simps
      elim!: wire_exact intro!: wire_rejects)

record population_state_message =
  population_state_population :: population_id
  population_state_generation :: population_generation
  population_state_state :: population_state
  population_state_detail :: string

definition encode_population_state_message :: "population_state_message \<Rightarrow> string" where
  "encode_population_state_message v =
     write_identity (population_state_population v) @
     write_generation (population_state_generation v) @
     write_enum population_states (population_state_state v) @
     write_str (population_state_detail v)"

definition read_population_state_message :: "population_state_message reader" where
  "read_population_state_message =
     bindA (read_identity IK_Population) (\<lambda>population.
     bindA read_generation (\<lambda>generation.
     bindA (read_enum population_states) (\<lambda>state.
     bindA read_str (\<lambda>detail.
     retA \<lparr>population_state_population = population,
     population_state_generation = generation, population_state_state = state,
     population_state_detail = detail\<rparr>))))"

definition wire_population_state_message :: "population_state_message \<Rightarrow> bool" where
  "wire_population_state_message v \<longleftrightarrow>
     wire_identity IK_Population (population_state_population v) \<and>
     wire_string (population_state_detail v)"

definition decode_population_state :: "string \<Rightarrow> population_state_message result" where
  "decode_population_state payload = decode_with read_population_state_message payload"

interpretation w_population_state_message: wire_codec encode_population_state_message read_population_state_message wire_population_state_message 17
  by unfold_locales
    (auto simp: read_population_state_message_def encode_population_state_message_def wire_population_state_message_def wire_simps
      elim!: wire_exact intro!: wire_rejects)

record close_population_message =
  close_population_authority :: controller_operation_authority

definition encode_close_population_message :: "close_population_message \<Rightarrow> string" where
  "encode_close_population_message v =
     write_controller_operation_authority (close_population_authority v)"

definition read_close_population_message :: "close_population_message reader" where
  "read_close_population_message =
     bindA read_controller_operation_authority (\<lambda>authority.
     retA \<lparr>close_population_authority = authority\<rparr>)"

definition wire_close_population_message :: "close_population_message \<Rightarrow> bool" where
  "wire_close_population_message v \<longleftrightarrow>
     wire_controller_operation_authority (close_population_authority v)"

definition decode_close_population :: "string \<Rightarrow> close_population_message result" where
  "decode_close_population payload = decode_with read_close_population_message payload"

interpretation w_close_population_message: wire_codec encode_close_population_message read_close_population_message wire_close_population_message 0
  by unfold_locales
    (auto simp: read_close_population_message_def encode_close_population_message_def wire_close_population_message_def wire_simps
      elim!: wire_exact intro!: wire_rejects)

record advance_population_message =
  advance_population_authority :: controller_operation_authority
  advance_population_next_name :: string

definition encode_advance_population_message :: "advance_population_message \<Rightarrow> string" where
  "encode_advance_population_message v =
     write_controller_operation_authority (advance_population_authority v) @
     write_str (advance_population_next_name v)"

definition read_advance_population_message :: "advance_population_message reader" where
  "read_advance_population_message =
     bindA read_controller_operation_authority (\<lambda>authority.
     bindA read_str (\<lambda>next_name.
     retA \<lparr>advance_population_authority = authority,
     advance_population_next_name = next_name\<rparr>))"

definition wire_advance_population_message :: "advance_population_message \<Rightarrow> bool" where
  "wire_advance_population_message v \<longleftrightarrow>
     wire_controller_operation_authority (advance_population_authority v) \<and>
     wire_string (advance_population_next_name v)"

definition decode_advance_population :: "string \<Rightarrow> advance_population_message result" where
  "decode_advance_population payload = decode_with read_advance_population_message payload"

interpretation w_advance_population_message: wire_codec encode_advance_population_message read_advance_population_message wire_advance_population_message 4
  by unfold_locales
    (auto simp: read_advance_population_message_def encode_advance_population_message_def wire_advance_population_message_def wire_simps
      elim!: wire_exact intro!: wire_rejects)

record population_advanced_message =
  population_advanced_predecessor :: population_id
  population_advanced_successor :: population_id
  population_advanced_successor_generation :: population_generation
  population_advanced_seed_candidate :: candidate_id
  population_advanced_seed_candidate_generation :: candidate_generation
  population_advanced_detail :: string

definition encode_population_advanced_message :: "population_advanced_message \<Rightarrow> string" where
  "encode_population_advanced_message v =
     write_identity (population_advanced_predecessor v) @
     write_identity (population_advanced_successor v) @
     write_generation (population_advanced_successor_generation v) @
     write_identity (population_advanced_seed_candidate v) @
     write_generation (population_advanced_seed_candidate_generation v) @
     write_str (population_advanced_detail v)"

definition read_population_advanced_message :: "population_advanced_message reader" where
  "read_population_advanced_message =
     bindA (read_identity IK_Population) (\<lambda>predecessor.
     bindA (read_identity IK_Population) (\<lambda>successor.
     bindA read_generation (\<lambda>successor_generation.
     bindA (read_identity IK_Candidate) (\<lambda>seed_candidate.
     bindA read_generation (\<lambda>seed_candidate_generation.
     bindA read_str (\<lambda>detail.
     retA \<lparr>population_advanced_predecessor = predecessor,
     population_advanced_successor = successor,
     population_advanced_successor_generation = successor_generation,
     population_advanced_seed_candidate = seed_candidate,
     population_advanced_seed_candidate_generation = seed_candidate_generation,
     population_advanced_detail = detail\<rparr>))))))"

definition wire_population_advanced_message :: "population_advanced_message \<Rightarrow> bool" where
  "wire_population_advanced_message v \<longleftrightarrow>
     wire_identity IK_Population (population_advanced_predecessor v) \<and>
     wire_identity IK_Population (population_advanced_successor v) \<and>
     wire_identity IK_Candidate (population_advanced_seed_candidate v) \<and>
     wire_string (population_advanced_detail v)"

definition decode_population_advanced :: "string \<Rightarrow> population_advanced_message result" where
  "decode_population_advanced payload = decode_with read_population_advanced_message payload"

interpretation w_population_advanced_message: wire_codec encode_population_advanced_message read_population_advanced_message wire_population_advanced_message 36
  by unfold_locales
    (auto simp: read_population_advanced_message_def encode_population_advanced_message_def wire_population_advanced_message_def wire_simps
      elim!: wire_exact intro!: wire_rejects)

record request_selection_message =
  request_selection_authority :: controller_operation_authority

definition encode_request_selection_message :: "request_selection_message \<Rightarrow> string" where
  "encode_request_selection_message v =
     write_controller_operation_authority (request_selection_authority v)"

definition read_request_selection_message :: "request_selection_message reader" where
  "read_request_selection_message =
     bindA read_controller_operation_authority (\<lambda>authority.
     retA \<lparr>request_selection_authority = authority\<rparr>)"

definition wire_request_selection_message :: "request_selection_message \<Rightarrow> bool" where
  "wire_request_selection_message v \<longleftrightarrow>
     wire_controller_operation_authority (request_selection_authority v)"

definition decode_request_selection :: "string \<Rightarrow> request_selection_message result" where
  "decode_request_selection payload = decode_with read_request_selection_message payload"

interpretation w_request_selection_message: wire_codec encode_request_selection_message read_request_selection_message wire_request_selection_message 0
  by unfold_locales
    (auto simp: read_request_selection_message_def encode_request_selection_message_def wire_request_selection_message_def wire_simps
      elim!: wire_exact intro!: wire_rejects)

record request_retention_message =
  request_retention_authority :: controller_operation_authority

definition encode_request_retention_message :: "request_retention_message \<Rightarrow> string" where
  "encode_request_retention_message v =
     write_controller_operation_authority (request_retention_authority v)"

definition read_request_retention_message :: "request_retention_message reader" where
  "read_request_retention_message =
     bindA read_controller_operation_authority (\<lambda>authority.
     retA \<lparr>request_retention_authority = authority\<rparr>)"

definition wire_request_retention_message :: "request_retention_message \<Rightarrow> bool" where
  "wire_request_retention_message v \<longleftrightarrow>
     wire_controller_operation_authority (request_retention_authority v)"

definition decode_request_retention :: "string \<Rightarrow> request_retention_message result" where
  "decode_request_retention payload = decode_with read_request_retention_message payload"

interpretation w_request_retention_message: wire_codec encode_request_retention_message read_request_retention_message wire_request_retention_message 0
  by unfold_locales
    (auto simp: read_request_retention_message_def encode_request_retention_message_def wire_request_retention_message_def wire_simps
      elim!: wire_exact intro!: wire_rejects)

record request_promotion_message =
  request_promotion_authority :: controller_operation_authority

definition encode_request_promotion_message :: "request_promotion_message \<Rightarrow> string" where
  "encode_request_promotion_message v =
     write_controller_operation_authority (request_promotion_authority v)"

definition read_request_promotion_message :: "request_promotion_message reader" where
  "read_request_promotion_message =
     bindA read_controller_operation_authority (\<lambda>authority.
     retA \<lparr>request_promotion_authority = authority\<rparr>)"

definition wire_request_promotion_message :: "request_promotion_message \<Rightarrow> bool" where
  "wire_request_promotion_message v \<longleftrightarrow>
     wire_controller_operation_authority (request_promotion_authority v)"

definition decode_request_promotion :: "string \<Rightarrow> request_promotion_message result" where
  "decode_request_promotion payload = decode_with read_request_promotion_message payload"

interpretation w_request_promotion_message: wire_codec encode_request_promotion_message read_request_promotion_message wire_request_promotion_message 0
  by unfold_locales
    (auto simp: read_request_promotion_message_def encode_request_promotion_message_def wire_request_promotion_message_def wire_simps
      elim!: wire_exact intro!: wire_rejects)

record request_revalidation_message =
  request_revalidation_authority :: controller_operation_authority
  request_revalidation_reason :: string

definition encode_request_revalidation_message :: "request_revalidation_message \<Rightarrow> string" where
  "encode_request_revalidation_message v =
     write_controller_operation_authority (request_revalidation_authority v) @
     write_str (request_revalidation_reason v)"

definition read_request_revalidation_message :: "request_revalidation_message reader" where
  "read_request_revalidation_message =
     bindA read_controller_operation_authority (\<lambda>authority.
     bindA read_str (\<lambda>reason.
     retA \<lparr>request_revalidation_authority = authority,
     request_revalidation_reason = reason\<rparr>))"

definition wire_request_revalidation_message :: "request_revalidation_message \<Rightarrow> bool" where
  "wire_request_revalidation_message v \<longleftrightarrow>
     wire_controller_operation_authority (request_revalidation_authority v) \<and>
     wire_string (request_revalidation_reason v)"

definition decode_request_revalidation :: "string \<Rightarrow> request_revalidation_message result" where
  "decode_request_revalidation payload = decode_with read_request_revalidation_message payload"

interpretation w_request_revalidation_message: wire_codec encode_request_revalidation_message read_request_revalidation_message wire_request_revalidation_message 4
  by unfold_locales
    (auto simp: read_request_revalidation_message_def encode_request_revalidation_message_def wire_request_revalidation_message_def wire_simps
      elim!: wire_exact intro!: wire_rejects)

record cancel_attempt_request_message =
  cancel_attempt_request_authority :: controller_operation_authority
  cancel_attempt_request_attempt :: attempt_id
  cancel_attempt_request_attempt_generation :: attempt_generation
  cancel_attempt_request_reason :: string

definition encode_cancel_attempt_request_message :: "cancel_attempt_request_message \<Rightarrow> string" where
  "encode_cancel_attempt_request_message v =
     write_controller_operation_authority (cancel_attempt_request_authority v) @
     write_identity (cancel_attempt_request_attempt v) @
     write_generation (cancel_attempt_request_attempt_generation v) @
     write_str (cancel_attempt_request_reason v)"

definition read_cancel_attempt_request_message :: "cancel_attempt_request_message reader" where
  "read_cancel_attempt_request_message =
     bindA read_controller_operation_authority (\<lambda>authority.
     bindA (read_identity IK_Attempt) (\<lambda>attempt.
     bindA read_generation (\<lambda>attempt_generation.
     bindA read_str (\<lambda>reason.
     retA \<lparr>cancel_attempt_request_authority = authority,
     cancel_attempt_request_attempt = attempt,
     cancel_attempt_request_attempt_generation = attempt_generation,
     cancel_attempt_request_reason = reason\<rparr>))))"

definition wire_cancel_attempt_request_message :: "cancel_attempt_request_message \<Rightarrow> bool" where
  "wire_cancel_attempt_request_message v \<longleftrightarrow>
     wire_controller_operation_authority (cancel_attempt_request_authority v) \<and>
     wire_identity IK_Attempt (cancel_attempt_request_attempt v) \<and>
     wire_string (cancel_attempt_request_reason v)"

definition decode_cancel_attempt_request :: "string \<Rightarrow> cancel_attempt_request_message result" where
  "decode_cancel_attempt_request payload = decode_with read_cancel_attempt_request_message payload"

interpretation w_cancel_attempt_request_message: wire_codec encode_cancel_attempt_request_message read_cancel_attempt_request_message wire_cancel_attempt_request_message 16
  by unfold_locales
    (auto simp: read_cancel_attempt_request_message_def encode_cancel_attempt_request_message_def wire_cancel_attempt_request_message_def wire_simps
      elim!: wire_exact intro!: wire_rejects)

record attempt_cancelled_message =
  attempt_cancelled_attempt :: attempt_id
  attempt_cancelled_state :: attempt_state
  attempt_cancelled_detail :: string

definition encode_attempt_cancelled_message :: "attempt_cancelled_message \<Rightarrow> string" where
  "encode_attempt_cancelled_message v =
     write_identity (attempt_cancelled_attempt v) @
     write_enum attempt_states (attempt_cancelled_state v) @
     write_str (attempt_cancelled_detail v)"

definition read_attempt_cancelled_message :: "attempt_cancelled_message reader" where
  "read_attempt_cancelled_message =
     bindA (read_identity IK_Attempt) (\<lambda>attempt.
     bindA (read_enum attempt_states) (\<lambda>state.
     bindA read_str (\<lambda>detail.
     retA \<lparr>attempt_cancelled_attempt = attempt, attempt_cancelled_state = state,
     attempt_cancelled_detail = detail\<rparr>)))"

definition wire_attempt_cancelled_message :: "attempt_cancelled_message \<Rightarrow> bool" where
  "wire_attempt_cancelled_message v \<longleftrightarrow>
     wire_identity IK_Attempt (attempt_cancelled_attempt v) \<and>
     wire_string (attempt_cancelled_detail v)"

definition decode_attempt_cancelled :: "string \<Rightarrow> attempt_cancelled_message result" where
  "decode_attempt_cancelled payload = decode_with read_attempt_cancelled_message payload"

interpretation w_attempt_cancelled_message: wire_codec encode_attempt_cancelled_message read_attempt_cancelled_message wire_attempt_cancelled_message 13
  by unfold_locales
    (auto simp: read_attempt_cancelled_message_def encode_attempt_cancelled_message_def wire_attempt_cancelled_message_def wire_simps
      elim!: wire_exact intro!: wire_rejects)

section \<open>Data plane\<close>

record assign_attempt_message =
  assign_attempt_session :: worker_session_authority
  assign_attempt_package :: attempt_package

definition encode_assign_attempt_message :: "assign_attempt_message \<Rightarrow> string" where
  "encode_assign_attempt_message v =
     write_worker_session_authority (assign_attempt_session v) @
     write_attempt_package (assign_attempt_package v)"

definition read_assign_attempt_message :: "assign_attempt_message reader" where
  "read_assign_attempt_message =
     bindA read_worker_session_authority (\<lambda>session.
     bindA read_attempt_package (\<lambda>package.
     retA \<lparr>assign_attempt_session = session, assign_attempt_package = package\<rparr>))"

definition wire_assign_attempt_message :: "assign_attempt_message \<Rightarrow> bool" where
  "wire_assign_attempt_message v \<longleftrightarrow>
     wire_worker_session_authority (assign_attempt_session v) \<and>
     wire_attempt_package (assign_attempt_package v)"

definition decode_assign_attempt :: "string \<Rightarrow> assign_attempt_message result" where
  "decode_assign_attempt payload = decode_with read_assign_attempt_message payload"

interpretation w_assign_attempt_message: wire_codec encode_assign_attempt_message read_assign_attempt_message wire_assign_attempt_message 0
  by unfold_locales
    (auto simp: read_assign_attempt_message_def encode_assign_attempt_message_def wire_assign_attempt_message_def wire_simps
      elim!: wire_exact intro!: wire_rejects)

record attempt_accepted_message =
  attempt_accepted_authority :: worker_operation_authority

definition encode_attempt_accepted_message :: "attempt_accepted_message \<Rightarrow> string" where
  "encode_attempt_accepted_message v =
     write_worker_operation_authority (attempt_accepted_authority v)"

definition read_attempt_accepted_message :: "attempt_accepted_message reader" where
  "read_attempt_accepted_message =
     bindA read_worker_operation_authority (\<lambda>authority.
     retA \<lparr>attempt_accepted_authority = authority\<rparr>)"

definition wire_attempt_accepted_message :: "attempt_accepted_message \<Rightarrow> bool" where
  "wire_attempt_accepted_message v \<longleftrightarrow>
     wire_worker_operation_authority (attempt_accepted_authority v)"

definition decode_attempt_accepted :: "string \<Rightarrow> attempt_accepted_message result" where
  "decode_attempt_accepted payload = decode_with read_attempt_accepted_message payload"

interpretation w_attempt_accepted_message: wire_codec encode_attempt_accepted_message read_attempt_accepted_message wire_attempt_accepted_message 0
  by unfold_locales
    (auto simp: read_attempt_accepted_message_def encode_attempt_accepted_message_def wire_attempt_accepted_message_def wire_simps
      elim!: wire_exact intro!: wire_rejects)

record attempt_result_message =
  attempt_result_authority :: worker_operation_authority
  attempt_result_detail :: string
  attempt_result_duration_micros :: u64

definition encode_attempt_result_message :: "attempt_result_message \<Rightarrow> string" where
  "encode_attempt_result_message v =
     write_worker_operation_authority (attempt_result_authority v) @
     write_str (attempt_result_detail v) @ write_u64 (attempt_result_duration_micros v)"

definition read_attempt_result_message :: "attempt_result_message reader" where
  "read_attempt_result_message =
     bindA read_worker_operation_authority (\<lambda>authority.
     bindA read_str (\<lambda>detail.
     bindA read_u64 (\<lambda>duration_micros.
     retA \<lparr>attempt_result_authority = authority, attempt_result_detail = detail,
     attempt_result_duration_micros = duration_micros\<rparr>)))"

definition wire_attempt_result_message :: "attempt_result_message \<Rightarrow> bool" where
  "wire_attempt_result_message v \<longleftrightarrow>
     wire_worker_operation_authority (attempt_result_authority v) \<and>
     wire_string (attempt_result_detail v)"

definition decode_attempt_result :: "string \<Rightarrow> attempt_result_message result" where
  "decode_attempt_result payload = decode_with read_attempt_result_message payload"

interpretation w_attempt_result_message: wire_codec encode_attempt_result_message read_attempt_result_message wire_attempt_result_message 12
  by unfold_locales
    (auto simp: read_attempt_result_message_def encode_attempt_result_message_def wire_attempt_result_message_def wire_simps
      elim!: wire_exact intro!: wire_rejects)

record candidate_publish_message =
  candidate_publish_authority :: worker_operation_authority
  candidate_publish_artifacts :: "artifact_ref list"
  candidate_publish_declared_strategy :: string
  candidate_publish_self_reported_success :: bool
  candidate_publish_self_report_detail :: string

definition encode_candidate_publish_message :: "candidate_publish_message \<Rightarrow> string" where
  "encode_candidate_publish_message v =
     write_worker_operation_authority (candidate_publish_authority v) @
     write_artifact_list (candidate_publish_artifacts v) @
     write_str (candidate_publish_declared_strategy v) @
     write_boolean (candidate_publish_self_reported_success v) @
     write_str (candidate_publish_self_report_detail v)"

definition read_candidate_publish_message :: "candidate_publish_message reader" where
  "read_candidate_publish_message =
     bindA read_worker_operation_authority (\<lambda>authority.
     bindA read_artifact_list (\<lambda>artifacts.
     bindA read_str (\<lambda>declared_strategy.
     bindA read_boolean (\<lambda>self_reported_success.
     bindA read_str (\<lambda>self_report_detail.
     retA \<lparr>candidate_publish_authority = authority,
     candidate_publish_artifacts = artifacts,
     candidate_publish_declared_strategy = declared_strategy,
     candidate_publish_self_reported_success = self_reported_success,
     candidate_publish_self_report_detail = self_report_detail\<rparr>)))))"

definition wire_candidate_publish_message :: "candidate_publish_message \<Rightarrow> bool" where
  "wire_candidate_publish_message v \<longleftrightarrow>
     wire_worker_operation_authority (candidate_publish_authority v) \<and>
     wire_artifact_list (candidate_publish_artifacts v) \<and>
     wire_string (candidate_publish_declared_strategy v) \<and>
     wire_string (candidate_publish_self_report_detail v)"

definition decode_candidate_publish :: "string \<Rightarrow> candidate_publish_message result" where
  "decode_candidate_publish payload = decode_with read_candidate_publish_message payload"

interpretation w_candidate_publish_message: wire_codec encode_candidate_publish_message read_candidate_publish_message wire_candidate_publish_message 13
  by unfold_locales
    (auto simp: read_candidate_publish_message_def encode_candidate_publish_message_def wire_candidate_publish_message_def wire_simps
      elim!: wire_exact intro!: wire_rejects)

record publish_ack_message =
  publish_ack_candidate :: candidate_id
  publish_ack_candidate_generation :: candidate_generation
  publish_ack_accepted :: bool
  publish_ack_detail :: string

definition encode_publish_ack_message :: "publish_ack_message \<Rightarrow> string" where
  "encode_publish_ack_message v =
     write_identity (publish_ack_candidate v) @
     write_generation (publish_ack_candidate_generation v) @
     write_boolean (publish_ack_accepted v) @ write_str (publish_ack_detail v)"

definition read_publish_ack_message :: "publish_ack_message reader" where
  "read_publish_ack_message =
     bindA (read_identity IK_Candidate) (\<lambda>candidate.
     bindA read_generation (\<lambda>candidate_generation.
     bindA read_boolean (\<lambda>accepted.
     bindA read_str (\<lambda>detail.
     retA \<lparr>publish_ack_candidate = candidate,
     publish_ack_candidate_generation = candidate_generation, publish_ack_accepted = accepted,
     publish_ack_detail = detail\<rparr>))))"

definition wire_publish_ack_message :: "publish_ack_message \<Rightarrow> bool" where
  "wire_publish_ack_message v \<longleftrightarrow>
     wire_identity IK_Candidate (publish_ack_candidate v) \<and>
     wire_string (publish_ack_detail v)"

definition decode_publish_ack :: "string \<Rightarrow> publish_ack_message result" where
  "decode_publish_ack payload = decode_with read_publish_ack_message payload"

interpretation w_publish_ack_message: wire_codec encode_publish_ack_message read_publish_ack_message wire_publish_ack_message 17
  by unfold_locales
    (auto simp: read_publish_ack_message_def encode_publish_ack_message_def wire_publish_ack_message_def wire_simps
      elim!: wire_exact intro!: wire_rejects)

record attempt_failed_message =
  attempt_failed_authority :: worker_operation_authority
  attempt_failed_reason :: string

definition encode_attempt_failed_message :: "attempt_failed_message \<Rightarrow> string" where
  "encode_attempt_failed_message v =
     write_worker_operation_authority (attempt_failed_authority v) @
     write_str (attempt_failed_reason v)"

definition read_attempt_failed_message :: "attempt_failed_message reader" where
  "read_attempt_failed_message =
     bindA read_worker_operation_authority (\<lambda>authority.
     bindA read_str (\<lambda>reason.
     retA \<lparr>attempt_failed_authority = authority, attempt_failed_reason = reason\<rparr>))"

definition wire_attempt_failed_message :: "attempt_failed_message \<Rightarrow> bool" where
  "wire_attempt_failed_message v \<longleftrightarrow>
     wire_worker_operation_authority (attempt_failed_authority v) \<and>
     wire_string (attempt_failed_reason v)"

definition decode_attempt_failed :: "string \<Rightarrow> attempt_failed_message result" where
  "decode_attempt_failed payload = decode_with read_attempt_failed_message payload"

interpretation w_attempt_failed_message: wire_codec encode_attempt_failed_message read_attempt_failed_message wire_attempt_failed_message 4
  by unfold_locales
    (auto simp: read_attempt_failed_message_def encode_attempt_failed_message_def wire_attempt_failed_message_def wire_simps
      elim!: wire_exact intro!: wire_rejects)

record evaluation_report_message =
  evaluation_report_record :: evaluation_record

definition encode_evaluation_report_message :: "evaluation_report_message \<Rightarrow> string" where
  "encode_evaluation_report_message v =
     write_evaluation_record (evaluation_report_record v)"

definition read_evaluation_report_message :: "evaluation_report_message reader" where
  "read_evaluation_report_message =
     bindA read_evaluation_record (\<lambda>record.
     retA \<lparr>evaluation_report_record = record\<rparr>)"

definition wire_evaluation_report_message :: "evaluation_report_message \<Rightarrow> bool" where
  "wire_evaluation_report_message v \<longleftrightarrow>
     wire_evaluation_record (evaluation_report_record v)"

definition decode_evaluation_report :: "string \<Rightarrow> evaluation_report_message result" where
  "decode_evaluation_report payload = decode_with read_evaluation_report_message payload"

interpretation w_evaluation_report_message: wire_codec encode_evaluation_report_message read_evaluation_report_message wire_evaluation_report_message 0
  by unfold_locales
    (auto simp: read_evaluation_report_message_def encode_evaluation_report_message_def wire_evaluation_report_message_def wire_simps
      elim!: wire_exact intro!: wire_rejects)

record self_report_message =
  self_report_authority :: worker_operation_authority
  self_report_claim :: string
  self_report_claimed_success :: bool

definition encode_self_report_message :: "self_report_message \<Rightarrow> string" where
  "encode_self_report_message v =
     write_worker_operation_authority (self_report_authority v) @
     write_str (self_report_claim v) @ write_boolean (self_report_claimed_success v)"

definition read_self_report_message :: "self_report_message reader" where
  "read_self_report_message =
     bindA read_worker_operation_authority (\<lambda>authority.
     bindA read_str (\<lambda>claim.
     bindA read_boolean (\<lambda>claimed_success.
     retA \<lparr>self_report_authority = authority, self_report_claim = claim,
     self_report_claimed_success = claimed_success\<rparr>)))"

definition wire_self_report_message :: "self_report_message \<Rightarrow> bool" where
  "wire_self_report_message v \<longleftrightarrow>
     wire_worker_operation_authority (self_report_authority v) \<and>
     wire_string (self_report_claim v)"

definition decode_self_report :: "string \<Rightarrow> self_report_message result" where
  "decode_self_report payload = decode_with read_self_report_message payload"

interpretation w_self_report_message: wire_codec encode_self_report_message read_self_report_message wire_self_report_message 5
  by unfold_locales
    (auto simp: read_self_report_message_def encode_self_report_message_def wire_self_report_message_def wire_simps
      elim!: wire_exact intro!: wire_rejects)

section \<open>Query plane\<close>

record query_population_message =
  query_population_session :: controller_session_authority
  query_population_population :: population_id

definition encode_query_population_message :: "query_population_message \<Rightarrow> string" where
  "encode_query_population_message v =
     write_controller_session_authority (query_population_session v) @
     write_identity (query_population_population v)"

definition read_query_population_message :: "query_population_message reader" where
  "read_query_population_message =
     bindA read_controller_session_authority (\<lambda>session.
     bindA (read_identity IK_Population) (\<lambda>population.
     retA \<lparr>query_population_session = session,
     query_population_population = population\<rparr>))"

definition wire_query_population_message :: "query_population_message \<Rightarrow> bool" where
  "wire_query_population_message v \<longleftrightarrow>
     wire_controller_session_authority (query_population_session v) \<and>
     wire_identity IK_Population (query_population_population v)"

definition decode_query_population :: "string \<Rightarrow> query_population_message result" where
  "decode_query_population payload = decode_with read_query_population_message payload"

interpretation w_query_population_message: wire_codec encode_query_population_message read_query_population_message wire_query_population_message 8
  by unfold_locales
    (auto simp: read_query_population_message_def encode_query_population_message_def wire_query_population_message_def wire_simps
      elim!: wire_exact intro!: wire_rejects)

record population_detail_message =
  population_detail_population :: population_record
  population_detail_committed_selection_generation :: u32
  population_detail_retention_committed :: bool
  population_detail_candidate_count :: u64
  population_detail_closure_blockers :: "string list"

definition encode_population_detail_message :: "population_detail_message \<Rightarrow> string" where
  "encode_population_detail_message v =
     write_population_record (population_detail_population v) @
     write_u32 (population_detail_committed_selection_generation v) @
     write_boolean (population_detail_retention_committed v) @
     write_u64 (population_detail_candidate_count v) @
     write_string_list (population_detail_closure_blockers v)"

definition read_population_detail_message :: "population_detail_message reader" where
  "read_population_detail_message =
     bindA read_population_record (\<lambda>population.
     bindA read_u32 (\<lambda>committed_selection_generation.
     bindA read_boolean (\<lambda>retention_committed.
     bindA read_u64 (\<lambda>candidate_count.
     bindA read_string_list (\<lambda>closure_blockers.
     retA \<lparr>population_detail_population = population,
     population_detail_committed_selection_generation = committed_selection_generation,
     population_detail_retention_committed = retention_committed,
     population_detail_candidate_count = candidate_count,
     population_detail_closure_blockers = closure_blockers\<rparr>)))))"

definition wire_population_detail_message :: "population_detail_message \<Rightarrow> bool" where
  "wire_population_detail_message v \<longleftrightarrow>
     wire_population_record (population_detail_population v) \<and>
     wire_string_list (population_detail_closure_blockers v)"

definition decode_population_detail :: "string \<Rightarrow> population_detail_message result" where
  "decode_population_detail payload = decode_with read_population_detail_message payload"

interpretation w_population_detail_message: wire_codec encode_population_detail_message read_population_detail_message wire_population_detail_message 17
  by unfold_locales
    (auto simp: read_population_detail_message_def encode_population_detail_message_def wire_population_detail_message_def wire_simps
      elim!: wire_exact intro!: wire_rejects)

record query_candidate_message =
  query_candidate_session :: controller_session_authority
  query_candidate_candidate :: candidate_id

definition encode_query_candidate_message :: "query_candidate_message \<Rightarrow> string" where
  "encode_query_candidate_message v =
     write_controller_session_authority (query_candidate_session v) @
     write_identity (query_candidate_candidate v)"

definition read_query_candidate_message :: "query_candidate_message reader" where
  "read_query_candidate_message =
     bindA read_controller_session_authority (\<lambda>session.
     bindA (read_identity IK_Candidate) (\<lambda>candidate.
     retA \<lparr>query_candidate_session = session,
     query_candidate_candidate = candidate\<rparr>))"

definition wire_query_candidate_message :: "query_candidate_message \<Rightarrow> bool" where
  "wire_query_candidate_message v \<longleftrightarrow>
     wire_controller_session_authority (query_candidate_session v) \<and>
     wire_identity IK_Candidate (query_candidate_candidate v)"

definition decode_query_candidate :: "string \<Rightarrow> query_candidate_message result" where
  "decode_query_candidate payload = decode_with read_query_candidate_message payload"

interpretation w_query_candidate_message: wire_codec encode_query_candidate_message read_query_candidate_message wire_query_candidate_message 8
  by unfold_locales
    (auto simp: read_query_candidate_message_def encode_query_candidate_message_def wire_query_candidate_message_def wire_simps
      elim!: wire_exact intro!: wire_rejects)

record candidate_detail_message =
  candidate_detail_candidate :: candidate_record
  candidate_detail_evaluations :: "evaluation_record list"

definition encode_candidate_detail_message :: "candidate_detail_message \<Rightarrow> string" where
  "encode_candidate_detail_message v =
     write_candidate_record (candidate_detail_candidate v) @
     write_list write_evaluation_record (candidate_detail_evaluations v)"

definition read_candidate_detail_message :: "candidate_detail_message reader" where
  "read_candidate_detail_message =
     bindA read_candidate_record (\<lambda>candidate.
     bindA (read_list kMaxProtocolElements kMinEvaluationRecordBytes read_evaluation_record) (\<lambda>evaluations.
     retA \<lparr>candidate_detail_candidate = candidate,
     candidate_detail_evaluations = evaluations\<rparr>))"

definition wire_candidate_detail_message :: "candidate_detail_message \<Rightarrow> bool" where
  "wire_candidate_detail_message v \<longleftrightarrow>
     wire_candidate_record (candidate_detail_candidate v) \<and>
     list_ok kMaxProtocolElements wire_evaluation_record (candidate_detail_evaluations v)"

definition decode_candidate_detail :: "string \<Rightarrow> candidate_detail_message result" where
  "decode_candidate_detail payload = decode_with read_candidate_detail_message payload"

interpretation w_candidate_detail_message: wire_codec encode_candidate_detail_message read_candidate_detail_message wire_candidate_detail_message 4
  by unfold_locales
    (auto simp: read_candidate_detail_message_def encode_candidate_detail_message_def wire_candidate_detail_message_def wire_simps
      elim!: wire_exact intro!: wire_rejects)

record query_lineage_message =
  query_lineage_session :: controller_session_authority
  query_lineage_root :: candidate_id

definition encode_query_lineage_message :: "query_lineage_message \<Rightarrow> string" where
  "encode_query_lineage_message v =
     write_controller_session_authority (query_lineage_session v) @
     write_identity (query_lineage_root v)"

definition read_query_lineage_message :: "query_lineage_message reader" where
  "read_query_lineage_message =
     bindA read_controller_session_authority (\<lambda>session.
     bindA (read_identity IK_Candidate) (\<lambda>root.
     retA \<lparr>query_lineage_session = session, query_lineage_root = root\<rparr>))"

definition wire_query_lineage_message :: "query_lineage_message \<Rightarrow> bool" where
  "wire_query_lineage_message v \<longleftrightarrow>
     wire_controller_session_authority (query_lineage_session v) \<and>
     wire_identity IK_Candidate (query_lineage_root v)"

definition decode_query_lineage :: "string \<Rightarrow> query_lineage_message result" where
  "decode_query_lineage payload = decode_with read_query_lineage_message payload"

interpretation w_query_lineage_message: wire_codec encode_query_lineage_message read_query_lineage_message wire_query_lineage_message 8
  by unfold_locales
    (auto simp: read_query_lineage_message_def encode_query_lineage_message_def wire_query_lineage_message_def wire_simps
      elim!: wire_exact intro!: wire_rejects)

record lineage_detail_message =
  lineage_detail_nodes :: "lineage_node list"

definition encode_lineage_detail_message :: "lineage_detail_message \<Rightarrow> string" where
  "encode_lineage_detail_message v =
     write_list write_lineage_node (lineage_detail_nodes v)"

definition read_lineage_detail_message :: "lineage_detail_message reader" where
  "read_lineage_detail_message =
     bindA (read_list kMaxProtocolElements kMinLineageNodeBytes read_lineage_node) (\<lambda>nodes.
     retA \<lparr>lineage_detail_nodes = nodes\<rparr>)"

definition wire_lineage_detail_message :: "lineage_detail_message \<Rightarrow> bool" where
  "wire_lineage_detail_message v \<longleftrightarrow>
     list_ok kMaxProtocolElements wire_lineage_node (lineage_detail_nodes v)"

definition decode_lineage_detail :: "string \<Rightarrow> lineage_detail_message result" where
  "decode_lineage_detail payload = decode_with read_lineage_detail_message payload"

interpretation w_lineage_detail_message: wire_codec encode_lineage_detail_message read_lineage_detail_message wire_lineage_detail_message 4
  by unfold_locales
    (auto simp: read_lineage_detail_message_def encode_lineage_detail_message_def wire_lineage_detail_message_def wire_simps
      elim!: wire_exact intro!: wire_rejects)

record query_statistics_message =
  query_statistics_session :: controller_session_authority

definition encode_query_statistics_message :: "query_statistics_message \<Rightarrow> string" where
  "encode_query_statistics_message v =
     write_controller_session_authority (query_statistics_session v)"

definition read_query_statistics_message :: "query_statistics_message reader" where
  "read_query_statistics_message =
     bindA read_controller_session_authority (\<lambda>session.
     retA \<lparr>query_statistics_session = session\<rparr>)"

definition wire_query_statistics_message :: "query_statistics_message \<Rightarrow> bool" where
  "wire_query_statistics_message v \<longleftrightarrow>
     wire_controller_session_authority (query_statistics_session v)"

definition decode_query_statistics :: "string \<Rightarrow> query_statistics_message result" where
  "decode_query_statistics payload = decode_with read_query_statistics_message payload"

interpretation w_query_statistics_message: wire_codec encode_query_statistics_message read_query_statistics_message wire_query_statistics_message 0
  by unfold_locales
    (auto simp: read_query_statistics_message_def encode_query_statistics_message_def wire_query_statistics_message_def wire_simps
      elim!: wire_exact intro!: wire_rejects)

record statistics_detail_message =
  statistics_detail_statistics :: foundry_statistics
  statistics_detail_revision :: u64
  statistics_detail_epoch :: coordinator_epoch
  statistics_detail_run :: foundry_run_id

definition encode_statistics_detail_message :: "statistics_detail_message \<Rightarrow> string" where
  "encode_statistics_detail_message v =
     write_statistics (statistics_detail_statistics v) @
     write_u64 (statistics_detail_revision v) @ write_epoch (statistics_detail_epoch v) @
     write_identity (statistics_detail_run v)"

definition read_statistics_detail_message :: "statistics_detail_message reader" where
  "read_statistics_detail_message =
     bindA read_statistics (\<lambda>statistics.
     bindA read_u64 (\<lambda>revision.
     bindA read_epoch (\<lambda>epoch.
     bindA (read_identity IK_FoundryRun) (\<lambda>run.
     retA \<lparr>statistics_detail_statistics = statistics,
     statistics_detail_revision = revision, statistics_detail_epoch = epoch,
     statistics_detail_run = run\<rparr>))))"

definition wire_statistics_detail_message :: "statistics_detail_message \<Rightarrow> bool" where
  "wire_statistics_detail_message v \<longleftrightarrow>
     wire_identity IK_FoundryRun (statistics_detail_run v)"

definition decode_statistics_detail :: "string \<Rightarrow> statistics_detail_message result" where
  "decode_statistics_detail payload = decode_with read_statistics_detail_message payload"

interpretation w_statistics_detail_message: wire_codec encode_statistics_detail_message read_statistics_detail_message wire_statistics_detail_message 24
  by unfold_locales
    (auto simp: read_statistics_detail_message_def encode_statistics_detail_message_def wire_statistics_detail_message_def wire_simps
      elim!: wire_exact intro!: wire_rejects)

record query_audit_message =
  query_audit_session :: controller_session_authority

definition encode_query_audit_message :: "query_audit_message \<Rightarrow> string" where
  "encode_query_audit_message v =
     write_controller_session_authority (query_audit_session v)"

definition read_query_audit_message :: "query_audit_message reader" where
  "read_query_audit_message =
     bindA read_controller_session_authority (\<lambda>session.
     retA \<lparr>query_audit_session = session\<rparr>)"

definition wire_query_audit_message :: "query_audit_message \<Rightarrow> bool" where
  "wire_query_audit_message v \<longleftrightarrow>
     wire_controller_session_authority (query_audit_session v)"

definition decode_query_audit :: "string \<Rightarrow> query_audit_message result" where
  "decode_query_audit payload = decode_with read_query_audit_message payload"

interpretation w_query_audit_message: wire_codec encode_query_audit_message read_query_audit_message wire_query_audit_message 0
  by unfold_locales
    (auto simp: read_query_audit_message_def encode_query_audit_message_def wire_query_audit_message_def wire_simps
      elim!: wire_exact intro!: wire_rejects)

record audit_detail_message =
  audit_detail_violations :: "string list"

definition encode_audit_detail_message :: "audit_detail_message \<Rightarrow> string" where
  "encode_audit_detail_message v =
     write_string_list (audit_detail_violations v)"

definition read_audit_detail_message :: "audit_detail_message reader" where
  "read_audit_detail_message =
     bindA read_string_list (\<lambda>violations.
     retA \<lparr>audit_detail_violations = violations\<rparr>)"

definition wire_audit_detail_message :: "audit_detail_message \<Rightarrow> bool" where
  "wire_audit_detail_message v \<longleftrightarrow>
     wire_string_list (audit_detail_violations v)"

definition decode_audit_detail :: "string \<Rightarrow> audit_detail_message result" where
  "decode_audit_detail payload = decode_with read_audit_detail_message payload"

interpretation w_audit_detail_message: wire_codec encode_audit_detail_message read_audit_detail_message wire_audit_detail_message 4
  by unfold_locales
    (auto simp: read_audit_detail_message_def encode_audit_detail_message_def wire_audit_detail_message_def wire_simps
      elim!: wire_exact intro!: wire_rejects)

record selection_decision_message =
  selection_decision_decision :: selection_decision
  selection_decision_committed :: bool

definition encode_selection_decision_message :: "selection_decision_message \<Rightarrow> string" where
  "encode_selection_decision_message v =
     write_selection_decision (selection_decision_decision v) @
     write_boolean (selection_decision_committed v)"

definition read_selection_decision_message :: "selection_decision_message reader" where
  "read_selection_decision_message =
     bindA read_selection_decision (\<lambda>decision.
     bindA read_boolean (\<lambda>committed.
     retA \<lparr>selection_decision_decision = decision,
     selection_decision_committed = committed\<rparr>))"

definition wire_selection_decision_message :: "selection_decision_message \<Rightarrow> bool" where
  "wire_selection_decision_message v \<longleftrightarrow>
     wire_selection_decision (selection_decision_decision v)"

definition decode_selection_decision :: "string \<Rightarrow> selection_decision_message result" where
  "decode_selection_decision payload = decode_with read_selection_decision_message payload"

interpretation w_selection_decision_message: wire_codec encode_selection_decision_message read_selection_decision_message wire_selection_decision_message 1
  by unfold_locales
    (auto simp: read_selection_decision_message_def encode_selection_decision_message_def wire_selection_decision_message_def wire_simps
      elim!: wire_exact intro!: wire_rejects)

record retention_decision_message =
  retention_decision_decision :: retention_decision

definition encode_retention_decision_message :: "retention_decision_message \<Rightarrow> string" where
  "encode_retention_decision_message v =
     write_retention_decision (retention_decision_decision v)"

definition read_retention_decision_message :: "retention_decision_message reader" where
  "read_retention_decision_message =
     bindA read_retention_decision (\<lambda>decision.
     retA \<lparr>retention_decision_decision = decision\<rparr>)"

definition wire_retention_decision_message :: "retention_decision_message \<Rightarrow> bool" where
  "wire_retention_decision_message v \<longleftrightarrow>
     wire_retention_decision (retention_decision_decision v)"

definition decode_retention_decision :: "string \<Rightarrow> retention_decision_message result" where
  "decode_retention_decision payload = decode_with read_retention_decision_message payload"

interpretation w_retention_decision_message: wire_codec encode_retention_decision_message read_retention_decision_message wire_retention_decision_message 0
  by unfold_locales
    (auto simp: read_retention_decision_message_def encode_retention_decision_message_def wire_retention_decision_message_def wire_simps
      elim!: wire_exact intro!: wire_rejects)

record promotion_request_message =
  promotion_request_request :: promotion_request
  promotion_request_receipt :: promotion_receipt

definition encode_promotion_request_message :: "promotion_request_message \<Rightarrow> string" where
  "encode_promotion_request_message v =
     write_promotion_request (promotion_request_request v) @
     write_promotion_receipt (promotion_request_receipt v)"

definition read_promotion_request_message :: "promotion_request_message reader" where
  "read_promotion_request_message =
     bindA read_promotion_request (\<lambda>request.
     bindA read_promotion_receipt (\<lambda>receipt.
     retA \<lparr>promotion_request_request = request,
     promotion_request_receipt = receipt\<rparr>))"

definition wire_promotion_request_message :: "promotion_request_message \<Rightarrow> bool" where
  "wire_promotion_request_message v \<longleftrightarrow>
     wire_promotion_request (promotion_request_request v) \<and>
     wire_promotion_receipt (promotion_request_receipt v)"

definition decode_promotion_request :: "string \<Rightarrow> promotion_request_message result" where
  "decode_promotion_request payload = decode_with read_promotion_request_message payload"

interpretation w_promotion_request_message: wire_codec encode_promotion_request_message read_promotion_request_message wire_promotion_request_message 0
  by unfold_locales
    (auto simp: read_promotion_request_message_def encode_promotion_request_message_def wire_promotion_request_message_def wire_simps
      elim!: wire_exact intro!: wire_rejects)

section \<open>Lifecycle and error responses\<close>

record shutdown_coordinator_message =
  shutdown_coordinator_session :: controller_session_authority

definition encode_shutdown_coordinator_message :: "shutdown_coordinator_message \<Rightarrow> string" where
  "encode_shutdown_coordinator_message v =
     write_controller_session_authority (shutdown_coordinator_session v)"

definition read_shutdown_coordinator_message :: "shutdown_coordinator_message reader" where
  "read_shutdown_coordinator_message =
     bindA read_controller_session_authority (\<lambda>session.
     retA \<lparr>shutdown_coordinator_session = session\<rparr>)"

definition wire_shutdown_coordinator_message :: "shutdown_coordinator_message \<Rightarrow> bool" where
  "wire_shutdown_coordinator_message v \<longleftrightarrow>
     wire_controller_session_authority (shutdown_coordinator_session v)"

definition decode_shutdown_coordinator :: "string \<Rightarrow> shutdown_coordinator_message result" where
  "decode_shutdown_coordinator payload = decode_with read_shutdown_coordinator_message payload"

interpretation w_shutdown_coordinator_message: wire_codec encode_shutdown_coordinator_message read_shutdown_coordinator_message wire_shutdown_coordinator_message 0
  by unfold_locales
    (auto simp: read_shutdown_coordinator_message_def encode_shutdown_coordinator_message_def wire_shutdown_coordinator_message_def wire_simps
      elim!: wire_exact intro!: wire_rejects)

record control_ack_message =
  control_ack_ok :: bool
  control_ack_code :: error_code
  control_ack_detail :: string

definition encode_control_ack_message :: "control_ack_message \<Rightarrow> string" where
  "encode_control_ack_message v =
     write_boolean (control_ack_ok v) @ write_error_code (control_ack_code v) @
     write_str (control_ack_detail v)"

definition read_control_ack_message :: "control_ack_message reader" where
  "read_control_ack_message =
     bindA read_boolean (\<lambda>ok.
     bindA read_error_code (\<lambda>code.
     bindA read_str (\<lambda>detail.
     retA \<lparr>control_ack_ok = ok, control_ack_code = code,
     control_ack_detail = detail\<rparr>)))"

definition wire_control_ack_message :: "control_ack_message \<Rightarrow> bool" where
  "wire_control_ack_message v \<longleftrightarrow>
     wire_string (control_ack_detail v)"

definition decode_control_ack :: "string \<Rightarrow> control_ack_message result" where
  "decode_control_ack payload = decode_with read_control_ack_message payload"

interpretation w_control_ack_message: wire_codec encode_control_ack_message read_control_ack_message wire_control_ack_message 7
  by unfold_locales
    (auto simp: read_control_ack_message_def encode_control_ack_message_def wire_control_ack_message_def wire_simps
      elim!: wire_exact intro!: wire_rejects)

record error_response_message =
  error_response_code :: error_code
  error_response_detail :: string
  error_response_in_reply_to :: message_type

definition encode_error_response_message :: "error_response_message \<Rightarrow> string" where
  "encode_error_response_message v =
     write_error_code (error_response_code v) @ write_str (error_response_detail v) @
     write_message_type (error_response_in_reply_to v)"

definition read_error_response_message :: "error_response_message reader" where
  "read_error_response_message =
     bindA read_error_code (\<lambda>code.
     bindA read_str (\<lambda>detail.
     bindA read_message_type (\<lambda>in_reply_to.
     retA \<lparr>error_response_code = code, error_response_detail = detail,
     error_response_in_reply_to = in_reply_to\<rparr>)))"

definition wire_error_response_message :: "error_response_message \<Rightarrow> bool" where
  "wire_error_response_message v \<longleftrightarrow>
     wire_string (error_response_detail v)"

definition decode_error_response :: "string \<Rightarrow> error_response_message result" where
  "decode_error_response payload = decode_with read_error_response_message payload"

interpretation w_error_response_message: wire_codec encode_error_response_message read_error_response_message wire_error_response_message 8
  by unfold_locales
    (auto simp: read_error_response_message_def encode_error_response_message_def wire_error_response_message_def wire_simps
      elim!: wire_exact intro!: wire_rejects)

record revalidation_applied_message =
  revalidation_applied_population :: population_id
  revalidation_applied_generation :: population_generation
  revalidation_applied_state :: population_state
  revalidation_applied_detail :: string

definition encode_revalidation_applied_message :: "revalidation_applied_message \<Rightarrow> string" where
  "encode_revalidation_applied_message v =
     write_identity (revalidation_applied_population v) @
     write_generation (revalidation_applied_generation v) @
     write_enum population_states (revalidation_applied_state v) @
     write_str (revalidation_applied_detail v)"

definition read_revalidation_applied_message :: "revalidation_applied_message reader" where
  "read_revalidation_applied_message =
     bindA (read_identity IK_Population) (\<lambda>population.
     bindA read_generation (\<lambda>generation.
     bindA (read_enum population_states) (\<lambda>state.
     bindA read_str (\<lambda>detail.
     retA \<lparr>revalidation_applied_population = population,
     revalidation_applied_generation = generation, revalidation_applied_state = state,
     revalidation_applied_detail = detail\<rparr>))))"

definition wire_revalidation_applied_message :: "revalidation_applied_message \<Rightarrow> bool" where
  "wire_revalidation_applied_message v \<longleftrightarrow>
     wire_identity IK_Population (revalidation_applied_population v) \<and>
     wire_string (revalidation_applied_detail v)"

definition decode_revalidation_applied :: "string \<Rightarrow> revalidation_applied_message result" where
  "decode_revalidation_applied payload = decode_with read_revalidation_applied_message payload"

interpretation w_revalidation_applied_message: wire_codec encode_revalidation_applied_message read_revalidation_applied_message wire_revalidation_applied_message 17
  by unfold_locales
    (auto simp: read_revalidation_applied_message_def encode_revalidation_applied_message_def wire_revalidation_applied_message_def wire_simps
      elim!: wire_exact intro!: wire_rejects)

section \<open>Shared sub-codecs\<close>

definition encode_evaluation_record :: "evaluation_record \<Rightarrow> string" where
  "encode_evaluation_record v = write_evaluation_record v"

definition decode_evaluation_record :: "string \<Rightarrow> evaluation_record result" where
  "decode_evaluation_record payload = decode_with read_evaluation_record payload"

definition encode_selection_decision :: "selection_decision \<Rightarrow> string" where
  "encode_selection_decision v = write_selection_decision v"

definition decode_selection_decision_value :: "string \<Rightarrow> selection_decision result" where
  "decode_selection_decision_value payload = decode_with read_selection_decision payload"

definition encode_retention_decision :: "retention_decision \<Rightarrow> string" where
  "encode_retention_decision v = write_retention_decision v"

definition decode_retention_decision_value :: "string \<Rightarrow> retention_decision result" where
  "decode_retention_decision_value payload = decode_with read_retention_decision payload"

definition encode_promotion_request_value :: "promotion_request \<Rightarrow> string" where
  "encode_promotion_request_value v = write_promotion_request v"

definition decode_promotion_request_value :: "string \<Rightarrow> promotion_request result" where
  "decode_promotion_request_value payload = decode_with read_promotion_request payload"

definition encode_promotion_receipt :: "promotion_receipt \<Rightarrow> string" where
  "encode_promotion_receipt v = write_promotion_receipt v"

definition decode_promotion_receipt :: "string \<Rightarrow> promotion_receipt result" where
  "decode_promotion_receipt payload = decode_with read_promotion_receipt payload"

definition encode_worker_session_authority :: "worker_session_authority \<Rightarrow> string" where
  "encode_worker_session_authority v = write_worker_session_authority v"

definition decode_worker_session_authority :: "worker_session_authority reader" where
  "decode_worker_session_authority = read_worker_session_authority"

definition encode_worker_operation_authority :: "worker_operation_authority \<Rightarrow> string" where
  "encode_worker_operation_authority v = write_worker_operation_authority v"

definition decode_worker_operation_authority :: "worker_operation_authority reader" where
  "decode_worker_operation_authority = read_worker_operation_authority"

definition encode_controller_session_authority :: "controller_session_authority \<Rightarrow> string" where
  "encode_controller_session_authority v = write_controller_session_authority v"

definition decode_controller_session_authority :: "controller_session_authority reader" where
  "decode_controller_session_authority = read_controller_session_authority"

definition encode_controller_operation_authority :: "controller_operation_authority \<Rightarrow> string" where
  "encode_controller_operation_authority v = write_controller_operation_authority v"

definition decode_controller_operation_authority :: "controller_operation_authority reader" where
  "decode_controller_operation_authority = read_controller_operation_authority"

end
