(* ===== verification/Wire_Payloads.thy ===== *)
theory Wire_Payloads
  imports Wire_Messages
begin

text \<open>
  All payload structures in one datatype, so that a statement about every message is one
  statement. \<open>payload_types\<close> says under which message types the programs send a structure (the
  \<open>reply\<close> and \<open>send\<close> calls of coordinator.cpp, coordinator_control_plane.hpp, worker_runtime.cpp
  and af_cli.cpp), \<open>decode_payload\<close> picks the decoder the receiver of that type calls.
\<close>

datatype (plugins only: code size) payload =
    P_Hello hello_message
  | P_HelloAck hello_ack_message
  | P_WorkerReady worker_ready_message
  | P_Revalidate revalidate_message
  | P_RevalidateAck revalidate_ack_message
  | P_Heartbeat heartbeat_message
  | P_CreateTask create_task_message
  | P_TaskCreated task_created_message
  | P_DefinePolicy define_policy_message
  | P_PolicyDefined policy_defined_message
  | P_CreatePopulation create_population_message
  | P_PopulationCreated population_created_message
  | P_StartPopulation start_population_message
  | P_PopulationState population_state_message
  | P_ClosePopulation close_population_message
  | P_AdvancePopulation advance_population_message
  | P_PopulationAdvanced population_advanced_message
  | P_RequestSelection request_selection_message
  | P_RequestRetention request_retention_message
  | P_RequestPromotion request_promotion_message
  | P_RequestRevalidation request_revalidation_message
  | P_CancelAttemptRequest cancel_attempt_request_message
  | P_AttemptCancelled attempt_cancelled_message
  | P_AssignAttempt assign_attempt_message
  | P_AttemptAccepted attempt_accepted_message
  | P_AttemptResult attempt_result_message
  | P_CandidatePublish candidate_publish_message
  | P_PublishAck publish_ack_message
  | P_AttemptFailed attempt_failed_message
  | P_EvaluationReport evaluation_report_message
  | P_SelfReport self_report_message
  | P_QueryPopulation query_population_message
  | P_PopulationDetail population_detail_message
  | P_QueryCandidate query_candidate_message
  | P_CandidateDetail candidate_detail_message
  | P_QueryLineage query_lineage_message
  | P_LineageDetail lineage_detail_message
  | P_QueryStatistics query_statistics_message
  | P_StatisticsDetail statistics_detail_message
  | P_QueryAudit query_audit_message
  | P_AuditDetail audit_detail_message
  | P_SelectionDecision selection_decision_message
  | P_RetentionDecision retention_decision_message
  | P_PromotionRequest promotion_request_message
  | P_ShutdownCoordinator shutdown_coordinator_message
  | P_ControlAck control_ack_message
  | P_ErrorResponse error_response_message
  | P_RevalidationApplied revalidation_applied_message

primrec encode_payload :: "payload \<Rightarrow> string" where
  "encode_payload (P_Hello m) = encode_hello_message m"
| "encode_payload (P_HelloAck m) = encode_hello_ack_message m"
| "encode_payload (P_WorkerReady m) = encode_worker_ready_message m"
| "encode_payload (P_Revalidate m) = encode_revalidate_message m"
| "encode_payload (P_RevalidateAck m) = encode_revalidate_ack_message m"
| "encode_payload (P_Heartbeat m) = encode_heartbeat_message m"
| "encode_payload (P_CreateTask m) = encode_create_task_message m"
| "encode_payload (P_TaskCreated m) = encode_task_created_message m"
| "encode_payload (P_DefinePolicy m) = encode_define_policy_message m"
| "encode_payload (P_PolicyDefined m) = encode_policy_defined_message m"
| "encode_payload (P_CreatePopulation m) = encode_create_population_message m"
| "encode_payload (P_PopulationCreated m) = encode_population_created_message m"
| "encode_payload (P_StartPopulation m) = encode_start_population_message m"
| "encode_payload (P_PopulationState m) = encode_population_state_message m"
| "encode_payload (P_ClosePopulation m) = encode_close_population_message m"
| "encode_payload (P_AdvancePopulation m) = encode_advance_population_message m"
| "encode_payload (P_PopulationAdvanced m) = encode_population_advanced_message m"
| "encode_payload (P_RequestSelection m) = encode_request_selection_message m"
| "encode_payload (P_RequestRetention m) = encode_request_retention_message m"
| "encode_payload (P_RequestPromotion m) = encode_request_promotion_message m"
| "encode_payload (P_RequestRevalidation m) = encode_request_revalidation_message m"
| "encode_payload (P_CancelAttemptRequest m) = encode_cancel_attempt_request_message m"
| "encode_payload (P_AttemptCancelled m) = encode_attempt_cancelled_message m"
| "encode_payload (P_AssignAttempt m) = encode_assign_attempt_message m"
| "encode_payload (P_AttemptAccepted m) = encode_attempt_accepted_message m"
| "encode_payload (P_AttemptResult m) = encode_attempt_result_message m"
| "encode_payload (P_CandidatePublish m) = encode_candidate_publish_message m"
| "encode_payload (P_PublishAck m) = encode_publish_ack_message m"
| "encode_payload (P_AttemptFailed m) = encode_attempt_failed_message m"
| "encode_payload (P_EvaluationReport m) = encode_evaluation_report_message m"
| "encode_payload (P_SelfReport m) = encode_self_report_message m"
| "encode_payload (P_QueryPopulation m) = encode_query_population_message m"
| "encode_payload (P_PopulationDetail m) = encode_population_detail_message m"
| "encode_payload (P_QueryCandidate m) = encode_query_candidate_message m"
| "encode_payload (P_CandidateDetail m) = encode_candidate_detail_message m"
| "encode_payload (P_QueryLineage m) = encode_query_lineage_message m"
| "encode_payload (P_LineageDetail m) = encode_lineage_detail_message m"
| "encode_payload (P_QueryStatistics m) = encode_query_statistics_message m"
| "encode_payload (P_StatisticsDetail m) = encode_statistics_detail_message m"
| "encode_payload (P_QueryAudit m) = encode_query_audit_message m"
| "encode_payload (P_AuditDetail m) = encode_audit_detail_message m"
| "encode_payload (P_SelectionDecision m) = encode_selection_decision_message m"
| "encode_payload (P_RetentionDecision m) = encode_retention_decision_message m"
| "encode_payload (P_PromotionRequest m) = encode_promotion_request_message m"
| "encode_payload (P_ShutdownCoordinator m) = encode_shutdown_coordinator_message m"
| "encode_payload (P_ControlAck m) = encode_control_ack_message m"
| "encode_payload (P_ErrorResponse m) = encode_error_response_message m"
| "encode_payload (P_RevalidationApplied m) = encode_revalidation_applied_message m"

primrec wire_payload :: "payload \<Rightarrow> bool" where
  "wire_payload (P_Hello m) = wire_hello_message m"
| "wire_payload (P_HelloAck m) = wire_hello_ack_message m"
| "wire_payload (P_WorkerReady m) = wire_worker_ready_message m"
| "wire_payload (P_Revalidate m) = wire_revalidate_message m"
| "wire_payload (P_RevalidateAck m) = wire_revalidate_ack_message m"
| "wire_payload (P_Heartbeat m) = wire_heartbeat_message m"
| "wire_payload (P_CreateTask m) = wire_create_task_message m"
| "wire_payload (P_TaskCreated m) = wire_task_created_message m"
| "wire_payload (P_DefinePolicy m) = wire_define_policy_message m"
| "wire_payload (P_PolicyDefined m) = wire_policy_defined_message m"
| "wire_payload (P_CreatePopulation m) = wire_create_population_message m"
| "wire_payload (P_PopulationCreated m) = wire_population_created_message m"
| "wire_payload (P_StartPopulation m) = wire_start_population_message m"
| "wire_payload (P_PopulationState m) = wire_population_state_message m"
| "wire_payload (P_ClosePopulation m) = wire_close_population_message m"
| "wire_payload (P_AdvancePopulation m) = wire_advance_population_message m"
| "wire_payload (P_PopulationAdvanced m) = wire_population_advanced_message m"
| "wire_payload (P_RequestSelection m) = wire_request_selection_message m"
| "wire_payload (P_RequestRetention m) = wire_request_retention_message m"
| "wire_payload (P_RequestPromotion m) = wire_request_promotion_message m"
| "wire_payload (P_RequestRevalidation m) = wire_request_revalidation_message m"
| "wire_payload (P_CancelAttemptRequest m) = wire_cancel_attempt_request_message m"
| "wire_payload (P_AttemptCancelled m) = wire_attempt_cancelled_message m"
| "wire_payload (P_AssignAttempt m) = wire_assign_attempt_message m"
| "wire_payload (P_AttemptAccepted m) = wire_attempt_accepted_message m"
| "wire_payload (P_AttemptResult m) = wire_attempt_result_message m"
| "wire_payload (P_CandidatePublish m) = wire_candidate_publish_message m"
| "wire_payload (P_PublishAck m) = wire_publish_ack_message m"
| "wire_payload (P_AttemptFailed m) = wire_attempt_failed_message m"
| "wire_payload (P_EvaluationReport m) = wire_evaluation_report_message m"
| "wire_payload (P_SelfReport m) = wire_self_report_message m"
| "wire_payload (P_QueryPopulation m) = wire_query_population_message m"
| "wire_payload (P_PopulationDetail m) = wire_population_detail_message m"
| "wire_payload (P_QueryCandidate m) = wire_query_candidate_message m"
| "wire_payload (P_CandidateDetail m) = wire_candidate_detail_message m"
| "wire_payload (P_QueryLineage m) = wire_query_lineage_message m"
| "wire_payload (P_LineageDetail m) = wire_lineage_detail_message m"
| "wire_payload (P_QueryStatistics m) = wire_query_statistics_message m"
| "wire_payload (P_StatisticsDetail m) = wire_statistics_detail_message m"
| "wire_payload (P_QueryAudit m) = wire_query_audit_message m"
| "wire_payload (P_AuditDetail m) = wire_audit_detail_message m"
| "wire_payload (P_SelectionDecision m) = wire_selection_decision_message m"
| "wire_payload (P_RetentionDecision m) = wire_retention_decision_message m"
| "wire_payload (P_PromotionRequest m) = wire_promotion_request_message m"
| "wire_payload (P_ShutdownCoordinator m) = wire_shutdown_coordinator_message m"
| "wire_payload (P_ControlAck m) = wire_control_ack_message m"
| "wire_payload (P_ErrorResponse m) = wire_error_response_message m"
| "wire_payload (P_RevalidationApplied m) = wire_revalidation_applied_message m"

primrec payload_types :: "payload \<Rightarrow> message_type list" where
  "payload_types (P_Hello m) = [MT_Hello]"
| "payload_types (P_HelloAck m) = [MT_HelloAck]"
| "payload_types (P_WorkerReady m) = [MT_WorkerReady]"
| "payload_types (P_Revalidate m) = [MT_Revalidate]"
| "payload_types (P_RevalidateAck m) = [MT_RevalidateAck]"
| "payload_types (P_Heartbeat m) = [MT_Heartbeat]"
| "payload_types (P_CreateTask m) = [MT_CreateTask]"
| "payload_types (P_TaskCreated m) = [MT_TaskCreated]"
| "payload_types (P_DefinePolicy m) = [MT_DefinePolicy]"
| "payload_types (P_PolicyDefined m) = [MT_PolicyDefined]"
| "payload_types (P_CreatePopulation m) = [MT_CreatePopulation]"
| "payload_types (P_PopulationCreated m) = [MT_PopulationCreated]"
| "payload_types (P_StartPopulation m) = [MT_StartPopulation]"
| "payload_types (P_PopulationState m) = [MT_PopulationStarted, MT_PopulationClosed]"
| "payload_types (P_ClosePopulation m) = [MT_ClosePopulation]"
| "payload_types (P_AdvancePopulation m) = [MT_AdvancePopulation]"
| "payload_types (P_PopulationAdvanced m) = [MT_PopulationAdvanced]"
| "payload_types (P_RequestSelection m) = [MT_RequestSelection]"
| "payload_types (P_RequestRetention m) = [MT_RequestRetention]"
| "payload_types (P_RequestPromotion m) = [MT_RequestPromotion]"
| "payload_types (P_RequestRevalidation m) = [MT_RequestRevalidation]"
| "payload_types (P_CancelAttemptRequest m) = [MT_CancelAttemptRequest]"
| "payload_types (P_AttemptCancelled m) = [MT_AttemptCancelled]"
| "payload_types (P_AssignAttempt m) = [MT_AssignAttempt]"
| "payload_types (P_AttemptAccepted m) = [MT_AttemptAccepted]"
| "payload_types (P_AttemptResult m) = [MT_AttemptResult]"
| "payload_types (P_CandidatePublish m) = [MT_CandidatePublish]"
| "payload_types (P_PublishAck m) = [MT_PublishAck]"
| "payload_types (P_AttemptFailed m) = [MT_AttemptFailed]"
| "payload_types (P_EvaluationReport m) = [MT_EvaluationReport]"
| "payload_types (P_SelfReport m) = [MT_SelfReport]"
| "payload_types (P_QueryPopulation m) = [MT_QueryPopulation]"
| "payload_types (P_PopulationDetail m) = [MT_PopulationDetail]"
| "payload_types (P_QueryCandidate m) = [MT_QueryCandidate]"
| "payload_types (P_CandidateDetail m) = [MT_CandidateDetail]"
| "payload_types (P_QueryLineage m) = [MT_QueryLineage]"
| "payload_types (P_LineageDetail m) = [MT_LineageDetail]"
| "payload_types (P_QueryStatistics m) = [MT_QueryStatistics]"
| "payload_types (P_StatisticsDetail m) = [MT_StatisticsDetail]"
| "payload_types (P_QueryAudit m) = [MT_QueryAudit]"
| "payload_types (P_AuditDetail m) = [MT_AuditDetail]"
| "payload_types (P_SelectionDecision m) = [MT_SelectionDecisionMessage]"
| "payload_types (P_RetentionDecision m) = [MT_RetentionDecisionMessage]"
| "payload_types (P_PromotionRequest m) = [MT_PromotionRequestMessage]"
| "payload_types (P_ShutdownCoordinator m) = [MT_ShutdownCoordinator]"
| "payload_types (P_ControlAck m) = [MT_ControlAck, MT_ShutdownAck]"
| "payload_types (P_ErrorResponse m) = [MT_ErrorResponse]"
| "payload_types (P_RevalidationApplied m) = [MT_RevalidationApplied]"

definition payload_decoders :: "(message_type \<times> (string \<Rightarrow> payload result)) list" where
  "payload_decoders =
    [(MT_Hello, map_sum id P_Hello \<circ> decode_hello),
     (MT_HelloAck, map_sum id P_HelloAck \<circ> decode_hello_ack),
     (MT_WorkerReady, map_sum id P_WorkerReady \<circ> decode_worker_ready),
     (MT_Revalidate, map_sum id P_Revalidate \<circ> decode_revalidate),
     (MT_RevalidateAck, map_sum id P_RevalidateAck \<circ> decode_revalidate_ack),
     (MT_Heartbeat, map_sum id P_Heartbeat \<circ> decode_heartbeat),
     (MT_CreateTask, map_sum id P_CreateTask \<circ> decode_create_task),
     (MT_TaskCreated, map_sum id P_TaskCreated \<circ> decode_task_created),
     (MT_DefinePolicy, map_sum id P_DefinePolicy \<circ> decode_define_policy),
     (MT_PolicyDefined, map_sum id P_PolicyDefined \<circ> decode_policy_defined),
     (MT_CreatePopulation, map_sum id P_CreatePopulation \<circ> decode_create_population),
     (MT_PopulationCreated, map_sum id P_PopulationCreated \<circ> decode_population_created),
     (MT_StartPopulation, map_sum id P_StartPopulation \<circ> decode_start_population),
     (MT_PopulationStarted, map_sum id P_PopulationState \<circ> decode_population_state),
     (MT_PopulationClosed, map_sum id P_PopulationState \<circ> decode_population_state),
     (MT_ClosePopulation, map_sum id P_ClosePopulation \<circ> decode_close_population),
     (MT_AdvancePopulation, map_sum id P_AdvancePopulation \<circ> decode_advance_population),
     (MT_PopulationAdvanced, map_sum id P_PopulationAdvanced \<circ> decode_population_advanced),
     (MT_RequestSelection, map_sum id P_RequestSelection \<circ> decode_request_selection),
     (MT_RequestRetention, map_sum id P_RequestRetention \<circ> decode_request_retention),
     (MT_RequestPromotion, map_sum id P_RequestPromotion \<circ> decode_request_promotion),
     (MT_RequestRevalidation, map_sum id P_RequestRevalidation \<circ> decode_request_revalidation),
     (MT_CancelAttemptRequest, map_sum id P_CancelAttemptRequest \<circ> decode_cancel_attempt_request),
     (MT_AttemptCancelled, map_sum id P_AttemptCancelled \<circ> decode_attempt_cancelled),
     (MT_AssignAttempt, map_sum id P_AssignAttempt \<circ> decode_assign_attempt),
     (MT_AttemptAccepted, map_sum id P_AttemptAccepted \<circ> decode_attempt_accepted),
     (MT_AttemptResult, map_sum id P_AttemptResult \<circ> decode_attempt_result),
     (MT_CandidatePublish, map_sum id P_CandidatePublish \<circ> decode_candidate_publish),
     (MT_PublishAck, map_sum id P_PublishAck \<circ> decode_publish_ack),
     (MT_AttemptFailed, map_sum id P_AttemptFailed \<circ> decode_attempt_failed),
     (MT_EvaluationReport, map_sum id P_EvaluationReport \<circ> decode_evaluation_report),
     (MT_SelfReport, map_sum id P_SelfReport \<circ> decode_self_report),
     (MT_QueryPopulation, map_sum id P_QueryPopulation \<circ> decode_query_population),
     (MT_PopulationDetail, map_sum id P_PopulationDetail \<circ> decode_population_detail),
     (MT_QueryCandidate, map_sum id P_QueryCandidate \<circ> decode_query_candidate),
     (MT_CandidateDetail, map_sum id P_CandidateDetail \<circ> decode_candidate_detail),
     (MT_QueryLineage, map_sum id P_QueryLineage \<circ> decode_query_lineage),
     (MT_LineageDetail, map_sum id P_LineageDetail \<circ> decode_lineage_detail),
     (MT_QueryStatistics, map_sum id P_QueryStatistics \<circ> decode_query_statistics),
     (MT_StatisticsDetail, map_sum id P_StatisticsDetail \<circ> decode_statistics_detail),
     (MT_QueryAudit, map_sum id P_QueryAudit \<circ> decode_query_audit),
     (MT_AuditDetail, map_sum id P_AuditDetail \<circ> decode_audit_detail),
     (MT_SelectionDecisionMessage, map_sum id P_SelectionDecision \<circ> decode_selection_decision),
     (MT_RetentionDecisionMessage, map_sum id P_RetentionDecision \<circ> decode_retention_decision),
     (MT_PromotionRequestMessage, map_sum id P_PromotionRequest \<circ> decode_promotion_request),
     (MT_ShutdownCoordinator, map_sum id P_ShutdownCoordinator \<circ> decode_shutdown_coordinator),
     (MT_ControlAck, map_sum id P_ControlAck \<circ> decode_control_ack),
     (MT_ShutdownAck, map_sum id P_ControlAck \<circ> decode_control_ack),
     (MT_ErrorResponse, map_sum id P_ErrorResponse \<circ> decode_error_response),
     (MT_RevalidationApplied, map_sum id P_RevalidationApplied \<circ> decode_revalidation_applied)]"

definition decode_payload :: "message_type \<Rightarrow> string \<Rightarrow> payload result" where
  "decode_payload t s =
    (case map_of payload_decoders t of None \<Rightarrow> Inl E_ProtocolViolation | Some decode \<Rightarrow> decode s)"

text \<open>The exactness of each decoder, as an equation on its payload.\<close>

lemma map_decoded: "map_sum id C r = Inr p \<longleftrightarrow> (\<exists>m. r = Inr m \<and> p = C m)"
  by (cases r) auto

lemmas decoder_defs =
  decode_hello_def decode_hello_ack_def decode_worker_ready_def decode_revalidate_def
  decode_revalidate_ack_def decode_heartbeat_def decode_create_task_def
  decode_task_created_def decode_define_policy_def decode_policy_defined_def
  decode_create_population_def decode_population_created_def decode_start_population_def
  decode_population_state_def decode_close_population_def decode_advance_population_def
  decode_population_advanced_def decode_request_selection_def decode_request_retention_def
  decode_request_promotion_def decode_request_revalidation_def
  decode_cancel_attempt_request_def decode_attempt_cancelled_def decode_assign_attempt_def
  decode_attempt_accepted_def decode_attempt_result_def decode_candidate_publish_def
  decode_publish_ack_def decode_attempt_failed_def decode_evaluation_report_def
  decode_self_report_def decode_query_population_def decode_population_detail_def
  decode_query_candidate_def decode_candidate_detail_def decode_query_lineage_def
  decode_lineage_detail_def decode_query_statistics_def decode_statistics_detail_def
  decode_query_audit_def decode_audit_detail_def decode_selection_decision_def
  decode_retention_decision_def decode_promotion_request_def decode_shutdown_coordinator_def
  decode_control_ack_def decode_error_response_def decode_revalidation_applied_def

lemmas decoder_exact =
  w_hello_message.decodes_iff w_hello_ack_message.decodes_iff
  w_worker_ready_message.decodes_iff w_revalidate_message.decodes_iff
  w_revalidate_ack_message.decodes_iff w_heartbeat_message.decodes_iff
  w_create_task_message.decodes_iff w_task_created_message.decodes_iff
  w_define_policy_message.decodes_iff w_policy_defined_message.decodes_iff
  w_create_population_message.decodes_iff w_population_created_message.decodes_iff
  w_start_population_message.decodes_iff w_population_state_message.decodes_iff
  w_close_population_message.decodes_iff w_advance_population_message.decodes_iff
  w_population_advanced_message.decodes_iff w_request_selection_message.decodes_iff
  w_request_retention_message.decodes_iff w_request_promotion_message.decodes_iff
  w_request_revalidation_message.decodes_iff w_cancel_attempt_request_message.decodes_iff
  w_attempt_cancelled_message.decodes_iff w_assign_attempt_message.decodes_iff
  w_attempt_accepted_message.decodes_iff w_attempt_result_message.decodes_iff
  w_candidate_publish_message.decodes_iff w_publish_ack_message.decodes_iff
  w_attempt_failed_message.decodes_iff w_evaluation_report_message.decodes_iff
  w_self_report_message.decodes_iff w_query_population_message.decodes_iff
  w_population_detail_message.decodes_iff w_query_candidate_message.decodes_iff
  w_candidate_detail_message.decodes_iff w_query_lineage_message.decodes_iff
  w_lineage_detail_message.decodes_iff w_query_statistics_message.decodes_iff
  w_statistics_detail_message.decodes_iff w_query_audit_message.decodes_iff
  w_audit_detail_message.decodes_iff w_selection_decision_message.decodes_iff
  w_retention_decision_message.decodes_iff w_promotion_request_message.decodes_iff
  w_shutdown_coordinator_message.decodes_iff w_control_ack_message.decodes_iff
  w_error_response_message.decodes_iff w_revalidation_applied_message.decodes_iff

lemmas decoder_rejects =
  w_hello_message.decode_rejects w_hello_ack_message.decode_rejects
  w_worker_ready_message.decode_rejects w_revalidate_message.decode_rejects
  w_revalidate_ack_message.decode_rejects w_heartbeat_message.decode_rejects
  w_create_task_message.decode_rejects w_task_created_message.decode_rejects
  w_define_policy_message.decode_rejects w_policy_defined_message.decode_rejects
  w_create_population_message.decode_rejects w_population_created_message.decode_rejects
  w_start_population_message.decode_rejects w_population_state_message.decode_rejects
  w_close_population_message.decode_rejects w_advance_population_message.decode_rejects
  w_population_advanced_message.decode_rejects w_request_selection_message.decode_rejects
  w_request_retention_message.decode_rejects w_request_promotion_message.decode_rejects
  w_request_revalidation_message.decode_rejects
  w_cancel_attempt_request_message.decode_rejects w_attempt_cancelled_message.decode_rejects
  w_assign_attempt_message.decode_rejects w_attempt_accepted_message.decode_rejects
  w_attempt_result_message.decode_rejects w_candidate_publish_message.decode_rejects
  w_publish_ack_message.decode_rejects w_attempt_failed_message.decode_rejects
  w_evaluation_report_message.decode_rejects w_self_report_message.decode_rejects
  w_query_population_message.decode_rejects w_population_detail_message.decode_rejects
  w_query_candidate_message.decode_rejects w_candidate_detail_message.decode_rejects
  w_query_lineage_message.decode_rejects w_lineage_detail_message.decode_rejects
  w_query_statistics_message.decode_rejects w_statistics_detail_message.decode_rejects
  w_query_audit_message.decode_rejects w_audit_detail_message.decode_rejects
  w_selection_decision_message.decode_rejects w_retention_decision_message.decode_rejects
  w_promotion_request_message.decode_rejects w_shutdown_coordinator_message.decode_rejects
  w_control_ack_message.decode_rejects w_error_response_message.decode_rejects
  w_revalidation_applied_message.decode_rejects

lemma map_failed: "map_sum id C r = Inl e \<longleftrightarrow> r = Inl e"
  by (cases r) auto

lemma decoders_sound:
  "list_all (\<lambda>(t, decode). \<forall>s p. decode s = Inr p \<longrightarrow>
     t \<in> set (payload_types p) \<and> wire_payload p \<and> s = encode_payload p) payload_decoders"
  unfolding payload_decoders_def
  by (auto simp: map_decoded decoder_defs decoder_exact)

lemma decode_complete:
  "t \<in> set (payload_types p) \<Longrightarrow> wire_payload p \<Longrightarrow> decode_payload t (encode_payload p) = Inr p"
  by (cases p)
    (auto simp: decode_payload_def payload_decoders_def map_decoded decoder_defs decoder_exact)

lemma decoders_reject:
  "list_all (\<lambda>(t, decode). \<forall>s e. decode s = Inl e \<longrightarrow> e \<in> wire_rejections) payload_decoders"
  unfolding payload_decoders_def
  by (simp add: map_failed decoder_defs decoder_rejects wire_rejects)

section \<open>Properties\<close>

text \<open>
  C13: Every payload decoder accepts exactly the encodings of the values the wire can carry,
  and returns the value that was encoded: no trailing byte, no second encoding of a value, no
  enumeration, identity or count outside its range is accepted, and every such value survives
  the round trip.
\<close>

theorem payload_codec_exact:
  "decode_payload t s = Inr p \<longleftrightarrow>
   t \<in> set (payload_types p) \<and> wire_payload p \<and> s = encode_payload p"
proof
  assume p: "decode_payload t s = Inr p"
  then obtain decode where "map_of payload_decoders t = Some decode" and "decode s = Inr p"
    by (auto simp: decode_payload_def split: option.splits)
  then show "t \<in> set (payload_types p) \<and> wire_payload p \<and> s = encode_payload p"
    using decoders_sound map_of_SomeD by (fastforce simp: list_all_iff)
next
  assume "t \<in> set (payload_types p) \<and> wire_payload p \<and> s = encode_payload p"
  then show "decode_payload t s = Inr p"
    by (simp add: decode_complete)
qed

text \<open>
  A payload that is not accepted is rejected with one of the four codes of the decoding
  boundary (malformed bytes, a count out of range, a null identity, an identity of another
  domain); only a message type without a payload structure is a protocol violation.
\<close>

theorem payload_decoder_rejections:
  "(\<exists>p. decode_payload t s = Inr p) \<or>
   (\<exists>e. decode_payload t s = Inl e \<and>
     (if t \<in> fst ` set payload_decoders then e \<in> wire_rejections else e = E_ProtocolViolation))"
proof (cases "map_of payload_decoders t")
  case None
  then have "t \<notin> fst ` set payload_decoders"
    by (simp only: map_of_eq_None_iff) simp
  then show ?thesis
    using None by (simp add: decode_payload_def)
next
  case (Some decode)
  then have "(t, decode) \<in> set payload_decoders"
    by (rule map_of_SomeD)
  then have member: "t \<in> fst ` set payload_decoders"
    by (metis fst_conv imageI)
  have "e \<in> wire_rejections" if "decode s = Inl e" for e
    using decoders_reject \<open>(t, decode) \<in> set payload_decoders\<close> that
    by (auto simp: list_all_iff)
  then show ?thesis
    using Some member by (cases "decode s") (simp_all add: decode_payload_def)
qed

end
