(* ===== verification/Wire_Frames.thy ===== *)
theory Wire_Frames
  imports Wire_Messages
begin

text \<open>
  The frame layer of the wire protocol (\<open>encode_frame\<close>, \<open>decode_frame\<close>, \<open>status_is_incomplete\<close> of
  protocol.cpp). A frame is a header of 28 bytes and the payload; the length and the CRC-32C
  of the header are those of the payload that is framed, whatever the caller's header says.
  The out-parameter \<^verbatim>\<open>consumed\<close> of \<open>decode_frame\<close> is a value of type \<open>nat option\<close>, \<open>None\<close> for a null
  pointer, returned as the call leaves it.
\<close>

definition kFrameMagic :: u32 where "kFrameMagic = 0x41465931"
definition kFrameHeaderBytes :: nat where "kFrameHeaderBytes = 28"
definition kProtocolVersion :: u16 where "kProtocolVersion = 1"
definition kMaxFramePayloadBytes :: u32 where "kMaxFramePayloadBytes = 4 * 1024 * 1024"
definition kAbsoluteMaxFramePayloadBytes :: u32 where
  "kAbsoluteMaxFramePayloadBytes = 16 * 1024 * 1024"

lemmas frame_constants = kFrameMagic_def kFrameHeaderBytes_def kProtocolVersion_def
  kMaxFramePayloadBytes_def kAbsoluteMaxFramePayloadBytes_def

record frame_header =
  fh_magic :: u32
  fh_version :: u16
  fh_type :: message_type
  fh_flags :: u32
  fh_sequence :: u64
  fh_payload_length :: u32
  fh_payload_crc32c :: u32

record frame =
  fr_header :: frame_header
  fr_payload :: string

text \<open>The header a sender starts from: the defaults of the structure.\<close>

definition new_header :: "message_type \<Rightarrow> frame_header" where
  "new_header t =
    \<lparr>fh_magic = kFrameMagic, fh_version = kProtocolVersion, fh_type = t, fh_flags = 0,
     fh_sequence = 0, fh_payload_length = 0, fh_payload_crc32c = 0\<rparr>"

definition payload_crc :: "string \<Rightarrow> u32" where
  "payload_crc payload = crc32c (bytes_of payload) 0"

definition encode_frame :: "frame_header \<Rightarrow> string \<Rightarrow> string" where
  "encode_frame header payload =
    (if unat kAbsoluteMaxFramePayloadBytes < length payload then []
     else write_u32 (fh_magic header) @ write_u16 (fh_version header) @
       write_u16 (message_code (fh_type header)) @ write_u32 (fh_flags header) @
       write_u64 (fh_sequence header) @ write_u32 (of_nat (length payload)) @
       write_u32 (payload_crc payload) @ payload)"

definition substr :: "string \<Rightarrow> nat \<Rightarrow> nat \<Rightarrow> string" where
  "substr text pos count' = take count' (drop pos text)"

definition decode_frame :: "string \<Rightarrow> nat option \<Rightarrow> frame result \<times> nat option" where
  "decode_frame buffer consumed =
    (if consumed = None then (Inl E_InvalidArgument, consumed)
     else if length buffer < kFrameHeaderBytes then (Inl E_FrameTruncated, consumed)
     else let magic = ucast (load_little_endian (substr buffer 0 4)) in
     if magic \<noteq> kFrameMagic then (Inl E_ProtocolViolation, consumed)
     else let version = ucast (load_little_endian (substr buffer 4 2)) in
     if version \<noteq> kProtocolVersion then (Inl E_ProtocolViolation, consumed)
     else let payload_length = ucast (load_little_endian (substr buffer 20 4)) in
     if kMaxFramePayloadBytes < payload_length then (Inl E_FrameTooLarge, consumed)
     else let total = kFrameHeaderBytes + unat payload_length in
     if length buffer < total then (Inl E_FrameTruncated, consumed)
     else let
       declared_crc = ucast (load_little_endian (substr buffer 24 4));
       payload = substr buffer kFrameHeaderBytes (unat payload_length) in
     if payload_crc payload \<noteq> declared_crc then (Inl E_FrameCorrupt, consumed)
     else (Inr
       \<lparr>fr_header =
          \<lparr>fh_magic = magic, fh_version = version,
           fh_type = MessageType (ucast (load_little_endian (substr buffer 6 2))),
           fh_flags = ucast (load_little_endian (substr buffer 8 4)),
           fh_sequence = load_little_endian (substr buffer 12 8),
           fh_payload_length = payload_length, fh_payload_crc32c = declared_crc\<rparr>,
        fr_payload = payload\<rparr>, Some total))"

definition status_is_incomplete :: "'a result \<Rightarrow> bool" where
  "status_is_incomplete r \<longleftrightarrow> r = Inl E_FrameTruncated"

section \<open>What a frame decodes to\<close>

text \<open>The header fields of an encoded frame, read back at their offsets.\<close>

lemma substr_skip: "length p = n \<Longrightarrow> n \<le> pos \<Longrightarrow> substr (p @ s) pos k = substr s (pos - n) k"
  by (simp add: substr_def)

lemma substr_here: "length p = k \<Longrightarrow> substr (p @ s) 0 k = p"
  by (simp add: substr_def)

lemma load_u32: "ucast (load_little_endian (write_u32 w)) = w"
  using wire_u32.reads [of w "[]"]
  by (auto simp: read_u32_def bindA_def retA_def take_bytes_def wire_simps)

lemma load_u16: "ucast (load_little_endian (write_u16 w)) = w"
  using wire_u16.reads [of w "[]"]
  by (auto simp: read_u16_def bindA_def retA_def take_bytes_def wire_simps)

lemma load_u64: "load_little_endian (write_u64 w) = w"
  using wire_u64.reads [of w "[]"]
  by (auto simp: read_u64_def bindA_def retA_def take_bytes_def wire_simps)

definition framed :: "frame_header \<Rightarrow> string \<Rightarrow> frame" where
  "framed header payload =
    \<lparr>fr_header = header\<lparr>fh_payload_length := of_nat (length payload),
       fh_payload_crc32c := payload_crc payload\<rparr>, fr_payload = payload\<rparr>"

definition decodable :: "frame_header \<Rightarrow> string \<Rightarrow> bool" where
  "decodable header payload \<longleftrightarrow> fh_magic header = kFrameMagic \<and>
     fh_version header = kProtocolVersion \<and> length payload \<le> unat kMaxFramePayloadBytes"

lemma length_frame:
  "decodable h p \<Longrightarrow> length (encode_frame h p) = kFrameHeaderBytes + length p"
  by (simp add: encode_frame_def decodable_def wire_simps frame_constants)

lemma payload_length_u32:
  "decodable h p \<Longrightarrow> unat (of_nat (length p) :: u32) = length p"
  "decodable h p \<Longrightarrow> \<not> kMaxFramePayloadBytes < (of_nat (length p) :: u32)"
proof -
  assume "decodable h p"
  then have n: "length p \<le> 4194304"
    by (simp add: decodable_def frame_constants)
  then show eq: "unat (of_nat (length p) :: u32) = length p"
    by (intro unat_length_u32) simp
  show "\<not> kMaxFramePayloadBytes < (of_nat (length p) :: u32)"
    using n by (simp add: word_less_nat_alt eq frame_constants)
qed

lemma decode_encoded:
  assumes "decodable h p"
  shows "decode_frame (encode_frame h p @ rest) (Some c) =
    (Inr (framed h p), Some (length (encode_frame h p)))"
proof -
  have small: "\<not> unat kAbsoluteMaxFramePayloadBytes < length p"
    using assms by (simp add: decodable_def frame_constants)
  have fields:
    "substr (encode_frame h p @ rest) 0 4 = write_u32 (fh_magic h)"
    "substr (encode_frame h p @ rest) 4 2 = write_u16 (fh_version h)"
    "substr (encode_frame h p @ rest) 6 2 = write_u16 (message_code (fh_type h))"
    "substr (encode_frame h p @ rest) 8 4 = write_u32 (fh_flags h)"
    "substr (encode_frame h p @ rest) 12 8 = write_u64 (fh_sequence h)"
    "substr (encode_frame h p @ rest) 20 4 = write_u32 (of_nat (length p))"
    "substr (encode_frame h p @ rest) 24 4 = write_u32 (payload_crc p)"
    "substr (encode_frame h p @ rest) 28 (length p) = p"
    using small
    by (simp_all add: encode_frame_def substr_skip [OF length_primitives(3)]
        substr_skip [OF length_primitives(2)] substr_skip [OF length_primitives(4)]
        substr_here wire_simps)
  have "kFrameHeaderBytes + length p \<le> length (encode_frame h p @ rest)"
    using length_frame [OF assms] by simp
  with assms small show ?thesis
    by (simp add: decode_frame_def Let_def fields load_u32 load_u16 load_u64 framed_def
        payload_length_u32 [OF assms] length_frame [OF assms] decodable_def kFrameHeaderBytes_def not_less)
qed

section \<open>What the decoder accepts\<close>

lemma substr_length: "pos + k \<le> length s \<Longrightarrow> length (substr s pos k) = k"
  by (simp add: substr_def)

lemma substr_prefix: "pos + k \<le> length b \<Longrightarrow> substr (b @ later) pos k = substr b pos k"
  by (simp add: substr_def)

lemma substr_join: "substr s pos j @ substr s (pos + j) k = substr s pos (j + k)"
  by (simp add: substr_def take_add add.commute)

lemma write_loaded:
  "length a = 4 \<Longrightarrow> write_u32 (ucast (load_little_endian a)) = a"
  "length b = 2 \<Longrightarrow> write_u16 (ucast (load_little_endian b)) = b"
  "length d = 8 \<Longrightarrow> write_u64 (load_little_endian d) = d"
  by (simp_all add: write_u32_def write_u16_def write_u64_def load_ucast write_load_64)

lemma decode_exact:
  assumes "decode_frame b (Some c) = (Inr f, c')"
  shows "\<exists>rest. b = encode_frame (fr_header f) (fr_payload f) @ rest"
    and "decodable (fr_header f) (fr_payload f)"
    and "f = framed (fr_header f) (fr_payload f)"
    and "c' = Some (length (encode_frame (fr_header f) (fr_payload f)))"
proof -
  let ?n = "unat (ucast (load_little_endian (substr b 20 4)) :: u32)"
  have len: "28 + ?n \<le> length b"
    and n: "?n = length (fr_payload f)" "?n \<le> unat kMaxFramePayloadBytes"
    and f: "fr_payload f = substr b 28 ?n" "c' = Some (28 + ?n)"
      "fh_magic (fr_header f) = ucast (load_little_endian (substr b 0 4))"
      "fh_version (fr_header f) = ucast (load_little_endian (substr b 4 2))"
      "message_code (fh_type (fr_header f)) = ucast (load_little_endian (substr b 6 2))"
      "fh_flags (fr_header f) = ucast (load_little_endian (substr b 8 4))"
      "fh_sequence (fr_header f) = load_little_endian (substr b 12 8)"
      "payload_crc (fr_payload f) = ucast (load_little_endian (substr b 24 4))"
      "fh_payload_length (fr_header f) = ucast (load_little_endian (substr b 20 4))"
      "fh_payload_crc32c (fr_header f) = ucast (load_little_endian (substr b 24 4))"
    and head: "fh_magic (fr_header f) = kFrameMagic" "fh_version (fr_header f) = kProtocolVersion"
    using assms
    by (auto simp: decode_frame_def Let_def kFrameHeaderBytes_def substr_length not_less
        word_le_nat_alt split: if_splits)
  show dec: "decodable (fr_header f) (fr_payload f)"
    using head n by (simp add: decodable_def)
  have "b = substr b 0 28 @ substr b 28 ?n @ drop (28 + ?n) b"
  proof -
    have "b = take 28 b @ take ?n (drop 28 b) @ drop ?n (drop 28 b)"
      by (simp only: append_take_drop_id)
    then show ?thesis
      by (simp add: substr_def add.commute)
  qed
  moreover have "substr b 0 28 = substr b 0 4 @ substr b 4 2 @ substr b 6 2 @ substr b 8 4 @
      substr b 12 8 @ substr b 20 4 @ substr b 24 4"
    using substr_join [of b 20 4 4] substr_join [of b 12 8 8] substr_join [of b 8 4 16]
      substr_join [of b 6 2 20] substr_join [of b 4 2 22] substr_join [of b 0 4 24] by simp
  moreover have "encode_frame (fr_header f) (fr_payload f) =
      substr b 0 4 @ substr b 4 2 @ substr b 6 2 @ substr b 8 4 @
      substr b 12 8 @ substr b 20 4 @ substr b 24 4 @ substr b 28 ?n"
  proof -
    have "\<not> unat kAbsoluteMaxFramePayloadBytes < length (fr_payload f)"
      using n by (simp add: frame_constants)
    moreover have "(of_nat (length (fr_payload f)) :: u32) = ucast (load_little_endian (substr b 20 4))"
      by (simp only: n(1) [symmetric]) simp
    moreover have "write_u32 (ucast (load_little_endian (substr b k 4))) = substr b k 4"
      if "k + 4 \<le> 28" for k
      using that len by (intro write_loaded substr_length) simp
    moreover have "write_u16 (ucast (load_little_endian (substr b k 2))) = substr b k 2"
      if "k + 2 \<le> 28" for k
      using that len by (intro write_loaded substr_length) simp
    moreover have "write_u64 (load_little_endian (substr b 12 8)) = substr b 12 8"
      using len by (intro write_loaded substr_length) simp
    ultimately show ?thesis
      unfolding encode_frame_def f(3-8) f(1) [symmetric] by simp
  qed
  ultimately have "b = encode_frame (fr_header f) (fr_payload f) @ drop (28 + ?n) b"
    by (metis append_assoc)
  then show "\<exists>rest. b = encode_frame (fr_header f) (fr_payload f) @ rest" ..
  show "c' = Some (length (encode_frame (fr_header f) (fr_payload f)))"
    by (simp add: length_frame [OF dec] f(2) n(1) kFrameHeaderBytes_def)
  show "f = framed (fr_header f) (fr_payload f)"
  proof -
    have "of_nat (length (fr_payload f)) = fh_payload_length (fr_header f)"
      by (simp only: f(9) n(1) [symmetric]) simp
    moreover have "payload_crc (fr_payload f) = fh_payload_crc32c (fr_header f)"
      by (simp only: f(8,10))
    ultimately show ?thesis by (simp add: framed_def)
  qed
qed

lemma decode_stable:
  assumes "decode_frame b (Some c) = (r, c')" and "\<not> status_is_incomplete r"
  shows "decode_frame (b @ later) (Some c) = (r, c')"
proof -
  have len: "\<not> length b < 28"
    using assms by (auto simp: decode_frame_def status_is_incomplete_def kFrameHeaderBytes_def)
  then have fields: "substr (b @ later) 0 4 = substr b 0 4" "substr (b @ later) 4 2 = substr b 4 2"
    "substr (b @ later) 6 2 = substr b 6 2" "substr (b @ later) 8 4 = substr b 8 4"
    "substr (b @ later) 12 8 = substr b 12 8" "substr (b @ later) 20 4 = substr b 20 4"
    "substr (b @ later) 24 4 = substr b 24 4"
    by (simp_all add: substr_prefix)
  show ?thesis
    using assms len
    by (auto simp: decode_frame_def Let_def kFrameHeaderBytes_def fields substr_prefix
        status_is_incomplete_def split: if_splits)
qed

lemma decode_consumed:
  "decode_frame b (Some c) = (Inr f, c') \<Longrightarrow> \<exists>n. c' = Some n \<and> 0 < n \<and> n \<le> length b"
  by (auto simp: decode_frame_def Let_def kFrameHeaderBytes_def split: if_splits)

lemma decode_failure_consumes_nothing:
  "decode_frame b (Some c) = (Inl e, c') \<Longrightarrow> c' = Some c"
  by (auto simp: decode_frame_def Let_def split: if_splits)

lemma decode_prefix:
  assumes "decodable h p" and "n < length (encode_frame h p)"
  shows "decode_frame (take n (encode_frame h p)) (Some c) = (Inl E_FrameTruncated, Some c)"
proof -
  let ?b = "take n (encode_frame h p)"
  obtain r c' where d: "decode_frame ?b (Some c) = (r, c')" by fastforce
  show ?thesis
  proof (cases "status_is_incomplete r")
    case True
    then show ?thesis
      using d decode_failure_consumes_nothing by (auto simp: status_is_incomplete_def)
  next
    case False
    have "decode_frame (encode_frame h p) (Some c) = (r, c')"
      using decode_stable [OF d False, of "drop n (encode_frame h p)"] by simp
    then have "r = Inr (framed h p)" and "c' = Some (length (encode_frame h p))"
      using decode_encoded [OF assms(1), of "[]" c] by simp_all
    then show ?thesis
      using d decode_consumed [of ?b c] assms(2) by fastforce
  qed
qed

section \<open>Properties\<close>

text \<open>
  C14: The frame decoder inverts the frame encoder and accepts nothing else: a buffer decodes
  to a frame, consuming n bytes, exactly when its first n bytes are the encoding of a header of
  this protocol and a payload within the frame limit; the decoded header is that header with
  the true length and CRC of the payload.
\<close>

theorem frame_codec_exact:
  "decode_frame buffer (Some c) = (Inr f, Some n) \<longleftrightarrow>
   (\<exists>h p rest. decodable h p \<and> buffer = encode_frame h p @ rest \<and> f = framed h p \<and>
      n = length (encode_frame h p))"
proof
  assume d: "decode_frame buffer (Some c) = (Inr f, Some n)"
  show "\<exists>h p rest. decodable h p \<and> buffer = encode_frame h p @ rest \<and> f = framed h p \<and>
      n = length (encode_frame h p)"
    using decode_exact [OF d] by blast
qed (auto simp: decode_encoded)

lemma damaged_crc:
  assumes "y \<noteq> x"
  shows "payload_crc (xs @ y # ys) \<noteq> payload_crc (xs @ x # ys)"
proof -
  have "(of_char y :: u8) \<noteq> of_char x"
    using assms byte_char_of_char [of x 0] byte_char_of_char [of y 0]
    by (metis of_char_u8 take_bit_of_char ucast_take_bit_8)
  then show ?thesis
    using crc32c_detects_byte by (auto simp: payload_crc_def bytes_of_def)
qed

lemma decode_wrong_crc:
  assumes "decodable h p" and "length q = length p" and "payload_crc q \<noteq> payload_crc p"
  shows "decode_frame (take kFrameHeaderBytes (encode_frame h p) @ q @ rest) (Some c) =
    (Inl E_FrameCorrupt, Some c)"
proof -
  have small: "\<not> unat kAbsoluteMaxFramePayloadBytes < length p"
    using assms by (simp add: decodable_def frame_constants)
  define b where "b = take kFrameHeaderBytes (encode_frame h p) @ q @ rest"
  have head: "take kFrameHeaderBytes (encode_frame h p) = write_u32 (fh_magic h) @
      write_u16 (fh_version h) @ write_u16 (message_code (fh_type h)) @ write_u32 (fh_flags h) @
      write_u64 (fh_sequence h) @ write_u32 (of_nat (length p)) @ write_u32 (payload_crc p)"
    using small by (simp add: encode_frame_def kFrameHeaderBytes_def wire_simps)
  have fields:
    "substr b 0 4 = write_u32 (fh_magic h)" "substr b 4 2 = write_u16 (fh_version h)"
    "substr b 20 4 = write_u32 (of_nat (length p))" "substr b 24 4 = write_u32 (payload_crc p)"
    "substr b 28 (length p) = q"
    unfolding b_def head using assms(2)
    by (simp_all add: substr_skip [OF length_primitives(3)] substr_skip [OF length_primitives(2)]
        substr_skip [OF length_primitives(4)] substr_here wire_simps)
  have "28 + length p \<le> length b"
    using assms(2) by (simp add: b_def head wire_simps)
  then have "decode_frame b (Some c) = (Inl E_FrameCorrupt, Some c)"
    using assms
    by (simp add: decode_frame_def Let_def fields load_u32 load_u16 decodable_def
        payload_length_u32 [OF assms(1)] kFrameHeaderBytes_def not_less)
  then show ?thesis by (simp only: b_def)
qed

text \<open>
  A frame that arrives in pieces is never mistaken for a bad one, and a damaged one never
  for a good one: every proper prefix of an encoded frame is reported as incomplete and
  consumes nothing, and a frame in whose payload one byte was changed is rejected as corrupt,
  whatever follows it.
\<close>

theorem partial_and_damaged_frames:
  assumes "decodable h (xs @ x # ys)"
  shows "(n < length (encode_frame h (xs @ x # ys)) \<longrightarrow>
      decode_frame (take n (encode_frame h (xs @ x # ys))) (Some c) = (Inl E_FrameTruncated, Some c)) \<and>
    (y \<noteq> x \<longrightarrow>
      decode_frame (take kFrameHeaderBytes (encode_frame h (xs @ x # ys)) @ (xs @ y # ys) @ rest) (Some c)
        = (Inl E_FrameCorrupt, Some c))"
  using assms decode_prefix [OF assms] decode_wrong_crc [OF assms _ damaged_crc] by simp

lemma partial_and_damaged_frames_witness:
  "decodable (new_header MT_Hello) ''ab'' \<and>
   decode_frame (take 29 (encode_frame (new_header MT_Hello) ''ab'')) (Some 0) =
     (Inl E_FrameTruncated, Some 0) \<and>
   decode_frame (take kFrameHeaderBytes (encode_frame (new_header MT_Hello) ''ab'') @ ''ac'') (Some 0) =
     (Inl E_FrameCorrupt, Some 0)"
proof -
  have d: "decodable (new_header MT_Hello) ''ab''"
    by (simp add: decodable_def new_header_def kMaxFramePayloadBytes_def)
  then have "length (encode_frame (new_header MT_Hello) ''ab'') = 30"
    by (simp add: length_frame kFrameHeaderBytes_def)
  then show ?thesis
    using partial_and_damaged_frames [of "new_header MT_Hello" "''a''" "CHR ''b''" "[]" 29 0 "CHR ''c''" "[]"] d
    by simp
qed

end
