(* ===== verification/Transport.thy ===== *)
theory Transport
  imports Wire_Frames "HOL-Library.Sublist"
begin

text \<open>
  The framed transport (transport.hpp, transport.cpp): endpoint parsing, and a connection as
  its reader thread and its writer thread see it. Sockets, threads and locks are the platform;
  what is modelled is the state the two loops work on and every decision they take: the reader
  cuts an arbitrary sequence of received chunks into frames, the senders queue whole encoded
  frames, the single writer puts them on the wire in pieces of any size.
\<close>

section \<open>Endpoints\<close>

record endpoint =
  ep_host :: string
  ep_port :: u16

definition endpoint_to_string :: "endpoint \<Rightarrow> string" where
  "endpoint_to_string e = ep_host e @ '':'' @ decimal (unat (ep_port e))"

text \<open>
  \<^verbatim>\<open>inet_pton\<close> belongs to the platform: \<open>ipv4\<close> and \<open>ipv6\<close> say which C strings it accepts. A
  \<^verbatim>\<open>std::string\<close> handed over by \<^verbatim>\<open>c_str()\<close> ends at its first NUL.
\<close>

definition c_str :: "string \<Rightarrow> string" where
  "c_str text = takeWhile (\<lambda>c. c \<noteq> CHR 0x00) text"

definition is_numeric_ipv6 :: "(string \<Rightarrow> bool) \<Rightarrow> string \<Rightarrow> bool" where
  "is_numeric_ipv6 ipv6 text \<longleftrightarrow> text \<noteq> [] \<and> ipv6 (c_str text)"

definition is_numeric_ipv4 :: "(string \<Rightarrow> bool) \<Rightarrow> string \<Rightarrow> bool" where
  "is_numeric_ipv4 ipv4 text \<longleftrightarrow> text \<noteq> [] \<and> ipv4 (c_str text)"

datatype address_family = AF_Inet | AF_Inet6

definition classify_host ::
  "(string \<Rightarrow> bool) \<Rightarrow> (string \<Rightarrow> bool) \<Rightarrow> string \<Rightarrow> (address_family \<times> string) result" where
  "classify_host ipv4 ipv6 host =
    (if host = [] then Inl E_InvalidArgument
     else if hd host = CHR ''['' \<and> 2 \<le> length host \<and> last host = CHR '']'' then
       (let inner = take (length host - 2) (drop 1 host) in
        if \<not> is_numeric_ipv6 ipv6 inner then Inl E_InvalidArgument else Inr (AF_Inet6, inner))
     else if host = ''localhost'' \<or> host = ''loopback'' then Inr (AF_Inet, ''127.0.0.1'')
     else if host = ''any'' then Inr (AF_Inet, ''0.0.0.0'')
     else if is_numeric_ipv4 ipv4 host then Inr (AF_Inet, host)
     else Inl E_InvalidArgument)"

fun decimal_port_from :: "u32 \<Rightarrow> string \<Rightarrow> u32 result" where
  "decimal_port_from v [] = Inr v"
| "decimal_port_from v (c # cs) =
    (if \<not> is_digit_char c then Inl E_InvalidArgument
     else decimal_port_from (v * 10 + of_nat (digit_value c)) cs)"

definition parse_decimal_port :: "string \<Rightarrow> u16 result" where
  "parse_decimal_port text =
    (if text = [] then Inl E_InvalidArgument
     else if 5 < length text then Inl E_InvalidArgument
     else case decimal_port_from 0 text of
       Inl e \<Rightarrow> Inl e
     | Inr v \<Rightarrow> if 65535 < v then Inl E_InvalidArgument else Inr (ucast v))"

text \<open>\<^verbatim>\<open>rfind(':')\<close>: the host is everything before the last colon.\<close>

definition split_host_port :: "string \<Rightarrow> (string \<times> string) result" where
  "split_host_port text =
    (if CHR '':'' \<notin> set text then Inl E_InvalidArgument
     else let port = rev (takeWhile (\<lambda>c. c \<noteq> CHR '':'') (rev text));
              host = take (length text - length port - 1) text in
       if host = [] then Inl E_InvalidArgument else Inr (host, port))"

definition parse_endpoint :: "(string \<Rightarrow> bool) \<Rightarrow> (string \<Rightarrow> bool) \<Rightarrow> string \<Rightarrow> endpoint result" where
  "parse_endpoint ipv4 ipv6 text =
    (if text = [] then Inl E_InvalidArgument
     else case split_host_port text of
       Inl e \<Rightarrow> Inl e
     | Inr (host_text, port_text) \<Rightarrow>
       (case classify_host ipv4 ipv6 host_text of
          Inl e \<Rightarrow> Inl e
        | Inr (family, canonical) \<Rightarrow>
          (case parse_decimal_port port_text of
             Inl e \<Rightarrow> Inl e
           | Inr port \<Rightarrow> Inr \<lparr>ep_host = canonical, ep_port = port\<rparr>)))"

section \<open>Receiving\<close>

text \<open>
  One pass over the receive buffer: every complete frame is delivered, the bytes of an
  incomplete one stay, any other failure of the decoder ends the connection.
\<close>

definition consumed_bytes :: "nat option \<Rightarrow> nat" where
  "consumed_bytes consumed = (case consumed of None \<Rightarrow> 0 | Some n \<Rightarrow> n)"

function drain :: "string \<Rightarrow> frame list \<times> string \<times> status" where
  "drain buffer =
    (if buffer = [] then ([], buffer, OK)
     else case decode_frame buffer (Some 0) of
       (Inl e, _) \<Rightarrow>
         if status_is_incomplete (Inl e :: frame result) then ([], buffer, OK) else ([], buffer, Inl e)
     | (Inr f, consumed) \<Rightarrow>
         let n = consumed_bytes consumed in
         if n = 0 \<or> length buffer < n then ([], buffer, Inl E_ProtocolViolation)
         else case drain (drop n buffer) of (fs, rest, reason) \<Rightarrow> (f # fs, rest, reason))"
  by pat_completeness auto

termination by (relation "measure length") auto

declare drain.simps [simp del]

text \<open>What \<^verbatim>\<open>recv\<close> reports: bytes, an orderly shutdown, or a failure that is a disconnect or not.\<close>

datatype received = Bytes string | PeerClosed | RecvFailed bool

datatype reader_end = Reading string | Ended error_code

primrec reader_loop :: "received list \<Rightarrow> string \<Rightarrow> frame list \<times> reader_end" where
  "reader_loop [] buffer =
    (case drain buffer of
       (fs, rest, Inl e) \<Rightarrow> (fs, Ended e)
     | (fs, rest, Inr _) \<Rightarrow> (fs, Reading rest))"
| "reader_loop (r # rs) buffer =
    (case drain buffer of
       (fs, rest, Inl e) \<Rightarrow> (fs, Ended e)
     | (fs, rest, Inr _) \<Rightarrow>
       (case r of
          Bytes chunk \<Rightarrow> (case reader_loop rs (rest @ chunk) of (gs, out) \<Rightarrow> (fs @ gs, out))
        | PeerClosed \<Rightarrow> (fs, Ended E_ConnectionClosed)
        | RecvFailed disconnect \<Rightarrow>
            (fs, Ended (if disconnect then E_ConnectionClosed else E_TransportFailure))))"

section \<open>Sending\<close>

text \<open>
  The sending side of a connection. \<open>cn_writing\<close> is the rest of the frame the writer has taken
  from the queue, \<open>cn_wire\<close> what it has handed to the socket, \<open>cn_closed_calls\<close> the reasons
  \<^verbatim>\<open>on_closed\<close> was called with.
\<close>

definition kMaxOutboundQueueDepth :: nat where "kMaxOutboundQueueDepth = 4096"

record connection =
  cn_closed :: bool
  cn_sequence :: u64
  cn_outbound :: "string list"
  cn_writing :: string
  cn_wire :: string
  cn_closed_calls :: "error_code list"

definition new_connection :: connection where
  "new_connection =
    \<lparr>cn_closed = False, cn_sequence = 1, cn_outbound = [], cn_writing = [], cn_wire = [],
     cn_closed_calls = []\<rparr>"

definition request_close :: "error_code \<Rightarrow> (connection, unit) action" where
  "request_close reason = readA (\<lambda>c.
    if cn_closed c then retA ()
    else modifyA (\<lambda>c. c\<lparr>cn_closed := True, cn_closed_calls := cn_closed_calls c @ [reason]\<rparr>))"

definition stamp_header :: "frame_header \<Rightarrow> string \<Rightarrow> u64 \<Rightarrow> frame_header" where
  "stamp_header header payload n = header
    \<lparr>fh_payload_length := of_nat (length payload), fh_payload_crc32c := payload_crc payload,
     fh_sequence := n\<rparr>"

text \<open>
  \<^verbatim>\<open>send_frame\<close> is four atomic steps: the first look at \<^verbatim>\<open>closed_\<close>; \<^verbatim>\<open>next_sequence\<close>, a
  \<^verbatim>\<open>fetch_add\<close> outside every lock; the push under \<^verbatim>\<open>queue_mutex_\<close>, which looks at \<^verbatim>\<open>closed_\<close> again
  and reads the depth; and the refusal of a queue that is too deep. The frame is encoded by the
  thread alone, between the second and the third.
\<close>

definition check_open :: "(connection, unit) action" where
  "check_open = readA (\<lambda>c. if cn_closed c then failA E_ConnectionClosed else retA ())"

definition draw_sequence :: "(connection, u64) action" where
  "draw_sequence = readA (\<lambda>c.
    thenA (modifyA (\<lambda>c. c\<lparr>cn_sequence := cn_sequence c + 1\<rparr>)) (retA (cn_sequence c)))"

definition enqueue_frame :: "string \<Rightarrow> (connection, nat) action" where
  "enqueue_frame frame_bytes = readA (\<lambda>c.
    if cn_closed c then failA E_ConnectionClosed
    else thenA (modifyA (\<lambda>c. c\<lparr>cn_outbound := cn_outbound c @ [frame_bytes]\<rparr>))
      (readA (\<lambda>c. retA (length (cn_outbound c)))))"

definition bound_queue :: "nat \<Rightarrow> (connection, unit) action" where
  "bound_queue depth =
    (if kMaxOutboundQueueDepth < depth
     then thenA (request_close E_QueueCapacityExceeded) (failA E_QueueCapacityExceeded)
     else retA ())"

definition send_frame :: "frame_header \<Rightarrow> string \<Rightarrow> (connection, unit) action" where
  "send_frame header payload =
    thenA check_open
    (bindA draw_sequence (\<lambda>n.
     bindA (enqueue_frame (encode_frame (stamp_header header payload n) payload)) bound_queue))"

definition send_message :: "message_type \<Rightarrow> string \<Rightarrow> (connection, unit) action" where
  "send_message t payload = send_frame (new_header t) payload"

text \<open>
  The writer thread: it takes the front frame when it has none left to send, and hands over as
  many bytes as \<^verbatim>\<open>send\<close> took; a failed \<^verbatim>\<open>send\<close> closes the connection.
\<close>

definition writer_take :: "connection \<Rightarrow> connection" where
  "writer_take c =
    (if cn_writing c \<noteq> [] then c
     else case cn_outbound c of
       [] \<Rightarrow> c
     | f # fs \<Rightarrow> c\<lparr>cn_outbound := fs, cn_writing := f\<rparr>)"

definition writer_sent :: "nat \<Rightarrow> connection \<Rightarrow> connection" where
  "writer_sent sent c = c
    \<lparr>cn_wire := cn_wire c @ take sent (cn_writing c), cn_writing := drop sent (cn_writing c)\<rparr>"

definition writer_failed :: "connection \<Rightarrow> connection" where
  "writer_failed c = snd (request_close E_TransportFailure c)"

text \<open>
  The connection under concurrent senders. A call of \<^verbatim>\<open>send\<close> is known by its position in
  \<open>tp_calls\<close>, which holds how far it has come: it found the connection open, it stamped its
  frame with a number, its frame is queued, or it has returned. \<open>tp_queued\<close> is the history of
  the queue: every frame pushed, in the order of the pushes, with the call that pushed it. The
  steps of all calls, of the writer and of any thread that closes the connection interleave.
\<close>

datatype send_phase = Checked message_type string | Stamped frame_header string | Queued nat
  | Returned status

record transport =
  tp_connection :: connection
  tp_calls :: "send_phase list"
  tp_queued :: "(nat \<times> frame_header \<times> string) list"


definition phase_of :: "nat \<Rightarrow> transport \<Rightarrow> send_phase option" where
  "phase_of i s = (if i < length (tp_calls s) then Some (tp_calls s ! i) else None)"

definition begin_send :: "message_type \<Rightarrow> string \<Rightarrow> transport \<Rightarrow> transport" where
  "begin_send t payload s = (case check_open (tp_connection s) of (r, c) \<Rightarrow>
    s\<lparr>tp_connection := c, tp_calls := tp_calls s @
      [case r of Inl e \<Rightarrow> Returned (Inl e) | Inr _ \<Rightarrow> Checked t payload]\<rparr>)"

definition draw_step :: "nat \<Rightarrow> transport \<Rightarrow> transport" where
  "draw_step i s = (case phase_of i s of
     Some (Checked t payload) \<Rightarrow> (case draw_sequence (tp_connection s) of (r, c) \<Rightarrow>
       s\<lparr>tp_connection := c, tp_calls := (tp_calls s)[i := (case r of
          Inl e \<Rightarrow> Returned (Inl e)
        | Inr n \<Rightarrow> Stamped (stamp_header (new_header t) payload n) payload)]\<rparr>)
   | _ \<Rightarrow> s)"

definition enqueue_step :: "nat \<Rightarrow> transport \<Rightarrow> transport" where
  "enqueue_step i s = (case phase_of i s of
     Some (Stamped header payload) \<Rightarrow>
       (case enqueue_frame (encode_frame header payload) (tp_connection s) of
          (Inl e, c) \<Rightarrow> s\<lparr>tp_connection := c, tp_calls := (tp_calls s)[i := Returned (Inl e)]\<rparr>
        | (Inr depth, c) \<Rightarrow> s\<lparr>tp_connection := c, tp_calls := (tp_calls s)[i := Queued depth],
            tp_queued := tp_queued s @ [(i, header, payload)]\<rparr>)
   | _ \<Rightarrow> s)"

definition finish_step :: "nat \<Rightarrow> transport \<Rightarrow> transport" where
  "finish_step i s = (case phase_of i s of
     Some (Queued depth) \<Rightarrow> (case bound_queue depth (tp_connection s) of (r, c) \<Rightarrow>
       s\<lparr>tp_connection := c, tp_calls := (tp_calls s)[i := Returned r]\<rparr>)
   | _ \<Rightarrow> s)"

datatype transport_event = Call message_type string | Draw nat | Enqueue nat | Finish nat
  | Take | Sent nat | SendFailed | CloseRequest error_code

primrec transport_step :: "transport_event \<Rightarrow> transport \<Rightarrow> transport" where
  "transport_step (Call t payload) s = begin_send t payload s"
| "transport_step (Draw i) s = draw_step i s"
| "transport_step (Enqueue i) s = enqueue_step i s"
| "transport_step (Finish i) s = finish_step i s"
| "transport_step Take s = tp_connection_update writer_take s"
| "transport_step (Sent n) s = tp_connection_update (writer_sent n) s"
| "transport_step SendFailed s = tp_connection_update writer_failed s"
| "transport_step (CloseRequest e) s = tp_connection_update (\<lambda>c. snd (request_close e c)) s"

definition transport_run :: "transport_event list \<Rightarrow> transport \<Rightarrow> transport" where
  "transport_run es s = fold transport_step es s"

section \<open>Any segmentation of a byte stream delivers the same frames\<close>

lemma drain_empty [simp]: "drain [] = ([], [], OK)"
  by (simp add: drain.simps)

lemma drain_frame:
  assumes "decode_frame b (Some 0) = (Inr f, Some n)"
  shows "drain b = (case drain (drop n b) of (fs, rest, reason) \<Rightarrow> (f # fs, rest, reason))"
proof -
  have "b \<noteq> []"
    using assms by (auto simp: decode_frame_def kFrameHeaderBytes_def)
  with decode_consumed [OF assms] show ?thesis
    by (subst drain.simps) (simp add: assms consumed_bytes_def)
qed

lemma drain_failure:
  assumes "decode_frame b (Some 0) = (Inl e, c')" and "b \<noteq> []"
  shows "drain b = ([], b, if e = E_FrameTruncated then OK else Inl e)"
  using assms by (subst drain.simps) (simp add: status_is_incomplete_def)

lemma drain_more:
  "drain (b @ later) =
    (case drain b of
       (fs, rest, Inl e) \<Rightarrow> (fs, rest @ later, Inl e)
     | (fs, rest, Inr _) \<Rightarrow> (case drain (rest @ later) of (gs, r, reason) \<Rightarrow> (fs @ gs, r, reason)))"
proof (induction b rule: drain.induct)
  case (1 b)
  show ?case
  proof (cases "b = []")
    case True
    then show ?thesis by simp
  next
    case False
    obtain r c' where d: "decode_frame b (Some 0) = (r, c')" by fastforce
    show ?thesis
    proof (cases r)
      case (Inl e)
      show ?thesis
      proof (cases "e = E_FrameTruncated")
        case True
        then show ?thesis
          using drain_failure [OF d [unfolded Inl] False] by simp
      next
        case other: False
        then have "decode_frame (b @ later) (Some 0) = (Inl e, c')"
          using decode_stable [OF d] Inl by (simp add: status_is_incomplete_def)
        with other d Inl False show ?thesis
          by (simp add: drain_failure)
      qed
    next
      case (Inr f)
      with d obtain n where n: "c' = Some n" "0 < n" "n \<le> length b"
        using decode_consumed by blast
      have "decode_frame (b @ later) (Some 0) = (Inr f, Some n)"
        using decode_stable [OF d] Inr n(1) by (simp add: status_is_incomplete_def)
      then have "drain (b @ later) =
          (case drain (drop n b @ later) of (fs, rest, reason) \<Rightarrow> (f # fs, rest, reason))"
        using n(3) by (simp add: drain_frame)
      moreover have "drain (drop n b @ later) =
        (case drain (drop n b) of
           (fs, rest, Inl e) \<Rightarrow> (fs, rest @ later, Inl e)
         | (fs, rest, Inr _) \<Rightarrow> (case drain (rest @ later) of (gs, r, reason) \<Rightarrow> (fs @ gs, r, reason)))"
        using 1 [OF False d [symmetric] Inr refl] n
        by (auto simp: consumed_bytes_def split: prod.splits sum.splits)
      ultimately show ?thesis
        using d Inr n(1) by (auto simp: drain_frame split: prod.splits sum.splits)
    qed
  qed
qed

lemma drain_rest:
  "drain b = (fs, rest, OK) \<Longrightarrow> drain rest = ([], rest, OK)"
proof (induction b arbitrary: fs rule: drain.induct)
  case (1 b)
  show ?case
  proof (cases "b = []")
    case True
    then show ?thesis using 1 by simp
  next
    case False
    obtain r c' where d: "decode_frame b (Some 0) = (r, c')" by fastforce
    show ?thesis
    proof (cases r)
      case (Inl e)
      then show ?thesis
        using drain_failure [OF d [unfolded Inl] False] "1.prems" by (auto split: if_splits)
    next
      case (Inr f)
      with d obtain n where n: "c' = Some n" "0 < n" "n \<le> length b"
        using decode_consumed by blast
      obtain gs where "drain (drop n b) = (gs, rest, OK)"
        using "1.prems" d Inr n(1) by (auto simp: drain_frame split: prod.splits)
      with 1(1) [OF False d [symmetric] Inr refl] show ?thesis
        using n by (auto simp: consumed_bytes_def)
    qed
  qed
qed

lemma drain_reason: "drain b = (fs, rest, Inl e) \<Longrightarrow> e \<noteq> E_FrameTruncated"
proof (induction b arbitrary: fs rule: drain.induct)
  case (1 b)
  show ?case
  proof (cases "b = []")
    case True
    then show ?thesis using 1 by simp
  next
    case False
    obtain r c' where d: "decode_frame b (Some 0) = (r, c')" by fastforce
    show ?thesis
    proof (cases r)
      case (Inl e')
      then show ?thesis
        using drain_failure [OF d [unfolded Inl] False] "1.prems" by (auto split: if_splits)
    next
      case (Inr f)
      with d obtain n where n: "c' = Some n" "0 < n" "n \<le> length b"
        using decode_consumed by blast
      obtain gs where "drain (drop n b) = (gs, rest, Inl e)"
        using "1.prems" d Inr n(1) by (auto simp: drain_frame split: prod.splits)
      with 1(1) [OF False d [symmetric] Inr refl] show ?thesis
        using n by (auto simp: consumed_bytes_def)
    qed
  qed
qed

lemma drain_too_large:
  assumes "unat kMaxFramePayloadBytes < length p" and "length p \<le> unat kAbsoluteMaxFramePayloadBytes"
    and "fh_magic h = kFrameMagic" and "fh_version h = kProtocolVersion"
  shows "drain (encode_frame h p) = ([], encode_frame h p, Inl E_FrameTooLarge)"
proof -
  have fields: "substr (encode_frame h p) 0 4 = write_u32 (fh_magic h)"
    "substr (encode_frame h p) 4 2 = write_u16 (fh_version h)"
    "substr (encode_frame h p) 20 4 = write_u32 (of_nat (length p))"
    using assms(2)
    by (simp_all add: encode_frame_def substr_skip [OF length_primitives(3)]
        substr_skip [OF length_primitives(2)] substr_skip [OF length_primitives(4)]
        substr_here wire_simps)
  have n: "unat (of_nat (length p) :: u32) = length p"
    using assms(2) by (intro unat_length_u32) (simp add: kAbsoluteMaxFramePayloadBytes_def)
  have "kMaxFramePayloadBytes < (of_nat (length p) :: u32)"
    using assms(1) by (simp only: word_less_nat_alt n)
  moreover have "28 \<le> length (encode_frame h p)"
    using assms(2) by (simp add: encode_frame_def wire_simps)
  ultimately have "decode_frame (encode_frame h p) (Some 0) = (Inl E_FrameTooLarge, Some 0)"
    using assms(3,4)
    by (simp add: decode_frame_def Let_def fields load_u32 load_u16 kFrameHeaderBytes_def not_less)
  moreover have "encode_frame h p \<noteq> []"
    using \<open>28 \<le> length (encode_frame h p)\<close> by auto
  ultimately show ?thesis by (simp add: drain_failure)
qed

lemma reader_segments: "reader_loop (map Bytes chunks) b = reader_loop [] (b @ concat chunks)"
proof (induction chunks arbitrary: b)
  case Nil
  then show ?case by simp
next
  case (Cons chunk chunks)
  obtain fs rest reason where d: "drain b = (fs, rest, reason)" by (cases "drain b") auto
  show ?case
  proof (cases reason)
    case (Inl e)
    then show ?thesis using d by (simp add: drain_more [of b])
  next
    case (Inr u)
    then show ?thesis
      using d by (simp add: drain_more [of b] Cons.IH split: prod.splits sum.splits)
  qed
qed

section \<open>Frames queued by any senders arrive once each and in order\<close>

type_synonym message_frame = "frame_header \<times> string"

definition encoded :: "message_frame list \<Rightarrow> string" where
  "encoded ms = concat (map (\<lambda>(h, p). encode_frame h p) ms)"

definition framed_all :: "message_frame list \<Rightarrow> frame list" where
  "framed_all ms = map (\<lambda>(h, p). framed h p) ms"

definition all_decodable :: "message_frame list \<Rightarrow> bool" where
  "all_decodable ms \<longleftrightarrow> (\<forall>(h, p)\<in>set ms. decodable h p)"

lemma encoded_simps [simp]:
  "encoded [] = []" "encoded ((h, p) # ms) = encode_frame h p @ encoded ms"
  "encoded (ms @ ns) = encoded ms @ encoded ns"
  by (simp_all add: encoded_def)

lemma framed_all_simps [simp]:
  "framed_all [] = []" "framed_all ((h, p) # ms) = framed h p # framed_all ms"
  by (simp_all add: framed_all_def)

lemma all_decodable_simps [simp]:
  "all_decodable []" "all_decodable ((h, p) # ms) \<longleftrightarrow> decodable h p \<and> all_decodable ms"
  "all_decodable (ms @ ns) \<longleftrightarrow> all_decodable ms \<and> all_decodable ns"
  by (auto simp: all_decodable_def)


text \<open>Everything the connection has sent, is sending and will send.\<close>

definition pipeline :: "connection \<Rightarrow> string" where
  "pipeline c = cn_wire c @ cn_writing c @ concat (cn_outbound c)"

lemmas send_steps = check_open_def draw_sequence_def enqueue_frame_def bound_queue_def

lemma send_frame_eq:
  "send_frame header payload = readA (\<lambda>c.
    if cn_closed c then failA E_ConnectionClosed
    else seqA
      [modifyA (\<lambda>c. c\<lparr>cn_sequence := cn_sequence c + 1,
         cn_outbound := cn_outbound c @
           [encode_frame (stamp_header header payload (cn_sequence c)) payload]\<rparr>),
       readA (\<lambda>c.
         if kMaxOutboundQueueDepth < length (cn_outbound c)
         then thenA (request_close E_QueueCapacityExceeded) (failA E_QueueCapacityExceeded)
         else retA ())])"
  by (rule ext)
    (simp add: send_frame_def send_steps readA_def modifyA_def thenA_def bindA_def failA_def retA_def
      split: prod.splits sum.splits)

lemma request_close_pipeline: "pipeline (snd (request_close e c)) = pipeline c"
  by (simp add: pipeline_def request_close_def readA_def modifyA_def retA_def)

lemma send_pipeline:
  "pipeline (snd (send_message t payload c)) = pipeline c @
    (if cn_closed c then [] else encode_frame (stamp_header (new_header t) payload (cn_sequence c)) payload)"
  by (simp add: pipeline_def send_message_def send_frame_eq request_close_def readA_def modifyA_def
      thenA_def bindA_def failA_def retA_def)



definition queued_numbers :: "transport \<Rightarrow> u64 list" where
  "queued_numbers s = map (\<lambda>(_, h, _). fh_sequence h) (tp_queued s)"






lemma begin_send_eq:
  "begin_send t payload s = s\<lparr>tp_calls := tp_calls s @
    [if cn_closed (tp_connection s) then Returned (Inl E_ConnectionClosed) else Checked t payload]\<rparr>"
  by (simp add: begin_send_def check_open_def readA_def failA_def retA_def)

lemma draw_step_eq:
  "draw_step i s = (case phase_of i s of
     Some (Checked t payload) \<Rightarrow>
       s\<lparr>tp_connection := (tp_connection s)\<lparr>cn_sequence := cn_sequence (tp_connection s) + 1\<rparr>,
         tp_calls := (tp_calls s)[i :=
           Stamped (stamp_header (new_header t) payload (cn_sequence (tp_connection s))) payload]\<rparr>
   | _ \<Rightarrow> s)"
  by (simp add: draw_step_def draw_sequence_def readA_def thenA_def bindA_def modifyA_def retA_def
      split: option.splits send_phase.splits)

lemma enqueue_step_eq:
  "enqueue_step i s = (case phase_of i s of
     Some (Stamped header payload) \<Rightarrow>
       if cn_closed (tp_connection s)
       then s\<lparr>tp_calls := (tp_calls s)[i := Returned (Inl E_ConnectionClosed)]\<rparr>
       else s\<lparr>tp_connection := (tp_connection s)\<lparr>cn_outbound := cn_outbound (tp_connection s) @
           [encode_frame header payload]\<rparr>,
         tp_calls := (tp_calls s)[i := Queued (Suc (length (cn_outbound (tp_connection s))))],
         tp_queued := tp_queued s @ [(i, header, payload)]\<rparr>
   | _ \<Rightarrow> s)"
  by (simp add: enqueue_step_def enqueue_frame_def readA_def thenA_def bindA_def modifyA_def retA_def
      failA_def split: option.splits send_phase.splits)

lemma finish_step_eq:
  "finish_step i s = (case phase_of i s of
     Some (Queued depth) \<Rightarrow>
       if kMaxOutboundQueueDepth < depth
       then s\<lparr>tp_connection := snd (request_close E_QueueCapacityExceeded (tp_connection s)),
         tp_calls := (tp_calls s)[i := Returned (Inl E_QueueCapacityExceeded)]\<rparr>
       else s\<lparr>tp_calls := (tp_calls s)[i := Returned OK]\<rparr>
   | _ \<Rightarrow> s)"
  by (simp add: finish_step_def bound_queue_def thenA_def bindA_def retA_def failA_def request_close_def
      readA_def modifyA_def split: option.splits send_phase.splits)

lemmas step_eqs = begin_send_eq draw_step_eq enqueue_step_eq finish_step_eq

text \<open>A call that runs undisturbed is one \<open>send_message\<close>.\<close>

lemma undisturbed_send:
  assumes "\<not> cn_closed (tp_connection s)"
  shows "tp_connection (transport_run [Call t payload, Draw (length (tp_calls s)),
      Enqueue (length (tp_calls s)), Finish (length (tp_calls s))] s) =
    snd (send_message t payload (tp_connection s))"
  using assms
  by (simp add: transport_run_def step_eqs phase_of_def nth_append send_message_def send_frame_eq
      readA_def thenA_def bindA_def modifyA_def retA_def failA_def request_close_def)




















lemma queued_numbers_simps [simp]:
  "queued_numbers (s\<lparr>tp_calls := cs\<rparr>) = queued_numbers s"
  "queued_numbers (s\<lparr>tp_connection := c\<rparr>) = queued_numbers s"
  "queued_numbers (s\<lparr>tp_connection := c, tp_calls := cs\<rparr>) = queued_numbers s"
  "queued_numbers (tp_connection_update f s) = queued_numbers s"
  "queued_numbers (s\<lparr>tp_connection := c, tp_calls := cs, tp_queued := tp_queued s @ [(i, h, payload)]\<rparr>) =
    queued_numbers s @ [fh_sequence h]"
  by (simp_all add: queued_numbers_def)











section \<open>Properties\<close>

text \<open>
  C18: How the socket cuts up the byte stream does not matter: a reader that receives the
  stream in any chunks delivers the frames, keeps the bytes and ends for the reason it would
  have with all of it in its buffer at once, and what it keeps holds no complete frame.
\<close>

theorem reader_ignores_segmentation:
  "reader_loop (map Bytes chunks) buffer = reader_loop [] (buffer @ concat chunks) \<and>
   (case reader_loop (map Bytes chunks) buffer of
      (fs, Reading rest) \<Rightarrow> drain rest = ([], rest, OK)
    | (fs, Ended e) \<Rightarrow> e \<noteq> E_FrameTruncated)"
proof -
  obtain fs rest reason where d: "drain (buffer @ concat chunks) = (fs, rest, reason)"
    by (cases "drain (buffer @ concat chunks)") auto
  then show ?thesis
    using drain_rest [of "buffer @ concat chunks" fs rest]
      drain_reason [of "buffer @ concat chunks" fs rest]
    by (cases reason) (simp_all add: reader_segments)
qed





text \<open>
  C16: A message over the frame limit is lost. \<open>send_frame\<close> takes what \<open>encode_frame\<close> returns
  without looking at it: above the absolute ceiling that is the empty string, so the send
  reports success and nothing ever reaches the wire; between the two limits the frame is sent
  and the receiver rejects it and ends the connection.
\<close>

theorem oversized_payloads_are_lost:
  assumes "unat kMaxFramePayloadBytes < length payload"
    and "\<not> cn_closed c" and "length (cn_outbound c) < kMaxOutboundQueueDepth"
  shows "fst (send_message t payload c) = OK \<and>
    (if unat kAbsoluteMaxFramePayloadBytes < length payload
     then pipeline (snd (send_message t payload c)) = pipeline c
     else \<exists>bytes. pipeline (snd (send_message t payload c)) = pipeline c @ bytes \<and>
       reader_loop [] bytes = ([], Ended E_FrameTooLarge))"
proof -
  have sent: "fst (send_message t payload c) = OK"
    using assms(2,3)
    by (simp add: send_message_def send_frame_eq readA_def modifyA_def thenA_def bindA_def retA_def)
  have gone: "pipeline (snd (send_message t payload c)) = pipeline c"
    if "unat kAbsoluteMaxFramePayloadBytes < length payload"
    using that assms(2) by (simp add: send_pipeline encode_frame_def)
  let ?bytes = "encode_frame (stamp_header (new_header t) payload (cn_sequence c)) payload"
  have "pipeline (snd (send_message t payload c)) = pipeline c @ ?bytes"
    using assms(2) by (simp add: send_pipeline)
  moreover have "reader_loop [] ?bytes = ([], Ended E_FrameTooLarge)"
    if "\<not> unat kAbsoluteMaxFramePayloadBytes < length payload"
    using drain_too_large [of payload "stamp_header (new_header t) payload (cn_sequence c)"] assms(1) that
    by (simp add: stamp_header_def new_header_def)
  ultimately show ?thesis using sent gone by auto
qed

lemma oversized_payloads_are_lost_witness:
  "\<exists>small bytes large. fst (send_message MT_Hello small new_connection) = OK \<and>
     pipeline (snd (send_message MT_Hello small new_connection)) = pipeline new_connection @ bytes \<and>
     reader_loop [] bytes = ([], Ended E_FrameTooLarge) \<and>
     fst (send_message MT_Hello large new_connection) = OK \<and>
     pipeline (snd (send_message MT_Hello large new_connection)) = pipeline new_connection"
proof -
  obtain small :: string where small: "length small = 4194305"
    using Ex_list_of_length by blast
  obtain large :: string where large: "length large = 16777217"
    using Ex_list_of_length by blast
  have fresh: "\<not> cn_closed new_connection" "length (cn_outbound new_connection) < kMaxOutboundQueueDepth"
    by (simp_all add: new_connection_def kMaxOutboundQueueDepth_def)
  show ?thesis
    using oversized_payloads_are_lost [of small new_connection MT_Hello]
      oversized_payloads_are_lost [of large new_connection MT_Hello] fresh small large
    by (simp add: kMaxFramePayloadBytes_def kAbsoluteMaxFramePayloadBytes_def) blast
qed

section \<open>Endpoint text\<close>

text \<open>What the documentation of \<^verbatim>\<open>inet_pton\<close> says of the texts it accepts.\<close>

definition inet_pton_contract :: "(string \<Rightarrow> bool) \<Rightarrow> (string \<Rightarrow> bool) \<Rightarrow> bool" where
  "inet_pton_contract ipv4 ipv6 \<longleftrightarrow> ipv4 ''127.0.0.1'' \<and> ipv4 ''0.0.0.0'' \<and>
    (\<forall>h. ipv4 h \<longrightarrow> h \<noteq> [] \<and> set h \<subseteq> set ''0123456789.'') \<and>
    (\<forall>h. ipv6 h \<longrightarrow> h \<noteq> [] \<and> set h \<subseteq> set ''0123456789abcdefABCDEF:.'' \<and> CHR '':'' \<in> set h)"

lemma split_joined:
  assumes "CHR '':'' \<notin> set port" and "host \<noteq> []"
  shows "split_host_port (host @ '':'' @ port) = Inr (host, port)"
proof -
  have "takeWhile (\<lambda>c. c \<noteq> CHR '':'') (rev port @ CHR '':'' # rev host) = rev port"
    using assms(1) by (subst takeWhile_append2) auto
  then show ?thesis
    using assms(2) by (simp add: split_host_port_def Let_def)
qed

lemma decimal_port_decimal:
  "(\<forall>c\<in>set cs. is_digit_char c) \<Longrightarrow> length cs \<le> 5 \<Longrightarrow>
   \<exists>v. decimal_port_from 0 cs = Inr v \<and> unat v = decimal_value cs"
proof -
  have general: "(\<forall>c\<in>set cs. is_digit_char c) \<Longrightarrow> unat v < 10 ^ k \<Longrightarrow> k + length cs \<le> 9 \<Longrightarrow>
    \<exists>w. decimal_port_from v cs = Inr w \<and> unat w = foldl (\<lambda>v c. 10 * v + digit_value c) (unat v) cs" for v k
  proof (induction cs arbitrary: v k)
    case Nil
    then show ?case by simp
  next
    case (Cons c cs)
    have d: "digit_value c \<le> 9"
      using Cons.prems(1) by (auto simp: is_digit_char_def digit_value_def)
    have "10 * unat v + digit_value c < 10 ^ Suc k"
      using Cons.prems(2) d by simp
    moreover have "(10::nat) ^ Suc k \<le> 10 ^ 9"
      using Cons.prems(3) by (intro power_increasing) auto
    ultimately have small: "10 * unat v + digit_value c < 10 ^ Suc k"
      and fits: "10 * unat v + digit_value c < 2 ^ 32" by simp_all
    have eq: "v * 10 + of_nat (digit_value c) = of_nat (10 * unat v + digit_value c)"
      by simp
    have "unat (v * 10 + of_nat (digit_value c)) = 10 * unat v + digit_value c"
      unfolding eq by (rule unat_length_u32 [OF fits])
    then show ?case
      using Cons.IH [of "v * 10 + of_nat (digit_value c)" "Suc k"] Cons.prems small by simp
  qed
  assume "\<forall>c\<in>set cs. is_digit_char c" and "length cs \<le> 5"
  then show "\<exists>v. decimal_port_from 0 cs = Inr v \<and> unat v = decimal_value cs"
    using general [of 0 0] by (simp add: decimal_value_def)
qed

lemma parse_port_decimal: "parse_decimal_port (decimal (unat p)) = Inr p"
proof -
  have small: "unat p < 65536"
    using unsigned_less [of p] by simp
  then have len: "length (decimal (unat p)) \<le> 5"
    by (intro length_decimal) simp_all
  obtain v where v: "decimal_port_from 0 (decimal (unat p)) = Inr v" "unat v = unat p"
    using decimal_port_decimal [of "decimal (unat p)"] len decimal_digits by auto
  have "\<not> 65535 < v"
    using v(2) small by (simp add: word_less_nat_alt)
  moreover have "ucast v = p"
    by (rule word_unat_eq_iff [THEN iffD2]) (simp add: unsigned_ucast_eq v(2) take_bit_eq_mod small)
  ultimately show ?thesis
    using v(1) len by (simp add: parse_decimal_port_def not_less)
qed

lemma no_colon_decimal: "CHR '':'' \<notin> set (decimal n)"
  using decimal_digits by (force simp: is_digit_char_def)

lemma parse_endpoint_text:
  assumes "ep_host e \<noteq> []"
  shows "parse_endpoint ipv4 ipv6 (endpoint_to_string e) =
    (case classify_host ipv4 ipv6 (ep_host e) of
       Inl x \<Rightarrow> Inl x | Inr (family, canonical) \<Rightarrow> Inr (e\<lparr>ep_host := canonical\<rparr>))"
  using assms split_joined [OF no_colon_decimal, of "ep_host e" "unat (ep_port e)"]
  by (cases e) (simp add: parse_endpoint_def endpoint_to_string_def parse_port_decimal split: sum.splits)

text \<open>
  C17: The text of a parsed endpoint parses to the same endpoint when its host is an IPv4
  address or one of the loopback names. For a bracketed IPv6 host it does not parse at all:
  \<open>to_string\<close> leaves the brackets out that \<open>classify_host\<close> requires.
\<close>

theorem endpoint_text_parses_back:
  assumes "inet_pton_contract ipv4 ipv6" and "CHR 0x00 \<notin> set text"
    and "parse_endpoint ipv4 ipv6 text = Inr e"
  shows "parse_endpoint ipv4 ipv6 (endpoint_to_string e) =
    (if hd text = CHR ''['' then Inl E_InvalidArgument else Inr e)"
proof -
  from assms(3) obtain host port family where split: "split_host_port text = Inr (host, port)"
    and classified: "classify_host ipv4 ipv6 host = Inr (family, ep_host e)"
    by (auto simp: parse_endpoint_def split: if_splits sum.splits)
  have host: "host \<noteq> []" "hd text = hd host" "CHR 0x00 \<notin> set host"
    using split assms(2) by (auto simp: split_host_port_def Let_def hd_take split: if_splits dest: in_set_takeD)
  have c: "c_str h = h" if "CHR 0x00 \<notin> set h" for h
    using that by (auto simp: c_str_def takeWhile_eq_all_conv)
  have v4: "h \<noteq> [] \<and> hd h \<noteq> CHR ''['' \<and> CHR 0x00 \<notin> set h" if "ipv4 h" for h
  proof -
    have ne: "h \<noteq> []" and sub: "set h \<subseteq> set ''0123456789.''"
      using assms(1) that unfolding inet_pton_contract_def by blast+
    from ne have "hd h \<in> set ''0123456789.''"
      using sub by (meson hd_in_set subsetD)
    with ne sub show ?thesis by auto
  qed
  show ?thesis
  proof (cases "hd host = CHR ''[''")
    case True
    then have "last host = CHR '']'' \<and> 2 \<le> length host" and h: "is_numeric_ipv6 ipv6 (ep_host e)"
      and inner: "ep_host e = take (length host - 2) (drop 1 host)"
      using classified v4 [of host] host c [of host]
      by (auto simp: classify_host_def Let_def is_numeric_ipv4_def split: if_splits)
    then have nz: "CHR 0x00 \<notin> set (ep_host e)"
      using host(3) by (auto dest: in_set_takeD in_set_dropD)
    then have "ipv6 (ep_host e)"
      using h by (simp add: is_numeric_ipv6_def c)
    then have chars: "ep_host e \<noteq> []" "set (ep_host e) \<subseteq> set ''0123456789abcdefABCDEF:.''"
      "CHR '':'' \<in> set (ep_host e)"
      using assms(1) unfolding inet_pton_contract_def by blast+
    then have "hd (ep_host e) \<in> set ''0123456789abcdefABCDEF:.''"
      by (meson hd_in_set subsetD)
    then have "hd (ep_host e) \<noteq> CHR ''[''" by auto
    moreover have "\<not> ipv4 (ep_host e)"
    proof
      assume "ipv4 (ep_host e)"
      then have "set (ep_host e) \<subseteq> set ''0123456789.''"
        using assms(1) unfolding inet_pton_contract_def by blast
      with chars(3) show False by auto
    qed
    moreover have "ep_host e \<notin> {''localhost'', ''loopback'', ''any''}"
      using chars(3) by auto
    ultimately have "classify_host ipv4 ipv6 (ep_host e) = Inl E_InvalidArgument"
      using chars(1) nz by (simp add: classify_host_def is_numeric_ipv4_def c)
    then show ?thesis
      using parse_endpoint_text [OF chars(1), of ipv4 ipv6] True host by simp
  next
    case False
    have named: "ipv4 ''127.0.0.1''" "ipv4 ''0.0.0.0''"
      using assms(1) by (simp_all add: inet_pton_contract_def)
    have "ipv4 (ep_host e)"
      using classified False host c [of host] named
      by (simp add: classify_host_def is_numeric_ipv4_def split: if_splits)
    then have "set (ep_host e) \<subseteq> set ''0123456789.''"
      using assms(1) unfolding inet_pton_contract_def by blast
    then have "ep_host e \<notin> {''localhost'', ''loopback'', ''any''}" by auto
    then have "ep_host e \<noteq> []" and "classify_host ipv4 ipv6 (ep_host e) = Inr (AF_Inet, ep_host e)"
      using v4 [OF \<open>ipv4 (ep_host e)\<close>] c [of "ep_host e"] \<open>ipv4 (ep_host e)\<close>
      by (simp_all add: classify_host_def is_numeric_ipv4_def)
    then show ?thesis
      using parse_endpoint_text [of e ipv4 ipv6] False host by simp
  qed
qed

lemma endpoint_text_parses_back_witness:
  "let ipv4 = (\<lambda>h. h \<in> {''127.0.0.1'', ''0.0.0.0''}); ipv6 = (\<lambda>h. h = ''::1'') in
   parse_endpoint ipv4 ipv6 (endpoint_to_string \<lparr>ep_host = ''127.0.0.1'', ep_port = 80\<rparr>) =
     Inr \<lparr>ep_host = ''127.0.0.1'', ep_port = 80\<rparr> \<and>
   parse_endpoint ipv4 ipv6 (endpoint_to_string \<lparr>ep_host = ''::1'', ep_port = 80\<rparr>) =
     Inl E_InvalidArgument"
proof -
  let ?v4 = "\<lambda>h. h \<in> {''127.0.0.1'', ''0.0.0.0''}" and ?v6 = "\<lambda>h. h = ''::1''"
  have contract: "inet_pton_contract ?v4 ?v6"
    by (simp add: inet_pton_contract_def)
  have "parse_endpoint ?v4 ?v6 ''localhost:80'' = Inr \<lparr>ep_host = ''127.0.0.1'', ep_port = 80\<rparr>"
    and "parse_endpoint ?v4 ?v6 ''[::1]:80'' = Inr \<lparr>ep_host = ''::1'', ep_port = 80\<rparr>"
    by (simp_all add: parse_endpoint_def split_host_port_def Let_def classify_host_def
        is_numeric_ipv6_def is_numeric_ipv4_def c_str_def parse_decimal_port_def is_digit_char_def
        digit_value_def)
  then show ?thesis
    using endpoint_text_parses_back [OF contract, of "''localhost:80''"]
      endpoint_text_parses_back [OF contract, of "''[::1]:80''"]
    by (simp add: Let_def)
qed

end
