(* ===== verification/Coordinator_State.thy ===== *)
theory Coordinator_State
  imports Core_Histories Core_Restart Wire_Payloads Transport
begin

text \<open>
  The state of a running coordinator (\<^verbatim>\<open>FoundryCoordinator::Impl\<close> of coordinator.cpp) and the
  operations every handler uses: writing the snapshot, sending a frame, noting that a
  connection closed, rejecting a protocol violation.

  The state is that of a started coordinator, so its core is not null. A \<^verbatim>\<open>shared_ptr\<close> to a
  connection is the connection's number; the connection objects outlive their registry entry.
  What the snapshot file does with a write is the platform's: \<open>cs_saves\<close> lists the results of
  the coming writes, \<open>cs_images\<close> the snapshots on disk so far, the newest first.
\<close>

section \<open>State\<close>

record registry_entry =
  re_is_worker :: bool
  re_has_session :: bool
  re_session :: worker_session_authority
  re_has_authority :: bool
  re_authority :: worker_operation_authority
  re_close_noted :: bool

record candidate_artifacts =
  ca_declared :: "artifact_ref list"
  ca_content :: "(string \<times> string) list"

record evaluation_job =
  ej_candidate :: candidate_id
  ej_candidate_gen :: candidate_generation

record coordinator_statistics =
  cst_connections_accepted :: u64
  cst_frames_received :: u64
  cst_frames_sent :: u64
  cst_frames_rejected :: u64
  cst_evaluations_started :: u64
  cst_evaluations_completed :: u64
  cst_evaluations_failed :: u64
  cst_snapshots_written :: u64
  cst_stale_rejections :: u64
  cst_protocol_violations :: u64
  cst_worker_disconnects :: u64

datatype save_result = Saved | SaveFailed error_code bool

text \<open>A job in the hands of a pool thread: what the thread has read and what it has left to do.\<close>

record running_evaluation =
  rv_job :: evaluation_job
  rv_candidate :: candidate_record
  rv_task :: task_spec
  rv_requirements :: "evaluation_requirement list"
  rv_record :: "evaluation_record option"
  rv_scratch :: string

record coordinator =
  cs_core :: foundry_core
  cs_images :: "foundry_snapshot list"
  cs_saves :: "save_result list"
  cs_statistics :: coordinator_statistics
  cs_registry :: "(u64, registry_entry) table"
  cs_connections :: "(u64, connection) table"
  cs_next_connection :: u64
  cs_artifacts :: "(candidate_id, candidate_artifacts) table"
  cs_jobs :: "evaluation_job list"
  cs_scheduled :: "candidate_id list"
  cs_awaiting :: "candidate_id list"
  cs_new_jobs :: "evaluation_job list"
  cs_running :: "running_evaluation list"
  cs_scratch_counter :: u64
  cs_sessions :: "(u64 \<times> worker_id) list"
  cs_stopping :: bool
  cs_shutdown_requested :: bool
  cs_shutdown_complete :: bool
  cs_shutdown_reason :: string

type_synonym 'a coordinator_action = "(coordinator, 'a) action"

definition blank_session :: worker_session_authority where
  "blank_session =
    \<lparr>wsa_epoch = epoch_none, wsa_run = null_id, wsa_worker = null_id, wsa_boot = null_id,
     wsa_session = null_id, wsa_session_gen = gen_none\<rparr>"

definition blank_operation :: worker_operation_authority where
  "blank_operation =
    \<lparr>woa_session = blank_session, woa_population = null_id, woa_population_gen = gen_none,
     woa_task = null_id, woa_task_gen = gen_none, woa_candidate = null_id,
     woa_candidate_gen = gen_none, woa_attempt = null_id, woa_attempt_gen = gen_none,
     woa_assignment = null_id\<rparr>"

definition new_entry :: registry_entry where
  "new_entry =
    \<lparr>re_is_worker = False, re_has_session = False, re_session = blank_session,
     re_has_authority = False, re_authority = blank_operation, re_close_noted = False\<rparr>"

section \<open>Calls into the core and the snapshot file\<close>

definition on_core :: "'a core_action \<Rightarrow> 'a coordinator_action" where
  "on_core m = (\<lambda>s. case m (cs_core s) of (r, c) \<Rightarrow> (r, s\<lparr>cs_core := c\<rparr>))"

definition core_read :: "(foundry_core \<Rightarrow> 'a result) \<Rightarrow> 'a coordinator_action" where
  "core_read f = readA (\<lambda>s. checkA (f (cs_core s)))"

definition mutate_stats ::
  "((u64 \<Rightarrow> u64) \<Rightarrow> coordinator_statistics \<Rightarrow> coordinator_statistics) \<Rightarrow> unit coordinator_action" where
  "mutate_stats counter = modifyA (cs_statistics_update (counter (\<lambda>n. n + 1)))"

text \<open>One write of the snapshot file. A failed one may have replaced the file all the same.\<close>

definition save_snapshot :: "foundry_snapshot \<Rightarrow> unit coordinator_action" where
  "save_snapshot shot = (\<lambda>s.
    case cs_saves s of
      [] \<Rightarrow> (OK, s\<lparr>cs_images := shot # cs_images s\<rparr>)
    | r # rest \<Rightarrow>
      (case r of
         Saved \<Rightarrow> (OK, s\<lparr>cs_saves := rest, cs_images := shot # cs_images s\<rparr>)
       | SaveFailed e replaced \<Rightarrow> (Inl e, s\<lparr>cs_saves := rest,
           cs_images := (if replaced then shot # cs_images s else cs_images s)\<rparr>)))"

definition persist :: "unit coordinator_action" where
  "persist = readA (\<lambda>s.
    thenA (save_snapshot (snapshot (cs_core s))) (mutate_stats cst_snapshots_written_update))"

definition persist_final :: "unit coordinator_action" where
  "persist_final = readA (\<lambda>s. save_snapshot (snapshot (cs_core s)))"

section \<open>Connection bookkeeping\<close>

definition find_entry :: "u64 \<Rightarrow> coordinator \<Rightarrow> registry_entry option" where
  "find_entry k s = tbl_find (cs_registry s) k"

definition write_entry :: "u64 \<Rightarrow> (registry_entry \<Rightarrow> registry_entry) \<Rightarrow> unit coordinator_action" where
  "write_entry k f = modifyA (cs_registry_update (tbl_adjust k f))"

definition tbl_erase :: "'k \<Rightarrow> ('k, 'v) table \<Rightarrow> ('k, 'v) table" where
  "tbl_erase k t = filter (\<lambda>(k', v). k' \<noteq> k) t"

text \<open>
  What the coordinator does when a connection is no longer open. \<open>text\<close> is the message of the
  reason, which the core stores.
\<close>

definition note_close :: "u64 \<Rightarrow> string \<Rightarrow> unit coordinator_action" where
  "note_close k text = readA (\<lambda>s.
    case find_entry k s of
      None \<Rightarrow> retA ()
    | Some entry \<Rightarrow>
      if re_close_noted entry then retA ()
      else seqA
        [modifyA (cs_registry_update (tbl_erase k)),
         whenA (re_is_worker entry \<and> re_has_session entry) (seqA
           [mutate_stats cst_worker_disconnects_update,
            ignoreA (thenA
              (on_core (worker_disconnected (re_session entry) (''connection closed: '' @ text)))
              persist)])])"

text \<open>An operation of a connection object; the first one that closes it runs the close callback.\<close>

definition on_connection :: "u64 \<Rightarrow> string \<Rightarrow> (connection, 'a) action \<Rightarrow> 'a coordinator_action" where
  "on_connection k text m = (\<lambda>s.
    case tbl_find (cs_connections s) k of
      None \<Rightarrow> (Inl E_Internal, s)
    | Some cn \<Rightarrow>
      (case m cn of (r, cn') \<Rightarrow>
         let s' = s\<lparr>cs_connections := tbl_adjust k (\<lambda>_. cn') (cs_connections s)\<rparr> in
         (r, if cn_closed cn' \<and> \<not> cn_closed cn then snd (note_close k text s') else s')))"

definition queue_text :: "u64 \<Rightarrow> coordinator \<Rightarrow> string" where
  "queue_text k s =
    ''outbound queue holds '' @
    decimal (case tbl_find (cs_connections s) k of None \<Rightarrow> 0 | Some cn \<Rightarrow> Suc (length (cn_outbound cn))) @
    '' frames, which exceeds the limit of '' @ decimal kMaxOutboundQueueDepth"

definition send_to :: "u64 \<Rightarrow> message_type \<Rightarrow> string \<Rightarrow> unit coordinator_action" where
  "send_to k t payload = readA (\<lambda>s.
    case find_entry k s of
      None \<Rightarrow> failA E_NotConnected
    | Some _ \<Rightarrow> thenA (on_connection k (queue_text k s) (send_message t payload))
        (mutate_stats cst_frames_sent_update))"

definition reply :: "u64 \<Rightarrow> message_type \<Rightarrow> string \<Rightarrow> unit coordinator_action" where
  "reply k t payload = send_to k t payload"

definition send_error :: "u64 \<Rightarrow> error_code \<Rightarrow> string \<Rightarrow> message_type \<Rightarrow> unit coordinator_action" where
  "send_error k e detail in_reply_to = reply k MT_ErrorResponse (encode_error_response_message
    \<lparr>error_response_code = e, error_response_detail = detail,
     error_response_in_reply_to = in_reply_to\<rparr>)"

text \<open>
  A protocol violation: the peer is told, then its connection is asked to close. The registry
  entry is looked up again after the error response, whose overflow may have closed it.
\<close>

definition protocol_violation :: "u64 \<Rightarrow> string \<Rightarrow> message_type \<Rightarrow> unit coordinator_action" where
  "protocol_violation k text in_reply_to = thenA (seqA
    [mutate_stats cst_frames_rejected_update, mutate_stats cst_protocol_violations_update])
    (\<lambda>s. case send_error k E_ProtocolViolation text in_reply_to s of (replied, s') \<Rightarrow>
       (replied, case find_entry k s' of
          None \<Rightarrow> s'
        | Some _ \<Rightarrow> snd (on_connection k text (request_close E_ProtocolViolation) s')))"

end
