(* ===== verification/Coordinator_Frames.thy ===== *)
theory Coordinator_Frames
  imports Coordinator_State
begin

text \<open>
  The frame handlers of the coordinator: the planes a message belongs to, the worker plane
  (coordinator.cpp) and the controller plane (coordinator_control_plane.hpp), one definition
  for each message, and \<open>handle_frame\<close>, which picks one. A frame is handled under the
  durability barrier, so it is one step of the coordinator.

  The environment is what the handlers call outside of the program: the decimal text of a
  double, the text of a status that is put into an error response (it may depend on the
  frame and on the state in which the frame arrived), the promotion sink and the evaluators.
\<close>

section \<open>The environment\<close>

record reference_toolchain =
  rtc_compiler :: string
  rtc_include_directories :: string
  rtc_library_directories :: string
  rtc_flavour :: string

record evaluation_request =
  er_candidate :: candidate_id
  er_candidate_gen :: candidate_generation
  er_task :: task_id
  er_task_gen :: task_generation
  er_population :: population_id
  er_population_gen :: population_generation
  er_artifacts :: "(string \<times> string) list"
  er_inputs :: "(string \<times> string) list"
  er_key :: string
  er_class :: requirement_class
  er_scratch :: string
  er_toolchain :: reference_toolchain

record evaluation_result =
  ers_outcome :: evaluation_outcome
  ers_has_score :: bool
  ers_score :: binary64
  ers_diagnostics :: string
  ers_evidence_digest :: string
  ers_duration_micros :: u64

text \<open>
  An evaluator answers with a result or throws; a thrown \<^verbatim>\<open>std::exception\<close> has a text, anything
  else has none.
\<close>

record evaluator =
  evl_kind :: evaluator_kind
  evl_evaluate :: "evaluation_request \<Rightarrow> string option + evaluation_result"

record environment =
  env_shortest :: "binary64 \<Rightarrow> string"
  env_message :: "error_code \<Rightarrow> frame \<Rightarrow> coordinator \<Rightarrow> string"
  env_sink :: "(promotion_request \<Rightarrow> string + promotion_receipt) option"
  env_sink_name :: string
  env_evaluator :: "string \<Rightarrow> evaluator option"
  env_toolchain :: reference_toolchain
  env_scratch :: "u64 \<Rightarrow> string"

section \<open>Planes and identities\<close>

definition message_type_is_worker :: "message_type \<Rightarrow> bool" where
  "message_type_is_worker t \<longleftrightarrow> t \<in> {MT_Hello, MT_WorkerReady, MT_Revalidate, MT_Heartbeat,
    MT_AttemptAccepted, MT_AttemptResult, MT_AttemptFailed, MT_CandidatePublish, MT_SelfReport}"

definition message_type_is_controller :: "message_type \<Rightarrow> bool" where
  "message_type_is_controller t \<longleftrightarrow> t \<in> {MT_CreateTask, MT_DefinePolicy, MT_CreatePopulation,
    MT_StartPopulation, MT_ClosePopulation, MT_AdvancePopulation, MT_RequestSelection,
    MT_RequestRetention, MT_RequestPromotion, MT_RequestRevalidation, MT_CancelAttemptRequest,
    MT_QueryPopulation, MT_QueryCandidate, MT_QueryLineage, MT_QueryStatistics, MT_QueryAudit,
    MT_ShutdownCoordinator}"

definition packed_identity :: "id_kind \<Rightarrow> u64 \<Rightarrow> u64 \<Rightarrow> 'tag strong_id" where
  "packed_identity kind salt counter = StrongId
    (push_bit 56 (of_nat (id_kind_ordinal kind)) OR push_bit 32 salt OR counter)"

definition reference_controller_id :: "foundry_id \<Rightarrow> controller_id" where
  "reference_controller_id foundry =
    (let counter = (fnv1a64 ''autonomous-foundry.controller'' XOR raw foundry) AND kIdCounterMask in
     packed_identity IK_Controller (drop_bit 32 (raw foundry) AND kIdSaltMask)
       (if counter = 0 then 1 else counter))"

definition evaluator_identity :: "string \<Rightarrow> u32 \<Rightarrow> evaluator_id" where
  "evaluator_identity key salt =
    (let mixed = fnv1a64 key XOR (ucast salt * 0x9E3779B97F4A7C15);
         counter = drop_bit 40 mixed AND kIdCounterMask in
     packed_identity IK_Evaluator (ucast salt AND kIdSaltMask) (if counter = 0 then 1 else counter))"

definition operation_authority ::
  "worker_session_authority \<Rightarrow> worker_operation_authority \<Rightarrow> worker_operation_authority" where
  "operation_authority session named = named\<lparr>woa_session := session\<rparr>"

definition kWorkerSelfReportKey :: string where "kWorkerSelfReportKey = ''worker-self-report''"

definition worker_authority_of :: "worker_record \<Rightarrow> foundry_core \<Rightarrow> worker_session_authority" where
  "worker_authority_of w c =
    \<lparr>wsa_epoch = (if epoch_valid (wk_registered_epoch w) then wk_registered_epoch w else co_epoch c),
     wsa_run = co_run c, wsa_worker = wk_id w, wsa_boot = wk_boot w, wsa_session = wk_session w,
     wsa_session_gen = wk_session_gen w\<rparr>"

text \<open>The population a controller means: the one it names, or the only one there is.\<close>

definition named_population :: "population_id \<Rightarrow> foundry_core \<Rightarrow> population_record result" where
  "named_population named c =
    (if id_valid named then read_population named c
     else case ordered_populations c of
       [] \<Rightarrow> Inl E_UnknownIdentity
     | [only] \<Rightarrow> read_population only c
     | _ \<Rightarrow> Inl E_InvalidArgument)"

definition cache_declared :: "candidate_id \<Rightarrow> artifact_ref list \<Rightarrow> unit coordinator_action" where
  "cache_declared k declared =
    modifyA (cs_artifacts_update (tbl_assign k \<lparr>ca_declared = declared, ca_content = []\<rparr>))"

definition drop_artifacts :: "candidate_id \<Rightarrow> unit coordinator_action" where
  "drop_artifacts k = modifyA (cs_artifacts_update (tbl_erase k))"

definition artifact_content :: "candidate_id \<Rightarrow> coordinator \<Rightarrow> (string \<times> string) list" where
  "artifact_content k s =
    (case tbl_find (cs_artifacts s) k of None \<Rightarrow> [] | Some cached \<Rightarrow> ca_content cached)"

definition discardA :: "('s, 'a) action \<Rightarrow> ('s, unit) action" where
  "discardA m = bindA m (\<lambda>_. retA ())"

definition control_ack :: "u64 \<Rightarrow> message_type \<Rightarrow> string \<Rightarrow> unit coordinator_action" where
  "control_ack k t detail = reply k t (encode_control_ack_message
    \<lparr>control_ack_ok = True, control_ack_code = E_Ok, control_ack_detail = detail\<rparr>)"


section \<open>The worker plane\<close>

definition controller_session_id :: "coordinator \<Rightarrow> session_id" where
  "controller_session_id s = packed_identity IK_Session
    (ucast (cfg_id_salt (co_config (cs_core s))) AND kIdSaltMask)
    ((if cs_next_connection s = 0 then 1 else cs_next_connection s) AND kIdCounterMask)"

definition hello_controller_session :: "u64 \<Rightarrow> unit coordinator_action" where
  "hello_controller_session k = readA (\<lambda>s. reply k MT_HelloAck (encode_hello_ack_message
    \<lparr>hello_ack_coordinator_epoch = co_epoch (cs_core s), hello_ack_run = co_run (cs_core s),
     hello_ack_session = controller_session_id s, hello_ack_session_generation = gen_first,
     hello_ack_revalidation_required = False,
     hello_ack_detail = ''controller session established; nothing durable was created''\<rparr>))"

definition adopt_session :: "worker_session_authority \<Rightarrow> registry_entry \<Rightarrow> registry_entry" where
  "adopt_session authority e = e\<lparr>re_is_worker := True, re_has_session := True, re_session := authority\<rparr>"

definition hello_worker_session :: "u64 \<Rightarrow> hello_message \<Rightarrow> unit coordinator_action" where
  "hello_worker_session k hello =
    bindA (on_core (register_worker
      \<lparr>wrr_worker = hello_worker hello, wrr_boot = hello_boot hello, wrr_label = hello_label hello,
       wrr_capability = hello_capability hello, wrr_process_id = hello_process_id hello\<rparr>)) (\<lambda>authority.
    thenA persist
    (bindA (core_read (read_worker (hello_worker hello))) (\<lambda>w. readA (\<lambda>s.
      case find_entry k s of
        None \<Rightarrow> failA E_NotConnected
      | Some _ \<Rightarrow> thenA (write_entry k (adopt_session authority))
          (reply k MT_HelloAck (encode_hello_ack_message
            \<lparr>hello_ack_coordinator_epoch = wsa_epoch authority, hello_ack_run = wsa_run authority,
             hello_ack_session = wsa_session authority,
             hello_ack_session_generation = wsa_session_gen authority,
             hello_ack_revalidation_required = (wk_state w = WS_RevalidationRequired),
             hello_ack_detail = (if wk_state w = WS_RevalidationRequired
               then ''reconnected after a coordinator restart; revalidation is required before this incarnation may accept work''
               else ''registered'')\<rparr>))))))"

definition handle_hello :: "u64 \<Rightarrow> string \<Rightarrow> unit coordinator_action" where
  "handle_hello k payload = bindA (checkA (decode_hello payload)) (\<lambda>hello.
    case hello_role hello of
      SR_Controller \<Rightarrow> hello_controller_session k
    | SR_Worker \<Rightarrow> hello_worker_session k hello
    | SR_Observer \<Rightarrow> failA E_ProtocolViolation)"

definition handle_worker_ready :: "u64 \<Rightarrow> string \<Rightarrow> unit coordinator_action" where
  "handle_worker_ready k payload = bindA (checkA (decode_worker_ready payload)) (\<lambda>m. seqA
    [on_core (worker_ready (worker_ready_session m) (worker_ready_capability m)),
     persist,
     control_ack k MT_ControlAck ''worker is ready''])"

definition handle_revalidate :: "u64 \<Rightarrow> string \<Rightarrow> unit coordinator_action" where
  "handle_revalidate k payload = bindA (checkA (decode_revalidate payload)) (\<lambda>m.
    bindA (on_core (revalidate_worker (revalidate_session m) (revalidate_detail m))) (\<lambda>fresh. seqA
    [persist,
     write_entry k (\<lambda>e. e\<lparr>re_has_session := True, re_session := fresh\<rparr>),
     reply k MT_RevalidateAck (encode_revalidate_ack_message
       \<lparr>revalidate_ack_session = fresh, revalidate_ack_accepted = True,
        revalidate_ack_detail = ''a fresh session and session generation were issued; authority issued before the restart is unusable''\<rparr>)]))"

definition handle_heartbeat :: "u64 \<Rightarrow> string \<Rightarrow> unit coordinator_action" where
  "handle_heartbeat k payload = bindA (checkA (decode_heartbeat payload)) (\<lambda>m.
    control_ack k MT_ControlAck
      (''heartbeat '' @ decimal (unat (heartbeat_sequence m)) @ '' acknowledged''))"

definition handle_attempt_accepted :: "u64 \<Rightarrow> string \<Rightarrow> unit coordinator_action" where
  "handle_attempt_accepted k payload = bindA (checkA (decode_attempt_accepted payload)) (\<lambda>m. seqA
    [on_core (acknowledge_attempt (attempt_accepted_authority m)),
     persist,
     control_ack k MT_ControlAck ''assignment acknowledged''])"

text \<open>The session of a connection; refused when the connection has none.\<close>

definition connection_session :: "u64 \<Rightarrow> coordinator \<Rightarrow> worker_session_authority result" where
  "connection_session k s =
    (case find_entry k s of
       None \<Rightarrow> Inl E_NotConnected
     | Some e \<Rightarrow> if \<not> re_has_session e then Inl E_NotConnected else Inr (re_session e))"

text \<open>A worker's own claim, as a record that can never satisfy a mandatory gate.\<close>

definition self_report_claim_of ::
  "worker_operation_authority \<Rightarrow> candidate_id \<Rightarrow> candidate_generation \<Rightarrow> bool \<Rightarrow> string \<Rightarrow>
   foundry_core \<Rightarrow> evaluation_record" where
  "self_report_claim_of authority candidate generation success text c =
    \<lparr>ev_id = null_id, ev_gen = gen_none, ev_candidate = candidate, ev_candidate_gen = generation,
     ev_task = woa_task authority, ev_task_gen = woa_task_gen authority,
     ev_population = woa_population authority, ev_population_gen = woa_population_gen authority,
     ev_evaluator = evaluator_identity kWorkerSelfReportKey (ucast (fnv1a64 kWorkerSelfReportKey)),
     ev_key = kWorkerSelfReportKey, ev_kind = EK_WorkerSelfReport, ev_class = RC_Optional,
     ev_outcome = (if success then EO_Pass else EO_Unknown), ev_complete = True,
     ev_has_score = False, ev_score = b64_zero, ev_decided_epoch = co_epoch c,
     ev_diagnostics = text, ev_evidence_digest = [], ev_duration_micros = 0\<rparr>"

text \<open>What follows a publication: it is persisted before it is acknowledged.\<close>

definition settle_publication :: "u64 \<Rightarrow> candidate_publish_message \<Rightarrow> publication_outcome \<Rightarrow> unit coordinator_action" where
  "settle_publication k m outcome = seqA
    [persist,
     cache_declared (po_candidate outcome) (candidate_publish_artifacts m),
     readA (\<lambda>s. ignoreA (on_core (record_evaluation (self_report_claim_of (candidate_publish_authority m)
       (po_candidate outcome) (po_candidate_gen outcome) (candidate_publish_self_reported_success m)
       (if candidate_publish_self_report_detail m = [] then ''worker self report''
        else candidate_publish_self_report_detail m) (cs_core s))))),
     ignoreA persist,
     reply k MT_PublishAck (encode_publish_ack_message
       \<lparr>publish_ack_candidate = po_candidate outcome,
        publish_ack_candidate_generation = po_candidate_gen outcome, publish_ack_accepted = True,
        publish_ack_detail = ''output committed transactionally and durably; the worker's own claim was recorded as evidence, not as authority''\<rparr>)]"

definition handle_candidate_publish :: "u64 \<Rightarrow> string \<Rightarrow> unit coordinator_action" where
  "handle_candidate_publish k payload = bindA (checkA (decode_candidate_publish payload)) (\<lambda>m.
    bindA (readA (\<lambda>s. checkA (connection_session k s))) (\<lambda>session.
    bindA (on_core (publish_candidate (operation_authority session (candidate_publish_authority m))
        (candidate_publish_artifacts m) (candidate_publish_declared_strategy m)))
    (settle_publication k m)))"

text \<open>
  An attempt result and an attempt failure are handled alike: a message that ends the attempt
  without a publication reports a failure.
\<close>

definition report_failure_for :: "u64 \<Rightarrow> worker_operation_authority \<Rightarrow> string \<Rightarrow> unit coordinator_action" where
  "report_failure_for k authority reason = readA (\<lambda>s. seqA
    [on_core (report_attempt_failure
       (operation_authority (case find_entry k s of None \<Rightarrow> blank_session | Some e \<Rightarrow> re_session e) authority)
       reason),
     persist,
     control_ack k MT_ControlAck ''attempt failure recorded''])"

definition handle_attempt_result :: "u64 \<Rightarrow> string \<Rightarrow> unit coordinator_action" where
  "handle_attempt_result k payload = bindA (checkA (decode_attempt_result payload)) (\<lambda>m.
    report_failure_for k (attempt_result_authority m)
      (if attempt_result_detail m = [] then ''the worker reported an attempt result''
       else attempt_result_detail m))"

definition handle_attempt_failed :: "u64 \<Rightarrow> string \<Rightarrow> unit coordinator_action" where
  "handle_attempt_failed k payload = bindA (checkA (decode_attempt_failed payload)) (\<lambda>m.
    report_failure_for k (attempt_failed_authority m)
      (if attempt_failed_reason m = [] then ''the worker reported an attempt failure''
       else attempt_failed_reason m))"

definition handle_self_report :: "u64 \<Rightarrow> string \<Rightarrow> unit coordinator_action" where
  "handle_self_report k payload = bindA (checkA (decode_self_report payload)) (\<lambda>m. readA (\<lambda>s.
    case find_entry k s of
      None \<Rightarrow> failA E_NotConnected
    | Some e \<Rightarrow>
      if \<not> re_has_session e then failA E_NotConnected
      else if \<not> re_has_authority e then failA E_NotReady
      else seqA
        [ignoreA (on_core (record_evaluation (self_report_claim_of (re_authority e)
           (woa_candidate (re_authority e)) (woa_candidate_gen (re_authority e))
           (self_report_claimed_success m) (self_report_claim m) (cs_core s)))),
         control_ack k MT_ControlAck ''claim recorded as worker self report evidence'']))"

definition handle_worker_message :: "u64 \<Rightarrow> message_type \<Rightarrow> string \<Rightarrow> unit coordinator_action" where
  "handle_worker_message k t payload =
    (if t = MT_Hello then handle_hello k payload
     else if t = MT_WorkerReady then handle_worker_ready k payload
     else if t = MT_Revalidate then handle_revalidate k payload
     else if t = MT_Heartbeat then handle_heartbeat k payload
     else if t = MT_AttemptAccepted then handle_attempt_accepted k payload
     else if t = MT_CandidatePublish then handle_candidate_publish k payload
     else if t = MT_AttemptResult then handle_attempt_result k payload
     else if t = MT_AttemptFailed then handle_attempt_failed k payload
     else if t = MT_SelfReport then handle_self_report k payload
     else failA E_ProtocolViolation)"


section \<open>The controller plane\<close>

definition handle_create_task :: "u64 \<Rightarrow> string \<Rightarrow> unit coordinator_action" where
  "handle_create_task k payload = bindA (checkA (decode_create_task payload)) (\<lambda>m.
    bindA (on_core (define_task (create_task_task m))) (\<lambda>created. seqA
    [persist,
     reply k MT_TaskCreated (encode_task_created_message
       \<lparr>task_created_task = created, task_created_generation = gen_first,
        task_created_content_digest = task_digest (create_task_task m),
        task_created_detail = ''task defined and durably recorded''\<rparr>)]))"

definition handle_define_policy :: "u64 \<Rightarrow> string \<Rightarrow> unit coordinator_action" where
  "handle_define_policy k payload = bindA (checkA (decode_define_policy payload)) (\<lambda>m.
    bindA (on_core (define_policy (define_policy_policy m))) (\<lambda>created. seqA
    [persist,
     reply k MT_PolicyDefined (encode_policy_defined_message
       \<lparr>policy_defined_policy = created, policy_defined_generation = gen_first,
        policy_defined_content_digest = pol_digest (define_policy_policy m)\<rparr>)]))"

definition handle_create_population :: "u64 \<Rightarrow> string \<Rightarrow> unit coordinator_action" where
  "handle_create_population k payload = bindA (checkA (decode_create_population payload)) (\<lambda>m.
    thenA (seqA
      [discardA (core_read (read_task (ps_task (create_population_spec m)))),
       discardA (core_read (read_core_policy (ps_policy (create_population_spec m))))])
    (bindA (on_core (create_population (create_population_spec m))) (\<lambda>created. seqA
    [persist,
     reply k MT_PopulationCreated (encode_population_created_message
       \<lparr>population_created_population = created, population_created_generation = gen_first\<rparr>)])))"

text \<open>The answer of the messages that change the state of a population.\<close>

definition population_state_of :: "population_record \<Rightarrow> string \<Rightarrow> string" where
  "population_state_of pop detail = encode_population_state_message
    \<lparr>population_state_population = pop_id pop, population_state_generation = pop_gen pop,
     population_state_state = pop_state pop, population_state_detail = detail\<rparr>"

definition handle_start_population :: "u64 \<Rightarrow> string \<Rightarrow> unit coordinator_action" where
  "handle_start_population k payload = bindA (checkA (decode_start_population payload)) (\<lambda>m.
    bindA (core_read (named_population (coa_population (start_population_authority m)))) (\<lambda>pop.
    thenA (seqA [on_core (start_population (pop_id pop) (pop_gen pop)), persist])
    (bindA (core_read (read_population (pop_id pop))) (\<lambda>current.
    reply k MT_PopulationStarted (population_state_of current ''population started'')))))"

definition handle_close_population :: "u64 \<Rightarrow> string \<Rightarrow> unit coordinator_action" where
  "handle_close_population k payload = bindA (checkA (decode_close_population payload)) (\<lambda>m.
    bindA (core_read (named_population (coa_population (close_population_authority m)))) (\<lambda>pop.
    thenA (seqA [on_core (close_population (pop_id pop)), persist])
    (bindA (core_read (read_population (pop_id pop))) (\<lambda>current.
    reply k MT_PopulationClosed (population_state_of current ''population closed'')))))"

definition handle_advance_population :: "u64 \<Rightarrow> string \<Rightarrow> unit coordinator_action" where
  "handle_advance_population k payload = bindA (checkA (decode_advance_population payload)) (\<lambda>m.
    bindA (core_read (named_population (coa_population (advance_population_authority m)))) (\<lambda>pop.
    bindA (on_core (advance_population (pop_id pop) (advance_population_next_name m))) (\<lambda>successor.
    thenA persist
    (bindA (core_read (read_population successor)) (\<lambda>created.
    reply k MT_PopulationAdvanced (encode_population_advanced_message
      \<lparr>population_advanced_predecessor = pop_id pop, population_advanced_successor = successor,
       population_advanced_successor_generation = pop_gen created,
       population_advanced_seed_candidate = pop_seed_candidate created,
       population_advanced_seed_candidate_generation = pop_seed_candidate_gen created,
       population_advanced_detail = ''successor population created; a carried elite never inherits evidence''\<rparr>))))))"

definition handle_request_selection :: "environment \<Rightarrow> u64 \<Rightarrow> string \<Rightarrow> unit coordinator_action" where
  "handle_request_selection env k payload = bindA (checkA (decode_request_selection payload)) (\<lambda>m.
    bindA (core_read (named_population (coa_population (request_selection_authority m)))) (\<lambda>pop.
    bindA (on_core (prepare_selection (env_shortest env) (pop_id pop))) (\<lambda>prepared.
    bindA (on_core (commit_selection (env_shortest env) prepared)) (\<lambda>committed. seqA
    [persist,
     reply k MT_SelectionDecisionMessage (encode_selection_decision_message
       \<lparr>selection_decision_decision = committed, selection_decision_committed = True\<rparr>)]))))"

definition handle_request_retention :: "environment \<Rightarrow> u64 \<Rightarrow> string \<Rightarrow> unit coordinator_action" where
  "handle_request_retention env k payload = bindA (checkA (decode_request_retention payload)) (\<lambda>m.
    bindA (core_read (named_population (coa_population (request_retention_authority m)))) (\<lambda>pop.
    bindA (on_core (prepare_retention (env_shortest env) (pop_id pop))) (\<lambda>prepared.
    bindA (on_core (commit_retention (env_shortest env) prepared)) (\<lambda>committed. seqA
    [persist,
     reply k MT_RetentionDecisionMessage (encode_retention_decision_message
       \<lparr>retention_decision_decision = committed\<rparr>)]))))"

text \<open>What the promotion sink answers, or the receipt that stands for its absence.\<close>

definition sink_receipt :: "environment \<Rightarrow> promotion_request \<Rightarrow> promotion_receipt" where
  "sink_receipt env request =
    (case env_sink env of
       None \<Rightarrow> \<lparr>rcp_handoff = PH_SinkUnavailable, rcp_sink_name = ''none'', rcp_sink_reference = [],
         rcp_detail = ''no promotion sink is installed; the request is durable but no adjacent system has been told about it'',
         rcp_request_digest = []\<rparr>
     | Some submit \<Rightarrow>
       (case submit request of
          Inr receipt \<Rightarrow> receipt
        | Inl text \<Rightarrow> \<lparr>rcp_handoff = PH_SinkUnavailable, rcp_sink_name = env_sink_name env,
            rcp_sink_reference = [],
            rcp_detail = ''the promotion sink refused the handoff: '' @ text,
            rcp_request_digest = []\<rparr>))"

definition handle_request_promotion :: "environment \<Rightarrow> u64 \<Rightarrow> string \<Rightarrow> unit coordinator_action" where
  "handle_request_promotion env k payload = bindA (checkA (decode_request_promotion payload)) (\<lambda>m.
    bindA (core_read (named_population (coa_population (request_promotion_authority m)))) (\<lambda>pop.
    bindA (on_core (prepare_promotion_request (env_shortest env) (pop_id pop))) (\<lambda>request. seqA
    [persist,
     on_core (record_promotion_receipt (pr_id request) (sink_receipt env request)),
     persist,
     reply k MT_PromotionRequestMessage (encode_promotion_request_message
       \<lparr>promotion_request_request = request,
        promotion_request_receipt = sink_receipt env request\<rparr>)])))"

definition handle_request_revalidation :: "u64 \<Rightarrow> string \<Rightarrow> unit coordinator_action" where
  "handle_request_revalidation k payload = bindA (checkA (decode_request_revalidation payload)) (\<lambda>m.
    bindA (core_read (named_population (coa_population (request_revalidation_authority m)))) (\<lambda>pop.
    thenA (seqA
      [on_core (request_population_revalidation (pop_id pop) (request_revalidation_reason m)), persist])
    (bindA (core_read (read_population (pop_id pop))) (\<lambda>current.
    reply k MT_RevalidationApplied (encode_revalidation_applied_message
      \<lparr>revalidation_applied_population = pop_id current,
       revalidation_applied_generation = pop_gen current,
       revalidation_applied_state = pop_state current,
       revalidation_applied_detail = pop_status_detail current\<rparr>)))))"

definition handle_cancel_attempt :: "u64 \<Rightarrow> string \<Rightarrow> unit coordinator_action" where
  "handle_cancel_attempt k payload = bindA (checkA (decode_cancel_attempt_request payload)) (\<lambda>m.
    bindA (core_read (named_population (coa_population (cancel_attempt_request_authority m)))) (\<lambda>_.
    thenA (seqA
      [on_core (cancel_attempt (cancel_attempt_request_attempt m) (cancel_attempt_request_reason m)), persist])
    (bindA (core_read (read_attempt (cancel_attempt_request_attempt m))) (\<lambda>att.
    reply k MT_AttemptCancelled (encode_attempt_cancelled_message
      \<lparr>attempt_cancelled_attempt = att_id att, attempt_cancelled_state = att_state att,
       attempt_cancelled_detail = att_failure_detail att\<rparr>)))))"

definition handle_query_population :: "u64 \<Rightarrow> string \<Rightarrow> unit coordinator_action" where
  "handle_query_population k payload = bindA (checkA (decode_query_population payload)) (\<lambda>m.
    bindA (core_read (read_population (query_population_population m))) (\<lambda>pop. readA (\<lambda>s.
    reply k MT_PopulationDetail (encode_population_detail_message
      \<lparr>population_detail_population = pop,
       population_detail_committed_selection_generation = gen_value (pop_committed_selection pop),
       population_detail_retention_committed = pop_retention_committed pop,
       population_detail_candidate_count = of_nat (length (pop_candidates pop)),
       population_detail_closure_blockers = closure_blockers (pop_id pop) (cs_core s)\<rparr>))))"

definition handle_query_candidate :: "u64 \<Rightarrow> string \<Rightarrow> unit coordinator_action" where
  "handle_query_candidate k payload = bindA (checkA (decode_query_candidate payload)) (\<lambda>m.
    bindA (core_read (read_candidate (query_candidate_candidate m))) (\<lambda>cand. readA (\<lambda>s.
    reply k MT_CandidateDetail (encode_candidate_detail_message
      \<lparr>candidate_detail_candidate = cand,
       candidate_detail_evaluations = evaluations_for (cand_id cand) (cs_core s)\<rparr>))))"

definition node_of :: "lineage_node list \<Rightarrow> candidate_id \<Rightarrow> lineage_node option" where
  "node_of nodes k = find (\<lambda>n. ln_candidate n = k) nodes"

text \<open>The walk along the first parents, at most \<open>guard\<close> nodes.\<close>

primrec lineage_walk :: "nat \<Rightarrow> lineage_node list \<Rightarrow> candidate_id \<Rightarrow> candidate_id list" where
  "lineage_walk 0 nodes cursor = []"
| "lineage_walk (Suc guard) nodes cursor = cursor #
    (case node_of nodes cursor of
       None \<Rightarrow> []
     | Some n \<Rightarrow> (case ln_parents n of [] \<Rightarrow> [] | p # _ \<Rightarrow> lineage_walk guard nodes p))"

fun lineage_answer :: "lineage_node list \<Rightarrow> candidate_id list \<Rightarrow> lineage_node list result" where
  "lineage_answer nodes [] = Inr []"
| "lineage_answer nodes (k # ks) =
    (case node_of nodes k of
       None \<Rightarrow> Inl E_LineageOrphan
     | Some n \<Rightarrow> map_sum id (\<lambda>ns. n # ns) (lineage_answer nodes ks))"

definition lineage_path :: "lineage_node list \<Rightarrow> candidate_id \<Rightarrow> candidate_id list" where
  "lineage_path nodes start =
    (let path = rev (lineage_walk (Suc kMaxLineageDepth) nodes start) in
     if path \<noteq> [] \<and> hd path = start then tl path else path)"

definition handle_query_lineage :: "u64 \<Rightarrow> string \<Rightarrow> unit coordinator_action" where
  "handle_query_lineage k payload = bindA (checkA (decode_query_lineage payload)) (\<lambda>m. readA (\<lambda>s.
    let nodes = list_lineage_nodes (cs_core s);
        answer = (\<lambda>ns. reply k MT_LineageDetail (encode_lineage_detail_message \<lparr>lineage_detail_nodes = ns\<rparr>)) in
    if \<not> id_valid (query_lineage_root m) then answer nodes
    else bindA (core_read (read_candidate (query_lineage_root m))) (\<lambda>start.
      bindA (checkA (lineage_answer nodes (lineage_path nodes (cand_id start)))) answer)))"

definition handle_query_statistics :: "u64 \<Rightarrow> string \<Rightarrow> unit coordinator_action" where
  "handle_query_statistics k payload = bindA (checkA (decode_query_statistics payload)) (\<lambda>m. readA (\<lambda>s.
    reply k MT_StatisticsDetail (encode_statistics_detail_message
      \<lparr>statistics_detail_statistics = co_statistics (cs_core s),
       statistics_detail_revision = co_revision (cs_core s),
       statistics_detail_epoch = co_epoch (cs_core s), statistics_detail_run = co_run (cs_core s)\<rparr>)))"

definition handle_query_audit :: "u64 \<Rightarrow> string \<Rightarrow> unit coordinator_action" where
  "handle_query_audit k payload = bindA (checkA (decode_query_audit payload)) (\<lambda>m. readA (\<lambda>s.
    reply k MT_AuditDetail (encode_audit_detail_message \<lparr>audit_detail_violations = audit (cs_core s)\<rparr>)))"

definition handle_shutdown :: "u64 \<Rightarrow> string \<Rightarrow> unit coordinator_action" where
  "handle_shutdown k payload = bindA (checkA (decode_shutdown_coordinator payload)) (\<lambda>m. seqA
    [control_ack k MT_ShutdownAck ''shutdown accepted'',
     modifyA (\<lambda>s. s\<lparr>cs_shutdown_requested := True,
       cs_shutdown_reason := (if cs_shutdown_reason s = [] then ''shutdown requested by a controller''
         else cs_shutdown_reason s)\<rparr>)])"

definition handle_controller_message :: "environment \<Rightarrow> u64 \<Rightarrow> message_type \<Rightarrow> string \<Rightarrow> unit coordinator_action" where
  "handle_controller_message env k t payload =
    (if t = MT_CreateTask then handle_create_task k payload
     else if t = MT_DefinePolicy then handle_define_policy k payload
     else if t = MT_CreatePopulation then handle_create_population k payload
     else if t = MT_StartPopulation then handle_start_population k payload
     else if t = MT_ClosePopulation then handle_close_population k payload
     else if t = MT_AdvancePopulation then handle_advance_population k payload
     else if t = MT_RequestSelection then handle_request_selection env k payload
     else if t = MT_RequestRetention then handle_request_retention env k payload
     else if t = MT_RequestPromotion then handle_request_promotion env k payload
     else if t = MT_RequestRevalidation then handle_request_revalidation k payload
     else if t = MT_CancelAttemptRequest then handle_cancel_attempt k payload
     else if t = MT_QueryPopulation then handle_query_population k payload
     else if t = MT_QueryCandidate then handle_query_candidate k payload
     else if t = MT_QueryLineage then handle_query_lineage k payload
     else if t = MT_QueryStatistics then handle_query_statistics k payload
     else if t = MT_QueryAudit then handle_query_audit k payload
     else if t = MT_ShutdownCoordinator then handle_shutdown k payload
     else failA E_ProtocolViolation)"

section \<open>Frames\<close>

definition not_for_peers_text :: "message_type \<Rightarrow> string" where
  "not_for_peers_text t = ''message type '' @ [CHR 0x27] @ message_type_name t @ [CHR 0x27] @
    '' is not a message a peer may send to the coordinator''"

definition other_plane_text :: "bool \<Rightarrow> message_type \<Rightarrow> string" where
  "other_plane_text is_worker t = ''a '' @ (if is_worker then ''worker'' else ''controller'') @
    '' connection sent a message from the other plane ('' @ [CHR 0x27] @ message_type_name t @
    [CHR 0x27] @ '')''"

definition handle_frame :: "environment \<Rightarrow> u64 \<Rightarrow> frame \<Rightarrow> unit coordinator_action" where
  "handle_frame env k f = thenA (mutate_stats cst_frames_received_update) (readA (\<lambda>s.
    let t = fh_type (fr_header f); payload = fr_payload f in
    case find_entry k s of
      None \<Rightarrow> ignoreA (send_error k E_NotConnected
        ''the connection is not registered with a live coordinator'' t)
    | Some e \<Rightarrow>
      if \<not> message_type_is_worker t \<and> \<not> message_type_is_controller t then
        ignoreA (protocol_violation k (not_for_peers_text t) t)
      else if \<not> (t = MT_Hello \<and> \<not> re_has_session e) \<and> re_is_worker e \<noteq> message_type_is_worker t then
        ignoreA (protocol_violation k (other_plane_text (re_is_worker e) t) t)
      else (\<lambda>s0.
        case (if message_type_is_worker t then handle_worker_message k t payload
              else handle_controller_message env k t payload) s0 of
          (Inr _, s') \<Rightarrow> (OK, s')
        | (Inl code', s') \<Rightarrow> ignoreA (send_error k code' (env_message env code' f s0) t) s')))"

end
