(* ===== verification/Coordinator_Pump.thy ===== *)
theory Coordinator_Pump
  imports Coordinator_Frames
begin

text \<open>
  What a coordinator does on its own: the acceptor, the pump (which schedules evaluations and
  dispatches attempts), the evaluation pool, start and shutdown. The threads interleave, so the
  loops are cut into the steps between which another thread can run: the pump takes its list of
  candidates or sessions in one step and works on one element of it in each of the next; a pool
  thread takes a job, evaluates one requirement, commits the record, and finishes.
\<close>

section \<open>Accepting\<close>

definition kMaxConnections :: nat where "kMaxConnections = 256"

text \<open>\<open>started\<close>: whether the threads of the new connection could be created.\<close>

definition accept_connection :: "bool \<Rightarrow> unit coordinator_action" where
  "accept_connection started = readA (\<lambda>s.
    if kMaxConnections \<le> length (cs_registry s) then retA ()
    else let k = cs_next_connection s in seqA
      [modifyA (\<lambda>s. s\<lparr>cs_next_connection := k + 1\<rparr>),
       whenA (k \<noteq> 0) (seqA
         [modifyA (\<lambda>s. s\<lparr>cs_connections := tbl_assign k new_connection (cs_connections s),
            cs_registry := tbl_emplace k new_entry (cs_registry s)\<rparr>),
          (if started then mutate_stats cst_connections_accepted_update
           else modifyA (cs_registry_update (tbl_erase k)))])])"

section \<open>Scheduling evaluations\<close>

definition scan_candidates :: "unit coordinator_action" where
  "scan_candidates = modifyA (\<lambda>s. if cs_stopping s then s else s\<lparr>cs_awaiting := candidates_awaiting_evaluation (cs_core s)\<rparr>)"

definition job_for :: "candidate_id \<Rightarrow> foundry_core \<Rightarrow> evaluation_job" where
  "job_for k c = \<lparr>ej_candidate = k,
     ej_candidate_gen = (case read_candidate k c of Inl _ \<Rightarrow> gen_none | Inr r \<Rightarrow> cand_gen r)\<rparr>"

definition start_next_evaluation :: "unit coordinator_action" where
  "start_next_evaluation = readA (\<lambda>s.
    case cs_awaiting s of
      [] \<Rightarrow> retA ()
    | k # ks \<Rightarrow> thenA (modifyA (\<lambda>s. s\<lparr>cs_awaiting := ks\<rparr>))
        (if k \<in> set (cs_scheduled s) then retA ()
         else ignoreA (seqA
           [on_core (begin_evaluation k),
            modifyA (\<lambda>s. s\<lparr>cs_scheduled := k # cs_scheduled s,
              cs_new_jobs := cs_new_jobs s @ [job_for k (cs_core s)]\<rparr>)])))"

definition enqueue_evaluations :: "unit coordinator_action" where
  "enqueue_evaluations = modifyA (\<lambda>s. s\<lparr>cs_jobs := cs_jobs s @ cs_new_jobs s, cs_new_jobs := []\<rparr>)"

section \<open>Dispatching\<close>

definition connection_is_closed :: "u64 \<Rightarrow> coordinator \<Rightarrow> bool" where
  "connection_is_closed k s =
    (case tbl_find (cs_connections s) k of None \<Rightarrow> False | Some cn \<Rightarrow> cn_closed cn)"

definition scan_sessions :: "unit coordinator_action" where
  "scan_sessions = modifyA (\<lambda>s. if cs_stopping s then s else s\<lparr>cs_sessions :=
    map (\<lambda>(k, e). (k, wsa_worker (re_session e)))
      (filter (\<lambda>(k, e). re_is_worker e \<and> re_has_session e \<and> \<not> connection_is_closed k s) (cs_registry s))\<rparr>)"

text \<open>
  Authorize, persist, confirm and send, under the durability barrier. Whatever fails ends the
  attempt to dispatch; what was already written stays.
\<close>

definition begin_dispatch :: "u64 \<Rightarrow> worker_record \<Rightarrow> unit coordinator_action" where
  "begin_dispatch k w = readA (\<lambda>s.
    if wk_state w \<noteq> WS_Ready then retA ()
    else let session = worker_authority_of w (cs_core s) in ignoreA (
      bindA (on_core (authorize_attempt session)) (\<lambda>pending.
      thenA persist
      (bindA (on_core (confirm_dispatch session (att_id (pd_attempt pending)) (att_gen (pd_attempt pending))))
        (\<lambda>package. send_to k MT_AssignAttempt (encode_assign_attempt_message
          \<lparr>assign_attempt_session = session, assign_attempt_package = package\<rparr>))))))"

definition dispatch_next_worker :: "unit coordinator_action" where
  "dispatch_next_worker = readA (\<lambda>s.
    case cs_sessions s of
      [] \<Rightarrow> retA ()
    | (k, w) # rest \<Rightarrow> thenA (modifyA (\<lambda>s. s\<lparr>cs_sessions := rest\<rparr>))
        (case read_worker w (cs_core s) of Inl _ \<Rightarrow> retA () | Inr record' \<Rightarrow> begin_dispatch k record'))"

section \<open>Evaluating\<close>

definition make_request ::
  "environment \<Rightarrow> candidate_record \<Rightarrow> string \<Rightarrow> requirement_class \<Rightarrow> string \<Rightarrow> coordinator \<Rightarrow> evaluation_request" where
  "make_request env cand key rclass scratch s =
    \<lparr>er_candidate = cand_id cand, er_candidate_gen = cand_gen cand, er_task = cand_task cand,
     er_task_gen = cand_task_gen cand, er_population = cand_population cand,
     er_population_gen = cand_population_gen cand, er_artifacts = artifact_content (cand_id cand) s,
     er_inputs = (case read_task (cand_task cand) (cs_core s) of
         Inl _ \<Rightarrow> []
       | Inr t \<Rightarrow> fold (\<lambda>i m. tbl_emplace (in_name i) (in_content i) m) (task_inputs t) []),
     er_key = key, er_class = rclass, er_scratch = scratch, er_toolchain = env_toolchain env\<rparr>"

definition blank_evaluation ::
  "evaluation_job \<Rightarrow> candidate_record \<Rightarrow> task_spec \<Rightarrow> evaluation_requirement \<Rightarrow> foundry_core \<Rightarrow> evaluation_record" where
  "blank_evaluation job cand t requirement c =
    \<lparr>ev_id = null_id, ev_gen = gen_none, ev_candidate = ej_candidate job,
     ev_candidate_gen = ej_candidate_gen job, ev_task = task_id_of t, ev_task_gen = task_gen t,
     ev_population = cand_population cand, ev_population_gen = cand_population_gen cand,
     ev_evaluator = evaluator_identity (req_key requirement) (cfg_id_salt (co_config c)),
     ev_key = req_key requirement, ev_kind = EK_PortableReference, ev_class = req_class requirement,
     ev_outcome = EO_Unknown, ev_complete = True, ev_has_score = False, ev_score = b64_zero,
     ev_decided_epoch = co_epoch c, ev_diagnostics = [], ev_evidence_digest = [],
     ev_duration_micros = 0\<rparr>"

definition quoted :: "string \<Rightarrow> string" where
  "quoted text = [CHR 0x27] @ text @ [CHR 0x27]"

definition evaluate_requirement ::
  "environment \<Rightarrow> evaluation_job \<Rightarrow> candidate_record \<Rightarrow> task_spec \<Rightarrow> evaluation_requirement \<Rightarrow> string \<Rightarrow>
   coordinator \<Rightarrow> evaluation_record" where
  "evaluate_requirement env job cand t requirement scratch s =
    (let blank = blank_evaluation job cand t requirement (cs_core s) in
     case env_evaluator env (req_key requirement) of
       None \<Rightarrow> blank\<lparr>ev_outcome := EO_Unsupported, ev_diagnostics :=
         ''no evaluator is registered under key '' @ quoted (req_key requirement) @
         ''; this requirement is UNSUPPORTED in this deployment and cannot satisfy a mandatory gate''\<rparr>
     | Some e \<Rightarrow>
       let request = make_request env cand (req_key requirement) (req_class requirement) scratch s;
           started = blank\<lparr>ev_kind := evl_kind e\<rparr> in
       if er_artifacts request = [] then started\<lparr>ev_outcome := EO_Unsupported, ev_diagnostics :=
         ''artifact content for candidate '' @ candidate_id_text (cand_id cand) @
         '' is not available to this coordinator, so the evaluation cannot be performed and is reported as UNSUPPORTED''\<rparr>
       else (case evl_evaluate e request of
         Inr r \<Rightarrow> started\<lparr>ev_outcome := ers_outcome r, ev_has_score := ers_has_score r,
           ev_score := ers_score r, ev_diagnostics := ers_diagnostics r,
           ev_evidence_digest := ers_evidence_digest r, ev_duration_micros := ers_duration_micros r\<rparr>
       | Inl (Some text) \<Rightarrow> started\<lparr>ev_outcome := EO_Error,
           ev_diagnostics := ''evaluator '' @ quoted (req_key requirement) @ '' raised: '' @ text\<rparr>
       | Inl None \<Rightarrow> started\<lparr>ev_outcome := EO_Error,
           ev_diagnostics := ''evaluator '' @ quoted (req_key requirement) @ '' raised an unknown exception''\<rparr>))"

definition unschedule :: "candidate_id \<Rightarrow> unit coordinator_action" where
  "unschedule k = modifyA (\<lambda>s. s\<lparr>cs_scheduled := filter (\<lambda>k'. k' \<noteq> k) (cs_scheduled s)\<rparr>)"

text \<open>A pool thread takes the front job and reads what the evaluation needs.\<close>

definition take_job :: "environment \<Rightarrow> unit coordinator_action" where
  "take_job env = readA (\<lambda>s.
    case cs_jobs s of
      [] \<Rightarrow> retA ()
    | job # rest \<Rightarrow> thenA (modifyA (\<lambda>s. s\<lparr>cs_jobs := rest\<rparr>))
        (case read_candidate (ej_candidate job) (cs_core s) of
           Inl _ \<Rightarrow> unschedule (ej_candidate job)
         | Inr cand \<Rightarrow>
           (case read_task (cand_task cand) (cs_core s) of
              Inl _ \<Rightarrow> unschedule (ej_candidate job)
            | Inr t \<Rightarrow>
              (case pending_evaluations (ej_candidate job) (cs_core s) of
                 Inl _ \<Rightarrow> unschedule (ej_candidate job)
               | Inr pending \<Rightarrow> modifyA (\<lambda>s. s\<lparr>cs_scratch_counter := cs_scratch_counter s + 1,
                   cs_running := cs_running s @ [\<lparr>rv_job = job, rv_candidate = cand, rv_task = t,
                     rv_requirements = pending, rv_record = None,
                     rv_scratch = env_scratch env (cs_scratch_counter s)\<rparr>]\<rparr>)))))"

text \<open>The \<open>i\<close>-th running job evaluates its next requirement, off every lock.\<close>

definition evaluate_next :: "environment \<Rightarrow> nat \<Rightarrow> unit coordinator_action" where
  "evaluate_next env i = readA (\<lambda>s.
    if length (cs_running s) \<le> i then retA ()
    else let rv = cs_running s ! i in
      case (rv_record rv, rv_requirements rv) of
        (None, requirement # rest) \<Rightarrow>
          let r = evaluate_requirement env (rv_job rv) (rv_candidate rv) (rv_task rv) requirement
            (rv_scratch rv) s in
          seqA [mutate_stats cst_evaluations_completed_update,
            whenA (ev_outcome r = EO_Error) (mutate_stats cst_evaluations_failed_update),
            modifyA (\<lambda>s. s\<lparr>cs_running := (cs_running s)[i := rv\<lparr>rv_requirements := rest, rv_record := Some r\<rparr>]\<rparr>)]
      | _ \<Rightarrow> retA ())"

text \<open>It commits the record and persists, under the durability barrier.\<close>

definition commit_next :: "nat \<Rightarrow> unit coordinator_action" where
  "commit_next i = readA (\<lambda>s.
    if length (cs_running s) \<le> i then retA ()
    else let rv = cs_running s ! i in
      case rv_record rv of
        None \<Rightarrow> retA ()
      | Some r \<Rightarrow> thenA (modifyA (\<lambda>s. s\<lparr>cs_running := (cs_running s)[i := rv\<lparr>rv_record := None\<rparr>]\<rparr>))
          (ignoreA (thenA (on_core (record_evaluation r)) persist)))"

text \<open>Nothing is left to evaluate: the artifacts are dropped when no requirement is pending.\<close>

definition finish_job :: "nat \<Rightarrow> unit coordinator_action" where
  "finish_job i = readA (\<lambda>s.
    if length (cs_running s) \<le> i then retA ()
    else let rv = cs_running s ! i; k = ej_candidate (rv_job rv) in
      if rv_record rv \<noteq> None \<or> rv_requirements rv \<noteq> [] then retA ()
      else seqA
        [whenA (pending_evaluations k (cs_core s) = Inr []) (drop_artifacts k),
         modifyA (\<lambda>s. s\<lparr>cs_running := take i (cs_running s) @ drop (Suc i) (cs_running s)\<rparr>),
         unschedule k])"

section \<open>Start\<close>

record coordinator_config =
  cc_foundry :: foundry_id
  cc_fresh_start :: bool
  cc_budgets :: budget_limits
  cc_workspace_root :: string

definition core_config ::
  "coordinator_config \<Rightarrow> foundry_id \<Rightarrow> foundry_run_id \<Rightarrow> coordinator_epoch \<Rightarrow> u32 \<Rightarrow> foundry_config" where
  "core_config cc foundry run epoch salt =
    \<lparr>cfg_foundry = foundry, cfg_run = run, cfg_epoch = epoch, cfg_id_salt = salt,
     cfg_workspace_root = cc_workspace_root cc, cfg_default_budgets = cc_budgets cc\<rparr>"

text \<open>
  Recover or create the durable state. \<open>loaded\<close> is what the snapshot store reads, none when there
  is no snapshot; \<open>salt\<close> and \<open>run\<close> are what \<^verbatim>\<open>make_id_salt\<close> and \<^verbatim>\<open>make_foundry_run_id\<close> return.
\<close>

definition fresh_core :: "coordinator_config \<Rightarrow> u32 \<Rightarrow> foundry_run_id \<Rightarrow> foundry_core result" where
  "fresh_core cc salt run =
    (if id_valid (cc_foundry cc)
     then Inr (make_core salt (core_config cc (cc_foundry cc) run (CoordinatorEpoch 1) salt))
     else case fst (alloc_next IK_Foundry (make_allocator salt)) of
       Inl e \<Rightarrow> Inl e
     | Inr minted \<Rightarrow> Inr (make_core salt (core_config cc minted run (CoordinatorEpoch 1) salt)))"

definition recovered_core :: "coordinator_config \<Rightarrow> u32 \<Rightarrow> foundry_snapshot \<Rightarrow> foundry_core result" where
  "recovered_core cc salt snap =
    (case epoch_next (snap_epoch snap) of
       None \<Rightarrow> Inl E_IdentityExhausted
     | Some epoch \<Rightarrow>
       (case recover snap (make_core salt (core_config cc
            (if id_valid (cc_foundry cc) then cc_foundry cc else snap_foundry snap) (snap_run snap) epoch
            (snap_id_salt snap))) of
          (Inl e, _) \<Rightarrow> Inl e
        | (Inr _, c) \<Rightarrow> Inr c))"

definition start_core ::
  "coordinator_config \<Rightarrow> u32 \<Rightarrow> foundry_run_id \<Rightarrow> foundry_snapshot result option \<Rightarrow> foundry_core result" where
  "start_core cc salt run loaded =
    (case loaded of
       None \<Rightarrow> fresh_core cc salt run
     | Some r \<Rightarrow>
       if cc_fresh_start cc then fresh_core cc salt run
       else (case r of Inl e \<Rightarrow> Inl e | Inr snap \<Rightarrow> recovered_core cc salt snap))"

definition idle_coordinator :: "foundry_core \<Rightarrow> foundry_snapshot list \<Rightarrow> save_result list \<Rightarrow> coordinator" where
  "idle_coordinator c images saves =
    \<lparr>cs_core = c, cs_images = images, cs_saves = saves,
     cs_statistics = \<lparr>cst_connections_accepted = 0, cst_frames_received = 0, cst_frames_sent = 0,
       cst_frames_rejected = 0, cst_evaluations_started = 0, cst_evaluations_completed = 0,
       cst_evaluations_failed = 0, cst_snapshots_written = 0, cst_stale_rejections = 0,
       cst_protocol_violations = 0, cst_worker_disconnects = 0\<rparr>,
     cs_registry = [], cs_connections = [], cs_next_connection = 1, cs_artifacts = [],
     cs_jobs = [], cs_scheduled = [], cs_awaiting = [], cs_new_jobs = [], cs_running = [],
     cs_scratch_counter = 0, cs_sessions = [], cs_stopping = False,
     cs_shutdown_requested = False, cs_shutdown_complete = False, cs_shutdown_reason = []\<rparr>"

text \<open>The first start of a coordinator object; \<open>bound\<close> is the result of binding its endpoint.\<close>

definition start_coordinator ::
  "coordinator_config \<Rightarrow> u32 \<Rightarrow> foundry_run_id \<Rightarrow> foundry_snapshot result option \<Rightarrow> status \<Rightarrow>
   save_result list \<Rightarrow> coordinator result" where
  "start_coordinator cc salt run loaded bound saves =
    (case start_core cc salt run loaded of
       Inl e \<Rightarrow> Inl e
     | Inr c \<Rightarrow>
       (case bound of
          Inl e \<Rightarrow> Inl e
        | Inr _ \<Rightarrow>
          (case persist (idle_coordinator c (case loaded of Some (Inr snap) \<Rightarrow> [snap] | _ \<Rightarrow> []) saves) of
             (Inl e, _) \<Rightarrow> Inl e
           | (Inr _, s) \<Rightarrow> Inr s)))"

section \<open>Shutdown\<close>

definition request_shutdown :: "string \<Rightarrow> unit coordinator_action" where
  "request_shutdown reason = modifyA (\<lambda>s. s\<lparr>cs_shutdown_requested := True,
    cs_shutdown_reason := (if reason \<noteq> [] then reason
      else if cs_shutdown_reason s = [] then ''shutdown requested'' else cs_shutdown_reason s)\<rparr>)"

text \<open>Refused while another shutdown runs; the result says whether there is anything to stop.\<close>

definition begin_shutdown :: "string \<Rightarrow> bool coordinator_action" where
  "begin_shutdown reason = readA (\<lambda>s.
    if cs_shutdown_complete s then retA False
    else if cs_stopping s then failA E_ShutdownInProgress
    else thenA (modifyA (\<lambda>s. s\<lparr>cs_stopping := True,
        cs_shutdown_reason := (if cs_shutdown_reason s = []
          then (if reason = [] then ''shutdown requested'' else reason) else cs_shutdown_reason s)\<rparr>))
      (retA True))"

definition shutting_down_text :: string where
  "shutting_down_text = ''the coordinator is shutting down''"

definition stop_connection :: "u64 \<times> bool \<Rightarrow> unit coordinator_action" where
  "stop_connection target = (case target of (k, is_worker) \<Rightarrow> readA (\<lambda>s. seqA
    [whenA is_worker (ignoreA (on_connection k (queue_text k s) (send_message MT_ShutdownCoordinator []))),
     ignoreA (on_connection k shutting_down_text (request_close E_ConnectionClosed))]))"

text \<open>
  The rest of \<^verbatim>\<open>shutdown\<close>, once the acceptor, the pump and the pool have been joined: the final
  snapshot, the workspace (\<open>removed\<close> is what removing it returns), the connections.
\<close>

definition finish_shutdown :: "status \<Rightarrow> unit coordinator_action" where
  "finish_shutdown removed = (\<lambda>s.
    case persist_final s of (saved, s1) \<Rightarrow>
      (case seqA
        [readA (\<lambda>s. forA (map (\<lambda>(k, e). (k, re_is_worker e)) (cs_registry s)) stop_connection),
         modifyA (\<lambda>s. s\<lparr>cs_registry := [], cs_stopping := False, cs_shutdown_complete := True\<rparr>)] s1 of
       (_, s2) \<Rightarrow> (first_failure [saved, removed], s2)))"

end
