(* ===== verification/Coordinator_Histories.thy ===== *)
theory Coordinator_Histories
  imports Coordinator_Pump "HOL-Library.Multiset"
begin

text \<open>
  Arbitrary interleavings of what the threads of a coordinator do, and what holds along every
  one of them: the core only moves by calls of its operations, the caches and the schedule stay
  as the threads assume them.
\<close>

section \<open>Events\<close>

datatype coordinator_event =
    AcceptConnection bool
  | FrameArrives u64 frame
  | CloseConnection u64 error_code string
  | WriterTakes u64
  | WriterSends u64 nat
  | ScanCandidates
  | StartEvaluation
  | EnqueueEvaluations
  | ScanSessions
  | DispatchWorker
  | TakeJob
  | EvaluateNext nat
  | CommitNext nat
  | FinishJob nat
  | RequestShutdown string
  | BeginShutdown string
  | FinishShutdown status

fun coordinator_step :: "environment \<Rightarrow> coordinator_event \<Rightarrow> coordinator \<Rightarrow> coordinator" where
  "coordinator_step env (AcceptConnection started) s = snd (accept_connection started s)"
| "coordinator_step env (FrameArrives k f) s = snd (handle_frame env k f s)"
| "coordinator_step env (CloseConnection k e text) s = snd (on_connection k text (request_close e) s)"
| "coordinator_step env (WriterTakes k) s = snd (on_connection k [] (modifyA writer_take) s)"
| "coordinator_step env (WriterSends k n) s = snd (on_connection k [] (modifyA (writer_sent n)) s)"
| "coordinator_step env ScanCandidates s = snd (scan_candidates s)"
| "coordinator_step env StartEvaluation s = snd (start_next_evaluation s)"
| "coordinator_step env EnqueueEvaluations s = snd (enqueue_evaluations s)"
| "coordinator_step env ScanSessions s = snd (scan_sessions s)"
| "coordinator_step env DispatchWorker s = snd (dispatch_next_worker s)"
| "coordinator_step env TakeJob s = snd (take_job env s)"
| "coordinator_step env (EvaluateNext i) s = snd (evaluate_next env i s)"
| "coordinator_step env (CommitNext i) s = snd (commit_next i s)"
| "coordinator_step env (FinishJob i) s = snd (finish_job i s)"
| "coordinator_step env (RequestShutdown reason) s = snd (request_shutdown reason s)"
| "coordinator_step env (BeginShutdown reason) s = snd (begin_shutdown reason s)"
| "coordinator_step env (FinishShutdown removed) s = snd (finish_shutdown removed s)"

definition coordinator_run :: "environment \<Rightarrow> coordinator_event list \<Rightarrow> coordinator \<Rightarrow> coordinator" where
  "coordinator_run env es s = fold (coordinator_step env) es s"

section \<open>What every step keeps\<close>

text \<open>No cached artifact has content, and no connection is known to have an attempt.\<close>

definition caches_empty :: "coordinator \<Rightarrow> bool" where
  "caches_empty s \<longleftrightarrow>
    (\<forall>a \<in> snd ` set (cs_artifacts s). ca_content a = []) \<and>
    (\<forall>e \<in> snd ` set (cs_registry s). \<not> re_has_authority e)"

definition jobs_of :: "coordinator \<Rightarrow> candidate_id list" where
  "jobs_of s = map ej_candidate (cs_new_jobs s @ cs_jobs s @ map rv_job (cs_running s))"

definition jobs_ok :: "coordinator \<Rightarrow> bool" where
  "jobs_ok s \<longleftrightarrow> distinct (jobs_of s) \<and> set (jobs_of s) \<subseteq> set (cs_scheduled s)"

definition coordinator_evolves :: "(binary64 \<Rightarrow> string) \<Rightarrow> coordinator \<Rightarrow> coordinator \<Rightarrow> bool" where
  "coordinator_evolves shortest s s' \<longleftrightarrow>
    core_reaches shortest (cs_core s) (cs_core s') \<and>
    (caches_empty s \<longrightarrow> caches_empty s') \<and> (jobs_ok s \<longrightarrow> jobs_ok s')"

lemma core_reaches_trans:
  "core_reaches shortest b c \<Longrightarrow> core_reaches shortest a b \<Longrightarrow> core_reaches shortest a c"
  by (induction rule: core_reaches.induct) (auto intro: core_reaches.call)

interpretation evolution: two_state "coordinator_evolves shortest" for shortest
  by unfold_locales (auto simp: coordinator_evolves_def intro: core_reaches.start core_reaches_trans)

text \<open>The calls of the core that the coordinator makes.\<close>

lemma core_call: "snd (m c) = perform shortest f c \<Longrightarrow> core_reaches shortest c (snd (m c))"
  using core_reaches.call [OF core_reaches.start, of shortest c f] by simp

lemma keeps_core_call:
  assumes "\<And>c. \<exists>f. snd (m c) = perform shortest f c"
  shows "keeps (coordinator_evolves shortest) (on_core m)"
proof -
  have "core_reaches shortest c (snd (m c))" for c
    using assms [of c] core_call by metis
  then show ?thesis
    by (auto simp: keeps_def step_ok_def on_core_def coordinator_evolves_def caches_empty_def
        jobs_ok_def jobs_of_def split: prod.splits) (metis snd_conv)
qed

lemma performs:
  "\<exists>f. snd (register_worker r c) = perform shortest f c"
  "\<exists>f. snd (worker_ready w x c) = perform shortest f c"
  "\<exists>f. snd (revalidate_worker w x c) = perform shortest f c"
  "\<exists>f. snd (worker_disconnected w x c) = perform shortest f c"
  "\<exists>f. snd (acknowledge_attempt a c) = perform shortest f c"
  "\<exists>f. snd (publish_candidate a refs x c) = perform shortest f c"
  "\<exists>f. snd (report_attempt_failure a x c) = perform shortest f c"
  "\<exists>f. snd (record_evaluation e c) = perform shortest f c"
  "\<exists>f. snd (begin_evaluation k c) = perform shortest f c"
  "\<exists>f. snd (authorize_attempt w c) = perform shortest f c"
  "\<exists>f. snd (confirm_dispatch w att g c) = perform shortest f c"
  by (rule exI [of _ "RegisterWorker r"] exI [of _ "WorkerReady w x"] exI [of _ "RevalidateWorker w x"]
      exI [of _ "WorkerDisconnected w x"] exI [of _ "AcknowledgeAttempt a"]
      exI [of _ "PublishCandidate a refs x"] exI [of _ "ReportAttemptFailure a x"]
      exI [of _ "RecordEvaluation e"] exI [of _ "BeginEvaluation k"] exI [of _ "AuthorizeAttempt w"]
      exI [of _ "ConfirmDispatch w att g"], simp)+

lemma performs_control:
  "\<exists>f. snd (define_task spec c) = perform shortest f c"
  "\<exists>f. snd (define_policy policy c) = perform shortest f c"
  "\<exists>f. snd (create_population pspec c) = perform shortest f c"
  "\<exists>f. snd (start_population p g c) = perform shortest f c"
  "\<exists>f. snd (close_population p c) = perform shortest f c"
  "\<exists>f. snd (advance_population p x c) = perform shortest f c"
  "\<exists>f. snd (prepare_selection shortest p c) = perform shortest f c"
  "\<exists>f. snd (commit_selection shortest d c) = perform shortest f c"
  "\<exists>f. snd (prepare_retention shortest p c) = perform shortest f c"
  "\<exists>f. snd (commit_retention shortest rd c) = perform shortest f c"
  "\<exists>f. snd (prepare_promotion_request shortest p c) = perform shortest f c"
  "\<exists>f. snd (record_promotion_receipt pr receipt c) = perform shortest f c"
  "\<exists>f. snd (request_population_revalidation p x c) = perform shortest f c"
  "\<exists>f. snd (cancel_attempt att x c) = perform shortest f c"
  by (rule exI [of _ "DefineTask spec"] exI [of _ "DefinePolicy policy"] exI [of _ "CreatePopulation pspec"]
      exI [of _ "StartPopulation p g"] exI [of _ "ClosePopulation p"] exI [of _ "AdvancePopulation p x"]
      exI [of _ "PrepareSelection p"] exI [of _ "CommitSelection d"] exI [of _ "PrepareRetention p"]
      exI [of _ "CommitRetention rd"] exI [of _ "PreparePromotionRequest p"]
      exI [of _ "RecordPromotionReceipt pr receipt"] exI [of _ "RequestPopulationRevalidation p x"]
      exI [of _ "CancelAttempt att x"], simp)+

lemmas keeps_core_calls = performs [THEN keeps_core_call] performs_control [THEN keeps_core_call]


section \<open>The bookkeeping\<close>

text \<open>A step that leaves the core, the caches and the jobs alone.\<close>

definition same_caches :: "coordinator \<Rightarrow> coordinator \<Rightarrow> bool" where
  "same_caches s s' \<longleftrightarrow> cs_core s' = cs_core s \<and> cs_artifacts s' = cs_artifacts s \<and>
    cs_registry s' = cs_registry s"

lemma jobs_ok_mset:
  "mset (jobs_of s') = mset (jobs_of s) \<Longrightarrow> cs_scheduled s' = cs_scheduled s \<Longrightarrow> jobs_ok s' = jobs_ok s"
  by (metis jobs_ok_def mset_eq_imp_distinct_iff mset_eq_setD)

lemma evolves_frame:
  assumes "cs_core s' = cs_core s" and "set (cs_artifacts s') \<subseteq> set (cs_artifacts s)"
    and "\<And>e. e \<in> snd ` set (cs_registry s') \<Longrightarrow> \<not> re_has_authority e \<or> e \<in> snd ` set (cs_registry s)"
    and "mset (jobs_of s') = mset (jobs_of s)" and "cs_scheduled s' = cs_scheduled s"
  shows "coordinator_evolves shortest s s'"
proof -
  have "caches_empty s \<Longrightarrow> caches_empty s'"
    using assms(2,3) by (fastforce simp: caches_empty_def)
  then show ?thesis
    using assms(1) jobs_ok_mset [OF assms(4,5)] by (simp add: coordinator_evolves_def core_reaches.start)
qed

lemma evolves_jobs:
  assumes "same_caches s s'" and "jobs_ok s \<Longrightarrow> jobs_ok s'"
  shows "coordinator_evolves shortest s s'"
  using assms by (simp add: coordinator_evolves_def same_caches_def caches_empty_def core_reaches.start)

lemma jobs_ok_added:
  assumes "mset (jobs_of s') = add_mset k (mset (jobs_of s))" and "k \<notin> set (cs_scheduled s)"
    and "cs_scheduled s' = k # cs_scheduled s" and "jobs_ok s"
  shows "jobs_ok s'"
proof -
  have "mset (jobs_of s') = mset (k # jobs_of s)"
    using assms(1) by simp
  then have "distinct (jobs_of s') = distinct (k # jobs_of s)" and "set (jobs_of s') = set (k # jobs_of s)"
    by (rule mset_eq_imp_distinct_iff, rule mset_eq_setD)
  then show ?thesis
    using assms(2-4) by (auto simp: jobs_ok_def)
qed

lemma jobs_ok_removed:
  assumes "mset (jobs_of s) = add_mset k (mset (jobs_of s'))"
    and "cs_scheduled s' = filter (\<lambda>k'. k' \<noteq> k) (cs_scheduled s)" and "jobs_ok s"
  shows "jobs_ok s'"
proof -
  have "mset (jobs_of s) = mset (k # jobs_of s')"
    using assms(1) by simp
  then have "distinct (jobs_of s) = distinct (k # jobs_of s')" and "set (jobs_of s) = set (k # jobs_of s')"
    by (rule mset_eq_imp_distinct_iff, rule mset_eq_setD)
  then show ?thesis
    using assms(2,3) by (auto simp: jobs_ok_def)
qed

lemma keeps_core_read: "keeps (coordinator_evolves shortest) (core_read f)"
  unfolding core_read_def by (intro evolution.keeps_read evolution.keeps_check)

lemma keeps_mutate_stats: "keeps (coordinator_evolves shortest) (mutate_stats counter)"
  unfolding mutate_stats_def
  by (rule evolution.keeps_modify) (rule evolves_frame, simp_all add: jobs_of_def)

lemma keeps_save_snapshot: "keeps (coordinator_evolves shortest) (save_snapshot shot)"
  by (auto simp: keeps_def step_ok_def save_snapshot_def jobs_of_def intro!: evolves_frame
      split: list.splits save_result.splits)

lemma keeps_persist: "keeps (coordinator_evolves shortest) persist"
  unfolding persist_def
  by (intro evolution.keeps_read evolution.keeps_then keeps_save_snapshot keeps_mutate_stats)

lemma snd_adjust: "e \<in> snd ` set (tbl_adjust k f t) \<Longrightarrow> (\<exists>e' \<in> snd ` set t. e = f e') \<or> e \<in> snd ` set t"
  by (force simp: tbl_adjust_def split: if_splits prod.splits)

lemma keeps_write_entry:
  assumes "\<And>e. re_has_authority (f e) = re_has_authority e"
  shows "keeps (coordinator_evolves shortest) (write_entry k f)"
proof -
  have "\<forall>e \<in> snd ` set (tbl_adjust k f t). \<not> re_has_authority e"
    if "\<forall>e \<in> snd ` set t. \<not> re_has_authority e" for t :: "(u64 \<times> registry_entry) list"
    using that assms snd_adjust [of _ k f t] by metis
  then have "coordinator_evolves shortest s (cs_registry_update (tbl_adjust k f) s)" for s
    by (auto simp: coordinator_evolves_def caches_empty_def jobs_ok_def jobs_of_def core_reaches.start)
  then show ?thesis
    unfolding write_entry_def by (rule evolution.keeps_modify)
qed

lemma keeps_erase_entry: "keeps (coordinator_evolves shortest) (modifyA (cs_registry_update (tbl_erase k)))"
  by (rule evolution.keeps_modify) (rule evolves_frame, auto simp: tbl_erase_def jobs_of_def)

lemma keeps_note_close: "keeps (coordinator_evolves shortest) (note_close k text)"
  unfolding note_close_def
  by (intro evolution.keeps_rules evolution.keeps_control keeps_erase_entry keeps_mutate_stats
      keeps_core_calls keeps_persist)

lemma keeps_on_connection: "keeps (coordinator_evolves shortest) (on_connection k text m)"
proof -
  have "coordinator_evolves shortest s (s\<lparr>cs_connections := t\<rparr>)" for s t
    by (rule evolves_frame) (auto simp: jobs_of_def)
  moreover have "coordinator_evolves shortest s (snd (note_close k text s))" for s
    using keeps_note_close by (simp add: keeps_def step_ok_def)
  ultimately show ?thesis
    by (auto simp: keeps_def step_ok_def on_connection_def Let_def evolution.R_refl
        split: option.splits prod.splits intro: evolution.R_trans)
qed

lemma keeps_send_to: "keeps (coordinator_evolves shortest) (send_to k t payload)"
  unfolding send_to_def
  by (intro evolution.keeps_rules evolution.keeps_control keeps_on_connection keeps_mutate_stats)

lemma keeps_reply: "keeps (coordinator_evolves shortest) (reply k t payload)"
  unfolding reply_def by (rule keeps_send_to)

lemma keeps_send_error: "keeps (coordinator_evolves shortest) (send_error k e detail t)"
  unfolding send_error_def by (rule keeps_reply)

lemma keeps_discard: "keeps R m \<Longrightarrow> keeps R (discardA m)"
  by (auto simp: keeps_def step_ok_def discardA_def bindA_def retA_def split: prod.splits sum.splits)
    (metis snd_conv)+

lemma keeps_control_ack: "keeps (coordinator_evolves shortest) (control_ack k t detail)"
  unfolding control_ack_def by (rule keeps_reply)

lemma keeps_protocol_violation: "keeps (coordinator_evolves shortest) (protocol_violation k text t)"
proof -
  have "coordinator_evolves shortest s s'" if "send_error k e text t s = (r, s')" for e r s s'
    using keeps_send_error [of shortest k e "text" t] that
    by (simp add: keeps_def step_ok_def) (metis snd_conv)
  moreover have "coordinator_evolves shortest s (snd (on_connection k text (request_close E_ProtocolViolation) s))"
    for s
    by (rule keeps_on_connection [THEN keepsD])
  ultimately have "coordinator_evolves shortest s (snd (case send_error k E_ProtocolViolation text t s of
      (replied, s') \<Rightarrow> (replied, case find_entry k s' of
          None \<Rightarrow> s'
        | Some _ \<Rightarrow> snd (on_connection k text (request_close E_ProtocolViolation) s'))))" for s
    by (cases "send_error k E_ProtocolViolation text t s")
      (simp split: option.splits, metis evolution.R_trans)
  then have "keeps (coordinator_evolves shortest)
      (\<lambda>s. case send_error k E_ProtocolViolation text t s of (replied, s') \<Rightarrow>
         (replied, case find_entry k s' of
            None \<Rightarrow> s'
          | Some _ \<Rightarrow> snd (on_connection k text (request_close E_ProtocolViolation) s')))"
    by (simp add: keeps_def step_ok_def)
  then show ?thesis
    unfolding protocol_violation_def
    by (intro evolution.keeps_then evolution.keeps_control keeps_mutate_stats)
qed

lemmas keeps_bookkeeping = keeps_core_read keeps_mutate_stats keeps_persist keeps_note_close
  keeps_on_connection keeps_reply keeps_send_to keeps_send_error keeps_control_ack
  keeps_protocol_violation keeps_discard keeps_core_calls


section \<open>The handlers\<close>

lemmas keeps_handling = evolution.keeps_rules evolution.keeps_control keeps_bookkeeping

lemma keeps_adopt_session: "keeps (coordinator_evolves shortest) (write_entry k (adopt_session w))"
  by (rule keeps_write_entry) (simp add: adopt_session_def)

lemma keeps_fresh_session:
  "keeps (coordinator_evolves shortest) (write_entry k (\<lambda>e. e\<lparr>re_has_session := True, re_session := w\<rparr>))"
  by (rule keeps_write_entry) simp

lemma snd_assign: "a \<in> snd ` set (tbl_assign k v t) \<Longrightarrow> a = v \<or> a \<in> snd ` set t"
  unfolding tbl_assign_def by (induction t) (auto split: if_splits)

lemma keeps_cache_declared: "keeps (coordinator_evolves shortest) (cache_declared k refs)"
proof -
  have "\<forall>a \<in> snd ` set (tbl_assign k \<lparr>ca_declared = refs, ca_content = []\<rparr> t). ca_content a = []"
    if "\<forall>a \<in> snd ` set t. ca_content a = []" for t :: "(candidate_id \<times> candidate_artifacts) list"
    using that snd_assign [of _ k "\<lparr>ca_declared = refs, ca_content = []\<rparr>" t]
    by (metis candidate_artifacts.select_convs(2))
  then show ?thesis
    unfolding cache_declared_def
    by (intro evolution.keeps_modify)
      (auto simp: coordinator_evolves_def caches_empty_def jobs_ok_def jobs_of_def core_reaches.start)
qed

lemma keeps_worker_handlers:
  "keeps (coordinator_evolves shortest) (handle_worker_ready k payload)"
  "keeps (coordinator_evolves shortest) (handle_revalidate k payload)"
  "keeps (coordinator_evolves shortest) (handle_heartbeat k payload)"
  "keeps (coordinator_evolves shortest) (handle_attempt_accepted k payload)"
  "keeps (coordinator_evolves shortest) (handle_candidate_publish k payload)"
  "keeps (coordinator_evolves shortest) (report_failure_for k authority reason)"
  "keeps (coordinator_evolves shortest) (handle_self_report k payload)"
  "keeps (coordinator_evolves shortest) (hello_worker_session k hello)"
  "keeps (coordinator_evolves shortest) (hello_controller_session k)"
  unfolding handle_worker_ready_def handle_revalidate_def handle_heartbeat_def
    handle_attempt_accepted_def handle_candidate_publish_def settle_publication_def report_failure_for_def
    handle_self_report_def hello_worker_session_def hello_controller_session_def
  by (intro keeps_handling keeps_adopt_session keeps_fresh_session keeps_cache_declared)+

lemma keeps_worker_message: "keeps (coordinator_evolves shortest) (handle_worker_message k t payload)"
proof -
  have "keeps (coordinator_evolves shortest) (handle_hello k payload)"
    unfolding handle_hello_def
    by (intro evolution.keeps_bind evolution.keeps_check)
      (simp split: session_role.split add: keeps_worker_handlers evolution.keeps_fail)
  then show ?thesis
    unfolding handle_worker_message_def handle_attempt_result_def handle_attempt_failed_def
    by (intro keeps_handling keeps_worker_handlers)
qed


lemma keeps_controller_changes:
  "keeps (coordinator_evolves (env_shortest env)) (handle_create_task k payload)"
  "keeps (coordinator_evolves (env_shortest env)) (handle_define_policy k payload)"
  "keeps (coordinator_evolves (env_shortest env)) (handle_create_population k payload)"
  "keeps (coordinator_evolves (env_shortest env)) (handle_start_population k payload)"
  "keeps (coordinator_evolves (env_shortest env)) (handle_close_population k payload)"
  "keeps (coordinator_evolves (env_shortest env)) (handle_advance_population k payload)"
  "keeps (coordinator_evolves (env_shortest env)) (handle_request_selection env k payload)"
  "keeps (coordinator_evolves (env_shortest env)) (handle_request_retention env k payload)"
  "keeps (coordinator_evolves (env_shortest env)) (handle_request_promotion env k payload)"
  "keeps (coordinator_evolves (env_shortest env)) (handle_request_revalidation k payload)"
  "keeps (coordinator_evolves (env_shortest env)) (handle_cancel_attempt k payload)"
  unfolding handle_create_task_def handle_define_policy_def handle_create_population_def
    handle_start_population_def handle_close_population_def handle_advance_population_def
    handle_request_selection_def handle_request_retention_def handle_request_promotion_def
    handle_request_revalidation_def handle_cancel_attempt_def
  by (intro keeps_handling)+

lemma keeps_request_shutdown_flag:
  "keeps (coordinator_evolves shortest) (modifyA (\<lambda>s. s\<lparr>cs_shutdown_requested := b, cs_shutdown_reason := f s\<rparr>))"
  by (rule evolution.keeps_modify) (rule evolves_frame, simp_all add: jobs_of_def)

lemma keeps_queries:
  "keeps (coordinator_evolves shortest) (handle_query_population k payload)"
  "keeps (coordinator_evolves shortest) (handle_query_candidate k payload)"
  "keeps (coordinator_evolves shortest) (handle_query_lineage k payload)"
  "keeps (coordinator_evolves shortest) (handle_query_statistics k payload)"
  "keeps (coordinator_evolves shortest) (handle_query_audit k payload)"
  "keeps (coordinator_evolves shortest) (handle_shutdown k payload)"
  unfolding handle_query_population_def handle_query_candidate_def handle_query_lineage_def
    handle_query_statistics_def handle_query_audit_def handle_shutdown_def Let_def
  by (intro keeps_handling keeps_request_shutdown_flag)+

lemma keeps_controller_message:
  "keeps (coordinator_evolves (env_shortest env)) (handle_controller_message env k t payload)"
  unfolding handle_controller_message_def
  by (intro keeps_handling keeps_controller_changes keeps_queries)

lemma keeps_handled:
  assumes "keeps R m" and "\<And>e s0. keeps R (report e s0)" and "\<And>s. R s s"
    and "\<And>s t u. R s t \<Longrightarrow> R t u \<Longrightarrow> R s u"
  shows "keeps R (\<lambda>s0. case m s0 of (Inr x, s') \<Rightarrow> (OK, s') | (Inl e, s') \<Rightarrow> report e s0 s')"
proof -
  have "R s0 (snd (case m s0 of (Inr x, s') \<Rightarrow> (OK, s') | (Inl e, s') \<Rightarrow> report e s0 s'))" for s0
  proof (cases "m s0")
    case (Pair r s')
    then have "R s0 s'"
      using keepsD [OF assms(1), of s0] by simp
    moreover have "R s' (snd (report e s0 s'))" for e
      by (rule keepsD [OF assms(2)])
    ultimately show ?thesis
      using Pair assms(4) by (cases r) auto
  qed
  then show ?thesis by (simp add: keeps_def step_ok_def)
qed

lemma keeps_handle_frame: "keeps (coordinator_evolves (env_shortest env)) (handle_frame env k f)"
  unfolding handle_frame_def Let_def
  by (intro keeps_handling keeps_handled keeps_worker_message keeps_controller_message evolution.R_refl)
    (auto intro: evolution.R_trans)

section \<open>The threads of the coordinator\<close>

lemma keeps_accept: "keeps (coordinator_evolves shortest) (accept_connection started)"
proof -
  have "keeps (coordinator_evolves shortest) (modifyA (\<lambda>s. s\<lparr>cs_next_connection := n\<rparr>))" for n
    by (rule evolution.keeps_modify) (rule evolves_frame, simp_all add: jobs_of_def)
  moreover have "keeps (coordinator_evolves shortest)
      (modifyA (\<lambda>s. s\<lparr>cs_connections := f s, cs_registry := tbl_emplace n new_entry (cs_registry s)\<rparr>))" for f n
    by (rule evolution.keeps_modify)
      (rule evolves_frame, auto simp: tbl_emplace_def new_entry_def jobs_of_def split: if_splits)
  ultimately show ?thesis
    unfolding accept_connection_def Let_def
    by (intro evolution.keeps_rules evolution.keeps_control keeps_erase_entry keeps_mutate_stats)
qed

lemma keeps_schedule:
  "keeps (coordinator_evolves shortest) scan_candidates"
  "keeps (coordinator_evolves shortest) enqueue_evaluations"
  "keeps (coordinator_evolves shortest) scan_sessions"
proof -
  show "keeps (coordinator_evolves shortest) scan_candidates"
    unfolding scan_candidates_def
    by (rule evolution.keeps_modify)
      (simp add: evolution.R_refl split: if_split, intro impI evolves_frame, simp_all add: jobs_of_def)
  show "keeps (coordinator_evolves shortest) enqueue_evaluations"
    unfolding enqueue_evaluations_def
    by (rule evolution.keeps_modify) (rule evolves_frame, auto simp: jobs_of_def)
  show "keeps (coordinator_evolves shortest) scan_sessions"
    unfolding scan_sessions_def
    by (rule evolution.keeps_modify)
      (simp add: evolution.R_refl split: if_split, intro impI evolves_frame, simp_all add: jobs_of_def)
qed

lemma step_schedule:
  assumes "k \<notin> set (cs_scheduled s)"
  shows "step_ok (coordinator_evolves shortest) (seqA
    [on_core (begin_evaluation k),
     modifyA (\<lambda>s. s\<lparr>cs_scheduled := k # cs_scheduled s, cs_new_jobs := cs_new_jobs s @ [job_for k (cs_core s)]\<rparr>)]) s"
  unfolding seqA.simps
proof (intro evolution.step_then)
  show "step_ok (coordinator_evolves shortest) (on_core (begin_evaluation k)) s"
    by (rule evolution.keeps_stepI) (rule keeps_core_calls)
  fix s' assume "on_core (begin_evaluation k) s = (OK, s')"
  then have "cs_scheduled s' = cs_scheduled s"
    by (auto simp: on_core_def split: prod.splits)
  let ?s = "s'\<lparr>cs_scheduled := k # cs_scheduled s', cs_new_jobs := cs_new_jobs s' @ [job_for k (cs_core s')]\<rparr>"
  have "mset (jobs_of ?s) = add_mset k (mset (jobs_of s'))"
    by (simp add: jobs_of_def job_for_def)
  moreover have "k \<notin> set (cs_scheduled s')" and "cs_scheduled ?s = k # cs_scheduled s'"
    using assms \<open>cs_scheduled s' = cs_scheduled s\<close> by simp_all
  ultimately have "jobs_ok s' \<Longrightarrow> jobs_ok ?s"
    by (rule jobs_ok_added)
  moreover have "same_caches s' ?s"
    by (simp add: same_caches_def)
  ultimately have "coordinator_evolves shortest s' ?s"
    by (intro evolves_jobs)
  then show "step_ok (coordinator_evolves shortest)
     (modifyA (\<lambda>s. s\<lparr>cs_scheduled := k # cs_scheduled s, cs_new_jobs := cs_new_jobs s @ [job_for k (cs_core s)]\<rparr>)) s'"
    by (simp add: step_ok_def modifyA_def)
qed (simp add: evolution.keeps_stepI evolution.keeps_ret)


lemma keeps_start_next: "keeps (coordinator_evolves shortest) start_next_evaluation"
proof -
  have awaiting: "keeps (coordinator_evolves shortest) (modifyA (\<lambda>s. s\<lparr>cs_awaiting := ks\<rparr>))" for ks
    by (rule evolution.keeps_modify) (rule evolves_frame, simp_all add: jobs_of_def)
  have "step_ok (coordinator_evolves shortest) start_next_evaluation s" for s
  proof (cases "cs_awaiting s")
    case Nil
    then show ?thesis
      by (simp add: start_next_evaluation_def step_ok_def readA_def retA_def evolution.R_refl)
  next
    case (Cons k ks)
    have scheduled: "k \<notin> set (cs_scheduled s) \<Longrightarrow> step_ok (coordinator_evolves shortest) (ignoreA (seqA
        [on_core (begin_evaluation k),
         modifyA (\<lambda>s. s\<lparr>cs_scheduled := k # cs_scheduled s,
           cs_new_jobs := cs_new_jobs s @ [job_for k (cs_core s)]\<rparr>)])) (s\<lparr>cs_awaiting := ks\<rparr>)"
      using step_schedule [of k "s\<lparr>cs_awaiting := ks\<rparr>" shortest]
      by (simp add: step_ok_def ignoreA_def)
    show ?thesis
      unfolding start_next_evaluation_def
    proof (rule evolution.step_read, simp only: Cons list.case, rule evolution.step_then)
      show "step_ok (coordinator_evolves shortest) (modifyA (\<lambda>s. s\<lparr>cs_awaiting := ks\<rparr>)) s"
        by (rule evolution.keeps_stepI [OF awaiting])
      fix s' assume "modifyA (\<lambda>s. s\<lparr>cs_awaiting := ks\<rparr>) s = (OK, s')"
      then have "s' = s\<lparr>cs_awaiting := ks\<rparr>"
        by (simp add: modifyA_def)
      then show "step_ok (coordinator_evolves shortest) (if k \<in> set (cs_scheduled s) then retA ()
         else ignoreA (seqA
           [on_core (begin_evaluation k),
            modifyA (\<lambda>s. s\<lparr>cs_scheduled := k # cs_scheduled s,
              cs_new_jobs := cs_new_jobs s @ [job_for k (cs_core s)]\<rparr>)])) s'"
        using scheduled by (simp add: evolution.keeps_stepI evolution.keeps_ret)
    qed
  qed
  then show ?thesis by (simp add: keeps_def)
qed

lemma keeps_begin_dispatch: "keeps (coordinator_evolves shortest) (begin_dispatch k w)"
  unfolding begin_dispatch_def Let_def by (intro keeps_handling)

lemma keeps_dispatch_next: "keeps (coordinator_evolves shortest) dispatch_next_worker"
proof -
  have "keeps (coordinator_evolves shortest) (modifyA (\<lambda>s. s\<lparr>cs_sessions := rest\<rparr>))" for rest
    by (rule evolution.keeps_modify) (rule evolves_frame, simp_all add: jobs_of_def)
  then have "keeps (coordinator_evolves shortest)
    (case x of [] \<Rightarrow> retA () | (k, w) # rest \<Rightarrow> thenA (modifyA (\<lambda>s. s\<lparr>cs_sessions := rest\<rparr>))
        (case read_worker w c of Inl _ \<Rightarrow> retA () | Inr record' \<Rightarrow> begin_dispatch k record'))" for x c
    by (cases x) (auto intro!: evolution.keeps_rules evolution.keeps_control keeps_begin_dispatch)
  then show ?thesis
    unfolding dispatch_next_worker_def by (intro evolution.keeps_read)
qed

lemma unscheduled:
  assumes "mset (jobs_of s) = add_mset k (mset (jobs_of s'))" and "same_caches s s'"
    and "cs_scheduled s' = cs_scheduled s"
  shows "coordinator_evolves shortest s (s'\<lparr>cs_scheduled := filter (\<lambda>k'. k' \<noteq> k) (cs_scheduled s')\<rparr>)"
proof (rule evolves_jobs)
  let ?t = "s'\<lparr>cs_scheduled := filter (\<lambda>k'. k' \<noteq> k) (cs_scheduled s')\<rparr>"
  show "same_caches s ?t"
    using assms(2) by (simp add: same_caches_def)
  have "mset (jobs_of s) = add_mset k (mset (jobs_of ?t))"
    using assms(1) by (simp add: jobs_of_def)
  moreover have "cs_scheduled ?t = filter (\<lambda>k'. k' \<noteq> k) (cs_scheduled s)"
    using assms(3) by simp
  ultimately show "jobs_ok s \<Longrightarrow> jobs_ok ?t"
    by (rule jobs_ok_removed)
qed

lemma keeps_take_job: "keeps (coordinator_evolves shortest) (take_job env)"
proof -
  have "coordinator_evolves shortest s (snd (take_job env s))" for s
  proof (cases "cs_jobs s")
    case Nil
    then show ?thesis
      by (simp add: take_job_def readA_def retA_def evolution.R_refl)
  next
    case (Cons job rest)
    have dropped: "coordinator_evolves shortest s (s\<lparr>cs_jobs := rest,
        cs_scheduled := filter (\<lambda>k'. k' \<noteq> ej_candidate job) (cs_scheduled s)\<rparr>)"
      using unscheduled [of s "ej_candidate job" "s\<lparr>cs_jobs := rest\<rparr>"] Cons
      by (simp add: jobs_of_def same_caches_def)
    have taken: "coordinator_evolves shortest s (s\<lparr>cs_jobs := rest, cs_scratch_counter := n,
        cs_running := cs_running s @ [rv]\<rparr>)" if "rv_job rv = job" for rv n
      by (rule evolves_frame) (use that Cons in \<open>simp_all add: jobs_of_def\<close>)
    show ?thesis
      using dropped taken
      by (simp add: take_job_def readA_def thenA_def bindA_def modifyA_def unschedule_def Cons
          split: sum.splits)
  qed
  then show ?thesis by (simp add: keeps_def step_ok_def)
qed


lemma running_update:
  assumes "i < length (cs_running s)" and "rv_job rv = rv_job (cs_running s ! i)"
  shows "coordinator_evolves shortest s (s\<lparr>cs_running := (cs_running s)[i := rv]\<rparr>)"
proof -
  have "map rv_job ((cs_running s)[i := rv]) = map rv_job (cs_running s)"
    using assms by (intro nth_equalityI) (auto simp: nth_list_update)
  then show ?thesis
    by (intro evolves_frame) (simp_all add: jobs_of_def)
qed

lemma keeps_running_update:
  assumes "rv_job rv = rv_job (cs_running s ! i)" and "i < length (cs_running s)"
  shows "step_ok (coordinator_evolves shortest) (modifyA (\<lambda>s. s\<lparr>cs_running := (cs_running s)[i := rv]\<rparr>)) s"
  using running_update [OF assms(2,1)] by (simp add: step_ok_def modifyA_def)

lemma keeps_evaluate_next: "keeps (coordinator_evolves shortest) (evaluate_next env i)"
proof -
  have stats: "cs_running (cs_statistics_update f s) = cs_running s" for f s
    by simp
  have "coordinator_evolves shortest s (snd (evaluate_next env i s))" for s
  proof (cases "length (cs_running s) \<le> i")
    case True
    then show ?thesis by (simp add: evaluate_next_def readA_def retA_def evolution.R_refl)
  next
    case False
    let ?rv = "cs_running s ! i"
    show ?thesis
    proof (cases "rv_record ?rv = None \<and> rv_requirements ?rv \<noteq> []")
      case True
      then obtain requirement rest where rv: "rv_record ?rv = None" "rv_requirements ?rv = requirement # rest"
        by (cases "rv_requirements ?rv") auto
      have frame: "coordinator_evolves shortest s (s\<lparr>cs_statistics := st\<rparr>)" for st
        by (rule evolves_frame) (simp_all add: jobs_of_def)
      have upd: "coordinator_evolves shortest (s\<lparr>cs_statistics := st\<rparr>)
          (s\<lparr>cs_statistics := st, cs_running := (cs_running s)[i := ?rv\<lparr>rv_requirements := rest, rv_record := Some r\<rparr>]\<rparr>)" for st r
        using running_update [of i "s\<lparr>cs_statistics := st\<rparr>" "?rv\<lparr>rv_requirements := rest, rv_record := Some r\<rparr>"] False
        by simp
      have "coordinator_evolves shortest s
          (s\<lparr>cs_statistics := st, cs_running := (cs_running s)[i := ?rv\<lparr>rv_requirements := rest, rv_record := Some r\<rparr>]\<rparr>)" for st r
        using evolution.R_trans [OF frame upd] .
      moreover have "\<exists>st r. snd (evaluate_next env i s) =
          s\<lparr>cs_statistics := st, cs_running := (cs_running s)[i := ?rv\<lparr>rv_requirements := rest, rv_record := Some r\<rparr>]\<rparr>"
        using False rv
        by (cases s) (auto simp: evaluate_next_def Let_def readA_def thenA_def bindA_def modifyA_def whenA_def
            retA_def mutate_stats_def)
      ultimately show ?thesis by (elim exE) simp
    next
      case nothing: False
      then have "evaluate_next env i s = (OK, s)"
        using False by (auto simp: evaluate_next_def Let_def readA_def retA_def split: option.split list.split)
      then show ?thesis by (simp add: evolution.R_refl)
    qed
  qed
  then show ?thesis by (simp add: keeps_def step_ok_def)
qed

lemma keeps_commit_next: "keeps (coordinator_evolves shortest) (commit_next i)"
proof -
  have "step_ok (coordinator_evolves shortest) (commit_next i) s" for s
    unfolding commit_next_def Let_def
  proof (rule evolution.step_read)
    show "step_ok (coordinator_evolves shortest)
      (if length (cs_running s) \<le> i then retA ()
       else case rv_record (cs_running s ! i) of
          None \<Rightarrow> retA ()
        | Some r \<Rightarrow> thenA (modifyA (\<lambda>t. t\<lparr>cs_running := (cs_running t)[i := (cs_running s ! i)\<lparr>rv_record := None\<rparr>]\<rparr>))
            (ignoreA (thenA (on_core (record_evaluation r)) persist))) s"
      by (auto intro!: evolution.keeps_stepI [OF evolution.keeps_ret] evolution.step_then keeps_running_update
          evolution.keeps_stepI [OF evolution.keeps_ignore] evolution.keeps_then keeps_core_calls keeps_persist
          split: option.split)
  qed
  then show ?thesis by (simp add: keeps_def)
qed

lemma keeps_drop_artifacts: "keeps (coordinator_evolves shortest) (drop_artifacts k)"
  unfolding drop_artifacts_def
  by (rule evolution.keeps_modify) (rule evolves_frame, auto simp: tbl_erase_def jobs_of_def)

lemma remove_running:
  "i < length xs \<Longrightarrow> mset xs = add_mset (xs ! i) (mset (take i xs @ drop (Suc i) xs))"
  using id_take_nth_drop [of i xs] by (metis mset.simps(2) mset_append union_mset_add_mset_right)

lemma keeps_finish_job: "keeps (coordinator_evolves shortest) (finish_job i)"
proof -
  have "step_ok (coordinator_evolves shortest) (finish_job i) s" for s
    unfolding finish_job_def Let_def
  proof (rule evolution.step_read)
    let ?rv = "cs_running s ! i" and ?k = "ej_candidate (rv_job (cs_running s ! i))"
    let ?rest = "\<lambda>xs. take i xs @ drop (Suc i) xs"
    have removed: "coordinator_evolves shortest t (t\<lparr>cs_running := ?rest (cs_running t),
        cs_scheduled := filter (\<lambda>k'. k' \<noteq> ?k) (cs_scheduled t)\<rparr>)"
      if "cs_running t = cs_running s" and "i < length (cs_running s)" for t
    proof -
      have "mset (map (ej_candidate \<circ> rv_job) (cs_running s)) =
          add_mset ?k (mset (map (ej_candidate \<circ> rv_job) (?rest (cs_running s))))"
        using remove_running [OF that(2)] by (metis (no_types, lifting) comp_apply image_mset_add_mset mset_map)
      then have "mset (jobs_of t) = add_mset ?k (mset (jobs_of (t\<lparr>cs_running := ?rest (cs_running t)\<rparr>)))"
        using that(1) by (simp add: jobs_of_def)
      then show ?thesis
        using unscheduled [of t ?k "t\<lparr>cs_running := ?rest (cs_running t)\<rparr>"] by (simp add: same_caches_def)
    qed
    have dropped: "coordinator_evolves shortest s (cs_artifacts_update (tbl_erase k) s)" for k
      by (rule evolves_frame) (auto simp: tbl_erase_def jobs_of_def)
    show "step_ok (coordinator_evolves shortest)
      (if length (cs_running s) \<le> i then retA ()
       else if rv_record ?rv \<noteq> None \<or> rv_requirements ?rv \<noteq> [] then retA ()
       else seqA
        [whenA (pending_evaluations ?k (cs_core s) = Inr []) (drop_artifacts ?k),
         modifyA (\<lambda>s. s\<lparr>cs_running := ?rest (cs_running s)\<rparr>),
         unschedule ?k]) s"
      using removed [of s] evolution.R_trans [OF dropped removed [of "cs_artifacts_update (tbl_erase ?k) s"]]
      by (cases "i < length (cs_running s)")
        (auto simp: step_ok_def retA_def thenA_def bindA_def whenA_def drop_artifacts_def modifyA_def
          unschedule_def evolution.R_refl)
  qed
  then show ?thesis by (simp add: keeps_def)
qed


lemma keeps_stop_connection: "keeps (coordinator_evolves shortest) (stop_connection target)"
  unfolding stop_connection_def by (intro keeps_handling)

lemma keeps_shutdown:
  "keeps (coordinator_evolves shortest) (request_shutdown reason)"
  "keeps (coordinator_evolves shortest) (begin_shutdown reason)"
  "keeps (coordinator_evolves shortest) (finish_shutdown removed)"
proof -
  have flags: "keeps (coordinator_evolves shortest) (modifyA (\<lambda>s. s\<lparr>cs_stopping := b, cs_shutdown_reason := f s\<rparr>))"
    for b f
    by (rule evolution.keeps_modify) (rule evolves_frame, simp_all add: jobs_of_def)
  show "keeps (coordinator_evolves shortest) (request_shutdown reason)"
    unfolding request_shutdown_def by (rule keeps_request_shutdown_flag)
  show "keeps (coordinator_evolves shortest) (begin_shutdown reason)"
    unfolding begin_shutdown_def by (intro evolution.keeps_rules evolution.keeps_control flags)
  have final: "keeps (coordinator_evolves shortest) persist_final"
    unfolding persist_final_def by (intro evolution.keeps_read keeps_save_snapshot)
  let ?rest = "seqA [readA (\<lambda>s. forA (map (\<lambda>(k, e). (k, re_is_worker e)) (cs_registry s)) stop_connection),
    modifyA (\<lambda>s. s\<lparr>cs_registry := [], cs_stopping := False, cs_shutdown_complete := True\<rparr>)]"
  have "keeps (coordinator_evolves shortest)
      (modifyA (\<lambda>s. s\<lparr>cs_registry := [], cs_stopping := b, cs_shutdown_complete := c\<rparr>))" for b c
    by (rule evolution.keeps_modify) (rule evolves_frame, simp_all add: jobs_of_def)
  then have rest: "keeps (coordinator_evolves shortest) ?rest"
    by (intro evolution.keeps_rules evolution.keeps_control keeps_stop_connection)
  have "snd (finish_shutdown removed s) = snd (?rest (snd (persist_final s)))" for s
    unfolding finish_shutdown_def by (simp only: split_beta snd_conv)
  then have "coordinator_evolves shortest s (snd (finish_shutdown removed s))" for s
    using evolution.R_trans [OF keepsD [OF final] keepsD [OF rest], of s] by simp
  then show "keeps (coordinator_evolves shortest) (finish_shutdown removed)"
    by (simp add: keeps_def step_ok_def)
qed

lemmas keeps_events = keeps_accept keeps_handle_frame keeps_on_connection keeps_schedule
  keeps_start_next keeps_dispatch_next keeps_take_job keeps_evaluate_next keeps_commit_next
  keeps_finish_job keeps_shutdown

lemma step_evolves: "coordinator_evolves (env_shortest env) s (coordinator_step env e s)"
  by (cases e) (simp_all add: keeps_events [THEN keepsD])

lemma run_evolves: "coordinator_evolves (env_shortest env) s (coordinator_run env es s)"
proof (induction es arbitrary: s)
  case Nil
  then show ?case by (simp add: coordinator_run_def evolution.R_refl)
next
  case (Cons e es)
  then show ?case
    using evolution.R_trans [OF step_evolves Cons.IH, of s e] by (simp add: coordinator_run_def)
qed

end
