(* ===== verification/Coordinator_Guarantees.thy ===== *)
theory Coordinator_Guarantees
  imports Coordinator_Histories
begin

text \<open>
  What the coordinator guarantees around the core, and where it does not: the properties of its
  histories, of the planes of its connections, of the order of writing and telling, and of what
  a dispatch leaves on disk.
\<close>

section \<open>Histories\<close>

lemma idle_ok:
  "caches_empty (idle_coordinator c shots saves)" "jobs_ok (idle_coordinator c shots saves)"
  by (simp_all add: caches_empty_def jobs_ok_def jobs_of_def idle_coordinator_def)

lemma run_caches_empty: "caches_empty (coordinator_run env es (idle_coordinator c shots saves))"
  using run_evolves [of env "idle_coordinator c shots saves" es] idle_ok
  by (simp add: coordinator_evolves_def)

text \<open>
  The core inside a coordinator is only written by calls of its public operations, so what
  holds along every history of calls of the core holds for it along every history of the steps
  of the coordinator.
\<close>

lemma coordinator_refines_core:
  "core_reaches (env_shortest env) (cs_core s) (cs_core (coordinator_run env es s))"
  using run_evolves [of env s es] by (simp add: coordinator_evolves_def)

text \<open>
  A candidate is in at most one evaluation job at a time, from the moment the pump schedules
  it until the pool thread has finished, however the threads interleave.
\<close>

theorem candidate_has_one_job:
  "distinct (map ej_candidate
     (cs_new_jobs (coordinator_run env es (idle_coordinator c shots saves)) @
      cs_jobs (coordinator_run env es (idle_coordinator c shots saves)) @
      map rv_job (cs_running (coordinator_run env es (idle_coordinator c shots saves)))))"
  using run_evolves [of env "idle_coordinator c shots saves" es] idle_ok
  by (simp add: coordinator_evolves_def jobs_ok_def jobs_of_def)

text \<open>
  C21: In every state a started coordinator reaches, the record of an evaluation has the outcome
  UNSUPPORTED, whichever evaluators are installed: nothing ever puts content into the artifact
  cache, so no evaluator is ever run and no mandatory gate can be passed.
\<close>

theorem coordinator_evaluations_are_unsupported:
  "ev_outcome (evaluate_requirement env' job cand t requirement scratch
     (coordinator_run env es (idle_coordinator c shots saves))) = EO_Unsupported"
proof -
  let ?s = "coordinator_run env es (idle_coordinator c shots saves)"
  have "artifact_content k ?s = []" for k
  proof (cases "tbl_find (cs_artifacts ?s) k")
    case (Some a)
    then have "a \<in> snd ` set (cs_artifacts ?s)"
      by (auto simp: tbl_find_def dest: map_of_SomeD intro: rev_image_eqI)
    then show ?thesis
      using run_caches_empty [of env es c shots saves] Some
      by (auto simp: artifact_content_def caches_empty_def)
  qed (simp add: artifact_content_def)
  then show ?thesis
    by (simp add: evaluate_requirement_def Let_def make_request_def split: option.split)
qed

text \<open>
  C22: A self report is refused in every state a started coordinator reaches, and changes
  nothing: no connection is ever known to have an attempt.
\<close>

theorem self_reports_are_refused:
  "fst (handle_self_report k payload (coordinator_run env es (idle_coordinator c shots saves))) \<noteq> OK \<and>
   snd (handle_self_report k payload (coordinator_run env es (idle_coordinator c shots saves))) =
     coordinator_run env es (idle_coordinator c shots saves)"
proof -
  let ?s = "coordinator_run env es (idle_coordinator c shots saves)"
  have "\<not> re_has_authority e" if "find_entry k ?s = Some e" for e
  proof -
    have "e \<in> snd ` set (cs_registry ?s)"
      using that by (auto simp: find_entry_def tbl_find_def dest: map_of_SomeD intro: rev_image_eqI)
    then show ?thesis
      using run_caches_empty [of env es c shots saves] by (auto simp: caches_empty_def)
  qed
  then show ?thesis
    by (cases "decode_self_report payload"; cases "find_entry k ?s")
      (simp_all add: handle_self_report_def bindA_def checkA_def readA_def failA_def)
qed


section \<open>Written before it is told\<close>

text \<open>The newest image on disk is the snapshot of the core.\<close>

definition durable :: "coordinator \<Rightarrow> bool" where
  "durable s \<longleftrightarrow> (\<exists>older. cs_images s = snapshot (cs_core s) # older)"

definition ends_durable :: "'a coordinator_action \<Rightarrow> bool" where
  "ends_durable m \<longleftrightarrow> (\<forall>s x s'. m s = (Inr x, s') \<longrightarrow> durable s')"

text \<open>Steps that leave the core and the disk alone when they succeed.\<close>

definition calm :: "'a coordinator_action \<Rightarrow> bool" where
  "calm m \<longleftrightarrow> (\<forall>s x s'. m s = (Inr x, s') \<longrightarrow> cs_core s' = cs_core s \<and> cs_images s' = cs_images s)"

lemma ends_bind: "(\<And>x. ends_durable (f x)) \<Longrightarrow> ends_durable (bindA m f)"
  by (fastforce simp: ends_durable_def bindA_def split: prod.splits sum.splits)

lemma ends_then: "ends_durable n \<Longrightarrow> ends_durable (thenA m n)"
  unfolding thenA_def by (rule ends_bind)

lemma ends_read: "(\<And>s. ends_durable (f s)) \<Longrightarrow> ends_durable (readA f)"
  by (auto simp: ends_durable_def readA_def)

lemma ends_calm:
  assumes "ends_durable m" and "calm n"
  shows "ends_durable (thenA m n)"
  unfolding ends_durable_def
proof (intro allI impI)
  fix s x s' assume "thenA m n s = (Inr x, s')"
  then obtain s1 where "m s = (OK, s1)" and "n s1 = (Inr x, s')"
    by (auto simp: thenA_def bindA_def split: prod.splits sum.splits)
  then show "durable s'"
    using assms by (simp add: ends_durable_def calm_def durable_def)
qed

lemma ends_persist: "ends_durable persist"
  by (auto simp: ends_durable_def durable_def persist_def readA_def thenA_def bindA_def save_snapshot_def
      mutate_stats_def modifyA_def split: list.splits save_result.splits)

lemma calm_ret: "calm (retA x)"
  by (simp add: calm_def retA_def)

lemma calm_fail: "calm (failA e)"
  by (simp add: calm_def failA_def)

lemma calm_bind: "calm m \<Longrightarrow> (\<And>x. calm (f x)) \<Longrightarrow> calm (bindA m f)"
  by (fastforce simp: calm_def bindA_def split: prod.splits sum.splits)

lemma calm_then: "calm m \<Longrightarrow> calm n \<Longrightarrow> calm (thenA m n)"
  unfolding thenA_def by (rule calm_bind)

lemma calm_read: "(\<And>s. calm (f s)) \<Longrightarrow> calm (readA f)"
  by (simp add: calm_def readA_def)

lemma calm_core_read: "calm (core_read f)"
  by (auto simp: calm_def core_read_def readA_def checkA_def)

lemma calm_write_entry: "calm (write_entry k f)"
  by (auto simp: calm_def write_entry_def modifyA_def)

lemma calm_mutate_stats: "calm (mutate_stats counter)"
  by (auto simp: calm_def mutate_stats_def modifyA_def)

lemma calm_option: "calm m \<Longrightarrow> (\<And>v. calm (n v)) \<Longrightarrow> calm (case x of None \<Rightarrow> m | Some v \<Rightarrow> n v)"
  by (cases x) simp_all

text \<open>A frame that was queued did not close the connection.\<close>

lemma sent_stays_open:
  "send_message t payload cn = (OK, cn') \<Longrightarrow> \<not> cn_closed cn \<and> \<not> cn_closed cn'"
  by (auto simp: send_message_def send_frame_eq readA_def thenA_def bindA_def modifyA_def failA_def
      retA_def request_close_def split: if_splits prod.splits)

lemma calm_send: "calm (on_connection k text (send_message t payload))"
  by (auto simp: calm_def on_connection_def Let_def dest: sent_stays_open split: option.splits prod.splits)

lemma calm_reply: "calm (reply k t payload)"
  unfolding reply_def send_to_def
  by (intro calm_read calm_option calm_fail calm_then calm_send calm_mutate_stats)

lemma calm_control_ack: "calm (control_ack k t detail)"
  unfolding control_ack_def by (rule calm_reply)

lemma ends_seq_skip: "ends_durable (seqA ms) \<Longrightarrow> ends_durable (seqA (m # ms))"
  by (simp add: ends_then)

lemma ends_seq_persist: "calm (seqA ms) \<Longrightarrow> ends_durable (seqA (persist # ms))"
  by (simp add: ends_calm ends_persist)

lemma calm_seq: "calm (seqA [])" "calm m \<Longrightarrow> calm (seqA ms) \<Longrightarrow> calm (seqA (m # ms))"
  by (simp_all add: calm_ret calm_then)

lemmas calm_rules = calm_seq calm_ret calm_bind calm_then calm_core_read calm_write_entry calm_reply
  calm_control_ack

lemma ends_option: "(\<And>v. ends_durable (n v)) \<Longrightarrow> ends_durable (case x of None \<Rightarrow> failA e | Some v \<Rightarrow> n v)"
  by (cases x) (simp_all add: ends_durable_def failA_def)

text \<open>The requests whose handlers persist once, after their last change of the core.\<close>

definition durable_request :: "message_type \<Rightarrow> bool" where
  "durable_request t \<longleftrightarrow> t \<in> {MT_WorkerReady, MT_Revalidate, MT_AttemptAccepted, MT_AttemptResult,
    MT_AttemptFailed, MT_CreateTask, MT_DefinePolicy, MT_CreatePopulation, MT_StartPopulation,
    MT_ClosePopulation, MT_AdvancePopulation, MT_RequestSelection, MT_RequestRetention,
    MT_RequestPromotion, MT_RequestRevalidation, MT_CancelAttemptRequest}"

lemma ends_worker_handlers:
  "ends_durable (handle_worker_ready k payload)"
  "ends_durable (handle_revalidate k payload)"
  "ends_durable (handle_attempt_accepted k payload)"
  "ends_durable (report_failure_for k authority reason)"
  unfolding handle_worker_ready_def handle_revalidate_def handle_attempt_accepted_def
    report_failure_for_def
  by (intro ends_bind ends_read ends_seq_persist calm_rules | rule ends_seq_skip)+

lemma ends_hello_worker: "ends_durable (hello_worker_session k hello)"
proof -
  have "calm (case find_entry k s of
        None \<Rightarrow> failA E_NotConnected
      | Some _ \<Rightarrow> thenA (write_entry k (adopt_session authority)) (reply k MT_HelloAck payload))" for s authority payload
    by (intro calm_option calm_fail calm_then calm_write_entry calm_reply)
  then show ?thesis
    unfolding hello_worker_session_def
    by (intro ends_bind ends_calm ends_persist calm_bind calm_core_read calm_read)
qed


lemma ends_change: "ends_durable (seqA [on_core m, persist])"
  by (intro ends_seq_skip ends_seq_persist calm_rules)

lemma ends_controller_handlers:
  "ends_durable (handle_create_task k payload)"
  "ends_durable (handle_define_policy k payload)"
  "ends_durable (handle_create_population k payload)"
  "ends_durable (handle_start_population k payload)"
  "ends_durable (handle_close_population k payload)"
  "ends_durable (handle_advance_population k payload)"
  "ends_durable (handle_request_selection env k payload)"
  "ends_durable (handle_request_retention env k payload)"
  "ends_durable (handle_request_revalidation k payload)"
  "ends_durable (handle_cancel_attempt k payload)"
  unfolding handle_create_task_def handle_define_policy_def handle_create_population_def
    handle_start_population_def handle_close_population_def handle_advance_population_def
    handle_request_selection_def handle_request_retention_def handle_request_revalidation_def
    handle_cancel_attempt_def
  by (intro ends_bind ends_seq_persist ends_calm [OF ends_change] ends_calm [OF ends_persist]
      ends_then calm_rules)+

lemma ends_request_promotion: "ends_durable (handle_request_promotion env k payload)"
  unfolding handle_request_promotion_def
  by (intro ends_bind, rule ends_seq_skip, rule ends_seq_skip, intro ends_seq_persist calm_rules)

lemma ends_message:
  assumes "durable_request t"
  shows "ends_durable (if message_type_is_worker t then handle_worker_message k t payload
    else handle_controller_message env k t payload)"
proof -
  have "ends_durable (handle_attempt_result k payload)" "ends_durable (handle_attempt_failed k payload)"
    unfolding handle_attempt_result_def handle_attempt_failed_def
    by (intro ends_bind ends_worker_handlers)+
  then show ?thesis
    using assms
    by (auto simp: durable_request_def message_type_is_worker_def handle_worker_message_def
        handle_controller_message_def ends_worker_handlers ends_controller_handlers
        ends_request_promotion)
qed

text \<open>A publication: the image written before the worker's claim is recorded.\<close>

lemma seq_success:
  assumes "seqA (m # ms) s = (OK, s')"
  obtains s1 where "m s = (OK, s1)" and "seqA ms s1 = (OK, s')"
  using assms by (auto simp: thenA_def bindA_def split: prod.splits sum.splits)

lemma bind_success:
  assumes "bindA m f s = (Inr y, s')"
  obtains x s1 where "m s = (Inr x, s1)" and "f x s1 = (Inr y, s')"
  using assms by (auto simp: bindA_def split: prod.splits sum.splits)

lemma persist_images:
  "cs_core (snd (persist s)) = cs_core s \<and> (cs_images (snd (persist s)) = cs_images s \<or>
     cs_images (snd (persist s)) = snapshot (cs_core s) # cs_images s)"
  by (auto simp: persist_def readA_def thenA_def bindA_def save_snapshot_def mutate_stats_def
      modifyA_def split: list.split save_result.split)

lemma persist_success:
  "persist s = (OK, s') \<Longrightarrow> cs_images s' = snapshot (cs_core s) # cs_images s \<and> cs_core s' = cs_core s"
  by (auto simp: persist_def readA_def thenA_def bindA_def save_snapshot_def mutate_stats_def
      modifyA_def split: list.splits save_result.splits)

text \<open>The claim of the worker that a publication records.\<close>

definition publication_claim :: "candidate_publish_message \<Rightarrow> publication_outcome \<Rightarrow> foundry_core \<Rightarrow> evaluation_record" where
  "publication_claim m outcome c =
    self_report_claim_of (candidate_publish_authority m) (po_candidate outcome) (po_candidate_gen outcome)
      (candidate_publish_self_reported_success m)
      (if candidate_publish_self_report_detail m = [] then ''worker self report''
       else candidate_publish_self_report_detail m) c"

definition publication_on_disk ::
  "candidate_publish_message \<Rightarrow> publication_outcome \<Rightarrow> foundry_core \<Rightarrow> foundry_snapshot list \<Rightarrow> coordinator \<Rightarrow> bool" where
  "publication_on_disk m outcome c images s \<longleftrightarrow>
     cs_core s = snd (record_evaluation (publication_claim m outcome c) c) \<and>
     (cs_images s = snapshot c # images \<or>
      cs_images s = snapshot (cs_core s) # snapshot c # images)"

lemma settled_publication_images:
  assumes "settle_publication k m outcome s = (OK, s')"
  shows "publication_on_disk m outcome (cs_core s) (cs_images s) s'"
  using assms unfolding settle_publication_def
proof (elim seq_success)
  fix s1 s2 s3 s4 s5
  assume first: "persist s = (OK, s1)"
    and cached: "cache_declared (po_candidate outcome) (candidate_publish_artifacts m) s1 = (OK, s2)"
    and claimed: "readA (\<lambda>s. ignoreA (on_core (record_evaluation (self_report_claim_of (candidate_publish_authority m)
       (po_candidate outcome) (po_candidate_gen outcome) (candidate_publish_self_reported_success m)
       (if candidate_publish_self_report_detail m = [] then ''worker self report''
        else candidate_publish_self_report_detail m) (cs_core s))))) s2 = (OK, s3)"
    and again: "ignoreA persist s3 = (OK, s4)"
    and told: "reply k MT_PublishAck (encode_publish_ack_message
       \<lparr>publish_ack_candidate = po_candidate outcome,
        publish_ack_candidate_generation = po_candidate_gen outcome, publish_ack_accepted = True,
        publish_ack_detail = ''output committed transactionally and durably; the worker's own claim was recorded as evidence, not as authority''\<rparr>) s4 = (OK, s5)"
    and last: "seqA [] s5 = (OK, s')"
  have s2: "cs_images s2 = snapshot (cs_core s) # cs_images s" "cs_core s2 = cs_core s"
    using persist_success [OF first] cached by (auto simp: cache_declared_def modifyA_def)
  have s3: "cs_images s3 = cs_images s2" "cs_core s3 = snd (record_evaluation (publication_claim m outcome (cs_core s)) (cs_core s))"
    using claimed s2(2) by (auto simp: readA_def ignoreA_def on_core_def publication_claim_def split: prod.splits)
  have s4: "cs_core s4 = cs_core s3" "cs_images s4 = cs_images s3 \<or> cs_images s4 = snapshot (cs_core s3) # cs_images s3"
    using again persist_images [of s3] by (auto simp: ignoreA_def)
  have "calm (reply k MT_PublishAck payload)" for payload
    by (rule calm_reply)
  then have "cs_images s' = cs_images s4" "cs_core s' = cs_core s4"
    using told last by (auto simp: calm_def retA_def)
  then show ?thesis
    using s2 s3 s4 by (auto simp: publication_on_disk_def)
qed

lemma publish_images:
  assumes "handle_candidate_publish k payload s = (OK, s')"
  shows "\<exists>m session outcome c. decode_candidate_publish payload = Inr m \<and>
    connection_session k s = Inr session \<and>
    publish_candidate (operation_authority session (candidate_publish_authority m))
      (candidate_publish_artifacts m) (candidate_publish_declared_strategy m) (cs_core s) = (Inr outcome, c) \<and>
    publication_on_disk m outcome c (cs_images s) s'"
proof -
  obtain m where m: "decode_candidate_publish payload = Inr m"
    using assms by (auto simp: handle_candidate_publish_def bindA_def checkA_def split: sum.splits)
  obtain session where session: "connection_session k s = Inr session"
    using assms m
    by (auto simp: handle_candidate_publish_def bindA_def checkA_def readA_def split: sum.splits)
  obtain outcome s1 where "on_core (publish_candidate (operation_authority session (candidate_publish_authority m))
      (candidate_publish_artifacts m) (candidate_publish_declared_strategy m)) s = (Inr outcome, s1)"
    and "settle_publication k m outcome s1 = (OK, s')"
    using assms m session
    by (auto simp: handle_candidate_publish_def bindA_def checkA_def readA_def split: sum.splits prod.splits)
  then show ?thesis
    using m session settled_publication_images [of k m outcome s1 s']
    by (auto simp: on_core_def split: prod.splits)
qed

lemma persist_runs:
  assumes "cs_saves s = []"
  shows "persist s = (OK, s\<lparr>cs_images := snapshot (cs_core s) # cs_images s,
    cs_statistics := cst_snapshots_written_update (\<lambda>n. n + 1) (cs_statistics s)\<rparr>)"
  using assms by (cases s) (simp add: persist_def action_defs save_snapshot_def mutate_stats_def)

text \<open>A frame is queued on an open connection whose queue has room.\<close>

lemma send_message_runs:
  assumes "\<not> cn_closed cn" and "length (cn_outbound cn) < kMaxOutboundQueueDepth"
  shows "send_message t payload cn = (OK, cn\<lparr>cn_sequence := cn_sequence cn + 1, cn_outbound := cn_outbound cn @
    [encode_frame (stamp_header (new_header t) payload (cn_sequence cn)) payload]\<rparr>)"
  using assms by (simp add: send_message_def send_frame_eq action_defs)

lemma send_to_runs:
  assumes "find_entry k s = Some e" and "tbl_find (cs_connections s) k = Some cn"
    and "\<not> cn_closed cn" and "length (cn_outbound cn) < kMaxOutboundQueueDepth"
  shows "send_to k t payload s = (OK, s\<lparr>cs_connections := tbl_adjust k (\<lambda>_. cn
      \<lparr>cn_sequence := cn_sequence cn + 1, cn_outbound := cn_outbound cn @
        [encode_frame (stamp_header (new_header t) payload (cn_sequence cn)) payload]\<rparr>) (cs_connections s),
    cs_statistics := cst_frames_sent_update (\<lambda>n. n + 1) (cs_statistics s)\<rparr>)"
  using assms
  by (simp add: send_to_def action_defs on_connection_def send_message_runs Let_def mutate_stats_def)

definition example_session :: worker_session_authority where
  "example_session = \<lparr>wsa_epoch = CoordinatorEpoch 1, wsa_run = StrongId 0x0200000000000001,
     wsa_worker = StrongId 0x0700000000000001, wsa_boot = StrongId 0x0800000000000001,
     wsa_session = StrongId 0x1000000000000001, wsa_session_gen = gen_first\<rparr>"

definition worker_core :: foundry_core where
  "worker_core = (make_core 1 example_config)
    \<lparr>co_run := StrongId 0x0200000000000001, co_workers := [(StrongId 0x0700000000000001, default_worker
       \<lparr>wk_id := StrongId 0x0700000000000001, wk_boot := StrongId 0x0800000000000001,
        wk_session := StrongId 0x1000000000000001, wk_session_gen := gen_first,
        wk_registered_epoch := CoordinatorEpoch 1, wk_state := WS_Registered\<rparr>)]\<rparr>"

definition worker_coordinator :: coordinator where
  "worker_coordinator = (idle_coordinator worker_core [] [])
    \<lparr>cs_registry := [(1, adopt_session example_session new_entry)], cs_connections := [(1, new_connection)]\<rparr>"

definition ready_payload :: string where
  "ready_payload = encode_worker_ready_message \<lparr>worker_ready_session = example_session, worker_ready_capability = []\<rparr>"

lemma ready_decoded:
  "decode_worker_ready ready_payload = Inr \<lparr>worker_ready_session = example_session, worker_ready_capability = []\<rparr>"
proof -
  have "wire_string []" by (simp add: wire_string_def)
  then show ?thesis
    unfolding ready_payload_def decode_worker_ready_def w_worker_ready_message.decodes_iff
    by (simp add: wire_worker_ready_message_def wire_worker_session_authority_def example_session_def
        wire_identity_def wire_simps id_kind_byte_def kIdKindMask_def gen_first_def)
qed

lemma ready_in_core: "\<exists>c. worker_ready example_session [] worker_core = (OK, c)"
  by (simp add: action_defs worker_ready_def validate_worker_session_def check_worker_session_def
    worker_core_def find_worker_def tbl_find_def example_session_def found_or_def guardA_def
    make_core_def example_config_def epoch_valid_def check_coordinator_epoch_def check_run_def id_valid_def require_def
    check_worker_boot_def check_session_def check_session_generation_def default_worker_def gen_first_def
    validate_worker_text_def touch_def write_worker_def null_id_def)

lemma ready_accepted: "\<exists>s'. handle_worker_ready 1 ready_payload worker_coordinator = (OK, s')"
proof -
  obtain c where c: "worker_ready example_session [] worker_core = (OK, c)"
    using ready_in_core by blast
  have open': "find_entry 1 s = Some (adopt_session example_session new_entry)" 
    "tbl_find (cs_connections s) 1 = Some new_connection"
    if "cs_registry s = cs_registry worker_coordinator" "cs_connections s = cs_connections worker_coordinator" for s
    using that by (simp_all add: worker_coordinator_def find_entry_def tbl_find_def)
  have nc: "\<not> cn_closed new_connection" "length (cn_outbound new_connection) < kMaxOutboundQueueDepth"
    by (simp_all add: new_connection_def kMaxOutboundQueueDepth_def)
  have w: "cs_core worker_coordinator = worker_core" "cs_saves worker_coordinator = []"
    by (simp_all add: worker_coordinator_def idle_coordinator_def)
  show ?thesis
    using c w
    by (simp add: handle_worker_ready_def ready_decoded bindA_def checkA_def on_core_def thenA_def persist_runs
      control_ack_def reply_def send_to_runs [OF open' nc] retA_def)
qed
text \<open>
  C19: Nothing is acknowledged before it is on disk. When the handler of a registration or of a
  changing request other than a publication succeeds, and so its acknowledgement is queued, the
  newest image in the snapshot file is the snapshot of the core as it is then. When the handler
  of a publication succeeds, the core published the candidate and then recorded the worker's
  claim; the image of the publication was written, and the newest image is either that one, when
  the second save failed, or the snapshot of the core as it is then, written on top of it.
\<close>

theorem acknowledged_is_on_disk:
  "(durable_request t \<and>
      (if message_type_is_worker t then handle_worker_message k t payload
       else handle_controller_message env k t payload) s = (OK, s') \<longrightarrow>
      (\<exists>older. cs_images s' = snapshot (cs_core s') # older)) \<and>
   (hello_worker_session k hello s = (OK, s') \<longrightarrow>
      (\<exists>older. cs_images s' = snapshot (cs_core s') # older)) \<and>
   (handle_candidate_publish k payload s = (OK, s') \<longrightarrow>
      (\<exists>m session outcome c. decode_candidate_publish payload = Inr m \<and>
         connection_session k s = Inr session \<and>
         publish_candidate (operation_authority session (candidate_publish_authority m))
           (candidate_publish_artifacts m) (candidate_publish_declared_strategy m) (cs_core s) =
           (Inr outcome, c) \<and>
         cs_core s' = snd (record_evaluation (publication_claim m outcome c) c) \<and>
         (cs_images s' = snapshot c # cs_images s \<or>
          cs_images s' = snapshot (cs_core s') # snapshot c # cs_images s)))"
  using ends_message [of t k payload env] ends_hello_worker [of k hello] publish_images [of k payload s s']
  unfolding ends_durable_def durable_def publication_on_disk_def by blast

theorem acknowledged_is_on_disk_witness:
  "\<exists>s'. handle_worker_message 1 MT_WorkerReady ready_payload worker_coordinator = (OK, s') \<and>
     (\<exists>older. cs_images s' = snapshot (cs_core s') # older)"
proof -
  obtain s' where "handle_worker_message 1 MT_WorkerReady ready_payload worker_coordinator = (OK, s')"
    using ready_accepted by (auto simp: handle_worker_message_def)
  then show ?thesis
    using acknowledged_is_on_disk [where t = MT_WorkerReady and s = worker_coordinator and k = 1
        and payload = ready_payload]
    by (auto simp: durable_request_def message_type_is_worker_def)
qed

section \<open>The planes\<close>

lemma persist_frame:
  "cs_core (snd (persist s)) = cs_core s \<and> cs_registry (snd (persist s)) = cs_registry s \<and>
   cs_connections (snd (persist s)) = cs_connections s"
  by (auto simp: persist_def action_defs save_snapshot_def mutate_stats_def split: list.split save_result.split)

lemma note_close_effect:
  assumes "find_entry k s = Some e" and "\<not> re_close_noted e"
  shows "find_entry k (snd (note_close k why s)) = None \<and>
    cs_connections (snd (note_close k why s)) = cs_connections s \<and>
    cs_core (snd (note_close k why s)) = (if re_is_worker e \<and> re_has_session e
      then snd (worker_disconnected (re_session e) (''connection closed: '' @ why) (cs_core s)) else cs_core s)"
proof -
  have gone: "tbl_find (tbl_erase k t) k = None" for t :: "(u64 \<times> registry_entry) list"
    by (induction t) (auto simp: tbl_erase_def tbl_find_def)
  show ?thesis
  proof (cases "re_is_worker e \<and> re_has_session e")
    case False
    then have "(re_is_worker e \<and> re_has_session e) = False"
      by simp
    then show ?thesis
      using assms(1) by (simp only: note_close_def readA_def option.case assms(2) if_False whenA_def)
        (simp add: action_defs find_entry_def gone)
  next
    case True
    let ?wd = "worker_disconnected (re_session e) (''connection closed: '' @ why)"
    let ?s1 = "cs_statistics_update (cst_worker_disconnects_update (\<lambda>n. n + 1))
      (cs_registry_update (tbl_erase k) s)"
    have "snd (note_close k why s) = snd (thenA (on_core ?wd) persist ?s1)"
      using assms True
      by (simp add: note_close_def readA_def whenA_def thenA_modify flatten_simps ignoreA_def
        mutate_stats_def) (simp add: thenA_def bindA_def retA_def)
    moreover have "cs_core (snd (thenA (on_core ?wd) persist ?s1)) = snd (?wd (cs_core s)) \<and>
        cs_registry (snd (thenA (on_core ?wd) persist ?s1)) = tbl_erase k (cs_registry s) \<and>
        cs_connections (snd (thenA (on_core ?wd) persist ?s1)) = cs_connections s"
      by (cases "?wd (cs_core s)"; cases "fst (?wd (cs_core s))")
        (simp_all add: thenA_def bindA_def on_core_def persist_frame)
    ultimately show ?thesis
      using True by (simp add: find_entry_def gone)
  qed
qed

lemma find_adjusted: "tbl_find t k = Some v \<Longrightarrow> tbl_find (tbl_adjust k f t) k = Some (f v)"
  by (simp add: tbl.find_adjust)

lemma request_close_open:
  "\<not> cn_closed cn \<Longrightarrow> request_close e cn = (OK, cn\<lparr>cn_closed := True, cn_closed_calls := cn_closed_calls cn @ [e]\<rparr>)"
  by (simp add: request_close_def action_defs)

lemma close_open_connection:
  assumes "find_entry k s = Some e" and "tbl_find (cs_connections s) k = Some cn"
    and "\<not> re_close_noted e" and "\<not> cn_closed cn"
    and s': "s' = snd (on_connection k why (request_close reason) s)"
  shows "find_entry k s' = None \<and> connection_is_closed k s' \<and>
    cs_core s' = (if re_is_worker e \<and> re_has_session e
      then snd (worker_disconnected (re_session e) (''connection closed: '' @ why) (cs_core s)) else cs_core s)"
proof -
  let ?cn = "cn\<lparr>cn_closed := True, cn_closed_calls := cn_closed_calls cn @ [reason]\<rparr>"
  let ?s1 = "s\<lparr>cs_connections := tbl_adjust k (\<lambda>_. ?cn) (cs_connections s)\<rparr>"
  have "find_entry k ?s1 = Some e"
    using assms(1) by (simp add: find_entry_def)
  note closed = note_close_effect [OF this assms(3), of why]
  have "s' = snd (note_close k why ?s1)"
    unfolding s' using assms(2,4) by (simp add: on_connection_def Let_def request_close_open)
  then show ?thesis
    using closed find_adjusted [OF assms(2)] by (simp add: connection_is_closed_def)
qed

lemma protocol_violation_effect:
  assumes "find_entry k s = Some e" and "tbl_find (cs_connections s) k = Some cn"
    and "\<not> re_close_noted e" and "\<not> cn_closed cn" and "length (cn_outbound cn) < kMaxOutboundQueueDepth"
    and s': "s' = snd (protocol_violation k why t s)"
  shows "find_entry k s' = None \<and> connection_is_closed k s' \<and>
    cs_core s' = (if re_is_worker e \<and> re_has_session e
      then snd (worker_disconnected (re_session e) (''connection closed: '' @ why) (cs_core s)) else cs_core s)"
proof -
  let ?s1 = "cs_statistics_update (cst_protocol_violations_update (\<lambda>n. n + 1) \<circ>
    cst_frames_rejected_update (\<lambda>n. n + 1)) s"
  have s1: "find_entry k ?s1 = Some e" "tbl_find (cs_connections ?s1) k = Some cn" "cs_core ?s1 = cs_core s"
    using assms by (simp_all add: find_entry_def)
  obtain payload where payload: "send_error k E_ProtocolViolation why t = send_to k MT_ErrorResponse payload"
    by (auto simp: send_error_def reply_def)
  define cn' where "cn' = cn\<lparr>cn_sequence := cn_sequence cn + 1, cn_outbound := cn_outbound cn @
    [encode_frame (stamp_header (new_header MT_ErrorResponse) payload (cn_sequence cn)) payload]\<rparr>"
  define s2 where "s2 = ?s1\<lparr>cs_connections := tbl_adjust k (\<lambda>_. cn') (cs_connections ?s1),
    cs_statistics := cst_frames_sent_update (\<lambda>n. n + 1) (cs_statistics ?s1)\<rparr>"
  have s2: "send_error k E_ProtocolViolation why t ?s1 = (OK, s2)"
    unfolding payload s2_def cn'_def by (rule send_to_runs [OF s1(1,2) assms(4,5)])
  have after: "find_entry k s2 = Some e" "tbl_find (cs_connections s2) k = Some cn'" "\<not> cn_closed cn'"
    "cs_core s2 = cs_core s"
    using s1 find_adjusted [OF s1(2), of "\<lambda>_. cn'"] assms(4)
    by (simp_all add: s2_def find_entry_def cn'_def)
  have closing: "s' = snd (on_connection k why (request_close E_ProtocolViolation) s2)"
    unfolding s' protocol_violation_def
    using s2 after(1) by (simp add: thenA_def bindA_def mutate_stats_def modifyA_def retA_def)
  then show ?thesis
    using close_open_connection [OF after(1,2) assms(3) after(3) closing] after(4) by simp
qed

text \<open>
  C20: The two planes are separate. A frame whose type is not that of the plane of its connection,
  or that no peer may send, has no effect on the core but the one a disconnect has: the
  connection is closed, its registration is gone, and nothing but the loss of the worker's
  session can have changed.
\<close>

theorem planes_are_separate:
  assumes "find_entry k s = Some e" and "tbl_find (cs_connections s) k = Some cn"
    and "\<not> re_close_noted e" and "\<not> cn_closed cn" and "length (cn_outbound cn) < kMaxOutboundQueueDepth"
    and "\<not> message_type_is_worker (fh_type (fr_header f)) \<and> \<not> message_type_is_controller (fh_type (fr_header f)) \<or>
      re_is_worker e \<noteq> message_type_is_worker (fh_type (fr_header f)) \<and>
      \<not> (fh_type (fr_header f) = MT_Hello \<and> \<not> re_has_session e)"
  shows "fst (handle_frame env k f s) = OK \<and>
    find_entry k (snd (handle_frame env k f s)) = None \<and>
    connection_is_closed k (snd (handle_frame env k f s)) \<and>
    (cs_core (snd (handle_frame env k f s)) = cs_core s \<or>
     re_is_worker e \<and> re_has_session e \<and> (\<exists>text. cs_core (snd (handle_frame env k f s)) =
       snd (worker_disconnected (re_session e) text (cs_core s))))"
proof -
  let ?s1 = "snd (mutate_stats cst_frames_received_update s)"
  let ?t = "fh_type (fr_header f)"
  define why where "why = (if \<not> message_type_is_worker ?t \<and> \<not> message_type_is_controller ?t
    then not_for_peers_text ?t else other_plane_text (re_is_worker e) ?t)"
  have found: "find_entry k ?s1 = Some e"
    using assms(1) by (simp add: find_entry_def mutate_stats_def modifyA_def)
  have "handle_frame env k f s =
    (if \<not> message_type_is_worker ?t \<and> \<not> message_type_is_controller ?t then
        ignoreA (protocol_violation k (not_for_peers_text ?t) ?t) ?s1
      else ignoreA (protocol_violation k (other_plane_text (re_is_worker e) ?t) ?t) ?s1)"
    using assms(6) found
    by (cases "message_type_is_worker ?t"; cases "message_type_is_controller ?t"; cases "re_is_worker e")
      (simp_all add: handle_frame_def thenA_def bindA_def mutate_stats_def modifyA_def readA_def Let_def)
  then have "handle_frame env k f s = ignoreA (protocol_violation k why ?t) ?s1"
    by (simp add: why_def)
  moreover have "find_entry k ?s1 = Some e" "tbl_find (cs_connections ?s1) k = Some cn" "cs_core ?s1 = cs_core s"
    using assms(1,2) by (simp_all add: find_entry_def mutate_stats_def modifyA_def)
  ultimately show ?thesis
    using protocol_violation_effect [of k ?s1 e cn _ why ?t, OF _ _ assms(3-5) refl]
    by (auto simp: ignoreA_def)
qed

theorem planes_are_separate_witness:
  "\<forall>env. \<exists>f. fh_type (fr_header f) = MT_CreateTask \<and>
     connection_is_closed 1 (snd (handle_frame env 1 f worker_coordinator))"
proof
  fix env
  let ?f = "\<lparr>fr_header = new_header MT_CreateTask, fr_payload = []\<rparr>"
  have "find_entry 1 worker_coordinator = Some (adopt_session example_session new_entry)"
    "tbl_find (cs_connections worker_coordinator) 1 = Some new_connection"
    by (simp_all add: worker_coordinator_def find_entry_def tbl_find_def)
  then show "\<exists>f. fh_type (fr_header f) = MT_CreateTask \<and>
      connection_is_closed 1 (snd (handle_frame env 1 f worker_coordinator))"
    using planes_are_separate [of 1 worker_coordinator _ _ ?f env]
    by (intro exI [of _ ?f])
      (simp add: new_connection_def new_entry_def adopt_session_def kMaxOutboundQueueDepth_def new_header_def
        message_type_is_worker_def message_type_is_controller_def)
qed

end
