(* ===== verification/Snapshot_Codec.thy ===== *)
theory Snapshot_Codec
  imports Wire_Records Core_Recovery
begin

text \<open>
  The primitives of the snapshot codec (\<^verbatim>\<open>Writer\<close> and \<^verbatim>\<open>Reader\<close> of persistence.cpp). The writers of
  scalars, and the readers of those without a range check, lay out the same bytes as the wire
  protocol's, so the definitions of Wire model both; here are the readers that differ: strings
  have a ceiling, enumerations and counts report other codes, and a count has an optional ceiling
  and is compared with the bytes that remain by a division.

  The interface \<open>record_codec\<close> is what every pair of an encoder and a decoder of the snapshot
  promises. It is weaker than \<open>codec\<close>: the decoder need not check everything the encoder was given
  (two of its minimum element sizes are too large, so whether a list is accepted can depend on
  what follows it), but whatever it accepts it has read from the encoding of its result.
\<close>

named_theorems store_simps "reading back a snapshot record, and the lengths of encodings"
named_theorems store_exact "what a snapshot reader accepted is what the writer writes"
named_theorems store_rejects "snapshot readers fail with the codes of the decoding boundary only"

section \<open>Readers\<close>

definition kMaxSnapshotStringBytes :: nat where "kMaxSnapshotStringBytes = 4 * 1024 * 1024"

definition load_str :: "string reader" where
  "load_str = bindA read_u32 (\<lambda>len.
    if kMaxSnapshotStringBytes < unat len then failA E_LengthOutOfRange
    else readA (\<lambda>data. if length data < unat len then failA E_MalformedEncoding else take_bytes (unat len)))"

definition load_enum :: "'a list \<Rightarrow> 'a reader" where
  "load_enum enumerators = bindA read_u8 (\<lambda>b.
    if length enumerators - 1 < unat b then failA E_PersistenceRejectedContent
    else retA (enumerators ! unat b))"

text \<open>A ceiling of 0 is none.\<close>

definition load_count :: "nat \<Rightarrow> nat \<Rightarrow> u32 reader" where
  "load_count max_count min_element_bytes = bindA read_u32 (\<lambda>n.
    if max_count \<noteq> 0 \<and> max_count < unat n then failA E_PersistenceRejectedContent
    else readA (\<lambda>data.
      if min_element_bytes = 0 \<or> length data div min_element_bytes < unat n then failA E_MalformedEncoding
      else retA n))"

definition load_list :: "nat \<Rightarrow> nat \<Rightarrow> 'a reader \<Rightarrow> 'a list reader" where
  "load_list max_count min_element_bytes r =
    bindA (load_count max_count min_element_bytes) (\<lambda>n. read_times (unat n) r)"

definition load_exhausted :: "unit reader" where
  "load_exhausted = readA (\<lambda>data. if length data \<noteq> 0 then failA E_PersistenceRejectedContent else retA ())"

definition write_counters :: "u32 list \<Rightarrow> string" where
  "write_counters values = concat (map write_u32 values)"

definition load_counters :: "nat \<Rightarrow> u32 list reader" where
  "load_counters n = read_times n read_u32"

section \<open>The interface of a record's encoder and decoder\<close>

definition snapshot_rejections :: "error_code set" where
  "snapshot_rejections = {E_MalformedEncoding, E_LengthOutOfRange, E_NullIdentity,
    E_CrossDomainIdentity, E_PersistenceRejectedContent}"

lemma in_snapshot_rejections [store_rejects]:
  "E_MalformedEncoding \<in> snapshot_rejections" "E_LengthOutOfRange \<in> snapshot_rejections"
  "E_NullIdentity \<in> snapshot_rejections" "E_CrossDomainIdentity \<in> snapshot_rejections"
  "E_PersistenceRejectedContent \<in> snapshot_rejections"
  by (simp_all add: snapshot_rejections_def)

lemmas [store_rejects] = rejecting_bind rejecting_basic rejecting_times

lemma rejecting_mono: "rejecting wire_rejections r \<Longrightarrow> rejecting snapshot_rejections r"
  by (auto simp: rejecting_def wire_rejections_def snapshot_rejections_def)

lemma rejecting_load_count [store_rejects]: "rejecting snapshot_rejections (load_count most m)"
  unfolding load_count_def read_u32_def by (intro store_rejects)

lemmas [store_simps] = retA_run length_primitives length_list
lemmas [store_exact] = bindA_accepts

locale record_codec =
  fixes put :: "'a \<Rightarrow> string" and get :: "'a reader" and ok :: "'a \<Rightarrow> bool" and smallest :: nat
  assumes reads: "ok x \<Longrightarrow> get (put x @ t) = (Inr x, t)"
    and canonical: "get s = (Inr x, t) \<Longrightarrow> s = put x @ t"
    and rejects: "rejecting snapshot_rejections get"
    and size: "ok x \<Longrightarrow> smallest \<le> length (put x)"
begin

lemma reads_back [store_simps]: "ok x \<Longrightarrow> get (put x @ t) = (Inr x, t)"
  by (rule reads)

lemma runs [store_simps]: "ok x \<Longrightarrow> bindA get f (put x @ t) = f x t"
  by (simp add: bindA_def reads)

lemma accepts [store_exact]:
  assumes "get s = (Inr x, t)"
  obtains "s = put x @ t"
  using canonical [OF assms] by blast

lemmas rejects_only [store_rejects] = rejects

lemma times_reads:
  "\<forall>x\<in>set xs. ok x \<Longrightarrow> read_times (length xs) get (concat (map put xs) @ t) = (Inr xs, t)"
  by (induction xs) (simp_all add: reads bindA_def retA_def)

lemma times_canonical:
  "read_times n get s = (Inr xs, t) \<Longrightarrow> length xs = n \<and> s = concat (map put xs) @ t"
proof (induction n arbitrary: s xs)
  case 0
  then show ?case by (simp add: retA_def)
next
  case (Suc n)
  then obtain x u ys where "get s = (Inr x, u)" and "read_times n get u = (Inr ys, t)" and "xs = x # ys"
    by (auto simp: retA_def elim!: bindA_accepts)
  with Suc.IH [of u ys] canonical show ?case by fastforce
qed

lemma sizes: "\<forall>x\<in>set xs. ok x \<Longrightarrow> length xs * smallest \<le> length (concat (map put xs))"
  by (induction xs) (auto dest: size)

end

text \<open>Every codec of the wire protocol that the snapshot shares is a codec of the snapshot.\<close>

sublocale wire_codec \<subseteq> stored: record_codec put get ok smallest
  using reads exact rejecting_mono [OF rejects] size by unfold_locales auto

text \<open>
  A list is read back when it is not longer than its ceiling and its elements take at least the
  bytes the decoder assumes, which they do of themselves where that minimum is right.
\<close>

definition roomy_list :: "nat \<Rightarrow> nat \<Rightarrow> ('a \<Rightarrow> string) \<Rightarrow> ('a \<Rightarrow> bool) \<Rightarrow> 'a list \<Rightarrow> bool" where
  "roomy_list most m put ok xs \<longleftrightarrow>
    list_ok most ok xs \<and> length xs * m \<le> length (concat (map put xs))"

context record_codec
begin

lemma roomy_list_codec:
  assumes "0 < most" and "most < 2 ^ 32" and "0 < m"
  shows "record_codec (write_list put) (load_list most m get) (roomy_list most m put ok) 4"
proof
  show "load_list most m get (write_list put xs @ t) = (Inr xs, t)" if "roomy_list most m put ok xs" for xs t
  proof -
    from that have len: "length xs \<le> most" "\<forall>x\<in>set xs. ok x"
      and "length xs * m \<le> length (concat (map put xs) @ t)"
      by (simp_all add: roomy_list_def list_ok_def)
    then have "length xs \<le> length (concat (map put xs) @ t) div m"
      using assms(3) by (simp add: less_eq_div_iff_mult_less_eq)
    moreover have "unat (of_nat (length xs) :: u32) = length xs"
      using len assms(2) by (intro unat_length_u32) simp
    ultimately show ?thesis
      using len times_reads [of xs t] assms
      by (simp add: load_list_def write_list_def load_count_def bindA_def wire_simps readA_def
          retA_def failA_def not_less)
  qed
next
  show "s = write_list put xs @ t" if "load_list most m get s = (Inr xs, t)" for s xs t
  proof -
    from that obtain n u where "load_count most m s = (Inr n, u)" and xs: "read_times (unat n) get u = (Inr xs, t)"
      unfolding load_list_def by (rule bindA_accepts)
    then have "s = write_u32 n @ u"
      by (auto simp: load_count_def readA_def retA_def failA_def split: if_splits
          elim!: bindA_accepts wire_exact)
    with times_canonical [OF xs] show ?thesis
      by (auto simp: write_list_def)
  qed
next
  show "rejecting snapshot_rejections (load_list most m get)"
    unfolding load_list_def by (intro store_rejects rejects)
qed (simp add: write_list_def wire_simps)

lemma list_codec:
  assumes "0 < most" and "most < 2 ^ 32" and "0 < m" and "m \<le> smallest"
  shows "record_codec (write_list put) (load_list most m get) (list_ok most ok) 4"
proof -
  have roomy: "roomy_list most m put ok xs" if "list_ok most ok xs" for xs
    using that sizes [of xs] mult_le_mono2 [OF assms(4), of "length xs"]
    unfolding roomy_list_def list_ok_def by linarith
  note codec = roomy_list_codec [OF assms(1-3)]
  show ?thesis
    using record_codec.reads [OF codec] record_codec.canonical [OF codec] record_codec.rejects [OF codec]
      record_codec.size [OF codec] roomy
    by unfold_locales blast+
qed

end

section \<open>The fields that differ from the wire protocol\<close>

definition storable_string :: "string \<Rightarrow> bool" where
  "storable_string s \<longleftrightarrow> length s \<le> kMaxSnapshotStringBytes"

interpretation store_str: record_codec write_str load_str storable_string 4
proof
  show "load_str (write_str x @ t) = (Inr x, t)" if "storable_string x" for x t
    using that unat_length_u32 [of "length x"]
    by (simp add: storable_string_def kMaxSnapshotStringBytes_def load_str_def write_str_def bindA_def
        wire_simps readA_def take_bytes_def)
next
  show "s = write_str x @ t" if "load_str s = (Inr x, t)" for s x t
  proof -
    from that obtain n u where n: "read_u32 s = (Inr n, u)"
      and "(if kMaxSnapshotStringBytes < unat n then failA E_LengthOutOfRange
        else readA (\<lambda>data. if length data < unat n then failA E_MalformedEncoding
             else take_bytes (unat n))) u = (Inr x, t)"
      unfolding load_str_def by (rule bindA_accepts)
    then have "length x = unat n" and "u = x @ t"
      by (auto simp: readA_def failA_def take_bytes_accepts split: if_splits)
    with n show ?thesis
      by (auto simp: write_str_def elim!: wire_exact)
  qed
next
  show "rejecting snapshot_rejections load_str"
    unfolding load_str_def by (intro store_rejects)
qed (simp add: wire_simps)

context distinct_enum_codec
begin

lemma store_codec: "record_codec (write_enum enumerators) (load_enum enumerators) (\<lambda>_. True) 1"
proof
  show "load_enum enumerators (write_enum enumerators x @ t) = (Inr x, t)" for x t
  proof -
    have "\<not> length enumerators - Suc 0 < enum_ordinal enumerators x"
      using ordinal(1) [of x] by linarith
    then show ?thesis
      by (simp add: load_enum_def write_enum_def bindA_def wire_simps retA_def byte_of_ordinal ordinal(2))
  qed
next
  show "s = write_enum enumerators x @ t" if "load_enum enumerators s = (Inr x, t)" for s x t
  proof -
    have "enumerators \<noteq> []" using every by auto
    then have "n < length enumerators" if "\<not> length enumerators - 1 < n" for n
      using that by (cases enumerators) auto
    with that show ?thesis
      by (auto simp: load_enum_def write_enum_def retA_def failA_def ordinal_nth split: if_splits
          elim!: bindA_accepts wire_exact)
  qed
next
  show "rejecting snapshot_rejections (load_enum enumerators)"
    unfolding load_enum_def by (intro store_rejects)
qed (simp add: wire_simps)

end

sublocale distinct_enum_codec \<subseteq> stored: record_codec "write_enum enumerators" "load_enum enumerators" "\<lambda>_. True" 1
  by (rule store_codec)

lemma counters_read [store_simps]:
  "length vs = n \<Longrightarrow> load_counters n (write_counters vs @ t) = (Inr vs, t)"
  using wire_u32.stored.times_reads [of vs t] by (auto simp: load_counters_def write_counters_def)

lemma counters_canonical [store_exact]:
  assumes "load_counters n s = (Inr vs, t)"
  obtains "length vs = n" and "s = write_counters vs @ t"
  using wire_u32.stored.times_canonical [of n s vs t] assms
  by (auto simp: load_counters_def write_counters_def)

end
