(* ===== verification/Snapshot_Records.thy ===== *)
theory Snapshot_Records
  imports Snapshot_Codec
begin

text \<open>
  The record bodies of the snapshot (persistence.cpp): for every record its encoder
  (\<open>store_x\<close> for \<^verbatim>\<open>write_x\<close>), its decoder (\<open>load_x\<close> for \<^verbatim>\<open>read_x\<close>) and the records the decoder
  takes back (\<open>storable_x\<close>). Every pair is an instance of the interface \<open>record_codec\<close>.
\<close>

section \<open>Bounds of the decoders\<close>

definition kMinStoredInputFileBytes :: nat where "kMinStoredInputFileBytes = 12"
definition kMinStoredRequirementBytes :: nat where "kMinStoredRequirementBytes = 26"
definition kMinStoredRankingFactorBytes :: nat where "kMinStoredRankingFactorBytes = 14"
definition kMinStoredArtifactRefBytes :: nat where "kMinStoredArtifactRefBytes = 16"
definition kMinStoredRankingValueBytes :: nat where "kMinStoredRankingValueBytes = 35"
definition kMinStoredRankingEntryBytes :: nat where "kMinStoredRankingEntryBytes = 40"
definition kMinStoredExclusionEntryBytes :: nat where "kMinStoredExclusionEntryBytes = 18"
definition kMinStoredRetentionEntryBytes :: nat where "kMinStoredRetentionEntryBytes = 25"
definition kMinStoredEvidenceSummaryBytes :: nat where "kMinStoredEvidenceSummaryBytes = 31"
definition kMinStoredIdentityBytes :: nat where "kMinStoredIdentityBytes = 8"
definition kMaxStoredCandidates :: nat where "kMaxStoredCandidates = unat kMaxCandidatesPerPopulation"
definition kMaxClosureBlockers :: nat where "kMaxClosureBlockers = 64"
definition kMaxOutstandingRequirements :: nat where "kMaxOutstandingRequirements = 64"

lemmas store_bounds =
  kMinStoredInputFileBytes_def kMinStoredRequirementBytes_def kMinStoredRankingFactorBytes_def
  kMinStoredArtifactRefBytes_def kMinStoredRankingValueBytes_def kMinStoredRankingEntryBytes_def
  kMinStoredExclusionEntryBytes_def kMinStoredRetentionEntryBytes_def
  kMinStoredEvidenceSummaryBytes_def kMinStoredIdentityBytes_def kMaxClosureBlockers_def
  kMaxOutstandingRequirements_def kMaxStoredCandidates_def kMaxCandidatesPerPopulation_def kMaxRankingFactors_def
  kMaxArtifactsPerCandidate_def kMaxInputFiles_def kMaxEvaluationRequirements_def
  kMaxRequiredOutputs_def kMaxConstraints_def

definition worker_states :: "worker_state list" where
  "worker_states =
    [WS_Connecting, WS_Registered, WS_Ready, WS_Busy, WS_RevalidationRequired, WS_Draining,
     WS_Offline, WS_Rejected]"

interpretation w_worker_states: distinct_enum_codec worker_states
proof
  show "x \<in> set worker_states" for x
    by (cases x) (simp_all add: worker_states_def)
qed (simp_all add: worker_states_def)

section \<open>Lists of strings and of candidates\<close>

definition load_strings :: "nat \<Rightarrow> string list reader" where
  "load_strings max_count = load_list max_count 4 load_str"

definition load_candidate_ids :: "candidate_id list reader" where
  "load_candidate_ids =
    load_list kMaxStoredCandidates kMinStoredIdentityBytes (read_identity IK_Candidate)"

definition storable_candidate_ids :: "candidate_id list \<Rightarrow> bool" where
  "storable_candidate_ids = list_ok kMaxStoredCandidates (wire_identity IK_Candidate)"

lemma strings_codec:
  "0 < most \<Longrightarrow> most < 2 ^ 32 \<Longrightarrow>
   record_codec (write_list write_str) (load_strings most) (list_ok most storable_string) 4"
  unfolding load_strings_def by (rule store_str.list_codec) simp_all

interpretation s_required_outputs: record_codec "write_list write_str" "load_strings kMaxRequiredOutputs"
  "list_ok kMaxRequiredOutputs storable_string" 4
  by (rule strings_codec) (simp_all add: store_bounds)

interpretation s_constraints: record_codec "write_list write_str" "load_strings kMaxConstraints"
  "list_ok kMaxConstraints storable_string" 4
  by (rule strings_codec) (simp_all add: store_bounds)

interpretation s_closure_blockers: record_codec "write_list write_str" "load_strings kMaxClosureBlockers"
  "list_ok kMaxClosureBlockers storable_string" 4
  by (rule strings_codec) (simp_all add: store_bounds)

interpretation s_outstanding: record_codec "write_list write_str" "load_strings kMaxOutstandingRequirements"
  "list_ok kMaxOutstandingRequirements storable_string" 4
  by (rule strings_codec) (simp_all add: store_bounds)

interpretation s_candidate_ids: record_codec "write_list write_identity" load_candidate_ids
  storable_candidate_ids 4
  unfolding load_candidate_ids_def storable_candidate_ids_def
  by (rule wire_id.stored.list_codec) (simp_all add: store_bounds)

section \<open>Records, in dependency order\<close>

definition store_budget_limits :: "budget_limits \<Rightarrow> string" where
  "store_budget_limits v =
     write_u32 (max_candidate_attempts v) @ write_u32 (max_worker_assignments v) @
     write_u32 (max_evaluation_attempts v) @ write_u32 (max_retained_candidates v) @
     write_u32 (max_retries v) @ write_u32 (max_candidates v) @ write_u32 (max_workers v) @
     write_u32 (max_active_attempts v) @ write_u32 (max_evaluation_concurrency v)"

definition load_budget_limits :: "budget_limits reader" where
  "load_budget_limits =
     bindA read_u32 (\<lambda>max_candidate_attempts'.
     bindA read_u32 (\<lambda>max_worker_assignments'.
     bindA read_u32 (\<lambda>max_evaluation_attempts'.
     bindA read_u32 (\<lambda>max_retained_candidates'.
     bindA read_u32 (\<lambda>max_retries'.
     bindA read_u32 (\<lambda>max_candidates'.
     bindA read_u32 (\<lambda>max_workers'.
     bindA read_u32 (\<lambda>max_active_attempts'.
     bindA read_u32 (\<lambda>max_evaluation_concurrency'.
     retA \<lparr>max_candidate_attempts = max_candidate_attempts',
     max_worker_assignments = max_worker_assignments',
     max_evaluation_attempts = max_evaluation_attempts',
     max_retained_candidates = max_retained_candidates', max_retries = max_retries',
     max_candidates = max_candidates', max_workers = max_workers',
     max_active_attempts = max_active_attempts',
     max_evaluation_concurrency = max_evaluation_concurrency'\<rparr>)))))))))"

interpretation s_budget_limits: record_codec store_budget_limits load_budget_limits "\<lambda>_. True" 36
  by unfold_locales
    (auto simp: load_budget_limits_def store_budget_limits_def store_simps
      elim!: store_exact intro!: store_rejects)

definition store_input_file :: "input_file \<Rightarrow> string" where
  "store_input_file v =
     write_str (in_name v) @ write_str (in_content v) @ write_str (in_digest v)"

definition load_input_file :: "input_file reader" where
  "load_input_file =
     bindA load_str (\<lambda>in_name'.
     bindA load_str (\<lambda>in_content'.
     bindA load_str (\<lambda>in_digest'.
     retA \<lparr>in_name = in_name', in_content = in_content', in_digest = in_digest'\<rparr>)))"

definition storable_input_file :: "input_file \<Rightarrow> bool" where
  "storable_input_file v \<longleftrightarrow>
     storable_string (in_name v) \<and> storable_string (in_content v) \<and>
     storable_string (in_digest v)"

interpretation s_input_file: record_codec store_input_file load_input_file storable_input_file 12
  by unfold_locales
    (auto simp: load_input_file_def store_input_file_def storable_input_file_def store_simps
      elim!: store_exact intro!: store_rejects)

definition store_requirement :: "evaluation_requirement \<Rightarrow> string" where
  "store_requirement v =
     write_enum requirement_classes (req_class v) @ write_str (req_key v) @
     write_str (req_description v) @ write_boolean (req_has_score_floor v) @
     write_f64 (req_score_floor v) @ write_f64 (req_ranking_weight v)"

definition load_requirement :: "evaluation_requirement reader" where
  "load_requirement =
     bindA (load_enum requirement_classes) (\<lambda>req_class'.
     bindA load_str (\<lambda>req_key'.
     bindA load_str (\<lambda>req_description'.
     bindA read_boolean (\<lambda>req_has_score_floor'.
     bindA read_f64 (\<lambda>req_score_floor'.
     bindA read_f64 (\<lambda>req_ranking_weight'.
     retA \<lparr>req_class = req_class', req_key = req_key', req_description = req_description',
     req_has_score_floor = req_has_score_floor', req_score_floor = req_score_floor',
     req_ranking_weight = req_ranking_weight'\<rparr>))))))"

definition storable_requirement :: "evaluation_requirement \<Rightarrow> bool" where
  "storable_requirement v \<longleftrightarrow>
     storable_string (req_key v) \<and> storable_string (req_description v)"

interpretation s_requirement: record_codec store_requirement load_requirement storable_requirement 26
  by unfold_locales
    (auto simp: load_requirement_def store_requirement_def storable_requirement_def store_simps
      elim!: store_exact intro!: store_rejects)

definition store_ranking_factor :: "ranking_factor \<Rightarrow> string" where
  "store_ranking_factor v =
     write_enum ranking_factor_kinds (fac_kind v) @
     write_enum ranking_directions (fac_direction v) @ write_f64 (fac_weight v) @
     write_str (fac_key v)"

definition load_ranking_factor :: "ranking_factor reader" where
  "load_ranking_factor =
     bindA (load_enum ranking_factor_kinds) (\<lambda>fac_kind'.
     bindA (load_enum ranking_directions) (\<lambda>fac_direction'.
     bindA read_f64 (\<lambda>fac_weight'.
     bindA load_str (\<lambda>fac_key'.
     retA \<lparr>fac_kind = fac_kind', fac_direction = fac_direction', fac_weight = fac_weight',
     fac_key = fac_key'\<rparr>))))"

definition storable_ranking_factor :: "ranking_factor \<Rightarrow> bool" where
  "storable_ranking_factor v \<longleftrightarrow>
     storable_string (fac_key v)"

interpretation s_ranking_factor: record_codec store_ranking_factor load_ranking_factor storable_ranking_factor 14
  by unfold_locales
    (auto simp: load_ranking_factor_def store_ranking_factor_def storable_ranking_factor_def store_simps
      elim!: store_exact intro!: store_rejects)

interpretation s_ranking_factor_list: record_codec "write_list store_ranking_factor"
  "load_list kMaxRankingFactors kMinStoredRankingFactorBytes load_ranking_factor"
  "list_ok kMaxRankingFactors storable_ranking_factor" 4
  by (rule s_ranking_factor.list_codec) (simp_all add: store_bounds)

definition store_selection_policy :: "selection_policy \<Rightarrow> string" where
  "store_selection_policy v =
     write_list store_ranking_factor (sel_factors v) @
     write_boolean (sel_require_complete_mandatory v)"

definition load_selection_policy :: "selection_policy reader" where
  "load_selection_policy =
     bindA (load_list kMaxRankingFactors kMinStoredRankingFactorBytes load_ranking_factor) (\<lambda>sel_factors'.
     bindA read_boolean (\<lambda>sel_require_complete_mandatory'.
     retA \<lparr>sel_factors = sel_factors',
     sel_require_complete_mandatory = sel_require_complete_mandatory'\<rparr>))"

definition storable_selection_policy :: "selection_policy \<Rightarrow> bool" where
  "storable_selection_policy v \<longleftrightarrow>
     list_ok kMaxRankingFactors storable_ranking_factor (sel_factors v)"

interpretation s_selection_policy: record_codec store_selection_policy load_selection_policy storable_selection_policy 5
  by unfold_locales
    (auto simp: load_selection_policy_def store_selection_policy_def storable_selection_policy_def store_simps
      elim!: store_exact intro!: store_rejects)

definition store_retention_policy :: "retention_policy \<Rightarrow> string" where
  "store_retention_policy v =
     write_u32 (ret_top_k v) @ write_u32 (ret_max_retained v) @
     write_u32 (ret_max_per_lineage v) @ write_boolean (ret_retain_selected v)"

definition load_retention_policy :: "retention_policy reader" where
  "load_retention_policy =
     bindA read_u32 (\<lambda>ret_top_k'.
     bindA read_u32 (\<lambda>ret_max_retained'.
     bindA read_u32 (\<lambda>ret_max_per_lineage'.
     bindA read_boolean (\<lambda>ret_retain_selected'.
     retA \<lparr>ret_top_k = ret_top_k', ret_max_retained = ret_max_retained',
     ret_max_per_lineage = ret_max_per_lineage', ret_retain_selected = ret_retain_selected'\<rparr>))))"

interpretation s_retention_policy: record_codec store_retention_policy load_retention_policy "\<lambda>_. True" 13
  by unfold_locales
    (auto simp: load_retention_policy_def store_retention_policy_def store_simps
      elim!: store_exact intro!: store_rejects)

definition store_artifact_ref :: "artifact_ref \<Rightarrow> string" where
  "store_artifact_ref v =
     write_str (art_name v) @ write_u64 (art_size v) @ write_str (art_digest v)"

definition load_artifact_ref :: "artifact_ref reader" where
  "load_artifact_ref =
     bindA load_str (\<lambda>art_name'.
     bindA read_u64 (\<lambda>art_size'.
     bindA load_str (\<lambda>art_digest'.
     retA \<lparr>art_name = art_name', art_size = art_size', art_digest = art_digest'\<rparr>)))"

definition storable_artifact_ref :: "artifact_ref \<Rightarrow> bool" where
  "storable_artifact_ref v \<longleftrightarrow>
     storable_string (art_name v) \<and> storable_string (art_digest v)"

interpretation s_artifact_ref: record_codec store_artifact_ref load_artifact_ref storable_artifact_ref 16
  by unfold_locales
    (auto simp: load_artifact_ref_def store_artifact_ref_def storable_artifact_ref_def store_simps
      elim!: store_exact intro!: store_rejects)

interpretation s_input_file_list: record_codec "write_list store_input_file"
  "load_list kMaxInputFiles kMinStoredInputFileBytes load_input_file"
  "list_ok kMaxInputFiles storable_input_file" 4
  by (rule s_input_file.list_codec) (simp_all add: store_bounds)

interpretation s_requirement_list: record_codec "write_list store_requirement"
  "load_list kMaxEvaluationRequirements kMinStoredRequirementBytes load_requirement"
  "list_ok kMaxEvaluationRequirements storable_requirement" 4
  by (rule s_requirement.list_codec) (simp_all add: store_bounds)

definition store_task :: "task_spec \<Rightarrow> string" where
  "store_task v =
     write_identity (task_id_of v) @ write_generation (task_gen v) @ write_str (task_name v) @
     write_str (task_objective v) @ write_list store_input_file (task_inputs v) @
     write_list write_str (task_required_outputs v) @
     write_list store_requirement (task_requirements v) @
     write_list write_str (task_hard_constraints v) @
     write_list write_str (task_closure_criteria v) @ write_identity (task_policy v) @
     write_generation (task_policy_gen v) @ store_budget_limits (task_budgets v) @
     write_str (task_digest v)"

definition load_task :: "task_spec reader" where
  "load_task =
     bindA (read_identity IK_Task) (\<lambda>task_id_of'.
     bindA read_generation (\<lambda>task_gen'.
     bindA load_str (\<lambda>task_name'.
     bindA load_str (\<lambda>task_objective'.
     bindA (load_list kMaxInputFiles kMinStoredInputFileBytes load_input_file) (\<lambda>task_inputs'.
     bindA (load_strings kMaxRequiredOutputs) (\<lambda>task_required_outputs'.
     bindA (load_list kMaxEvaluationRequirements kMinStoredRequirementBytes load_requirement) (\<lambda>task_requirements'.
     bindA (load_strings kMaxConstraints) (\<lambda>task_hard_constraints'.
     bindA (load_strings kMaxConstraints) (\<lambda>task_closure_criteria'.
     bindA (read_identity IK_Policy) (\<lambda>task_policy'.
     bindA read_generation (\<lambda>task_policy_gen'.
     bindA load_budget_limits (\<lambda>task_budgets'.
     bindA load_str (\<lambda>task_digest'.
     retA \<lparr>task_id_of = task_id_of', task_gen = task_gen', task_name = task_name',
     task_objective = task_objective', task_inputs = task_inputs',
     task_required_outputs = task_required_outputs', task_requirements = task_requirements',
     task_hard_constraints = task_hard_constraints',
     task_closure_criteria = task_closure_criteria', task_policy = task_policy',
     task_policy_gen = task_policy_gen', task_budgets = task_budgets',
     task_digest = task_digest'\<rparr>)))))))))))))"

definition storable_task :: "task_spec \<Rightarrow> bool" where
  "storable_task v \<longleftrightarrow>
     wire_identity IK_Task (task_id_of v) \<and> storable_string (task_name v) \<and>
     storable_string (task_objective v) \<and>
     list_ok kMaxInputFiles storable_input_file (task_inputs v) \<and>
     list_ok kMaxRequiredOutputs storable_string (task_required_outputs v) \<and>
     list_ok kMaxEvaluationRequirements storable_requirement (task_requirements v) \<and>
     list_ok kMaxConstraints storable_string (task_hard_constraints v) \<and>
     list_ok kMaxConstraints storable_string (task_closure_criteria v) \<and>
     wire_identity IK_Policy (task_policy v) \<and> storable_string (task_digest v)"

interpretation s_task: record_codec store_task load_task storable_task 56
  by unfold_locales
    (auto simp: load_task_def store_task_def storable_task_def store_simps
      elim!: store_exact intro!: store_rejects)

definition store_policy :: "foundry_policy \<Rightarrow> string" where
  "store_policy v =
     write_identity (pol_id v) @ write_generation (pol_gen v) @ write_str (pol_name v) @
     store_selection_policy (pol_selection v) @ store_retention_policy (pol_retention v) @
     store_budget_limits (pol_budgets v) @ write_u32 (pol_max_generation_depth v) @
     write_boolean (pol_carry_forward_elite v) @ write_str (pol_digest v)"

definition load_policy :: "foundry_policy reader" where
  "load_policy =
     bindA (read_identity IK_Policy) (\<lambda>pol_id'.
     bindA read_generation (\<lambda>pol_gen'.
     bindA load_str (\<lambda>pol_name'.
     bindA load_selection_policy (\<lambda>pol_selection'.
     bindA load_retention_policy (\<lambda>pol_retention'.
     bindA load_budget_limits (\<lambda>pol_budgets'.
     bindA read_u32 (\<lambda>pol_max_generation_depth'.
     bindA read_boolean (\<lambda>pol_carry_forward_elite'.
     bindA load_str (\<lambda>pol_digest'.
     retA \<lparr>pol_id = pol_id', pol_gen = pol_gen', pol_name = pol_name', pol_selection = pol_selection',
     pol_retention = pol_retention', pol_budgets = pol_budgets',
     pol_max_generation_depth = pol_max_generation_depth',
     pol_carry_forward_elite = pol_carry_forward_elite', pol_digest = pol_digest'\<rparr>)))))))))"

definition storable_policy :: "foundry_policy \<Rightarrow> bool" where
  "storable_policy v \<longleftrightarrow>
     wire_identity IK_Policy (pol_id v) \<and> storable_string (pol_name v) \<and>
     storable_selection_policy (pol_selection v) \<and> storable_string (pol_digest v)"

interpretation s_policy: record_codec store_policy load_policy storable_policy 25
  by unfold_locales
    (auto simp: load_policy_def store_policy_def storable_policy_def store_simps
      elim!: store_exact intro!: store_rejects)

definition store_population :: "population_record \<Rightarrow> string" where
  "store_population v =
     write_identity (pop_id v) @ write_generation (pop_gen v) @ write_identity (pop_run v) @
     write_str (pop_name v) @ write_identity (pop_task v) @ write_generation (pop_task_gen v) @
     write_identity (pop_policy v) @ write_generation (pop_policy_gen v) @
     write_u32 (pop_candidate_budget v) @ write_u32 (pop_worker_budget v) @
     write_u32 (pop_index v) @ write_identity (pop_predecessor v) @
     write_identity (pop_seed_candidate v) @ write_generation (pop_seed_candidate_gen v) @
     write_identity (pop_seed_lineage v) @ write_enum population_states (pop_state v) @
     write_epoch (pop_created_epoch v) @ write_epoch (pop_state_epoch v) @
     write_generation (pop_committed_selection v) @ write_boolean (pop_retention_committed v) @
     write_generation (pop_retention_selection_gen v) @
     write_boolean (pop_require_promotion_request v) @
     write_list write_identity (pop_candidates v) @ write_u64 (pop_promotion_requests v) @
     write_identity (pop_committed_promotion v) @ write_str (pop_status_detail v) @
     write_list write_str (pop_closure_blockers v)"

definition load_population :: "population_record reader" where
  "load_population =
     bindA (read_identity IK_Population) (\<lambda>pop_id'.
     bindA read_generation (\<lambda>pop_gen'.
     bindA (read_identity IK_FoundryRun) (\<lambda>pop_run'.
     bindA load_str (\<lambda>pop_name'.
     bindA (read_identity IK_Task) (\<lambda>pop_task'.
     bindA read_generation (\<lambda>pop_task_gen'.
     bindA (read_identity IK_Policy) (\<lambda>pop_policy'.
     bindA read_generation (\<lambda>pop_policy_gen'.
     bindA read_u32 (\<lambda>pop_candidate_budget'.
     bindA read_u32 (\<lambda>pop_worker_budget'.
     bindA read_u32 (\<lambda>pop_index'.
     bindA (read_optional_identity IK_Population) (\<lambda>pop_predecessor'.
     bindA (read_optional_identity IK_Candidate) (\<lambda>pop_seed_candidate'.
     bindA read_generation (\<lambda>pop_seed_candidate_gen'.
     bindA (read_optional_identity IK_Lineage) (\<lambda>pop_seed_lineage'.
     bindA (load_enum population_states) (\<lambda>pop_state'.
     bindA read_epoch (\<lambda>pop_created_epoch'.
     bindA read_epoch (\<lambda>pop_state_epoch'.
     bindA read_generation (\<lambda>pop_committed_selection'.
     bindA read_boolean (\<lambda>pop_retention_committed'.
     bindA read_generation (\<lambda>pop_retention_selection_gen'.
     bindA read_boolean (\<lambda>pop_require_promotion_request'.
     bindA load_candidate_ids (\<lambda>pop_candidates'.
     bindA read_u64 (\<lambda>pop_promotion_requests'.
     bindA (read_optional_identity IK_PromotionRequest) (\<lambda>pop_committed_promotion'.
     bindA load_str (\<lambda>pop_status_detail'.
     bindA (load_strings kMaxClosureBlockers) (\<lambda>pop_closure_blockers'.
     retA \<lparr>pop_id = pop_id', pop_gen = pop_gen', pop_run = pop_run', pop_name = pop_name',
     pop_task = pop_task', pop_task_gen = pop_task_gen', pop_policy = pop_policy',
     pop_policy_gen = pop_policy_gen', pop_candidate_budget = pop_candidate_budget',
     pop_worker_budget = pop_worker_budget', pop_index = pop_index',
     pop_predecessor = pop_predecessor', pop_seed_candidate = pop_seed_candidate',
     pop_seed_candidate_gen = pop_seed_candidate_gen', pop_seed_lineage = pop_seed_lineage',
     pop_state = pop_state', pop_created_epoch = pop_created_epoch',
     pop_state_epoch = pop_state_epoch', pop_committed_selection = pop_committed_selection',
     pop_retention_committed = pop_retention_committed',
     pop_retention_selection_gen = pop_retention_selection_gen',
     pop_require_promotion_request = pop_require_promotion_request',
     pop_candidates = pop_candidates', pop_promotion_requests = pop_promotion_requests',
     pop_committed_promotion = pop_committed_promotion', pop_status_detail = pop_status_detail',
     pop_closure_blockers = pop_closure_blockers'\<rparr>)))))))))))))))))))))))))))"

definition storable_population :: "population_record \<Rightarrow> bool" where
  "storable_population v \<longleftrightarrow>
     wire_identity IK_Population (pop_id v) \<and>
     wire_identity IK_FoundryRun (pop_run v) \<and> storable_string (pop_name v) \<and>
     wire_identity IK_Task (pop_task v) \<and> wire_identity IK_Policy (pop_policy v) \<and>
     wire_optional_identity IK_Population (pop_predecessor v) \<and>
     wire_optional_identity IK_Candidate (pop_seed_candidate v) \<and>
     wire_optional_identity IK_Lineage (pop_seed_lineage v) \<and>
     storable_candidate_ids (pop_candidates v) \<and>
     wire_optional_identity IK_PromotionRequest (pop_committed_promotion v) \<and>
     storable_string (pop_status_detail v) \<and>
     list_ok kMaxClosureBlockers storable_string (pop_closure_blockers v)"

interpretation s_population: record_codec store_population load_population storable_population 143
  by unfold_locales
    (auto simp: load_population_def store_population_def storable_population_def store_simps
      elim!: store_exact intro!: store_rejects)

interpretation s_artifact_ref_list: record_codec "write_list store_artifact_ref"
  "load_list kMaxArtifactsPerCandidate kMinStoredArtifactRefBytes load_artifact_ref"
  "list_ok kMaxArtifactsPerCandidate storable_artifact_ref" 4
  by (rule s_artifact_ref.list_codec) (simp_all add: store_bounds)

definition store_candidate :: "candidate_record \<Rightarrow> string" where
  "store_candidate v =
     write_identity (cand_id v) @ write_generation (cand_gen v) @
     write_identity (cand_population v) @ write_generation (cand_population_gen v) @
     write_identity (cand_task v) @ write_generation (cand_task_gen v) @
     write_identity (cand_lineage v) @ write_list write_identity (cand_parents v) @
     write_u32 (cand_depth v) @ write_identity (cand_producer_worker v) @
     write_identity (cand_producer_boot v) @ write_identity (cand_attempt v) @
     write_generation (cand_attempt_gen v) @ write_identity (cand_assignment v) @
     write_epoch (cand_created_epoch v) @ write_epoch (cand_state_changed_epoch v) @
     write_enum candidate_states (cand_state v) @
     write_list store_artifact_ref (cand_artifacts v) @ write_str (cand_artifact_set_digest v) @
     write_u32 (cand_attempt_count v) @ write_generation (cand_evidence_gen v) @
     write_generation (cand_evaluation_gen v) @ write_generation (cand_selection_gen v) @
     write_boolean (cand_selected v) @ write_boolean (cand_retained v) @
     write_boolean (cand_promotion_eligible v) @ write_boolean (cand_promotion_requested v) @
     write_str (cand_diversity_key v) @ write_str (cand_failure_reason v) @
     write_str (cand_superseded_by_reason v)"

definition load_candidate :: "candidate_record reader" where
  "load_candidate =
     bindA (read_identity IK_Candidate) (\<lambda>cand_id'.
     bindA read_generation (\<lambda>cand_gen'.
     bindA (read_identity IK_Population) (\<lambda>cand_population'.
     bindA read_generation (\<lambda>cand_population_gen'.
     bindA (read_identity IK_Task) (\<lambda>cand_task'.
     bindA read_generation (\<lambda>cand_task_gen'.
     bindA (read_identity IK_Lineage) (\<lambda>cand_lineage'.
     bindA load_candidate_ids (\<lambda>cand_parents'.
     bindA read_u32 (\<lambda>cand_depth'.
     bindA (read_optional_identity IK_Worker) (\<lambda>cand_producer_worker'.
     bindA (read_optional_identity IK_WorkerBoot) (\<lambda>cand_producer_boot'.
     bindA (read_optional_identity IK_Attempt) (\<lambda>cand_attempt'.
     bindA read_generation (\<lambda>cand_attempt_gen'.
     bindA (read_optional_identity IK_Assignment) (\<lambda>cand_assignment'.
     bindA read_epoch (\<lambda>cand_created_epoch'.
     bindA read_epoch (\<lambda>cand_state_changed_epoch'.
     bindA (load_enum candidate_states) (\<lambda>cand_state'.
     bindA (load_list kMaxArtifactsPerCandidate kMinStoredArtifactRefBytes load_artifact_ref) (\<lambda>cand_artifacts'.
     bindA load_str (\<lambda>cand_artifact_set_digest'.
     bindA read_u32 (\<lambda>cand_attempt_count'.
     bindA read_generation (\<lambda>cand_evidence_gen'.
     bindA read_generation (\<lambda>cand_evaluation_gen'.
     bindA read_generation (\<lambda>cand_selection_gen'.
     bindA read_boolean (\<lambda>cand_selected'.
     bindA read_boolean (\<lambda>cand_retained'.
     bindA read_boolean (\<lambda>cand_promotion_eligible'.
     bindA read_boolean (\<lambda>cand_promotion_requested'.
     bindA load_str (\<lambda>cand_diversity_key'.
     bindA load_str (\<lambda>cand_failure_reason'.
     bindA load_str (\<lambda>cand_superseded_by_reason'.
     retA \<lparr>cand_id = cand_id', cand_gen = cand_gen', cand_population = cand_population',
     cand_population_gen = cand_population_gen', cand_task = cand_task',
     cand_task_gen = cand_task_gen', cand_lineage = cand_lineage', cand_parents = cand_parents',
     cand_depth = cand_depth', cand_producer_worker = cand_producer_worker',
     cand_producer_boot = cand_producer_boot', cand_attempt = cand_attempt',
     cand_attempt_gen = cand_attempt_gen', cand_assignment = cand_assignment',
     cand_created_epoch = cand_created_epoch',
     cand_state_changed_epoch = cand_state_changed_epoch', cand_state = cand_state',
     cand_artifacts = cand_artifacts', cand_artifact_set_digest = cand_artifact_set_digest',
     cand_attempt_count = cand_attempt_count', cand_evidence_gen = cand_evidence_gen',
     cand_evaluation_gen = cand_evaluation_gen', cand_selection_gen = cand_selection_gen',
     cand_selected = cand_selected', cand_retained = cand_retained',
     cand_promotion_eligible = cand_promotion_eligible',
     cand_promotion_requested = cand_promotion_requested',
     cand_diversity_key = cand_diversity_key', cand_failure_reason = cand_failure_reason',
     cand_superseded_by_reason = cand_superseded_by_reason'\<rparr>))))))))))))))))))))))))))))))"

definition storable_candidate :: "candidate_record \<Rightarrow> bool" where
  "storable_candidate v \<longleftrightarrow>
     wire_identity IK_Candidate (cand_id v) \<and>
     wire_identity IK_Population (cand_population v) \<and>
     wire_identity IK_Task (cand_task v) \<and> wire_identity IK_Lineage (cand_lineage v) \<and>
     storable_candidate_ids (cand_parents v) \<and>
     wire_optional_identity IK_Worker (cand_producer_worker v) \<and>
     wire_optional_identity IK_WorkerBoot (cand_producer_boot v) \<and>
     wire_optional_identity IK_Attempt (cand_attempt v) \<and>
     wire_optional_identity IK_Assignment (cand_assignment v) \<and>
     list_ok kMaxArtifactsPerCandidate storable_artifact_ref (cand_artifacts v) \<and>
     storable_string (cand_artifact_set_digest v) \<and>
     storable_string (cand_diversity_key v) \<and>
     storable_string (cand_failure_reason v) \<and>
     storable_string (cand_superseded_by_reason v)"

interpretation s_candidate: record_codec store_candidate load_candidate storable_candidate 145
  by unfold_locales
    (auto simp: load_candidate_def store_candidate_def storable_candidate_def store_simps
      elim!: store_exact intro!: store_rejects)

definition store_worker :: "worker_record \<Rightarrow> string" where
  "store_worker v =
     write_identity (wk_id v) @ write_identity (wk_boot v) @ write_str (wk_label v) @
     write_u32 (wk_process_id v) @ write_enum worker_states (wk_state v) @
     write_epoch (wk_registered_epoch v) @ write_epoch (wk_state_epoch v) @
     write_identity (wk_session v) @ write_generation (wk_session_gen v) @
     write_str (wk_capability v) @ write_u64 (wk_assignments_accepted v) @
     write_u64 (wk_assignments_completed v) @ write_u64 (wk_assignments_failed v) @
     write_u64 (wk_stale_messages_rejected v) @ write_identity (wk_active_attempt v) @
     write_generation (wk_active_attempt_gen v) @ write_identity (wk_active_assignment v) @
     write_str (wk_last_diagnostic v)"

definition load_worker :: "worker_record reader" where
  "load_worker =
     bindA (read_identity IK_Worker) (\<lambda>wk_id'.
     bindA (read_identity IK_WorkerBoot) (\<lambda>wk_boot'.
     bindA load_str (\<lambda>wk_label'.
     bindA read_u32 (\<lambda>wk_process_id'.
     bindA (load_enum worker_states) (\<lambda>wk_state'.
     bindA read_epoch (\<lambda>wk_registered_epoch'.
     bindA read_epoch (\<lambda>wk_state_epoch'.
     bindA (read_identity IK_Session) (\<lambda>wk_session'.
     bindA read_generation (\<lambda>wk_session_gen'.
     bindA load_str (\<lambda>wk_capability'.
     bindA read_u64 (\<lambda>wk_assignments_accepted'.
     bindA read_u64 (\<lambda>wk_assignments_completed'.
     bindA read_u64 (\<lambda>wk_assignments_failed'.
     bindA read_u64 (\<lambda>wk_stale_messages_rejected'.
     bindA (read_optional_identity IK_Attempt) (\<lambda>wk_active_attempt'.
     bindA read_generation (\<lambda>wk_active_attempt_gen'.
     bindA (read_optional_identity IK_Assignment) (\<lambda>wk_active_assignment'.
     bindA load_str (\<lambda>wk_last_diagnostic'.
     retA \<lparr>wk_id = wk_id', wk_boot = wk_boot', wk_label = wk_label', wk_process_id = wk_process_id',
     wk_state = wk_state', wk_registered_epoch = wk_registered_epoch',
     wk_state_epoch = wk_state_epoch', wk_session = wk_session',
     wk_session_gen = wk_session_gen', wk_capability = wk_capability',
     wk_assignments_accepted = wk_assignments_accepted',
     wk_assignments_completed = wk_assignments_completed',
     wk_assignments_failed = wk_assignments_failed',
     wk_stale_messages_rejected = wk_stale_messages_rejected',
     wk_active_attempt = wk_active_attempt', wk_active_attempt_gen = wk_active_attempt_gen',
     wk_active_assignment = wk_active_assignment', wk_last_diagnostic = wk_last_diagnostic'\<rparr>))))))))))))))))))"

definition storable_worker :: "worker_record \<Rightarrow> bool" where
  "storable_worker v \<longleftrightarrow>
     wire_identity IK_Worker (wk_id v) \<and> wire_identity IK_WorkerBoot (wk_boot v) \<and>
     storable_string (wk_label v) \<and> wire_identity IK_Session (wk_session v) \<and>
     storable_string (wk_capability v) \<and>
     wire_optional_identity IK_Attempt (wk_active_attempt v) \<and>
     wire_optional_identity IK_Assignment (wk_active_assignment v) \<and>
     storable_string (wk_last_diagnostic v)"

interpretation s_worker: record_codec store_worker load_worker storable_worker 113
  by unfold_locales
    (auto simp: load_worker_def store_worker_def storable_worker_def store_simps
      elim!: store_exact intro!: store_rejects)

definition store_attempt :: "attempt_record \<Rightarrow> string" where
  "store_attempt v =
     write_identity (att_id v) @ write_generation (att_gen v) @
     write_identity (att_population v) @ write_generation (att_population_gen v) @
     write_identity (att_task v) @ write_generation (att_task_gen v) @
     write_identity (att_candidate v) @ write_generation (att_candidate_gen v) @
     write_identity (att_worker v) @ write_identity (att_worker_boot v) @
     write_identity (att_session v) @ write_identity (att_assignment v) @
     write_epoch (att_authorized_epoch v) @ write_epoch (att_dispatched_epoch v) @
     write_epoch (att_terminal_epoch v) @ write_enum attempt_states (att_state v) @
     write_u32 (att_retry_index v) @ write_identity (att_previous_attempt v) @
     write_str (att_failure_detail v) @ write_boolean (att_holds_reservation v)"

definition load_attempt :: "attempt_record reader" where
  "load_attempt =
     bindA (read_identity IK_Attempt) (\<lambda>att_id'.
     bindA read_generation (\<lambda>att_gen'.
     bindA (read_identity IK_Population) (\<lambda>att_population'.
     bindA read_generation (\<lambda>att_population_gen'.
     bindA (read_identity IK_Task) (\<lambda>att_task'.
     bindA read_generation (\<lambda>att_task_gen'.
     bindA (read_identity IK_Candidate) (\<lambda>att_candidate'.
     bindA read_generation (\<lambda>att_candidate_gen'.
     bindA (read_identity IK_Worker) (\<lambda>att_worker'.
     bindA (read_identity IK_WorkerBoot) (\<lambda>att_worker_boot'.
     bindA (read_identity IK_Session) (\<lambda>att_session'.
     bindA (read_identity IK_Assignment) (\<lambda>att_assignment'.
     bindA read_epoch (\<lambda>att_authorized_epoch'.
     bindA read_epoch (\<lambda>att_dispatched_epoch'.
     bindA read_epoch (\<lambda>att_terminal_epoch'.
     bindA (load_enum attempt_states) (\<lambda>att_state'.
     bindA read_u32 (\<lambda>att_retry_index'.
     bindA (read_optional_identity IK_Attempt) (\<lambda>att_previous_attempt'.
     bindA load_str (\<lambda>att_failure_detail'.
     bindA read_boolean (\<lambda>att_holds_reservation'.
     retA \<lparr>att_id = att_id', att_gen = att_gen', att_population = att_population',
     att_population_gen = att_population_gen', att_task = att_task',
     att_task_gen = att_task_gen', att_candidate = att_candidate',
     att_candidate_gen = att_candidate_gen', att_worker = att_worker',
     att_worker_boot = att_worker_boot', att_session = att_session',
     att_assignment = att_assignment', att_authorized_epoch = att_authorized_epoch',
     att_dispatched_epoch = att_dispatched_epoch', att_terminal_epoch = att_terminal_epoch',
     att_state = att_state', att_retry_index = att_retry_index',
     att_previous_attempt = att_previous_attempt', att_failure_detail = att_failure_detail',
     att_holds_reservation = att_holds_reservation'\<rparr>))))))))))))))))))))"

definition storable_attempt :: "attempt_record \<Rightarrow> bool" where
  "storable_attempt v \<longleftrightarrow>
     wire_identity IK_Attempt (att_id v) \<and>
     wire_identity IK_Population (att_population v) \<and>
     wire_identity IK_Task (att_task v) \<and>
     wire_identity IK_Candidate (att_candidate v) \<and>
     wire_identity IK_Worker (att_worker v) \<and>
     wire_identity IK_WorkerBoot (att_worker_boot v) \<and>
     wire_identity IK_Session (att_session v) \<and>
     wire_identity IK_Assignment (att_assignment v) \<and>
     wire_optional_identity IK_Attempt (att_previous_attempt v) \<and>
     storable_string (att_failure_detail v)"

interpretation s_attempt: record_codec store_attempt load_attempt storable_attempt 122
  by unfold_locales
    (auto simp: load_attempt_def store_attempt_def storable_attempt_def store_simps
      elim!: store_exact intro!: store_rejects)

definition store_assignment :: "assignment_record \<Rightarrow> string" where
  "store_assignment v =
     write_identity (asg_id v) @ write_generation (asg_gen v) @ write_identity (asg_attempt v) @
     write_generation (asg_attempt_gen v) @ write_identity (asg_worker v) @
     write_identity (asg_worker_boot v) @ write_identity (asg_session v) @
     write_generation (asg_session_gen v) @ write_epoch (asg_issued_epoch v) @
     write_boolean (asg_acknowledged v) @ write_epoch (asg_acknowledged_epoch v) @
     write_boolean (asg_revoked v) @ write_epoch (asg_revoked_epoch v)"

definition load_assignment :: "assignment_record reader" where
  "load_assignment =
     bindA (read_identity IK_Assignment) (\<lambda>asg_id'.
     bindA read_generation (\<lambda>asg_gen'.
     bindA (read_identity IK_Attempt) (\<lambda>asg_attempt'.
     bindA read_generation (\<lambda>asg_attempt_gen'.
     bindA (read_identity IK_Worker) (\<lambda>asg_worker'.
     bindA (read_identity IK_WorkerBoot) (\<lambda>asg_worker_boot'.
     bindA (read_identity IK_Session) (\<lambda>asg_session'.
     bindA read_generation (\<lambda>asg_session_gen'.
     bindA read_epoch (\<lambda>asg_issued_epoch'.
     bindA read_boolean (\<lambda>asg_acknowledged'.
     bindA read_epoch (\<lambda>asg_acknowledged_epoch'.
     bindA read_boolean (\<lambda>asg_revoked'.
     bindA read_epoch (\<lambda>asg_revoked_epoch'.
     retA \<lparr>asg_id = asg_id', asg_gen = asg_gen', asg_attempt = asg_attempt',
     asg_attempt_gen = asg_attempt_gen', asg_worker = asg_worker',
     asg_worker_boot = asg_worker_boot', asg_session = asg_session',
     asg_session_gen = asg_session_gen', asg_issued_epoch = asg_issued_epoch',
     asg_acknowledged = asg_acknowledged', asg_acknowledged_epoch = asg_acknowledged_epoch',
     asg_revoked = asg_revoked', asg_revoked_epoch = asg_revoked_epoch'\<rparr>)))))))))))))"

definition storable_assignment :: "assignment_record \<Rightarrow> bool" where
  "storable_assignment v \<longleftrightarrow>
     wire_identity IK_Assignment (asg_id v) \<and>
     wire_identity IK_Attempt (asg_attempt v) \<and>
     wire_identity IK_Worker (asg_worker v) \<and>
     wire_identity IK_WorkerBoot (asg_worker_boot v) \<and>
     wire_identity IK_Session (asg_session v)"

interpretation s_assignment: record_codec store_assignment load_assignment storable_assignment 78
  by unfold_locales
    (auto simp: load_assignment_def store_assignment_def storable_assignment_def store_simps
      elim!: store_exact intro!: store_rejects)

definition store_evaluation :: "evaluation_record \<Rightarrow> string" where
  "store_evaluation v =
     write_identity (ev_id v) @ write_generation (ev_gen v) @ write_identity (ev_candidate v) @
     write_generation (ev_candidate_gen v) @ write_identity (ev_task v) @
     write_generation (ev_task_gen v) @ write_identity (ev_population v) @
     write_generation (ev_population_gen v) @ write_identity (ev_evaluator v) @
     write_str (ev_key v) @ write_enum evaluator_kinds (ev_kind v) @
     write_enum requirement_classes (ev_class v) @
     write_enum evaluation_outcomes (ev_outcome v) @ write_boolean (ev_complete v) @
     write_boolean (ev_has_score v) @ write_f64 (ev_score v) @
     write_epoch (ev_decided_epoch v) @ write_str (ev_diagnostics v) @
     write_str (ev_evidence_digest v) @ write_u64 (ev_duration_micros v)"

definition load_evaluation :: "evaluation_record reader" where
  "load_evaluation =
     bindA (read_identity IK_Evaluation) (\<lambda>ev_id'.
     bindA read_generation (\<lambda>ev_gen'.
     bindA (read_identity IK_Candidate) (\<lambda>ev_candidate'.
     bindA read_generation (\<lambda>ev_candidate_gen'.
     bindA (read_identity IK_Task) (\<lambda>ev_task'.
     bindA read_generation (\<lambda>ev_task_gen'.
     bindA (read_identity IK_Population) (\<lambda>ev_population'.
     bindA read_generation (\<lambda>ev_population_gen'.
     bindA (read_identity IK_Evaluator) (\<lambda>ev_evaluator'.
     bindA load_str (\<lambda>ev_key'.
     bindA (load_enum evaluator_kinds) (\<lambda>ev_kind'.
     bindA (load_enum requirement_classes) (\<lambda>ev_class'.
     bindA (load_enum evaluation_outcomes) (\<lambda>ev_outcome'.
     bindA read_boolean (\<lambda>ev_complete'.
     bindA read_boolean (\<lambda>ev_has_score'.
     bindA read_f64 (\<lambda>ev_score'.
     bindA read_epoch (\<lambda>ev_decided_epoch'.
     bindA load_str (\<lambda>ev_diagnostics'.
     bindA load_str (\<lambda>ev_evidence_digest'.
     bindA read_u64 (\<lambda>ev_duration_micros'.
     retA \<lparr>ev_id = ev_id', ev_gen = ev_gen', ev_candidate = ev_candidate',
     ev_candidate_gen = ev_candidate_gen', ev_task = ev_task', ev_task_gen = ev_task_gen',
     ev_population = ev_population', ev_population_gen = ev_population_gen',
     ev_evaluator = ev_evaluator', ev_key = ev_key', ev_kind = ev_kind', ev_class = ev_class',
     ev_outcome = ev_outcome', ev_complete = ev_complete', ev_has_score = ev_has_score',
     ev_score = ev_score', ev_decided_epoch = ev_decided_epoch',
     ev_diagnostics = ev_diagnostics', ev_evidence_digest = ev_evidence_digest',
     ev_duration_micros = ev_duration_micros'\<rparr>))))))))))))))))))))"

definition storable_evaluation :: "evaluation_record \<Rightarrow> bool" where
  "storable_evaluation v \<longleftrightarrow>
     wire_identity IK_Evaluation (ev_id v) \<and>
     wire_identity IK_Candidate (ev_candidate v) \<and> wire_identity IK_Task (ev_task v) \<and>
     wire_identity IK_Population (ev_population v) \<and>
     wire_identity IK_Evaluator (ev_evaluator v) \<and> storable_string (ev_key v) \<and>
     storable_string (ev_diagnostics v) \<and> storable_string (ev_evidence_digest v)"

interpretation s_evaluation: record_codec store_evaluation load_evaluation storable_evaluation 97
  by unfold_locales
    (auto simp: load_evaluation_def store_evaluation_def storable_evaluation_def store_simps
      elim!: store_exact intro!: store_rejects)

definition store_ranking_value :: "ranking_factor_value \<Rightarrow> string" where
  "store_ranking_value v =
     write_str (rfv_key v) @ write_enum ranking_factor_kinds (rfv_kind v) @
     write_enum ranking_directions (rfv_direction v) @ write_f64 (rfv_weight v) @
     write_f64 (rfv_raw_value v) @ write_boolean (rfv_available v) @
     write_f64 (rfv_contribution v)"

definition load_ranking_value :: "ranking_factor_value reader" where
  "load_ranking_value =
     bindA load_str (\<lambda>rfv_key'.
     bindA (load_enum ranking_factor_kinds) (\<lambda>rfv_kind'.
     bindA (load_enum ranking_directions) (\<lambda>rfv_direction'.
     bindA read_f64 (\<lambda>rfv_weight'.
     bindA read_f64 (\<lambda>rfv_raw_value'.
     bindA read_boolean (\<lambda>rfv_available'.
     bindA read_f64 (\<lambda>rfv_contribution'.
     retA \<lparr>rfv_key = rfv_key', rfv_kind = rfv_kind', rfv_direction = rfv_direction',
     rfv_weight = rfv_weight', rfv_raw_value = rfv_raw_value', rfv_available = rfv_available',
     rfv_contribution = rfv_contribution'\<rparr>)))))))"

definition storable_ranking_value :: "ranking_factor_value \<Rightarrow> bool" where
  "storable_ranking_value v \<longleftrightarrow>
     storable_string (rfv_key v)"

interpretation s_ranking_value: record_codec store_ranking_value load_ranking_value storable_ranking_value 31
  by unfold_locales
    (auto simp: load_ranking_value_def store_ranking_value_def storable_ranking_value_def store_simps
      elim!: store_exact intro!: store_rejects)

interpretation s_ranking_value_list: record_codec "write_list store_ranking_value"
  "load_list kMaxRankingFactors kMinStoredRankingValueBytes load_ranking_value"
  "roomy_list kMaxRankingFactors kMinStoredRankingValueBytes store_ranking_value storable_ranking_value" 4
  by (rule s_ranking_value.roomy_list_codec) (simp_all add: store_bounds)

definition store_ranking_entry :: "ranking_entry \<Rightarrow> string" where
  "store_ranking_entry v =
     write_identity (re_candidate v) @ write_generation (re_candidate_gen v) @
     write_u32 (re_rank v) @ write_f64 (re_total_score v) @
     write_list store_ranking_value (re_factors v) @ write_u64 (re_artifact_bytes v) @
     write_u32 (re_lineage_depth v) @ write_str (re_diversity_key v)"

definition load_ranking_entry :: "ranking_entry reader" where
  "load_ranking_entry =
     bindA (read_identity IK_Candidate) (\<lambda>re_candidate'.
     bindA read_generation (\<lambda>re_candidate_gen'.
     bindA read_u32 (\<lambda>re_rank'.
     bindA read_f64 (\<lambda>re_total_score'.
     bindA (load_list kMaxRankingFactors kMinStoredRankingValueBytes load_ranking_value) (\<lambda>re_factors'.
     bindA read_u64 (\<lambda>re_artifact_bytes'.
     bindA read_u32 (\<lambda>re_lineage_depth'.
     bindA load_str (\<lambda>re_diversity_key'.
     retA \<lparr>re_candidate = re_candidate', re_candidate_gen = re_candidate_gen', re_rank = re_rank',
     re_total_score = re_total_score', re_factors = re_factors',
     re_artifact_bytes = re_artifact_bytes', re_lineage_depth = re_lineage_depth',
     re_diversity_key = re_diversity_key'\<rparr>))))))))"

definition storable_ranking_entry :: "ranking_entry \<Rightarrow> bool" where
  "storable_ranking_entry v \<longleftrightarrow>
     wire_identity IK_Candidate (re_candidate v) \<and>
     roomy_list kMaxRankingFactors kMinStoredRankingValueBytes store_ranking_value storable_ranking_value (re_factors v) \<and>
     storable_string (re_diversity_key v)"

interpretation s_ranking_entry: record_codec store_ranking_entry load_ranking_entry storable_ranking_entry 44
  by unfold_locales
    (auto simp: load_ranking_entry_def store_ranking_entry_def storable_ranking_entry_def store_simps
      elim!: store_exact intro!: store_rejects)

definition store_exclusion_entry :: "exclusion_entry \<Rightarrow> string" where
  "store_exclusion_entry v =
     write_identity (ex_candidate v) @ write_generation (ex_candidate_gen v) @
     write_enum selection_stages (ex_stage v) @ write_enum exclusion_reasons (ex_reason v) @
     write_str (ex_detail v)"

definition load_exclusion_entry :: "exclusion_entry reader" where
  "load_exclusion_entry =
     bindA (read_identity IK_Candidate) (\<lambda>ex_candidate'.
     bindA read_generation (\<lambda>ex_candidate_gen'.
     bindA (load_enum selection_stages) (\<lambda>ex_stage'.
     bindA (load_enum exclusion_reasons) (\<lambda>ex_reason'.
     bindA load_str (\<lambda>ex_detail'.
     retA \<lparr>ex_candidate = ex_candidate', ex_candidate_gen = ex_candidate_gen', ex_stage = ex_stage',
     ex_reason = ex_reason', ex_detail = ex_detail'\<rparr>)))))"

definition storable_exclusion_entry :: "exclusion_entry \<Rightarrow> bool" where
  "storable_exclusion_entry v \<longleftrightarrow>
     wire_identity IK_Candidate (ex_candidate v) \<and> storable_string (ex_detail v)"

interpretation s_exclusion_entry: record_codec store_exclusion_entry load_exclusion_entry storable_exclusion_entry 18
  by unfold_locales
    (auto simp: load_exclusion_entry_def store_exclusion_entry_def storable_exclusion_entry_def store_simps
      elim!: store_exact intro!: store_rejects)

interpretation s_ranking_entry_list: record_codec "write_list store_ranking_entry"
  "load_list kMaxStoredCandidates kMinStoredRankingEntryBytes load_ranking_entry"
  "list_ok kMaxStoredCandidates storable_ranking_entry" 4
  by (rule s_ranking_entry.list_codec) (simp_all add: store_bounds)

interpretation s_exclusion_entry_list: record_codec "write_list store_exclusion_entry"
  "load_list kMaxStoredCandidates kMinStoredExclusionEntryBytes load_exclusion_entry"
  "list_ok kMaxStoredCandidates storable_exclusion_entry" 4
  by (rule s_exclusion_entry.list_codec) (simp_all add: store_bounds)

definition store_selection :: "selection_decision \<Rightarrow> string" where
  "store_selection v =
     write_generation (sd_gen v) @ write_identity (sd_population v) @
     write_generation (sd_population_gen v) @ write_identity (sd_task v) @
     write_generation (sd_task_gen v) @ write_identity (sd_policy v) @
     write_generation (sd_policy_gen v) @ write_epoch (sd_epoch v) @
     write_enum selection_decision_states (sd_state v) @ write_identity (sd_selected v) @
     write_generation (sd_selected_gen v) @ write_list store_ranking_entry (sd_ranking v) @
     write_list store_exclusion_entry (sd_excluded v) @ write_str (sd_digest v) @
     write_str (sd_rationale v)"

definition load_selection :: "selection_decision reader" where
  "load_selection =
     bindA read_generation (\<lambda>sd_gen'.
     bindA (read_identity IK_Population) (\<lambda>sd_population'.
     bindA read_generation (\<lambda>sd_population_gen'.
     bindA (read_identity IK_Task) (\<lambda>sd_task'.
     bindA read_generation (\<lambda>sd_task_gen'.
     bindA (read_identity IK_Policy) (\<lambda>sd_policy'.
     bindA read_generation (\<lambda>sd_policy_gen'.
     bindA read_epoch (\<lambda>sd_epoch'.
     bindA (load_enum selection_decision_states) (\<lambda>sd_state'.
     bindA (read_optional_identity IK_Candidate) (\<lambda>sd_selected'.
     bindA read_generation (\<lambda>sd_selected_gen'.
     bindA (load_list kMaxStoredCandidates kMinStoredRankingEntryBytes load_ranking_entry) (\<lambda>sd_ranking'.
     bindA (load_list kMaxStoredCandidates kMinStoredExclusionEntryBytes load_exclusion_entry) (\<lambda>sd_excluded'.
     bindA load_str (\<lambda>sd_digest'.
     bindA load_str (\<lambda>sd_rationale'.
     retA \<lparr>sd_gen = sd_gen', sd_population = sd_population', sd_population_gen = sd_population_gen',
     sd_task = sd_task', sd_task_gen = sd_task_gen', sd_policy = sd_policy',
     sd_policy_gen = sd_policy_gen', sd_epoch = sd_epoch', sd_state = sd_state',
     sd_selected = sd_selected', sd_selected_gen = sd_selected_gen', sd_ranking = sd_ranking',
     sd_excluded = sd_excluded', sd_digest = sd_digest', sd_rationale = sd_rationale'\<rparr>)))))))))))))))"

definition storable_selection :: "selection_decision \<Rightarrow> bool" where
  "storable_selection v \<longleftrightarrow>
     wire_identity IK_Population (sd_population v) \<and>
     wire_identity IK_Task (sd_task v) \<and> wire_identity IK_Policy (sd_policy v) \<and>
     wire_optional_identity IK_Candidate (sd_selected v) \<and>
     list_ok kMaxStoredCandidates storable_ranking_entry (sd_ranking v) \<and>
     list_ok kMaxStoredCandidates storable_exclusion_entry (sd_excluded v) \<and>
     storable_string (sd_digest v) \<and> storable_string (sd_rationale v)"

interpretation s_selection: record_codec store_selection load_selection storable_selection 77
  by unfold_locales
    (auto simp: load_selection_def store_selection_def storable_selection_def store_simps
      elim!: store_exact intro!: store_rejects)

definition store_retention_entry :: "retention_entry \<Rightarrow> string" where
  "store_retention_entry v =
     write_identity (rde_candidate v) @ write_generation (rde_candidate_gen v) @
     write_enum retention_outcomes (rde_outcome v) @ write_u32 (rde_rank v) @
     write_str (rde_lineage_key v) @ write_str (rde_detail v)"

definition load_retention_entry :: "retention_entry reader" where
  "load_retention_entry =
     bindA (read_identity IK_Candidate) (\<lambda>rde_candidate'.
     bindA read_generation (\<lambda>rde_candidate_gen'.
     bindA (load_enum retention_outcomes) (\<lambda>rde_outcome'.
     bindA read_u32 (\<lambda>rde_rank'.
     bindA load_str (\<lambda>rde_lineage_key'.
     bindA load_str (\<lambda>rde_detail'.
     retA \<lparr>rde_candidate = rde_candidate', rde_candidate_gen = rde_candidate_gen',
     rde_outcome = rde_outcome', rde_rank = rde_rank', rde_lineage_key = rde_lineage_key',
     rde_detail = rde_detail'\<rparr>))))))"

definition storable_retention_entry :: "retention_entry \<Rightarrow> bool" where
  "storable_retention_entry v \<longleftrightarrow>
     wire_identity IK_Candidate (rde_candidate v) \<and>
     storable_string (rde_lineage_key v) \<and> storable_string (rde_detail v)"

interpretation s_retention_entry: record_codec store_retention_entry load_retention_entry storable_retention_entry 25
  by unfold_locales
    (auto simp: load_retention_entry_def store_retention_entry_def storable_retention_entry_def store_simps
      elim!: store_exact intro!: store_rejects)

interpretation s_retention_entry_list: record_codec "write_list store_retention_entry"
  "load_list kMaxStoredCandidates kMinStoredRetentionEntryBytes load_retention_entry"
  "list_ok kMaxStoredCandidates storable_retention_entry" 4
  by (rule s_retention_entry.list_codec) (simp_all add: store_bounds)

definition store_retention :: "retention_decision \<Rightarrow> string" where
  "store_retention v =
     write_generation (rd_selection_gen v) @ write_identity (rd_population v) @
     write_generation (rd_population_gen v) @ write_identity (rd_policy v) @
     write_generation (rd_policy_gen v) @ write_epoch (rd_epoch v) @
     write_list store_retention_entry (rd_entries v) @
     write_list write_identity (rd_retained v) @ write_list write_identity (rd_retired v) @
     write_str (rd_digest v) @ write_boolean (rd_committed v)"

definition load_retention :: "retention_decision reader" where
  "load_retention =
     bindA read_generation (\<lambda>rd_selection_gen'.
     bindA (read_identity IK_Population) (\<lambda>rd_population'.
     bindA read_generation (\<lambda>rd_population_gen'.
     bindA (read_identity IK_Policy) (\<lambda>rd_policy'.
     bindA read_generation (\<lambda>rd_policy_gen'.
     bindA read_epoch (\<lambda>rd_epoch'.
     bindA (load_list kMaxStoredCandidates kMinStoredRetentionEntryBytes load_retention_entry) (\<lambda>rd_entries'.
     bindA load_candidate_ids (\<lambda>rd_retained'.
     bindA load_candidate_ids (\<lambda>rd_retired'.
     bindA load_str (\<lambda>rd_digest'.
     bindA read_boolean (\<lambda>rd_committed'.
     retA \<lparr>rd_selection_gen = rd_selection_gen', rd_population = rd_population',
     rd_population_gen = rd_population_gen', rd_policy = rd_policy',
     rd_policy_gen = rd_policy_gen', rd_epoch = rd_epoch', rd_entries = rd_entries',
     rd_retained = rd_retained', rd_retired = rd_retired', rd_digest = rd_digest',
     rd_committed = rd_committed'\<rparr>)))))))))))"

definition storable_retention :: "retention_decision \<Rightarrow> bool" where
  "storable_retention v \<longleftrightarrow>
     wire_identity IK_Population (rd_population v) \<and>
     wire_identity IK_Policy (rd_policy v) \<and>
     list_ok kMaxStoredCandidates storable_retention_entry (rd_entries v) \<and>
     storable_candidate_ids (rd_retained v) \<and> storable_candidate_ids (rd_retired v) \<and>
     storable_string (rd_digest v)"

interpretation s_retention: record_codec store_retention load_retention storable_retention 53
  by unfold_locales
    (auto simp: load_retention_def store_retention_def storable_retention_def store_simps
      elim!: store_exact intro!: store_rejects)

definition store_evidence_summary :: "promotion_evidence \<Rightarrow> string" where
  "store_evidence_summary v =
     write_str (pe_key v) @ write_enum evaluator_kinds (pe_kind v) @
     write_enum evaluation_outcomes (pe_outcome v) @
     write_enum requirement_classes (pe_class v) @ write_boolean (pe_complete v) @
     write_boolean (pe_has_score v) @ write_f64 (pe_score v) @ write_generation (pe_gen v) @
     write_str (pe_digest v)"

definition load_evidence_summary :: "promotion_evidence reader" where
  "load_evidence_summary =
     bindA load_str (\<lambda>pe_key'.
     bindA (load_enum evaluator_kinds) (\<lambda>pe_kind'.
     bindA (load_enum evaluation_outcomes) (\<lambda>pe_outcome'.
     bindA (load_enum requirement_classes) (\<lambda>pe_class'.
     bindA read_boolean (\<lambda>pe_complete'.
     bindA read_boolean (\<lambda>pe_has_score'.
     bindA read_f64 (\<lambda>pe_score'.
     bindA read_generation (\<lambda>pe_gen'.
     bindA load_str (\<lambda>pe_digest'.
     retA \<lparr>pe_key = pe_key', pe_kind = pe_kind', pe_outcome = pe_outcome', pe_class = pe_class',
     pe_complete = pe_complete', pe_has_score = pe_has_score', pe_score = pe_score',
     pe_gen = pe_gen', pe_digest = pe_digest'\<rparr>)))))))))"

definition storable_evidence_summary :: "promotion_evidence \<Rightarrow> bool" where
  "storable_evidence_summary v \<longleftrightarrow>
     storable_string (pe_key v) \<and> storable_string (pe_digest v)"

interpretation s_evidence_summary: record_codec store_evidence_summary load_evidence_summary storable_evidence_summary 25
  by unfold_locales
    (auto simp: load_evidence_summary_def store_evidence_summary_def storable_evidence_summary_def store_simps
      elim!: store_exact intro!: store_rejects)

interpretation s_evidence_summary_list: record_codec "write_list store_evidence_summary"
  "load_list kMaxEvaluationRequirements kMinStoredEvidenceSummaryBytes load_evidence_summary"
  "roomy_list kMaxEvaluationRequirements kMinStoredEvidenceSummaryBytes store_evidence_summary storable_evidence_summary" 4
  by (rule s_evidence_summary.roomy_list_codec) (simp_all add: store_bounds)

definition store_promotion :: "promotion_request \<Rightarrow> string" where
  "store_promotion v =
     write_identity (pr_id v) @ write_identity (pr_foundry v) @ write_identity (pr_run v) @
     write_epoch (pr_epoch v) @ write_identity (pr_population v) @
     write_generation (pr_population_gen v) @ write_identity (pr_candidate v) @
     write_generation (pr_candidate_gen v) @ write_identity (pr_task v) @
     write_generation (pr_task_gen v) @ write_identity (pr_lineage v) @
     write_generation (pr_selection_gen v) @ write_identity (pr_policy v) @
     write_generation (pr_policy_gen v) @ write_generation (pr_evidence_gen v) @
     write_enum promotion_eligibilities (pr_eligibility v) @
     write_list write_str (pr_outstanding v) @ write_list store_artifact_ref (pr_artifacts v) @
     write_u64 (pr_total_bytes v) @ write_str (pr_artifact_set_digest v) @
     write_list store_evidence_summary (pr_evidence v) @
     write_list write_identity (pr_ancestry v) @ write_u32 (pr_lineage_depth v) @
     write_str (pr_digest v)"

definition load_promotion :: "promotion_request reader" where
  "load_promotion =
     bindA (read_identity IK_PromotionRequest) (\<lambda>pr_id'.
     bindA (read_identity IK_Foundry) (\<lambda>pr_foundry'.
     bindA (read_identity IK_FoundryRun) (\<lambda>pr_run'.
     bindA read_epoch (\<lambda>pr_epoch'.
     bindA (read_identity IK_Population) (\<lambda>pr_population'.
     bindA read_generation (\<lambda>pr_population_gen'.
     bindA (read_identity IK_Candidate) (\<lambda>pr_candidate'.
     bindA read_generation (\<lambda>pr_candidate_gen'.
     bindA (read_identity IK_Task) (\<lambda>pr_task'.
     bindA read_generation (\<lambda>pr_task_gen'.
     bindA (read_identity IK_Lineage) (\<lambda>pr_lineage'.
     bindA read_generation (\<lambda>pr_selection_gen'.
     bindA (read_identity IK_Policy) (\<lambda>pr_policy'.
     bindA read_generation (\<lambda>pr_policy_gen'.
     bindA read_generation (\<lambda>pr_evidence_gen'.
     bindA (load_enum promotion_eligibilities) (\<lambda>pr_eligibility'.
     bindA (load_strings kMaxOutstandingRequirements) (\<lambda>pr_outstanding'.
     bindA (load_list kMaxArtifactsPerCandidate kMinStoredArtifactRefBytes load_artifact_ref) (\<lambda>pr_artifacts'.
     bindA read_u64 (\<lambda>pr_total_bytes'.
     bindA load_str (\<lambda>pr_artifact_set_digest'.
     bindA (load_list kMaxEvaluationRequirements kMinStoredEvidenceSummaryBytes load_evidence_summary) (\<lambda>pr_evidence'.
     bindA load_candidate_ids (\<lambda>pr_ancestry'.
     bindA read_u32 (\<lambda>pr_lineage_depth'.
     bindA load_str (\<lambda>pr_digest'.
     retA \<lparr>pr_id = pr_id', pr_foundry = pr_foundry', pr_run = pr_run', pr_epoch = pr_epoch',
     pr_population = pr_population', pr_population_gen = pr_population_gen',
     pr_candidate = pr_candidate', pr_candidate_gen = pr_candidate_gen', pr_task = pr_task',
     pr_task_gen = pr_task_gen', pr_lineage = pr_lineage', pr_selection_gen = pr_selection_gen',
     pr_policy = pr_policy', pr_policy_gen = pr_policy_gen', pr_evidence_gen = pr_evidence_gen',
     pr_eligibility = pr_eligibility', pr_outstanding = pr_outstanding',
     pr_artifacts = pr_artifacts', pr_total_bytes = pr_total_bytes',
     pr_artifact_set_digest = pr_artifact_set_digest', pr_evidence = pr_evidence',
     pr_ancestry = pr_ancestry', pr_lineage_depth = pr_lineage_depth', pr_digest = pr_digest'\<rparr>))))))))))))))))))))))))"

definition storable_promotion :: "promotion_request \<Rightarrow> bool" where
  "storable_promotion v \<longleftrightarrow>
     wire_identity IK_PromotionRequest (pr_id v) \<and>
     wire_identity IK_Foundry (pr_foundry v) \<and>
     wire_identity IK_FoundryRun (pr_run v) \<and>
     wire_identity IK_Population (pr_population v) \<and>
     wire_identity IK_Candidate (pr_candidate v) \<and> wire_identity IK_Task (pr_task v) \<and>
     wire_identity IK_Lineage (pr_lineage v) \<and> wire_identity IK_Policy (pr_policy v) \<and>
     list_ok kMaxOutstandingRequirements storable_string (pr_outstanding v) \<and>
     list_ok kMaxArtifactsPerCandidate storable_artifact_ref (pr_artifacts v) \<and>
     storable_string (pr_artifact_set_digest v) \<and>
     roomy_list kMaxEvaluationRequirements kMinStoredEvidenceSummaryBytes store_evidence_summary storable_evidence_summary (pr_evidence v) \<and>
     storable_candidate_ids (pr_ancestry v) \<and> storable_string (pr_digest v)"

interpretation s_promotion: record_codec store_promotion load_promotion storable_promotion 133
  by unfold_locales
    (auto simp: load_promotion_def store_promotion_def storable_promotion_def store_simps
      elim!: store_exact intro!: store_rejects)

definition store_lineage_node :: "lineage_node \<Rightarrow> string" where
  "store_lineage_node v =
     write_identity (ln_candidate v) @ write_generation (ln_candidate_gen v) @
     write_identity (ln_lineage v) @ write_list write_identity (ln_parents v) @
     write_u32 (ln_depth v) @ write_epoch (ln_created_epoch v) @ write_boolean (ln_retired v) @
     write_epoch (ln_retired_epoch v) @ write_str (ln_retirement_reason v)"

definition load_lineage_node :: "lineage_node reader" where
  "load_lineage_node =
     bindA (read_identity IK_Candidate) (\<lambda>ln_candidate'.
     bindA read_generation (\<lambda>ln_candidate_gen'.
     bindA (read_identity IK_Lineage) (\<lambda>ln_lineage'.
     bindA load_candidate_ids (\<lambda>ln_parents'.
     bindA read_u32 (\<lambda>ln_depth'.
     bindA read_epoch (\<lambda>ln_created_epoch'.
     bindA read_boolean (\<lambda>ln_retired'.
     bindA read_epoch (\<lambda>ln_retired_epoch'.
     bindA load_str (\<lambda>ln_retirement_reason'.
     retA \<lparr>ln_candidate = ln_candidate', ln_candidate_gen = ln_candidate_gen',
     ln_lineage = ln_lineage', ln_parents = ln_parents', ln_depth = ln_depth',
     ln_created_epoch = ln_created_epoch', ln_retired = ln_retired',
     ln_retired_epoch = ln_retired_epoch', ln_retirement_reason = ln_retirement_reason'\<rparr>)))))))))"

definition storable_lineage_node :: "lineage_node \<Rightarrow> bool" where
  "storable_lineage_node v \<longleftrightarrow>
     wire_identity IK_Candidate (ln_candidate v) \<and>
     wire_identity IK_Lineage (ln_lineage v) \<and> storable_candidate_ids (ln_parents v) \<and>
     storable_string (ln_retirement_reason v)"

interpretation s_lineage_node: record_codec store_lineage_node load_lineage_node storable_lineage_node 49
  by unfold_locales
    (auto simp: load_lineage_node_def store_lineage_node_def storable_lineage_node_def store_simps
      elim!: store_exact intro!: store_rejects)

definition store_statistics :: "foundry_statistics \<Rightarrow> string" where
  "store_statistics v =
     write_u64 (st_task_revisions v) @ write_u64 (st_policy_revisions v) @
     write_u64 (st_populations_created v) @ write_u64 (st_populations_closed v) @
     write_u64 (st_candidate_slots_created v) @ write_u64 (st_candidates_published v) @
     write_u64 (st_attempts_authorized v) @ write_u64 (st_attempts_completed v) @
     write_u64 (st_attempts_failed v) @ write_u64 (st_attempts_cancelled v) @
     write_u64 (st_attempts_outcome_unknown v) @ write_u64 (st_evaluations_recorded v) @
     write_u64 (st_selections_prepared v) @ write_u64 (st_selections_committed v) @
     write_u64 (st_retentions_committed v) @ write_u64 (st_promotion_requests v) @
     write_u64 (st_stale_authority_rejections v) @ write_u64 (st_duplicate_rejections v) @
     write_u64 (st_late_rejections v) @ write_u64 (st_illegal_transition_rejections v)"

definition load_statistics :: "foundry_statistics reader" where
  "load_statistics =
     bindA read_u64 (\<lambda>st_task_revisions'.
     bindA read_u64 (\<lambda>st_policy_revisions'.
     bindA read_u64 (\<lambda>st_populations_created'.
     bindA read_u64 (\<lambda>st_populations_closed'.
     bindA read_u64 (\<lambda>st_candidate_slots_created'.
     bindA read_u64 (\<lambda>st_candidates_published'.
     bindA read_u64 (\<lambda>st_attempts_authorized'.
     bindA read_u64 (\<lambda>st_attempts_completed'.
     bindA read_u64 (\<lambda>st_attempts_failed'.
     bindA read_u64 (\<lambda>st_attempts_cancelled'.
     bindA read_u64 (\<lambda>st_attempts_outcome_unknown'.
     bindA read_u64 (\<lambda>st_evaluations_recorded'.
     bindA read_u64 (\<lambda>st_selections_prepared'.
     bindA read_u64 (\<lambda>st_selections_committed'.
     bindA read_u64 (\<lambda>st_retentions_committed'.
     bindA read_u64 (\<lambda>st_promotion_requests'.
     bindA read_u64 (\<lambda>st_stale_authority_rejections'.
     bindA read_u64 (\<lambda>st_duplicate_rejections'.
     bindA read_u64 (\<lambda>st_late_rejections'.
     bindA read_u64 (\<lambda>st_illegal_transition_rejections'.
     retA \<lparr>st_task_revisions = st_task_revisions', st_policy_revisions = st_policy_revisions',
     st_populations_created = st_populations_created',
     st_populations_closed = st_populations_closed',
     st_candidate_slots_created = st_candidate_slots_created',
     st_candidates_published = st_candidates_published',
     st_attempts_authorized = st_attempts_authorized',
     st_attempts_completed = st_attempts_completed', st_attempts_failed = st_attempts_failed',
     st_attempts_cancelled = st_attempts_cancelled',
     st_attempts_outcome_unknown = st_attempts_outcome_unknown',
     st_evaluations_recorded = st_evaluations_recorded',
     st_selections_prepared = st_selections_prepared',
     st_selections_committed = st_selections_committed',
     st_retentions_committed = st_retentions_committed',
     st_promotion_requests = st_promotion_requests',
     st_stale_authority_rejections = st_stale_authority_rejections',
     st_duplicate_rejections = st_duplicate_rejections',
     st_late_rejections = st_late_rejections',
     st_illegal_transition_rejections = st_illegal_transition_rejections'\<rparr>))))))))))))))))))))"

interpretation s_statistics: record_codec store_statistics load_statistics "\<lambda>_. True" 160
  by unfold_locales
    (auto simp: load_statistics_def store_statistics_def store_simps
      elim!: store_exact intro!: store_rejects)

end
