(* ===== verification/Snapshot_Image.thy ===== *)
theory Snapshot_Image
  imports Snapshot_Records Wire_Frames
begin

text \<open>
  The snapshot file (persistence.cpp): ledger and identity records, the framing of records, the
  payload with its records in the fixed order, the semantic validation of a parsed snapshot, the
  file image with its header, and the store.

  A \<^verbatim>\<open>std::unordered_map\<close> that is filled record by record is the list of its entries in the order
  in which they were stored.
\<close>

section \<open>The remaining record bodies\<close>

definition store_identity_header :: "foundry_snapshot \<Rightarrow> string" where
  "store_identity_header snap =
    write_identity (snap_foundry snap) @ write_identity (snap_run snap) @ write_epoch (snap_epoch snap) @
    write_u64 (snap_revision snap) @ write_u32 (snap_id_salt snap) @ write_counters (snap_id_counters snap)"

definition load_identity_header :: "foundry_snapshot \<Rightarrow> foundry_snapshot reader" where
  "load_identity_header snap =
    bindA (read_identity IK_Foundry) (\<lambda>foundry.
    bindA (read_identity IK_FoundryRun) (\<lambda>run.
    bindA read_epoch (\<lambda>epoch.
    bindA read_u64 (\<lambda>revision.
    bindA read_u32 (\<lambda>salt.
    bindA (load_counters kIdKindCount) (\<lambda>counters.
    retA (snap\<lparr>snap_foundry := foundry, snap_run := run, snap_epoch := epoch,
      snap_revision := revision, snap_id_salt := salt, snap_id_counters := counters\<rparr>)))))))"

definition store_budget_counter :: "budget_counter \<Rightarrow> string" where
  "store_budget_counter b = write_u64 (bc_reserved b) @ write_u64 (bc_consumed b) @ write_u64 (bc_released b)"

definition load_budget_counter :: "budget_counter reader" where
  "load_budget_counter =
    bindA read_u64 (\<lambda>reserved. bindA read_u64 (\<lambda>consumed. bindA read_u64 (\<lambda>released.
    retA \<lparr>bc_reserved = reserved, bc_consumed = consumed, bc_released = released\<rparr>)))"

definition store_ledger :: "population_id \<Rightarrow> budget_ledger \<Rightarrow> string" where
  "store_ledger k ledger = write_identity k @ store_budget_limits (lg_limits ledger) @
    concat (map (\<lambda>kind. store_budget_counter (lg_counters ledger kind)) all_budget_kinds)"

definition ledger_of_counters :: "budget_limits \<Rightarrow> budget_counter list \<Rightarrow> budget_ledger" where
  "ledger_of_counters limits counters =
    \<lparr>lg_limits = limits, lg_counters = (\<lambda>kind. counters ! enum_ordinal all_budget_kinds kind)\<rparr>"

definition load_ledger :: "budget_ledger reader" where
  "load_ledger =
    bindA load_budget_limits (\<lambda>limits.
    bindA (read_times (length all_budget_kinds) load_budget_counter) (\<lambda>counters.
    retA (ledger_of_counters limits counters)))"

section \<open>Framing\<close>

definition kRecordIdentityHeader :: u8 where "kRecordIdentityHeader = 1"
definition kRecordStatistics :: u8 where "kRecordStatistics = 2"
definition kRecordTask :: u8 where "kRecordTask = 3"
definition kRecordPolicy :: u8 where "kRecordPolicy = 4"
definition kRecordPopulation :: u8 where "kRecordPopulation = 5"
definition kRecordCandidate :: u8 where "kRecordCandidate = 6"
definition kRecordWorker :: u8 where "kRecordWorker = 7"
definition kRecordAttempt :: u8 where "kRecordAttempt = 8"
definition kRecordAssignment :: u8 where "kRecordAssignment = 9"
definition kRecordEvaluation :: u8 where "kRecordEvaluation = 10"
definition kRecordSelection :: u8 where "kRecordSelection = 11"
definition kRecordRetention :: u8 where "kRecordRetention = 12"
definition kRecordPromotion :: u8 where "kRecordPromotion = 13"
definition kRecordLineageNode :: u8 where "kRecordLineageNode = 14"
definition kRecordLedger :: u8 where "kRecordLedger = 15"

lemmas record_kinds = kRecordIdentityHeader_def kRecordStatistics_def kRecordTask_def kRecordPolicy_def
  kRecordPopulation_def kRecordCandidate_def kRecordWorker_def kRecordAttempt_def
  kRecordAssignment_def kRecordEvaluation_def kRecordSelection_def kRecordRetention_def
  kRecordPromotion_def kRecordLineageNode_def kRecordLedger_def

definition frame_record :: "u8 \<Rightarrow> string \<Rightarrow> string" where
  "frame_record record_type body = write_u8 record_type @ write_u32 (of_nat (length body)) @ body"

definition ascending_keys :: "('tag strong_id, 'v) table \<Rightarrow> 'tag strong_id list" where
  "ascending_keys t = sort_by (\<lambda>a b. raw a < raw b) (tbl_keys t)"

definition append_map_records ::
  "('tag strong_id, 'v) table \<Rightarrow> u8 \<Rightarrow> ('tag strong_id \<Rightarrow> 'v \<Rightarrow> string) \<Rightarrow> string" where
  "append_map_records t record_type write_body = concat (map (\<lambda>k.
    case tbl_find t k of None \<Rightarrow> [] | Some v \<Rightarrow> frame_record record_type (write_body k v)) (ascending_keys t))"

section \<open>The payload\<close>

definition snapshot_record_count :: "foundry_snapshot \<Rightarrow> nat" where
  "snapshot_record_count snap = 2 + length (snap_tasks snap) + length (snap_policies snap) +
    length (snap_populations snap) + length (snap_candidates snap) + length (snap_workers snap) +
    length (snap_attempts snap) + length (snap_assignments snap) + length (snap_evaluations snap) +
    length (snap_selections snap) + length (snap_retentions snap) +
    length (snap_promotion_requests snap) + length (snap_lineage snap) + length (snap_ledgers snap)"

definition build_payload :: "foundry_snapshot \<Rightarrow> string" where
  "build_payload snap =
    write_u32 (of_nat (snapshot_record_count snap)) @
    frame_record kRecordIdentityHeader (store_identity_header snap) @
    frame_record kRecordStatistics (store_statistics (snap_statistics snap)) @
    append_map_records (snap_tasks snap) kRecordTask (\<lambda>_. store_task) @
    append_map_records (snap_policies snap) kRecordPolicy (\<lambda>_. store_policy) @
    append_map_records (snap_populations snap) kRecordPopulation (\<lambda>_. store_population) @
    append_map_records (snap_candidates snap) kRecordCandidate (\<lambda>_. store_candidate) @
    append_map_records (snap_workers snap) kRecordWorker (\<lambda>_. store_worker) @
    append_map_records (snap_attempts snap) kRecordAttempt (\<lambda>_. store_attempt) @
    append_map_records (snap_assignments snap) kRecordAssignment (\<lambda>_. store_assignment) @
    append_map_records (snap_evaluations snap) kRecordEvaluation (\<lambda>_. store_evaluation) @
    append_map_records (snap_selections snap) kRecordSelection (\<lambda>_. store_selection) @
    append_map_records (snap_retentions snap) kRecordRetention (\<lambda>_. store_retention) @
    append_map_records (snap_promotion_requests snap) kRecordPromotion (\<lambda>_. store_promotion) @
    append_map_records (snap_lineage snap) kRecordLineageNode (\<lambda>_. store_lineage_node) @
    append_map_records (snap_ledgers snap) kRecordLedger store_ledger"

text \<open>A default-constructed \<^verbatim>\<open>FoundrySnapshot\<close>.\<close>

definition default_snapshot :: foundry_snapshot where
  "default_snapshot =
    \<lparr>snap_foundry = null_id, snap_run = null_id, snap_epoch = epoch_none, snap_revision = 0,
     snap_id_salt = 0, snap_id_counters = replicate kIdKindCount 0, snap_tasks = [],
     snap_policies = [], snap_populations = [], snap_candidates = [], snap_workers = [],
     snap_attempts = [], snap_assignments = [], snap_evaluations = [], snap_selections = [],
     snap_retentions = [], snap_promotion_requests = [], snap_ledgers = [], snap_lineage = [],
     snap_statistics = zero_statistics\<rparr>"

definition store_record :: "'k \<Rightarrow> 'v \<Rightarrow> ('k, 'v) table \<Rightarrow> ('k, 'v) table result" where
  "store_record k v t =
    (case tbl_find t k of None \<Rightarrow> Inr (tbl_emplace k v t) | Some _ \<Rightarrow> Inl E_PersistenceRejectedContent)"

definition load_into ::
  "'v reader \<Rightarrow> ('v \<Rightarrow> 'k) \<Rightarrow> (foundry_snapshot \<Rightarrow> ('k, 'v) table) \<Rightarrow>
   ((('k, 'v) table \<Rightarrow> ('k, 'v) table) \<Rightarrow> foundry_snapshot \<Rightarrow> foundry_snapshot) \<Rightarrow>
   foundry_snapshot \<Rightarrow> foundry_snapshot reader" where
  "load_into r key sel upd snap = bindA r (\<lambda>v.
    bindA (checkA (store_record (key v) v (sel snap))) (\<lambda>t. retA (upd (\<lambda>_. t) snap)))"

definition load_ledger_record :: "foundry_snapshot \<Rightarrow> foundry_snapshot reader" where
  "load_ledger_record snap = bindA (read_identity IK_Population) (\<lambda>k. bindA load_ledger (\<lambda>ledger.
    bindA (checkA (store_record k ledger (snap_ledgers snap))) (\<lambda>t. retA (snap\<lparr>snap_ledgers := t\<rparr>))))"

definition load_record :: "u8 \<Rightarrow> foundry_snapshot \<Rightarrow> foundry_snapshot reader" where
  "load_record ty snap =
    (if ty = kRecordIdentityHeader then load_identity_header snap
     else if ty = kRecordStatistics then bindA load_statistics (\<lambda>st. retA (snap\<lparr>snap_statistics := st\<rparr>))
     else if ty = kRecordTask then load_into load_task task_id_of snap_tasks snap_tasks_update snap
     else if ty = kRecordPolicy then load_into load_policy pol_id snap_policies snap_policies_update snap
     else if ty = kRecordPopulation then load_into load_population pop_id snap_populations snap_populations_update snap
     else if ty = kRecordCandidate then load_into load_candidate cand_id snap_candidates snap_candidates_update snap
     else if ty = kRecordWorker then load_into load_worker wk_id snap_workers snap_workers_update snap
     else if ty = kRecordAttempt then load_into load_attempt att_id snap_attempts snap_attempts_update snap
     else if ty = kRecordAssignment then load_into load_assignment asg_id snap_assignments snap_assignments_update snap
     else if ty = kRecordEvaluation then load_into load_evaluation ev_id snap_evaluations snap_evaluations_update snap
     else if ty = kRecordSelection then load_into load_selection sd_population snap_selections snap_selections_update snap
     else if ty = kRecordRetention then load_into load_retention rd_population snap_retentions snap_retentions_update snap
     else if ty = kRecordPromotion then load_into load_promotion pr_id snap_promotion_requests snap_promotion_requests_update snap
     else if ty = kRecordLineageNode then load_into load_lineage_node ln_candidate snap_lineage snap_lineage_update snap
     else if ty = kRecordLedger then load_ledger_record snap
     else failA E_PersistenceRejectedContent)"

text \<open>One record: its body is a reader of its own, which has to be read to its end.\<close>

definition parse_record :: "foundry_snapshot \<Rightarrow> foundry_snapshot reader" where
  "parse_record snap =
    bindA read_u8 (\<lambda>ty. bindA read_u32 (\<lambda>body_length. readA (\<lambda>data.
      if length data < unat body_length then failA E_PersistenceTruncated
      else bindA (take_bytes (unat body_length)) (\<lambda>body.
        checkA (fst (bindA (load_record ty snap) (\<lambda>snap'. thenA load_exhausted (retA snap')) body))))))"

primrec parse_records :: "nat \<Rightarrow> foundry_snapshot \<Rightarrow> foundry_snapshot reader" where
  "parse_records 0 snap = retA snap"
| "parse_records (Suc n) snap = bindA (parse_record snap) (parse_records n)"

section \<open>Semantic validation of a parsed snapshot\<close>

definition holds_key :: "('k, 'v) table \<Rightarrow> 'k \<Rightarrow> status" where
  "holds_key t k = require (tbl_find t k \<noteq> None) E_PersistenceRejectedContent"

definition require_no_null_identity :: "('tag strong_id, 'v) table \<Rightarrow> status" where
  "require_no_null_identity t = for_all (\<lambda>k. require (id_valid k) E_PersistenceRejectedContent) (tbl_keys t)"

definition require_population_ordering :: "candidate_id list \<Rightarrow> status" where
  "require_population_ordering ks = first_failure
    [require (length ks \<le> kMaxStoredCandidates) E_PersistenceRejectedContent,
     for_all (\<lambda>i. require (raw (ks ! (i - 1)) < raw (ks ! i)) E_PersistenceRejectedContent)
       [1..<length ks]]"

text \<open>Worker and boot identities are minted by the peer, so their counters are not compared.\<close>

definition require_counter :: "foundry_snapshot \<Rightarrow> nat \<Rightarrow> status" where
  "require_counter snap index =
    (if index = id_kind_ordinal IK_Worker \<or> index = id_kind_ordinal IK_WorkerBoot then OK
     else require (\<not> snap_id_counters snap ! index < observed_identity_counters snap ! index)
       E_PersistenceRejectedContent)"

definition validate_semantics :: "foundry_snapshot \<Rightarrow> status" where
  "validate_semantics snap = first_failure
    [for_all (\<lambda>(_, t). validate_task t) (snap_tasks snap),
     for_all (\<lambda>(_, p). validate_policy p) (snap_policies snap),
     for_all (\<lambda>(_, r). validate_candidate_record r) (snap_candidates snap),
     for_all (\<lambda>(_, r). validate_evaluation_record r) (snap_evaluations snap),
     for_all (\<lambda>(_, r). first_failure
       [holds_key (snap_candidates snap) (ev_candidate r), holds_key (snap_tasks snap) (ev_task r)])
       (snap_evaluations snap),
     for_all (\<lambda>(_, r). first_failure
       [holds_key (snap_candidates snap) (att_candidate r),
        holds_key (snap_populations snap) (att_population r),
        holds_key (snap_tasks snap) (att_task r)]) (snap_attempts snap),
     for_all (\<lambda>(_, r). holds_key (snap_attempts snap) (asg_attempt r)) (snap_assignments snap),
     for_all (\<lambda>(k, d). first_failure
       [holds_key (snap_populations snap) k,
        if id_valid (sd_selected d) then holds_key (snap_candidates snap) (sd_selected d) else OK])
       (snap_selections snap),
     for_all (\<lambda>(k, _). holds_key (snap_populations snap) k) (snap_retentions snap),
     for_all (\<lambda>(_, r). holds_key (snap_candidates snap) (pr_candidate r)) (snap_promotion_requests snap),
     for_all (\<lambda>(_, r). require_population_ordering (pop_candidates r)) (snap_populations snap),
     require (lineage_validate (snap_lineage snap) = OK) E_PersistenceRejectedContent,
     require_no_null_identity (snap_tasks snap), require_no_null_identity (snap_policies snap),
     require_no_null_identity (snap_populations snap), require_no_null_identity (snap_candidates snap),
     require_no_null_identity (snap_workers snap), require_no_null_identity (snap_attempts snap),
     require_no_null_identity (snap_assignments snap), require_no_null_identity (snap_evaluations snap),
     require_no_null_identity (snap_selections snap), require_no_null_identity (snap_retentions snap),
     require_no_null_identity (snap_promotion_requests snap),
     require_no_null_identity (snap_ledgers snap), require_no_null_identity (snap_lineage snap),
     for_all (require_counter snap) [0..<kIdKindCount]]"

definition kMaxSnapshotPayloadBytes :: nat where "kMaxSnapshotPayloadBytes = 512 * 1024 * 1024"
definition kMaxSnapshotRecordsPerKind :: nat where "kMaxSnapshotRecordsPerKind = 4 * 1024 * 1024"

definition parse_payload :: "string \<Rightarrow> foundry_snapshot result" where
  "parse_payload payload =
    (if kMaxSnapshotPayloadBytes < length payload then Inl E_PersistenceTruncated
     else fst (bindA (load_count 0 1) (\<lambda>record_count.
       if kMaxSnapshotRecordsPerKind * 16 < unat record_count then failA E_PersistenceTruncated
       else bindA (parse_records (unat record_count) default_snapshot) (\<lambda>snap.
         thenA load_exhausted (thenA (checkA (validate_semantics snap)) (retA snap)))) payload))"

section \<open>The file image\<close>

definition kSnapshotMagic :: string where "kSnapshotMagic = ''AFSN''"
definition kSnapshotHeaderBytes :: nat where "kSnapshotHeaderBytes = 24"
definition kSnapshotFormatVersion :: u32 where "kSnapshotFormatVersion = 1"

record snapshot_header =
  sh_format_version :: u32
  sh_payload_length :: u64
  sh_payload_crc32c :: u32

definition word_at :: "nat \<Rightarrow> nat \<Rightarrow> string \<Rightarrow> u64" where
  "word_at offset width bytes = load_little_endian (substr bytes offset width)"

definition header_of_image :: "string \<Rightarrow> snapshot_header" where
  "header_of_image bytes =
    \<lparr>sh_format_version = ucast (word_at 4 4 bytes), sh_payload_length = word_at 8 8 bytes,
     sh_payload_crc32c = ucast (word_at 16 4 bytes)\<rparr>"

definition header_bytes :: "string \<Rightarrow> snapshot_header \<Rightarrow> status" where
  "header_bytes bytes header =
    (let declared = of_nat kSnapshotHeaderBytes + sh_payload_length header :: u64 in first_failure
      [require (unat declared \<le> length bytes) E_PersistenceTruncated,
       require (length bytes \<le> unat declared) E_PersistenceTrailingGarbage,
       require (\<not> (kSnapshotHeaderBytes < unat declared \<and>
         kMaxSnapshotPayloadBytes < unat (sh_payload_length header))) E_PersistenceTruncated])"

definition validate_header :: "string \<Rightarrow> status" where
  "validate_header bytes = first_failure
    [require (kSnapshotHeaderBytes \<le> length bytes) E_PersistenceTruncated,
     require (take (length kSnapshotMagic) bytes = kSnapshotMagic) E_PersistenceCorrupt,
     require (word_at 20 4 bytes = 0) E_PersistenceCorrupt,
     require (sh_format_version (header_of_image bytes) = kSnapshotFormatVersion)
       E_PersistenceVersionUnsupported,
     header_bytes bytes (header_of_image bytes)]"

definition parse_image :: "string \<Rightarrow> foundry_snapshot result" where
  "parse_image bytes =
    (let header = header_of_image bytes;
         payload = take (unat (sh_payload_length header)) (drop kSnapshotHeaderBytes bytes) in
     if payload_crc payload \<noteq> sh_payload_crc32c header then Inl E_PersistenceIntegrityMismatch
     else parse_payload payload)"

definition serialize_snapshot :: "foundry_snapshot \<Rightarrow> string result" where
  "serialize_snapshot snap =
    (let payload = build_payload snap in
     if kMaxSnapshotPayloadBytes < length payload then Inl E_LengthOutOfRange
     else Inr (kSnapshotMagic @ write_u32 kSnapshotFormatVersion @ write_u64 (of_nat (length payload)) @
       write_u32 (payload_crc payload) @ write_u32 0 @ payload))"

definition deserialize_snapshot :: "string \<Rightarrow> foundry_snapshot result" where
  "deserialize_snapshot bytes =
    (case validate_header bytes of Inl e \<Rightarrow> Inl e | Inr _ \<Rightarrow> parse_image bytes)"

definition parse_snapshot_header :: "string \<Rightarrow> snapshot_header result" where
  "parse_snapshot_header bytes =
    (case validate_header bytes of Inl e \<Rightarrow> Inl e | Inr _ \<Rightarrow> Inr (header_of_image bytes))"

end
