(* ===== verification/Snapshot_Roundtrip.thy ===== *)
theory Snapshot_Roundtrip
  imports Snapshot_Image
begin

text \<open>
  What is written to the snapshot file is what is read back: the records, the frames of a table,
  the payload, the image. The parsed tables hold the same records in ascending identity order.
\<close>

section \<open>The remaining records\<close>

interpretation s_budget_counter: record_codec store_budget_counter load_budget_counter "\<lambda>_. True" 24
  by unfold_locales
    (auto simp: load_budget_counter_def store_budget_counter_def store_simps
      elim!: store_exact intro!: store_rejects)

lemma ledger_of_stored:
  "ledger_of_counters (lg_limits l) (map (lg_counters l) all_budget_kinds) = l"
proof -
  have "map (lg_counters l) all_budget_kinds ! enum_ordinal all_budget_kinds kind = lg_counters l kind" for kind
    by (cases kind) (simp_all add: all_budget_kinds_def)
  then show ?thesis
    by (simp add: ledger_of_counters_def)
qed

lemma ledger_read:
  "load_ledger (store_budget_limits (lg_limits l) @
     concat (map (\<lambda>kind. store_budget_counter (lg_counters l kind)) all_budget_kinds)) = (Inr l, [])"
proof -
  have "read_times (length all_budget_kinds) load_budget_counter
      (concat (map (\<lambda>kind. store_budget_counter (lg_counters l kind)) all_budget_kinds)) =
    (Inr (map (lg_counters l) all_budget_kinds), [])"
    using s_budget_counter.times_reads [of "map (lg_counters l) all_budget_kinds" "[]"]
    by (simp add: comp_def)
  then show ?thesis
    by (simp add: load_ledger_def store_simps bindA_def retA_def ledger_of_stored)
qed

section \<open>Frames\<close>

lemma parse_framed:
  assumes "length body < 2 ^ 32"
  shows "parse_record snap (frame_record ty body @ t) =
    (fst (bindA (load_record ty snap) (\<lambda>snap'. thenA load_exhausted (retA snap')) body), t)"
  using unat_length_u32 [OF assms]
  by (simp add: parse_record_def frame_record_def store_simps readA_def bindA_def take_bytes_def checkA_def)

lemma parse_framed_ok:
  "length body < 2 ^ 32 \<Longrightarrow> load_record ty snap body = (Inr snap', []) \<Longrightarrow>
   parse_record snap (frame_record ty body @ t) = (Inr snap', t)"
  by (simp add: parse_framed load_exhausted_def action_defs)

lemma length_framed: "length (frame_record ty body) = 5 + length body"
  by (simp add: frame_record_def store_simps)

section \<open>The records of a table\<close>

definition ordered_table :: "('tag strong_id, 'v) table \<Rightarrow> ('tag strong_id, 'v) table" where
  "ordered_table t = concat (map (\<lambda>k. case tbl_find t k of None \<Rightarrow> [] | Some v \<Rightarrow> [(k, v)]) (ascending_keys t))"

lemma append_map_records_ordered:
  "append_map_records t ty put = concat (map (\<lambda>(k, v). frame_record ty (put k v)) (ordered_table t))"
proof -
  have "concat (map (\<lambda>k. case tbl_find t k of None \<Rightarrow> [] | Some v \<Rightarrow> frame_record ty (put k v)) ks) =
    concat (map (\<lambda>(k, v). frame_record ty (put k v))
      (concat (map (\<lambda>k. case tbl_find t k of None \<Rightarrow> [] | Some v \<Rightarrow> [(k, v)]) ks)))" for ks
    by (induction ks) (simp_all split: option.splits)
  then show ?thesis
    by (simp add: append_map_records_def ordered_table_def)
qed

lemma keys_of_ordered: "map fst (ordered_table t) = ascending_keys t"
proof -
  have "map fst (concat (map (\<lambda>k. case tbl_find t k of None \<Rightarrow> [] | Some v \<Rightarrow> [(k, v)]) ks)) = ks"
    if "set ks \<subseteq> set (tbl_keys t)" for ks
    using that by (induction ks) (auto simp: tbl.set_keys)
  then show ?thesis
    by (simp add: ordered_table_def ascending_keys_def)
qed

lemma ordered_table_ok: "tbl_ok t \<Longrightarrow> tbl_ok (ordered_table t)"
  using keys_of_ordered [of t] by (simp add: tbl_ok_def ascending_keys_def tbl_keys_def)

lemma in_ordered_table: "tbl_ok t \<Longrightarrow> (k, v) \<in> set (ordered_table t) \<longleftrightarrow> (k, v) \<in> set t"
  using tbl_find_iff [of t k v]
  by (auto simp: ordered_table_def ascending_keys_def tbl.set_keys eq_commute [of "Some v"] split: option.splits)

lemma find_in_ordered: "tbl_ok t \<Longrightarrow> tbl_find (ordered_table t) k = tbl_find t k"
  using tbl_find_iff [of t k] tbl_find_iff [OF ordered_table_ok, of t k] in_ordered_table [of t k]
  by (metis not_None_eq)

lemma length_ordered_table: "length (ordered_table t) = length t"
  using arg_cong [OF keys_of_ordered [of t], of length] by (simp add: ascending_keys_def tbl_keys_def)

text \<open>The fields of a snapshot that hold tables.\<close>

definition table_field ::
  "(foundry_snapshot \<Rightarrow> 't) \<Rightarrow> (('t \<Rightarrow> 't) \<Rightarrow> foundry_snapshot \<Rightarrow> foundry_snapshot) \<Rightarrow> bool" where
  "table_field sel upd \<longleftrightarrow> (\<forall>f s. sel (upd f s) = f (sel s)) \<and>
    (\<forall>f g s. upd f (upd g s) = upd (f \<circ> g) s) \<and> (\<forall>f s. upd f s = upd (\<lambda>_. f (sel s)) s) \<and>
    (\<forall>s. upd (\<lambda>t. t) s = s)"

lemma snapshot_fields:
  "table_field snap_tasks snap_tasks_update" "table_field snap_policies snap_policies_update"
  "table_field snap_populations snap_populations_update" "table_field snap_candidates snap_candidates_update"
  "table_field snap_workers snap_workers_update" "table_field snap_attempts snap_attempts_update"
  "table_field snap_assignments snap_assignments_update" "table_field snap_evaluations snap_evaluations_update"
  "table_field snap_selections snap_selections_update" "table_field snap_retentions snap_retentions_update"
  "table_field snap_promotion_requests snap_promotion_requests_update"
  "table_field snap_lineage snap_lineage_update" "table_field snap_ledgers snap_ledgers_update"
  by (simp_all add: table_field_def comp_def)

text \<open>The records of one table extend the table they are filed in.\<close>

lemma parse_entries:
  assumes field: "table_field sel upd"
    and reads: "\<And>k v s. (k, v) \<in> set entries \<Longrightarrow> k \<notin> fst ` set (sel s) \<Longrightarrow>
      load_record ty s (put k v) = (Inr (upd (\<lambda>t. t @ [(k, v)]) s), [])"
    and small: "\<And>k v. (k, v) \<in> set entries \<Longrightarrow> length (put k v) < 2 ^ 32"
    and distinct: "distinct (map fst (sel s @ entries))"
  shows "parse_records (length entries + n) s
      (concat (map (\<lambda>(k, v). frame_record ty (put k v)) entries) @ t) =
    parse_records n (upd (\<lambda>t. t @ entries) s) t"
  using reads small distinct
proof (induction entries arbitrary: s)
  case Nil
  then show ?case using field by (simp add: table_field_def)
next
  case (Cons e es)
  obtain k v where e: "e = (k, v)" by (cases e)
  let ?s' = "upd (\<lambda>t. t @ [(k, v)]) s"
  have sel: "sel (upd f s) = f (sel s)" "upd f (upd g s) = upd (f \<circ> g) s" for f g s
    using field by (auto simp: table_field_def)
  have "k \<notin> fst ` set (sel s)"
    using Cons.prems(3) by (auto simp: e)
  then have "parse_record s (frame_record ty (put k v) @ u) = (Inr ?s', u)" for u
    using Cons.prems(1,2) by (intro parse_framed_ok) (simp_all add: e)
  moreover have "parse_records (length es + n) ?s' (concat (map (\<lambda>(k, v). frame_record ty (put k v)) es) @ t) =
      parse_records n (upd (\<lambda>t. t @ es) ?s') t"
    using Cons.prems by (intro Cons.IH) (simp_all add: e sel)
  moreover have "upd (\<lambda>t. t @ es) ?s' = upd (\<lambda>t. t @ e # es) s"
    by (simp add: sel(2) e comp_def)
  ultimately show ?case
    by (simp add: e bindA_def)
qed

lemma small_entries:
  assumes "length (append_map_records t ty put) < 2 ^ 32" and "(k, v) \<in> set (ordered_table t)"
  shows "length (put k v) < 2 ^ 32"
proof -
  have "length (put k v) \<le> length (concat (map (\<lambda>(k, v). frame_record ty (put k v)) entries))"
    if "(k, v) \<in> set entries" for entries
    using that by (induction entries) (auto simp: length_framed)
  from this [OF assms(2)] show ?thesis
    using assms(1) by (simp add: append_map_records_ordered)
qed

lemma parse_map_records:
  assumes field: "table_field sel upd" and "sel s = []" and ok: "tbl_ok t"
    and reads: "\<And>k v s. (k, v) \<in> set t \<Longrightarrow> k \<notin> fst ` set (sel s) \<Longrightarrow>
      load_record ty s (put k v) = (Inr (upd (\<lambda>t. t @ [(k, v)]) s), [])"
    and small: "length (append_map_records t ty put) < 2 ^ 32"
  shows "parse_records (length t + n) s (append_map_records t ty put @ u) =
    parse_records n (upd (\<lambda>_. ordered_table t) s) u"
proof -
  have "parse_records (length (ordered_table t) + n) s
      (concat (map (\<lambda>(k, v). frame_record ty (put k v)) (ordered_table t)) @ u) =
    parse_records n (upd (\<lambda>t'. t' @ ordered_table t) s) u"
    using small_entries [OF small] ok reads assms(2) ordered_table_ok [OF ok]
    by (intro parse_entries [OF field]) (simp_all add: in_ordered_table tbl_ok_def)
  moreover have "upd f s = upd (\<lambda>_. f (sel s)) s" for f
    using field unfolding table_field_def by blast
  from this [of "\<lambda>t'. t' @ ordered_table t"]
  have "upd (\<lambda>t'. t' @ ordered_table t) s = upd (\<lambda>_. ordered_table t) s"
    by (simp add: assms(2))
  ultimately show ?thesis
    by (simp add: append_map_records_ordered length_ordered_table)
qed

lemma load_into_ok:
  assumes field: "table_field sel upd" and "get (put v) = (Inr v, [])" and "key v = k" and "k \<notin> fst ` set (sel s)"
  shows "load_into get key sel upd s (put v) = (Inr (upd (\<lambda>t. t @ [(k, v)]) s), [])"
proof -
  have "map_of (sel s) k = None"
    using assms(4) by (simp add: map_of_eq_None_iff)
  moreover have "upd f s = upd (\<lambda>_. f (sel s)) s" for f
    using field unfolding table_field_def by blast
  from this [of "\<lambda>t. t @ [(k, v)]"]
  have "upd (\<lambda>t. t @ [(k, v)]) s = upd (\<lambda>_. sel s @ [(k, v)]) s" .
  ultimately show ?thesis
    using assms(2,3) by (simp add: load_into_def bindA_def checkA_def retA_def store_record_def tbl_find_def tbl_emplace_def)
qed

text \<open>A table whose records are filed under their own identity and can be read back.\<close>

definition storable_table :: "('v \<Rightarrow> 'k) \<Rightarrow> ('v \<Rightarrow> bool) \<Rightarrow> ('k, 'v) table \<Rightarrow> bool" where
  "storable_table key ok t \<longleftrightarrow> tbl_ok t \<and> (\<forall>(k, v)\<in>set t. key v = k \<and> ok v)"

context record_codec
begin

lemma parse_stored_table:
  assumes "storable_table key ok t" and "table_field sel upd"
    and "\<And>s. load_record ty s = load_into get key sel upd s"
    and "sel s = []" and "length (append_map_records t ty (\<lambda>_. put)) < 2 ^ 32"
  shows "parse_records (length t + n) s (append_map_records t ty (\<lambda>_. put) @ u) =
    parse_records n (upd (\<lambda>_. ordered_table t) s) u"
proof (rule parse_map_records [OF assms(2,4) _ _ assms(5)])
  show "tbl_ok t" using assms(1) by (simp add: storable_table_def)
next
  fix k v s assume "(k, v) \<in> set t" and "k \<notin> fst ` set (sel s)"
  then have "get (put v) = (Inr v, [])" and "key v = k"
    using assms(1) reads [of v "[]"] by (auto simp: storable_table_def)
  then show "load_record ty s (put v) = (Inr (upd (\<lambda>t. t @ [(k, v)]) s), [])"
    unfolding assms(3) using \<open>k \<notin> fst ` set (sel s)\<close> by (intro load_into_ok [OF assms(2)])
qed

end

section \<open>The payload and the image\<close>

definition storable_snapshot :: "foundry_snapshot \<Rightarrow> bool" where
  "storable_snapshot snap \<longleftrightarrow>
    wire_identity IK_Foundry (snap_foundry snap) \<and> wire_identity IK_FoundryRun (snap_run snap) \<and>
    length (snap_id_counters snap) = kIdKindCount \<and>
    snapshot_record_count snap \<le> kMaxSnapshotRecordsPerKind * 16 \<and>
    storable_table task_id_of storable_task (snap_tasks snap) \<and>
    storable_table pol_id storable_policy (snap_policies snap) \<and>
    storable_table pop_id storable_population (snap_populations snap) \<and>
    storable_table cand_id storable_candidate (snap_candidates snap) \<and>
    storable_table wk_id storable_worker (snap_workers snap) \<and>
    storable_table att_id storable_attempt (snap_attempts snap) \<and>
    storable_table asg_id storable_assignment (snap_assignments snap) \<and>
    storable_table ev_id storable_evaluation (snap_evaluations snap) \<and>
    storable_table sd_population storable_selection (snap_selections snap) \<and>
    storable_table rd_population storable_retention (snap_retentions snap) \<and>
    storable_table pr_id storable_promotion (snap_promotion_requests snap) \<and>
    storable_table ln_candidate storable_lineage_node (snap_lineage snap) \<and>
    tbl_ok (snap_ledgers snap) \<and> (\<forall>k \<in> fst ` set (snap_ledgers snap). wire_identity IK_Population k)"

definition ordered_snapshot :: "foundry_snapshot \<Rightarrow> foundry_snapshot" where
  "ordered_snapshot snap = snap
    \<lparr>snap_tasks := ordered_table (snap_tasks snap), snap_policies := ordered_table (snap_policies snap),
     snap_populations := ordered_table (snap_populations snap),
     snap_candidates := ordered_table (snap_candidates snap),
     snap_workers := ordered_table (snap_workers snap), snap_attempts := ordered_table (snap_attempts snap),
     snap_assignments := ordered_table (snap_assignments snap),
     snap_evaluations := ordered_table (snap_evaluations snap),
     snap_selections := ordered_table (snap_selections snap),
     snap_retentions := ordered_table (snap_retentions snap),
     snap_promotion_requests := ordered_table (snap_promotion_requests snap),
     snap_ledgers := ordered_table (snap_ledgers snap), snap_lineage := ordered_table (snap_lineage snap)\<rparr>"

lemma load_record_tables:
  "load_record kRecordTask s = load_into load_task task_id_of snap_tasks snap_tasks_update s"
  "load_record kRecordPolicy s = load_into load_policy pol_id snap_policies snap_policies_update s"
  "load_record kRecordPopulation s = load_into load_population pop_id snap_populations snap_populations_update s"
  "load_record kRecordCandidate s = load_into load_candidate cand_id snap_candidates snap_candidates_update s"
  "load_record kRecordWorker s = load_into load_worker wk_id snap_workers snap_workers_update s"
  "load_record kRecordAttempt s = load_into load_attempt att_id snap_attempts snap_attempts_update s"
  "load_record kRecordAssignment s = load_into load_assignment asg_id snap_assignments snap_assignments_update s"
  "load_record kRecordEvaluation s = load_into load_evaluation ev_id snap_evaluations snap_evaluations_update s"
  "load_record kRecordSelection s = load_into load_selection sd_population snap_selections snap_selections_update s"
  "load_record kRecordRetention s = load_into load_retention rd_population snap_retentions snap_retentions_update s"
  "load_record kRecordPromotion s = load_into load_promotion pr_id snap_promotion_requests snap_promotion_requests_update s"
  "load_record kRecordLineageNode s = load_into load_lineage_node ln_candidate snap_lineage snap_lineage_update s"
  by (simp_all add: load_record_def record_kinds)

lemma load_record_others:
  "load_record kRecordIdentityHeader s = load_identity_header s"
  "load_record kRecordStatistics s = bindA load_statistics (\<lambda>st. retA (s\<lparr>snap_statistics := st\<rparr>))"
  "load_record kRecordLedger s = load_ledger_record s"
  by (simp_all add: load_record_def record_kinds)

lemma ledger_record_ok:
  assumes "wire_identity IK_Population k" and "k \<notin> fst ` set (snap_ledgers s)"
  shows "load_ledger_record s (store_ledger k l) = (Inr (snap_ledgers_update (\<lambda>t. t @ [(k, l)]) s), [])"
proof -
  have "map_of (snap_ledgers s) k = None"
    using assms(2) by (simp add: map_of_eq_None_iff)
  then show ?thesis
    using assms(1) ledger_read [of l]
    by (cases s) (simp add: load_ledger_record_def store_ledger_def store_simps bindA_def checkA_def retA_def
        store_record_def tbl_find_def tbl_emplace_def)
qed

lemma parse_stored_ledgers:
  assumes "tbl_ok t" and "\<forall>k \<in> fst ` set t. wire_identity IK_Population k"
    and "snap_ledgers s = []" and "length (append_map_records t kRecordLedger store_ledger) < 2 ^ 32"
  shows "parse_records (length t + n) s (append_map_records t kRecordLedger store_ledger @ u) =
    parse_records n (s\<lparr>snap_ledgers := ordered_table t\<rparr>) u"
proof (rule parse_map_records [OF snapshot_fields(13) assms(3,1) _ assms(4)])
  fix k v and s :: foundry_snapshot
  assume "(k, v) \<in> set t" and "k \<notin> fst ` set (snap_ledgers s)"
  then show "load_record kRecordLedger s (store_ledger k v) =
      (Inr (snap_ledgers_update (\<lambda>t. t @ [(k, v)]) s), [])"
    unfolding load_record_others using assms(2) by (intro ledger_record_ok) force+
qed

lemma parse_identity_header:
  assumes "wire_identity IK_Foundry (snap_foundry snap)" and "wire_identity IK_FoundryRun (snap_run snap)"
    and "length (snap_id_counters snap) = kIdKindCount"
    and "length (store_identity_header snap) < 2 ^ 32"
  shows "parse_records (Suc n) s (frame_record kRecordIdentityHeader (store_identity_header snap) @ u) =
    parse_records n (s\<lparr>snap_foundry := snap_foundry snap, snap_run := snap_run snap, snap_epoch := snap_epoch snap,
      snap_revision := snap_revision snap, snap_id_salt := snap_id_salt snap,
      snap_id_counters := snap_id_counters snap\<rparr>) u"
proof -
  have "load_counters kIdKindCount (write_counters (snap_id_counters snap)) = (Inr (snap_id_counters snap), [])"
    using counters_read [OF assms(3), of "[]"] by simp
  then have "load_record kRecordIdentityHeader s (store_identity_header snap) =
    (Inr (s\<lparr>snap_foundry := snap_foundry snap, snap_run := snap_run snap, snap_epoch := snap_epoch snap,
      snap_revision := snap_revision snap, snap_id_salt := snap_id_salt snap,
      snap_id_counters := snap_id_counters snap\<rparr>), [])"
    using assms(1,2)
    by (simp add: load_record_others load_identity_header_def store_identity_header_def store_simps)
      (simp add: bindA_def retA_def)
  from parse_framed_ok [OF assms(4) this] show ?thesis
    by (simp add: bindA_def)
qed

lemma parse_statistics:
  assumes "length (store_statistics st) < 2 ^ 32"
  shows "parse_records (Suc n) s (frame_record kRecordStatistics (store_statistics st) @ u) =
    parse_records n (s\<lparr>snap_statistics := st\<rparr>) u"
proof -
  have "load_record kRecordStatistics s (store_statistics st) = (Inr (s\<lparr>snap_statistics := st\<rparr>), [])"
    using s_statistics.reads [of st "[]"] by (simp add: load_record_others bindA_def retA_def)
  from parse_framed_ok [OF assms this] show ?thesis
    by (simp add: bindA_def)
qed

lemmas table_readers =
  s_task.parse_stored_table [OF _ snapshot_fields(1) load_record_tables(1)]
  s_policy.parse_stored_table [OF _ snapshot_fields(2) load_record_tables(2)]
  s_population.parse_stored_table [OF _ snapshot_fields(3) load_record_tables(3)]
  s_candidate.parse_stored_table [OF _ snapshot_fields(4) load_record_tables(4)]
  s_worker.parse_stored_table [OF _ snapshot_fields(5) load_record_tables(5)]
  s_attempt.parse_stored_table [OF _ snapshot_fields(6) load_record_tables(6)]
  s_assignment.parse_stored_table [OF _ snapshot_fields(7) load_record_tables(7)]
  s_evaluation.parse_stored_table [OF _ snapshot_fields(8) load_record_tables(8)]
  s_selection.parse_stored_table [OF _ snapshot_fields(9) load_record_tables(9)]
  s_retention.parse_stored_table [OF _ snapshot_fields(10) load_record_tables(10)]
  s_promotion.parse_stored_table [OF _ snapshot_fields(11) load_record_tables(11)]
  s_lineage_node.parse_stored_table [OF _ snapshot_fields(12) load_record_tables(12)]

lemma all_records_read:
  assumes ok: "storable_snapshot snap" and small: "length (build_payload snap) < 2 ^ 32"
    and payload: "build_payload snap = write_u32 (of_nat (snapshot_record_count snap)) @ records"
  shows "parse_records (snapshot_record_count snap) default_snapshot records = (Inr (ordered_snapshot snap), [])"
proof -
  note ok' = ok [unfolded storable_snapshot_def]
  have count: "snapshot_record_count snap = Suc (Suc (length (snap_tasks snap) + (length (snap_policies snap) +
    (length (snap_populations snap) + (length (snap_candidates snap) + (length (snap_workers snap) +
    (length (snap_attempts snap) + (length (snap_assignments snap) + (length (snap_evaluations snap) +
    (length (snap_selections snap) + (length (snap_retentions snap) +
    (length (snap_promotion_requests snap) + (length (snap_lineage snap) + (length (snap_ledgers snap) + 0))))))))))))))"
    by (simp add: snapshot_record_count_def)
  have records: "records = frame_record kRecordIdentityHeader (store_identity_header snap) @
    frame_record kRecordStatistics (store_statistics (snap_statistics snap)) @
    append_map_records (snap_tasks snap) kRecordTask (\<lambda>_. store_task) @
    append_map_records (snap_policies snap) kRecordPolicy (\<lambda>_. store_policy) @
    append_map_records (snap_populations snap) kRecordPopulation (\<lambda>_. store_population) @
    append_map_records (snap_candidates snap) kRecordCandidate (\<lambda>_. store_candidate) @
    append_map_records (snap_workers snap) kRecordWorker (\<lambda>_. store_worker) @
    append_map_records (snap_attempts snap) kRecordAttempt (\<lambda>_. store_attempt) @
    append_map_records (snap_assignments snap) kRecordAssignment (\<lambda>_. store_assignment) @
    append_map_records (snap_evaluations snap) kRecordEvaluation (\<lambda>_. store_evaluation) @
    append_map_records (snap_selections snap) kRecordSelection (\<lambda>_. store_selection) @
    append_map_records (snap_retentions snap) kRecordRetention (\<lambda>_. store_retention) @
    append_map_records (snap_promotion_requests snap) kRecordPromotion (\<lambda>_. store_promotion) @
    append_map_records (snap_lineage snap) kRecordLineageNode (\<lambda>_. store_lineage_node) @
    append_map_records (snap_ledgers snap) kRecordLedger store_ledger @ []"
    using payload by (simp add: build_payload_def)
  from small have small': "length records < 2 ^ 32"
    unfolding payload by simp
  have lens: "length (store_identity_header snap) < 2 ^ 32" "length (store_statistics (snap_statistics snap)) < 2 ^ 32"
    "length (append_map_records (snap_tasks snap) kRecordTask (\<lambda>_. store_task)) < 2 ^ 32"
    "length (append_map_records (snap_policies snap) kRecordPolicy (\<lambda>_. store_policy)) < 2 ^ 32"
    "length (append_map_records (snap_populations snap) kRecordPopulation (\<lambda>_. store_population)) < 2 ^ 32"
    "length (append_map_records (snap_candidates snap) kRecordCandidate (\<lambda>_. store_candidate)) < 2 ^ 32"
    "length (append_map_records (snap_workers snap) kRecordWorker (\<lambda>_. store_worker)) < 2 ^ 32"
    "length (append_map_records (snap_attempts snap) kRecordAttempt (\<lambda>_. store_attempt)) < 2 ^ 32"
    "length (append_map_records (snap_assignments snap) kRecordAssignment (\<lambda>_. store_assignment)) < 2 ^ 32"
    "length (append_map_records (snap_evaluations snap) kRecordEvaluation (\<lambda>_. store_evaluation)) < 2 ^ 32"
    "length (append_map_records (snap_selections snap) kRecordSelection (\<lambda>_. store_selection)) < 2 ^ 32"
    "length (append_map_records (snap_retentions snap) kRecordRetention (\<lambda>_. store_retention)) < 2 ^ 32"
    "length (append_map_records (snap_promotion_requests snap) kRecordPromotion (\<lambda>_. store_promotion)) < 2 ^ 32"
    "length (append_map_records (snap_lineage snap) kRecordLineageNode (\<lambda>_. store_lineage_node)) < 2 ^ 32"
    "length (append_map_records (snap_ledgers snap) kRecordLedger store_ledger) < 2 ^ 32"
    using small' unfolding records by (simp_all add: length_framed)
  show ?thesis
    using ok' lens unfolding count records
    by (simp only: parse_identity_header parse_statistics)
      (simp add: table_readers parse_stored_ledgers [where n = 0 and u = "[]", simplified]
        default_snapshot_def retA_def ordered_snapshot_def)
qed

end
