(* ===== verification/Snapshot_Guarantees.thy ===== *)
theory Snapshot_Guarantees
  imports Snapshot_Roundtrip Core_Restart
begin

text \<open>
  What the snapshot file guarantees: an image reads back as the records it was written from, a
  damaged image is recognised, and what a coordinator accepts from it is consistent enough to
  continue the run without issuing an identity twice.
\<close>

section \<open>The counters observed in the tables\<close>

lemma length_note [simp]: "length (note_identities kind ks observed) = length observed"
  by (induction ks arbitrary: observed) (simp_all add: note_identities_def bump_identity_counter_def Let_def)

lemma Max_insert_max: "finite S \<Longrightarrow> Max (insert a (insert b S)) = Max (insert (max a b) S)"
  for a b :: "'a::linorder"
  by (cases "S = {}") (simp_all add: max.assoc)

lemma note_nth:
  assumes "i < length observed"
  shows "note_identities kind ks observed ! i =
    (if i = id_kind_ordinal kind \<and> i \<noteq> 0 then Max (insert (observed ! i) (id_counter ` set ks)) else observed ! i)"
  using assms
proof (induction ks arbitrary: observed)
  case Nil
  then show ?case by (simp add: note_identities_def)
next
  case (Cons k ks)
  let ?bumped = "bump_identity_counter kind (raw k) observed"
  have "length ?bumped = length observed"
    by (simp add: bump_identity_counter_def Let_def)
  moreover have "?bumped ! i = (if i = id_kind_ordinal kind \<and> i \<noteq> 0 then max (observed ! i) (id_counter k) else observed ! i)"
    using Cons.prems by (auto simp: bump_identity_counter_def Let_def id_counter_def kIdCounterMask_def nth_list_update max_def)
  moreover have "note_identities kind (k # ks) observed = note_identities kind ks ?bumped"
    by (simp add: note_identities_def)
  ultimately show ?case
    using Cons.IH [of ?bumped] Cons.prems
      Max_insert_max [of "id_counter ` set ks" "observed ! i" "id_counter k"]
    by (cases "i = id_kind_ordinal kind \<and> i \<noteq> 0") auto
qed

lemma note_same: "set ks = set ks' \<Longrightarrow> note_identities kind ks observed = note_identities kind ks' observed"
  by (rule nth_equalityI) (simp_all add: note_nth)

lemma note_grows:
  assumes "i < length observed"
  shows "observed ! i \<le> note_identities kind ks observed ! i"
  using assms by (simp add: note_nth)

lemma note_covers:
  assumes "k \<in> set ks" and "id_kind_ordinal kind < length observed" and "kind \<noteq> IK_None"
  shows "id_counter k \<le> note_identities kind ks observed ! id_kind_ordinal kind"
proof -
  have "id_kind_ordinal kind \<noteq> 0" using assms(3) by (cases kind) simp_all
  then show ?thesis using assms(1,2) by (simp add: note_nth)
qed

section \<open>Order does not matter\<close>

lemma set_ordered [simp]: "tbl_ok t \<Longrightarrow> set (ordered_table t) = set t"
  by (auto simp: in_ordered_table)

lemma keys_ordered [simp]: "tbl_ok t \<Longrightarrow> set (tbl_keys (ordered_table t)) = set (tbl_keys t)"
  by (simp add: tbl_keys_def)

lemma storable_tables_ok:
  assumes "storable_snapshot snap"
  shows "tbl_ok (snap_tasks snap)" "tbl_ok (snap_policies snap)" "tbl_ok (snap_populations snap)"
    "tbl_ok (snap_candidates snap)" "tbl_ok (snap_workers snap)" "tbl_ok (snap_attempts snap)"
    "tbl_ok (snap_assignments snap)" "tbl_ok (snap_evaluations snap)" "tbl_ok (snap_selections snap)"
    "tbl_ok (snap_retentions snap)" "tbl_ok (snap_promotion_requests snap)" "tbl_ok (snap_lineage snap)"
    "tbl_ok (snap_ledgers snap)"
  using assms by (simp_all add: storable_snapshot_def storable_table_def)

lemma note_ordered:
  assumes "tbl_ok t"
  shows "note_identities kind (tbl_keys (ordered_table t)) = note_identities kind (tbl_keys t)"
    and "note_identities kind' (map f (ordered_table t)) = note_identities kind' (map f t)"
  using assms by (auto intro!: ext note_same)

lemma observed_ordered:
  assumes "storable_snapshot snap"
  shows "observed_identity_counters (ordered_snapshot snap) = observed_identity_counters snap"
proof -
  note ok = storable_tables_ok [OF assms]
  show ?thesis
    by (simp add: observed_identity_counters_def ordered_snapshot_def note_ordered ok)
qed

lemma ordered_fields [simp]:
  "snap_tasks (ordered_snapshot snap) = ordered_table (snap_tasks snap)"
  "snap_policies (ordered_snapshot snap) = ordered_table (snap_policies snap)"
  "snap_populations (ordered_snapshot snap) = ordered_table (snap_populations snap)"
  "snap_candidates (ordered_snapshot snap) = ordered_table (snap_candidates snap)"
  "snap_workers (ordered_snapshot snap) = ordered_table (snap_workers snap)"
  "snap_attempts (ordered_snapshot snap) = ordered_table (snap_attempts snap)"
  "snap_assignments (ordered_snapshot snap) = ordered_table (snap_assignments snap)"
  "snap_evaluations (ordered_snapshot snap) = ordered_table (snap_evaluations snap)"
  "snap_selections (ordered_snapshot snap) = ordered_table (snap_selections snap)"
  "snap_retentions (ordered_snapshot snap) = ordered_table (snap_retentions snap)"
  "snap_promotion_requests (ordered_snapshot snap) = ordered_table (snap_promotion_requests snap)"
  "snap_ledgers (ordered_snapshot snap) = ordered_table (snap_ledgers snap)"
  "snap_lineage (ordered_snapshot snap) = ordered_table (snap_lineage snap)"
  "snap_foundry (ordered_snapshot snap) = snap_foundry snap" "snap_run (ordered_snapshot snap) = snap_run snap"
  "snap_epoch (ordered_snapshot snap) = snap_epoch snap"
  "snap_id_counters (ordered_snapshot snap) = snap_id_counters snap"
  by (simp_all add: ordered_snapshot_def)

lemma deepest_parent_find: "tbl_find g = tbl_find h \<Longrightarrow> deepest_parent g ps d = deepest_parent h ps d"
  by (induction ps arbitrary: d) (simp_all split: option.splits)

lemma lineage_ok_ordered: "tbl_ok g \<Longrightarrow> lineage_ok (ordered_table g) \<longleftrightarrow> lineage_ok g"
  using ext [of "tbl_find (ordered_table g)" "tbl_find g", OF find_in_ordered]
    deepest_parent_find [of "ordered_table g" g]
  by (simp add: lineage_ok_def ordered_table_ok node_ok_def lineage_contains_def computed_depth_def)

lemma holds_key_ordered: "tbl_ok t \<Longrightarrow> holds_key (ordered_table t) k = holds_key t k"
  by (simp add: holds_key_def find_in_ordered)

lemma no_null_ordered: "tbl_ok t \<Longrightarrow> require_no_null_identity (ordered_table t) = OK \<longleftrightarrow> require_no_null_identity t = OK"
  by (simp add: require_no_null_identity_def)

lemma validate_ordered:
  assumes "storable_snapshot snap"
  shows "validate_semantics (ordered_snapshot snap) = OK \<longleftrightarrow> validate_semantics snap = OK"
proof -
  note ok = storable_tables_ok [OF assms]
  have "require_counter (ordered_snapshot snap) i = require_counter snap i" for i
    by (simp add: require_counter_def observed_ordered [OF assms])
  moreover have "lineage_validate (ordered_table (snap_lineage snap)) = OK \<longleftrightarrow>
      lineage_validate (snap_lineage snap) = OK"
    using ok(12) by (simp add: lineage_validate_iff ordered_table_ok lineage_ok_ordered)
  ultimately show ?thesis
    by (simp add: validate_semantics_def holds_key_ordered no_null_ordered ok split_beta)
qed

section \<open>Reading an image back\<close>

lemma load_zero: "load_little_endian (write_u32 0) = 0"
  by (simp add: write_u32_def load_little_endian_write)

lemma unat_small_u64: "n < 2 ^ 64 \<Longrightarrow> unat (of_nat n :: u64) = n"
  by (simp add: unat_of_nat take_bit_nat_eq_self_iff [THEN iffD2] flip: take_bit_eq_mod)

lemma image_header:
  assumes "serialize_snapshot snap = Inr bytes"
  shows "header_of_image (take 24 bytes @ rest) = \<lparr>sh_format_version = kSnapshotFormatVersion,
      sh_payload_length = of_nat (length (build_payload snap)),
      sh_payload_crc32c = payload_crc (build_payload snap)\<rparr>"
    and "take (length kSnapshotMagic) (take 24 bytes @ rest) = kSnapshotMagic"
    and "word_at 20 4 (take 24 bytes @ rest) = 0"
    and "bytes = take 24 bytes @ build_payload snap" and "length (take 24 bytes) = 24"
    and "length (build_payload snap) \<le> kMaxSnapshotPayloadBytes"
proof -
  let ?head = "kSnapshotMagic @ write_u32 kSnapshotFormatVersion @ write_u64 (of_nat (length (build_payload snap))) @
    write_u32 (payload_crc (build_payload snap)) @ write_u32 0"
  have len: "length ?head = 24"
    by (simp add: kSnapshotMagic_def wire_simps)
  have bytes: "bytes = ?head @ build_payload snap"
    and "length (build_payload snap) \<le> kMaxSnapshotPayloadBytes"
    using assms by (auto simp: serialize_snapshot_def Let_def split: if_splits)
  then show "length (build_payload snap) \<le> kMaxSnapshotPayloadBytes" by simp
  have head: "take 24 bytes = ?head"
    using len by (simp add: bytes)
  show "header_of_image (take 24 bytes @ rest) = \<lparr>sh_format_version = kSnapshotFormatVersion,
      sh_payload_length = of_nat (length (build_payload snap)),
      sh_payload_crc32c = payload_crc (build_payload snap)\<rparr>"
    and "word_at 20 4 (take 24 bytes @ rest) = 0"
    unfolding head
    by (simp_all add: header_of_image_def word_at_def kSnapshotMagic_def substr_skip [OF length_primitives(3)]
        substr_skip [OF length_primitives(4)] substr_skip [of "''AFSN''" 4, simplified] substr_here wire_simps
        load_u32 load_u64 load_zero)
  show "take (length kSnapshotMagic) (take 24 bytes @ rest) = kSnapshotMagic"
    unfolding head by simp
  show "bytes = take 24 bytes @ build_payload snap" and "length (take 24 bytes) = 24"
    using len by (simp_all only: head) (simp_all only: bytes append_assoc)
qed

lemma read_image:
  assumes "serialize_snapshot snap = Inr bytes"
  shows "deserialize_snapshot (take 24 bytes @ rest) =
    (if length rest < length (build_payload snap) then Inl E_PersistenceTruncated
     else if length (build_payload snap) < length rest then Inl E_PersistenceTrailingGarbage
     else if payload_crc rest \<noteq> payload_crc (build_payload snap) then Inl E_PersistenceIntegrityMismatch
     else parse_payload rest)"
proof -
  note header = image_header(1-3) [OF assms, of rest] image_header(4-6) [OF assms]
  let ?n = "length (build_payload snap)"
  have small: "?n \<le> 512 * 1024 * 1024"
    using header(6) by (simp add: kMaxSnapshotPayloadBytes_def)
  then have n: "unat (of_nat ?n :: u64) = ?n" "unat (24 + of_nat ?n :: u64) = 24 + ?n"
    using unat_small_u64 [of ?n] unat_small_u64 [of "24 + ?n"] by simp_all
  define b where "b = take 24 bytes @ rest"
  have lens: "length b = 24 + length rest" "drop 24 b = rest"
    using header(5) by (simp_all add: b_def)
  note header = header(1-3) [folded b_def]
  have "validate_header b =
    (if length rest < ?n then Inl E_PersistenceTruncated
     else if ?n < length rest then Inl E_PersistenceTrailingGarbage else OK)"
    using small
    by (simp add: validate_header_def header lens header_bytes_def Let_def kSnapshotHeaderBytes_def n
        require_def kMaxSnapshotPayloadBytes_def)
  moreover have "parse_image b =
      (if payload_crc rest \<noteq> payload_crc (build_payload snap) then Inl E_PersistenceIntegrityMismatch
       else parse_payload rest)" if "length rest = ?n"
    using that by (simp add: parse_image_def header lens Let_def kSnapshotHeaderBytes_def n)
  ultimately show ?thesis
    by (simp add: deserialize_snapshot_def flip: b_def)
qed

lemma records_take_room: "length t \<le> length (append_map_records t ty put)"
proof -
  have "length entries \<le> length (concat (map (\<lambda>(k, v). frame_record ty (put k v)) entries))" for entries
    by (induction entries) (auto simp: length_framed)
  then show ?thesis
    by (metis append_map_records_ordered length_ordered_table)
qed

text \<open>The count at the head of a payload is believed, since every record takes room.\<close>

lemma payload_records:
  assumes payload: "build_payload snap = write_u32 (of_nat (snapshot_record_count snap)) @ records"
    and small: "length (build_payload snap) \<le> kMaxSnapshotPayloadBytes"
    and count: "snapshot_record_count snap \<le> kMaxSnapshotRecordsPerKind * 16"
  shows "parse_payload (build_payload snap) =
    fst (bindA (parse_records (snapshot_record_count snap) default_snapshot) (\<lambda>snap.
      thenA load_exhausted (thenA (checkA (validate_semantics snap)) (retA snap))) records)"
proof -
  have unat: "unat (of_nat (snapshot_record_count snap) :: u32) = snapshot_record_count snap"
    using count by (intro unat_length_u32) (simp add: kMaxSnapshotRecordsPerKind_def)
  have enough: "snapshot_record_count snap \<le> length records"
    using payload
      records_take_room [of "snap_tasks snap" kRecordTask "\<lambda>_. store_task"]
      records_take_room [of "snap_policies snap" kRecordPolicy "\<lambda>_. store_policy"]
      records_take_room [of "snap_populations snap" kRecordPopulation "\<lambda>_. store_population"]
      records_take_room [of "snap_candidates snap" kRecordCandidate "\<lambda>_. store_candidate"]
      records_take_room [of "snap_workers snap" kRecordWorker "\<lambda>_. store_worker"]
      records_take_room [of "snap_attempts snap" kRecordAttempt "\<lambda>_. store_attempt"]
      records_take_room [of "snap_assignments snap" kRecordAssignment "\<lambda>_. store_assignment"]
      records_take_room [of "snap_evaluations snap" kRecordEvaluation "\<lambda>_. store_evaluation"]
      records_take_room [of "snap_selections snap" kRecordSelection "\<lambda>_. store_selection"]
      records_take_room [of "snap_retentions snap" kRecordRetention "\<lambda>_. store_retention"]
      records_take_room [of "snap_promotion_requests snap" kRecordPromotion "\<lambda>_. store_promotion"]
      records_take_room [of "snap_lineage snap" kRecordLineageNode "\<lambda>_. store_lineage_node"]
      records_take_room [of "snap_ledgers snap" kRecordLedger store_ledger]
    by (auto simp: build_payload_def snapshot_record_count_def length_framed)
  show ?thesis
    using small enough count unfolding payload
    by (simp add: parse_payload_def load_count_def bindA_def store_simps readA_def retA_def failA_def unat
        split: sum.splits)
qed

lemma payload_small: "length (build_payload snap) \<le> kMaxSnapshotPayloadBytes \<Longrightarrow> length (build_payload snap) < 2 ^ 32"
  by (simp add: kMaxSnapshotPayloadBytes_def)

lemma read_payload:
  assumes ok: "storable_snapshot snap" and small: "length (build_payload snap) \<le> kMaxSnapshotPayloadBytes"
  shows "parse_payload (build_payload snap) =
    (case validate_semantics (ordered_snapshot snap) of Inl e \<Rightarrow> Inl e | Inr _ \<Rightarrow> Inr (ordered_snapshot snap))"
proof -
  obtain records where payload: "build_payload snap = write_u32 (of_nat (snapshot_record_count snap)) @ records"
    by (simp add: build_payload_def)
  have count: "snapshot_record_count snap \<le> kMaxSnapshotRecordsPerKind * 16"
    using ok by (simp add: storable_snapshot_def)
  show ?thesis
    unfolding payload_records [OF payload small count]
    using all_records_read [OF ok payload_small [OF small] payload]
    by (simp add: bindA_def retA_def failA_def load_exhausted_def thenA_def checkA_def readA_def split: sum.splits)
qed

text \<open>The result of reading an image: the records, when they pass the validation.\<close>

lemma read_serialized:
  assumes "serialize_snapshot snap = Inr bytes" and "storable_snapshot snap"
  shows "deserialize_snapshot bytes =
    (case validate_semantics (ordered_snapshot snap) of Inl e \<Rightarrow> Inl e | Inr _ \<Rightarrow> Inr (ordered_snapshot snap))"
  using read_image [OF assms(1), of "build_payload snap"] read_payload [OF assms(2)]
    image_header(4,6) [OF assms(1)]
  by simp

text \<open>Two snapshots hold the same state when they agree on every field and every table lookup.\<close>

definition same_state :: "foundry_snapshot \<Rightarrow> foundry_snapshot \<Rightarrow> bool" where
  "same_state a b \<longleftrightarrow>
    snap_foundry a = snap_foundry b \<and> snap_run a = snap_run b \<and> snap_epoch a = snap_epoch b \<and>
    snap_revision a = snap_revision b \<and> snap_id_salt a = snap_id_salt b \<and>
    snap_id_counters a = snap_id_counters b \<and> snap_statistics a = snap_statistics b \<and>
    tbl_find (snap_tasks a) = tbl_find (snap_tasks b) \<and>
    tbl_find (snap_policies a) = tbl_find (snap_policies b) \<and>
    tbl_find (snap_populations a) = tbl_find (snap_populations b) \<and>
    tbl_find (snap_candidates a) = tbl_find (snap_candidates b) \<and>
    tbl_find (snap_workers a) = tbl_find (snap_workers b) \<and>
    tbl_find (snap_attempts a) = tbl_find (snap_attempts b) \<and>
    tbl_find (snap_assignments a) = tbl_find (snap_assignments b) \<and>
    tbl_find (snap_evaluations a) = tbl_find (snap_evaluations b) \<and>
    tbl_find (snap_selections a) = tbl_find (snap_selections b) \<and>
    tbl_find (snap_retentions a) = tbl_find (snap_retentions b) \<and>
    tbl_find (snap_promotion_requests a) = tbl_find (snap_promotion_requests b) \<and>
    tbl_find (snap_ledgers a) = tbl_find (snap_ledgers b) \<and>
    tbl_find (snap_lineage a) = tbl_find (snap_lineage b)"

lemma same_state_ordered: "storable_snapshot snap \<Longrightarrow> same_state (ordered_snapshot snap) snap"
  using storable_tables_ok [of snap]
  by (simp add: same_state_def ext [OF find_in_ordered]) (simp add: ordered_snapshot_def)

text \<open>
  C26: The snapshot file gives back what was saved. When a snapshot whose records respect the
  bounds of the format is serialized, reading the image succeeds exactly when the snapshot passes
  the semantic validation, and the state it returns is the state that was saved: the same fields,
  and in every table the same record under every identity.
\<close>

theorem snapshot_image_roundtrip:
  assumes "serialize_snapshot snap = Inr bytes" and "storable_snapshot snap"
  shows "((\<exists>snap'. deserialize_snapshot bytes = Inr snap') \<longleftrightarrow> validate_semantics snap = OK) \<and>
    (\<forall>snap'. deserialize_snapshot bytes = Inr snap' \<longrightarrow> same_state snap' snap)"
  using read_serialized [OF assms] validate_ordered [OF assms(2)] same_state_ordered [OF assms(2)]
  by (auto split: sum.splits)

text \<open>
  C27: A damaged snapshot file is recognised. Every proper prefix of an image is rejected as
  truncated, an image with anything behind it as carrying trailing garbage, and an image in whose
  payload one byte was changed as failing its checksum.
\<close>

theorem snapshot_damage_detected:
  assumes "serialize_snapshot snap = Inr bytes"
  shows "(n < length bytes \<longrightarrow> deserialize_snapshot (take n bytes) = Inl E_PersistenceTruncated) \<and>
    (extra \<noteq> [] \<longrightarrow> deserialize_snapshot (bytes @ extra) = Inl E_PersistenceTrailingGarbage) \<and>
    (24 \<le> i \<and> i < length bytes \<and> c \<noteq> bytes ! i \<longrightarrow>
      deserialize_snapshot (bytes[i := c]) = Inl E_PersistenceIntegrityMismatch)"
proof (intro conjI impI)
  let ?p = "build_payload snap"
  note header = image_header(4,5) [OF assms]
  have len: "length bytes = 24 + length ?p"
    by (subst header(1)) (simp only: length_append header(2))
  show "deserialize_snapshot (take n bytes) = Inl E_PersistenceTruncated" if "n < length bytes"
  proof (cases "n < 24")
    case True
    then show ?thesis
      by (simp add: deserialize_snapshot_def validate_header_def kSnapshotHeaderBytes_def require_def)
  next
    case False
    then have "take n bytes = take 24 bytes @ take (n - 24) ?p"
      by (subst header(1)) (simp add: take_append header(2) del: length_take)
    moreover have "length (take (n - 24) ?p) < length ?p"
      using that len False by simp
    ultimately show ?thesis
      using read_image [OF assms, of "take (n - 24) ?p"] by (simp only: if_True)
  qed
  show "deserialize_snapshot (bytes @ extra) = Inl E_PersistenceTrailingGarbage" if "extra \<noteq> []"
    using read_image [OF assms, of "?p @ extra"] that
    by (subst header(1)) simp
  show "deserialize_snapshot (bytes[i := c]) = Inl E_PersistenceIntegrityMismatch"
    if i: "24 \<le> i \<and> i < length bytes \<and> c \<noteq> bytes ! i"
  proof -
    let ?j = "i - 24"
    have j: "?j < length ?p" "c \<noteq> ?p ! ?j"
      using i len header by (auto simp: nth_append) (metis header(1,2) i nth_append not_less)
    have "payload_crc (?p[?j := c]) \<noteq> payload_crc ?p"
      using damaged_crc [of c "?p ! ?j" "take ?j ?p" "drop (Suc ?j) ?p"] j
      by (simp add: upd_conv_take_nth_drop id_take_nth_drop [symmetric])
    moreover have "bytes[i := c] = take 24 bytes @ ?p[?j := c]"
      using i by (subst header(1)) (simp add: list_update_append header(2) del: length_take)
    ultimately show ?thesis
      using read_image [OF assms, of "?p[?j := c]"] by simp
  qed
qed

section \<open>What an accepted image holds\<close>

text \<open>Tables without duplicates whose records are filed under their own identity.\<close>

definition filed :: "('v \<Rightarrow> 'k) \<Rightarrow> ('k, 'v) table \<Rightarrow> bool" where
  "filed key t \<longleftrightarrow> tbl_ok t \<and> (\<forall>k v. tbl_find t k = Some v \<longrightarrow> key v = k)"

definition well_filed :: "foundry_snapshot \<Rightarrow> bool" where
  "well_filed s \<longleftrightarrow> filed task_id_of (snap_tasks s) \<and> filed pol_id (snap_policies s) \<and>
    filed pop_id (snap_populations s) \<and> filed cand_id (snap_candidates s) \<and>
    filed wk_id (snap_workers s) \<and> filed att_id (snap_attempts s) \<and>
    filed asg_id (snap_assignments s) \<and> filed ev_id (snap_evaluations s) \<and>
    filed sd_population (snap_selections s) \<and> filed rd_population (snap_retentions s) \<and>
    filed pr_id (snap_promotion_requests s) \<and> filed ln_candidate (snap_lineage s) \<and>
    tbl_ok (snap_ledgers s) \<and> length (snap_id_counters s) = kIdKindCount"

lemma filed_Nil [simp]: "filed key []"
  by (simp add: filed_def)

lemma store_record_filed:
  assumes "store_record k v t = Inr t'"
  shows "tbl_ok t \<Longrightarrow> tbl_ok t'" and "filed key t \<Longrightarrow> key v = k \<Longrightarrow> filed key t'"
proof -
  have t': "t' = tbl_emplace k v t" "tbl_find t k = None"
    using assms by (auto simp: store_record_def split: option.splits)
  then show "tbl_ok t \<Longrightarrow> tbl_ok t'" by (simp add: tbl.ok_emplace)
  then show "filed key t \<Longrightarrow> key v = k \<Longrightarrow> filed key t'"
    using t' by (auto simp: filed_def dest: tbl.find_emplace_cases)
qed

lemma load_into_filed:
  assumes "load_into get key sel upd s body = (Inr s', rest)"
  obtains t where "s' = upd (\<lambda>_. t) s" and "filed key (sel s) \<Longrightarrow> filed key t"
  using assms store_record_filed(2) [where key = key]
  by (auto simp: load_into_def checkA_def retA_def elim!: bindA_accepts)

lemma load_record_filed:
  assumes "load_record ty s body = (Inr s', rest)" and "well_filed s"
  shows "well_filed s'"
  using assms
  by (auto simp: load_record_def load_identity_header_def load_ledger_record_def checkA_def retA_def failA_def
      well_filed_def kIdKindCount_def split: if_splits
      elim!: load_into_filed bindA_accepts counters_canonical dest: store_record_filed(1))

lemma parse_records_filed:
  "parse_records n s data = (Inr s', rest) \<Longrightarrow> well_filed s \<Longrightarrow> well_filed s'"
proof (induction n arbitrary: s data)
  case 0
  then show ?case by (simp add: retA_def)
next
  case (Suc n)
  then obtain s1 u where one: "parse_record s data = (Inr s1, u)" and more: "parse_records n s1 u = (Inr s', rest)"
    by (auto elim: bindA_accepts)
  have "well_filed s1"
    using one Suc.prems(2)
    by (auto simp: parse_record_def checkA_def readA_def failA_def thenA_def load_exhausted_def retA_def bindA_def
        split: if_splits prod.splits sum.splits elim: load_record_filed)
  then show ?case using more Suc.IH by blast
qed

lemma accepted_image:
  assumes "deserialize_snapshot bytes = Inr s"
  shows "well_filed s" and "validate_semantics s = OK"
proof -
  from assms obtain payload where p: "parse_payload payload = Inr s"
    by (auto simp: deserialize_snapshot_def parse_image_def Let_def split: sum.splits if_splits)
  define m where "m = (bindA (load_count 0 1) (\<lambda>record_count.
       if kMaxSnapshotRecordsPerKind * 16 < unat record_count then failA E_PersistenceTruncated
       else bindA (parse_records (unat record_count) default_snapshot) (\<lambda>snap.
         thenA load_exhausted (thenA (checkA (validate_semantics snap)) (retA snap)))))"
  have "fst (m payload) = Inr s"
    using p by (simp add: parse_payload_def m_def split: if_splits)
  then obtain t where "m payload = (Inr s, t)" by (metis prod.collapse)
  then obtain n u w where "parse_records n default_snapshot u = (Inr s, w)" and v: "validate_semantics s = OK"
    by (auto simp: m_def failA_def thenA_def load_exhausted_def readA_def retA_def checkA_def
        split: if_splits elim!: bindA_accepts)
  moreover have "well_filed default_snapshot"
    by (simp add: well_filed_def default_snapshot_def)
  ultimately show "well_filed s" and "validate_semantics s = OK"
    using parse_records_filed by blast+
qed

text \<open>The identities of a domain that the tables of a snapshot hold.\<close>

primrec held_identities :: "id_kind \<Rightarrow> foundry_snapshot \<Rightarrow> u64 set" where
  "held_identities IK_None s = {}"
| "held_identities IK_Foundry s = {}"
| "held_identities IK_FoundryRun s = {}"
| "held_identities IK_Population s = raw ` set (tbl_keys (snap_populations s))"
| "held_identities IK_Task s = raw ` set (tbl_keys (snap_tasks s))"
| "held_identities IK_Candidate s = raw ` set (tbl_keys (snap_candidates s)) \<union> raw ` set (tbl_keys (snap_lineage s))"
| "held_identities IK_Lineage s = {}"
| "held_identities IK_Worker s = raw ` set (tbl_keys (snap_workers s))"
| "held_identities IK_WorkerBoot s = {}"
| "held_identities IK_Attempt s = raw ` set (tbl_keys (snap_attempts s))"
| "held_identities IK_Assignment s = raw ` set (tbl_keys (snap_assignments s))"
| "held_identities IK_Evaluation s = raw ` set (tbl_keys (snap_evaluations s))"
| "held_identities IK_Evaluator s = {}"
| "held_identities IK_Policy s = raw ` set (tbl_keys (snap_policies s))"
| "held_identities IK_Artifact s = {}"
| "held_identities IK_PromotionRequest s = raw ` set (tbl_keys (snap_promotion_requests s))"
| "held_identities IK_Session s = {}"
| "held_identities IK_Controller s = {}"

lemma note_reaches:
  assumes "i < length observed"
  shows "x \<le> note_identities kind ks observed ! i \<longleftrightarrow>
    x \<le> observed ! i \<or> i = id_kind_ordinal kind \<and> i \<noteq> 0 \<and> (\<exists>k \<in> set ks. x \<le> id_counter k)"
  using assms by (auto simp: note_nth Max_ge_iff)

lemma observed_covers:
  assumes "raw k \<in> held_identities kind s"
  shows "id_counter k \<le> observed_identity_counters s ! id_kind_ordinal kind"
  using assms
  by (cases kind) (auto simp: observed_identity_counters_def note_reaches kIdKindCount_def id_counter_def)

text \<open>The checks of validate_semantics, one by one.\<close>

lemma checked_entry: "for_all check t = OK \<Longrightarrow> tbl_find t k = Some v \<Longrightarrow> check (k, v) = OK"
  by (auto dest: tbl_find_in_set)

lemma validated:
  assumes "validate_semantics s = OK"
  shows validated_lineage: "lineage_validate (snap_lineage s) = OK"
    and validated_evaluation: "tbl_find (snap_evaluations s) k1 = Some r1 \<Longrightarrow>
      tbl_find (snap_candidates s) (ev_candidate r1) \<noteq> None \<and> tbl_find (snap_tasks s) (ev_task r1) \<noteq> None"
    and validated_attempt: "tbl_find (snap_attempts s) k2 = Some r2 \<Longrightarrow>
      tbl_find (snap_candidates s) (att_candidate r2) \<noteq> None \<and>
      tbl_find (snap_populations s) (att_population r2) \<noteq> None \<and> tbl_find (snap_tasks s) (att_task r2) \<noteq> None"
    and validated_assignment: "tbl_find (snap_assignments s) k3 = Some r3 \<Longrightarrow>
      tbl_find (snap_attempts s) (asg_attempt r3) \<noteq> None"
    and validated_promotion: "tbl_find (snap_promotion_requests s) k4 = Some r4 \<Longrightarrow>
      tbl_find (snap_candidates s) (pr_candidate r4) \<noteq> None"
    and validated_selection: "tbl_find (snap_selections s) k5 = Some d \<Longrightarrow>
      tbl_find (snap_populations s) k5 \<noteq> None \<and>
      (id_valid (sd_selected d) \<longrightarrow> tbl_find (snap_candidates s) (sd_selected d) \<noteq> None)"
    and validated_retention: "tbl_find (snap_retentions s) k6 = Some rd \<Longrightarrow>
      tbl_find (snap_populations s) k6 \<noteq> None"
    and validated_members: "tbl_find (snap_populations s) k7 = Some pop \<Longrightarrow>
      require_population_ordering (pop_candidates pop) = OK"
    and validated_counter: "i < kIdKindCount \<Longrightarrow> require_counter s i = OK"
proof -
  note checks = assms [unfolded validate_semantics_def first_failure_Cons_ok]
  show "lineage_validate (snap_lineage s) = OK"
    using checks by simp
  show "i < kIdKindCount \<Longrightarrow> require_counter s i = OK"
    using checks by simp
  show "tbl_find (snap_candidates s) (ev_candidate r1) \<noteq> None \<and> tbl_find (snap_tasks s) (ev_task r1) \<noteq> None"
    if "tbl_find (snap_evaluations s) k1 = Some r1"
    using checked_entry [OF _ that] checks by (fastforce simp: holds_key_def simp del: for_all_ok)
  show "tbl_find (snap_candidates s) (att_candidate r2) \<noteq> None \<and>
      tbl_find (snap_populations s) (att_population r2) \<noteq> None \<and> tbl_find (snap_tasks s) (att_task r2) \<noteq> None"
    if "tbl_find (snap_attempts s) k2 = Some r2"
    using checked_entry [OF _ that] checks by (fastforce simp: holds_key_def simp del: for_all_ok)
  show "tbl_find (snap_attempts s) (asg_attempt r3) \<noteq> None" if "tbl_find (snap_assignments s) k3 = Some r3"
    using checked_entry [OF _ that] checks by (fastforce simp: holds_key_def simp del: for_all_ok)
  show "tbl_find (snap_candidates s) (pr_candidate r4) \<noteq> None" if "tbl_find (snap_promotion_requests s) k4 = Some r4"
    using checked_entry [OF _ that] checks by (fastforce simp: holds_key_def simp del: for_all_ok)
  show "tbl_find (snap_populations s) k5 \<noteq> None \<and>
      (id_valid (sd_selected d) \<longrightarrow> tbl_find (snap_candidates s) (sd_selected d) \<noteq> None)"
    if "tbl_find (snap_selections s) k5 = Some d"
    using checked_entry [OF _ that] checks by (fastforce simp: holds_key_def simp del: for_all_ok)
  show "tbl_find (snap_populations s) k6 \<noteq> None" if "tbl_find (snap_retentions s) k6 = Some rd"
    using checked_entry [OF _ that] checks by (fastforce simp: holds_key_def simp del: for_all_ok)
  show "require_population_ordering (pop_candidates pop) = OK" if "tbl_find (snap_populations s) k7 = Some pop"
    using checked_entry [OF _ that] checks by (fastforce simp: holds_key_def simp del: for_all_ok)
qed

lemma validated_records:
  assumes "validate_semantics s = OK"
  shows "tbl_find (snap_tasks s) k1 = Some t \<Longrightarrow> validate_task t = OK"
    and "tbl_find (snap_policies s) k2 = Some p \<Longrightarrow> validate_policy p = OK"
    and "tbl_find (snap_candidates s) k3 = Some r \<Longrightarrow> validate_candidate_record r = OK"
    and "tbl_find (snap_evaluations s) k4 = Some e \<Longrightarrow> validate_evaluation_record e = OK"
proof -
  note checks = assms [unfolded validate_semantics_def first_failure_Cons_ok]
  show "validate_task t = OK" if "tbl_find (snap_tasks s) k1 = Some t"
    using checked_entry [OF _ that] checks by (fastforce simp del: for_all_ok)
  show "validate_policy p = OK" if "tbl_find (snap_policies s) k2 = Some p"
    using checked_entry [OF _ that] checks by (fastforce simp del: for_all_ok)
  show "validate_candidate_record r = OK" if "tbl_find (snap_candidates s) k3 = Some r"
    using checked_entry [OF _ that] checks by (fastforce simp del: for_all_ok)
  show "validate_evaluation_record e = OK" if "tbl_find (snap_evaluations s) k4 = Some e"
    using checked_entry [OF _ that] checks by (fastforce simp del: for_all_ok)
qed

text \<open>The members of a population are stored in the strictly ascending order of their identities.\<close>

lemma members_ascend:
  assumes "require_population_ordering ks = OK"
  shows "sorted_wrt (\<lambda>a b. raw a < raw b) ks"
proof -
  have "raw (ks ! i) < raw (ks ! Suc i)" if "Suc i < length ks" for i
    using assms that by (auto simp: require_population_ordering_def dest!: bspec [of _ _ "Suc i"])
  then have "sorted_wrt (<) (map raw ks)"
    by (subst sorted_wrt_iff_nth_Suc_transp) (auto simp: transp_def)
  then show ?thesis by (simp add: sorted_wrt_map)
qed

text \<open>
  C28: What a coordinator accepts from its snapshot file is consistent as far as the reader
  checks it. Every record is filed once and under its own identity; tasks, policies, candidates
  and evaluations pass their validation; an evaluation names a candidate and a task of the
  snapshot, an attempt a candidate, a population and a task, an assignment an attempt, a selection
  a population and, where it selects one, a candidate, a retention a population, a promotion
  request a candidate; the members of a population ascend; the lineage is a well-formed acyclic
  history. A coordinator that recovers from it never issues again an identity that keys a record
  of the file, in any domain it issues identities of. Not checked, and so not claimed: the task
  and the policy of a population, its members, and the population of a candidate; the witness is
  a file whose population names a task and a policy it does not hold.
\<close>

theorem accepted_snapshots_are_consistent:
  assumes "deserialize_snapshot bytes = Inr s"
  shows "(\<forall>c0 c c1 c2 kind k. recover s c0 = (OK, c) \<longrightarrow> core_reaches shortest c c1 \<longrightarrow>
       allocate kind c1 = (Inr k, c2) \<longrightarrow> kind \<noteq> IK_Worker \<longrightarrow> kind \<noteq> IK_WorkerBoot \<longrightarrow>
       raw k \<notin> held_identities kind s) \<and>
    well_filed s \<and> lineage_ok (snap_lineage s) \<and>
    (\<forall>k t. tbl_find (snap_tasks s) k = Some t \<longrightarrow> validate_task t = OK) \<and>
    (\<forall>k p. tbl_find (snap_policies s) k = Some p \<longrightarrow> validate_policy p = OK) \<and>
    (\<forall>k r. tbl_find (snap_candidates s) k = Some r \<longrightarrow> validate_candidate_record r = OK) \<and>
    (\<forall>k p. tbl_find (snap_populations s) k = Some p \<longrightarrow>
       sorted_wrt (\<lambda>a b. raw a < raw b) (pop_candidates p)) \<and>
    (\<forall>k r. tbl_find (snap_evaluations s) k = Some r \<longrightarrow> validate_evaluation_record r = OK \<and>
       tbl_find (snap_candidates s) (ev_candidate r) \<noteq> None \<and> tbl_find (snap_tasks s) (ev_task r) \<noteq> None) \<and>
    (\<forall>k r. tbl_find (snap_attempts s) k = Some r \<longrightarrow>
       tbl_find (snap_candidates s) (att_candidate r) \<noteq> None \<and>
       tbl_find (snap_populations s) (att_population r) \<noteq> None \<and>
       tbl_find (snap_tasks s) (att_task r) \<noteq> None) \<and>
    (\<forall>k r. tbl_find (snap_assignments s) k = Some r \<longrightarrow> tbl_find (snap_attempts s) (asg_attempt r) \<noteq> None) \<and>
    (\<forall>k d. tbl_find (snap_selections s) k = Some d \<longrightarrow> tbl_find (snap_populations s) k \<noteq> None \<and>
       (id_valid (sd_selected d) \<longrightarrow> tbl_find (snap_candidates s) (sd_selected d) \<noteq> None)) \<and>
    (\<forall>k d. tbl_find (snap_retentions s) k = Some d \<longrightarrow> tbl_find (snap_populations s) k \<noteq> None) \<and>
    (\<forall>k r. tbl_find (snap_promotion_requests s) k = Some r \<longrightarrow>
       tbl_find (snap_candidates s) (pr_candidate r) \<noteq> None)"
proof (intro conjI allI impI)
  note filed = accepted_image(1) [OF assms] and valid = accepted_image(2) [OF assms]
  show "well_filed s" by (rule filed)
  show "lineage_ok (snap_lineage s)"
    using filed validated_lineage [OF valid] by (simp add: well_filed_def filed_def lineage_validate_iff)
  fix k c0 c c1 c2 kind
  assume rec: "recover s c0 = (OK, c)" and "core_reaches shortest c c1" and new: "allocate kind c1 = (Inr k, c2)"
    and kind: "kind \<noteq> IK_Worker" "kind \<noteq> IK_WorkerBoot"
  let ?i = "id_kind_ordinal kind"
  note last = alloc_next_OK_cases [OF allocate_counters [OF new]]
  have i: "0 < ?i" "?i < kIdKindCount" "?i \<noteq> id_kind_ordinal IK_Worker" "?i \<noteq> id_kind_ordinal IK_WorkerBoot"
    using last(1) id_kind_ordinal_less kind by (cases kind; simp add: kIdKindCount_def)+
  have "observed_identity_counters s ! ?i \<le> snap_id_counters s ! ?i"
    using validated_counter [OF valid i(2)] i by (simp add: require_counter_def)
  also have "\<dots> \<le> al_counters (co_ids c) ! ?i"
    by (simp add: recovered_tables(2) [OF rec] restored_counter i)
  also have "\<dots> \<le> al_counters (co_ids c1) ! ?i"
    using core_reaches_evolves [OF \<open>core_reaches shortest c c1\<close>] i
    by (auto simp: core_evolves_def counters_le_def recovered_tables(2) [OF rec])
  also have "\<dots> < id_counter k"
    using last(3,5) u32_inc(1) by simp
  finally show "raw k \<notin> held_identities kind s"
    using observed_covers [of k kind s] by auto
next
  note valid = accepted_image(2) [OF assms]
  show "validate_task t = OK" if "tbl_find (snap_tasks s) k = Some t" for k t
    using validated_records(1) [OF valid that] .
  show "validate_policy p = OK" if "tbl_find (snap_policies s) k = Some p" for k p
    using validated_records(2) [OF valid that] .
  show "validate_candidate_record r = OK" if "tbl_find (snap_candidates s) k = Some r" for k r
    using validated_records(3) [OF valid that] .
  show "sorted_wrt (\<lambda>a b. raw a < raw b) (pop_candidates p)" if "tbl_find (snap_populations s) k = Some p" for k p
    using members_ascend [OF validated_members [OF valid that]] .
  show "validate_evaluation_record r = OK" "tbl_find (snap_candidates s) (ev_candidate r) \<noteq> None"
    "tbl_find (snap_tasks s) (ev_task r) \<noteq> None" if "tbl_find (snap_evaluations s) k = Some r" for k r
    using validated_records(4) [OF valid that] validated_evaluation [OF valid that] by blast+
  show "tbl_find (snap_candidates s) (att_candidate r) \<noteq> None" "tbl_find (snap_populations s) (att_population r) \<noteq> None"
    "tbl_find (snap_tasks s) (att_task r) \<noteq> None" if "tbl_find (snap_attempts s) k = Some r" for k r
    using validated_attempt [OF valid that] by blast+
  show "tbl_find (snap_attempts s) (asg_attempt r) \<noteq> None" if "tbl_find (snap_assignments s) k = Some r" for k r
    using validated_assignment [OF valid that] .
  show "tbl_find (snap_populations s) k \<noteq> None" if "tbl_find (snap_selections s) k = Some d" for k d
    using validated_selection [OF valid that] by blast
  show "tbl_find (snap_candidates s) (sd_selected d) \<noteq> None"
    if "tbl_find (snap_selections s) k = Some d" "id_valid (sd_selected d)" for k d
    using validated_selection [OF valid that(1)] that(2) by blast
  show "tbl_find (snap_populations s) k \<noteq> None" if "tbl_find (snap_retentions s) k = Some d" for k d
    using validated_retention [OF valid that] .
  show "tbl_find (snap_candidates s) (pr_candidate r) \<noteq> None" if "tbl_find (snap_promotion_requests s) k = Some r" for k r
    using validated_promotion [OF valid that] .
qed

section \<open>A concrete snapshot\<close>

text \<open>A foundry with one population; the three properties are applied to its image.\<close>

definition saved_population :: population_record where
  "saved_population = default_population
    \<lparr>pop_id := StrongId 0x0300000700000001, pop_run := StrongId 0x0200000700000001,
     pop_task := StrongId 0x0400000700000001, pop_policy := StrongId 0x0D00000700000001\<rparr>"

definition saved_snapshot :: foundry_snapshot where
  "saved_snapshot = default_snapshot
    \<lparr>snap_foundry := StrongId 0x0100000700000001, snap_run := StrongId 0x0200000700000001,
     snap_epoch := CoordinatorEpoch 1, snap_id_salt := 7,
     snap_id_counters := [0, 0, 0, 1, 0, 0, 0, 0, 0, 0, 0, 0, 0, 0, 0, 0, 0, 0],
     snap_populations := [(StrongId 0x0300000700000001, saved_population)]\<rparr>"

lemma saved_storable: "storable_snapshot saved_snapshot"
proof -
  have "storable_population saved_population"
    by (simp add: storable_population_def saved_population_def default_population_def wire_identity_def
        wire_optional_identity_def id_kind_byte_def kIdKindMask_def storable_string_def storable_candidate_ids_def list_ok_def)
  then show ?thesis
    by (simp add: storable_snapshot_def saved_snapshot_def default_snapshot_def storable_table_def tbl_ok_def
        wire_identity_def id_kind_byte_def kIdKindMask_def kIdKindCount_def snapshot_record_count_def
        kMaxSnapshotRecordsPerKind_def saved_population_def)
qed

lemma saved_valid: "validate_semantics saved_snapshot = OK"
proof -
  have "observed_identity_counters saved_snapshot = [0, 0, 0, 1, 0, 0, 0, 0, 0, 0, 0, 0, 0, 0, 0, 0, 0, 0]"
    by (simp add: observed_identity_counters_def saved_snapshot_def default_snapshot_def tbl_keys_def
      note_identities_def bump_identity_counter_def kIdKindCount_def kIdCounterMask_def eval_nat_numeral)
  then have "require_counter saved_snapshot i = OK" if "i < 18" for i
    by (simp add: require_counter_def, simp add: saved_snapshot_def)
  then show ?thesis
    by (simp add: validate_semantics_def kIdKindCount_def) (simp add: saved_snapshot_def default_snapshot_def saved_population_def
       default_population_def require_no_null_identity_def tbl_keys_def id_valid_def
       require_population_ordering_def lineage_validate_def)
qed

lemma saved_serializes: "\<exists>bytes. serialize_snapshot saved_snapshot = Inr bytes"
proof -
  have "length (store_population saved_population) = 143"
    by (simp add: store_population_def saved_population_def default_population_def wire_simps)
  then have "length (build_payload saved_snapshot) \<le> kMaxSnapshotPayloadBytes"
    by (simp add: kMaxSnapshotPayloadBytes_def build_payload_def append_map_records_def saved_snapshot_def default_snapshot_def
        frame_record_def wire_simps store_identity_header_def write_counters_def store_statistics_def
        ascending_keys_def tbl_keys_def tbl_find_def)
  then show ?thesis
    by (simp add: serialize_snapshot_def Let_def)
qed

theorem snapshot_image_roundtrip_witness:
  "\<exists>bytes snap'. serialize_snapshot saved_snapshot = Inr bytes \<and> deserialize_snapshot bytes = Inr snap' \<and>
     same_state snap' saved_snapshot \<and>
     tbl_find (snap_populations snap') (StrongId 0x0300000700000001) = Some saved_population"
proof -
  obtain bytes where bytes: "serialize_snapshot saved_snapshot = Inr bytes" using saved_serializes by blast
  then obtain snap' where "deserialize_snapshot bytes = Inr snap'" "same_state snap' saved_snapshot"
    using snapshot_image_roundtrip [OF bytes saved_storable] saved_valid by blast
  moreover from this have "tbl_find (snap_populations snap') (StrongId 0x0300000700000001) = Some saved_population"
    by (simp add: same_state_def) (simp add: saved_snapshot_def tbl_find_def)
  ultimately show ?thesis using bytes by blast
qed

theorem snapshot_damage_detected_witness:
  "\<exists>bytes. serialize_snapshot saved_snapshot = Inr bytes \<and>
     deserialize_snapshot (take 23 bytes) = Inl E_PersistenceTruncated \<and>
     deserialize_snapshot (bytes @ [CHR ''x'']) = Inl E_PersistenceTrailingGarbage \<and>
     (\<exists>c. deserialize_snapshot (bytes[24 := c]) = Inl E_PersistenceIntegrityMismatch)"
proof -
  obtain bytes where bytes: "serialize_snapshot saved_snapshot = Inr bytes" using saved_serializes by blast
  then have long: "24 < length bytes"
    by (auto simp: serialize_snapshot_def Let_def build_payload_def wire_simps kSnapshotMagic_def split: if_splits)
  obtain c where "c \<noteq> bytes ! 24"
    by (rule that [of "if bytes ! 24 = CHR ''a'' then CHR ''b'' else CHR ''a''"]) simp
  then show ?thesis
    using bytes long snapshot_damage_detected [OF bytes, of 23 "''x''" 24 c] by auto
qed

theorem accepted_snapshots_are_consistent_witness:
  "\<exists>bytes s c c2. deserialize_snapshot bytes = Inr s \<and> recover s (make_core 1 example_config) = (OK, c) \<and>
     0x0300000700000001 \<in> held_identities IK_Population s \<and>
     allocate IK_Population c = (Inr (StrongId 0x0300000700000002 :: population_id), c2) \<and>
     0x0300000700000002 \<notin> held_identities IK_Population s \<and>
     (\<exists>p. tbl_find (snap_populations s) (StrongId 0x0300000700000001) = Some p \<and>
        tbl_find (snap_tasks s) (pop_task p) = None \<and> tbl_find (snap_policies s) (pop_policy p) = None)"
proof -
  obtain bytes where bytes: "serialize_snapshot saved_snapshot = Inr bytes" using saved_serializes by blast
  have "validate_semantics (ordered_snapshot saved_snapshot) = OK"
    using saved_valid validate_ordered [OF saved_storable] by simp
  then have s: "deserialize_snapshot bytes = Inr (ordered_snapshot saved_snapshot)"
    using read_serialized [OF bytes saved_storable] by simp
  let ?s = "ordered_snapshot saved_snapshot" and ?c = "make_core 1 example_config"
  have "same_installation ?s ?c" "next_epoch_after ?s = Some (CoordinatorEpoch 2)"
    by (simp_all add: same_installation_def saved_snapshot_def make_core_def
      example_config_def next_epoch_after_def epoch_valid_def epoch_next_def)
  then obtain c where c: "recover ?s ?c = (OK, c)"
    using recover_eq by blast
  have "snap_id_counters ?s ! 3 = 1" "snap_id_salt ?s = 7"
    by (simp_all add: saved_snapshot_def ordered_snapshot_def)
  then have "al_counters (co_ids c) ! 3 = 1" "al_salt (co_ids c) = 7" "length (al_counters (co_ids c)) = 18"
    using restored_counter [of 3 ?s] observed_after_the_move [of IK_Population ?s]
    by (simp_all add: recovered_tables(2) [OF c] kIdKindCount_def, simp add: restored_ids_def make_allocator_def kIdSaltMask_def)
  then obtain c2 where new: "allocate IK_Population c = (Inr (StrongId 0x0300000700000002 :: population_id), c2)"
    by (simp add: allocate_def alloc_next_def kIdSaltMask_def kIdCounterMask_def)
  moreover have "0x0300000700000001 \<in> held_identities IK_Population ?s"
    by (simp add: saved_snapshot_def ordered_snapshot_def ordered_table_def ascending_keys_def tbl_keys_def tbl_find_def)
  moreover have "0x0300000700000002 \<notin> held_identities IK_Population ?s"
    using accepted_snapshots_are_consistent [OF s, of example_text, THEN conjunct1, rule_format,
      OF c core_reaches.start new]
    by simp
  moreover have "tbl_find (snap_populations ?s) (StrongId 0x0300000700000001) = Some saved_population"
    "snap_tasks ?s = []" "snap_policies ?s = []"
    by (simp_all add: saved_snapshot_def ordered_snapshot_def ordered_table_def ascending_keys_def tbl_keys_def
        tbl_find_def default_snapshot_def)
  ultimately show ?thesis using s c by (metis tbl_find_Nil)
qed

end
