(* ===== verification/Snapshot_Lockout.thy ===== *)
theory Snapshot_Lockout imports Snapshot_Guarantees
begin

text \<open>
  What the writer of the snapshot accepts and its reader does not: a record that cannot be read
  stops the reading of the payload, a population with more closure blockers than the format
  allows is such a record, and the refusal of a closure (\<^verbatim>\<open>close_population\<close>) can store one.
\<close>

section \<open>A record that cannot be read\<close>

lemma parse_record_fails:
  "parse_record s d = (Inl e, r) \<Longrightarrow> fst (parse_records (Suc n) s d) = Inl e"
  by (simp add: bindA_def)

lemma parse_stops:
  assumes "table_field sel upd" and "sel s = []"
    and "\<And>k v s. (k, v) \<in> set pre \<Longrightarrow> k \<notin> fst ` set (sel s) \<Longrightarrow>
      load_record ty s (put k v) = (Inr (upd (\<lambda>t. t @ [(k, v)]) s), [])"
    and "\<And>k v. (k, v) \<in> set pre \<Longrightarrow> length (put k v) < 2 ^ 32" and "distinct (map fst pre)"
    and "\<And>s. fst (load_record ty s body) = Inl e" and "length body < 2 ^ 32"
  shows "fst (parse_records (length pre + Suc n) s
    (concat (map (\<lambda>(k, v). frame_record ty (put k v)) pre) @ frame_record ty body @ u)) = Inl e"
proof -
  have "\<exists>r. parse_record s' (frame_record ty body @ u) = (Inl e, r)" for s'
    using assms(6) [of s'] by (auto simp: parse_framed [OF assms(7)] bindA_def split: prod.splits)
  then have "fst (parse_records (Suc n) s' (frame_record ty body @ u)) = Inl e" for s'
    using parse_record_fails by blast
  moreover have distinct: "distinct (map fst (sel s @ pre))" using assms(2,5) by simp
  note parse_entries [where ty = ty, OF assms(1,3,4) distinct, of "Suc n" "frame_record ty body @ u"]
  ultimately show ?thesis by simp
qed

lemma population_refused:
  assumes "storable_population v" and "64 < length blockers" and "length blockers < 2 ^ 32"
  shows "fst (load_population (store_population (v\<lparr>pop_closure_blockers := blockers\<rparr>))) =
    Inl E_PersistenceRejectedContent"
proof -
  have "load_strings kMaxClosureBlockers (write_list write_str blockers) =
      (Inl E_PersistenceRejectedContent, concat (map write_str blockers))"
    using assms(2) unat_length_u32 [OF assms(3)]
    by (simp add: load_strings_def load_list_def load_count_def write_list_def bindA_def store_simps failA_def
      kMaxClosureBlockers_def)
  then have "bindA (load_strings kMaxClosureBlockers) f (write_list write_str blockers) =
      (Inl E_PersistenceRejectedContent, concat (map write_str blockers))" for f :: "string list \<Rightarrow> population_record reader"
    by (simp add: bindA_def)
  then show ?thesis
    using assms(1)
    by (simp add: load_population_def store_population_def storable_population_def store_simps)
qed

lemma adjusted_table: "ordered_table (tbl_adjust p f t) = tbl_adjust p f (ordered_table t)"
proof -
  have "tbl_adjust p f (concat ts) = concat (map (tbl_adjust p f) ts)" for ts
    by (induction ts) (simp_all add: tbl_adjust_def)
  then show ?thesis
    by (auto simp: ordered_table_def ascending_keys_def tbl.keys_adjust tbl.find_adjust comp_def
        intro!: arg_cong [where f = concat] split: option.splits)
      (auto simp: tbl_adjust_def)
qed

lemma length_adjusted [simp]: "length (tbl_adjust p f t) = length t"
  by (simp add: tbl_adjust_def)

text \<open>An entry of a table splits what is written before it from what is written after it.\<close>

lemma adjusted_split:
  assumes "tbl_ok t" and "tbl_find t p = Some v"
  obtains pre post where "ordered_table t = pre @ (p, v) # post"
    and "ordered_table (tbl_adjust p f t) = pre @ (p, f v) # post"
proof -
  have "(p, v) \<in> set (ordered_table t)"
    using assms by (simp add: in_ordered_table tbl_find_def map_of_SomeD)
  then obtain pre post where split: "ordered_table t = pre @ (p, v) # post"
    by (auto simp: in_set_conv_decomp)
  moreover from this have "p \<notin> fst ` set pre" "p \<notin> fst ` set post"
    using ordered_table_ok [OF assms(1)] by (auto simp: tbl_ok_def)
  then have "tbl_adjust p f pre = pre" "tbl_adjust p f post = post"
    by (force simp: tbl_adjust_def intro!: map_idI)+
  ultimately show ?thesis
    using that [of pre post] by (simp add: adjusted_table) (simp add: tbl_adjust_def)
qed

lemma entry_length:
  "(k, v) \<in> set entries \<Longrightarrow> length (put k v) \<le> length (concat (map (\<lambda>(k, v). frame_record ty (put k v)) entries))"
  by (induction entries) (auto simp: length_framed)

lemma blockers_length: "length blockers \<le> length (store_population (v\<lparr>pop_closure_blockers := blockers\<rparr>))"
proof -
  have "length blockers \<le> length (concat (map write_str blockers))"
    by (induction blockers) (auto simp: store_simps)
  then show ?thesis by (simp add: store_population_def store_simps)
qed

text \<open>A population whose blockers outgrow the format, in a snapshot that is storable otherwise.\<close>

definition with_blockers :: "population_id \<Rightarrow> string list \<Rightarrow> foundry_snapshot \<Rightarrow> foundry_snapshot" where
  "with_blockers p blockers s =
    s\<lparr>snap_populations := tbl_adjust p (\<lambda>r. r\<lparr>pop_closure_blockers := blockers\<rparr>) (snap_populations s)\<rparr>"

lemma blocked_records_refused:
  assumes ok: "storable_snapshot s" and v: "tbl_find (snap_populations s) p = Some v"
    and blockers: "64 < length blockers"
    and small: "length (build_payload (with_blockers p blockers s)) < 2 ^ 32"
  obtains records where
    "build_payload (with_blockers p blockers s) = write_u32 (of_nat (snapshot_record_count s)) @ records"
    and "fst (parse_records (snapshot_record_count s) default_snapshot records) = Inl E_PersistenceRejectedContent"
proof -
  let ?f = "\<lambda>r. r\<lparr>pop_closure_blockers := blockers\<rparr>"
  let ?s = "with_blockers p blockers s"
  note ok' = ok [unfolded storable_snapshot_def]
  have "tbl_ok (snap_populations s)" using ok' by (simp add: storable_table_def)
  from adjusted_split [OF this v, of ?f] obtain pre post
    where split: "ordered_table (snap_populations s) = pre @ (p, v) # post"
      "ordered_table (tbl_adjust p ?f (snap_populations s)) = pre @ (p, ?f v) # post" .
  obtain tail where records: "build_payload ?s = write_u32 (of_nat (snapshot_record_count s)) @
    frame_record kRecordIdentityHeader (store_identity_header s) @
    frame_record kRecordStatistics (store_statistics (snap_statistics s)) @
    append_map_records (snap_tasks s) kRecordTask (\<lambda>_. store_task) @
    append_map_records (snap_policies s) kRecordPolicy (\<lambda>_. store_policy) @
    concat (map (\<lambda>(k, v). frame_record kRecordPopulation (store_population v)) pre) @
    frame_record kRecordPopulation (store_population (?f v)) @ tail"
    by (simp add: build_payload_def with_blockers_def snapshot_record_count_def store_identity_header_def
        append_map_records_ordered [of "tbl_adjust p ?f (snap_populations s)"] split(2))
  define rest where "rest = length post + length (snap_candidates s) + length (snap_workers s) +
    length (snap_attempts s) + length (snap_assignments s) + length (snap_evaluations s) +
    length (snap_selections s) + length (snap_retentions s) + length (snap_promotion_requests s) +
    length (snap_lineage s) + length (snap_ledgers s)"
  have "length (snap_populations s) = length pre + Suc (length post)"
    using length_ordered_table [of "snap_populations s"] split(1) by simp
  then have count: "snapshot_record_count s =
    Suc (Suc (length (snap_tasks s) + (length (snap_policies s) + (length pre + Suc rest))))"
    by (simp add: snapshot_record_count_def rest_def)
  have lens: "length (store_identity_header s) < 2 ^ 32" "length (store_statistics (snap_statistics s)) < 2 ^ 32"
    "length (append_map_records (snap_tasks s) kRecordTask (\<lambda>_. store_task)) < 2 ^ 32"
    "length (append_map_records (snap_policies s) kRecordPolicy (\<lambda>_. store_policy)) < 2 ^ 32"
    "length (store_population (?f v)) < 2 ^ 32"
    "length (concat (map (\<lambda>(k, v). frame_record kRecordPopulation (store_population v)) pre)) < 2 ^ 32"
    using small unfolding records by (simp_all add: length_framed)
  have "fst (parse_records (length pre + Suc rest) s'
      (concat (map (\<lambda>(k, v). frame_record kRecordPopulation (store_population v)) pre) @
       frame_record kRecordPopulation (store_population (?f v)) @ tail)) = Inl E_PersistenceRejectedContent"
    if "snap_populations s' = []" for s'
  proof (rule parse_stops [OF snapshot_fields(3) that _ _ _ _ lens(5)])
    have stored: "(k, r) \<in> set (snap_populations s)" if "(k, r) \<in> set pre" for k r
      using that ok' split(1) in_ordered_table [of "snap_populations s" k r] by (simp add: storable_table_def)
    show "load_record kRecordPopulation s'' (store_population r) =
        (Inr (snap_populations_update (\<lambda>t. t @ [(k, r)]) s''), [])"
      if "(k, r) \<in> set pre" and "k \<notin> fst ` set (snap_populations s'')" for k r s''
      using stored [OF that(1)] that(2) ok' s_population.reads [of r "[]"]
      unfolding load_record_tables
      by (intro load_into_ok [OF snapshot_fields(3)]) (auto simp: storable_table_def)
    show "length (store_population r) < 2 ^ 32" if "(k, r) \<in> set pre" for k r
      using entry_length [OF that, of "\<lambda>_. store_population"] lens(6) by (rule le_less_trans)
    show "distinct (map fst pre)"
      using ordered_table_ok [of "snap_populations s"] ok' split(1) by (simp add: storable_table_def tbl_ok_def)
    have "storable_population v"
      using ok' v by (auto simp: storable_table_def tbl_find_def dest: map_of_SomeD)
    then have "fst (load_population (store_population (?f v))) = Inl E_PersistenceRejectedContent"
      using blockers blockers_length [of blockers v] lens(5) by (intro population_refused) simp_all
    then show "fst (load_record kRecordPopulation s'' (store_population (?f v))) = Inl E_PersistenceRejectedContent" for s''
      by (auto simp: load_record_tables load_into_def bindA_def split: prod.splits)
  qed
  note stops = this
  show thesis
  proof (rule that [OF records])
    show "fst (parse_records (snapshot_record_count s) default_snapshot
      (frame_record kRecordIdentityHeader (store_identity_header s) @
       frame_record kRecordStatistics (store_statistics (snap_statistics s)) @
       append_map_records (snap_tasks s) kRecordTask (\<lambda>_. store_task) @
       append_map_records (snap_policies s) kRecordPolicy (\<lambda>_. store_policy) @
       concat (map (\<lambda>(k, v). frame_record kRecordPopulation (store_population v)) pre) @
       frame_record kRecordPopulation (store_population (?f v)) @ tail)) = Inl E_PersistenceRejectedContent"
      unfolding count using ok' lens
      by (simp only: parse_identity_header parse_statistics)
        (simp add: table_readers default_snapshot_def stops del: add_Suc_right parse_records.simps)
  qed
qed

lemma blocked_image_refused:
  assumes bytes: "serialize_snapshot (with_blockers p blockers s) = Inr bytes"
    and ok: "storable_snapshot s" and v: "tbl_find (snap_populations s) p = Some v"
    and blockers: "64 < length blockers"
  shows "deserialize_snapshot bytes = Inl E_PersistenceRejectedContent"
proof -
  let ?s = "with_blockers p blockers s"
  note header = image_header(4,6) [OF bytes]
  have count: "snapshot_record_count ?s = snapshot_record_count s"
    by (simp add: with_blockers_def snapshot_record_count_def)
  from blocked_records_refused [OF ok v blockers payload_small [OF header(2)]] obtain records
    where records: "build_payload ?s = write_u32 (of_nat (snapshot_record_count ?s)) @ records"
      "fst (parse_records (snapshot_record_count s) default_snapshot records) = Inl E_PersistenceRejectedContent"
    unfolding count .
  have "snapshot_record_count ?s \<le> kMaxSnapshotRecordsPerKind * 16"
    using ok by (simp add: count storable_snapshot_def)
  from payload_records [OF records(1) header(2) this] records(2)
  have "parse_payload (build_payload ?s) = Inl E_PersistenceRejectedContent"
    by (auto simp: count bindA_def split: prod.splits)
  then show ?thesis
    using read_image [OF bytes, of "build_payload ?s"] header(1) by simp
qed


lemma snapshot_with_blockers:
  "snapshot (co_populations_update (tbl_adjust p (pop_closure_blockers_update (\<lambda>_. blockers))) c) =
    with_blockers p blockers (snapshot c)"
  by (simp add: snapshot_def raw_snapshot_def with_blockers_def observed_identity_counters_def tbl.keys_adjust)

lemma refused_closure:
  assumes "find_population p c = Some pop" and "\<not> population_state_is_terminal (pop_state pop)"
    and "close_blockers p pop c \<noteq> []" and "close_population p c = (r, c')"
  shows "r = Inl E_IllegalStateTransition"
    and "snapshot c' = with_blockers p (close_blockers p pop c) (snapshot c)"
  using assms
  by (auto simp: close_population_def readA_def found_or_def write_population_def action_defs population_state_is_terminal_def
      snapshot_with_blockers split: if_splits)

section \<open>The refused closure\<close>

text \<open>A running population of 65 candidates, of which none has been produced.\<close>

definition crowd :: "candidate_id list" where
  "crowd = map (\<lambda>i. StrongId (0x0500000700000000 + of_nat i)) [2..<67]"

definition crowd_candidate :: "candidate_id \<Rightarrow> candidate_record" where
  "crowd_candidate k = default_candidate
    \<lparr>cand_id := k, cand_population := StrongId 0x0300000700000001, cand_task := StrongId 0x0400000700000001,
     cand_lineage := StrongId 0x0600000700000001\<rparr>"

definition crowded_population :: population_record where
  "crowded_population = saved_population\<lparr>pop_state := PS_Running, pop_candidates := crowd\<rparr>"

definition crowded_core :: foundry_core where
  "crowded_core = (make_core 1 example_config)
    \<lparr>co_populations := [(StrongId 0x0300000700000001, crowded_population)],
     co_candidates := map (\<lambda>k. (k, crowd_candidate k)) crowd\<rparr>"

lemma crowd_identities: "length crowd = 65" "distinct crowd" "\<forall>k \<in> set crowd. wire_identity IK_Candidate k"
proof -
  have "unat (of_nat i :: u64) = i" if "i < 67" for i
    using that by (intro unat_small_u64) simp
  then have "inj_on (\<lambda>i. of_nat i :: u64) {2..<67}"
    by (intro inj_onI) (metis atLeastLessThan_iff)
  then show "distinct crowd"
    by (simp add: crowd_def distinct_map inj_on_def)
  show "\<forall>k \<in> set crowd. wire_identity IK_Candidate k"
    by (simp add: crowd_def wire_identity_def id_kind_byte_def kIdKindMask_def upt_rec_numeral del: set_upt)
qed (simp add: crowd_def)

lemma map_of_filed: "map_of (map (\<lambda>k. (k, f k)) ks) k = (if k \<in> set ks then Some (f k) else None)"
  by (induction ks) auto

lemma crowded_found: "find_population (StrongId 0x0300000700000001) crowded_core = Some crowded_population"
  by (simp add: crowded_core_def find_population_def tbl_find_def)

lemma crowded_blockers:
  "length (close_blockers (StrongId 0x0300000700000001) crowded_population crowded_core) = 67"
proof -
  have "length (blocking_candidates crowded_population crowded_core) = length crowd"
  proof -
    have "length (concat (map (\<lambda>k. case find_candidate k crowded_core of None \<Rightarrow> []
      | Some r \<Rightarrow> if candidate_is_unresolved (cand_state r) then [f k r] else []) ks)) = length ks"
      if "set ks \<subseteq> set crowd" for ks and f :: "candidate_id \<Rightarrow> candidate_record \<Rightarrow> string"
      using that by (induction ks) (auto simp: find_candidate_def crowded_core_def tbl_find_def map_of_filed
          crowd_candidate_def default_candidate_def candidate_is_unresolved_def)
    then show ?thesis
      by (simp add: blocking_candidates_def crowded_population_def)
  qed
  then show ?thesis
    by (simp add: close_blockers_def blocking_attempts_def population_attempts_open_def crowded_core_def make_core_def
       crowd_identities crowded_population_def saved_population_def default_population_def gen_valid_def gen_none_def
       ledger_open_def find_ledger_def tbl_find_def)
qed

lemma crowded_storable: "storable_snapshot (snapshot crowded_core)"
proof -
  have "storable_population crowded_population"
    using crowd_identities
    by (simp add: storable_population_def crowded_population_def saved_population_def default_population_def wire_identity_def
        wire_optional_identity_def id_kind_byte_def kIdKindMask_def storable_string_def storable_candidate_ids_def list_ok_def
        kMaxStoredCandidates_def kMaxCandidatesPerPopulation_def)
  moreover have "storable_candidate (crowd_candidate k)" if "k \<in> set crowd" for k
    using crowd_identities(3) that
    by (simp add: storable_candidate_def crowd_candidate_def default_candidate_def wire_identity_def
        wire_optional_identity_def id_kind_byte_def kIdKindMask_def storable_string_def storable_candidate_ids_def list_ok_def)
  ultimately show ?thesis
    using crowd_identities
    by (simp add: storable_snapshot_def snapshot_def raw_snapshot_def crowded_core_def make_core_def example_config_def
        storable_table_def tbl_ok_def at_least_observed_def make_allocator_def comp_def
        crowded_population_def saved_population_def crowd_candidate_def
        wire_identity_def id_kind_byte_def kIdKindMask_def snapshot_record_count_def
        kMaxSnapshotRecordsPerKind_def)
qed

lemma crowded_blocker_lengths:
  assumes "b \<in> set (close_blockers (StrongId 0x0300000700000001) crowded_population crowded_core)"
  shows "length b \<le> 100"
proof -
  have small: "unat (raw k) < 2 ^ LENGTH(64)" for k :: candidate_id
    by (rule unsigned_less)
  have "length (candidate_id_text k) \<le> 32" if "k \<in> set crowd" for k
    using crowd_identities(3) that length_decimal [of "unat (raw k)" 20] small [of k]
    by (simp add: candidate_id_text_def id_to_string_def wire_identity_def)
  moreover have "cand_state (crowd_candidate k) = CS_Registered" for k
    by (simp add: crowd_candidate_def default_candidate_def)
  ultimately have "length b \<le> 100" if "b \<in> set (blocking_candidates crowded_population crowded_core)"
    using that
    by (force simp: blocking_candidates_def crowded_population_def find_candidate_def crowded_core_def tbl_find_def map_of_filed
       candidate_is_unresolved_def split: if_splits)
  then show ?thesis
    using assms
    by (auto simp: close_blockers_def blocking_attempts_def population_attempts_open_def crowded_core_def make_core_def
       crowded_population_def saved_population_def default_population_def gen_valid_def gen_none_def
       ledger_open_def find_ledger_def tbl_find_def)
qed

lemma append_map_records_length:
  assumes "\<And>k v. (k, v) \<in> set t \<Longrightarrow> length (put k v) \<le> n" and "tbl_ok t"
  shows "length (append_map_records t ty put) \<le> length t * (5 + n)"
proof -
  have "length (concat (map (\<lambda>(k, v). frame_record ty (put k v)) entries)) \<le> length entries * (5 + n)"
    if "\<And>k v. (k, v) \<in> set entries \<Longrightarrow> length (put k v) \<le> n" for entries
    using that by (induction entries) (force simp: length_framed)+
  from this [of "ordered_table t"] show ?thesis
    using assms by (simp add: append_map_records_ordered length_ordered_table in_ordered_table)
qed

lemma crowded_serializes:
  "\<exists>bytes. serialize_snapshot (with_blockers (StrongId 0x0300000700000001)
    (close_blockers (StrongId 0x0300000700000001) crowded_population crowded_core) (snapshot crowded_core)) = Inr bytes"
proof -
  define bs where "bs = close_blockers (StrongId 0x0300000700000001) crowded_population crowded_core"
  have "length (concat (map write_str bs)) \<le> length bs * 104" if "\<forall>b \<in> set bs. length b \<le> 100" for bs
    using that by (induction bs) (auto simp: store_simps)
  then have "length (concat (map write_str bs)) \<le> 67 * 104"
    unfolding bs_def using crowded_blocker_lengths crowded_blockers by metis
  moreover have "length (concat (map write_identity crowd)) = 8 * 65"
    using crowd_identities(1) by (simp add: length_concat comp_def store_simps sum_list_triv)
  ultimately have "length (store_population (crowded_population\<lparr>pop_closure_blockers := bs\<rparr>)) \<le> 10000"
    by (simp add: store_population_def crowded_population_def saved_population_def default_population_def store_simps)
  moreover have "length (store_candidate (crowd_candidate k)) \<le> 1000" for k
    by (simp add: store_candidate_def crowd_candidate_def default_candidate_def store_simps)
  then have "length (append_map_records (map (\<lambda>k. (k, crowd_candidate k)) crowd) kRecordCandidate (\<lambda>_. store_candidate))
      \<le> length (map (\<lambda>k. (k, crowd_candidate k)) crowd) * (5 + 1000)"
    using crowd_identities by (intro append_map_records_length) (auto simp: tbl_ok_def comp_def)
  moreover have counters: "length (concat (map write_u32 (snap_id_counters (snapshot crowded_core)))) = 4 * 18"
    using crowded_storable
    by (simp add: storable_snapshot_def kIdKindCount_def length_concat comp_def store_simps sum_list_triv)
  have tables: "snap_tasks (snapshot crowded_core) = []" "snap_policies (snapshot crowded_core) = []"
    "snap_populations (snapshot crowded_core) = [(StrongId 0x0300000700000001, crowded_population)]"
    "snap_candidates (snapshot crowded_core) = map (\<lambda>k. (k, crowd_candidate k)) crowd"
    "snap_workers (snapshot crowded_core) = []" "snap_attempts (snapshot crowded_core) = []"
    "snap_assignments (snapshot crowded_core) = []" "snap_evaluations (snapshot crowded_core) = []"
    "snap_selections (snapshot crowded_core) = []" "snap_retentions (snapshot crowded_core) = []"
    "snap_promotion_requests (snapshot crowded_core) = []" "snap_ledgers (snapshot crowded_core) = []"
    "snap_lineage (snapshot crowded_core) = []"
    by (simp_all add: snapshot_def raw_snapshot_def crowded_core_def make_core_def)
  have append_single: "append_map_records [(k, v)] ty put = frame_record ty (put k v)" and append_none: "append_map_records [] ty put = []"
    for k :: "'t strong_id" and v :: 'v and ty put
    by (simp_all add: append_map_records_def ascending_keys_def tbl_keys_def tbl_find_def)
  ultimately have "length (build_payload (with_blockers (StrongId 0x0300000700000001) bs (snapshot crowded_core)))
      \<le> kMaxSnapshotPayloadBytes"
    using counters
    by (simp add: kMaxSnapshotPayloadBytes_def build_payload_def with_blockers_def tables append_single append_none tbl_adjust_def
        crowd_identities frame_record_def store_simps store_identity_header_def write_counters_def store_statistics_def)
  then show ?thesis
    by (simp add: serialize_snapshot_def Let_def bs_def)
qed

text \<open>
  C29: A refused closure can make the saved state unreadable. \<^verbatim>\<open>close_population\<close> stores every blocker it
  finds, one for each unresolved candidate or open attempt, while the decoder of the snapshot
  accepts at most 64: after the refusal of a population with more, the image that is written is
  rejected when it is read, and a coordinator cannot recover from it.
\<close>

theorem refused_closure_locks_out:
  assumes "find_population p c = Some pop" and "\<not> population_state_is_terminal (pop_state pop)"
    and "64 < length (close_blockers p pop c)" and "storable_snapshot (snapshot c)"
    and "close_population p c = (r, c')" and "serialize_snapshot (snapshot c') = Inr bytes"
  shows "r = Inl E_IllegalStateTransition \<and> deserialize_snapshot bytes = Inl E_PersistenceRejectedContent"
proof -
  have blocked: "close_blockers p pop c \<noteq> []" using assms(3) by auto
  note closed = refused_closure [OF assms(1,2) blocked assms(5)]
  have "tbl_find (snap_populations (snapshot c)) p = Some pop"
    using assms(1) by (simp add: find_population_def snapshot_def raw_snapshot_def)
  with blocked_image_refused [OF _ assms(4) this assms(3)] closed assms(6) show ?thesis
    by simp
qed

theorem refused_closure_locks_out_witness:
  "\<exists>c' bytes. close_population (StrongId 0x0300000700000001) crowded_core = (Inl E_IllegalStateTransition, c') \<and>
     serialize_snapshot (snapshot c') = Inr bytes \<and> deserialize_snapshot bytes = Inl E_PersistenceRejectedContent"
proof -
  obtain r c' where close: "close_population (StrongId 0x0300000700000001) crowded_core = (r, c')"
    by fastforce
  have running: "\<not> population_state_is_terminal (pop_state crowded_population)"
    by (simp add: population_state_is_terminal_def crowded_population_def)
  have "close_blockers (StrongId 0x0300000700000001) crowded_population crowded_core \<noteq> []"
    using crowded_blockers by auto
  from refused_closure(2) [OF crowded_found running this close] obtain bytes
    where bytes: "serialize_snapshot (snapshot c') = Inr bytes"
    using crowded_serializes by auto
  from refused_closure_locks_out [OF crowded_found running _ crowded_storable close bytes] show ?thesis
    using close bytes crowded_blockers by simp
qed

end
