(* ===== verification/Worker_Runtime.thy ===== *)
theory Worker_Runtime
  imports Reference_Task Coordinator_Frames
begin

text \<open>
  The reference worker (worker_runtime.hpp, worker_runtime.cpp): the hand-off from the reader
  thread of its connection, the handshake, one assignment, and the message loop.

  Two threads touch the state. The reader thread runs \<^verbatim>\<open>enqueue\<close> for every frame and
  \<^verbatim>\<open>mark_down\<close> when the connection ends; the main thread runs the handshake and the loop, and
  waits on a condition variable at three places. What the main thread does between two waits
  reads nothing the reader thread writes, so it is one step; where it is, is its phase.

  The platform is a parameter: the connection, the directories and files of an attempt, and
  the process identifier. The text of a status is not modelled.
\<close>

section \<open>State\<close>

record worker_config =
  wc_worker :: worker_id
  wc_label :: string
  wc_strategy :: reference_strategy
  wc_self_report :: bool

text \<open>
  What the calls of the platform answer: the connection attempt, the sending of a frame after
  those already sent, and the operations on the workspace of the attempt with a given number.
\<close>

record worker_platform =
  wp_process_id :: u32
  wp_connect :: status
  wp_send :: "(message_type \<times> string) list \<Rightarrow> status"
  wp_make_base :: "u64 \<Rightarrow> status"
  wp_create :: "u64 \<Rightarrow> status"
  wp_write :: "u64 \<Rightarrow> string \<Rightarrow> string \<Rightarrow> status"
  wp_remove :: "u64 \<Rightarrow> status"

datatype worker_phase =
    WP_Start
  | WP_AwaitHello
  | WP_Serving
  | WP_AwaitPublish worker_operation_authority
  | WP_Done status

record worker_runtime =
  wr_config :: worker_config
  wr_boot :: worker_boot_id
  wr_session :: worker_session_authority
  wr_served :: u64
  wr_attempts :: u64
  wr_inbox :: "frame list"
  wr_rejections :: "(message_type \<times> error_code) list"
  wr_hello_ack :: "hello_ack_message option"
  wr_publish_ack :: "publish_ack_message option"
  wr_live :: bool
  wr_stop :: bool
  wr_terminal :: status
  wr_sent :: "(message_type \<times> string) list"
  wr_bases :: "u64 list"
  wr_workspaces :: "u64 list"
  wr_phase :: worker_phase

type_synonym 'a worker_action = "(worker_runtime, 'a) action"

definition null_session :: worker_session_authority where
  "null_session = \<lparr>wsa_epoch = epoch_none, wsa_run = null_id, wsa_worker = null_id, wsa_boot = null_id,
     wsa_session = null_id, wsa_session_gen = gen_none\<rparr>"

definition new_worker :: "worker_config \<Rightarrow> worker_boot_id \<Rightarrow> worker_runtime" where
  "new_worker config boot =
    \<lparr>wr_config = config, wr_boot = boot, wr_session = null_session, wr_served = 0, wr_attempts = 0,
     wr_inbox = [], wr_rejections = [], wr_hello_ack = None, wr_publish_ack = None, wr_live = False,
     wr_stop = False, wr_terminal = OK, wr_sent = [], wr_bases = [], wr_workspaces = [],
     wr_phase = WP_Start\<rparr>"

section \<open>The reader thread\<close>

definition record_rejection :: "error_response_message \<Rightarrow> worker_runtime \<Rightarrow> worker_runtime" where
  "record_rejection m s = s\<lparr>wr_rejections :=
     tbl_assign (error_response_in_reply_to m) (error_response_code m) (wr_rejections s)\<rparr>"

definition find_rejection :: "message_type \<Rightarrow> worker_runtime \<Rightarrow> error_code option" where
  "find_rejection t s = tbl_find (wr_rejections s) t"

definition take_rejection :: "message_type \<Rightarrow> worker_runtime \<Rightarrow> worker_runtime" where
  "take_rejection t s = s\<lparr>wr_rejections := filter (\<lambda>(t', _). t' \<noteq> t) (wr_rejections s)\<rparr>"

definition enqueue :: "frame \<Rightarrow> worker_runtime \<Rightarrow> worker_runtime" where
  "enqueue frame s =
    (let queued = s\<lparr>wr_inbox := wr_inbox s @ [frame]\<rparr> in
     if fh_type (fr_header frame) = MT_HelloAck then
       (case decode_hello_ack (fr_payload frame) of
          Inr m \<Rightarrow> s\<lparr>wr_hello_ack := Some m\<rparr> | Inl _ \<Rightarrow> queued)
     else if fh_type (fr_header frame) = MT_ErrorResponse then
       (case decode_error_response (fr_payload frame) of
          Inr m \<Rightarrow> record_rejection m s | Inl _ \<Rightarrow> queued)
     else queued)"

definition mark_down :: "status \<Rightarrow> worker_runtime \<Rightarrow> worker_runtime" where
  "mark_down reason s = s\<lparr>wr_live := False, wr_stop := True,
     wr_terminal := (if is_ok (wr_terminal s) then reason else wr_terminal s)\<rparr>"

section \<open>Sending\<close>

definition worker_send :: "worker_platform \<Rightarrow> message_type \<Rightarrow> payload \<Rightarrow> unit worker_action" where
  "worker_send env t p = readA (\<lambda>s. thenA (checkA (wp_send env (wr_sent s)))
     (modifyA (\<lambda>s. s\<lparr>wr_sent := wr_sent s @ [(t, encode_payload p)]\<rparr>)))"

definition kReferenceWorkerCapability :: string where
  "kReferenceWorkerCapability = ''reference-cpp20''"

definition send_worker_ready :: "worker_platform \<Rightarrow> unit worker_action" where
  "send_worker_ready env = readA (\<lambda>s. worker_send env MT_WorkerReady (P_WorkerReady
     \<lparr>worker_ready_session = wr_session s, worker_ready_capability = kReferenceWorkerCapability\<rparr>))"

definition send_accepted :: "worker_platform \<Rightarrow> worker_operation_authority \<Rightarrow> unit worker_action" where
  "send_accepted env authority =
    worker_send env MT_AttemptAccepted (P_AttemptAccepted \<lparr>attempt_accepted_authority = authority\<rparr>)"

definition send_failed :: "worker_platform \<Rightarrow> worker_operation_authority \<Rightarrow> string \<Rightarrow> unit worker_action" where
  "send_failed env authority reason = worker_send env MT_AttemptFailed (P_AttemptFailed
     \<lparr>attempt_failed_authority = authority, attempt_failed_reason = reason\<rparr>)"

definition send_candidate :: "worker_platform \<Rightarrow> candidate_publish_message \<Rightarrow> unit worker_action" where
  "send_candidate env m = worker_send env MT_CandidatePublish (P_CandidatePublish m)"

definition send_self_report ::
  "worker_platform \<Rightarrow> worker_operation_authority \<Rightarrow> bool \<Rightarrow> string \<Rightarrow> unit worker_action" where
  "send_self_report env authority claimed_success claim = worker_send env MT_SelfReport (P_SelfReport
     \<lparr>self_report_authority = authority, self_report_claim = claim,
      self_report_claimed_success = claimed_success\<rparr>)"

section \<open>The handshake\<close>

definition hello_of :: "worker_platform \<Rightarrow> worker_runtime \<Rightarrow> hello_message" where
  "hello_of env s =
    \<lparr>hello_role = SR_Worker, hello_run = null_id, hello_worker = wc_worker (wr_config s),
     hello_boot = wr_boot s, hello_controller = null_id, hello_label = wc_label (wr_config s),
     hello_capability = kReferenceWorkerCapability, hello_process_id = wp_process_id env,
     hello_observed_epoch = epoch_none\<rparr>"

definition connect_and_greet :: "worker_platform \<Rightarrow> unit worker_action" where
  "connect_and_greet env = thenA (checkA (wp_connect env))
    (thenA (modifyA (\<lambda>s. s\<lparr>wr_live := True\<rparr>))
      (readA (\<lambda>s. worker_send env MT_Hello (P_Hello (hello_of env s)))))"

text \<open>
  After the wait: the answer was an acknowledgement, a rejection, or the end of the connection.
  A rejection carries whatever code the peer wrote, and a status made of the code \<^verbatim>\<open>Ok\<close> is no
  failure.
\<close>

definition status_of_code :: "error_code \<Rightarrow> status" where
  "status_of_code e = (if e = E_Ok then OK else Inl e)"

definition adopt_handshake :: "unit worker_action" where
  "adopt_handshake = readA (\<lambda>s. case wr_hello_ack s of
     Some ack \<Rightarrow> modifyA (\<lambda>s. s\<lparr>wr_session :=
       \<lparr>wsa_epoch = hello_ack_coordinator_epoch ack, wsa_run = hello_ack_run ack,
        wsa_worker = wc_worker (wr_config s), wsa_boot = wr_boot s, wsa_session = hello_ack_session ack,
        wsa_session_gen = hello_ack_session_generation ack\<rparr>\<rparr>)
   | None \<Rightarrow> (case find_rejection MT_Hello s of
       Some e \<Rightarrow> thenA (modifyA (take_rejection MT_Hello)) (checkA (status_of_code e))
     | None \<Rightarrow> failA E_ConnectionClosed))"

definition hello_answered :: "worker_runtime \<Rightarrow> bool" where
  "hello_answered s \<longleftrightarrow> wr_hello_ack s \<noteq> None \<or> wr_stop s \<or> find_rejection MT_Hello s \<noteq> None"

section \<open>One assignment\<close>

definition attempt_authority :: "assign_attempt_message \<Rightarrow> worker_operation_authority" where
  "attempt_authority m = (let p = assign_attempt_package m in
    \<lparr>woa_session = assign_attempt_session m, woa_population = pkg_population p,
     woa_population_gen = pkg_population_gen p, woa_task = pkg_task p, woa_task_gen = pkg_task_gen p,
     woa_candidate = pkg_candidate p, woa_candidate_gen = pkg_candidate_gen p,
     woa_attempt = pkg_attempt p, woa_attempt_gen = pkg_attempt_gen p,
     woa_assignment = pkg_assignment p\<rparr>)"

definition publication :: "worker_operation_authority \<Rightarrow> worker_config \<Rightarrow> candidate_publish_message" where
  "publication authority config =
    (let source = generate_reference_solution (wc_strategy config);
         strategy = reference_strategy_name (wc_strategy config)
     in \<lparr>candidate_publish_authority = authority,
         candidate_publish_artifacts = [\<lparr>art_name = kReferenceTaskSourceArtifact,
           art_size = of_nat (length source), art_digest = sha256_hex source\<rparr>],
         candidate_publish_declared_strategy = strategy,
         candidate_publish_self_reported_success = (wc_self_report config \<or>
           wc_strategy config \<noteq> ST_OffByOne \<and> wc_strategy config \<noteq> ST_SelfReportedPass),
         candidate_publish_self_report_detail =
           ''reference worker claim for strategy '' @ [CHR 0x27] @ strategy @ [CHR 0x27]\<rparr>)"

definition finish_attempt :: "worker_platform \<Rightarrow> u64 \<Rightarrow> status \<Rightarrow> unit worker_action" where
  "finish_attempt env n outcome = thenA
     (modifyA (\<lambda>s. if is_ok (wp_remove env n) then s\<lparr>wr_workspaces := remove1 n (wr_workspaces s)\<rparr> else s))
     (checkA (if is_ok outcome then wp_remove env n else outcome))"

definition publish_attempt ::
  "worker_platform \<Rightarrow> u64 \<Rightarrow> worker_operation_authority \<Rightarrow> attempt_package \<Rightarrow> unit worker_action" where
  "publish_attempt env n authority package = seqA
     [checkA (first_failure (map (\<lambda>(name, content). wp_write env n name content) (pkg_input_files package))),
      readA (\<lambda>s. checkA (wp_write env n kReferenceTaskSourceArtifact
        (generate_reference_solution (wc_strategy (wr_config s))))),
      readA (\<lambda>s. send_candidate env (publication authority (wr_config s))),
      readA (\<lambda>s. let m = publication authority (wr_config s) in ignoreA (send_self_report env authority
        (candidate_publish_self_reported_success m) (candidate_publish_self_report_detail m)))]"

text \<open>Up to the wait for the acknowledgement; a failure before it removes the workspace
  and is what the assignment ends with.\<close>

definition serve_assignment ::
  "worker_platform \<Rightarrow> assign_attempt_message \<Rightarrow> worker_operation_authority worker_action" where
  "serve_assignment env m = (let authority = attempt_authority m in
     thenA (send_accepted env authority)
     (thenA (modifyA (\<lambda>s. s\<lparr>wr_attempts := wr_attempts s + 1\<rparr>))
     (readA (\<lambda>s. let n = wr_attempts s in
      thenA (seqA
        [checkA (wp_make_base env n), modifyA (\<lambda>s. s\<lparr>wr_bases := wr_bases s @ [n]\<rparr>),
         checkA (wp_create env n), modifyA (\<lambda>s. s\<lparr>wr_workspaces := wr_workspaces s @ [n]\<rparr>)])
      (\<lambda>s. case publish_attempt env n authority (assign_attempt_package m) s of
         (Inl e, s') \<Rightarrow> (Inl e, snd (finish_attempt env n (Inl e) s'))
       | (Inr _, s') \<Rightarrow> (Inr authority, s'))))))"

definition publish_answered :: "worker_runtime \<Rightarrow> bool" where
  "publish_answered s \<longleftrightarrow>
    wr_publish_ack s \<noteq> None \<or> wr_stop s \<or> find_rejection MT_CandidatePublish s \<noteq> None"

definition default_publish_ack :: publish_ack_message where
  "default_publish_ack = \<lparr>publish_ack_candidate = null_id, publish_ack_candidate_generation = gen_none,
     publish_ack_accepted = False, publish_ack_detail = []\<rparr>"

definition wait_for_publish_ack :: "publish_ack_message worker_action" where
  "wait_for_publish_ack = readA (\<lambda>s. case wr_publish_ack s of
     Some ack \<Rightarrow> thenA (modifyA (\<lambda>s. s\<lparr>wr_publish_ack := None\<rparr>)) (retA ack)
   | None \<Rightarrow> (case find_rejection MT_CandidatePublish s of
       Some e \<Rightarrow> thenA (modifyA (take_rejection MT_CandidatePublish))
         (thenA (checkA (status_of_code e)) (retA default_publish_ack))
     | None \<Rightarrow> failA E_ConnectionClosed))"

definition answer_publication ::
  "worker_platform \<Rightarrow> worker_operation_authority \<Rightarrow> unit worker_action" where
  "answer_publication env authority = bindA wait_for_publish_ack (\<lambda>ack.
     if \<not> publish_ack_accepted ack then send_failed env authority
       (if publish_ack_detail ack = [] then ''the coordinator rejected the publication''
        else publish_ack_detail ack)
     else modifyA (\<lambda>s. s\<lparr>wr_served := wr_served s + 1\<rparr>))"

definition conclude_publication ::
  "worker_platform \<Rightarrow> worker_operation_authority \<Rightarrow> unit worker_action" where
  "conclude_publication env authority = (\<lambda>s.
     case answer_publication env authority s of
       (outcome, s') \<Rightarrow> finish_attempt env (wr_attempts s') outcome s')"

section \<open>The message loop\<close>

definition handle :: "worker_platform \<Rightarrow> frame \<Rightarrow> worker_phase worker_action" where
  "handle env frame =
    (let t = fh_type (fr_header frame); body = fr_payload frame in
     if t = MT_HelloAck then bindA (checkA (decode_hello_ack body)) (\<lambda>m.
       thenA (modifyA (\<lambda>s. s\<lparr>wr_hello_ack := Some m\<rparr>)) (retA WP_Serving))
     else if t = MT_RevalidateAck then bindA (checkA (decode_revalidate_ack body)) (\<lambda>m.
       if \<not> revalidate_ack_accepted m then failA E_RevalidationRequired
       else thenA (modifyA (\<lambda>s. s\<lparr>wr_session := revalidate_ack_session m\<rparr>))
         (thenA (send_worker_ready env) (retA WP_Serving)))
     else if t = MT_AssignAttempt then bindA (checkA (decode_assign_attempt body)) (\<lambda>m.
       bindA (serve_assignment env m) (\<lambda>authority. retA (WP_AwaitPublish authority)))
     else if t = MT_PublishAck then bindA (checkA (decode_publish_ack body)) (\<lambda>m.
       thenA (modifyA (\<lambda>s. s\<lparr>wr_publish_ack := Some m\<rparr>)) (retA WP_Serving))
     else if t = MT_HeartbeatAck then retA WP_Serving
     else if t = MT_ShutdownAck \<or> t = MT_ShutdownCoordinator then
       thenA (modifyA (\<lambda>s. s\<lparr>wr_stop := True\<rparr>)) (retA WP_Serving)
     else if t = MT_ErrorResponse then (case decode_error_response body of
         Inl _ \<Rightarrow> failA E_ProtocolViolation
       | Inr m \<Rightarrow> thenA (checkA (status_of_code (error_response_code m))) (retA WP_Serving))
     else retA WP_Serving)"

text \<open>\<open>go_on\<close> ends the run with the status of an action that failed.\<close>

definition go_on :: "worker_phase worker_action \<Rightarrow> worker_runtime \<Rightarrow> worker_runtime" where
  "go_on m s = (case m s of
     (Inl e, s') \<Rightarrow> s'\<lparr>wr_phase := WP_Done (Inl e)\<rparr> | (Inr p, s') \<Rightarrow> s'\<lparr>wr_phase := p\<rparr>)"

text \<open>
  The main thread up to its next wait. Where the condition of its wait is false it stays where
  it is.
\<close>

definition serve_step :: "worker_platform \<Rightarrow> worker_runtime \<Rightarrow> worker_runtime" where
  "serve_step env s = (case wr_inbox s of
     frame # rest \<Rightarrow> go_on (handle env frame) (s\<lparr>wr_inbox := rest\<rparr>)
   | [] \<Rightarrow> (if wr_stop s then s\<lparr>wr_phase := WP_Done (wr_terminal s)\<rparr> else s))"

definition main_step :: "worker_platform \<Rightarrow> worker_runtime \<Rightarrow> worker_runtime" where
  "main_step env s = (case wr_phase s of
     WP_Start \<Rightarrow> go_on (thenA (connect_and_greet env) (retA WP_AwaitHello)) s
   | WP_AwaitHello \<Rightarrow> if hello_answered s
       then go_on (thenA adopt_handshake (thenA (send_worker_ready env) (retA WP_Serving))) s else s
   | WP_Serving \<Rightarrow> serve_step env s
   | WP_AwaitPublish authority \<Rightarrow> if publish_answered s
       then go_on (thenA (conclude_publication env authority) (retA WP_Serving)) s else s
   | WP_Done _ \<Rightarrow> s)"

datatype worker_event = WE_Deliver frame | WE_Down status | WE_Main

fun worker_step :: "worker_platform \<Rightarrow> worker_event \<Rightarrow> worker_runtime \<Rightarrow> worker_runtime" where
  "worker_step env (WE_Deliver frame) s = enqueue frame s"
| "worker_step env (WE_Down reason) s = mark_down reason s"
| "worker_step env WE_Main s = main_step env s"

definition worker_run :: "worker_platform \<Rightarrow> worker_event list \<Rightarrow> worker_runtime \<Rightarrow> worker_runtime" where
  "worker_run env events s = fold (worker_step env) events s"

text \<open>What the owner of the worker reads: the count only after a run that ended well.\<close>

definition assignments_served :: "worker_runtime \<Rightarrow> u64" where
  "assignments_served s = (if wr_phase s = WP_Done OK then wr_served s else 0)"

definition worker_exit_code :: "worker_runtime \<Rightarrow> int option" where
  "worker_exit_code s = (case wr_phase s of
     WP_Done st \<Rightarrow> Some (if is_ok st then 0 else 1) | _ \<Rightarrow> None)"

end
