(* ===== verification/Worker_Guarantees.thy ===== *)
theory Worker_Guarantees
  imports Worker_Runtime
begin

text \<open>
  What the reference worker does over a run: an assignment it publishes for is never finished,
  the frames it sends, and the workspaces it leaves.
\<close>

section \<open>What one assignment changes\<close>

definition publications :: "worker_runtime \<Rightarrow> (message_type \<times> string) list" where
  "publications s = filter (\<lambda>(t, _). t = MT_CandidatePublish) (wr_sent s)"

lemma worker_send_eq:
  "worker_send env t p s = (wp_send env (wr_sent s),
     if is_ok (wp_send env (wr_sent s)) then s\<lparr>wr_sent := wr_sent s @ [(t, encode_payload p)]\<rparr> else s)"
  by (cases "wp_send env (wr_sent s)") (simp_all add: worker_send_def action_defs)

lemmas sends = send_worker_ready_def send_accepted_def send_failed_def send_candidate_def
  send_self_report_def worker_send_eq

lemma other_frames: "t \<noteq> MT_CandidatePublish \<Longrightarrow>
    publications (s\<lparr>wr_sent := wr_sent s @ [(t, body)]\<rparr>) = publications s"
  by (simp add: publications_def)

definition assignment_effect :: "worker_runtime \<Rightarrow> worker_runtime \<Rightarrow> bool \<Rightarrow> bool" where
  "assignment_effect s s' published \<longleftrightarrow>
    wr_served s' = wr_served s \<and> wr_publish_ack s' = wr_publish_ack s \<and> wr_inbox s' = wr_inbox s \<and>
    wr_rejections s' = wr_rejections s \<and> length (publications s') = length (publications s) + (if published then 1 else 0)"

text \<open>A publication is sent exactly when the attempt gets as far as waiting for its answer.\<close>

lemma publish_attempt_effect:
  assumes "publish_attempt env n authority package s = (r, s')"
  shows "assignment_effect s s' (is_ok r) \<and> wr_workspaces s' = wr_workspaces s \<and>
    wr_attempts s' = wr_attempts s \<and> wr_bases s' = wr_bases s"
proof -
  let ?m = "publication authority (wr_config s)"
  let ?source = "wp_write env n kReferenceTaskSourceArtifact (generate_reference_solution (wc_strategy (wr_config s)))"
  let ?t = "s\<lparr>wr_sent := wr_sent s @ [(MT_CandidatePublish, encode_payload (P_CandidatePublish ?m))]\<rparr>"
  obtain inputs where inputs: "first_failure (map (\<lambda>(name, content). wp_write env n name content)
      (pkg_input_files package)) = inputs" by simp
  note run = publish_attempt_def inputs action_defs send_candidate_def worker_send_eq Let_def
  show ?thesis
  proof (cases "is_ok inputs \<and> is_ok ?source \<and> is_ok (wp_send env (wr_sent s))")
    case True
    then have "s' = snd (send_self_report env authority (candidate_publish_self_reported_success ?m)
        (candidate_publish_self_report_detail ?m) ?t) \<and> r = OK"
      using assms by (cases inputs; cases ?source; cases "wp_send env (wr_sent s)") (simp_all add: run)
    then show ?thesis
      by (simp add: send_self_report_def worker_send_eq assignment_effect_def publications_def)
  next
    case False
    then have "snd (publish_attempt env n authority package s) = s \<and> \<not> is_ok (fst (publish_attempt env n authority package s))"
      by (cases inputs; cases ?source; cases "wp_send env (wr_sent s)") (simp_all add: run)
    then have "s' = s \<and> \<not> is_ok r"
      using assms by simp
    then show ?thesis
      by (simp add: assignment_effect_def)
  qed
qed

lemma finish_attempt_effect:
  assumes "finish_attempt env n outcome s = (r, s')"
  shows "assignment_effect s s' False \<and> wr_attempts s' = wr_attempts s \<and> wr_bases s' = wr_bases s \<and>
    wr_workspaces s' = (if is_ok (wp_remove env n) then remove1 n (wr_workspaces s) else wr_workspaces s) \<and>
    (is_ok r \<longleftrightarrow> is_ok outcome \<and> is_ok (wp_remove env n))"
  using assms unfolding finish_attempt_def
  by (auto simp: action_defs assignment_effect_def publications_def split: if_splits)

text \<open>
  The prefix of an assignment: the acceptance is sent, the number taken, the directories made.
  Where it fails, nothing was published and no workspace exists.
\<close>

definition attempt_opened :: "assign_attempt_message \<Rightarrow> worker_runtime \<Rightarrow> worker_runtime" where
  "attempt_opened m s = (let n = wr_attempts s + 1 in s\<lparr>
     wr_sent := wr_sent s @ [(MT_AttemptAccepted, encode_payload
       (P_AttemptAccepted \<lparr>attempt_accepted_authority = attempt_authority m\<rparr>))],
     wr_attempts := n, wr_bases := wr_bases s @ [n], wr_workspaces := wr_workspaces s @ [n]\<rparr>)"

definition attempt_opens :: "worker_platform \<Rightarrow> worker_runtime \<Rightarrow> bool" where
  "attempt_opens env s \<longleftrightarrow> (let n = wr_attempts s + 1 in
     is_ok (wp_send env (wr_sent s)) \<and> is_ok (wp_make_base env n) \<and> is_ok (wp_create env n))"

lemma serve_assignment_opened:
  assumes "attempt_opens env s"
  shows "serve_assignment env m s =
    (case publish_attempt env (wr_attempts s + 1) (attempt_authority m) (assign_attempt_package m)
        (attempt_opened m s) of
       (Inl e, s') \<Rightarrow> (Inl e, snd (finish_attempt env (wr_attempts s + 1) (Inl e) s'))
     | (Inr _, s') \<Rightarrow> (Inr (attempt_authority m), s'))"
proof -
  let ?n = "wr_attempts s + 1"
  show ?thesis
    using assms unfolding attempt_opens_def Let_def
    by (cases "wp_send env (wr_sent s)"; cases "wp_make_base env ?n"; cases "wp_create env ?n")
      (simp_all add: serve_assignment_def Let_def action_defs send_accepted_def worker_send_eq attempt_opened_def
        split: prod.split sum.split)
qed

lemma serve_assignment_unopened:
  assumes "\<not> attempt_opens env s"
  shows "\<not> is_ok (fst (serve_assignment env m s)) \<and> assignment_effect s (snd (serve_assignment env m s)) False \<and>
    wr_workspaces (snd (serve_assignment env m s)) = wr_workspaces s"
proof -
  let ?n = "wr_attempts s + 1"
  show ?thesis
    using assms unfolding attempt_opens_def Let_def
    by (cases "wp_send env (wr_sent s)"; cases "wp_make_base env ?n"; cases "wp_create env ?n")
      (simp_all add: serve_assignment_def Let_def action_defs send_accepted_def worker_send_eq
        assignment_effect_def publications_def)
qed

lemma serve_assignment_effect:
  assumes "serve_assignment env m s = (r, s')"
  shows "assignment_effect s s' (is_ok r)"
proof (cases "attempt_opens env s")
  case False
  then show ?thesis
    using serve_assignment_unopened [OF False, of m] assms by (cases r) simp_all
next
  case True
  obtain r2 t where p: "publish_attempt env (wr_attempts s + 1) (attempt_authority m) (assign_attempt_package m)
      (attempt_opened m s) = (r2, t)"
    by fastforce
  have opened: "assignment_effect s u b" if "assignment_effect (attempt_opened m s) u b" for u b
    using that by (simp add: assignment_effect_def attempt_opened_def publications_def Let_def)
  have published: "assignment_effect (attempt_opened m s) t (is_ok r2)"
    using publish_attempt_effect [OF p] by simp
  show ?thesis
  proof (cases r2)
    case (Inr a)
    then have "s' = t" "is_ok r"
      using assms unfolding serve_assignment_opened [OF True] p by auto
    then show ?thesis
      using opened [OF published] Inr by simp
  next
    case (Inl e)
    then have s': "s' = snd (finish_attempt env (wr_attempts s + 1) (Inl e) t)" and r: "r = Inl e"
      using assms unfolding serve_assignment_opened [OF True] p by auto
    have "assignment_effect t s' False"
      using finish_attempt_effect [of env "wr_attempts s + 1" "Inl e" t "fst (finish_attempt env (wr_attempts s + 1) (Inl e) t)" s']
      by (simp add: s')
    then show ?thesis
      using opened [OF published] Inl r by (simp add: assignment_effect_def)
  qed
qed

section \<open>A run of the worker\<close>

text \<open>Actions that neither publish nor count anything.\<close>

definition unobtrusive :: "worker_runtime \<Rightarrow> worker_runtime \<Rightarrow> bool" where
  "unobtrusive s s' \<longleftrightarrow>
    wr_served s' = wr_served s \<and> wr_publish_ack s' = wr_publish_ack s \<and> wr_inbox s' = wr_inbox s \<and>
    publications s' = publications s \<and> set (wr_rejections s') \<subseteq> set (wr_rejections s)"

interpretation aside: two_state unobtrusive
  by unfold_locales (auto simp: unobtrusive_def)

lemma unobtrusive_send: "t \<noteq> MT_CandidatePublish \<Longrightarrow> keeps unobtrusive (worker_send env t p)"
  by (simp add: keeps_def step_ok_def worker_send_eq unobtrusive_def publications_def)

lemma unobtrusive_ready: "keeps unobtrusive (send_worker_ready env)"
  unfolding send_worker_ready_def by (intro aside.keeps_read unobtrusive_send) simp

lemma unobtrusive_greet: "keeps unobtrusive (connect_and_greet env)"
  unfolding connect_and_greet_def
  by (intro aside.keeps_rules unobtrusive_send aside.keeps_modify) (simp_all add: unobtrusive_def publications_def)

lemma unobtrusive_take: "keeps unobtrusive (modifyA (take_rejection t))"
  by (intro aside.keeps_modify) (auto simp: unobtrusive_def publications_def take_rejection_def)

lemma unobtrusive_adopt: "keeps unobtrusive adopt_handshake"
  unfolding adopt_handshake_def
  by (intro aside.keeps_rules aside.keeps_control unobtrusive_take aside.keeps_modify)
    (simp_all add: unobtrusive_def publications_def)

lemma unobtrusive_handle:
  assumes "fh_type (fr_header frame) \<noteq> MT_AssignAttempt" and "fh_type (fr_header frame) \<noteq> MT_PublishAck"
  shows "keeps unobtrusive (handle env frame)"
  unfolding handle_def Let_def if_not_P [OF assms(1)] if_not_P [OF assms(2)]
  by (intro aside.keeps_control aside.keeps_rules unobtrusive_ready aside.keeps_modify)
    (simp_all add: unobtrusive_def publications_def)

lemma unobtrusive_result: "keeps unobtrusive m \<Longrightarrow> unobtrusive s (snd (m s))"
  by (simp add: keeps_def step_ok_def)

text \<open>
  What the worker may expect of its peer: a publication is acknowledged after it was sent, and
  a rejection names a failure.
\<close>

definition event_expected :: "worker_event \<Rightarrow> worker_runtime \<Rightarrow> bool" where
  "event_expected ev s \<longleftrightarrow> (case ev of
     WE_Deliver frame \<Rightarrow>
       (fh_type (fr_header frame) = MT_PublishAck \<longrightarrow> publications s \<noteq> []) \<and>
       (case decode_error_response (fr_payload frame) of
          Inr m \<Rightarrow> fh_type (fr_header frame) = MT_ErrorResponse \<longrightarrow> error_response_code m \<noteq> E_Ok
        | Inl _ \<Rightarrow> True)
   | _ \<Rightarrow> True)"

fun events_expected :: "worker_platform \<Rightarrow> worker_event list \<Rightarrow> worker_runtime \<Rightarrow> bool" where
  "events_expected env [] s = True"
| "events_expected env (ev # evs) s \<longleftrightarrow>
     event_expected ev s \<and> events_expected env evs (worker_step env ev s)"

definition is_awaiting :: "worker_phase \<Rightarrow> bool" where
  "is_awaiting p \<longleftrightarrow> (case p of WP_AwaitPublish _ \<Rightarrow> True | _ \<Rightarrow> False)"

definition is_done :: "worker_phase \<Rightarrow> bool" where
  "is_done p \<longleftrightarrow> (case p of WP_Done _ \<Rightarrow> True | _ \<Rightarrow> False)"

text \<open>
  The invariant of a run: nothing is served and no acknowledgement is at hand; before the first
  publication none is in the inbox, after it the main thread waits or has ended.
\<close>

definition nothing_served :: "worker_runtime \<Rightarrow> bool" where
  "nothing_served s \<longleftrightarrow> wr_served s = 0 \<and> wr_publish_ack s = None \<and> E_Ok \<notin> snd ` set (wr_rejections s) \<and>
    (if publications s = []
     then MT_PublishAck \<notin> (\<lambda>f. fh_type (fr_header f)) ` set (wr_inbox s) \<and> \<not> is_awaiting (wr_phase s)
     else length (publications s) = 1 \<and> (is_awaiting (wr_phase s) \<or> is_done (wr_phase s)))"

lemma go_on_eq: "go_on m s = (snd (m s))\<lparr>wr_phase := (case fst (m s) of Inl e \<Rightarrow> WP_Done (Inl e) | Inr p \<Rightarrow> p)\<rparr>"
  by (cases "m s"; cases "fst (m s)") (auto simp: go_on_def)

lemma set_phase [simp]: "publications (s\<lparr>wr_phase := p\<rparr>) = publications s" "publications (s\<lparr>wr_inbox := q\<rparr>) = publications s"
  by (simp_all add: publications_def)

lemma rejections_updated: "set (AList.update k v xs) \<subseteq> insert (k, v) (set xs)"
  by (induction xs) auto

lemma nothing_served_enqueue:
  assumes "nothing_served s" and "event_expected (WE_Deliver frame) s"
  shows "nothing_served (enqueue frame s)"
proof -
  have "E_Ok \<notin> snd ` set (AList.update t e (wr_rejections s))" if "e \<noteq> E_Ok" for t e
    using rejections_updated [of t e "wr_rejections s"] assms(1) that by (auto simp: nothing_served_def)
  then show ?thesis
    using assms
    by (auto simp: enqueue_def nothing_served_def event_expected_def record_rejection_def publications_def Let_def
        tbl_assign_def split: sum.splits if_splits)
qed

lemma nothing_served_aside:
  assumes "nothing_served s" and "unobtrusive s s'" and "publications s = []" and "\<not> is_awaiting p"
  shows "nothing_served (s'\<lparr>wr_phase := p\<rparr>)"
  using assms by (auto simp: nothing_served_def unobtrusive_def)

lemma then_ret: "fst (thenA m (retA p) s) = (case fst (m s) of Inl e \<Rightarrow> Inl e | Inr _ \<Rightarrow> Inr p)"
    "snd (thenA m (retA p) s) = snd (m s)"
  by (cases "m s"; cases "fst (m s)"; force simp: action_defs)+

lemma handle_goes_on:
  assumes "fh_type (fr_header frame) \<noteq> MT_AssignAttempt" and "fst (handle env frame s) = Inr p"
  shows "p = WP_Serving"
proof -
  have serving: "fst (thenA m (retA WP_Serving) t) = Inr q \<Longrightarrow> q = WP_Serving" for m :: "unit worker_action" and t q
    by (auto simp: then_ret split: sum.splits)
  have nested: "fst (thenA m n t) = Inr q \<Longrightarrow> (\<And>t. fst (n t) = Inr q \<Longrightarrow> q = WP_Serving) \<Longrightarrow> q = WP_Serving"
    for m :: "unit worker_action" and n t q
    by (auto simp: action_defs split: prod.splits sum.splits)
  have bound: "fst (bindA (checkA r) n t) = Inr q \<Longrightarrow> (\<And>x t. fst (n x t) = Inr q \<Longrightarrow> q = WP_Serving) \<Longrightarrow> q = WP_Serving"
    for r :: "'a result" and n t q
    by (auto simp: bindA_def checkA_def split: sum.splits)
  show ?thesis
    using assms(2) unfolding handle_def Let_def if_not_P [OF assms(1)]
    by (auto simp: retA_def failA_def split: if_splits sum.splits elim!: bound serving nested
        dest!: serving)
qed

lemma nothing_served_handle:
  assumes "nothing_served s" and "wr_phase s = WP_Serving" and "wr_inbox s = frame # rest"
  shows "nothing_served (go_on (handle env frame) (s\<lparr>wr_inbox := rest\<rparr>))"
proof -
  let ?s = "s\<lparr>wr_inbox := rest\<rparr>" and ?t = "fh_type (fr_header frame)"
  have none: "publications s = []" and not_ack: "?t \<noteq> MT_PublishAck" and rest: "nothing_served ?s"
    using assms by (auto simp: nothing_served_def is_awaiting_def is_done_def split: if_splits)
  show ?thesis
  proof (cases "?t = MT_AssignAttempt")
    case False
    have "\<not> is_awaiting (case fst (handle env frame ?s) of Inl e \<Rightarrow> WP_Done (Inl e) | Inr p \<Rightarrow> p)"
      using handle_goes_on [OF False, of env ?s] by (auto simp: is_awaiting_def split: sum.splits)
    then show ?thesis
      unfolding go_on_eq
      using nothing_served_aside [OF rest unobtrusive_result [OF unobtrusive_handle [OF False not_ack]]] none by simp
  next
    case True
    show ?thesis
    proof (cases "decode_assign_attempt (fr_payload frame)")
      case (Inl e)
      then show ?thesis
        using True none rest
        by (simp add: handle_def go_on_def action_defs nothing_served_def is_awaiting_def)
    next
      case (Inr m)
      obtain r s' where served: "serve_assignment env m ?s = (r, s')"
        by fastforce
      have "handle env frame ?s = (map_sum id WP_AwaitPublish r, s')"
        using True Inr served by (cases r) (simp_all add: handle_def action_defs)
      then show ?thesis
        using serve_assignment_effect [OF served] none rest
        by (cases r) (auto simp: go_on_def nothing_served_def assignment_effect_def is_awaiting_def is_done_def)
    qed
  qed
qed

lemma nothing_served_settle:
  assumes "nothing_served s" and "wr_phase s = WP_AwaitPublish authority"
  shows "nothing_served (go_on (thenA (conclude_publication env authority) (retA WP_Serving)) s)"
proof -
  have ack: "wr_publish_ack s = None" and one: "length (publications s) = 1"
    and failures: "find_rejection MT_CandidatePublish s = Some e \<Longrightarrow> e \<noteq> E_Ok" for e
    using assms by (auto simp: nothing_served_def is_awaiting_def find_rejection_def tbl_find_def
        image_iff dest!: map_of_SomeD split: if_splits)
  define t where "t = snd (wait_for_publish_ack s)"
  obtain e where waited: "wait_for_publish_ack s = (Inl e, t)"
    and t: "unobtrusive s t"
    using ack failures
    by (cases "find_rejection MT_CandidatePublish s")
      (auto simp: wait_for_publish_ack_def action_defs status_of_code_def t_def unobtrusive_def publications_def
        take_rejection_def)
  let ?f = "finish_attempt env (wr_attempts t) (Inl e) t"
  have "answer_publication env authority s = (Inl e, t)"
    by (simp add: answer_publication_def bindA_def waited)
  then have settled: "conclude_publication env authority s = ?f"
    by (simp add: conclude_publication_def)
  have finished: "assignment_effect t (snd ?f) False" "\<not> is_ok (fst ?f)"
    using finish_attempt_effect [of env "wr_attempts t" "Inl e" t "fst ?f" "snd ?f"] by simp_all
  show ?thesis
    unfolding go_on_eq then_ret settled
    using finished t one assms(1)
    by (cases "fst ?f")
      (auto simp: nothing_served_def assignment_effect_def unobtrusive_def is_done_def length_Suc_conv)
qed

lemma nothing_served_go_on:
  assumes "nothing_served s" and "publications s = []" and "keeps unobtrusive m" and "\<not> is_awaiting p"
  shows "nothing_served (go_on (thenA m (retA p)) s)"
  unfolding go_on_eq then_ret
  using assms(4) by (intro nothing_served_aside [OF assms(1) unobtrusive_result [OF assms(3)] assms(2)])
    (auto simp: is_awaiting_def split: sum.splits)

lemma nothing_served_main:
  assumes "nothing_served s"
  shows "nothing_served (main_step env s)"
proof -
  have none: "publications s = []" if "\<not> is_awaiting (wr_phase s)" "\<not> is_done (wr_phase s)"
    using assms that by (auto simp: nothing_served_def split: if_splits)
  show ?thesis
  proof (cases "wr_phase s")
    case WP_Start
    then show ?thesis
      using nothing_served_go_on [OF assms none unobtrusive_greet] by (simp add: main_step_def is_awaiting_def is_done_def)
  next
    case WP_AwaitHello
    have "keeps unobtrusive (thenA adopt_handshake (send_worker_ready env))"
      by (intro aside.keeps_then unobtrusive_adopt unobtrusive_ready)
    moreover have "thenA adopt_handshake (thenA (send_worker_ready env) (retA WP_Serving)) =
        thenA (thenA adopt_handshake (send_worker_ready env)) (retA WP_Serving)"
      by (auto simp: action_defs fun_eq_iff split: prod.splits sum.splits)
    ultimately show ?thesis
      using WP_AwaitHello assms nothing_served_go_on [OF assms none]
      by (simp add: main_step_def is_awaiting_def is_done_def)
  next
    case WP_Serving
    show ?thesis
    proof (cases "wr_inbox s")
      case Nil
      then show ?thesis
        using WP_Serving assms none
        by (auto simp: main_step_def serve_step_def nothing_served_def is_awaiting_def is_done_def)
    next
      case (Cons frame rest)
      then show ?thesis
        using WP_Serving nothing_served_handle [OF assms WP_Serving] by (simp add: main_step_def serve_step_def)
    qed
  next
    case (WP_AwaitPublish authority)
    then show ?thesis
      using assms nothing_served_settle [OF assms WP_AwaitPublish] by (simp add: main_step_def)
  next
    case (WP_Done st)
    then show ?thesis
      using assms by (simp add: main_step_def)
  qed
qed

lemma nothing_served_down: "nothing_served s \<Longrightarrow> nothing_served (mark_down reason s)"
proof -
  have "publications (mark_down reason s) = publications s" "wr_served (mark_down reason s) = wr_served s"
    "wr_publish_ack (mark_down reason s) = wr_publish_ack s" "wr_rejections (mark_down reason s) = wr_rejections s"
    "wr_inbox (mark_down reason s) = wr_inbox s" "wr_phase (mark_down reason s) = wr_phase s"
    by (simp_all add: mark_down_def publications_def)
  then show "nothing_served s \<Longrightarrow> nothing_served (mark_down reason s)"
    by (simp add: nothing_served_def)
qed

lemma nothing_served_run:
  "nothing_served s \<Longrightarrow> events_expected env evs s \<Longrightarrow> nothing_served (worker_run env evs s)"
proof (induction evs arbitrary: s)
  case Nil
  then show ?case by (simp add: worker_run_def)
next
  case (Cons ev evs)
  have "nothing_served (worker_step env ev s)"
    using Cons.prems nothing_served_enqueue nothing_served_main nothing_served_down by (cases ev) auto
  then show ?case
    using Cons by (simp add: worker_run_def)
qed

lemma nothing_served_from_start:
  "events_expected env evs (new_worker config boot) \<Longrightarrow> nothing_served (worker_run env evs (new_worker config boot))"
  by (rule nothing_served_run)
    (simp_all add: nothing_served_def new_worker_def publications_def is_awaiting_def)

text \<open>The two events that end the wait for the answer to a publication.\<close>

definition wakes_publisher :: "worker_event \<Rightarrow> bool" where
  "wakes_publisher ev \<longleftrightarrow> (case ev of
     WE_Deliver frame \<Rightarrow> fh_type (fr_header frame) = MT_ErrorResponse \<and>
       (case decode_error_response (fr_payload frame) of
          Inr m \<Rightarrow> error_response_in_reply_to m = MT_CandidatePublish | Inl _ \<Rightarrow> False)
   | WE_Down _ \<Rightarrow> True
   | WE_Main \<Rightarrow> False)"

definition stuck :: "worker_operation_authority \<Rightarrow> worker_runtime \<Rightarrow> bool" where
  "stuck authority s \<longleftrightarrow> wr_phase s = WP_AwaitPublish authority \<and> \<not> publish_answered s"

lemma enqueue_stays_stuck:
  assumes "stuck authority s" and "\<not> wakes_publisher (WE_Deliver frame)"
  shows "stuck authority (enqueue frame s) \<and> wr_sent (enqueue frame s) = wr_sent s \<and>
    wr_workspaces (enqueue frame s) = wr_workspaces s"
proof -
  have "find_rejection MT_CandidatePublish (record_rejection m s) = find_rejection MT_CandidatePublish s"
    if "error_response_in_reply_to m \<noteq> MT_CandidatePublish" for m
    using that by (simp add: find_rejection_def record_rejection_def table_simps)
  then show ?thesis
    using assms
    by (auto simp: stuck_def publish_answered_def enqueue_def wakes_publisher_def record_rejection_def
        find_rejection_def Let_def split: sum.splits)
qed

lemma stuck_run:
  assumes "stuck authority s" and "\<forall>ev \<in> set evs. \<not> wakes_publisher ev"
  shows "stuck authority (worker_run env evs s) \<and> wr_sent (worker_run env evs s) = wr_sent s \<and>
    wr_workspaces (worker_run env evs s) = wr_workspaces s"
  using assms
proof (induction evs arbitrary: s)
  case Nil
  then show ?case by (simp add: worker_run_def)
next
  case (Cons ev evs)
  have "stuck authority (worker_step env ev s) \<and> wr_sent (worker_step env ev s) = wr_sent s \<and>
      wr_workspaces (worker_step env ev s) = wr_workspaces s"
    using Cons.prems enqueue_stays_stuck [OF Cons.prems(1)]
    by (cases ev) (auto simp: main_step_def wakes_publisher_def stuck_def)
  then show ?case
    using Cons.IH [of "worker_step env ev s"] Cons.prems(2) by (simp add: worker_run_def)
qed

section \<open>A run that publishes\<close>

definition sample_frame :: "message_type \<Rightarrow> payload \<Rightarrow> frame" where
  "sample_frame t p = \<lparr>fr_header = new_header t, fr_payload = encode_payload p\<rparr>"

definition sample_session :: worker_session_authority where
  "sample_session = \<lparr>wsa_epoch = epoch_none, wsa_run = packed_identity IK_FoundryRun 1 1, 
     wsa_worker = packed_identity IK_Worker 1 1, wsa_boot = packed_identity IK_WorkerBoot 1 1,
     wsa_session = packed_identity IK_Session 1 1, wsa_session_gen = gen_first\<rparr>"

definition sample_package :: attempt_package where
  "sample_package = \<lparr>pkg_attempt = packed_identity IK_Attempt 1 1, pkg_attempt_gen = gen_first,
     pkg_assignment = packed_identity IK_Assignment 1 1, pkg_population = packed_identity IK_Population 1 1,
     pkg_population_gen = gen_first, pkg_task = packed_identity IK_Task 1 1, pkg_task_gen = gen_first,
     pkg_candidate = packed_identity IK_Candidate 1 1, pkg_candidate_gen = gen_first, pkg_task_name = [],
     pkg_objective = [], pkg_required_outputs = [], pkg_input_files = [], pkg_workspace_root = [],
     pkg_reference_strategy = []\<rparr>"

definition sample_platform :: worker_platform where
  "sample_platform = \<lparr>wp_process_id = 1, wp_connect = OK, wp_send = \<lambda>_. OK, wp_make_base = \<lambda>_. OK,
     wp_create = \<lambda>_. OK, wp_write = \<lambda>_ _ _. OK, wp_remove = \<lambda>_. OK\<rparr>"

definition sample_config :: worker_config where
  "sample_config = \<lparr>wc_worker = packed_identity IK_Worker 1 1, wc_label = [], wc_strategy = ST_ClosedForm,
     wc_self_report = False\<rparr>"

definition sample_ack :: publish_ack_message where
  "sample_ack = \<lparr>publish_ack_candidate = packed_identity IK_Candidate 1 1,
     publish_ack_candidate_generation = gen_first, publish_ack_accepted = True, publish_ack_detail = []\<rparr>"

definition sample_hello_ack :: hello_ack_message where
  "sample_hello_ack = \<lparr>hello_ack_coordinator_epoch = epoch_none, hello_ack_run = packed_identity IK_FoundryRun 1 1,
     hello_ack_session = packed_identity IK_Session 1 1, hello_ack_session_generation = gen_first,
     hello_ack_revalidation_required = False, hello_ack_detail = []\<rparr>"

definition sample_assignment :: assign_attempt_message where
  "sample_assignment = \<lparr>assign_attempt_session = sample_session, assign_attempt_package = sample_package\<rparr>"

definition sample_events :: "worker_event list" where
  "sample_events = [WE_Main, WE_Deliver (sample_frame MT_HelloAck (P_HelloAck sample_hello_ack)), WE_Main,
     WE_Deliver (sample_frame MT_AssignAttempt (P_AssignAttempt sample_assignment)), WE_Main]"

lemmas sample_defs = sample_hello_ack_def sample_assignment_def sample_package_def sample_session_def sample_ack_def
  sample_config_def

lemma sample_decodes:
  "decode_hello_ack (encode_hello_ack_message sample_hello_ack) = Inr sample_hello_ack"
  "decode_assign_attempt (encode_assign_attempt_message sample_assignment) = Inr sample_assignment"
  "decode_publish_ack (encode_publish_ack_message sample_ack) = Inr sample_ack"
  unfolding decode_hello_ack_def decode_assign_attempt_def decode_publish_ack_def
    w_hello_ack_message.decodes_iff w_assign_attempt_message.decodes_iff w_publish_ack_message.decodes_iff
  by (simp_all add: sample_defs wire_hello_ack_message_def wire_assign_attempt_message_def wire_publish_ack_message_def
      wire_worker_session_authority_def wire_attempt_package_def wire_identity_def wire_string_def
      wire_string_list_def list_ok_def id_kind_byte_def packed_identity_def id_kind_ordinal_def kIdKindMask_def)

lemma sample_sends [simp]:
  "worker_send sample_platform t p s = (OK, s\<lparr>wr_sent := wr_sent s @ [(t, encode_payload p)]\<rparr>)"
  by (simp add: worker_send_eq sample_platform_def)

lemma sample_publishes:
  "publish_attempt sample_platform n authority sample_package s = (OK, s\<lparr>wr_sent := wr_sent s @
     [(MT_CandidatePublish, encode_payload (P_CandidatePublish (publication authority (wr_config s)))),
      (MT_SelfReport, encode_payload (P_SelfReport \<lparr>self_report_authority = authority,
        self_report_claim = candidate_publish_self_report_detail (publication authority (wr_config s)),
        self_report_claimed_success = candidate_publish_self_reported_success (publication authority (wr_config s))\<rparr>))]\<rparr>)"
  unfolding publish_attempt_def
  by (simp add: action_defs send_candidate_def send_self_report_def Let_def sample_package_def)
    (simp add: sample_platform_def)

lemma sample_serves:
  obtains t where "serve_assignment sample_platform sample_assignment s = (Inr (attempt_authority sample_assignment), t)"
    and "wr_publish_ack t = wr_publish_ack s" and "wr_stop t = wr_stop s" and "wr_rejections t = wr_rejections s"
    and "length (publications t) = length (publications s) + 1" and "wr_inbox t = wr_inbox s"
proof -
  have "attempt_opens sample_platform s"
    by (simp add: attempt_opens_def sample_platform_def Let_def)
  moreover have "assign_attempt_package sample_assignment = sample_package"
    by (simp add: sample_assignment_def)
  ultimately have served: "serve_assignment sample_platform sample_assignment s =
      (Inr (attempt_authority sample_assignment), snd (publish_attempt sample_platform (wr_attempts s + 1)
        (attempt_authority sample_assignment) sample_package (attempt_opened sample_assignment s)))"
    using serve_assignment_opened [of sample_platform s sample_assignment] by (simp add: sample_publishes)
  show ?thesis
    by (rule that [OF served]) (simp_all add: sample_publishes attempt_opened_def publications_def Let_def)
qed

lemma sample_handshake:
  obtains t where "worker_run sample_platform (take 3 sample_events) (new_worker sample_config boot) = t"
    and "wr_phase t = WP_Serving" and "wr_publish_ack t = None" and "\<not> wr_stop t" and "wr_rejections t = []"
    and "publications t = []" and "wr_inbox t = []"
  by (intro that)
    (auto simp: sample_events_def worker_run_def main_step_def go_on_def connect_and_greet_def action_defs enqueue_def
      sample_frame_def new_header_def Let_def sample_decodes hello_answered_def adopt_handshake_def send_worker_ready_def
      new_worker_def publications_def sample_platform_def [THEN arg_cong, of wp_connect])

lemma sample_run:
  obtains t where "worker_run sample_platform sample_events (new_worker sample_config boot) = t"
    and "wr_phase t = WP_AwaitPublish (attempt_authority sample_assignment)" and "wr_publish_ack t = None"
    and "\<not> wr_stop t" and "wr_rejections t = []" and "length (publications t) = 1" and "wr_inbox t = []"
proof -
  obtain s where s: "worker_run sample_platform (take 3 sample_events) (new_worker sample_config boot) = s"
      "wr_phase s = WP_Serving" "wr_publish_ack s = None" "\<not> wr_stop s" "wr_rejections s = []"
      "publications s = []" "wr_inbox s = []"
    by (rule sample_handshake)
  let ?f = "sample_frame MT_AssignAttempt (P_AssignAttempt sample_assignment)"
  let ?s = "s\<lparr>wr_inbox := []\<rparr>"
  obtain t where t: "serve_assignment sample_platform sample_assignment ?s = (Inr (attempt_authority sample_assignment), t)"
      "wr_publish_ack t = wr_publish_ack ?s" "wr_stop t = wr_stop ?s" "wr_rejections t = wr_rejections ?s"
      "length (publications t) = length (publications ?s) + 1" "wr_inbox t = wr_inbox ?s"
    by (rule sample_serves)
  have "worker_run sample_platform sample_events (new_worker sample_config boot) =
      worker_step sample_platform WE_Main (worker_step sample_platform (WE_Deliver ?f) s)"
    using s(1) by (simp add: sample_events_def worker_run_def)
  also have "worker_step sample_platform (WE_Deliver ?f) s = s\<lparr>wr_inbox := [?f]\<rparr>"
    using s by (simp add: enqueue_def sample_frame_def new_header_def Let_def)
  also have "worker_step sample_platform WE_Main (s\<lparr>wr_inbox := [?f]\<rparr>) =
      t\<lparr>wr_phase := WP_AwaitPublish (attempt_authority sample_assignment)\<rparr>"
    using s t by (simp add: main_step_def serve_step_def go_on_def handle_def sample_frame_def new_header_def
        Let_def sample_decodes action_defs)
  finally have reached: "worker_run sample_platform sample_events (new_worker sample_config boot) =
      t\<lparr>wr_phase := WP_AwaitPublish (attempt_authority sample_assignment)\<rparr>" .
  show ?thesis
    by (rule that [OF reached]) (use s(2-) t(2-) in simp_all)
qed

lemma events_expected_append:
  "events_expected env (xs @ ys) s \<longleftrightarrow> events_expected env xs s \<and> events_expected env ys (worker_run env xs s)"
  by (induction xs arbitrary: s) (simp_all add: worker_run_def)

lemma sample_expected: "events_expected sample_platform sample_events s"
  by (simp add: sample_events_def event_expected_def sample_frame_def new_header_def split: sum.split)

definition sample_ack_event :: worker_event where
  "sample_ack_event = WE_Deliver (sample_frame MT_PublishAck (P_PublishAck sample_ack))"

lemma sample_ack_expected:
  "publications s \<noteq> [] \<Longrightarrow> event_expected sample_ack_event s" "\<not> wakes_publisher sample_ack_event"
  by (simp_all add: sample_ack_event_def event_expected_def wakes_publisher_def sample_frame_def new_header_def split: sum.split)

section \<open>The assignment that is never finished\<close>

text \<open>
  C23: The worker never finishes an assignment. With a peer that acknowledges a publication only
  after it was sent, and names a failure in a rejection, every run of the worker, whatever the
  platform does and however the two threads interleave, publishes at most one candidate and
  counts no assignment as served. The acknowledgement is a frame for the message loop, and the
  message loop is what waits for it.
\<close>

theorem worker_never_finishes_an_assignment:
  assumes "events_expected env evs (new_worker config boot)"
  shows "length (publications (worker_run env evs (new_worker config boot))) \<le> 1 \<and>
    wr_served (worker_run env evs (new_worker config boot)) = 0 \<and>
    assignments_served (worker_run env evs (new_worker config boot)) = 0"
  using nothing_served_from_start [OF assms] by (auto simp: nothing_served_def assignments_served_def split: if_splits)

lemma worker_never_finishes_an_assignment_witness:
  "let s = worker_run sample_platform (sample_events @ [sample_ack_event, WE_Main, WE_Main]) (new_worker sample_config null_id)
   in length (publications s) \<le> 1 \<and> wr_served s = 0"
proof -
  obtain t where t: "worker_run sample_platform sample_events (new_worker sample_config null_id) = t"
    "length (publications t) = 1"
    by (rule sample_run [of null_id])
  then have "publications t \<noteq> []"
    by auto
  then have "events_expected sample_platform (sample_events @ [sample_ack_event, WE_Main, WE_Main]) (new_worker sample_config null_id)"
    using t sample_expected sample_ack_expected(1)
    by (simp add: events_expected_append event_expected_def [of WE_Main])
  then show ?thesis
    using worker_never_finishes_an_assignment [of sample_platform "sample_events @ [sample_ack_event, WE_Main, WE_Main]" sample_config null_id]
    by (simp add: Let_def)
qed

text \<open>
  C24: Once the worker waits for the answer to a publication, only a rejection of it or the end
  of the connection can wake it: under any other events, acknowledgements of the publication
  included, it stays where it is, sends nothing, and keeps the workspace of the attempt.
\<close>

theorem worker_waits_for_ever:
  assumes "events_expected env past (new_worker config boot)" and "s = worker_run env past (new_worker config boot)"
    and "wr_phase s = WP_AwaitPublish authority" and "\<not> wr_stop s" and "find_rejection MT_CandidatePublish s = None"
    and "\<forall>ev \<in> set evs. \<not> wakes_publisher ev"
  shows "wr_phase (worker_run env evs s) = WP_AwaitPublish authority \<and>
    wr_sent (worker_run env evs s) = wr_sent s \<and> wr_workspaces (worker_run env evs s) = wr_workspaces s"
proof -
  have "stuck authority s"
    using nothing_served_from_start [OF assms(1)] assms(2-5)
    by (simp add: stuck_def publish_answered_def nothing_served_def)
  then show ?thesis
    using stuck_run assms(6) by (simp add: stuck_def)
qed

lemma worker_waits_for_ever_witness:
  "let s = worker_run sample_platform sample_events (new_worker sample_config null_id) in
   length (publications s) = 1 \<and>
   wr_phase (worker_run sample_platform [sample_ack_event, WE_Main, sample_ack_event, WE_Main] s) =
     WP_AwaitPublish (attempt_authority sample_assignment)"
proof -
  obtain t where t: "worker_run sample_platform sample_events (new_worker sample_config null_id) = t"
    "wr_phase t = WP_AwaitPublish (attempt_authority sample_assignment)" "\<not> wr_stop t" "wr_rejections t = []"
    "length (publications t) = 1"
    by (rule sample_run [of null_id])
  have "wr_phase (worker_run sample_platform [sample_ack_event, WE_Main, sample_ack_event, WE_Main] t) =
      WP_AwaitPublish (attempt_authority sample_assignment)"
    using worker_waits_for_ever [OF sample_expected t(1) [symmetric] t(2,3),
        of "[sample_ack_event, WE_Main, sample_ack_event, WE_Main]"] t(4) sample_ack_expected(2)
    by (simp add: find_rejection_def tbl_find_def wakes_publisher_def [of WE_Main])
  then show ?thesis
    using t by (simp add: Let_def)
qed

end
