(* ===== verification/Worker_Frames.thy ===== *)
theory Worker_Frames
  imports Worker_Guarantees
begin

text \<open>
  The frames of the worker are well typed: each belongs to the worker plane and carries bytes
  the decoder of its type reads back. The invariant follows the values from the frames the
  worker decoded to the frames it sends.
\<close>

section \<open>The invariant\<close>

definition wire_frame :: "message_type \<Rightarrow> payload \<Rightarrow> bool" where
  "wire_frame t p \<longleftrightarrow> message_type_is_worker t \<and> t \<in> set (payload_types p) \<and> wire_payload p"

definition sent_ok :: "message_type \<times> string \<Rightarrow> bool" where
  "sent_ok f \<longleftrightarrow> (\<exists>p. wire_frame (fst f) p \<and> snd f = encode_payload p)"

definition wire_config :: "worker_config \<Rightarrow> worker_boot_id \<Rightarrow> bool" where
  "wire_config config boot \<longleftrightarrow> wire_identity IK_Worker (wc_worker config) \<and>
     wire_identity IK_WorkerBoot boot \<and> wire_string (wc_label config)"

definition worker_values :: "worker_runtime \<Rightarrow> bool" where
  "worker_values s \<longleftrightarrow> wire_config (wr_config s) (wr_boot s) \<and> list_all sent_ok (wr_sent s) \<and>
     (case wr_hello_ack s of None \<Rightarrow> True | Some m \<Rightarrow> wire_hello_ack_message m) \<and>
     (case wr_publish_ack s of None \<Rightarrow> True | Some m \<Rightarrow> wire_publish_ack_message m) \<and>
     E_Ok \<notin> snd ` set (wr_rejections s)"

text \<open>Every action keeps the values, and a session once it is one.\<close>

definition keeps_values :: "worker_runtime \<Rightarrow> worker_runtime \<Rightarrow> bool" where
  "keeps_values s s' \<longleftrightarrow> (worker_values s \<longrightarrow> worker_values s') \<and>
     (wire_worker_session_authority (wr_session s) \<longrightarrow> wire_worker_session_authority (wr_session s'))"

interpretation worker_values: two_state keeps_values
  by unfold_locales (auto simp: keeps_values_def)

lemma values_send: "wire_frame t p \<Longrightarrow> keeps keeps_values (worker_send env t p)"
  by (auto simp: keeps_def step_ok_def worker_send_eq keeps_values_def worker_values_def sent_ok_def)

lemma values_modify:
  assumes "\<And>s. worker_values s \<Longrightarrow> worker_values (f s)" and "\<And>s. wr_session (f s) = wr_session s"
  shows "keeps keeps_values (modifyA f)"
  using assms by (intro worker_values.keeps_modify) (simp add: keeps_values_def)

lemma wire_short: "length s \<le> 1000 \<Longrightarrow> wire_string s"
  by (simp add: wire_string_def)

lemmas wire_frame_defs = wire_frame_def message_type_is_worker_def

lemma values_ready:
  assumes "wire_worker_session_authority (wr_session s)"
  shows "step_ok keeps_values (send_worker_ready env) s"
  unfolding send_worker_ready_def
  by (intro worker_values.step_read worker_values.keeps_stepI values_send)
    (simp add: wire_frame_defs wire_worker_ready_message_def assms wire_short kReferenceWorkerCapability_def)

lemma values_greet:
  assumes "worker_values s"
  shows "step_ok keeps_values (connect_and_greet env) s"
proof -
  have "wire_frame MT_Hello (P_Hello (hello_of env t))" if "worker_values t" for t
    using that by (auto simp: wire_frame_defs hello_of_def wire_hello_message_def wire_optional_identity_def
        worker_values_def wire_config_def wire_short kReferenceWorkerCapability_def)
  then show ?thesis
    using assms unfolding connect_and_greet_def
    by (intro worker_values.step_then worker_values.step_read worker_values.keeps_stepI values_send
        values_modify worker_values.keeps_check)
      (auto simp: action_defs worker_values_def split: sum.splits)
qed

lemma values_take: "keeps keeps_values (modifyA (take_rejection t))"
  by (intro values_modify) (auto simp: worker_values_def take_rejection_def)

lemma adopt_result:
  assumes "worker_values s" and "adopt_handshake s = (OK, s')"
  shows "wire_worker_session_authority (wr_session s') \<and> worker_values s'"
  using assms
  by (auto simp: adopt_handshake_def action_defs worker_values_def wire_config_def wire_hello_ack_message_def
      wire_worker_session_authority_def status_of_code_def find_rejection_def tbl_find_def image_iff
      dest!: map_of_SomeD split: option.splits if_splits)

section \<open>An assignment\<close>

lemma wire_attempt_authority:
  "wire_assign_attempt_message m \<Longrightarrow> wire_worker_operation_authority (attempt_authority m)"
  by (simp add: wire_assign_attempt_message_def wire_attempt_package_def wire_worker_operation_authority_def
      attempt_authority_def Let_def wire_optional_identity_def)

lemma wire_publication:
  assumes "wire_worker_operation_authority authority"
  shows "wire_candidate_publish_message (publication authority config)"
    and "wire_string (candidate_publish_self_report_detail (publication authority config))"
proof -
  have "length (reference_strategy_name st) \<le> 100" for st
    by (cases st) simp_all
  from this [of "wc_strategy config"]
  have "wire_string (reference_strategy_name (wc_strategy config))"
    and "wire_string (''reference worker claim for strategy '' @ [CHR 0x27] @ reference_strategy_name (wc_strategy config) @ [CHR 0x27])"
    by (auto intro!: wire_short)
  moreover have "wire_artifact_list [\<lparr>art_name = kReferenceTaskSourceArtifact, art_size = n, art_digest = sha256_hex source\<rparr>]"
    for n source
    by (simp add: wire_artifact_list_def list_ok_def kMaxProtocolArtifacts_def kMaxArtifactsPerCandidate_def wire_artifact_ref_def wire_short
        kReferenceTaskSourceArtifact_def length_sha256_hex)
  ultimately show "wire_candidate_publish_message (publication authority config)"
    and "wire_string (candidate_publish_self_report_detail (publication authority config))"
    using assms by (simp_all add: publication_def wire_candidate_publish_message_def Let_def)
qed

lemma values_publish_attempt:
  assumes "wire_worker_operation_authority authority"
  shows "keeps keeps_values (publish_attempt env n authority package)"
  unfolding publish_attempt_def send_candidate_def send_self_report_def Let_def
  using assms wire_publication [OF assms]
  by (intro worker_values.keeps_control worker_values.keeps_check worker_values.keeps_read values_send
      worker_values.keeps_ignore)
    (simp_all add: wire_frame_defs wire_self_report_message_def)

lemma values_finish: "keeps keeps_values (finish_attempt env n outcome)"
  unfolding finish_attempt_def
  by (intro worker_values.keeps_then worker_values.keeps_check values_modify) (auto simp: worker_values_def)

lemma values_serve:
  assumes "wire_assign_attempt_message m"
  shows "keeps keeps_values (serve_assignment env m)"
proof -
  let ?a = "attempt_authority m"
  note wire = wire_attempt_authority [OF assms]
  have tail: "keeps keeps_values (\<lambda>s. case publish_attempt env n ?a package s of
      (Inl e, s') \<Rightarrow> (Inl e, snd (finish_attempt env n (Inl e) s')) | (Inr _, s') \<Rightarrow> (Inr ?a, s'))" for n package
  proof -
    have "keeps_values t (snd (finish_attempt env n (Inl e) t))" for e t
      using values_finish by (simp add: keeps_def step_ok_def)
    moreover have "keeps_values s (snd (publish_attempt env n ?a package s))" for s
      using values_publish_attempt [OF wire] by (simp add: keeps_def step_ok_def)
    ultimately show ?thesis
      unfolding keeps_def step_ok_def
      by (auto split: prod.split sum.split intro: worker_values.R_trans simp: prod_eq_iff)
  qed
  show ?thesis
    unfolding serve_assignment_def Let_def send_accepted_def
    by (intro worker_values.keeps_then worker_values.keeps_read worker_values.keeps_control tail values_send
        worker_values.keeps_check values_modify)
      (auto simp: worker_values_def wire_frame_defs wire_attempt_accepted_message_def wire)
qed

lemma values_settle:
  assumes "worker_values s" and "wire_worker_operation_authority authority"
  shows "step_ok keeps_values (conclude_publication env authority) s"
proof -
  have waited: "step_ok keeps_values wait_for_publish_ack s"
    unfolding wait_for_publish_ack_def
    by (intro worker_values.step_read worker_values.keeps_stepI worker_values.keeps_control worker_values.keeps_rules
        values_take values_modify)
      (auto simp: worker_values_def)
  have ack: "wire_publish_ack_message m" if "wait_for_publish_ack s = (Inr m, s')" for m s'
    using that assms(1)
    by (auto simp: wait_for_publish_ack_def action_defs worker_values_def status_of_code_def find_rejection_def
        tbl_find_def image_iff dest!: map_of_SomeD split: option.splits if_splits)
  have "step_ok keeps_values (answer_publication env authority) s"
    unfolding answer_publication_def send_failed_def
  proof (rule worker_values.step_bind [OF waited])
    fix m s'
    assume "wait_for_publish_ack s = (Inr m, s')"
    from ack [OF this] have "wire_frame MT_AttemptFailed (P_AttemptFailed \<lparr>attempt_failed_authority = authority,
        attempt_failed_reason = (if publish_ack_detail m = [] then ''the coordinator rejected the publication''
          else publish_ack_detail m)\<rparr>)"
      using assms(2) by (simp add: wire_frame_defs wire_attempt_failed_message_def wire_short wire_publish_ack_message_def)
    then show "step_ok keeps_values (if \<not> publish_ack_accepted m then worker_send env MT_AttemptFailed
        (P_AttemptFailed \<lparr>attempt_failed_authority = authority,
        attempt_failed_reason = (if publish_ack_detail m = [] then ''the coordinator rejected the publication''
          else publish_ack_detail m)\<rparr>) else modifyA (\<lambda>s. s\<lparr>wr_served := wr_served s + 1\<rparr>)) s'"
      by (intro worker_values.keeps_stepI worker_values.keeps_if values_send values_modify) (auto simp: worker_values_def)
  qed
  then show ?thesis
    using values_finish unfolding conclude_publication_def step_ok_def keeps_def
    by (auto split: prod.split intro: worker_values.R_trans)
qed

section \<open>The message loop\<close>

lemma decoded_values:
  "decode_hello_ack body = Inr m1 \<Longrightarrow> wire_hello_ack_message m1"
  "decode_publish_ack body = Inr m2 \<Longrightarrow> wire_publish_ack_message m2"
  "decode_assign_attempt body = Inr m3 \<Longrightarrow> wire_assign_attempt_message m3"
  "decode_revalidate_ack body = Inr m4 \<Longrightarrow> wire_worker_session_authority (revalidate_ack_session m4)"
  by (simp_all add: decode_hello_ack_def decode_publish_ack_def decode_assign_attempt_def decode_revalidate_ack_def
      w_hello_ack_message.decodes_iff w_publish_ack_message.decodes_iff w_assign_attempt_message.decodes_iff
      w_revalidate_ack_message.decodes_iff wire_revalidate_ack_message_def)

lemma step_decoded:
  assumes "\<And>m. r = Inr m \<Longrightarrow> step_ok keeps_values (n m) s"
  shows "step_ok keeps_values (bindA (checkA r) n) s"
  using assms by (cases r) (simp_all add: step_ok_def bindA_def checkA_def worker_values.R_refl)

lemma step_revalidated:
  assumes "wire_worker_session_authority session"
  shows "step_ok keeps_values (thenA (modifyA (\<lambda>s. s\<lparr>wr_session := session\<rparr>))
    (thenA (send_worker_ready env) (retA WP_Serving))) s"
proof (rule worker_values.step_then)
  show "step_ok keeps_values (modifyA (\<lambda>s. s\<lparr>wr_session := session\<rparr>)) s"
    using assms by (auto simp: step_ok_def modifyA_def keeps_values_def worker_values_def)
  fix s' assume "modifyA (\<lambda>s. s\<lparr>wr_session := session\<rparr>) s = (OK, s')"
  then have "wire_worker_session_authority (wr_session s')"
    using assms by (auto simp: modifyA_def)
  then show "step_ok keeps_values (thenA (send_worker_ready env) (retA WP_Serving)) s'"
    by (intro worker_values.step_then values_ready worker_values.keeps_stepI worker_values.keeps_ret)
qed

lemma values_if: "(b \<Longrightarrow> step_ok R m s) \<Longrightarrow> (\<not> b \<Longrightarrow> step_ok R n s) \<Longrightarrow> step_ok R (if b then m else n) s"
  by simp

lemma values_handle: "step_ok keeps_values (handle env frame) s"
proof -
  note keeps = worker_values.keeps_stepI [OF worker_values.keeps_then [OF values_modify worker_values.keeps_ret]]
  show ?thesis
    unfolding handle_def Let_def
    by (intro values_if step_decoded step_revalidated keeps worker_values.keeps_stepI worker_values.keeps_bind
        worker_values.keeps_control worker_values.keeps_then worker_values.keeps_ret worker_values.keeps_fail
        worker_values.keeps_check values_serve decoded_values)
      (auto simp: worker_values_def dest: decoded_values)
qed

lemma handle_awaits:
  assumes "fst (handle env frame s) = Inr (WP_AwaitPublish authority)"
  shows "wire_worker_operation_authority authority"
proof (cases "fh_type (fr_header frame) = MT_AssignAttempt")
  case False
  then show ?thesis
    using handle_goes_on [OF False assms] by simp
next
  case True
  show ?thesis
  proof (cases "decode_assign_attempt (fr_payload frame)")
    case (Inl e)
    then show ?thesis
      using True assms by (simp add: handle_def action_defs)
  next
    case (Inr m)
    obtain r t where served: "serve_assignment env m s = (r, t)" by fastforce
    have "authority = attempt_authority m"
    proof (cases "attempt_opens env s")
      case opens: True
      have "r = Inr authority"
        using True assms Inr served by (cases r) (simp_all add: handle_def action_defs)
      then show ?thesis
        using served unfolding serve_assignment_opened [OF opens] by (auto split: prod.splits sum.splits)
    next
      case opens: False
      then show ?thesis
        using True assms Inr served serve_assignment_unopened [OF opens, of m] by (cases r) (simp_all add: handle_def action_defs)
    qed
    then show ?thesis
      using wire_attempt_authority decoded_values(3) [OF Inr] by simp
  qed
qed

definition worker_typed :: "worker_runtime \<Rightarrow> bool" where
  "worker_typed s \<longleftrightarrow> worker_values s \<and> (case wr_phase s of
     WP_Serving \<Rightarrow> wire_worker_session_authority (wr_session s)
   | WP_AwaitPublish a \<Rightarrow> wire_worker_session_authority (wr_session s) \<and> wire_worker_operation_authority a
   | _ \<Rightarrow> True)"

lemma worker_typed_go_on:
  assumes "worker_values s" and "wire_worker_session_authority (wr_session s)" and "step_ok keeps_values m s"
    and "\<And>a. fst (m s) = Inr (WP_AwaitPublish a) \<Longrightarrow> wire_worker_operation_authority a"
  shows "worker_typed (go_on m s)"
  using assms unfolding go_on_eq
  by (auto simp: worker_typed_def step_ok_def keeps_values_def worker_values_def split: sum.splits worker_phase.splits)

lemma worker_typed_main:
  assumes "worker_typed s"
  shows "worker_typed (main_step env s)"
proof (cases "wr_phase s")
  case WP_Start
  have "worker_values (snd (connect_and_greet env s))"
    using values_greet [of s env] assms by (simp add: step_ok_def keeps_values_def worker_typed_def)
  then show ?thesis
    using WP_Start
    by (auto simp: main_step_def go_on_eq then_ret worker_typed_def worker_values_def split: sum.splits)
next
  case WP_AwaitHello
  have vs: "worker_values s"
    using assms by (simp add: worker_typed_def)
  let ?m = "thenA adopt_handshake (thenA (send_worker_ready env) (retA WP_Serving))"
  show ?thesis
  proof (cases "fst (adopt_handshake s)")
    case (Inl e)
    then have "?m s = (Inl e, snd (adopt_handshake s))"
      by (cases "adopt_handshake s") (simp add: action_defs)
    then have "go_on ?m s = (snd (adopt_handshake s))\<lparr>wr_phase := WP_Done (Inl e)\<rparr>"
      by (simp add: go_on_def)
    moreover have "worker_values (snd (adopt_handshake s))"
      using vs Inl by (auto simp: adopt_handshake_def action_defs worker_values_def take_rejection_def split: option.splits)
    ultimately show ?thesis
      using WP_AwaitHello assms by (simp add: main_step_def worker_typed_def worker_values_def)
  next
    case (Inr u)
    define t where "t = snd (adopt_handshake s)"
    have adopted: "adopt_handshake s = (OK, t)"
      using Inr by (simp add: prod_eq_iff t_def)
    have t: "wire_worker_session_authority (wr_session t)" "worker_values t"
      using adopt_result [OF vs adopted] by simp_all
    have "?m s = thenA (send_worker_ready env) (retA WP_Serving) t"
      by (simp add: thenA_def bindA_def adopted)
    then have "go_on ?m s = go_on (thenA (send_worker_ready env) (retA WP_Serving)) t"
      by (simp add: go_on_def)
    moreover have "fst (thenA (send_worker_ready env) (retA WP_Serving) t) \<noteq> Inr (WP_AwaitPublish a)" for a
      by (auto simp: then_ret split: sum.splits)
    moreover have "step_ok keeps_values (thenA (send_worker_ready env) (retA WP_Serving)) t"
      by (intro worker_values.step_then values_ready t worker_values.keeps_stepI worker_values.keeps_ret)
    ultimately have "worker_typed (go_on ?m s)"
      using worker_typed_go_on [OF t(2,1), of "thenA (send_worker_ready env) (retA WP_Serving)"] by metis
    then show ?thesis
      using WP_AwaitHello assms by (simp add: main_step_def)
  qed
next
  case WP_Serving
  then show ?thesis
    using assms worker_typed_go_on [OF _ _ values_handle handle_awaits]
    by (auto simp: main_step_def serve_step_def worker_typed_def worker_values_def split: list.splits)
next
  case (WP_AwaitPublish authority)
  have "step_ok keeps_values (thenA (conclude_publication env authority) (retA WP_Serving)) s"
    using assms WP_AwaitPublish
    by (intro worker_values.step_then values_settle worker_values.keeps_stepI worker_values.keeps_ret)
      (auto simp: worker_typed_def)
  moreover have "fst (thenA (conclude_publication env authority) (retA WP_Serving) s) \<noteq> Inr (WP_AwaitPublish a)" for a
    by (auto simp: then_ret split: sum.splits)
  ultimately have "worker_typed (go_on (thenA (conclude_publication env authority) (retA WP_Serving)) s)"
    using assms WP_AwaitPublish by (intro worker_typed_go_on) (auto simp: worker_typed_def)
  then show ?thesis
    using assms WP_AwaitPublish by (simp add: main_step_def)
next
  case (WP_Done st)
  then show ?thesis
    using assms by (simp add: main_step_def)
qed

lemma worker_typed_cong:
  assumes "worker_typed s" and "worker_values s'" and "wr_phase s' = wr_phase s" and "wr_session s' = wr_session s"
  shows "worker_typed s'"
  using assms by (cases "wr_phase s") (simp_all add: worker_typed_def)

text \<open>
  What is asked of the peer: a rejection it sends names a failure. An \<^verbatim>\<open>ErrorResponse\<close> whose code
  is that of success resolves the handshake without a session.
\<close>

definition rejection_names_failure :: "worker_event \<Rightarrow> bool" where
  "rejection_names_failure ev \<longleftrightarrow> (case ev of
     WE_Deliver frame \<Rightarrow> fh_type (fr_header frame) = MT_ErrorResponse \<longrightarrow>
       (case decode_error_response (fr_payload frame) of Inr m \<Rightarrow> error_response_code m \<noteq> E_Ok | Inl _ \<Rightarrow> True)
   | _ \<Rightarrow> True)"

lemma worker_typed_deliver:
  assumes "worker_typed s" and "rejection_names_failure (WE_Deliver frame)"
  shows "worker_typed (enqueue frame s)"
proof -
  have "E_Ok \<notin> snd ` set (AList.update t e (wr_rejections s))" if "e \<noteq> E_Ok" for t e
    using rejections_updated [of t e "wr_rejections s"] assms(1) that by (auto simp: worker_typed_def worker_values_def)
  then have "worker_values (enqueue frame s)"
    using assms
    by (auto simp: enqueue_def worker_typed_def worker_values_def rejection_names_failure_def record_rejection_def Let_def
        tbl_assign_def dest: decoded_values split: sum.splits if_splits)
  moreover have "wr_phase (enqueue frame s) = wr_phase s" "wr_session (enqueue frame s) = wr_session s"
    by (simp_all add: enqueue_def record_rejection_def Let_def split: sum.split)
  ultimately show ?thesis
    by (rule worker_typed_cong [OF assms(1)])
qed

lemma worker_typed_run:
  "worker_typed s \<Longrightarrow> list_all rejection_names_failure evs \<Longrightarrow> worker_typed (worker_run env evs s)"
proof (induction evs arbitrary: s)
  case Nil
  then show ?case by (simp add: worker_run_def)
next
  case (Cons ev evs)
  have "worker_typed (mark_down reason s)" for reason
    by (rule worker_typed_cong [OF Cons.prems(1)])
      (use Cons.prems(1) in \<open>simp_all add: mark_down_def worker_typed_def worker_values_def\<close>)
  then have "worker_typed (worker_step env ev s)"
    using Cons.prems worker_typed_deliver worker_typed_main by (cases ev) auto
  then show ?case
    using Cons by (simp add: worker_run_def)
qed

text \<open>
  C25: Every frame a worker sends is well typed: its type belongs to the worker plane, and its
  bytes are read back by the decoder the coordinator applies to that type, as the payload the
  worker built. Assumed are a worker configured with a worker identity, a boot identity and a
  bounded label, and a peer that sends no \<^verbatim>\<open>ErrorResponse\<close> with the code of success; any other
  frame may arrive, well formed or not, at any time, and the platform may answer as it likes.
\<close>

theorem worker_frames_are_well_typed:
  assumes "wire_config config boot" and "list_all rejection_names_failure evs"
    and "(t, body) \<in> set (wr_sent (worker_run env evs (new_worker config boot)))"
  shows "message_type_is_worker t \<and> (\<exists>p. decode_payload t body = Inr p \<and> body = encode_payload p \<and> wire_payload p)"
proof -
  have "worker_typed (new_worker config boot)"
    using assms(1) by (simp add: worker_typed_def worker_values_def new_worker_def)
  then have "worker_typed (worker_run env evs (new_worker config boot))"
    using assms(2) by (rule worker_typed_run)
  then have "sent_ok (t, body)"
    using assms(3) by (auto simp: worker_typed_def worker_values_def list_all_iff)
  then show ?thesis
    by (auto simp: sent_ok_def wire_frame_def decode_complete)
qed

lemma sample_rejections: "list_all rejection_names_failure sample_events"
  by (simp add: sample_events_def rejection_names_failure_def sample_frame_def new_header_def)

lemma worker_frames_are_well_typed_witness:
  "let s = worker_run sample_platform sample_events (new_worker sample_config (packed_identity IK_WorkerBoot 1 1))
   in \<exists>body. (MT_CandidatePublish, body) \<in> set (wr_sent s) \<and> (\<exists>p. decode_payload MT_CandidatePublish body = Inr p)"
proof -
  let ?boot = "packed_identity IK_WorkerBoot 1 1 :: worker_boot_id"
  obtain s where s: "worker_run sample_platform sample_events (new_worker sample_config ?boot) = s"
    "length (publications s) = 1"
    by (rule sample_run [of ?boot])
  have "publications s \<noteq> []"
    using s(2) by auto
  then obtain body where body: "(MT_CandidatePublish, body) \<in> set (wr_sent s)"
    by (auto simp: publications_def filter_empty_conv)
  have "wire_config sample_config ?boot"
    by (simp add: wire_config_def sample_config_def wire_identity_def id_kind_byte_def packed_identity_def
        id_kind_ordinal_def kIdKindMask_def wire_string_def)
  from worker_frames_are_well_typed [OF this sample_rejections body [folded s(1)]] show ?thesis
    unfolding Let_def s(1) using body by auto
qed

end
