(* ===== verification/Workspace.thy ===== *)
theory Workspace
  imports Errors Identity "HOL-Library.Sublist"
begin

text \<open>
  The workspace of an attempt (workspace.hpp, workspace.cpp), as the code behaves on POSIX: the
  validation of relative paths, the confinement of a path to its root, reading and listing,
  the replacement of a file, the bounded walk before a removal, unique directories.

  A path is its components and whether it is absolute. The file system is a parameter: what the
  calls of \<^verbatim>\<open>std::filesystem\<close> answer. Only for the replacement of a file its contents are a state.
\<close>

section \<open>Names\<close>

definition is_path_separator :: "char \<Rightarrow> bool" where
  "is_path_separator c \<longleftrightarrow> c = CHR 0x2F \<or> c = CHR 0x5C"

definition to_lower_ascii :: "char \<Rightarrow> char" where
  "to_lower_ascii c = (if 65 \<le> (of_char c :: nat) \<and> (of_char c :: nat) \<le> 90 then char_of (of_char c + 32 :: nat) else c)"

definition ascii_iequals :: "string \<Rightarrow> string \<Rightarrow> bool" where
  "ascii_iequals l r \<longleftrightarrow> length l = length r \<and>
     list_all (\<lambda>i. to_lower_ascii (l ! i) = to_lower_ascii (r ! i)) [0..<length l]"

definition is_component_separator :: "char \<Rightarrow> bool" where
  "is_component_separator c \<longleftrightarrow> c = CHR 0x2E \<or> c = CHR 0x20 \<or> c = CHR 0x3A \<or> is_path_separator c"

fun last_effective_below :: "string \<Rightarrow> nat \<Rightarrow> nat option" where
  "last_effective_below name 0 = None"
| "last_effective_below name (Suc i) =
    (if name ! i \<noteq> CHR 0x20 \<and> name ! i \<noteq> CHR 0x2E then Some i else last_effective_below name i)"

definition last_effective_index :: "string \<Rightarrow> nat option" where
  "last_effective_index name = last_effective_below name (length name)"

definition device_name_prefix :: "string \<Rightarrow> string" where
  "device_name_prefix name = takeWhile (\<lambda>c. \<not> is_component_separator c) name"

definition path_is_reserved_device_name :: "string \<Rightarrow> bool" where
  "path_is_reserved_device_name name =
    (let effective = (case last_effective_index name of None \<Rightarrow> [] | Some i \<Rightarrow> take (i + 1) name);
         candidate = device_name_prefix effective
     in if name = [] \<or> effective = [] \<or> candidate = [] then False
        else if length candidate = 3 then list_ex (ascii_iequals candidate) [''CON'', ''PRN'', ''AUX'', ''NUL'']
        else if length candidate = 4 then
          list_ex (ascii_iequals (take 3 candidate)) [''COM'', ''LPT''] \<and>
          48 \<le> (of_char (candidate ! 3) :: nat) \<and> (of_char (candidate ! 3) :: nat) \<le> 57
        else False)"

section \<open>Relative paths\<close>

definition kMaxRelativePathLength :: nat where "kMaxRelativePathLength = 200"

definition printable_byte :: "char \<Rightarrow> bool" where
  "printable_byte c \<longleftrightarrow> \<not> ((of_char c :: nat) < 0x20 \<or> (of_char c :: nat) > 0x7E)"

definition kRejectedFirst :: string where
  "kRejectedFirst = [CHR 0x3C, CHR 0x3E, CHR 0x22, CHR 0x7C, CHR 0x3F, CHR 0x2A]"

definition validate_component :: "string \<Rightarrow> status" where
  "validate_component component = first_failure
    [require (component \<noteq> []) E_UnsafePath,
     require (component \<noteq> ''.'') E_PathEscape,
     require (component \<noteq> ''..'') E_PathEscape,
     require (list_all printable_byte component) E_UnsafePath,
     require (\<not> path_is_reserved_device_name component) E_UnsafePath,
     require (last component \<noteq> CHR 0x2E \<and> last component \<noteq> CHR 0x20) E_UnsafePath,
     require (hd component \<notin> set kRejectedFirst) E_UnsafePath]"

definition next_component :: "string \<Rightarrow> string" where
  "next_component p = takeWhile (\<lambda>c. \<not> is_path_separator c) p"

definition after_component :: "string \<Rightarrow> string" where
  "after_component p = drop (length (next_component p) + 1) p"

lemma after_component_shorter: "p \<noteq> [] \<Longrightarrow> length (after_component p) < length p"
  by (simp add: after_component_def)

function validate_components :: "string \<Rightarrow> status" where
  "validate_components p =
    (case validate_component (next_component p) of
       Inl e \<Rightarrow> Inl e
     | Inr _ \<Rightarrow> if after_component p = [] then OK else validate_components (after_component p))"
  by pat_completeness auto
termination
proof (relation "measure length")
  show "(after_component p, p) \<in> measure length" if "after_component p \<noteq> []" for p
    using that after_component_shorter [of p] by (auto simp: after_component_def)
qed simp

declare validate_components.simps [simp del]

definition validate_relative_path :: "string \<Rightarrow> status" where
  "validate_relative_path p = first_failure
    [require (p \<noteq> []) E_UnsafePath,
     require (length p \<le> kMaxRelativePathLength) E_LengthOutOfRange,
     require (\<not> is_path_separator (hd p)) E_PathEscape,
     require (CHR 0x3A \<notin> set p) E_PathEscape,
     validate_components p]"

section \<open>Paths\<close>

record fs_path =
  fp_absolute :: bool
  fp_parts :: "string list"

definition append_parts :: "fs_path \<Rightarrow> string list \<Rightarrow> fs_path" where
  "append_parts p parts = p\<lparr>fp_parts := fp_parts p @ parts\<rparr>"

definition parent_path :: "fs_path \<Rightarrow> fs_path" where
  "parent_path p = p\<lparr>fp_parts := butlast (fp_parts p)\<rparr>"

text \<open>The components of a path text: a slash separates, a run of slashes counts once.\<close>

function runs_between :: "(char \<Rightarrow> bool) \<Rightarrow> string \<Rightarrow> string list" where
  "runs_between sep [] = []"
| "runs_between sep (c # cs) =
    (if sep c then runs_between sep cs
     else (c # takeWhile (\<lambda>d. \<not> sep d) cs) # runs_between sep (dropWhile (\<lambda>d. \<not> sep d) cs))"
  by pat_completeness auto
termination
  by (relation "measure (\<lambda>(_, p). length p)") (auto simp: length_dropWhile_le less_Suc_eq_le)

definition posix_components :: "string \<Rightarrow> string list" where
  "posix_components text = runs_between (\<lambda>c. c = CHR 0x2F) text"

text \<open>\<^verbatim>\<open>lexically_normal\<close>; the parts already taken are kept in reverse order.\<close>

fun normal_parts :: "bool \<Rightarrow> string list \<Rightarrow> string list \<Rightarrow> string list" where
  "normal_parts absolute taken [] = rev taken"
| "normal_parts absolute taken (p # ps) =
    (if p = ''.'' then normal_parts absolute taken ps
     else if p \<noteq> ''..'' then normal_parts absolute (p # taken) ps
     else case taken of
       [] \<Rightarrow> normal_parts absolute (if absolute then [] else [''..'']) ps
     | q # qs \<Rightarrow> if q = ''..'' then normal_parts absolute (''..'' # taken) ps
                else normal_parts absolute qs ps)"

definition lexically_normal :: "fs_path \<Rightarrow> fs_path" where
  "lexically_normal p =
    (let parts = normal_parts (fp_absolute p) [] (fp_parts p)
     in if fp_parts p = [] then p
        else p\<lparr>fp_parts := (if parts = [] \<and> \<not> fp_absolute p then [''.''] else parts)\<rparr>)"

definition path_empty :: "fs_path \<Rightarrow> bool" where
  "path_empty p \<longleftrightarrow> \<not> fp_absolute p \<and> fp_parts p = []"

definition is_lexically_inside :: "fs_path \<Rightarrow> fs_path \<Rightarrow> bool" where
  "is_lexically_inside ancestor child \<longleftrightarrow>
    (let a = lexically_normal ancestor; c = lexically_normal child
     in \<not> path_empty ancestor \<and> fp_absolute a = fp_absolute c \<and> prefix (fp_parts a) (fp_parts c))"

section \<open>What the file system answers\<close>

text \<open>
  No value is an error. The entries of a directory come with whether the listing reached its
  end; an entry has the kind it has without following a link.
\<close>

datatype file_kind = FK_Missing | FK_Regular | FK_Directory | FK_Symlink | FK_Other

record workspace_platform =
  wsp_link_status :: "fs_path \<Rightarrow> file_kind option"
  wsp_status :: "fs_path \<Rightarrow> file_kind option"
  wsp_canonical :: "fs_path \<Rightarrow> fs_path option"
  wsp_size :: "fs_path \<Rightarrow> u64 option"
  wsp_open :: "fs_path \<Rightarrow> string option"
  wsp_entries :: "fs_path \<Rightarrow> ((string \<times> file_kind) list \<times> bool) option"
  wsp_create_directories :: "fs_path \<Rightarrow> bool"

datatype reparse_state = RS_No | RS_Yes | RS_Indeterminate

definition probe_reparse_point :: "workspace_platform \<Rightarrow> fs_path \<Rightarrow> reparse_state" where
  "probe_reparse_point env p = (case wsp_link_status env p of
     None \<Rightarrow> RS_No
   | Some kind \<Rightarrow> if kind = FK_Symlink then RS_Yes else RS_No)"

definition reparse_status :: "workspace_platform \<Rightarrow> fs_path \<Rightarrow> status" where
  "reparse_status env p = (case probe_reparse_point env p of
     RS_Yes \<Rightarrow> Inl E_ReparsePointRejected | RS_Indeterminate \<Rightarrow> Inl E_IoFailure | RS_No \<Rightarrow> OK)"

definition weakly_canonical_or :: "workspace_platform \<Rightarrow> fs_path \<Rightarrow> fs_path \<Rightarrow> fs_path" where
  "weakly_canonical_or env p fallback = (case wsp_canonical env p of
     None \<Rightarrow> lexically_normal fallback | Some c \<Rightarrow> c)"

definition ensure_directory_plain :: "workspace_platform \<Rightarrow> fs_path \<Rightarrow> status" where
  "ensure_directory_plain env p = (if path_empty p then Inl E_WorkspaceFailure else case wsp_link_status env p of
     None \<Rightarrow> Inl E_IoFailure
   | Some link \<Rightarrow> if link = FK_Missing then Inl E_IoFailure
     else case wsp_status env p of
       None \<Rightarrow> Inl E_IoFailure
     | Some target \<Rightarrow> if target \<noteq> FK_Directory then Inl E_WorkspaceFailure else reparse_status env p)"

definition verify_no_reparse_escape :: "workspace_platform \<Rightarrow> fs_path \<Rightarrow> fs_path \<Rightarrow> status" where
  "verify_no_reparse_escape env ancestor child =
    (let root = lexically_normal ancestor; target = lexically_normal child
     in if \<not> is_lexically_inside root target then Inl E_PathEscape
        else let rest = drop (length (fp_parts root)) (fp_parts target)
          in first_failure (map (\<lambda>i. reparse_status env (append_parts root (take i rest))) [1..<length rest + 1]))"

section \<open>The workspace\<close>

text \<open>A default constructed root has no path.\<close>

type_synonym workspace_root = "fs_path option"

definition resolve :: "workspace_platform \<Rightarrow> workspace_root \<Rightarrow> string \<Rightarrow> fs_path result" where
  "resolve env ws relative = (case validate_relative_path relative of
     Inl e \<Rightarrow> Inl e
   | Inr _ \<Rightarrow> (case ws of
       None \<Rightarrow> Inl E_WorkspaceFailure
     | Some root \<Rightarrow>
       let normalized = rev (dropWhile is_path_separator (rev relative));
           target = append_parts root (posix_components normalized);
           parent = parent_path target;
           resolved = append_parts (weakly_canonical_or env parent parent) [last (fp_parts target)];
           canonical_root = weakly_canonical_or env root root
       in if \<not> is_lexically_inside canonical_root resolved then Inl E_PathEscape
          else case verify_no_reparse_escape env canonical_root resolved of
            Inl e \<Rightarrow> Inl e | Inr _ \<Rightarrow> Inr resolved))"

definition bounded_file_size :: "workspace_platform \<Rightarrow> fs_path \<Rightarrow> u64 result" where
  "bounded_file_size env p = (case wsp_status env p of
     None \<Rightarrow> Inl E_IoFailure
   | Some kind \<Rightarrow> if kind \<noteq> FK_Regular then Inl E_IoFailure
     else case wsp_size env p of None \<Rightarrow> Inl E_IoFailure | Some n \<Rightarrow> Inr n)"

definition read_file_bounded :: "workspace_platform \<Rightarrow> fs_path \<Rightarrow> u64 \<Rightarrow> string result" where
  "read_file_bounded env p max_bytes = (case bounded_file_size env p of
     Inl e \<Rightarrow> Inl e
   | Inr observed \<Rightarrow> if observed > max_bytes then Inl E_LengthOutOfRange
     else case wsp_open env p of
       None \<Rightarrow> Inl E_IoFailure
     | Some content \<Rightarrow> if length content < unat observed then Inl E_IoFailure
       else Inr (take (unat observed) content))"

definition read_file :: "workspace_platform \<Rightarrow> workspace_root \<Rightarrow> string \<Rightarrow> u64 \<Rightarrow> string result" where
  "read_file env ws relative max_bytes = (case resolve env ws relative of
     Inl e \<Rightarrow> Inl e | Inr target \<Rightarrow> read_file_bounded env target max_bytes)"

fun collect_names :: "nat \<Rightarrow> (string \<times> file_kind) list \<Rightarrow> string list \<Rightarrow> string list result" where
  "collect_names most [] names = Inr names"
| "collect_names most ((name, kind) # entries) names =
    (if kind = FK_Regular
     then if length names \<ge> most then Inl E_QueueCapacityExceeded
          else collect_names most entries (names @ [name])
     else collect_names most entries names)"

definition list_files :: "workspace_platform \<Rightarrow> workspace_root \<Rightarrow> string \<Rightarrow> nat \<Rightarrow> string list result" where
  "list_files env ws relative max_entries = (case resolve env ws relative of
     Inl e \<Rightarrow> Inl e
   | Inr directory \<Rightarrow> (case ensure_directory_plain env directory of
       Inl e \<Rightarrow> Inl e
     | Inr _ \<Rightarrow> (case wsp_entries env directory of
         None \<Rightarrow> Inl E_IoFailure
       | Some (entries, complete) \<Rightarrow> (case collect_names max_entries entries [] of
           Inl e \<Rightarrow> Inl e
         | Inr names \<Rightarrow> if complete then Inr (sort_by (<) names) else Inl E_IoFailure))))"

definition ensure_directory :: "workspace_platform \<Rightarrow> workspace_root \<Rightarrow> string \<Rightarrow> status" where
  "ensure_directory env ws relative = (case resolve env ws relative of
     Inl e \<Rightarrow> Inl e
   | Inr target \<Rightarrow> if \<not> wsp_create_directories env target then Inl E_WorkspaceFailure
     else ensure_directory_plain env target)"

definition open_existing :: "workspace_platform \<Rightarrow> fs_path \<Rightarrow> workspace_root result" where
  "open_existing env root = (case ensure_directory_plain env root of
     Inl e \<Rightarrow> Inl e | Inr _ \<Rightarrow> Inr (Some (weakly_canonical_or env root root)))"

definition create_workspace :: "workspace_platform \<Rightarrow> fs_path \<Rightarrow> string \<Rightarrow> workspace_root result" where
  "create_workspace env base leaf = (case validate_relative_path leaf of
     Inl e \<Rightarrow> Inl e
   | Inr _ \<Rightarrow>
     let target = append_parts base (posix_components leaf);
         present = (case wsp_status env target of None \<Rightarrow> False | Some kind \<Rightarrow> kind \<noteq> FK_Missing);
         inspected = (if present then case wsp_entries env target of
             None \<Rightarrow> Inl E_WorkspaceFailure
           | Some (entries, _) \<Rightarrow> require (entries = []) E_WorkspaceFailure else OK)
     in case first_failure [inspected, require (wsp_create_directories env target) E_WorkspaceFailure,
             ensure_directory_plain env target] of
          Inl e \<Rightarrow> Inl e
        | Inr _ \<Rightarrow> Inr (Some (weakly_canonical_or env target target)))"

section \<open>Replacing a file\<close>

text \<open>
  The contents of the files, and every content the directory went through: a reader, or a crash,
  can meet each of them. The answers of the platform to the calls of one replacement are given
  in advance.
\<close>

record file_store =
  fst_files :: "(fs_path, string) table"
  fst_history :: "(fs_path, string) table list"

record write_platform =
  wrp_parent :: "fs_path \<Rightarrow> file_kind option"
  wrp_create :: bool
  wrp_flush :: "string option"
  wrp_close :: bool
  wrp_rename :: bool
  wrp_remove :: bool
  wrp_process :: u64

type_synonym 'a file_action = "(file_store, 'a) action"

definition change_files :: "((fs_path, string) table \<Rightarrow> (fs_path, string) table) \<Rightarrow> unit file_action" where
  "change_files f = modifyA (\<lambda>s. s\<lparr>fst_files := f (fst_files s), fst_history := fst_history s @ [f (fst_files s)]\<rparr>)"

definition staging_path :: "write_platform \<Rightarrow> u64 \<Rightarrow> fs_path \<Rightarrow> fs_path" where
  "staging_path env sequence target = append_parts (parent_path target)
     [last (fp_parts target) @ ''.afltmp-'' @ decimal (unat (wrp_process env)) @ ''-'' @ decimal (unat sequence)]"

definition replace_with_staging :: "write_platform \<Rightarrow> fs_path \<Rightarrow> fs_path \<Rightarrow> unit file_action" where
  "replace_with_staging env target staging =
    (if wrp_rename env then change_files (\<lambda>files. case tbl_find files staging of
         None \<Rightarrow> files | Some content \<Rightarrow> AList.delete staging (tbl_assign target content files))
     else failA E_PersistenceIoFailure)"

text \<open>The removal of the staging file may fail, and what it answers is ignored.\<close>

definition remove_staging :: "write_platform \<Rightarrow> fs_path \<Rightarrow> unit file_action" where
  "remove_staging env staging =
    (if wrp_remove env then change_files (AList.delete staging) else retA ())"

text \<open>A write that fails may leave any part of the bytes in the staging file.\<close>

definition write_staging_file :: "write_platform \<Rightarrow> fs_path \<Rightarrow> fs_path \<Rightarrow> string \<Rightarrow> unit file_action" where
  "write_staging_file env target staging bytes =
    (if \<not> wrp_create env then thenA (remove_staging env staging) (failA E_PersistenceIoFailure)
     else thenA (change_files (tbl_assign staging []))
       (case wrp_flush env of
          Some part \<Rightarrow> seqA [change_files (tbl_assign staging part), remove_staging env staging, failA E_PersistenceIoFailure]
        | None \<Rightarrow> thenA (change_files (tbl_assign staging bytes))
            (if \<not> wrp_close env then thenA (remove_staging env staging) (failA E_PersistenceIoFailure)
             else (\<lambda>s. case replace_with_staging env target staging s of
                 (replaced, s') \<Rightarrow> (replaced, snd (remove_staging env staging s'))))))"

definition atomic_write_file :: "write_platform \<Rightarrow> u64 \<Rightarrow> fs_path \<Rightarrow> string \<Rightarrow> unit file_action" where
  "atomic_write_file env sequence target bytes =
    (if fp_parts target = [] then failA E_PersistenceIoFailure
     else if (fp_absolute target \<or> length (fp_parts target) > 1) \<and>
         wrp_parent env (parent_path target) \<noteq> Some FK_Directory then failA E_PersistenceIoFailure
     else write_staging_file env target (staging_path env sequence target) bytes)"

definition write_file ::
    "workspace_platform \<Rightarrow> write_platform \<Rightarrow> u64 \<Rightarrow> workspace_root \<Rightarrow> string \<Rightarrow> string \<Rightarrow> unit file_action" where
  "write_file env wenv sequence ws relative content = (case resolve env ws relative of
     Inl e \<Rightarrow> failA e | Inr target \<Rightarrow> atomic_write_file wenv sequence target content)"

section \<open>Removing a tree\<close>

definition kMaxCleanupDepth :: nat where "kMaxCleanupDepth = 32"
definition kMaxCleanupEntries :: nat where "kMaxCleanupEntries = 100000"

text \<open>
  A tree as the walk meets it: an entry that is not a directory, something that cannot be
  inspected or opened, a directory with its entries and whether its listing reached the end.
\<close>

datatype fs_tree = FT_Entry | FT_Unreadable | FT_Directory "fs_tree list" bool

fun scan_directory :: "nat \<Rightarrow> fs_tree list \<Rightarrow> (fs_tree \<times> nat) list \<Rightarrow> nat \<Rightarrow> ((fs_tree \<times> nat) list \<times> nat) result" where
  "scan_directory child_depth [] pending entries = Inr (pending, entries)"
| "scan_directory child_depth (FT_Entry # rest) pending entries =
    (if entries + 1 > kMaxCleanupEntries then Inl E_ResourceExhausted
     else scan_directory child_depth rest pending (entries + 1))"
| "scan_directory child_depth (t # rest) pending entries =
    (if child_depth > kMaxCleanupDepth then Inl E_ResourceExhausted
     else scan_directory child_depth rest ((t, child_depth) # pending) entries)"

definition pending_work :: "(fs_tree \<times> nat) list \<Rightarrow> nat" where
  "pending_work pending = sum_list (map (\<lambda>p. size (fst p) + 1) pending)"

lemma scan_directory_work:
  "scan_directory d ts pending entries = Inr (pending', entries') \<Longrightarrow>
   pending_work pending' \<le> pending_work pending + size_list size ts"
  by (induction d ts pending entries rule: scan_directory.induct) (force simp: pending_work_def split: if_splits)+

function walk :: "(fs_tree \<times> nat) list \<Rightarrow> nat \<Rightarrow> status" where
  "walk [] entries = OK"
| "walk ((t, depth) # pending) entries =
    (if entries + 1 > kMaxCleanupEntries then Inl E_ResourceExhausted
     else case t of
       FT_Entry \<Rightarrow> walk pending (entries + 1)
     | FT_Unreadable \<Rightarrow> Inl E_IoFailure
     | FT_Directory children complete \<Rightarrow>
         (case scan_directory (depth + 1) children pending (entries + 1) of
            Inl e \<Rightarrow> Inl e
          | Inr (pending', entries') \<Rightarrow> if complete then walk pending' entries' else Inl E_IoFailure))"
  by pat_completeness auto

termination walk
  by (relation "measure (\<lambda>(pending, _). pending_work pending)")
    (auto simp: pending_work_def dest!: scan_directory_work)

definition walk_bounded :: "fs_tree \<Rightarrow> status" where
  "walk_bounded t = walk [(t, 0)] 0"

definition remove_tree_bounded :: "fs_tree option \<Rightarrow> bool \<Rightarrow> status" where
  "remove_tree_bounded tree removed = (case tree of
     None \<Rightarrow> OK
   | Some t \<Rightarrow> first_failure [walk_bounded t, require removed E_IoFailure])"

text \<open>\<^verbatim>\<open>WorkspaceRoot::remove_all\<close>: a root that was never set is refused.\<close>

definition remove_all :: "workspace_root \<Rightarrow> fs_tree option \<Rightarrow> bool \<Rightarrow> status" where
  "remove_all ws tree removed = (if ws = None then Inl E_WorkspaceFailure else remove_tree_bounded tree removed)"

section \<open>Unique directories\<close>

text \<open>
  A name of the search has no separator, so the check made after the creation, that it lies in
  its base, cannot fail and is left out.
\<close>

record directory_platform =
  dp_base :: bool
  dp_process :: u64
  dp_exists :: "string \<Rightarrow> bool result"
  dp_create :: "string \<Rightarrow> bool"

definition validate_prefix :: "string \<Rightarrow> status" where
  "validate_prefix p = first_failure
    [require (p \<noteq> []) E_UnsafePath,
     require (length p \<le> kMaxRelativePathLength) E_LengthOutOfRange,
     require (list_all (\<lambda>c. \<not> is_path_separator c \<and> c \<noteq> CHR 0x3A \<and> printable_byte c) p \<and> hd p \<notin> set kRejectedFirst) E_UnsafePath,
     require (\<not> path_is_reserved_device_name p) E_UnsafePath,
     require (last p \<noteq> CHR 0x2E \<and> last p \<noteq> CHR 0x20) E_UnsafePath]"

definition unique_name :: "directory_platform \<Rightarrow> string \<Rightarrow> u64 \<Rightarrow> string" where
  "unique_name env p sequence = p @ ''-'' @ decimal (unat (dp_process env)) @ ''-'' @ decimal (unat sequence)"

partial_function (option) try_names :: "directory_platform \<Rightarrow> string \<Rightarrow> u64 \<Rightarrow> (string result \<times> u64) option" where
  "try_names env p sequence =
    (case dp_exists env (unique_name env p sequence) of
       Inl _ \<Rightarrow> Some (Inl E_IoFailure, sequence + 1)
     | Inr present \<Rightarrow> if present then try_names env p (sequence + 1)
         else if dp_create env (unique_name env p sequence) then Some (Inr (unique_name env p sequence), sequence + 1)
         else try_names env p (sequence + 1))"

text \<open>The result and the counter of the process after the call, or no return.\<close>

definition make_unique_directory :: "directory_platform \<Rightarrow> string \<Rightarrow> u64 \<Rightarrow> (string result \<times> u64) option" where
  "make_unique_directory env p sequence =
    (case first_failure [validate_prefix p, require (dp_base env) E_WorkspaceFailure] of
       Inl e \<Rightarrow> Some (Inl e, sequence)
     | Inr _ \<Rightarrow> try_names env p sequence)"

end
