(* ===== verification/Promotion_Sink.thy ===== *)
theory Promotion_Sink
  imports Decision Hashing Workspace
begin

text \<open>
  The reference promotion sink (local_promotion_sink.hpp, local_promotion_sink.cpp): the text it
  writes for a request and for a receipt, and what \<^verbatim>\<open>submit\<close> does to its directory.

  A function of the code that appends to a text is modelled by the text it appends. The files
  are those of the workspace model, and both documents are written by its \<open>atomic_write_file\<close>;
  what the file system answers to the preparation of the directory and to each write is a
  parameter, and so is the number either write draws for its staging file.
\<close>

section \<open>JSON text\<close>

definition newline :: string where "newline = [CHR 0x0A]"
definition quote_char :: char where "quote_char = CHR 0x22"
definition backslash :: char where "backslash = CHR 0x5C"

definition kIndentWidth :: nat where "kIndentWidth = 2"

definition append_indent :: "nat \<Rightarrow> string" where
  "append_indent depth = replicate (depth * kIndentWidth) CHR 0x20"

definition append_hex_byte :: "u8 \<Rightarrow> string" where
  "append_hex_byte b = [hex_digits ! unat (drop_bit 4 b AND 0x0F), hex_digits ! unat (b AND 0x0F)]"

definition json_char :: "char \<Rightarrow> string" where
  "json_char c =
    (if c = quote_char then [backslash, quote_char]
     else if c = backslash then [backslash, backslash]
     else if c = CHR 0x08 then [backslash, CHR 0x62]
     else if c = CHR 0x0C then [backslash, CHR 0x66]
     else if c = CHR 0x0A then [backslash, CHR 0x6E]
     else if c = CHR 0x0D then [backslash, CHR 0x72]
     else if c = CHR 0x09 then [backslash, CHR 0x74]
     else if (of_char c :: u8) < 0x20 \<or> 0x7F \<le> (of_char c :: u8)
       then backslash # ''u00'' @ append_hex_byte (of_char c)
     else [c])"

definition append_json_string :: "string \<Rightarrow> string" where
  "append_json_string v = quote_char # concat (map json_char v) @ [quote_char]"

definition begin_member :: "nat \<Rightarrow> string \<Rightarrow> bool \<Rightarrow> string" where
  "begin_member depth name first =
    (if first then [] else '','') @ newline @ append_indent depth @ append_json_string name @ '': ''"

definition append_field_json :: "nat \<Rightarrow> string \<Rightarrow> string \<Rightarrow> bool \<Rightarrow> string" where
  "append_field_json depth name text first = begin_member depth name first @ append_json_string text"

definition append_unsigned_field :: "nat \<Rightarrow> string \<Rightarrow> nat \<Rightarrow> bool \<Rightarrow> string" where
  "append_unsigned_field depth name n first = begin_member depth name first @ decimal n"

definition append_boolean_field :: "nat \<Rightarrow> string \<Rightarrow> bool \<Rightarrow> bool \<Rightarrow> string" where
  "append_boolean_field depth name b first =
    begin_member depth name first @ (if b then ''true'' else ''false'')"

definition append_identity_field :: "nat \<Rightarrow> string \<Rightarrow> u64 \<Rightarrow> string \<Rightarrow> string" where
  "append_identity_field depth name k kind_name = begin_member depth name False @
    (if k = 0 then ''null''
     else ''{'' @ append_field_json (depth + 1) ''kind'' kind_name True
       @ append_unsigned_field (depth + 1) ''raw'' (unat k) False
       @ append_field_json (depth + 1) ''text'' (kind_name @ '':'' @ decimal (unat k)) False
       @ newline @ append_indent depth @ ''}'')"

definition append_generation_field :: "nat \<Rightarrow> string \<Rightarrow> u32 \<Rightarrow> string" where
  "append_generation_field depth name n = begin_member depth name False @
    (if n = 0 then ''null'' else decimal (unat n))"

definition append_enum_field :: "nat \<Rightarrow> string \<Rightarrow> string \<Rightarrow> nat \<Rightarrow> bool \<Rightarrow> string" where
  "append_enum_field depth name text ordinal first = begin_member depth name first @ ''{''
    @ append_field_json (depth + 1) ''name'' text True
    @ append_unsigned_field (depth + 1) ''ordinal'' ordinal False
    @ newline @ append_indent depth @ ''}''"

definition kBinary64HexDigits :: nat where "kBinary64HexDigits = 16"

primrec binary64_hex_json :: "binary64 \<Rightarrow> string" where
  "binary64_hex_json (Binary64 bits) = map (\<lambda>index.
     hex_digits ! unat (drop_bit ((kBinary64HexDigits - 1 - index) * 4) bits AND 0x0F))
     [0..<kBinary64HexDigits]"

definition identity_stem :: "promotion_request_id \<Rightarrow> string" where
  "identity_stem k = (if \<not> id_valid k then ''null-identity'' else decimal (unat (raw k)))"

section \<open>The two documents\<close>

text \<open>The opening of a member whose value is an object or an array, and the end of an object.\<close>

definition open_member :: "string \<Rightarrow> string \<Rightarrow> string" where
  "open_member name bracket = '','' @ newline @ append_indent 1 @ append_json_string name @ '': '' @ bracket"

definition close_object :: "nat \<Rightarrow> string" where
  "close_object depth = newline @ append_indent depth @ ''}''"

text \<open>The elements of an array, each on a line of its own, with commas between them.\<close>

definition array_lines :: "('a \<Rightarrow> string) \<Rightarrow> 'a list \<Rightarrow> string" where
  "array_lines element xs =
    concat (map (\<lambda>i. (if i \<noteq> 0 then '','' else []) @ newline @ append_indent 2 @ element (xs ! i)) [0..<length xs])
    @ (if xs \<noteq> [] then newline @ append_indent 1 else []) @ '']''"

definition render_artifact :: "artifact_ref \<Rightarrow> string" where
  "render_artifact a = ''{'' @ append_field_json 3 ''name'' (art_name a) True
    @ append_unsigned_field 3 ''size_bytes'' (unat (art_size a)) False
    @ append_field_json 3 ''content_digest'' (art_digest a) False @ close_object 2"

definition render_evidence :: "promotion_evidence \<Rightarrow> string" where
  "render_evidence s = ''{'' @ append_field_json 3 ''evaluator_key'' (pe_key s) True
    @ append_enum_field 3 ''evaluator_kind'' (evaluator_kind_name (pe_kind s)) (evaluator_kind_ordinal (pe_kind s)) False
    @ append_enum_field 3 ''outcome'' (evaluation_outcome_name (pe_outcome s)) (evaluation_outcome_ordinal (pe_outcome s)) False
    @ append_enum_field 3 ''requirement_class'' (requirement_class_name (pe_class s))
        (unat (requirement_class_ordinal (pe_class s))) False
    @ append_boolean_field 3 ''complete'' (pe_complete s) False
    @ append_boolean_field 3 ''has_score'' (pe_has_score s) False
    @ (if pe_has_score s then append_field_json 3 ''score_binary64_hex'' (binary64_hex_json (pe_score s)) False else [])
    @ append_unsigned_field 3 ''generation'' (unat (gen_value (pe_gen s))) False
    @ append_field_json 3 ''evidence_digest'' (pe_digest s) False @ close_object 2"

definition render_ancestry :: "candidate_id list \<Rightarrow> string" where
  "render_ancestry ks =
    concat (map (\<lambda>i. (if i \<noteq> 0 then '', '' else []) @ decimal (unat (raw (ks ! i)))) [0..<length ks])"

definition render_identity_part :: "promotion_request \<Rightarrow> string" where
  "render_identity_part r = open_member ''identity'' ''{''
    @ append_identity_field 2 ''request'' (raw (pr_id r)) ''PromotionRequestId''
    @ append_identity_field 2 ''foundry'' (raw (pr_foundry r)) ''FoundryId''
    @ append_identity_field 2 ''run'' (raw (pr_run r)) ''FoundryRunId''
    @ append_unsigned_field 2 ''coordinator_epoch'' (unat (epoch_value (pr_epoch r))) False
    @ close_object 1"

definition render_subject_part :: "promotion_request \<Rightarrow> string" where
  "render_subject_part r = open_member ''subject'' ''{''
    @ append_identity_field 2 ''population'' (raw (pr_population r)) ''PopulationId''
    @ append_generation_field 2 ''population_generation'' (gen_value (pr_population_gen r))
    @ append_identity_field 2 ''candidate'' (raw (pr_candidate r)) ''CandidateId''
    @ append_generation_field 2 ''candidate_generation'' (gen_value (pr_candidate_gen r))
    @ append_identity_field 2 ''task'' (raw (pr_task r)) ''TaskId''
    @ append_generation_field 2 ''task_generation'' (gen_value (pr_task_gen r))
    @ append_identity_field 2 ''lineage'' (raw (pr_lineage r)) ''LineageId''
    @ append_generation_field 2 ''selection_generation'' (gen_value (pr_selection_gen r))
    @ append_identity_field 2 ''policy'' (raw (pr_policy r)) ''PolicyId''
    @ append_generation_field 2 ''policy_generation'' (gen_value (pr_policy_gen r))
    @ append_generation_field 2 ''evidence_generation'' (gen_value (pr_evidence_gen r))
    @ close_object 1"

definition render_eligibility_part :: "promotion_request \<Rightarrow> string" where
  "render_eligibility_part r = open_member ''eligibility'' ''{''
    @ append_enum_field 2 ''state'' (promotion_eligibility_state_name (pr_eligibility r))
        (unat (promotion_eligibility_ordinal (pr_eligibility r))) True
    @ append_unsigned_field 2 ''outstanding_requirement_count'' (length (pr_outstanding r)) False
    @ close_object 1
    @ open_member ''outstanding_requirements'' ''['' @ array_lines append_json_string (pr_outstanding r)"

definition render_artifacts_part :: "promotion_request \<Rightarrow> string" where
  "render_artifacts_part r = open_member ''artifacts'' ''[''
    @ array_lines render_artifact (sort_by artifact_less (pr_artifacts r))
    @ open_member ''artifact_set'' ''{''
    @ append_unsigned_field 2 ''count'' (length (pr_artifacts r)) True
    @ append_unsigned_field 2 ''total_artifact_bytes'' (unat (pr_total_bytes r)) False
    @ append_field_json 2 ''artifact_set_digest'' (pr_artifact_set_digest r) False
    @ close_object 1"

definition render_provenance_part :: "promotion_request \<Rightarrow> string" where
  "render_provenance_part r = open_member ''mandatory_evidence'' ''[''
    @ array_lines render_evidence (sort_by evidence_order (pr_evidence r))
    @ open_member ''provenance'' ''{''
    @ append_unsigned_field 2 ''ancestry_count'' (length (pr_ancestry r)) True
    @ '','' @ newline @ append_indent 2 @ append_json_string ''ancestry_root_first'' @ '': [''
    @ render_ancestry (pr_ancestry r) @ '']''
    @ append_unsigned_field 2 ''lineage_depth'' (unat (pr_lineage_depth r)) False
    @ close_object 1
    @ append_field_json 1 ''canonical_state_digest'' (pr_digest r) False"

definition render_request :: "promotion_request \<Rightarrow> string \<Rightarrow> nat \<Rightarrow> string" where
  "render_request r canonical_digest canonical_bytes = ''{'' @ newline
    @ append_field_json 1 ''document'' ''autonomous-foundry.promotion-request'' True
    @ append_unsigned_field 1 ''document_version'' 1 False
    @ append_field_json 1 ''runtime_claim'' ''eligible-for-handoff; not promoted by this runtime'' False
    @ render_identity_part r @ render_subject_part r @ render_eligibility_part r
    @ render_artifacts_part r @ render_provenance_part r
    @ open_member ''canonical_encoding'' ''{''
    @ append_field_json 2 ''form'' ''encode_promotion_request_canonical'' True
    @ append_unsigned_field 2 ''canonical_encoding_bytes'' canonical_bytes False
    @ append_field_json 2 ''canonical_encoding_sha256'' canonical_digest False
    @ close_object 1
    @ newline @ ''}'' @ newline"

primrec promotion_handoff_ordinal :: "promotion_handoff \<Rightarrow> nat" where
  "promotion_handoff_ordinal PH_NotRequested = 0"
| "promotion_handoff_ordinal PH_Requested = 1"
| "promotion_handoff_ordinal PH_AcceptedForProcessing = 2"
| "promotion_handoff_ordinal PH_DeclinedBySink = 3"
| "promotion_handoff_ordinal PH_SinkUnavailable = 4"

definition render_receipt :: "promotion_receipt \<Rightarrow> promotion_request \<Rightarrow> string" where
  "render_receipt receipt r = ''{'' @ newline
    @ append_field_json 1 ''document'' ''autonomous-foundry.promotion-receipt'' True
    @ append_unsigned_field 1 ''document_version'' 1 False
    @ open_member ''request'' ''{''
    @ append_identity_field 2 ''id'' (raw (pr_id r)) ''PromotionRequestId''
    @ append_identity_field 2 ''candidate'' (raw (pr_candidate r)) ''CandidateId''
    @ append_generation_field 2 ''candidate_generation'' (gen_value (pr_candidate_gen r))
    @ close_object 1
    @ open_member ''receipt'' ''{''
    @ append_enum_field 2 ''handoff'' (promotion_handoff_state_name (rcp_handoff receipt))
        (promotion_handoff_ordinal (rcp_handoff receipt)) True
    @ append_field_json 2 ''sink_name'' (rcp_sink_name receipt) False
    @ append_field_json 2 ''sink_reference'' (rcp_sink_reference receipt) False
    @ append_field_json 2 ''detail'' (rcp_detail receipt) False
    @ append_field_json 2 ''request_digest'' (rcp_request_digest receipt) False
    @ close_object 1
    @ open_member ''meaning'' []
    @ append_json_string ''this sink accepted the request for its own processing; the artifact has not been promoted and this runtime makes no promotion claim''
    @ newline @ ''}'' @ newline"

section \<open>Submitting a request\<close>

definition kLocalPromotionSinkName :: string where "kLocalPromotionSinkName = ''local-file-sink''"

record sink_platform =
  sp_workspace :: workspace_platform
  sp_request_writer :: write_platform
  sp_request_sequence :: u64
  sp_receipt_writer :: write_platform
  sp_receipt_sequence :: u64
  sp_path_text :: "fs_path \<Rightarrow> string"

record local_promotion_sink =
  lps_directory :: fs_path
  lps_prepared :: bool
  lps_files :: file_store

type_synonym 'a sink_action = "(local_promotion_sink, 'a) action"

definition validate_submission :: "promotion_request \<Rightarrow> status" where
  "validate_submission r = first_failure
    ([require (id_valid (pr_id r)) E_NullIdentity,
      require (pr_artifacts r \<noteq> []) E_InvalidArgument,
      require (length (pr_artifacts r) \<le> kMaxArtifactsPerCandidate) E_LengthOutOfRange]
     @ map validate_artifact_ref (pr_artifacts r))"

definition prepare :: "sink_platform \<Rightarrow> unit sink_action" where
  "prepare env = readA (\<lambda>s. whenA (\<not> lps_prepared s) (seqA
     [checkA (require (wsp_create_directories (sp_workspace env) (lps_directory s)) E_IoFailure),
      checkA (ensure_directory_plain (sp_workspace env) (lps_directory s)),
      modifyA (\<lambda>s. s\<lparr>lps_prepared := True\<rparr>)]))"

definition put_file :: "write_platform \<Rightarrow> u64 \<Rightarrow> fs_path \<Rightarrow> string \<Rightarrow> unit sink_action" where
  "put_file writer sequence path content = (\<lambda>s.
    case atomic_write_file writer sequence path content (lps_files s) of
      (r, files) \<Rightarrow> (r, s\<lparr>lps_files := files\<rparr>))"

definition request_file :: "promotion_request \<Rightarrow> string" where
  "request_file r = identity_stem (pr_id r) @ ''.json''"

definition receipt_file :: "promotion_request \<Rightarrow> string" where
  "receipt_file r = identity_stem (pr_id r) @ ''.receipt.json''"

definition request_path :: "fs_path \<Rightarrow> promotion_request \<Rightarrow> fs_path" where
  "request_path directory r = append_parts directory [request_file r]"

definition receipt_path :: "fs_path \<Rightarrow> promotion_request \<Rightarrow> fs_path" where
  "receipt_path directory r = append_parts directory [receipt_file r]"

definition local_receipt :: "sink_platform \<Rightarrow> fs_path \<Rightarrow> promotion_request \<Rightarrow> promotion_receipt" where
  "local_receipt env directory r =
    \<lparr>rcp_handoff = PH_AcceptedForProcessing, rcp_sink_name = kLocalPromotionSinkName,
     rcp_sink_reference = kLocalPromotionSinkName @ '':'' @ identity_stem (pr_id r),
     rcp_detail = ''request recorded as '' @ [CHR 0x27] @ sp_path_text env (request_path directory r) @ [CHR 0x27]
       @ ''; the artifact is not promoted by this runtime and the receiving system has not yet decided anything'',
     rcp_request_digest = sha256_hex (encode_promotion_request_canonical r)\<rparr>"

definition submit :: "sink_platform \<Rightarrow> promotion_request \<Rightarrow> promotion_receipt sink_action" where
  "submit env r = thenA (checkA (validate_submission r)) (thenA (prepare env) (readA (\<lambda>s.
    let canonical_bytes = encode_promotion_request_canonical r;
        canonical_digest = sha256_hex canonical_bytes;
        directory = lps_directory s;
        receipt = local_receipt env directory r
    in thenA (put_file (sp_request_writer env) (sp_request_sequence env) (request_path directory r)
          (render_request r canonical_digest (length canonical_bytes)))
       (thenA (put_file (sp_receipt_writer env) (sp_receipt_sequence env) (receipt_path directory r)
          (render_receipt receipt r))
       (retA receipt)))))"

end
