(* ===== verification/Workspace_Guarantees.thy ===== *)
theory Workspace_Guarantees
  imports Workspace
begin

text \<open>
  What the workspace promises: an accepted path stays below its root, a file is replaced as a
  whole, a removal is refused exactly when the tree is over the bounds, and a unique directory
  that cannot be made is tried for ever.
\<close>

section \<open>Components\<close>

lemma takeWhile_mono:
  assumes "\<And>x. P x \<Longrightarrow> Q x" and "\<forall>x \<in> set (takeWhile (\<lambda>x. \<not> P x) xs). \<not> Q x"
  shows "takeWhile (\<lambda>x. \<not> Q x) xs = takeWhile (\<lambda>x. \<not> P x) xs"
  using assms by (induction xs) auto

lemma all_run:
  "\<forall>x \<in> set xs. \<not> P x \<Longrightarrow> takeWhile (\<lambda>x. \<not> P x) xs = xs"
  "\<forall>x \<in> set xs. \<not> P x \<Longrightarrow> dropWhile (\<lambda>x. \<not> P x) xs = []"
  by (induction xs) auto

lemma runs_split:
  "sep y \<Longrightarrow> runs_between sep (xs @ y # ys) = runs_between sep xs @ runs_between sep ys"
proof (induction sep xs rule: runs_between.induct)
  case (1 sep)
  then show ?case by simp
next
  case (2 sep c cs)
  show ?case
  proof (cases "sep c")
    case True
    then show ?thesis using 2 by simp
  next
    case False
    show ?thesis
    proof (cases "\<exists>d \<in> set cs. sep d")
      case True
      then have "takeWhile (\<lambda>d. \<not> sep d) (cs @ y # ys) = takeWhile (\<lambda>d. \<not> sep d) cs"
        and "dropWhile (\<lambda>d. \<not> sep d) (cs @ y # ys) = dropWhile (\<lambda>d. \<not> sep d) cs @ y # ys"
        by (auto simp: takeWhile_append1 dropWhile_append1)
      then show ?thesis using 2 False by simp
    next
      case none: False
      then have "\<forall>x \<in> set cs. \<not> sep x"
        by simp
      moreover from this have "takeWhile (\<lambda>d. \<not> sep d) (cs @ y # ys) = cs" "dropWhile (\<lambda>d. \<not> sep d) (cs @ y # ys) = y # ys"
        using "2.prems" by (simp_all add: takeWhile_append2 dropWhile_append2)
      ultimately show ?thesis using False "2.prems" by (simp add: all_run)
    qed
  qed
qed

lemma runs_nonempty: "[] \<notin> set (runs_between sep p)"
  by (induction sep p rule: runs_between.induct) auto

text \<open>A run without finer separators is a run between the finer separators.\<close>

lemma runs_finer:
  assumes "r \<in> set (runs_between sep p)" and "\<forall>x \<in> set r. \<not> finer x" and "\<And>x. sep x \<Longrightarrow> finer x"
  shows "r \<in> set (runs_between finer p)"
  using assms
proof (induction sep p rule: runs_between.induct)
  case (1 sep)
  then show ?case by simp
next
  case (2 sep c cs)
  show ?case
  proof (cases "sep c")
    case True
    then show ?thesis using 2 by simp
  next
    case False
    let ?run = "c # takeWhile (\<lambda>d. \<not> sep d) cs" and ?rest = "dropWhile (\<lambda>d. \<not> sep d) cs"
    have whole: "c # cs = ?run @ ?rest"
      by simp
    show ?thesis
    proof (cases "r = ?run")
      case True
      then have "takeWhile (\<lambda>x. \<not> finer x) cs = takeWhile (\<lambda>x. \<not> sep x) cs"
        using 2 by (intro takeWhile_mono) auto
      then show ?thesis
        using True "2.prems"(2) by simp
    next
      case other: False
      then have "r \<in> set (runs_between sep ?rest)"
        using "2.prems"(1) False by simp
      then have r: "r \<in> set (runs_between finer ?rest)"
        using "2.IH"(2) [OF False] "2.prems" by blast
      have "?rest \<noteq> []"
      proof
        assume "?rest = []"
        with r show False by simp
      qed
      then obtain d ds where rest: "?rest = d # ds"
        by (cases ?rest) auto
      then have "sep d"
        using dropWhile_eq_Cons_conv [of "\<lambda>d. \<not> sep d" cs d ds] by simp
      then have "finer d"
        using "2.prems"(3) by simp
      then have "runs_between finer (?run @ ?rest) = runs_between finer ?run @ runs_between finer ds"
        unfolding rest by (rule runs_split)
      moreover have "runs_between finer ?rest = runs_between finer ds"
        using \<open>finer d\<close> unfolding rest by simp
      ultimately have "runs_between finer (c # cs) = runs_between finer ?run @ runs_between finer ?rest"
        unfolding whole by simp
      then show ?thesis
        using r by (simp only: set_append Un_iff simp_thms)
    qed
  qed
qed

text \<open>The loop of the validation checks the runs between separators of either kind.\<close>

lemma validate_components_runs:
  assumes "validate_components p = OK"
  shows "\<forall>r \<in> set (runs_between is_path_separator p). validate_component r = OK"
  using assms
proof (induction p rule: validate_components.induct)
  case (1 p)
  have checked: "validate_component (next_component p) = OK"
    using "1.prems" by (subst (asm) validate_components.simps) (auto split: sum.splits)
  show ?case
  proof (cases p)
    case Nil
    then show ?thesis by simp
  next
    case (Cons c cs)
    have "next_component p \<noteq> []"
      using checked by (auto simp: validate_component_def)
    then have c: "\<not> is_path_separator c" and next_run: "next_component p = c # takeWhile (\<lambda>d. \<not> is_path_separator d) cs"
      by (auto simp: Cons next_component_def split: if_splits)
    have rest: "runs_between is_path_separator (dropWhile (\<lambda>d. \<not> is_path_separator d) cs) =
        runs_between is_path_separator (after_component p)"
    proof (cases "dropWhile (\<lambda>d. \<not> is_path_separator d) cs")
      case Nil
      then have "\<forall>d \<in> set cs. \<not> is_path_separator d"
        by (simp add: dropWhile_eq_Nil_conv)
      then show ?thesis
        using next_run Cons by (simp add: after_component_def all_run)
    next
      case tail: (Cons d ds)
      then have "is_path_separator d"
        using dropWhile_eq_Cons_conv [of "\<lambda>d. \<not> is_path_separator d" cs d ds] by simp
      have "p = next_component p @ d # ds"
        unfolding next_run tail [symmetric] by (simp add: Cons)
      then have "after_component p = drop (length (next_component p) + 1) (next_component p @ d # ds)"
        unfolding after_component_def by (rule arg_cong)
      then have "after_component p = ds"
        by (metis append_Cons append_Nil append_assoc append_eq_conv_conj length_append_singleton Suc_eq_plus1)
      with \<open>is_path_separator d\<close> show ?thesis
        by (simp add: tail)
    qed
    have "\<forall>r \<in> set (runs_between is_path_separator (after_component p)). validate_component r = OK"
    proof (cases "after_component p = []")
      case False
      then have "validate_components (after_component p) = OK"
        using "1.prems" checked by (subst (asm) validate_components.simps) simp
      then show ?thesis
        using 1 checked False by blast
    qed simp
    then show ?thesis
      using c checked by (simp add: Cons rest flip: next_run)
  qed
qed

section \<open>Paths below a root\<close>

definition dotless :: "string \<Rightarrow> bool" where
  "dotless q \<longleftrightarrow> q \<noteq> ''.'' \<and> q \<noteq> ''..''"

lemma dot_names: "\<not> dotless q \<Longrightarrow> \<forall>c \<in> set q. \<not> is_path_separator c"
  by (auto simp: dotless_def is_path_separator_def)

lemma validated_dotless: "validate_component q = OK \<Longrightarrow> dotless q"
  by (simp add: dotless_def validate_component_def)

lemma normal_step:
  "normal_parts absolute taken (p # ps) =
    (if dotless p then normal_parts absolute (p # taken) ps
     else if p = ''.'' then normal_parts absolute taken ps
     else case taken of
       [] \<Rightarrow> normal_parts absolute (if absolute then [] else [''..'']) ps
     | q # qs \<Rightarrow> if q = ''..'' then normal_parts absolute (''..'' # taken) ps else normal_parts absolute qs ps)"
  by (cases taken) (simp_all add: dotless_def)

declare normal_parts.simps(2) [simp del]

lemma normal_clean: "list_all dotless ps \<Longrightarrow> normal_parts absolute taken ps = rev taken @ ps"
  by (induction ps arbitrary: taken) (simp_all add: normal_step)

lemma normal_append_clean:
  assumes "list_all dotless qs"
  shows "normal_parts absolute taken (ps @ qs) = normal_parts absolute taken ps @ qs"
  by (cases absolute; induction ps arbitrary: taken) (simp_all add: normal_clean [OF assms] normal_step split: list.split)

lemma normal_absolute_clean: "list_all dotless taken \<Longrightarrow> list_all dotless (normal_parts True taken ps)"
proof (induction ps arbitrary: taken)
  case (Cons p ps)
  have "\<not> dotless ''..''"
    by (simp add: dotless_def)
  with Cons show ?case
    by (cases taken) (auto simp: normal_step)
qed simp

lemma normal_absolute:
  "fp_absolute p \<Longrightarrow> lexically_normal p = p\<lparr>fp_parts := normal_parts True [] (fp_parts p)\<rparr>"
  by (cases p) (simp add: lexically_normal_def Let_def)

lemma normal_idem: "fp_absolute p \<Longrightarrow> lexically_normal (lexically_normal p) = lexically_normal p"
  using normal_absolute_clean [of "[]" "fp_parts p"]
  by (simp add: normal_absolute normal_clean)

lemma normal_path_append:
  assumes "fp_absolute p" and "list_all dotless qs"
  shows "lexically_normal (append_parts p qs) = append_parts (lexically_normal p) qs"
  using assms by (simp add: normal_absolute append_parts_def normal_append_clean)

definition stripped :: "string \<Rightarrow> string" where
  "stripped p = rev (dropWhile is_path_separator (rev p))"

lemma stripped_runs:
  assumes "\<And>c. sep c \<Longrightarrow> is_path_separator c"
  shows "set (runs_between is_path_separator (stripped p)) \<subseteq> set (runs_between is_path_separator p)"
proof (induction p rule: rev_induct)
  case (snoc c p)
  show ?case
  proof (cases "is_path_separator c")
    case True
    then have "runs_between is_path_separator (p @ [c]) = runs_between is_path_separator p"
      using runs_split [of is_path_separator c p "[]"] by simp
    then show ?thesis
      using snoc True by (simp add: stripped_def)
  next
    case False
    then show ?thesis by (simp add: stripped_def)
  qed
qed (simp add: stripped_def)

lemma stripped_snoc:
  "stripped (p @ [c]) = (if is_path_separator c then stripped p else p @ [c])"
  by (simp add: stripped_def)

lemma stripped_begins: "p \<noteq> [] \<Longrightarrow> \<not> is_path_separator (hd p) \<Longrightarrow> \<exists>cs. stripped p = hd p # cs"
proof (induction p rule: rev_induct)
  case (snoc c p)
  then show ?case
    using stripped_snoc [of p c] by (cases p) auto
qed simp

text \<open>An accepted path has components, and none of them is a dot, two dots or empty.\<close>

lemma accepted_components:
  assumes "validate_relative_path p = OK"
  shows "posix_components (stripped p) \<noteq> []"
    and "list_all dotless (posix_components (stripped p))" and "[] \<notin> set (posix_components (stripped p))"
proof -
  have p: "p \<noteq> []" "\<not> is_path_separator (hd p)" and components: "validate_components p = OK"
    using assms by (auto simp: validate_relative_path_def)
  obtain cs where "stripped p = hd p # cs"
    using stripped_begins [OF p] by blast
  then show "posix_components (stripped p) \<noteq> []"
    using p(2) by (simp add: posix_components_def is_path_separator_def)
  show "[] \<notin> set (posix_components (stripped p))"
    unfolding posix_components_def by (rule runs_nonempty)
  have "dotless q" if q: "q \<in> set (posix_components (stripped p))" for q
  proof (rule ccontr)
    assume dots: "\<not> dotless q"
    have "q \<in> set (runs_between is_path_separator (stripped p))"
      using q dot_names [OF dots] unfolding posix_components_def by (rule runs_finer) (simp add: is_path_separator_def)
    then have "validate_component q = OK"
      using stripped_runs [of is_path_separator p] validate_components_runs [OF components] by blast
    then show False
      using dots validated_dotless by simp
  qed
  then show "list_all dotless (posix_components (stripped p))"
    by (simp add: list_all_iff)
qed

section \<open>Resolving a path\<close>

lemma inside_appended:
  assumes "fp_absolute p" and "list_all dotless qs"
  shows "is_lexically_inside p (append_parts p qs)"
  using assms normal_path_append [OF assms]
  by (simp add: is_lexically_inside_def path_empty_def append_parts_def normal_absolute)

lemma reparse_status_ok: "reparse_status env p = OK \<longleftrightarrow> wsp_link_status env p \<noteq> Some FK_Symlink"
  by (auto simp: reparse_status_def probe_reparse_point_def split: option.splits)

text \<open>
  C30: Whatever the file system holds, a path that is resolved is one that was accepted, it lies
  below the canonical root once both are normal, and no component of it below the root is a
  symbolic link.
\<close>

theorem resolved_paths_are_confined:
  assumes "resolve env (Some root) relative = Inr target"
  shows "validate_relative_path relative = OK \<and>
    (let below = lexically_normal (weakly_canonical_or env root root); t = lexically_normal target in
     fp_absolute t = fp_absolute below \<and> prefix (fp_parts below) (fp_parts t) \<and>
     (\<forall>i. length (fp_parts below) < i \<and> i \<le> length (fp_parts t) \<longrightarrow>
       wsp_link_status env (below\<lparr>fp_parts := take i (fp_parts t)\<rparr>) \<noteq> Some FK_Symlink))"
proof -
  define below where "below = lexically_normal (weakly_canonical_or env root root)"
  define t where "t = lexically_normal target"
  have accepted: "validate_relative_path relative = OK"
    and inside: "is_lexically_inside (weakly_canonical_or env root root) target"
    and verified: "verify_no_reparse_escape env (weakly_canonical_or env root root) target = OK"
    using assms by (auto simp: resolve_def Let_def split: sum.splits if_splits)
  have pre: "fp_absolute t = fp_absolute below" "prefix (fp_parts below) (fp_parts t)"
    using inside by (simp_all add: is_lexically_inside_def below_def t_def Let_def)
  then obtain rest where rest: "fp_parts t = fp_parts below @ rest"
    by (auto elim: prefixE)
  have "wsp_link_status env (below\<lparr>fp_parts := take i (fp_parts t)\<rparr>) \<noteq> Some FK_Symlink"
    if i: "length (fp_parts below) < i" "i \<le> length (fp_parts t)" for i
  proof -
    define j where "j = i - length (fp_parts below)"
    have j: "j \<in> set [1..<length rest + 1]" and i_eq: "i = length (fp_parts below) + j"
      using i rest by (auto simp: j_def)
    have "reparse_status env (append_parts below (take j rest)) = OK"
      using verified j rest
      by (auto simp: verify_no_reparse_escape_def Let_def first_failure_ok simp flip: below_def t_def split: if_splits)
    moreover have "append_parts below (take j rest) = below\<lparr>fp_parts := take i (fp_parts t)\<rparr>"
      by (simp add: append_parts_def rest i_eq)
    ultimately show ?thesis
      by (simp add: reparse_status_ok)
  qed
  with accepted pre show ?thesis
    by (simp add: Let_def flip: below_def t_def)
qed

text \<open>
  Where the file system has no symbolic link on the way and a canonical path is the normal
  one, every accepted path resolves, and to the file its components name below the root.
\<close>

theorem accepted_paths_resolve:
  assumes "validate_relative_path relative = OK" and "fp_absolute root"
    and "\<forall>p. wsp_canonical env p = Some (lexically_normal p)"
    and "\<forall>p. wsp_link_status env p \<noteq> Some FK_Symlink"
  shows "resolve env (Some root) relative =
    Inr (append_parts (lexically_normal root) (posix_components (stripped relative)))"
proof -
  let ?names = "posix_components (stripped relative)"
  let ?resolved = "append_parts (lexically_normal root) ?names"
  note names = accepted_components [OF assms(1)]
  have normal: "weakly_canonical_or env p p = lexically_normal p" for p
    using assms(3) by (simp add: weakly_canonical_or_def)
  have absolute: "fp_absolute (lexically_normal root)"
    using assms(2) by (simp add: lexically_normal_def Let_def)
  have parent: "parent_path (append_parts root ?names) = append_parts root (butlast ?names)"
    using names(1) by (simp add: parent_path_def append_parts_def butlast_append)
  have most: "list_all dotless (butlast ?names)"
    using names(2) by (auto simp: list_all_iff dest: in_set_butlastD)
  have target: "append_parts (weakly_canonical_or env (parent_path (append_parts root ?names)) (parent_path (append_parts root ?names)))
      [last (fp_parts (append_parts root ?names))] = ?resolved"
    unfolding parent normal normal_path_append [OF assms(2) most]
    using names(1) by (simp add: append_parts_def)
  have inside: "is_lexically_inside (lexically_normal root) ?resolved"
    by (rule inside_appended [OF absolute names(2)])
  have "verify_no_reparse_escape env (lexically_normal root) ?resolved = OK"
    using assms(4) inside absolute normal_path_append [OF absolute names(2)] normal_idem [OF assms(2)]
    by (auto simp: verify_no_reparse_escape_def Let_def first_failure_ok reparse_status_ok)
  then show ?thesis
    using assms(1) inside target unfolding resolve_def stripped_def [symmetric]
    by (simp add: Let_def normal)
qed

definition sample_file_system :: workspace_platform where
  "sample_file_system = \<lparr>wsp_link_status = (\<lambda>_. Some FK_Directory), wsp_status = (\<lambda>_. Some FK_Directory),
     wsp_canonical = (\<lambda>p. Some (lexically_normal p)), wsp_size = (\<lambda>_. None), wsp_open = (\<lambda>_. None),
     wsp_entries = (\<lambda>_. Some ([], True)), wsp_create_directories = (\<lambda>_. True)\<rparr>"

definition sample_root :: fs_path where
  "sample_root = \<lparr>fp_absolute = True, fp_parts = [''w'']\<rparr>"

lemma sample_resolved:
  "resolve sample_file_system (Some sample_root) ''a/b'' = Inr \<lparr>fp_absolute = True, fp_parts = [''w'', ''a'', ''b'']\<rparr>"
  by code_simp

lemma resolved_paths_are_confined_witness:
  "wsp_link_status sample_file_system \<lparr>fp_absolute = True, fp_parts = [''w'', ''a'']\<rparr> \<noteq> Some FK_Symlink \<and>
   validate_relative_path ''a/b'' = OK"
  using resolved_paths_are_confined [OF sample_resolved]
  by (simp add: sample_file_system_def)

lemma accepted_paths_resolve_witness:
  "resolve sample_file_system (Some sample_root) ''a/b/'' =
     Inr (append_parts (lexically_normal sample_root) (posix_components (stripped ''a/b/'')))"
proof (rule accepted_paths_resolve)
  show "validate_relative_path ''a/b/'' = OK"
    by code_simp
qed (simp_all add: sample_file_system_def sample_root_def)

text \<open>A backslash separates components for the validation only: here it is part of a name.\<close>

lemma backslash_accepted:
  "validate_relative_path [CHR 0x61, CHR 0x5C, CHR 0x62] = OK"
  "posix_components [CHR 0x61, CHR 0x5C, CHR 0x62] = [[CHR 0x61, CHR 0x5C, CHR 0x62]]"
  by code_simp+

section \<open>Bounded removal\<close>

primrec tree_nodes :: "fs_tree \<Rightarrow> nat" where
  "tree_nodes FT_Entry = 1"
| "tree_nodes FT_Unreadable = 1"
| "tree_nodes (FT_Directory ts complete) = Suc (sum_list (map tree_nodes ts))"

primrec tree_depth :: "fs_tree \<Rightarrow> nat" where
  "tree_depth FT_Entry = 0"
| "tree_depth FT_Unreadable = 0"
| "tree_depth (FT_Directory ts complete) =
    fold max (map (\<lambda>(t, d). if t = FT_Entry then 0 else Suc d) (map (\<lambda>t. (t, tree_depth t)) ts)) 0"

primrec readable :: "fs_tree \<Rightarrow> bool" where
  "readable FT_Entry = True"
| "readable FT_Unreadable = False"
| "readable (FT_Directory ts complete) = (complete \<and> list_all id (map readable ts))"

lemma fold_max_le: "fold max xs (a :: nat) \<le> b \<longleftrightarrow> a \<le> b \<and> (\<forall>x \<in> set xs. x \<le> b)"
  by (induction xs arbitrary: a) auto

definition pending_nodes :: "(fs_tree \<times> nat) list \<Rightarrow> nat" where
  "pending_nodes pending = sum_list (map (tree_nodes \<circ> fst) pending)"

definition pending_fits :: "(fs_tree \<times> nat) list \<Rightarrow> bool" where
  "pending_fits pending \<longleftrightarrow> (\<forall>(t, d) \<in> set pending. d + tree_depth t \<le> kMaxCleanupDepth)"

definition inner_trees :: "fs_tree list \<Rightarrow> fs_tree list" where
  "inner_trees ts = filter (\<lambda>t. t \<noteq> FT_Entry) ts"

definition leaf_count :: "fs_tree list \<Rightarrow> nat" where
  "leaf_count ts = length (filter (\<lambda>t. t = FT_Entry) ts)"

lemma tree_simps [simp]:
  "inner_trees [] = []" "inner_trees (t # ts) = (if t = FT_Entry then inner_trees ts else t # inner_trees ts)"
  "leaf_count [] = 0" "leaf_count (t # ts) = (if t = FT_Entry then Suc (leaf_count ts) else leaf_count ts)"
  by (simp_all add: inner_trees_def leaf_count_def)

lemma scan_result:
  "entries \<le> kMaxCleanupEntries \<Longrightarrow> scan_directory d ts pending entries =
    (if entries + leaf_count ts \<le> kMaxCleanupEntries \<and> (inner_trees ts = [] \<or> d \<le> kMaxCleanupDepth)
     then Inr (map (\<lambda>t. (t, d)) (rev (inner_trees ts)) @ pending, entries + leaf_count ts)
     else Inl E_ResourceExhausted)"
  by (induction d ts pending entries rule: scan_directory.induct) auto

lemma nodes_positive: "0 < tree_nodes t"
  by (cases t) simp_all

lemma nodes_of_directory:
  "sum_list (map tree_nodes ts) = leaf_count ts + sum_list (map tree_nodes (inner_trees ts))"
  by (induction ts) auto

lemma depth_of_directory:
  "d \<le> kMaxCleanupDepth \<Longrightarrow> d + tree_depth (FT_Directory ts complete) \<le> kMaxCleanupDepth \<longleftrightarrow>
   (\<forall>t \<in> set (inner_trees ts). Suc d + tree_depth t \<le> kMaxCleanupDepth)"
proof -
  assume d: "d \<le> kMaxCleanupDepth"
  have "d + tree_depth (FT_Directory ts complete) \<le> kMaxCleanupDepth \<longleftrightarrow> tree_depth (FT_Directory ts complete) \<le> kMaxCleanupDepth - d"
    using d by arith
  also have "\<dots> \<longleftrightarrow> (\<forall>t \<in> set ts. t \<noteq> FT_Entry \<longrightarrow> Suc (tree_depth t) \<le> kMaxCleanupDepth - d)"
    by (auto simp: fold_max_le)
  also have "\<dots> \<longleftrightarrow> (\<forall>t \<in> set (inner_trees ts). Suc d + tree_depth t \<le> kMaxCleanupDepth)"
    using d by (auto simp: inner_trees_def)
  finally show ?thesis .
qed

lemma walk_exact:
  assumes "list_all (\<lambda>(t, d). readable t \<and> d \<le> kMaxCleanupDepth) pending" and "entries \<le> kMaxCleanupEntries"
  shows "walk pending entries =
    (if entries + pending_nodes pending \<le> kMaxCleanupEntries \<and> pending_fits pending then OK else Inl E_ResourceExhausted)"
  using assms
proof (induction pending entries rule: walk.induct)
  case (1 entries)
  then show ?case by (simp add: pending_nodes_def pending_fits_def)
next
  case (2 t d pending entries)
  show ?case
  proof (cases "entries + 1 > kMaxCleanupEntries")
    case True
    then show ?thesis
      using nodes_positive [of t] by (auto simp: pending_nodes_def)
  next
    case small: False
    show ?thesis
    proof (cases t)
      case FT_Entry
      then show ?thesis
        using 2 small by (auto simp: pending_nodes_def pending_fits_def)
    next
      case FT_Unreadable
      then show ?thesis using 2 by simp
    next
      case (FT_Directory ts complete)
      let ?scan = "scan_directory (d + 1) ts pending (entries + 1)"
      let ?next = "map (\<lambda>t. (t, d + 1)) (rev (inner_trees ts)) @ pending"
      let ?fits = "entries + 1 + leaf_count ts \<le> kMaxCleanupEntries \<and> (inner_trees ts = [] \<or> d + 1 \<le> kMaxCleanupDepth)"
      have scan: "?scan = (if ?fits then Inr (?next, entries + 1 + leaf_count ts) else Inl E_ResourceExhausted)"
        using small by (intro scan_result) simp
      have d: "d \<le> kMaxCleanupDepth" and readable: "\<forall>t \<in> set (inner_trees ts). readable t" and complete: complete
        using 2(3) FT_Directory by (auto simp: list_all_iff inner_trees_def)
      have fits: "pending_fits ((t, d) # pending) \<longleftrightarrow> pending_fits ?next"
        by (simp add: pending_fits_def FT_Directory depth_of_directory [OF d] ball_Un del: tree_depth.simps)
      have nodes: "entries + pending_nodes ((t, d) # pending) = entries + 1 + leaf_count ts + pending_nodes ?next"
        using nodes_of_directory [of ts] by (simp add: pending_nodes_def FT_Directory comp_def rev_map [symmetric] sum_list_rev)
      have step: "walk ((t, d) # pending) entries = (case ?scan of Inl e \<Rightarrow> Inl e | Inr (pending', entries') \<Rightarrow> walk pending' entries')"
        using small 2(3) by (auto simp: FT_Directory split: sum.split)
      show ?thesis
      proof (cases ?fits)
        case True
        have "list_all (\<lambda>(t, d). readable t \<and> d \<le> kMaxCleanupDepth) ?next"
          using 2(3) readable True by (auto simp: list_all_iff)
        then have "walk ?next (entries + 1 + leaf_count ts) =
            (if entries + 1 + leaf_count ts + pending_nodes ?next \<le> kMaxCleanupEntries \<and> pending_fits ?next
             then OK else Inl E_ResourceExhausted)"
          using 2(2) [OF small FT_Directory, of "(?next, entries + 1 + leaf_count ts)"] scan True complete by simp
        then show ?thesis
          using True unfolding fits nodes step scan by simp
      next
        case False
        have failed: "?scan = Inl E_ResourceExhausted"
          unfolding scan by (rule if_not_P [OF False])
        from False have "\<not> (entries + pending_nodes ((t, d) # pending) \<le> kMaxCleanupEntries \<and> pending_fits ((t, d) # pending))"
          unfolding fits nodes by (cases "inner_trees ts") (auto simp: pending_fits_def)
        then show ?thesis
          unfolding step failed by simp
      qed
    qed
  qed
qed

text \<open>
  C32: A tree whose directories can all be opened and listed is removed exactly when it has at most 100000
  nodes and no directory more than 32 levels below its root; otherwise the removal is refused
  before anything is touched.
\<close>

theorem walk_bounded_exact:
  assumes "readable t"
  shows "walk_bounded t =
    (if tree_nodes t \<le> 100000 \<and> tree_depth t \<le> 32 then OK else Inl E_ResourceExhausted)"
  using walk_exact [of "[(t, 0)]" 0] assms
  by (simp add: walk_bounded_def pending_nodes_def pending_fits_def kMaxCleanupEntries_def kMaxCleanupDepth_def)

primrec nested_directories :: "nat \<Rightarrow> fs_tree" where
  "nested_directories 0 = FT_Entry"
| "nested_directories (Suc n) = FT_Directory [nested_directories n] True"

lemma nested_directories_depth:
  "readable (nested_directories n) \<and> tree_depth (nested_directories n) = n - 1"
proof (induction n)
  case (Suc n)
  then show ?case by (cases n) auto
qed simp

lemma walk_bounded_exact_witness:
  "walk_bounded (FT_Directory [FT_Entry, FT_Directory [FT_Entry] True] True) = OK \<and>
   walk_bounded (nested_directories 34) = Inl E_ResourceExhausted"
proof
  show "walk_bounded (FT_Directory [FT_Entry, FT_Directory [FT_Entry] True] True) = OK"
    using walk_bounded_exact [of "FT_Directory [FT_Entry, FT_Directory [FT_Entry] True] True"] by simp
  show "walk_bounded (nested_directories 34) = Inl E_ResourceExhausted"
    using walk_bounded_exact [of "nested_directories 34"] nested_directories_depth [of 34] by simp
qed

section \<open>Replacing a file as a whole\<close>

definition content_at :: "(fs_path, string) table \<Rightarrow> fs_path \<Rightarrow> string option" where
  "content_at files p = tbl_find files p"

lemma content_changes [simp]:
  "content_at (tbl_assign p v files) q = (if q = p then Some v else content_at files q)"
  "content_at (AList.delete p files) q = (if q = p then None else content_at files q)"
  by (simp_all add: content_at_def table_simps) (simp add: tbl_find_def delete_conv')

definition intact :: "fs_path \<Rightarrow> fs_path \<Rightarrow> string \<Rightarrow> (fs_path, string) table \<Rightarrow> (fs_path, string) table \<Rightarrow> bool" where
  "intact target staging bytes before now \<longleftrightarrow>
    content_at now target \<in> {content_at before target, Some bytes} \<and>
    (\<forall>q. q \<noteq> target \<and> q \<noteq> staging \<longrightarrow> content_at now q = content_at before q)"

lemma staging_differs: "fp_parts target \<noteq> [] \<Longrightarrow> staging_path env sequence target \<noteq> target"
proof
  assume parts: "fp_parts target \<noteq> []" and same: "staging_path env sequence target = target"
  then have "last (fp_parts (staging_path env sequence target)) = last (fp_parts target)"
    by simp
  then show False
    by (simp add: staging_path_def append_parts_def)
qed

lemma atomic_write_moments:
  assumes "atomic_write_file env sequence target bytes s = (result, s')"
  shows "(\<exists>moments. fst_history s' = fst_history s @ moments \<and>
      (\<forall>files \<in> set moments. intact target (staging_path env sequence target) bytes (fst_files s) files)) \<and>
    content_at (fst_files s') target = (if result = OK then Some bytes else content_at (fst_files s) target) \<and>
    (\<forall>q. q \<noteq> target \<and> q \<noteq> staging_path env sequence target \<longrightarrow>
      content_at (fst_files s') q = content_at (fst_files s) q) \<and>
    (result = OK \<or> s' \<noteq> s \<and> wrp_remove env \<longrightarrow>
      content_at (fst_files s') (staging_path env sequence target) = None)"
proof (cases "fp_parts target = [] \<or> (fp_absolute target \<or> length (fp_parts target) > 1) \<and>
    wrp_parent env (parent_path target) \<noteq> Some FK_Directory")
  case True
  then have "s' = s" "result = Inl E_PersistenceIoFailure"
    using assms(1) by (auto simp: atomic_write_file_def failA_def split: if_splits)
  then show ?thesis by simp
next
  case False
  let ?staging = "staging_path env sequence target"
  have other: "?staging \<noteq> target"
    using False staging_differs by simp
  have "write_staging_file env target ?staging bytes s = (result, s')"
    using False assms(1) by (simp add: atomic_write_file_def split: if_splits)
  then show ?thesis
    using other
    by (cases "wrp_create env"; cases "wrp_flush env"; cases "wrp_close env"; cases "wrp_rename env"; cases "wrp_remove env")
      (auto simp: write_staging_file_def remove_staging_def replace_with_staging_def change_files_def action_defs intact_def
        content_at_def [symmetric])
qed

text \<open>
  C31: A replacement is all or nothing. At every moment of it, in whatever call it fails, the
  target holds its old content or all of the new one, and no other file but the staging file is
  touched. After it the target holds the new content exactly when it reports success. The staging
  file is gone after a success, and after a failure too unless it was the removal of the staging
  file that failed, which the code ignores, or nothing was touched at all.
\<close>

theorem atomic_write_all_or_nothing:
  assumes "atomic_write_file env sequence target bytes s = (result, s')"
  shows "(\<exists>moments. fst_history s' = fst_history s @ moments \<and>
      (\<forall>files \<in> set moments. intact target (staging_path env sequence target) bytes (fst_files s) files)) \<and>
    content_at (fst_files s') target = (if result = OK then Some bytes else content_at (fst_files s) target) \<and>
    (\<forall>q. q \<noteq> target \<and> q \<noteq> staging_path env sequence target \<longrightarrow>
      content_at (fst_files s') q = content_at (fst_files s) q) \<and>
    (result = OK \<or> s' \<noteq> s \<and> wrp_remove env \<longrightarrow>
      content_at (fst_files s') (staging_path env sequence target) = None)"
  using assms by (rule atomic_write_moments)

definition sample_writer :: write_platform where
  "sample_writer = \<lparr>wrp_parent = (\<lambda>_. Some FK_Directory), wrp_create = True, wrp_flush = None, wrp_close = True,
     wrp_rename = True, wrp_remove = True, wrp_process = 7\<rparr>"

definition sample_target :: fs_path where
  "sample_target = \<lparr>fp_absolute = True, fp_parts = [''w'', ''f'']\<rparr>"

definition sample_store :: file_store where
  "sample_store = \<lparr>fst_files = [(sample_target, ''old'')], fst_history = []\<rparr>"

lemma sample_written:
  "fst (atomic_write_file sample_writer 0 sample_target ''new'' sample_store) = OK"
  "content_at (fst_files sample_store) (staging_path sample_writer 0 sample_target) = None"
  by code_simp+

text \<open>A rename that fails, with a removal that fails: the staging file survives.\<close>

definition failing_writer :: write_platform where
  "failing_writer = sample_writer\<lparr>wrp_rename := False, wrp_remove := False\<rparr>"

lemma staging_survives:
  "content_at (fst_files (snd (atomic_write_file failing_writer 0 sample_target ''new'' sample_store)))
    (staging_path failing_writer 0 sample_target) = Some ''new''"
  "fst (atomic_write_file failing_writer 0 sample_target ''new'' sample_store) = Inl E_PersistenceIoFailure"
  "content_at (fst_files sample_store) sample_target = Some ''old''"
  by code_simp+

lemma atomic_write_all_or_nothing_witness:
  "content_at (fst_files (snd (atomic_write_file sample_writer 0 sample_target ''new'' sample_store))) sample_target =
    Some ''new'' \<and>
   content_at (fst_files (snd (atomic_write_file sample_writer 0 sample_target ''new'' sample_store)))
     (staging_path sample_writer 0 sample_target) = None \<and>
   content_at (fst_files (snd (atomic_write_file failing_writer 0 sample_target ''new'' sample_store))) sample_target =
    Some ''old''"
  using atomic_write_all_or_nothing [OF surjective_pairing, of sample_writer 0 sample_target "''new''" sample_store]
    atomic_write_all_or_nothing [OF surjective_pairing, of failing_writer 0 sample_target "''new''" sample_store]
    sample_written(1) staging_survives
  by simp

section \<open>Names that cannot be made\<close>

text \<open>A name is passed over when it is taken, and also when it cannot be made.\<close>

definition passed_over :: "directory_platform \<Rightarrow> string \<Rightarrow> u64 \<Rightarrow> bool" where
  "passed_over env p sequence \<longleftrightarrow>
    (case dp_exists env (unique_name env p sequence) of
       Inl _ \<Rightarrow> False | Inr present \<Rightarrow> present \<or> \<not> dp_create env (unique_name env p sequence))"

lemma try_names_step:
  "try_names env p sequence = (if passed_over env p sequence then try_names env p (sequence + 1)
    else Some (case dp_exists env (unique_name env p sequence) of
      Inl _ \<Rightarrow> Inl E_IoFailure | Inr _ \<Rightarrow> Inr (unique_name env p sequence), sequence + 1))"
  by (subst try_names.simps) (auto simp: passed_over_def split: sum.splits)

lemma try_names_returns:
  assumes "try_names env p sequence = Some r"
  shows "\<exists>n. \<not> passed_over env p (sequence + of_nat n)"
  using _ assms
proof (rule try_names.raw_induct [where P = "\<lambda>env p sequence _. \<exists>n. \<not> passed_over env p (sequence + of_nat n)"])
  fix search env p sequence r
  assume searched: "\<And>env p sequence r. search env p sequence = Some r \<Longrightarrow> \<exists>n. \<not> passed_over env p (sequence + of_nat n)"
    and result: "(case dp_exists env (unique_name env p sequence) of
       Inl _ \<Rightarrow> Some (Inl E_IoFailure, sequence + 1)
     | Inr present \<Rightarrow> if present then search env p (sequence + 1)
         else if dp_create env (unique_name env p sequence) then Some (Inr (unique_name env p sequence), sequence + 1)
         else search env p (sequence + 1)) = Some r"
  show "\<exists>n. \<not> passed_over env p (sequence + of_nat n)"
  proof (cases "passed_over env p sequence")
    case False
    then show ?thesis by (intro exI [of _ 0]) simp
  next
    case True
    then have "search env p (sequence + 1) = Some r"
      using result by (auto simp: passed_over_def split: sum.splits if_splits)
    then obtain n where "\<not> passed_over env p (sequence + 1 + of_nat n)"
      using searched by blast
    then show ?thesis
      by (intro exI [of _ "Suc n"]) (simp add: add.assoc)
  qed
qed

lemma try_names_spins: "try_names env p sequence = None \<Longrightarrow> passed_over env p (sequence + of_nat n)"
proof (induction n arbitrary: sequence)
  case 0
  then show ?case by (subst (asm) try_names_step) (simp split: if_splits)
next
  case (Suc n)
  then have "try_names env p (sequence + 1) = None"
    by (subst (asm) (2) try_names_step) (simp split: if_splits)
  then show ?case
    using Suc.IH [of "sequence + 1"] by (simp add: add.assoc)
qed

lemma make_unique_directory_eq:
  "make_unique_directory env p sequence =
    (if validate_prefix p = OK \<and> dp_base env then try_names env p sequence
     else Some (Inl (if validate_prefix p = OK then E_WorkspaceFailure else projl (validate_prefix p)), sequence))"
  by (cases "validate_prefix p") (auto simp: make_unique_directory_def require_def)

lemma try_names_None: "try_names env p sequence = None \<longleftrightarrow> (\<forall>n. passed_over env p (sequence + of_nat n))"
  using try_names_returns [of env p sequence] try_names_spins [of env p sequence]
  by (cases "try_names env p sequence") auto

text \<open>In a base nothing can be created in, the search never returns.\<close>

lemma uncreatable_base_spins:
  assumes "validate_prefix p = OK" and "dp_base env" and "\<And>name. dp_exists env name = Inr False \<and> \<not> dp_create env name"
  shows "make_unique_directory env p sequence = None"
  using assms by (simp add: make_unique_directory_eq try_names_None passed_over_def)

text \<open>
  C33: The search for a unique directory fails to return exactly when the prefix and the base are
  accepted and every name it can form is taken or cannot be made: a directory in which nothing
  can be created keeps it busy for ever.
\<close>

theorem unique_directory_search_ends:
  "make_unique_directory env p sequence = None \<longleftrightarrow>
    validate_prefix p = OK \<and> dp_base env \<and> (\<forall>n. passed_over env p (sequence + of_nat n))"
  by (cases "validate_prefix p = OK \<and> dp_base env") (auto simp: make_unique_directory_eq try_names_None)

end
