(* ===== verification/Sink_Guarantees.thy ===== *)
theory Sink_Guarantees
  imports Promotion_Sink Workspace_Guarantees
begin

text \<open>
  What the promotion sink leaves in its directory, what a reader of a rendered text can get back
  from it, and why the two documents are not JSON.
\<close>

section \<open>Strings\<close>

text \<open>
  The reader of a JSON string: the bytes up to the closing quotation mark, with the escapes
  resolved. An escape \<^verbatim>\<open>u\<close> is read as the byte of its last two digits.
\<close>

definition hex_value :: "char \<Rightarrow> nat" where
  "hex_value c = length (takeWhile (\<lambda>d. d \<noteq> c) hex_digits)"

definition plain_escape :: "char \<Rightarrow> char" where
  "plain_escape e =
    (if e = CHR 0x62 then CHR 0x08 else if e = CHR 0x66 then CHR 0x0C
     else if e = CHR 0x6E then CHR 0x0A else if e = CHR 0x72 then CHR 0x0D
     else if e = CHR 0x74 then CHR 0x09 else e)"

fun read_json_chars :: "string \<Rightarrow> (string \<times> string) option" where
  "read_json_chars [] = None"
| "read_json_chars (c # cs) =
    (if c = quote_char then Some ([], cs)
     else if c \<noteq> backslash then map_option (apfst (Cons c)) (read_json_chars cs)
     else case cs of
       [] \<Rightarrow> None
     | e # ds \<Rightarrow>
         if e \<noteq> CHR 0x75 then map_option (apfst (Cons (plain_escape e))) (read_json_chars ds)
         else if length ds < 4 then None
         else map_option (apfst (Cons (char_of (16 * hex_value (ds ! 2) + hex_value (ds ! 3)))))
           (read_json_chars (drop 4 ds)))"

definition read_json_string :: "string \<Rightarrow> (string \<times> string) option" where
  "read_json_string cs = (case cs of [] \<Rightarrow> None
    | c # ds \<Rightarrow> if c = quote_char then read_json_chars ds else None)"

lemma hex_value_digit: "n < 16 \<Longrightarrow> hex_value (hex_digits ! n) = n"
proof -
  have "list_all (\<lambda>n. hex_value (hex_digits ! n) = n) [0..<16]"
    by code_simp
  then show "n < 16 \<Longrightarrow> hex_value (hex_digits ! n) = n"
    by (simp only: list_all_iff atLeastLessThan_iff set_upt le0 simp_thms)
qed

lemma hex_digit_printable: "n < 16 \<Longrightarrow> hex_digits ! n \<in> set hex_digits"
  by (rule nth_mem) (simp add: hex_digits_def)

lemma nibbles: "unat (drop_bit 4 b AND 0x0F) = unat b div 16" "unat (b AND 0x0F) = unat b mod 16" for b :: u8
proof -
  have mask: "(0x0F :: u8) = mask 4"
    by (simp add: mask_eq_exp_minus_1)
  have "unat b < 2 ^ LENGTH(8)"
    by (rule unsigned_less)
  then have small: "unat b div 16 < 16"
    by (simp add: less_mult_imp_div_less)
  show "unat (b AND 0x0F) = unat b mod 16"
    unfolding mask take_bit_eq_mask [symmetric] unsigned_take_bit_eq by (simp add: take_bit_eq_mod)
  show "unat (drop_bit 4 b AND 0x0F) = unat b div 16"
    unfolding mask take_bit_eq_mask [symmetric] unsigned_take_bit_eq
    using small by (simp add: take_bit_eq_mod drop_bit_eq_div unat_div)
qed

lemma char_nibble: "(of_char c :: nat) div 16 < 16"
proof -
  have "(of_char c :: nat) < 256"
    by (metis nat_of_char_less_256)
  then show ?thesis
    by (simp add: less_mult_imp_div_less)
qed

lemma byte_of_char: "unat (of_char c :: u8) = of_char c"
  by (cases c) (simp add: of_char_def)

lemma printable_hex: "d \<in> set hex_digits \<Longrightarrow> 0x20 \<le> (of_char d :: nat) \<and> (of_char d :: nat) < 0x7F"
  by (auto simp: hex_digits_def)

lemma read_json_char:
  "read_json_chars (json_char c @ rest) = map_option (apfst (Cons c)) (read_json_chars rest)"
proof -
  let ?b = "of_char c :: u8"
  have digits: "append_hex_byte ?b = [hex_digits ! (of_char c div 16), hex_digits ! (of_char c mod 16)]"
    unfolding append_hex_byte_def nibbles(1) unfolding nibbles(2) byte_of_char ..
  have "char_of (16 * hex_value (append_hex_byte ?b ! 0) + hex_value (append_hex_byte ?b ! 1)) = c"
    unfolding digits by (simp add: hex_value_digit char_nibble)
  moreover have "length (append_hex_byte ?b) = 2"
    by (simp add: digits)
  ultimately show ?thesis
    by (auto simp: json_char_def quote_char_def backslash_def plain_escape_def nth_append numeral_2_eq_2 numeral_3_eq_3)
qed

lemma read_json_text:
  "read_json_chars (concat (map json_char v) @ quote_char # rest) = Some (v, rest)"
  by (induction v) (simp_all add: read_json_char)

lemma json_char_printable:
  "set (json_char c) \<subseteq> {d. 0x20 \<le> (of_char d :: nat) \<and> (of_char d :: nat) < 0x7F}"
proof -
  let ?b = "of_char c :: u8"
  have hex: "set (append_hex_byte ?b) \<subseteq> set hex_digits"
    unfolding append_hex_byte_def nibbles(1) unfolding nibbles(2) byte_of_char by (simp add: hex_digit_printable char_nibble)
  have b: "(?b < 0x20 \<longleftrightarrow> (of_char c :: nat) < 0x20) \<and> (0x7F \<le> ?b \<longleftrightarrow> 0x7F \<le> (of_char c :: nat))"
    by (simp add: word_less_nat_alt word_le_nat_alt byte_of_char)
  show ?thesis
    using hex printable_hex b by (auto simp: json_char_def quote_char_def backslash_def)
qed

text \<open>
  A rendered string gives its bytes back, whatever they are and whatever follows: the reader
  finds the end of the string at the closing quotation mark the renderer wrote, so no byte of a
  value is mistaken for structure. The text is printable ASCII.
\<close>

theorem rendered_string_reads_back:
  "read_json_string (append_json_string v @ rest) = Some (v, rest) \<and>
   (\<forall>c \<in> set (append_json_string v). 0x20 \<le> (of_char c :: nat) \<and> (of_char c :: nat) < 0x7F)"
proof
  show "read_json_string (append_json_string v @ rest) = Some (v, rest)"
    by (simp add: read_json_string_def append_json_string_def read_json_text)
  show "\<forall>c \<in> set (append_json_string v). 0x20 \<le> (of_char c :: nat) \<and> (of_char c :: nat) < 0x7F"
    using json_char_printable by (fastforce simp: append_json_string_def quote_char_def)
qed

section \<open>The shape of JSON\<close>

text \<open>
  A pushdown automaton over the characters of a text. It checks how strings, brackets, colons
  and commas follow each other and lets every word of letters, digits and signs pass for a number
  or a literal, so it accepts every JSON text, and more. A bracket on the stack is \<open>True\<close> for an
  object.
\<close>

datatype json_mode =
    JM_Value | JM_Element | JM_Member | JM_Key | JM_Colon | JM_After | JM_Atom
  | JM_Text bool | JM_Escape bool

type_synonym json_state = "json_mode \<times> bool list"

definition json_space :: "char \<Rightarrow> bool" where
  "json_space c \<longleftrightarrow> c \<in> {CHR 0x20, CHR 0x09, CHR 0x0A, CHR 0x0D}"

definition json_atom :: "char \<Rightarrow> bool" where
  "json_atom c \<longleftrightarrow> (let n = of_char c :: nat in
     48 \<le> n \<and> n \<le> 57 \<or> 65 \<le> n \<and> n \<le> 90 \<or> 97 \<le> n \<and> n \<le> 122 \<or> c \<in> {CHR 0x2B, CHR 0x2D, CHR 0x2E})"

definition json_value :: "char \<Rightarrow> bool list \<Rightarrow> json_state option" where
  "json_value c stack =
    (if c = quote_char then Some (JM_Text False, stack)
     else if c = CHR 0x7B then Some (JM_Member, True # stack)
     else if c = CHR 0x5B then Some (JM_Element, False # stack)
     else if json_atom c then Some (JM_Atom, stack) else None)"

definition json_after :: "char \<Rightarrow> bool list \<Rightarrow> json_state option" where
  "json_after c stack =
    (if json_space c then Some (JM_After, stack)
     else case stack of
       [] \<Rightarrow> None
     | object # outer \<Rightarrow>
         if c = CHR 0x2C then Some (if object then JM_Key else JM_Value, stack)
         else if c = (if object then CHR 0x7D else CHR 0x5D) then Some (JM_After, outer) else None)"

fun json_step :: "char \<Rightarrow> json_state \<Rightarrow> json_state option" where
  "json_step c (JM_Value, stack) = (if json_space c then Some (JM_Value, stack) else json_value c stack)"
| "json_step c (JM_Element, stack) =
    (if json_space c then Some (JM_Element, stack)
     else if c = CHR 0x5D then Some (JM_After, tl stack) else json_value c stack)"
| "json_step c (JM_Member, stack) =
    (if json_space c then Some (JM_Member, stack)
     else if c = CHR 0x7D then Some (JM_After, tl stack)
     else if c = quote_char then Some (JM_Text True, stack) else None)"
| "json_step c (JM_Key, stack) =
    (if json_space c then Some (JM_Key, stack)
     else if c = quote_char then Some (JM_Text True, stack) else None)"
| "json_step c (JM_Colon, stack) =
    (if json_space c then Some (JM_Colon, stack)
     else if c = CHR 0x3A then Some (JM_Value, stack) else None)"
| "json_step c (JM_After, stack) = json_after c stack"
| "json_step c (JM_Atom, stack) = (if json_atom c then Some (JM_Atom, stack) else json_after c stack)"
| "json_step c (JM_Text key, stack) =
    (if c = quote_char then Some (if key then JM_Colon else JM_After, stack)
     else Some (if c = backslash then JM_Escape key else JM_Text key, stack))"
| "json_step c (JM_Escape key, stack) = Some (JM_Text key, stack)"

definition json_run :: "string \<Rightarrow> json_state option \<Rightarrow> json_state option" where
  "json_run text st = fold (\<lambda>c st. Option.bind st (json_step c)) text st"

definition json_shaped :: "string \<Rightarrow> bool" where
  "json_shaped text \<longleftrightarrow> (case json_run text (Some (JM_Value, [])) of
     None \<Rightarrow> False | Some (mode, stack) \<Rightarrow> stack = [] \<and> (mode = JM_After \<or> mode = JM_Atom))"

lemma json_run_append: "json_run (xs @ ys) st = json_run ys (json_run xs st)"
  by (simp add: json_run_def)

lemma json_run_None [simp]: "json_run xs None = None"
  by (induction xs) (simp_all add: json_run_def)

text \<open>The automaton passes what the renderer writes where no object opens with a comma.\<close>

lemma json_shaped_parts:
  "json_shaped (''{'' @ append_field_json 1 ''a'' ''b'' True @ append_enum_field 1 ''c'' ''d'' 1 False @ close_object 0)"
  by code_simp

definition request_opening :: string where
  "request_opening = ''{'' @ newline
    @ append_field_json 1 ''document'' ''autonomous-foundry.promotion-request'' True
    @ append_unsigned_field 1 ''document_version'' 1 False
    @ append_field_json 1 ''runtime_claim'' ''eligible-for-handoff; not promoted by this runtime'' False
    @ open_member ''identity'' ''{'' @ '',''"

definition receipt_opening :: string where
  "receipt_opening = ''{'' @ newline
    @ append_field_json 1 ''document'' ''autonomous-foundry.promotion-receipt'' True
    @ append_unsigned_field 1 ''document_version'' 1 False
    @ open_member ''request'' ''{'' @ '',''"

lemma openings_rejected:
  "json_run request_opening (Some (JM_Value, [])) = None"
  "json_run receipt_opening (Some (JM_Value, [])) = None"
  by code_simp+

text \<open>
  C34: Neither document is ever JSON. Whatever the request and the receipt hold, the first
  identity of the first object is written with the comma that separates it from a member that is
  not there, and no text that goes on after an opening brace and a comma has the shape of JSON.
\<close>

theorem sink_documents_are_not_json:
  "\<not> json_shaped (render_request r canonical_digest canonical_bytes) \<and>
   \<not> json_shaped (render_receipt receipt r)"
proof -
  have "\<exists>rest. render_request r canonical_digest canonical_bytes = request_opening @ rest"
    by (simp add: render_request_def request_opening_def render_identity_part_def append_identity_field_def
        begin_member_def)
  moreover have "\<exists>rest. render_receipt receipt r = receipt_opening @ rest"
    by (simp add: render_receipt_def receipt_opening_def append_identity_field_def begin_member_def)
  ultimately show ?thesis
    by (auto simp: json_shaped_def json_run_append openings_rejected)
qed

section \<open>The files of a handoff\<close>

lemma file_names:
  "request_file r = identity_stem (pr_id r) @ ''.jso'' @ ''n''"
  "receipt_file r = identity_stem (pr_id r) @ ''.receipt.jso'' @ ''n''"
  by (simp_all add: request_file_def receipt_file_def)

lemma request_not_receipt: "request_file r \<noteq> receipt_file r"
  by (simp add: request_file_def receipt_file_def)

text \<open>The name of a staging file ends in a digit, that of a document does not.\<close>

lemma staging_no_document:
  assumes "fp_parts target \<noteq> []"
  shows "staging_path env sequence target \<noteq> request_path directory r"
    and "staging_path env sequence target \<noteq> receipt_path directory r"
proof -
  have "decimal n \<noteq> []" for n
    using decimal_not_Nil by simp
  then have "last (last (fp_parts (staging_path env sequence target))) \<in> set (decimal (unat sequence))"
    by (simp add: staging_path_def append_parts_def parent_path_def)
  then have "is_digit_char (last (last (fp_parts (staging_path env sequence target))))"
    using decimal_digits by blast
  moreover have "\<not> is_digit_char (last (last (fp_parts (request_path directory r))))"
    "\<not> is_digit_char (last (last (fp_parts (receipt_path directory r))))"
    by (simp_all add: request_path_def receipt_path_def append_parts_def file_names is_digit_char_def)
  ultimately show "staging_path env sequence target \<noteq> request_path directory r"
    "staging_path env sequence target \<noteq> receipt_path directory r"
    by auto
qed

definition stored :: "local_promotion_sink \<Rightarrow> fs_path \<Rightarrow> string option" where
  "stored s p = content_at (fst_files (lps_files s)) p"

abbreviation (input) request_text :: "promotion_request \<Rightarrow> string" where
  "request_text r \<equiv> render_request r (sha256_hex (encode_promotion_request_canonical r))
     (length (encode_promotion_request_canonical r))"

text \<open>The staging files of the two writes.\<close>

definition request_staging :: "sink_platform \<Rightarrow> fs_path \<Rightarrow> promotion_request \<Rightarrow> fs_path" where
  "request_staging env directory r =
    staging_path (sp_request_writer env) (sp_request_sequence env) (request_path directory r)"

definition receipt_staging :: "sink_platform \<Rightarrow> fs_path \<Rightarrow> promotion_request \<Rightarrow> fs_path" where
  "receipt_staging env directory r =
    staging_path (sp_receipt_writer env) (sp_receipt_sequence env) (receipt_path directory r)"

lemma sink_paths_differ:
  "request_path d r \<noteq> receipt_path d r"
  "request_staging env d r \<noteq> request_path d r" "request_staging env d r \<noteq> receipt_path d r"
  "receipt_staging env d r \<noteq> request_path d r" "receipt_staging env d r \<noteq> receipt_path d r"
  "request_staging env d r \<noteq> receipt_staging env d r"
proof -
  show "request_path d r \<noteq> receipt_path d r"
    using request_not_receipt [of r]
    by (auto simp: request_path_def receipt_path_def append_parts_def dest: arg_cong [of _ _ fp_parts])
  have parts: "fp_parts (request_path d r) \<noteq> []" "fp_parts (receipt_path d r) \<noteq> []"
    by (simp_all add: request_path_def receipt_path_def append_parts_def)
  show "request_staging env d r \<noteq> request_path d r" "request_staging env d r \<noteq> receipt_path d r"
    "receipt_staging env d r \<noteq> request_path d r" "receipt_staging env d r \<noteq> receipt_path d r"
    using staging_no_document [OF parts(1)] staging_no_document [OF parts(2)]
    by (simp_all add: request_staging_def receipt_staging_def)
  have "identity_stem (pr_id r) @ ''.json'' @ xs \<noteq> identity_stem (pr_id r) @ ''.receipt.json'' @ ys" for xs ys
    by simp
  then have "fp_parts (request_staging env d r) \<noteq> fp_parts (receipt_staging env d r)"
    by (simp add: request_staging_def receipt_staging_def staging_path_def append_parts_def parent_path_def
        request_path_def receipt_path_def request_file_def receipt_file_def)
  then show "request_staging env d r \<noteq> receipt_staging env d r"
    by auto
qed

lemma put_file_effect:
  assumes "put_file writer sequence path content s = (result, s')"
  shows "lps_directory s' = lps_directory s"
    and "stored s' path = (if result = OK then Some content else stored s path)"
    and "q \<noteq> path \<Longrightarrow> q \<noteq> staging_path writer sequence path \<Longrightarrow> stored s' q = stored s q"
    and "result = OK \<or> wrp_remove writer \<Longrightarrow>
      stored s' (staging_path writer sequence path) \<in> {None, stored s (staging_path writer sequence path)}"
    and "result = OK \<Longrightarrow> stored s' (staging_path writer sequence path) = None"
proof -
  obtain files where written: "atomic_write_file writer sequence path content (lps_files s) = (result, files)"
    and s': "s' = s\<lparr>lps_files := files\<rparr>"
    using assms by (auto simp: put_file_def split: prod.splits)
  note moments = atomic_write_moments [OF written]
  show "lps_directory s' = lps_directory s"
    by (simp add: s')
  show "stored s' path = (if result = OK then Some content else stored s path)"
    using moments by (simp add: stored_def s')
  show "stored s' q = stored s q" if "q \<noteq> path" "q \<noteq> staging_path writer sequence path"
    using moments that by (simp add: stored_def s')
  show "stored s' (staging_path writer sequence path) \<in> {None, stored s (staging_path writer sequence path)}"
    if "result = OK \<or> wrp_remove writer"
    using moments that by (cases "files = lps_files s") (auto simp: stored_def s')
  show "stored s' (staging_path writer sequence path) = None" if "result = OK"
    using moments that by (simp add: stored_def s')
qed

lemma prepare_files:
  "lps_files (snd (prepare env s)) = lps_files s" "lps_directory (snd (prepare env s)) = lps_directory s"
  by (cases "ensure_directory_plain (sp_workspace env) (lps_directory s)";
      cases "wsp_create_directories (sp_workspace env) (lps_directory s)"; simp add: prepare_def action_defs require_def)+

lemma submit_cases:
  assumes "submit env r s = (result, s')" and "validate_submission r = OK"
  obtains (nothing) e where "result = Inl e" and "stored s' = stored s"
  | (request) e t where "result = Inl e" and "stored t = stored s"
      and "put_file (sp_request_writer env) (sp_request_sequence env) (request_path (lps_directory s) r)
        (request_text r) t = (Inl e, s')"
  | (receipt) t u v where "stored t = stored s"
      and "put_file (sp_request_writer env) (sp_request_sequence env) (request_path (lps_directory s) r)
        (request_text r) t = (OK, u)"
      and "put_file (sp_receipt_writer env) (sp_receipt_sequence env) (receipt_path (lps_directory s) r)
        (render_receipt (local_receipt env (lps_directory s) r) r) u = (v, s')"
      and "result = (case v of Inl e \<Rightarrow> Inl e | Inr _ \<Rightarrow> Inr (local_receipt env (lps_directory s) r))"
proof -
  obtain prepared t where p: "prepare env s = (prepared, t)"
    by fastforce
  then have t: "stored t = stored s" "lps_directory t = lps_directory s"
    using prepare_files [of env s] by (simp_all add: stored_def fun_eq_iff)
  show ?thesis
  proof (cases prepared)
    case (Inl e)
    then show ?thesis
      using assms p t by (intro that(1) [of e]) (auto simp: submit_def action_defs)
  next
    case (Inr u)
    obtain first u where put: "put_file (sp_request_writer env) (sp_request_sequence env)
        (request_path (lps_directory s) r) (request_text r) t = (first, u)"
      by fastforce
    have run: "submit env r s = thenA (put_file (sp_request_writer env) (sp_request_sequence env)
          (request_path (lps_directory s) r) (request_text r))
        (thenA (put_file (sp_receipt_writer env) (sp_receipt_sequence env) (receipt_path (lps_directory s) r)
          (render_receipt (local_receipt env (lps_directory s) r) r)) (retA (local_receipt env (lps_directory s) r))) t"
      using assms(2) p Inr by (simp add: submit_def thenA_def bindA_def checkA_def readA_def Let_def) (simp only: t(2) cong: sum.case_cong prod.case_cong)
    show ?thesis
    proof (cases first)
      case (Inl e)
      then show ?thesis
        using assms(1) t(1) put unfolding run by (intro that(2) [of e t]) (auto simp: thenA_def bindA_def)
    next
      case (Inr x)
      obtain v w where second: "put_file (sp_receipt_writer env) (sp_receipt_sequence env)
          (receipt_path (lps_directory s) r) (render_receipt (local_receipt env (lps_directory s) r) r) u = (v, w)"
        by fastforce
      have "s' = w" "result = (case v of Inl e \<Rightarrow> Inl e | Inr _ \<Rightarrow> Inr (local_receipt env (lps_directory s) r))"
        using assms(1) put second Inr unfolding run
        by (auto simp: thenA_def bindA_def retA_def split: sum.splits)
      then show ?thesis
        using that(3) [OF t(1), of u v] put second Inr by simp
    qed
  qed
qed

text \<open>
  C35: What a submission leaves. A success stores two files, the rendering of the request and of
  the receipt that is returned, which says accepted for processing and carries the digest of the
  canonical bytes of the request; both staging files are gone. After a failure the receipt file is
  what it was and the request file is what it was or the rendering of the request; a request that
  fails the validation changes nothing. In every case no file but the two documents and the two
  staging files differs from what it was, and a staging file is only left behind by a submission
  that fails, when the platform refuses the removal of that file.
\<close>

theorem submission_stores_the_handoff:
  assumes "submit env r s = (result, s')" and "d = lps_directory s"
  shows "(case result of
      Inr receipt \<Rightarrow> receipt = local_receipt env d r \<and> rcp_handoff receipt = PH_AcceptedForProcessing \<and>
        rcp_request_digest receipt = sha256_hex (encode_promotion_request_canonical r) \<and>
        stored s' (receipt_path d r) = Some (render_receipt receipt r) \<and>
        stored s' (request_path d r) = Some (render_request r (rcp_request_digest receipt)
          (length (encode_promotion_request_canonical r))) \<and>
        stored s' (request_staging env d r) = None \<and> stored s' (receipt_staging env d r) = None
    | Inl e \<Rightarrow> stored s' (receipt_path d r) = stored s (receipt_path d r) \<and>
        stored s' (request_path d r) \<in> {stored s (request_path d r), Some (render_request r
          (sha256_hex (encode_promotion_request_canonical r)) (length (encode_promotion_request_canonical r)))} \<and>
        (wrp_remove (sp_request_writer env) \<longrightarrow>
          stored s' (request_staging env d r) \<in> {None, stored s (request_staging env d r)}) \<and>
        (wrp_remove (sp_receipt_writer env) \<longrightarrow>
          stored s' (receipt_staging env d r) \<in> {None, stored s (receipt_staging env d r)}) \<and>
        (validate_submission r \<noteq> OK \<longrightarrow> s' = s)) \<and>
    (\<forall>p. p \<notin> {request_path d r, receipt_path d r, request_staging env d r, receipt_staging env d r} \<longrightarrow>
      stored s' p = stored s p)"
proof (cases "validate_submission r")
  case (Inl e)
  then show ?thesis
    using assms by (auto simp: submit_def action_defs)
next
  case (Inr u)
  then have valid: "validate_submission r = OK"
    by simp
  note differ = sink_paths_differ(1) [of d r] sink_paths_differ(2-) [of env d r]
  from assms(1) valid show ?thesis
  proof (cases rule: submit_cases)
    case (nothing e)
    then show ?thesis using valid by simp
  next
    case (request e t)
    note effect = put_file_effect [OF request(3) [folded assms(2)], folded request_staging_def]
    show ?thesis
      using effect differ request(1,2) valid by auto
  next
    case (receipt t u v)
    note first = put_file_effect [OF receipt(2) [folded assms(2)], folded request_staging_def]
      and second = put_file_effect [OF receipt(3) [folded assms(2)], folded receipt_staging_def]
    show ?thesis
      using first second differ receipt(1,4) valid
      by (cases v) (auto simp: assms(2) [symmetric] local_receipt_def)
  qed
qed

definition sample_request :: promotion_request where
  "sample_request = \<lparr>pr_id = StrongId 1, pr_foundry = null_id, pr_run = null_id, pr_epoch = epoch_none,
     pr_population = null_id, pr_population_gen = gen_none, pr_candidate = null_id, pr_candidate_gen = gen_none,
     pr_task = null_id, pr_task_gen = gen_none, pr_lineage = null_id, pr_selection_gen = gen_none,
     pr_policy = null_id, pr_policy_gen = gen_none, pr_evidence_gen = gen_none, pr_eligibility = PE_Eligible,
     pr_outstanding = [], pr_artifacts = [\<lparr>art_name = ''a'', art_size = 1, art_digest = replicate 64 CHR 0x30\<rparr>],
     pr_total_bytes = 1, pr_artifact_set_digest = [], pr_evidence = [], pr_ancestry = [], pr_lineage_depth = 0,
     pr_digest = []\<rparr>"

definition plain_platform :: workspace_platform where
  "plain_platform = \<lparr>wsp_link_status = \<lambda>_. Some FK_Directory, wsp_status = \<lambda>_. Some FK_Directory,
     wsp_canonical = Some, wsp_size = \<lambda>_. None, wsp_open = \<lambda>_. None, wsp_entries = \<lambda>_. None,
     wsp_create_directories = \<lambda>_. True\<rparr>"

definition sample_sink :: sink_platform where
  "sample_sink = \<lparr>sp_workspace = plain_platform, sp_request_writer = sample_writer, sp_request_sequence = 3,
     sp_receipt_writer = sample_writer, sp_receipt_sequence = 5, sp_path_text = \<lambda>p. concat (fp_parts p)\<rparr>"

definition empty_sink :: local_promotion_sink where
  "empty_sink = \<lparr>lps_directory = \<lparr>fp_absolute = True, fp_parts = [''out'']\<rparr>, lps_prepared = False,
     lps_files = \<lparr>fst_files = [], fst_history = []\<rparr>\<rparr>"

lemma sample_request_valid: "validate_submission sample_request = OK"
  by code_simp

lemma sample_put:
  "fst (put_file sample_writer n (append_parts \<lparr>fp_absolute = True, fp_parts = [''out'']\<rparr> [name]) content s) = OK"
  by (simp add: put_file_def atomic_write_file_def append_parts_def sample_writer_def write_staging_file_def
      replace_with_staging_def change_files_def action_defs split: prod.splits)

lemma sample_submitted:
  "fst (submit sample_sink sample_request empty_sink) =
    Inr (local_receipt sample_sink (lps_directory empty_sink) sample_request)"
proof -
  let ?d = "\<lparr>fp_absolute = True, fp_parts = [''out'']\<rparr>"
  obtain t where t: "prepare sample_sink empty_sink = (OK, t)" "lps_directory t = ?d"
    using prepare_files(2) [of sample_sink empty_sink]
    by (simp add: prepare_def action_defs sample_sink_def plain_platform_def empty_sink_def ensure_directory_plain_def
        path_empty_def reparse_status_def probe_reparse_point_def require_def)
  obtain u where u: "put_file sample_writer 3 (append_parts ?d [request_file sample_request]) (request_text sample_request) t = (OK, u)"
    using sample_put by (metis prod.collapse)
  obtain v where v: "put_file sample_writer 5 (append_parts ?d [receipt_file sample_request])
      (render_receipt (local_receipt sample_sink ?d sample_request) sample_request) u = (OK, v)"
    using sample_put by (metis prod.collapse)
  show ?thesis
    using t u v
    by (simp add: submit_def sample_request_valid thenA_def bindA_def checkA_def readA_def Let_def request_path_def
        receipt_path_def retA_def) (simp add: sample_sink_def empty_sink_def)
qed

lemma submission_stores_the_handoff_witness:
  "let d = lps_directory empty_sink; s' = snd (submit sample_sink sample_request empty_sink) in
   stored empty_sink (receipt_path d sample_request) = None \<and>
   stored s' (receipt_path d sample_request) =
     Some (render_receipt (local_receipt sample_sink d sample_request) sample_request) \<and>
   stored s' (request_staging sample_sink d sample_request) = None"
proof -
  have "submit sample_sink sample_request empty_sink =
      (Inr (local_receipt sample_sink (lps_directory empty_sink) sample_request),
       snd (submit sample_sink sample_request empty_sink))"
    using sample_submitted by (metis prod.collapse)
  note submission_stores_the_handoff [OF this refl]
  then show ?thesis
    by (simp add: Let_def) (simp add: stored_def empty_sink_def content_at_def)
qed

end
