(* ===== verification/Evaluator.thy ===== *)
theory Evaluator
  imports Coordinator_Pump Reference_Task "HOL-Library.Sublist"
begin

text \<open>
  The reference evaluators (evaluator.cpp): the toolchain that is looked for, the compilation of
  a candidate against the harness of the evaluator, the four evaluators and their registry, as
  they run on POSIX.

  The platform answers what the environment holds, which files exist and can be written, and what
  a process does. A process may depend on the files of the scratch directory and on the
  processes that were run before it. \<^verbatim>\<open>std::istream >> double\<close> is a parameter. A failure inside
  an evaluator only shows by the text of its status, so it is a text here.
\<close>

section \<open>Harnesses\<close>

definition kTestHarness :: string where \<open>kTestHarness =
''#include <cstdint>
#include <cstdio>

#include "af_reference.hpp"

namespace {

// Independent, deliberately naive reference: a plain accumulation loop. This
// is not the candidate implementation and it is not a stored constant, so a
// candidate cannot satisfy the harness by printing a token.
std::uint64_t reference_value(std::uint32_t n) {
  std::uint64_t total = 0;
  for (std::uint32_t i = 1; i <= n; ++i) {
    const std::uint64_t term = static_cast<std::uint64_t>(i) * static_cast<std::uint64_t>(i);
    total = total + term;
  }
  return total;
}

int check_case(std::uint32_t n) {
  const std::uint64_t expected = reference_value(n);
  const std::uint64_t observed = af_reference_sum_of_squares(n);
  if (observed != expected) {
    std::printf("AF_REFERENCE_MISMATCH n=%u expected=%llu observed=%llu'' @ [CHR 0x5C] @ ''n", n,
                static_cast<unsigned long long>(expected),
                static_cast<unsigned long long>(observed));
    return 1;
  }
  return 0;
}

}  // namespace

int main() {
  const std::uint32_t cases[] = {0u, 1u, 2u, 3u, 6u, 7u, 10u, 1000u, 100000u, 1000000u};
  for (std::size_t index = 0; index < (sizeof(cases) / sizeof(cases[0])); ++index) {
    if (check_case(cases[index]) != 0) {
      return 1;
    }
  }
  std::printf("AF_REFERENCE_OK'' @ [CHR 0x5C] @ ''n");
  return 0;
}
''\<close>

definition kBenchmarkHarness :: string where \<open>kBenchmarkHarness =
''#include <chrono>
#include <cstdint>
#include <cstdio>

#include "af_reference.hpp"

int main() {
  const std::uint32_t rounds = 32;
  const std::uint32_t n = 1000000u;

  std::uint64_t sink = 0;
  const auto start = std::chrono::steady_clock::now();
  for (std::uint32_t round = 0; round < rounds; ++round) {
    sink = sink + af_reference_sum_of_squares(n);
  }
  const auto finish = std::chrono::steady_clock::now();

  const double micros = std::chrono::duration<double, std::micro>(finish - start).count();
  if (micros <= 0.0) {
    std::printf("AF_BENCH_INVALID'' @ [CHR 0x5C] @ ''n");
    return 1;
  }
  const double operations_per_second = static_cast<double>(rounds) * 1.0e6 / micros;
  std::printf("AF_BENCH_OPS_PER_SEC %.6f'' @ [CHR 0x5C] @ ''n", operations_per_second);
  std::printf("AF_BENCH_SINK %llu'' @ [CHR 0x5C] @ ''n", static_cast<unsigned long long>(sink));
  std::printf("AF_BENCH_OK'' @ [CHR 0x5C] @ ''n");
  return 0;
}
''\<close>

definition reference_test_harness_source :: string where
  "reference_test_harness_source = kTestHarness"

definition reference_benchmark_harness_source :: string where
  "reference_benchmark_harness_source = kBenchmarkHarness"

section \<open>Text\<close>

text \<open>\<^verbatim>\<open>std::string::find\<close>: where the first occurrence begins.\<close>

fun find_in :: "string \<Rightarrow> string \<Rightarrow> nat option" where
  "find_in needle [] = (if needle = [] then Some 0 else None)"
| "find_in needle (c # cs) = (if prefix needle (c # cs) then Some 0 else map_option Suc (find_in needle cs))"

definition occurs_in :: "string \<Rightarrow> string \<Rightarrow> bool" where
  "occurs_in needle hay \<longleftrightarrow> find_in needle hay \<noteq> None"

definition truncation_mark :: string where "truncation_mark = ''...(truncated)''"

definition bound_output :: "string \<Rightarrow> nat \<Rightarrow> string" where
  "bound_output output limit = (if length output \<le> limit then output else take limit output @ truncation_mark)"

definition output_byte_allowed :: "char \<Rightarrow> bool" where
  "output_byte_allowed c \<longleftrightarrow> (let byte = (of_char c :: nat) in
     byte = 0x09 \<or> byte = 0x0A \<or> byte = 0x0D \<or> (0x20 \<le> byte \<and> byte \<le> 0x7E))"

fun sanitize_loop :: "string \<Rightarrow> string \<Rightarrow> string" where
  "sanitize_loop out [] = out"
| "sanitize_loop out (c # cs) =
    (let out' = out @ [if output_byte_allowed c then c else CHR 0x2E] in
     if length out' \<ge> kMaxDiagnosticsLength then out' @ truncation_mark else sanitize_loop out' cs)"

definition sanitize_output :: "string \<Rightarrow> string" where
  "sanitize_output output = sanitize_loop [] output"

definition decimal_int :: "int \<Rightarrow> string" where
  "decimal_int i = (if i < 0 then CHR 0x2D # decimal (nat (- i)) else decimal (nat i))"

section \<open>The platform\<close>

record process_options =
  po_executable :: string
  po_arguments :: "string list"
  po_directory :: string
  po_environment :: "(string \<times> string) list"
  po_inherit :: bool
  po_capture :: bool
  po_max_capture :: nat

record process_result =
  px_started :: bool
  px_exited :: bool
  px_exit_code :: int
  px_abnormal :: bool
  px_termination :: u32
  px_output :: string
  px_errors :: string
  px_truncated :: bool

definition no_process :: process_result where
  "no_process = \<lparr>px_started = False, px_exited = False, px_exit_code = 0, px_abnormal = False,
     px_termination = 0, px_output = [], px_errors = [], px_truncated = False\<rparr>"

text \<open>
  What the platform answers to one evaluator. The scratch directory is given as it is when the
  evaluator starts, \<^verbatim>\<open>evp_scratch\<close>: it is made once for a job and never emptied, so it holds
  whatever the earlier evaluators of the job, their compilers and the candidate's own programs
  left there. A process is run on the files of the directory and after the processes this
  evaluator ran before.
\<close>

type_synonym scratch_files = "(string, string) table"

record evaluator_platform =
  evp_getenv :: "string \<Rightarrow> string option"
  evp_exists :: "string \<Rightarrow> bool"
  evp_create :: "string \<Rightarrow> bool"
  evp_write :: "string \<Rightarrow> bool"
  evp_scratch :: scratch_files
  evp_run :: "scratch_files \<Rightarrow> process_options list \<Rightarrow> process_options \<Rightarrow> string + process_result"
  evp_double :: "string \<Rightarrow> binary64 option"
  evp_micros :: int

definition read_env :: "evaluator_platform \<Rightarrow> string \<Rightarrow> string" where
  "read_env env name = (case evp_getenv env name of None \<Rightarrow> [] | Some v \<Rightarrow> v)"

text \<open>\<^verbatim>\<open>operator/\<close> of a path and a relative name.\<close>

definition path_join :: "string \<Rightarrow> string \<Rightarrow> string" where
  "path_join directory name =
    (if directory = [] then name else if last directory = CHR 0x2F then directory @ name
     else directory @ ''/'' @ name)"

definition write_text_file :: "evaluator_platform \<Rightarrow> string \<Rightarrow> string \<Rightarrow> scratch_files \<Rightarrow> string + scratch_files" where
  "write_text_file env path content files =
    (if \<not> evp_create env path then Inl (''cannot create '' @ quoted path)
     else if \<not> evp_write env path then Inl (''cannot write '' @ quoted path)
     else Inr (tbl_assign path content files))"

definition measured_digest :: "string \<Rightarrow> string \<Rightarrow> string" where
  "measured_digest key detail = to_hex (sha256_finish (sha256_update (bytes_of detail)
     (sha256_update (bytes_of [CHR 0x1F]) (sha256_update (bytes_of key) sha256_reset))))"

definition elapsed_micros :: "int \<Rightarrow> u64" where
  "elapsed_micros delta = (if delta \<le> 0 then 0 else word_of_int delta)"

section \<open>The toolchain\<close>

definition toolchain_usable :: "reference_toolchain \<Rightarrow> bool" where
  "toolchain_usable t \<longleftrightarrow> rtc_compiler t \<noteq> []"

definition toolchain_describe :: "reference_toolchain \<Rightarrow> string" where
  "toolchain_describe t =
    (if \<not> toolchain_usable t then ''no reference C++ toolchain resolved''
     else rtc_flavour t @ '' compiler at '' @ rtc_compiler t)"

definition toolchain_flavour_from_env :: "evaluator_platform \<Rightarrow> string" where
  "toolchain_flavour_from_env env =
    (let flavour = read_env env ''AF_REFERENCE_FLAVOUR'' in if flavour \<noteq> [] then flavour else ''gnu'')"

definition compiler_names :: "string \<Rightarrow> string list" where
  "compiler_names flavour = (if flavour = ''msvc'' then [''cl.exe''] else [''c++'', ''g++'', ''clang++''])"

text \<open>The first compiler in one directory of the search path.\<close>

definition find_compiler :: "evaluator_platform \<Rightarrow> string list \<Rightarrow> string \<Rightarrow> string option" where
  "find_compiler env names directory =
    (if directory = [] then None else find (evp_exists env) (map (path_join directory) names))"

text \<open>The loop over the search path: an entry ends at a semicolon.\<close>

function search_path :: "evaluator_platform \<Rightarrow> string list \<Rightarrow> string \<Rightarrow> string option" where
  "search_path env names path_value =
    (let directory = takeWhile (\<lambda>c. c \<noteq> CHR 0x3B) path_value;
         after = dropWhile (\<lambda>c. c \<noteq> CHR 0x3B) path_value
     in case find_compiler env names directory of
          Some compiler \<Rightarrow> Some compiler
        | None \<Rightarrow> if after = [] then None else search_path env names (tl after))"
  by pat_completeness auto

termination
proof (relation "measure (\<lambda>(_, _, p). length p)")
  fix env :: evaluator_platform and names p directory and after :: string
  assume after: "after = dropWhile (\<lambda>c. c \<noteq> CHR 0x3B) p" "after \<noteq> []"
  then have "length after \<le> length p"
    by (simp only: length_dropWhile_le)
  with after(2) have "length (tl after) < length p"
    by (cases after) auto
  then show "((env, names, tl after), env, names, p) \<in> measure (\<lambda>(_, _, p). length p)"
    by simp
qed simp

declare search_path.simps [simp del]

definition toolchain_with :: "evaluator_platform \<Rightarrow> string \<Rightarrow> string \<Rightarrow> string \<Rightarrow> reference_toolchain" where
  "toolchain_with env compiler include_name library_name =
    \<lparr>rtc_compiler = compiler, rtc_include_directories = read_env env include_name,
     rtc_library_directories = read_env env library_name, rtc_flavour = toolchain_flavour_from_env env\<rparr>"

definition resolve_reference_toolchain :: "evaluator_platform \<Rightarrow> reference_toolchain result" where
  "resolve_reference_toolchain env =
    (let configured = read_env env ''AF_REFERENCE_CXX'' in
     if configured \<noteq> [] then
       if \<not> evp_exists env configured then Inl E_Unsupported
       else Inr (toolchain_with env configured ''AF_REFERENCE_INCLUDE'' ''AF_REFERENCE_LIB'')
     else case search_path env (compiler_names (toolchain_flavour_from_env env)) (read_env env ''PATH'') of
       None \<Rightarrow> Inl E_Unsupported
     | Some compiler \<Rightarrow> Inr (toolchain_with env compiler ''INCLUDE'' ''LIB''))"

section \<open>Compiling a candidate\<close>

record invocation =
  inv_executable :: string
  inv_arguments :: "string list"
  inv_directory :: string

definition artifact_content_of :: "evaluation_request \<Rightarrow> string \<Rightarrow> string + string" where
  "artifact_content_of request name = (case tbl_find (er_artifacts request) name of
     None \<Rightarrow> Inl (''candidate did not declare artifact '' @ quoted name) | Some content \<Rightarrow> Inr content)"

definition candidate_path :: "string \<Rightarrow> string" where "candidate_path scratch = path_join scratch ''candidate_unit.cpp''"
definition harness_path :: "string \<Rightarrow> string" where "harness_path scratch = path_join scratch ''foundry_harness.cpp''"
definition header_path :: "string \<Rightarrow> string" where "header_path scratch = path_join scratch ''af_reference.hpp''"

definition compiler_arguments :: "string \<Rightarrow> string \<Rightarrow> string \<Rightarrow> string list" where
  "compiler_arguments flavour scratch output_name =
    (if flavour = ''msvc''
     then [''/nologo'', ''/std:c++20'', ''/EHsc'', ''/O2'', ''/W3'', ''/permissive-'', ''/I'' @ scratch,
       ''/Fe:'' @ path_join scratch output_name, harness_path scratch, candidate_path scratch]
     else [''-std=c++20'', ''-O2'', ''-Wall'', ''-I'' @ scratch, harness_path scratch, candidate_path scratch,
       ''-o'', path_join scratch output_name])"

definition make_compile_invocation ::
    "evaluator_platform \<Rightarrow> evaluation_request \<Rightarrow> string \<Rightarrow> string \<Rightarrow> string + invocation \<times> scratch_files" where
  "make_compile_invocation env request harness_source output_name =
    (let scratch = er_scratch request in
     if scratch = [] then Inl ''evaluation request has no scratch directory''
     else case artifact_content_of request kReferenceTaskSourceArtifact of
       Inl m \<Rightarrow> Inl m
     | Inr candidate_source \<Rightarrow>
       (case write_text_file env (header_path scratch) reference_api_header_source (evp_scratch env) of
          Inl m \<Rightarrow> Inl m
        | Inr files1 \<Rightarrow> (case write_text_file env (harness_path scratch) harness_source files1 of
            Inl m \<Rightarrow> Inl m
          | Inr files2 \<Rightarrow> (case write_text_file env (candidate_path scratch) candidate_source files2 of
              Inl m \<Rightarrow> Inl m
            | Inr files3 \<Rightarrow> Inr
                (\<lparr>inv_executable = rtc_compiler (er_toolchain request),
                  inv_arguments = compiler_arguments (rtc_flavour (er_toolchain request)) scratch output_name,
                  inv_directory = scratch\<rparr>, files3)))))"

definition kMaxCapturedOutputBytes :: nat where "kMaxCapturedOutputBytes = 256 * 1024"

definition make_process_options :: "evaluation_request \<Rightarrow> invocation \<Rightarrow> process_options" where
  "make_process_options request call =
    (let includes = rtc_include_directories (er_toolchain request);
         libraries = rtc_library_directories (er_toolchain request)
     in \<lparr>po_executable = inv_executable call, po_arguments = inv_arguments call, po_directory = inv_directory call,
         po_environment = (if includes = [] then [] else [(''INCLUDE'', includes)])
           @ (if libraries = [] then [] else [(''LIB'', libraries)]),
         po_inherit = True, po_capture = True, po_max_capture = kMaxCapturedOutputBytes\<rparr>)"

text \<open>
  What is built, what the compiler printed, the files of the scratch directory and the process
  that was run. Nothing reads the files after an invocation that could not be made.
\<close>

record compilation =
  cpl_outcome :: "string + string"
  cpl_result :: process_result
  cpl_files :: scratch_files
  cpl_run :: "process_options list"

definition compile_candidate :: "evaluator_platform \<Rightarrow> evaluation_request \<Rightarrow> string \<Rightarrow> string \<Rightarrow> compilation" where
  "compile_candidate env request harness_source output_name =
    (case make_compile_invocation env request harness_source output_name of
       Inl m \<Rightarrow> \<lparr>cpl_outcome = Inl m, cpl_result = no_process, cpl_files = evp_scratch env, cpl_run = []\<rparr>
     | Inr (call, files) \<Rightarrow>
       let options = make_process_options request call in
       (case evp_run env files [] options of
          Inl m \<Rightarrow> \<lparr>cpl_outcome = Inl m, cpl_result = no_process, cpl_files = files, cpl_run = [options]\<rparr>
        | Inr r \<Rightarrow> \<lparr>cpl_outcome =
              (if \<not> px_started r then Inl ''compiler could not be started''
               else if \<not> px_exited r \<or> px_exit_code r \<noteq> 0 then Inl ''candidate did not compile''
               else Inr (path_join (er_scratch request) output_name)),
            cpl_result = r, cpl_files = files, cpl_run = [options]\<rparr>))"

definition run_compiled :: "evaluator_platform \<Rightarrow> evaluation_request \<Rightarrow> compilation \<Rightarrow> string \<Rightarrow> string + process_result" where
  "run_compiled env request c executable = evp_run env (cpl_files c) (cpl_run c)
     (make_process_options request \<lparr>inv_executable = executable, inv_arguments = [], inv_directory = er_scratch request\<rparr>)"

section \<open>The evaluators\<close>

text \<open>A result without a score; the digest is of the detail behind the key.\<close>

definition unscored :: "evaluator_platform \<Rightarrow> string \<Rightarrow> evaluation_outcome \<Rightarrow> string \<Rightarrow> string \<Rightarrow> evaluation_result" where
  "unscored env key outcome diagnostics detail =
    \<lparr>ers_outcome = outcome, ers_has_score = False, ers_score = b64_zero, ers_diagnostics = diagnostics,
     ers_evidence_digest = measured_digest key detail, ers_duration_micros = elapsed_micros (evp_micros env)\<rparr>"

definition scored :: "evaluator_platform \<Rightarrow> string \<Rightarrow> binary64 \<Rightarrow> string \<Rightarrow> string \<Rightarrow> evaluation_result" where
  "scored env key score diagnostics detail =
    (unscored env key EO_Pass diagnostics detail)\<lparr>ers_has_score := True, ers_score := score\<rparr>"

definition source_of :: "evaluation_request \<Rightarrow> string option" where
  "source_of request = tbl_find (er_artifacts request) kReferenceTaskSourceArtifact"

definition no_source :: string where "no_source = ''candidate declared no solution.cpp artifact''"

definition yes_no :: "bool \<Rightarrow> string" where "yes_no b = (if b then ''yes'' else ''no'')"

definition conformance_passed :: "process_result \<Rightarrow> bool" where
  "conformance_passed p \<longleftrightarrow> px_exited p \<and> \<not> px_abnormal p \<and> px_exit_code p = 0 \<and>
     occurs_in ''AF_REFERENCE_OK'' (px_output p)"

definition conformance_failure :: "process_result \<Rightarrow> string" where
  "conformance_failure p = ''conformance process exit='' @ decimal_int (px_exit_code p)
     @ '' abnormal='' @ yes_no (px_abnormal p)
     @ '' reported_ok='' @ yes_no (occurs_in ''AF_REFERENCE_OK'' (px_output p))
     @ '' | stdout: '' @ sanitize_output (px_output p) @ '' | stderr: '' @ sanitize_output (px_errors p)"

definition compile_and_run :: "evaluator_platform \<Rightarrow> evaluation_request \<Rightarrow> evaluation_result" where
  "compile_and_run env request =
    (let key = kEvaluatorCompileAndRun in
     if \<not> toolchain_usable (er_toolchain request) then
       let d = ''no C++ toolchain resolved; compiler-backed evaluation cannot determine an outcome''
       in unscored env key EO_Unsupported d d
     else case source_of request of
       None \<Rightarrow> unscored env key EO_Fail no_source no_source
     | Some source \<Rightarrow>
       let compiled = compile_candidate env request reference_test_harness_source ''foundry_conformance.exe'' in
       (case cpl_outcome compiled of
          Inl m \<Rightarrow>
            let d = ''compile stage failed: '' @ m @ '' | compiler stdout: '' @ sanitize_output (px_output (cpl_result compiled))
              @ '' | compiler stderr: '' @ sanitize_output (px_errors (cpl_result compiled))
            in unscored env key EO_Fail d (source @ [CHR 0x1F] @ d)
        | Inr executable \<Rightarrow> (case run_compiled env request compiled executable of
            Inl m \<Rightarrow>
              let d = ''conformance process could not be run: '' @ m in unscored env key EO_Error d (source @ [CHR 0x1F] @ d)
          | Inr p \<Rightarrow>
              let outcome = (if conformance_passed p then EO_Pass else EO_Fail);
                  d = (if conformance_passed p then ''conformance process exited with status 0 and reported AF_REFERENCE_OK''
                       else conformance_failure p)
              in unscored env key outcome d (source @ [CHR 0x1F] @ reference_test_harness_source @ [CHR 0x1F]
                   @ evaluation_outcome_name outcome @ [CHR 0x1F] @ bound_output (px_output p) 4096))))"

definition forbidden_constructs :: "string list" where
  "forbidden_constructs = [''system('', ''popen'', ''CreateProcess'', ''fork('', ''execv'', ''WinExec'', ''ShellExecute'',
     ''#include <windows.h>'', ''#include <winsock2.h>'', ''__asm'', ''#pragma comment'']"

definition policy_violations :: "string \<Rightarrow> string list" where
  "policy_violations source = filter (\<lambda>construct. occurs_in construct source) forbidden_constructs
     @ (if length source > kMaxInputFileBytes div 4 then [''source exceeds the reference task size bound''] else [])"

definition source_policy :: "evaluator_platform \<Rightarrow> evaluation_request \<Rightarrow> evaluation_result" where
  "source_policy env request =
    (let key = kEvaluatorSourcePolicy in
     case source_of request of
       None \<Rightarrow> unscored env key EO_Fail no_source no_source
     | Some source \<Rightarrow>
       if \<not> occurs_in kReferenceTaskApiName source then
         let d = ''required symbol '' @ quoted kReferenceTaskApiName @ '' is not present in the candidate source''
         in unscored env key EO_Fail d (source @ [CHR 0x1F] @ d)
       else
         let violations = policy_violations source;
             d = (if violations = [] then ''static policy satisfied''
                  else ''forbidden construct(s) present:'' @ concat (map (\<lambda>v. '' ['' @ v @ '']'') violations))
         in unscored env key (if violations = [] then EO_Pass else EO_Fail) d (source @ [CHR 0x1F] @ d))"

definition bench_marker :: string where "bench_marker = ''AF_BENCH_OPS_PER_SEC ''"

definition performance :: "evaluator_platform \<Rightarrow> evaluation_request \<Rightarrow> evaluation_result" where
  "performance env request =
    (let key = kEvaluatorPerformance in
     if \<not> toolchain_usable (er_toolchain request) then
       let d = ''no C++ toolchain resolved; the workload cannot be measured'' in unscored env key EO_Unsupported d d
     else
       let compiled = compile_candidate env request reference_benchmark_harness_source ''foundry_benchmark.exe'' in
       (case cpl_outcome compiled of
          Inl m \<Rightarrow> let d = ''benchmark harness did not build: '' @ m in unscored env key EO_Error d d
        | Inr executable \<Rightarrow> (case run_compiled env request compiled executable of
            Inl m \<Rightarrow> let d = ''benchmark process could not be run: '' @ m in unscored env key EO_Error d d
          | Inr p \<Rightarrow> (case find_in bench_marker (px_output p) of
              None \<Rightarrow> (let d = ''benchmark produced no measurement: '' @ sanitize_output (px_output p) @ sanitize_output (px_errors p) in unscored env key EO_Error d d)
            | Some position \<Rightarrow>
              if \<not> px_exited p \<or> px_exit_code p \<noteq> 0 then (let d = ''benchmark produced no measurement: '' @ sanitize_output (px_output p) @ sanitize_output (px_errors p) in unscored env key EO_Error d d)
              else
                let value_text = takeWhile (\<lambda>c. c \<noteq> CHR 0x0A) (drop (position + length bench_marker) (px_output p));
                    measured = (case evp_double env value_text of None \<Rightarrow> b64_zero | Some d \<Rightarrow> d)
                in if \<not> b64_is_finite measured \<or> \<not> b64_less b64_zero measured then
                     let d = ''benchmark reported a non-positive measurement '' @ quoted value_text in unscored env key EO_Error d d
                   else scored env key measured
                     (''measured reference workload throughput ops_per_second='' @ value_text) value_text))))"

definition is_token_byte :: "char \<Rightarrow> bool" where
  "is_token_byte c \<longleftrightarrow> (let byte = (of_char c :: nat) in
     (97 \<le> byte \<and> byte \<le> 122) \<or> (65 \<le> byte \<and> byte \<le> 90) \<or> (48 \<le> byte \<and> byte \<le> 57) \<or> byte = 95)"

fun count_tokens :: "nat \<Rightarrow> bool \<Rightarrow> string \<Rightarrow> nat" where
  "count_tokens tokens in_token [] = tokens"
| "count_tokens tokens in_token (c # cs) =
    count_tokens (if is_token_byte c \<and> \<not> in_token then tokens + 1 else tokens) (is_token_byte c) cs"

definition parsimony :: "evaluator_platform \<Rightarrow> evaluation_request \<Rightarrow> evaluation_result" where
  "parsimony env request =
    (let key = kEvaluatorParsimony in
     case source_of request of
       None \<Rightarrow> unscored env key EO_Error no_source no_source
     | Some source \<Rightarrow> scored env key (b64_of_nat (count_tokens 0 False source))
         ''reference structural metric: identifier-like token count'' source)"

section \<open>The registry\<close>

type_synonym evaluator_registry = "(string \<times> evaluator) list"

definition registry_add :: "(string \<times> evaluator) option \<Rightarrow> evaluator_registry \<Rightarrow> evaluator_registry" where
  "registry_add added registry = (case added of
     None \<Rightarrow> registry
   | Some e \<Rightarrow> if list_ex (\<lambda>existing. fst existing = fst e) registry then registry else registry @ [e])"

definition registry_find :: "evaluator_registry \<Rightarrow> string \<Rightarrow> evaluator option" where
  "registry_find registry key = map_option snd (find (\<lambda>e. fst e = key) registry)"

definition registry_keys :: "evaluator_registry \<Rightarrow> string list" where
  "registry_keys registry = sort_by (<) (map fst registry)"

definition evaluator_of :: "evaluator_kind \<Rightarrow> (evaluation_request \<Rightarrow> evaluation_result) \<Rightarrow> evaluator" where
  "evaluator_of kind f = \<lparr>evl_kind = kind, evl_evaluate = \<lambda>request. Inr (f request)\<rparr>"

definition make_reference :: "evaluator_platform \<Rightarrow> evaluator_registry" where
  "make_reference env = fold registry_add
    [Some (kEvaluatorCompileAndRun, evaluator_of EK_ProcessCommand (compile_and_run env)),
     Some (kEvaluatorSourcePolicy, evaluator_of EK_SourcePolicy (source_policy env)),
     Some (kEvaluatorPerformance, evaluator_of EK_ProcessCommand (performance env)),
     Some (kEvaluatorParsimony, evaluator_of EK_PortableReference (parsimony env))] []"

end
