(* ===== verification/Evaluator_Guarantees.thy ===== *)
theory Evaluator_Guarantees
  imports Evaluator Workspace Core_Histories
begin

text \<open>
  What the reference evaluators promise: when a candidate passes, what the evaluators that run
  in the process compute, how output is made harmless, and two ways in which no verdict is
  reached: a search path of POSIX, and a candidate that writes too much.
\<close>

section \<open>Searching a text\<close>

lemma find_in_sublist: "find_in needle hay = None \<longleftrightarrow> \<not> sublist needle hay"
  by (induction needle hay rule: find_in.induct) (auto simp: sublist_Cons_right)

lemma occurs_in_sublist: "occurs_in needle hay \<longleftrightarrow> sublist needle hay"
  by (simp add: occurs_in_def find_in_sublist)

section \<open>Harmless output\<close>

definition cleaned :: "string \<Rightarrow> string" where
  "cleaned bytes = map (\<lambda>c. if output_byte_allowed c then c else CHR 0x2E) bytes"

lemma sanitize_loop_eq:
  "length out < kMaxDiagnosticsLength \<Longrightarrow> sanitize_loop out bytes =
    (if length out + length bytes < kMaxDiagnosticsLength then out @ cleaned bytes
     else take kMaxDiagnosticsLength (out @ cleaned bytes) @ truncation_mark)"
  by (induction out bytes rule: sanitize_loop.induct) (auto simp: cleaned_def Let_def take_Cons')

text \<open>A text of exactly the bound is marked as truncated although nothing of it is lost.\<close>

lemma sanitize_output_eq:
  "sanitize_output bytes = (if length bytes < kMaxDiagnosticsLength then cleaned bytes
     else take kMaxDiagnosticsLength (cleaned bytes) @ truncation_mark)"
  using sanitize_loop_eq [of "[]" bytes] by (simp add: sanitize_output_def kMaxDiagnosticsLength_def)

lemma length_cleaned [simp]: "length (cleaned bytes) = length bytes"
  by (simp add: cleaned_def)

definition flooded :: "process_result \<Rightarrow> bool" where
  "flooded p \<longleftrightarrow> kMaxDiagnosticsLength \<le> length (px_output p) \<or> kMaxDiagnosticsLength \<le> length (px_errors p)"

lemma flooded_sanitized:
  "flooded p \<Longrightarrow> kMaxDiagnosticsLength < length (sanitize_output (px_output p)) + length (sanitize_output (px_errors p))"
  by (auto simp: flooded_def sanitize_output_eq truncation_mark_def)

section \<open>A record that is too long\<close>

definition refuses :: "'a core_action \<Rightarrow> foundry_core \<Rightarrow> bool" where
  "refuses act c \<longleftrightarrow> (\<exists>e. fst (act c) = Inl e) \<and> co_evaluations (snd (act c)) = co_evaluations c"

lemma refuses_basic:
  "refuses (failA e) c" "refuses (refuse_late e) c" "refuses (refuse_duplicate e) c"
  by (simp_all add: refuses_def refuse_in_def count_in_def action_defs)

lemma refuses_readA: "refuses (readA f) c = refuses (f c) c"
  by (simp add: refuses_def readA_def)

lemma oversized_diagnostics_invalid:
  "kMaxDiagnosticsLength < length (ev_diagnostics r) \<Longrightarrow> \<exists>e. validate_evaluation_record r = Inl e"
  by (cases "validate_evaluation_record r") (auto simp: validate_evaluation_record_def first_failure_ok require_def split: if_splits)

lemma refuses_bind_identity:
  fixes k :: "'tag strong_id"
  assumes "\<And>k c. refuses (f k) c"
  shows "refuses (bindA (identity_or_fresh kind k) f) c"
proof (cases "id_valid k")
  case True
  then show ?thesis using assms by (simp add: identity_or_fresh_def refuses_def action_defs)
next
  case False
  obtain x :: "'tag strong_id result" and c' where allocated: "allocate kind c = (x, c')"
    by (metis surj_pair)
  then have "co_evaluations c' = co_evaluations c"
    using allocate_frame [OF allocated] by (metis foundry_core.select_convs foundry_core.surjective foundry_core.update_convs)
  then show ?thesis
    using assms False allocated by (cases x) (auto simp: identity_or_fresh_def refuses_def action_defs)
qed

lemma oversized_record_refused:
  assumes "kMaxDiagnosticsLength < length (ev_diagnostics r)"
  shows "refuses (record_evaluation r) c"
proof -
  have stored: "\<exists>e. validate_evaluation_record (bound_evaluation k pop c' r) = Inl e" for k pop c'
    by (rule oversized_diagnostics_invalid) (simp add: bound_evaluation_def assms)
  have committed: "refuses (bindA (identity_or_fresh kind k) (\<lambda>k. let stored = bound_evaluation k pop c' r
      in thenA (checkA (validate_evaluation_record stored)) (rest stored k))) c" for kind k pop c' rest
  proof (rule refuses_bind_identity)
    show "refuses (let stored = bound_evaluation k pop c' r
        in thenA (checkA (validate_evaluation_record stored)) (rest stored k)) c''" for k c''
      using stored [of k pop c'] by (auto simp: Let_def refuses_def action_defs)
  qed
  show ?thesis
    unfolding record_evaluation_def refuses_readA found_or_def seqA.simps
    by (simp add: refuses_basic committed split: option.split sum.split)
qed

section \<open>A candidate that writes too much\<close>

lemma failed_run:
  assumes "toolchain_usable (er_toolchain request)" and "source_of request = Some source"
    and "compiled = compile_candidate env request reference_test_harness_source ''foundry_conformance.exe''"
    and "cpl_outcome compiled = Inr executable" and "run_compiled env request compiled executable = Inr p"
    and "\<not> conformance_passed p"
  shows "ers_outcome (compile_and_run env request) = EO_Fail"
    and "ers_diagnostics (compile_and_run env request) = conformance_failure p"
  using assms by (simp_all add: compile_and_run_def unscored_def Let_def)

text \<open>
  C37: A candidate can keep its own failure from being recorded. When it compiles, its conformance
  run fails, and the run wrote 8192 bytes or more to one of its two streams, then the evaluator
  says Fail, but every record that carries the diagnostics of this verdict is refused by the core,
  which keeps the evidence it had.
\<close>

theorem flooding_escapes_the_verdict:
  assumes "toolchain_usable (er_toolchain request)" and "source_of request = Some source"
    and "compiled = compile_candidate env request reference_test_harness_source ''foundry_conformance.exe''"
    and "cpl_outcome compiled = Inr executable" and "run_compiled env request compiled executable = Inr p"
    and "\<not> conformance_passed p" and "flooded p"
  shows "ers_outcome (compile_and_run env request) = EO_Fail \<and>
    (ev_diagnostics r = ers_diagnostics (compile_and_run env request) \<longrightarrow>
      (\<exists>e. fst (record_evaluation r c) = Inl e) \<and>
      co_evaluations (snd (record_evaluation r c)) = co_evaluations c)"
proof -
  note run = failed_run [OF assms(1-6)]
  have "kMaxDiagnosticsLength < length (conformance_failure p)"
    using flooded_sanitized [OF assms(7)] by (simp add: conformance_failure_def)
  then have "refuses (record_evaluation r) c" if "ev_diagnostics r = ers_diagnostics (compile_and_run env request)"
    by (intro oversized_record_refused) (simp add: that run(2))
  then show ?thesis
    using run(1) by (simp add: refuses_def)
qed

section \<open>Passing\<close>

lemma path_join_inject [simp]: "path_join d a = path_join d b \<longleftrightarrow> a = b"
  by (simp add: path_join_def)

lemma scratch_paths_distinct:
  "header_path s \<noteq> harness_path s" "header_path s \<noteq> candidate_path s" "harness_path s \<noteq> candidate_path s"
  by (simp_all add: header_path_def harness_path_def candidate_path_def)

text \<open>
  The scratch directory when the compiler starts: three files are written over what it held, and
  the candidate gives one of them.
\<close>

definition conformance_files :: "scratch_files \<Rightarrow> string \<Rightarrow> string \<Rightarrow> scratch_files" where
  "conformance_files held scratch source =
    tbl_assign (candidate_path scratch) source
      (tbl_assign (harness_path scratch) reference_test_harness_source
        (tbl_assign (header_path scratch) reference_api_header_source held))"

lemma conformance_files_find:
  "tbl_find (conformance_files held scratch source) path =
    (if path = header_path scratch then Some reference_api_header_source
     else if path = harness_path scratch then Some reference_test_harness_source
     else if path = candidate_path scratch then Some source
     else tbl_find held path)"
  using scratch_paths_distinct [of scratch] by (auto simp: conformance_files_def tbl.find_assign)

definition writable :: "evaluator_platform \<Rightarrow> string \<Rightarrow> bool" where
  "writable env path \<longleftrightarrow> evp_create env path \<and> evp_write env path"

definition compiler_options :: "evaluation_request \<Rightarrow> process_options" where
  "compiler_options request = make_process_options request
    \<lparr>inv_executable = rtc_compiler (er_toolchain request),
     inv_arguments = compiler_arguments (rtc_flavour (er_toolchain request)) (er_scratch request) ''foundry_conformance.exe'',
     inv_directory = er_scratch request\<rparr>"

definition conformance_options :: "evaluation_request \<Rightarrow> process_options" where
  "conformance_options request = make_process_options request
    \<lparr>inv_executable = path_join (er_scratch request) ''foundry_conformance.exe'', inv_arguments = [],
     inv_directory = er_scratch request\<rparr>"

lemma conformance_invocation:
  "make_compile_invocation env request reference_test_harness_source ''foundry_conformance.exe'' = Inr (call, files) \<longleftrightarrow>
    er_scratch request \<noteq> [] \<and> (\<exists>source. source_of request = Some source \<and>
      files = conformance_files (evp_scratch env) (er_scratch request) source) \<and>
    writable env (header_path (er_scratch request)) \<and> writable env (harness_path (er_scratch request)) \<and>
    writable env (candidate_path (er_scratch request)) \<and>
    call = \<lparr>inv_executable = rtc_compiler (er_toolchain request),
      inv_arguments = compiler_arguments (rtc_flavour (er_toolchain request)) (er_scratch request) ''foundry_conformance.exe'',
      inv_directory = er_scratch request\<rparr>"
  by (auto simp: make_compile_invocation_def artifact_content_of_def source_of_def write_text_file_def writable_def
      conformance_files_def Let_def split: option.splits)

definition built :: "evaluator_platform \<Rightarrow> evaluation_request \<Rightarrow> string \<Rightarrow> bool" where
  "built env request source \<longleftrightarrow> er_scratch request \<noteq> [] \<and>
    writable env (header_path (er_scratch request)) \<and> writable env (harness_path (er_scratch request)) \<and>
    writable env (candidate_path (er_scratch request)) \<and>
    (\<exists>compiled. evp_run env (conformance_files (evp_scratch env) (er_scratch request) source) []
        (compiler_options request) = Inr compiled \<and>
      px_started compiled \<and> px_exited compiled \<and> px_exit_code compiled = 0)"

lemma built_exactly:
  assumes "source_of request = Some source"
    and "compiled = compile_candidate env request reference_test_harness_source ''foundry_conformance.exe''"
  shows "(\<exists>executable. cpl_outcome compiled = Inr executable) \<longleftrightarrow> built env request source"
    and "cpl_outcome compiled = Inr executable \<Longrightarrow>
      executable = path_join (er_scratch request) ''foundry_conformance.exe'' \<and>
      cpl_files compiled = conformance_files (evp_scratch env) (er_scratch request) source \<and>
      cpl_run compiled = [compiler_options request]"
  using assms(1) conformance_invocation [of env request] unfolding assms(2) compile_candidate_def built_def
  by (cases "make_compile_invocation env request reference_test_harness_source ''foundry_conformance.exe''";
      force simp: compiler_options_def Let_def split: sum.splits prod.splits if_splits)+

text \<open>
  C36: When a candidate passes. The outcome is Pass exactly when a compiler is known, the candidate
  declared its source, the compiler, started on the scratch directory into which the header, the
  harness of the evaluator and this source were written, exited with status 0, and the program so
  built was run in the scratch directory, exited normally with status 0, and wrote the token of the
  harness. The three files replace those of their names; every other file the directory held
  before is still there, as it was, when the compiler starts, and the directory is on the include
  path of the compiler.
\<close>

theorem compile_and_run_passes_exactly:
  "(\<forall>source path. tbl_find (conformance_files (evp_scratch env) (er_scratch request) source) path =
      (if path = header_path (er_scratch request) then Some reference_api_header_source
       else if path = harness_path (er_scratch request) then Some reference_test_harness_source
       else if path = candidate_path (er_scratch request) then Some source
       else tbl_find (evp_scratch env) path)) \<and>
   ((if rtc_flavour (er_toolchain request) = ''msvc'' then ''/I'' else ''-I'') @ er_scratch request
      \<in> set (po_arguments (compiler_options request))) \<and>
   (ers_outcome (compile_and_run env request) = EO_Pass \<longleftrightarrow>
    rtc_compiler (er_toolchain request) \<noteq> [] \<and>
    (\<exists>source p. source_of request = Some source \<and> built env request source \<and>
      evp_run env (conformance_files (evp_scratch env) (er_scratch request) source) [compiler_options request]
        (conformance_options request) = Inr p \<and>
      px_exited p \<and> \<not> px_abnormal p \<and> px_exit_code p = 0 \<and> sublist ''AF_REFERENCE_OK'' (px_output p)))"
proof -
  define compiled where "compiled = compile_candidate env request reference_test_harness_source ''foundry_conformance.exe''"
  have passes: "ers_outcome (compile_and_run env request) = EO_Pass \<longleftrightarrow> toolchain_usable (er_toolchain request) \<and>
    (\<exists>source executable p. source_of request = Some source \<and> cpl_outcome compiled = Inr executable \<and>
      run_compiled env request compiled executable = Inr p \<and> conformance_passed p)"
    by (auto simp: compile_and_run_def unscored_def Let_def simp flip: compiled_def split: option.splits sum.splits if_splits)
  have run: "run_compiled env request compiled executable =
      evp_run env (conformance_files (evp_scratch env) (er_scratch request) source) [compiler_options request]
        (conformance_options request)"
    if "source_of request = Some source" "cpl_outcome compiled = Inr executable" for source executable
    using built_exactly(2) [OF that(1) compiled_def that(2)] by (simp add: run_compiled_def conformance_options_def)
  have on_path: "(if rtc_flavour (er_toolchain request) = ''msvc'' then ''/I'' else ''-I'') @ er_scratch request
      \<in> set (po_arguments (compiler_options request))"
    by (simp add: compiler_options_def make_process_options_def compiler_arguments_def Let_def)
  show ?thesis
    unfolding passes toolchain_usable_def conformance_passed_def occurs_in_sublist
    by (intro conjI allI conformance_files_find on_path) (use run built_exactly(1) [OF _ compiled_def] in metis)
qed

definition sample_request' :: evaluation_request where
  "sample_request' = \<lparr>er_candidate = null_id, er_candidate_gen = gen_none, er_task = null_id, er_task_gen = gen_none,
     er_population = null_id, er_population_gen = gen_none, er_artifacts = [(''solution.cpp'', ''x'')], er_inputs = [],
     er_key = kEvaluatorCompileAndRun, er_class = RC_Mandatory, er_scratch = ''s'',
     er_toolchain = \<lparr>rtc_compiler = ''/usr/bin/g++'', rtc_include_directories = [], rtc_library_directories = [],
       rtc_flavour = ''gnu''\<rparr>\<rparr>"

text \<open>A compiler that succeeds, and a program that fails after a flood of output.\<close>

definition flooding_run :: process_result where
  "flooding_run = no_process\<lparr>px_started := True, px_exited := True, px_exit_code := 1, px_output := replicate 8192 CHR 0x61\<rparr>"

definition flooding_platform :: evaluator_platform where
  "flooding_platform = \<lparr>evp_getenv = \<lambda>_. None, evp_exists = \<lambda>_. True, evp_create = \<lambda>_. True, evp_write = \<lambda>_. True,
     evp_scratch = [], evp_run = (\<lambda>files earlier options. if earlier = [] then Inr (no_process\<lparr>px_started := True, px_exited := True\<rparr>)
       else Inr flooding_run), evp_double = \<lambda>_. None, evp_micros = 0\<rparr>"

definition sample_compiled :: compilation where
  "sample_compiled = compile_candidate flooding_platform sample_request' reference_test_harness_source ''foundry_conformance.exe''"

lemma sample_compiled_run:
  "cpl_outcome sample_compiled = Inr ''s/foundry_conformance.exe''"
  "run_compiled flooding_platform sample_request' sample_compiled ''s/foundry_conformance.exe'' = Inr flooding_run"
proof -
  have source: "source_of sample_request' = Some ''x''"
    by code_simp
  have "built flooding_platform sample_request' ''x''"
    by (simp add: built_def writable_def flooding_platform_def no_process_def sample_request'_def)
  then obtain executable where "cpl_outcome sample_compiled = Inr executable"
    using built_exactly(1) [OF source sample_compiled_def] by blast
  then show "cpl_outcome sample_compiled = Inr ''s/foundry_conformance.exe''"
    "run_compiled flooding_platform sample_request' sample_compiled ''s/foundry_conformance.exe'' = Inr flooding_run"
    using built_exactly(2) [OF source sample_compiled_def, of executable]
    by (simp_all add: path_join_def sample_request'_def run_compiled_def flooding_platform_def)
qed

lemma flooding_escapes_the_verdict_witness:
  "ers_outcome (compile_and_run flooding_platform sample_request') = EO_Fail \<and>
   (\<exists>e. fst (record_evaluation (example_evaluation
      \<lparr>ev_diagnostics := ers_diagnostics (compile_and_run flooding_platform sample_request')\<rparr>) example_core) = Inl e)"
proof -
  have "toolchain_usable (er_toolchain sample_request')" "source_of sample_request' = Some ''x''"
    by code_simp+
  moreover have "\<not> conformance_passed flooding_run" "flooded flooding_run"
    by (simp_all add: conformance_passed_def flooded_def flooding_run_def kMaxDiagnosticsLength_def)
  ultimately show ?thesis
    using flooding_escapes_the_verdict [OF _ _ sample_compiled_def sample_compiled_run, where c = example_core and
      r = "example_evaluation\<lparr>ev_diagnostics := ers_diagnostics (compile_and_run flooding_platform sample_request')\<rparr>"]
    by simp
qed

section \<open>The search path\<close>

lemma search_one_directory:
  assumes "CHR 0x3B \<notin> set path"
  shows "search_path env names path = find_compiler env names path"
proof -
  have "takeWhile (\<lambda>c. c \<noteq> CHR 0x3B) path = path" "dropWhile (\<lambda>c. c \<noteq> CHR 0x3B) path = []"
    using assms by (auto simp: takeWhile_eq_all_conv dropWhile_eq_Nil_conv)
  note whole = this
  have "search_path env names path =
    (case find_compiler env names (takeWhile (\<lambda>c. c \<noteq> CHR 0x3B) path) of
       Some compiler \<Rightarrow> Some compiler
     | None \<Rightarrow> if dropWhile (\<lambda>c. c \<noteq> CHR 0x3B) path = [] then None
         else search_path env names (tl (dropWhile (\<lambda>c. c \<noteq> CHR 0x3B) path)))"
    by (subst search_path.simps) (simp only: Let_def)
  then show ?thesis
    unfolding whole by (simp split: option.splits)
qed

lemma find_compiler_None:
  "find_compiler env names directory = None \<longleftrightarrow> directory = [] \<or> (\<forall>name \<in> set names. \<not> evp_exists env (path_join directory name))"
  by (auto simp: find_compiler_def find_None_iff)

text \<open>The text of a search path of POSIX: its directories with a colon between them.\<close>

fun colon_path :: "string list \<Rightarrow> string" where
  "colon_path [] = []"
| "colon_path [d] = d"
| "colon_path (d # ds) = d @ CHR 0x3A # colon_path ds"

lemma colon_path_plain: "\<forall>d \<in> set ds. CHR 0x3B \<notin> set d \<Longrightarrow> CHR 0x3B \<notin> set (colon_path ds)"
  by (induction ds rule: colon_path.induct) auto

text \<open>
  C38: On POSIX the search path is not searched. Its directories are taken as one directory, whose
  name has the colons in it, so without a configured compiler a toolchain is found exactly when
  that one directory holds a compiler, whatever the directories of the path hold.
\<close>

theorem posix_search_path_is_one_directory:
  assumes "read_env env ''AF_REFERENCE_CXX'' = []" and "read_env env ''PATH'' = colon_path directories"
    and "\<forall>d \<in> set directories. CHR 0x3B \<notin> set d"
  shows "resolve_reference_toolchain env = Inl E_Unsupported \<longleftrightarrow> colon_path directories = [] \<or>
    (\<forall>name \<in> set (compiler_names (toolchain_flavour_from_env env)). \<not> evp_exists env (path_join (colon_path directories) name))"
  using assms(1,2) search_one_directory [OF colon_path_plain [OF assms(3)]]
  by (auto simp: resolve_reference_toolchain_def Let_def find_compiler_None [symmetric] split: option.splits)

definition posix_machine :: evaluator_platform where
  "posix_machine = flooding_platform\<lparr>evp_exists := (\<lambda>path. path = ''/usr/bin/g++''),
     evp_getenv := (\<lambda>name. if name = ''PATH'' then Some ''/usr/local/bin:/usr/bin'' else None)\<rparr>"

lemma posix_search_path_is_one_directory_witness:
  "evp_exists posix_machine ''/usr/bin/g++'' \<and> resolve_reference_toolchain posix_machine = Inl E_Unsupported"
proof -
  have "read_env posix_machine ''AF_REFERENCE_CXX'' = []"
    "read_env posix_machine ''PATH'' = colon_path [''/usr/local/bin'', ''/usr/bin'']"
    "\<forall>d \<in> set [''/usr/local/bin'', ''/usr/bin'']. CHR 0x3B \<notin> set d"
    "\<forall>name \<in> set (compiler_names (toolchain_flavour_from_env posix_machine)).
       \<not> evp_exists posix_machine (path_join (colon_path [''/usr/local/bin'', ''/usr/bin'']) name)"
    "evp_exists posix_machine ''/usr/bin/g++''"
    by code_simp+
  then show ?thesis
    using posix_search_path_is_one_directory [of posix_machine "[''/usr/local/bin'', ''/usr/bin'']"] by simp
qed

section \<open>The evaluators in the process\<close>

lemma runs_word:
  "runs_between (\<lambda>c. \<not> P c) (c # cs) =
    (if P c then (c # takeWhile P cs) # runs_between (\<lambda>c. \<not> P c) (dropWhile P cs) else runs_between (\<lambda>c. \<not> P c) cs)"
  by simp

lemma count_tokens_runs:
  "count_tokens n in_token cs =
    n + length (runs_between (\<lambda>c. \<not> is_token_byte c) (if in_token then dropWhile is_token_byte cs else cs))"
  by (induction n in_token cs rule: count_tokens.induct) (auto simp: runs_word simp del: runs_between.simps(2))

text \<open>
  The evaluators that run in the process. The source policy passes exactly a source that names
  the function of the task, holds none of the eleven constructs and is at most 262144 bytes long.
  The parsimony metric, which never fails on a declared source, is the number of maximal runs of
  letters, digits and underscores.
\<close>

theorem in_process_evaluators_exact:
  "(ers_outcome (source_policy env request) = EO_Pass \<longleftrightarrow>
     (\<exists>source. source_of request = Some source \<and> sublist ''af_reference_sum_of_squares'' source \<and>
       list_all (\<lambda>construct. \<not> sublist construct source) forbidden_constructs \<and> length source \<le> 262144)) \<and>
   (case source_of request of
      None \<Rightarrow> ers_outcome (parsimony env request) = EO_Error
    | Some source \<Rightarrow> ers_outcome (parsimony env request) = EO_Pass \<and>
        ers_score (parsimony env request) =
          b64_of_nat (length (runs_between (\<lambda>c. \<not> is_token_byte c) source)))"
proof
  have "policy_violations source = [] \<longleftrightarrow>
      list_all (\<lambda>construct. \<not> sublist construct source) forbidden_constructs \<and> length source \<le> 262144" for source
    by (auto simp: policy_violations_def filter_empty_conv list_all_iff occurs_in_sublist kMaxInputFileBytes_def)
  then show "ers_outcome (source_policy env request) = EO_Pass \<longleftrightarrow>
     (\<exists>source. source_of request = Some source \<and> sublist ''af_reference_sum_of_squares'' source \<and>
       list_all (\<lambda>construct. \<not> sublist construct source) forbidden_constructs \<and> length source \<le> 262144)"
    by (auto simp: source_policy_def unscored_def Let_def occurs_in_sublist kReferenceTaskApiName_def split: option.splits)
  show "case source_of request of
      None \<Rightarrow> ers_outcome (parsimony env request) = EO_Error
    | Some source \<Rightarrow> ers_outcome (parsimony env request) = EO_Pass \<and>
        ers_score (parsimony env request) =
          b64_of_nat (length (runs_between (\<lambda>c. \<not> is_token_byte c) source))"
    by (simp add: parsimony_def scored_def unscored_def Let_def count_tokens_runs split: option.split)
qed

section \<open>The registry\<close>

text \<open>The registry has one evaluator for a key, the one that was added first.\<close>

lemma registry_add_distinct: "distinct (map fst registry) \<Longrightarrow> distinct (map fst (registry_add e registry))"
  by (auto simp: registry_add_def list_ex_iff split: option.split)

lemma find_in_append: "find P (xs @ ys) = (case find P xs of None \<Rightarrow> find P ys | Some x \<Rightarrow> Some x)"
  by (induction xs) simp_all

lemma find_SomeD: "find P xs = Some x \<Longrightarrow> x \<in> set xs \<and> P x"
  by (auto simp: find_Some_iff)

lemma registry_add_find:
  "registry_find (registry_add (Some (key, e)) registry) key' =
    (if key' = key \<and> registry_find registry key = None then Some e else registry_find registry key')"
proof (cases "find (\<lambda>e. fst e = key) registry")
  case None
  then have "\<not> list_ex (\<lambda>existing. fst existing = key) registry"
    by (auto simp: list_ex_iff find_None_iff)
  then show ?thesis
    using None by (auto simp: registry_add_def registry_find_def find_in_append split: option.split)
next
  case (Some found)
  then have "list_ex (\<lambda>existing. fst existing = key) registry"
    by (auto simp: list_ex_iff dest: find_SomeD)
  then show ?thesis
    using Some by (simp add: registry_add_def registry_find_def)
qed

lemma reference_keys: "registry_keys (make_reference env) = [''compile-and-run'', ''parsimony'', ''performance'', ''source-policy'']"
  by (simp add: make_reference_def registry_add_def registry_keys_def kEvaluatorCompileAndRun_def kEvaluatorSourcePolicy_def
      kEvaluatorPerformance_def kEvaluatorParsimony_def)

end
