(* ===== verification/Snapshot_Compare.thy ===== *)
theory Snapshot_Compare
  imports Snapshot_Image Workspace Core_Recovery
begin

text \<open>
  The comparison of two snapshots and the snapshot store (persistence.cpp). A double is compared
  as \<^verbatim>\<open>operator==\<close> does, so a NaN differs from itself; the records that hold doubles have an
  equality of their own here. The store is the file of \<open>Workspace\<close> at one path.
\<close>

section \<open>Equality\<close>

definition requirements_equal :: "evaluation_requirement \<Rightarrow> evaluation_requirement \<Rightarrow> bool" where
  "requirements_equal a b \<longleftrightarrow>
    a\<lparr>req_score_floor := b64_zero, req_ranking_weight := b64_zero\<rparr> =
      b\<lparr>req_score_floor := b64_zero, req_ranking_weight := b64_zero\<rparr> \<and>
    b64_equal (req_score_floor a) (req_score_floor b) \<and> b64_equal (req_ranking_weight a) (req_ranking_weight b)"

definition tasks_equal :: "task_spec \<Rightarrow> task_spec \<Rightarrow> bool" where
  "tasks_equal a b \<longleftrightarrow> a\<lparr>task_requirements := []\<rparr> = b\<lparr>task_requirements := []\<rparr> \<and>
    list_all2 requirements_equal (task_requirements a) (task_requirements b)"

definition factors_equal :: "ranking_factor \<Rightarrow> ranking_factor \<Rightarrow> bool" where
  "factors_equal a b \<longleftrightarrow> a\<lparr>fac_weight := b64_zero\<rparr> = b\<lparr>fac_weight := b64_zero\<rparr> \<and>
    b64_equal (fac_weight a) (fac_weight b)"

definition selection_policies_equal :: "selection_policy \<Rightarrow> selection_policy \<Rightarrow> bool" where
  "selection_policies_equal a b \<longleftrightarrow> a\<lparr>sel_factors := []\<rparr> = b\<lparr>sel_factors := []\<rparr> \<and>
    list_all2 factors_equal (sel_factors a) (sel_factors b)"

definition policies_equal :: "foundry_policy \<Rightarrow> foundry_policy \<Rightarrow> bool" where
  "policies_equal a b \<longleftrightarrow> a = b\<lparr>pol_selection := pol_selection a\<rparr> \<and>
    selection_policies_equal (pol_selection a) (pol_selection b)"

definition evaluations_equal :: "evaluation_record \<Rightarrow> evaluation_record \<Rightarrow> bool" where
  "evaluations_equal a b \<longleftrightarrow> a\<lparr>ev_score := b64_zero\<rparr> = b\<lparr>ev_score := b64_zero\<rparr> \<and>
    b64_equal (ev_score a) (ev_score b)"

definition factor_values_equal :: "ranking_factor_value \<Rightarrow> ranking_factor_value \<Rightarrow> bool" where
  "factor_values_equal a b \<longleftrightarrow>
    a\<lparr>rfv_weight := b64_zero, rfv_raw_value := b64_zero, rfv_contribution := b64_zero\<rparr> =
      b\<lparr>rfv_weight := b64_zero, rfv_raw_value := b64_zero, rfv_contribution := b64_zero\<rparr> \<and>
    b64_equal (rfv_weight a) (rfv_weight b) \<and> b64_equal (rfv_raw_value a) (rfv_raw_value b) \<and>
    b64_equal (rfv_contribution a) (rfv_contribution b)"

definition ranking_entries_equal :: "ranking_entry \<Rightarrow> ranking_entry \<Rightarrow> bool" where
  "ranking_entries_equal a b \<longleftrightarrow>
    a\<lparr>re_total_score := b64_zero, re_factors := []\<rparr> = b\<lparr>re_total_score := b64_zero, re_factors := []\<rparr> \<and>
    b64_equal (re_total_score a) (re_total_score b) \<and> list_all2 factor_values_equal (re_factors a) (re_factors b)"

definition selections_equal :: "selection_decision \<Rightarrow> selection_decision \<Rightarrow> bool" where
  "selections_equal a b \<longleftrightarrow> a\<lparr>sd_ranking := []\<rparr> = b\<lparr>sd_ranking := []\<rparr> \<and>
    list_all2 ranking_entries_equal (sd_ranking a) (sd_ranking b)"

definition promotion_evidence_equal :: "promotion_evidence \<Rightarrow> promotion_evidence \<Rightarrow> bool" where
  "promotion_evidence_equal a b \<longleftrightarrow> a\<lparr>pe_score := b64_zero\<rparr> = b\<lparr>pe_score := b64_zero\<rparr> \<and>
    b64_equal (pe_score a) (pe_score b)"

definition promotions_equal :: "promotion_request \<Rightarrow> promotion_request \<Rightarrow> bool" where
  "promotions_equal a b \<longleftrightarrow> a\<lparr>pr_evidence := []\<rparr> = b\<lparr>pr_evidence := []\<rparr> \<and>
    list_all2 promotion_evidence_equal (pr_evidence a) (pr_evidence b)"

text \<open>\<^verbatim>\<open>operator==\<close> of two unordered maps.\<close>

definition tables_equal :: "('v \<Rightarrow> 'v \<Rightarrow> bool) \<Rightarrow> ('k, 'v) table \<Rightarrow> ('k, 'v) table \<Rightarrow> bool" where
  "tables_equal eq a b \<longleftrightarrow> length a = length b \<and>
    list_all (\<lambda>(k, v). case tbl_find b k of None \<Rightarrow> False | Some w \<Rightarrow> eq v w) a"

definition counters_equal :: "budget_ledger \<Rightarrow> budget_ledger \<Rightarrow> bool" where
  "counters_equal a b \<longleftrightarrow> list_all (\<lambda>kind. lg_counters a kind = lg_counters b kind) all_budget_kinds"

text \<open>A key that is missing on the right makes \<^verbatim>\<open>at\<close> throw; this is no value.\<close>

fun ledgers_equal :: "(population_id, budget_ledger) table \<Rightarrow> (population_id, budget_ledger) table \<Rightarrow> bool option" where
  "ledgers_equal [] other = Some True"
| "ledgers_equal ((k, l) # rest) other = (case tbl_find other k of
     None \<Rightarrow> None
   | Some m \<Rightarrow> if lg_limits l \<noteq> lg_limits m \<or> \<not> counters_equal l m then Some False else ledgers_equal rest other)"

definition fields_equal :: "foundry_snapshot \<Rightarrow> foundry_snapshot \<Rightarrow> bool" where
  "fields_equal a b \<longleftrightarrow> snap_foundry a = snap_foundry b \<and> snap_run a = snap_run b \<and> snap_epoch a = snap_epoch b \<and>
    snap_revision a = snap_revision b \<and> snap_id_salt a = snap_id_salt b \<and>
    snap_id_counters a = snap_id_counters b \<and> snap_statistics a = snap_statistics b"

definition record_tables_equal :: "foundry_snapshot \<Rightarrow> foundry_snapshot \<Rightarrow> bool" where
  "record_tables_equal a b \<longleftrightarrow>
    tables_equal tasks_equal (snap_tasks a) (snap_tasks b) \<and>
    tables_equal policies_equal (snap_policies a) (snap_policies b) \<and>
    tables_equal (=) (snap_populations a) (snap_populations b) \<and>
    tables_equal (=) (snap_candidates a) (snap_candidates b) \<and>
    tables_equal (=) (snap_workers a) (snap_workers b) \<and>
    tables_equal (=) (snap_attempts a) (snap_attempts b) \<and>
    tables_equal (=) (snap_assignments a) (snap_assignments b) \<and>
    tables_equal evaluations_equal (snap_evaluations a) (snap_evaluations b) \<and>
    tables_equal selections_equal (snap_selections a) (snap_selections b) \<and>
    tables_equal (=) (snap_retentions a) (snap_retentions b) \<and>
    tables_equal promotions_equal (snap_promotion_requests a) (snap_promotion_requests b)"

definition snapshots_are_equal :: "foundry_snapshot \<Rightarrow> foundry_snapshot \<Rightarrow> bool option" where
  "snapshots_are_equal a b =
    (if \<not> fields_equal a b then Some False
     else if \<not> record_tables_equal a b then Some False
     else case ledgers_equal (snap_ledgers a) (snap_ledgers b) of
       None \<Rightarrow> None
     | Some False \<Rightarrow> Some False
     | Some True \<Rightarrow> Some (tables_equal (=) (snap_lineage a) (snap_lineage b)))"

section \<open>The first difference\<close>

definition compare_map_entries ::
    "string \<Rightarrow> ('tag strong_id \<Rightarrow> string) \<Rightarrow> ('v \<Rightarrow> 'v \<Rightarrow> bool) \<Rightarrow> ('tag strong_id, 'v) table \<Rightarrow>
     ('tag strong_id, 'v) table \<Rightarrow> string option" where
  "compare_map_entries name key_text eq a b =
    (if length a \<noteq> length b
     then Some (name @ '' holds '' @ decimal (length a) @ '' records on the left but '' @ decimal (length b) @ '' on the right'')
     else case find (\<lambda>k. case (tbl_find a k, tbl_find b k) of (Some v, Some w) \<Rightarrow> \<not> eq v w | _ \<Rightarrow> True) (ascending_keys a) of
       None \<Rightarrow> None
     | Some k \<Rightarrow> (case (tbl_find a k, tbl_find b k) of
         (Some _, Some _) \<Rightarrow> Some (name @ '' record '' @ key_text k @ '' differs'')
       | _ \<Rightarrow> Some (name @ '' holds no record for '' @ key_text k @ '' on the right'')))"

definition compare_value_vectors :: "string \<Rightarrow> ('v \<Rightarrow> 'v \<Rightarrow> bool) \<Rightarrow> 'v list \<Rightarrow> 'v list \<Rightarrow> string option" where
  "compare_value_vectors name eq a b =
    (if length a \<noteq> length b
     then Some (name @ '' holds '' @ decimal (length a) @ '' entries on the left but '' @ decimal (length b) @ '' on the right'')
     else case find (\<lambda>i. \<not> eq (a ! i) (b ! i)) [0..<length a] of
       None \<Rightarrow> None
     | Some i \<Rightarrow> Some (name @ '' differs at position '' @ decimal i))"

fun first_reported :: "string option list \<Rightarrow> string option" where
  "first_reported [] = None"
| "first_reported (None # ds) = first_reported ds"
| "first_reported (Some d # ds) = Some d"

text \<open>
  The loops over two tables: the inner value is the report, if there is one, no outer value a
  key that is missing on the right.
\<close>

fun each_entry :: "('v \<Rightarrow> 'v \<Rightarrow> string option list) \<Rightarrow> ('k \<times> 'v) list \<Rightarrow> ('k, 'v) table \<Rightarrow> string option option" where
  "each_entry compare [] other = Some None"
| "each_entry compare ((k, v) # rest) other = (case tbl_find other k of
     None \<Rightarrow> None
   | Some w \<Rightarrow> (case first_reported (compare v w) of
       Some d \<Rightarrow> Some (Some d)
     | None \<Rightarrow> each_entry compare rest other))"

definition compare_fields :: "foundry_snapshot \<Rightarrow> foundry_snapshot \<Rightarrow> string option" where
  "compare_fields a b =
    (if snap_foundry a \<noteq> snap_foundry b then Some ''foundry identity differs''
     else if snap_run a \<noteq> snap_run b then Some ''foundry run identity differs''
     else if snap_epoch a \<noteq> snap_epoch b then Some ''coordinator epoch differs''
     else if snap_revision a \<noteq> snap_revision b then Some ''revision differs''
     else if snap_id_salt a \<noteq> snap_id_salt b then Some ''identity salt differs''
     else if snap_id_counters a \<noteq> snap_id_counters b then
       (case find (\<lambda>i. snap_id_counters a ! i \<noteq> snap_id_counters b ! i) [0..<kIdKindCount] of
          Some i \<Rightarrow> Some (''identity counter for domain '' @ [CHR 0x27] @ id_kind_name i @ [CHR 0x27] @ '' is ''
            @ decimal (unat (snap_id_counters a ! i)) @ '' but '' @ decimal (unat (snap_id_counters b ! i)))
        | None \<Rightarrow> Some ''identity counters differ'')
     else if snap_statistics a \<noteq> snap_statistics b then Some ''foundry statistics differ''
     else None)"

definition compare_tables :: "foundry_snapshot \<Rightarrow> foundry_snapshot \<Rightarrow> string option" where
  "compare_tables a b = first_reported
    [compare_map_entries ''task table'' task_id_text tasks_equal (snap_tasks a) (snap_tasks b),
     compare_map_entries ''policy table'' (id_to_string IK_Policy ''PolicyId'') policies_equal (snap_policies a) (snap_policies b),
     compare_map_entries ''population table'' population_id_text (=) (snap_populations a) (snap_populations b),
     compare_map_entries ''candidate table'' candidate_id_text (=) (snap_candidates a) (snap_candidates b),
     compare_map_entries ''worker table'' (id_to_string IK_Worker ''WorkerId'') (=) (snap_workers a) (snap_workers b),
     compare_map_entries ''attempt table'' attempt_id_text (=) (snap_attempts a) (snap_attempts b),
     compare_map_entries ''assignment table'' assignment_id_text (=) (snap_assignments a) (snap_assignments b),
     compare_map_entries ''evaluation table'' evaluation_id_text evaluations_equal (snap_evaluations a) (snap_evaluations b),
     compare_map_entries ''selection table'' population_id_text selections_equal (snap_selections a) (snap_selections b),
     compare_map_entries ''retention table'' population_id_text (=) (snap_retentions a) (snap_retentions b),
     compare_map_entries ''promotion request table'' (id_to_string IK_PromotionRequest ''PromotionRequestId'')
       promotions_equal (snap_promotion_requests a) (snap_promotion_requests b),
     compare_map_entries ''lineage table'' candidate_id_text (=) (snap_lineage a) (snap_lineage b)]"

definition compare_task_parts :: "task_spec \<Rightarrow> task_spec \<Rightarrow> string option list" where
  "compare_task_parts a b =
    [compare_value_vectors ''task inputs'' (=) (task_inputs a) (task_inputs b),
     compare_value_vectors ''task required outputs'' (=) (task_required_outputs a) (task_required_outputs b),
     compare_value_vectors ''task evaluation requirements'' requirements_equal (task_requirements a) (task_requirements b),
     compare_value_vectors ''task hard constraints'' (=) (task_hard_constraints a) (task_hard_constraints b),
     compare_value_vectors ''task closure criteria'' (=) (task_closure_criteria a) (task_closure_criteria b)]"

definition compare_policy_parts :: "foundry_policy \<Rightarrow> foundry_policy \<Rightarrow> string option list" where
  "compare_policy_parts a b =
    [compare_value_vectors ''policy ranking factors'' factors_equal (sel_factors (pol_selection a)) (sel_factors (pol_selection b))]"

definition compare_population_parts :: "population_record \<Rightarrow> population_record \<Rightarrow> string option list" where
  "compare_population_parts a b =
    [compare_value_vectors ''population candidates'' (=) (pop_candidates a) (pop_candidates b),
     compare_value_vectors ''population closure blockers'' (=) (pop_closure_blockers a) (pop_closure_blockers b)]"

definition compare_candidate_parts :: "candidate_record \<Rightarrow> candidate_record \<Rightarrow> string option list" where
  "compare_candidate_parts a b =
    [compare_value_vectors ''candidate parents'' (=) (cand_parents a) (cand_parents b),
     compare_value_vectors ''candidate artifacts'' (=) (cand_artifacts a) (cand_artifacts b)]"

definition compare_selection_parts :: "selection_decision \<Rightarrow> selection_decision \<Rightarrow> string option list" where
  "compare_selection_parts a b =
    [compare_value_vectors ''selection ranking'' ranking_entries_equal (sd_ranking a) (sd_ranking b),
     compare_value_vectors ''selection exclusions'' (=) (sd_excluded a) (sd_excluded b)]
    @ map (\<lambda>i. compare_value_vectors ''ranking entry factors'' factor_values_equal
        (re_factors (sd_ranking a ! i)) (re_factors (sd_ranking b ! i))) [0..<length (sd_ranking a)]"

definition compare_retention_parts :: "retention_decision \<Rightarrow> retention_decision \<Rightarrow> string option list" where
  "compare_retention_parts a b =
    [compare_value_vectors ''retention entries'' (=) (rd_entries a) (rd_entries b),
     compare_value_vectors ''retention retained list'' (=) (rd_retained a) (rd_retained b),
     compare_value_vectors ''retention retired list'' (=) (rd_retired a) (rd_retired b)]"

definition compare_promotion_parts :: "promotion_request \<Rightarrow> promotion_request \<Rightarrow> string option list" where
  "compare_promotion_parts a b =
    [compare_value_vectors ''promotion outstanding requirements'' (=) (pr_outstanding a) (pr_outstanding b),
     compare_value_vectors ''promotion artifacts'' (=) (pr_artifacts a) (pr_artifacts b),
     compare_value_vectors ''promotion mandatory evidence'' promotion_evidence_equal (pr_evidence a) (pr_evidence b),
     compare_value_vectors ''promotion ancestry'' (=) (pr_ancestry a) (pr_ancestry b)]"

definition compare_lineage_parts :: "lineage_node \<Rightarrow> lineage_node \<Rightarrow> string option list" where
  "compare_lineage_parts a b = [compare_value_vectors ''lineage node parents'' (=) (ln_parents a) (ln_parents b)]"

definition counter_text :: "budget_counter \<Rightarrow> string" where
  "counter_text c = decimal (unat (bc_reserved c)) @ ''/'' @ decimal (unat (bc_consumed c)) @ ''/'' @ decimal (unat (bc_released c))"

definition compare_ledger :: "population_id \<Rightarrow> budget_ledger \<Rightarrow> budget_ledger \<Rightarrow> string option list" where
  "compare_ledger p a b = map (\<lambda>kind.
     if lg_counters a kind = lg_counters b kind then None
     else Some (''ledger for population '' @ population_id_text p @ '' differs on budget kind '' @ [CHR 0x27]
       @ budget_kind_name kind @ [CHR 0x27] @ '': reserved/consumed/released '' @ counter_text (lg_counters a kind)
       @ '' versus '' @ counter_text (lg_counters b kind))) all_budget_kinds"

fun each_ledger :: "(population_id \<times> budget_ledger) list \<Rightarrow> (population_id, budget_ledger) table \<Rightarrow> string option option" where
  "each_ledger [] other = Some None"
| "each_ledger ((k, l) # rest) other = (case tbl_find other k of
     None \<Rightarrow> None
   | Some m \<Rightarrow> (case first_reported (compare_ledger k l m) of
       Some d \<Rightarrow> Some (Some d)
     | None \<Rightarrow> each_ledger rest other))"

fun first_found :: "string option option list \<Rightarrow> string option option" where
  "first_found [] = Some None"
| "first_found (None # ds) = None"
| "first_found (Some None # ds) = first_found ds"
| "first_found (Some (Some d) # ds) = Some (Some d)"

definition no_difference :: string where "no_difference = ''no difference found''"

definition first_snapshot_difference :: "foundry_snapshot \<Rightarrow> foundry_snapshot \<Rightarrow> string option" where
  "first_snapshot_difference a b =
    (case first_reported [compare_fields a b, compare_tables a b] of
       Some d \<Rightarrow> Some d
     | None \<Rightarrow> map_option (\<lambda>found. case found of None \<Rightarrow> no_difference | Some d \<Rightarrow> d) (first_found
         [each_entry compare_task_parts (snap_tasks a) (snap_tasks b),
          each_entry compare_policy_parts (snap_policies a) (snap_policies b),
          each_entry compare_population_parts (snap_populations a) (snap_populations b),
          each_entry compare_candidate_parts (snap_candidates a) (snap_candidates b),
          each_entry compare_selection_parts (snap_selections a) (snap_selections b),
          each_entry compare_retention_parts (snap_retentions a) (snap_retentions b),
          each_entry compare_promotion_parts (snap_promotion_requests a) (snap_promotion_requests b),
          each_entry compare_lineage_parts (snap_lineage a) (snap_lineage b),
          each_ledger (snap_ledgers a) (snap_ledgers b)]))"

section \<open>The store\<close>

record snapshot_store =
  sst_files :: file_store
  sst_saves :: u64

type_synonym 'a store_action = "(snapshot_store, 'a) action"

text \<open>What reading a file meets: the contents as they are.\<close>

definition files_platform :: "(fs_path, string) table \<Rightarrow> workspace_platform" where
  "files_platform files =
    (let kind = (\<lambda>p. Some (if tbl_find files p = None then FK_Missing else FK_Regular)) in
     \<lparr>wsp_link_status = kind, wsp_status = kind, wsp_canonical = (\<lambda>p. Some p),
      wsp_size = (\<lambda>p. map_option (\<lambda>content. of_nat (length content)) (tbl_find files p)),
      wsp_open = tbl_find files, wsp_entries = (\<lambda>_. None), wsp_create_directories = (\<lambda>_. False)\<rparr>)"

definition store_exists :: "fs_path \<Rightarrow> snapshot_store \<Rightarrow> bool" where
  "store_exists path s \<longleftrightarrow> tbl_find (fst_files (sst_files s)) path \<noteq> None"

definition store_save :: "write_platform \<Rightarrow> u64 \<Rightarrow> fs_path \<Rightarrow> foundry_snapshot \<Rightarrow> unit store_action" where
  "store_save env sequence path snap = bindA (checkA (serialize_snapshot snap)) (\<lambda>bytes s.
    case atomic_write_file env sequence path bytes (sst_files s) of
      (Inl e, files) \<Rightarrow> (Inl e, s\<lparr>sst_files := files\<rparr>)
    | (Inr _, files) \<Rightarrow> (OK, s\<lparr>sst_files := files, sst_saves := sst_saves s + 1\<rparr>))"

definition load_file :: "fs_path \<Rightarrow> (fs_path, string) table \<Rightarrow> foundry_snapshot result" where
  "load_file path files =
    (case read_file_bounded (files_platform files) path (of_nat (kSnapshotHeaderBytes + kMaxSnapshotPayloadBytes)) of
       Inl e \<Rightarrow> Inl e | Inr bytes \<Rightarrow> deserialize_snapshot bytes)"

definition store_load :: "fs_path \<Rightarrow> snapshot_store \<Rightarrow> foundry_snapshot result" where
  "store_load path s = load_file path (fst_files (sst_files s))"

text \<open>The result of the verification, or none where the comparison throws.\<close>

definition save_and_verify ::
    "write_platform \<Rightarrow> u64 \<Rightarrow> fs_path \<Rightarrow> foundry_snapshot \<Rightarrow> snapshot_store \<Rightarrow> status option \<times> snapshot_store" where
  "save_and_verify env sequence path snap s =
    (case store_save env sequence path snap s of
       (Inl e, s') \<Rightarrow> (Some (Inl e), s')
     | (Inr _, s') \<Rightarrow> (case store_load path s' of
         Inl e \<Rightarrow> (Some (Inl e), s')
       | Inr reloaded \<Rightarrow> (map_option (\<lambda>equal. require equal E_PersistenceRejectedContent)
           (snapshots_are_equal snap reloaded), s')))"

end
