(* ===== verification/Snapshot_Store.thy ===== *)
theory Snapshot_Store
  imports Snapshot_Compare Snapshot_Guarantees Workspace_Guarantees
begin

text \<open>
  What the snapshot store promises: at every moment of a save the file holds what it held or all
  of the new image, and a verified save fails, when nothing else does, exactly on a NaN. Also
  what the comparison of two snapshots does not see.
\<close>

section \<open>Saving\<close>

lemma load_file_eq:
  "load_file path files = (case tbl_find files path of
     None \<Rightarrow> Inl E_IoFailure
   | Some content \<Rightarrow> if (of_nat (length content) :: u64) > of_nat (kSnapshotHeaderBytes + kMaxSnapshotPayloadBytes)
     then Inl E_LengthOutOfRange
     else if length content < unat (of_nat (length content) :: u64) then Inl E_IoFailure
     else deserialize_snapshot (take (unat (of_nat (length content) :: u64)) content))"
  by (cases "tbl_find files path")
    (auto simp: load_file_def read_file_bounded_def bounded_file_size_def files_platform_def Let_def
      simp del: of_nat_add split: if_splits)

lemma load_file_content:
  "content_at files path = content_at files' path \<Longrightarrow> load_file path files = load_file path files'"
  by (simp add: load_file_eq content_at_def)

lemma serialized_length:
  assumes "serialize_snapshot snap = Inr bytes"
  shows "length bytes \<le> kSnapshotHeaderBytes + kMaxSnapshotPayloadBytes"
proof -
  have "length bytes = length (take 24 bytes) + length (build_payload snap)"
    using arg_cong [OF image_header(4) [OF assms], of length] by (simp only: length_append)
  then show ?thesis
    using image_header(5,6) [OF assms] by (simp add: kSnapshotHeaderBytes_def)
qed

lemma load_saved:
  assumes "serialize_snapshot snap = Inr bytes" and "content_at files path = Some bytes"
  shows "load_file path files = deserialize_snapshot bytes"
proof -
  have small: "length bytes \<le> 536870936"
    using serialized_length [OF assms(1)] by (simp add: kSnapshotHeaderBytes_def kMaxSnapshotPayloadBytes_def)
  then have exact: "unat (of_nat (length bytes) :: u64) = length bytes"
    by (simp add: unat_of_nat)
  have bound: "unat (of_nat (kSnapshotHeaderBytes + kMaxSnapshotPayloadBytes) :: u64) = 536870936"
    by (simp add: kSnapshotHeaderBytes_def kMaxSnapshotPayloadBytes_def)
  have "\<not> (of_nat (length bytes) :: u64) > of_nat (kSnapshotHeaderBytes + kMaxSnapshotPayloadBytes)"
    unfolding word_less_nat_alt exact bound using small by simp
  then show ?thesis
    using assms(2) by (simp add: load_file_eq content_at_def exact del: of_nat_add)
qed

text \<open>
  C39: A save never loses the snapshot there is. In whatever call the replacement of the file
  fails, at every moment loading gives what it gave before the save or what is read from the
  whole new image. After the save it gives the latter exactly when the save reports success, and
  the number of saves has grown by one exactly then.
\<close>

theorem saves_keep_a_loadable_snapshot:
  assumes "store_save env sequence path snap s = (result, s')" and "serialize_snapshot snap = Inr bytes"
    and "content_at (fst_files (sst_files s)) (staging_path env sequence path) = None"
  shows "(\<exists>moments. fst_history (sst_files s') = fst_history (sst_files s) @ moments \<and>
      (\<forall>files \<in> set moments. load_file path files \<in> {store_load path s, deserialize_snapshot bytes})) \<and>
    store_load path s' = (if result = OK then deserialize_snapshot bytes else store_load path s) \<and>
    sst_saves s' = sst_saves s + (if result = OK then 1 else 0)"
proof -
  obtain r files where written: "atomic_write_file env sequence path bytes (sst_files s) = (r, files)"
    by (metis surj_pair)
  note moments = atomic_write_moments [OF written]
  have s': "sst_files s' = files" and result: "result = r" and saves: "sst_saves s' = sst_saves s + (if r = OK then 1 else 0)"
    using assms(1,2) written by (auto simp: store_save_def action_defs split: sum.splits)
  obtain history where history: "fst_history files = fst_history (sst_files s) @ history"
    and seen: "\<forall>now \<in> set history. intact path (staging_path env sequence path) bytes (fst_files (sst_files s)) now"
    using moments by blast
  have "load_file path now \<in> {store_load path s, deserialize_snapshot bytes}" if "now \<in> set history" for now
  proof -
    have "content_at now path \<in> {content_at (fst_files (sst_files s)) path, Some bytes}"
      using seen that by (simp add: intact_def)
    then show ?thesis
      using load_saved [OF assms(2)] load_file_content [of now path "fst_files (sst_files s)"]
      by (auto simp: store_load_def)
  qed
  moreover have "content_at (fst_files files) path = (if r = OK then Some bytes else content_at (fst_files (sst_files s)) path)"
    using moments by simp
  then have "store_load path s' = (if r = OK then deserialize_snapshot bytes else store_load path s)"
    using load_saved [OF assms(2)] load_file_content [of "fst_files files" path "fst_files (sst_files s)"]
    by (auto simp: store_load_def s')
  ultimately show ?thesis
    using history by (auto simp: s' result saves)
qed

section \<open>Comparing a snapshot with what is read back\<close>

lemma b64_equal_same [simp]: "b64_equal x x \<longleftrightarrow> \<not> b64_is_nan x"
  by (simp add: b64_equal_def)

definition numbers_of_task :: "task_spec \<Rightarrow> binary64 list" where
  "numbers_of_task t = concat (map (\<lambda>q. [req_score_floor q, req_ranking_weight q]) (task_requirements t))"

definition numbers_of_policy :: "foundry_policy \<Rightarrow> binary64 list" where
  "numbers_of_policy p = map fac_weight (sel_factors (pol_selection p))"

definition numbers_of_selection :: "selection_decision \<Rightarrow> binary64 list" where
  "numbers_of_selection d = concat (map (\<lambda>e. re_total_score e #
     concat (map (\<lambda>f. [rfv_weight f, rfv_raw_value f, rfv_contribution f]) (re_factors e))) (sd_ranking d))"

definition numbers_of_promotion :: "promotion_request \<Rightarrow> binary64 list" where
  "numbers_of_promotion r = map pe_score (pr_evidence r)"

text \<open>Every double of a snapshot.\<close>

definition snapshot_numbers :: "foundry_snapshot \<Rightarrow> binary64 list" where
  "snapshot_numbers snap =
    concat (map (numbers_of_task \<circ> snd) (snap_tasks snap)) @ concat (map (numbers_of_policy \<circ> snd) (snap_policies snap)) @
    map (ev_score \<circ> snd) (snap_evaluations snap) @
    concat (map (numbers_of_selection \<circ> snd) (snap_selections snap)) @
    concat (map (numbers_of_promotion \<circ> snd) (snap_promotion_requests snap))"

lemma equal_to_itself:
  "tasks_equal t t \<longleftrightarrow> (\<forall>x \<in> set (numbers_of_task t). \<not> b64_is_nan x)"
  "policies_equal p p \<longleftrightarrow> (\<forall>x \<in> set (numbers_of_policy p). \<not> b64_is_nan x)"
  "evaluations_equal e e \<longleftrightarrow> \<not> b64_is_nan (ev_score e)"
  "selections_equal d d \<longleftrightarrow> (\<forall>x \<in> set (numbers_of_selection d). \<not> b64_is_nan x)"
  "promotions_equal r r \<longleftrightarrow> (\<forall>x \<in> set (numbers_of_promotion r). \<not> b64_is_nan x)"
  by (auto simp: tasks_equal_def requirements_equal_def numbers_of_task_def policies_equal_def
      selection_policies_equal_def factors_equal_def numbers_of_policy_def evaluations_equal_def selections_equal_def
      ranking_entries_equal_def factor_values_equal_def numbers_of_selection_def promotions_equal_def
      promotion_evidence_equal_def numbers_of_promotion_def list_all2_same)

lemma length_ordered: "length (ordered_table t) = length t"
  using arg_cong [OF keys_of_ordered [of t], of length] by (simp add: ascending_keys_def tbl_keys_def)

lemma tables_equal_ordered:
  assumes "tbl_ok t"
  shows "tables_equal eq t (ordered_table t) \<longleftrightarrow> (\<forall>v \<in> snd ` set t. eq v v)"
proof -
  have "tbl_find (ordered_table t) k = Some v" if "(k, v) \<in> set t" for k v
    using that assms by (simp add: find_in_ordered tbl_find_iff)
  then show ?thesis
    by (fastforce simp: tables_equal_def length_ordered list_all_iff)
qed

lemma ledgers_equal_found:
  "(\<forall>(k, l) \<in> set ls. tbl_find other k = Some l) \<Longrightarrow> ledgers_equal ls other = Some True"
  by (induction ls other rule: ledgers_equal.induct) (auto simp: counters_equal_def list_all_iff)

lemma snapshots_equal_ordered:
  assumes "storable_snapshot snap"
  shows "snapshots_are_equal snap (ordered_snapshot snap) = Some (\<forall>x \<in> set (snapshot_numbers snap). \<not> b64_is_nan x)"
proof -
  note ok = storable_tables_ok [OF assms]
  have "ledgers_equal (snap_ledgers snap) (ordered_table (snap_ledgers snap)) = Some True"
    using ok by (intro ledgers_equal_found) (auto simp: find_in_ordered tbl_find_iff)
  moreover have "record_tables_equal snap (ordered_snapshot snap) \<longleftrightarrow> (\<forall>x \<in> set (snapshot_numbers snap). \<not> b64_is_nan x)"
    using ok by (auto simp: record_tables_equal_def ordered_snapshot_def tables_equal_ordered equal_to_itself snapshot_numbers_def)
  ultimately show ?thesis
    using ok by (simp add: snapshots_are_equal_def fields_equal_def ordered_snapshot_def tables_equal_ordered)
qed

text \<open>
  C40: What a verified save verifies. Of a snapshot that is within the bounds of the format and
  passes the validation, when the file is written, the verification succeeds exactly when no
  double of it is a NaN: the image is always read back to the same state, but a NaN makes the
  comparison say that it is not.
\<close>

theorem verified_save_fails_exactly_on_nan:
  assumes "serialize_snapshot snap = Inr bytes" and "storable_snapshot snap" and "validate_semantics snap = OK"
    and "content_at (fst_files (sst_files s)) (staging_path env sequence path) = None"
    and "fst (atomic_write_file env sequence path bytes (sst_files s)) = OK"
  shows "fst (save_and_verify env sequence path snap s) =
    Some (if list_ex b64_is_nan (snapshot_numbers snap) then Inl E_PersistenceRejectedContent else OK)"
proof -
  obtain files where written: "atomic_write_file env sequence path bytes (sst_files s) = (OK, files)"
    using assms(5) by (metis fst_conv surj_pair)
  have saved: "store_save env sequence path snap s = (OK, s\<lparr>sst_files := files, sst_saves := sst_saves s + 1\<rparr>)"
    using assms(1) written by (simp add: store_save_def action_defs)
  have "content_at (fst_files files) path = Some bytes"
    using atomic_write_moments [OF written] by simp
  then have "load_file path (fst_files files) = Inr (ordered_snapshot snap)"
    using load_saved [OF assms(1)] read_serialized [OF assms(1,2)] validate_ordered [OF assms(2)] assms(3) by simp
  then show ?thesis
    by (auto simp: save_and_verify_def saved store_load_def snapshots_equal_ordered [OF assms(2)] require_def list_ex_iff)
qed

section \<open>A snapshot with a NaN\<close>

definition nan_ranking :: ranking_entry where
  "nan_ranking = \<lparr>re_candidate = StrongId 0x0500000700000001, re_candidate_gen = gen_first, re_rank = 1,
     re_total_score = b64_nan, re_factors = [], re_artifact_bytes = 0, re_lineage_depth = 0, re_diversity_key = []\<rparr>"

definition nan_selection :: selection_decision where
  "nan_selection = default_selection_decision
    \<lparr>sd_population := StrongId 0x0300000700000001, sd_task := StrongId 0x0400000700000001,
     sd_policy := StrongId 0x0D00000700000001, sd_ranking := [nan_ranking]\<rparr>"

definition nan_snapshot :: foundry_snapshot where
  "nan_snapshot = saved_snapshot\<lparr>snap_selections := [(StrongId 0x0300000700000001, nan_selection)]\<rparr>"

lemma nan_storable: "storable_snapshot nan_snapshot"
proof -
  have "storable_selection nan_selection"
    by (simp add: storable_selection_def nan_selection_def default_selection_decision_def nan_ranking_def wire_identity_def
        wire_optional_identity_def id_kind_byte_def kIdKindMask_def storable_string_def list_ok_def storable_ranking_entry_def
        roomy_list_def kMaxStoredCandidates_def kMaxCandidatesPerPopulation_def)
  moreover have "sd_population nan_selection = StrongId 0x0300000700000001"
    by (simp add: nan_selection_def)
  moreover have "snapshot_record_count nan_snapshot \<le> kMaxSnapshotRecordsPerKind * 16"
    by (simp add: snapshot_record_count_def nan_snapshot_def saved_snapshot_def default_snapshot_def kMaxSnapshotRecordsPerKind_def)
  ultimately show ?thesis
    using saved_storable
    by (simp add: storable_snapshot_def nan_snapshot_def storable_table_def tbl_ok_def)
qed

lemma nan_is_nan: "b64_is_nan b64_nan"
  by (simp add: b64_is_nan_def b64_nan_def b64_magnitude_def b64_infinite_magnitude_def)

lemma nan_valid: "validate_semantics nan_snapshot = OK"
proof -
  have "observed_identity_counters nan_snapshot = [0, 0, 0, 1, 0, 0, 0, 0, 0, 0, 0, 0, 0, 0, 0, 0, 0, 0]"
    by (simp add: observed_identity_counters_def nan_snapshot_def saved_snapshot_def default_snapshot_def tbl_keys_def
      note_identities_def bump_identity_counter_def kIdKindCount_def kIdCounterMask_def eval_nat_numeral)
  then have "require_counter nan_snapshot i = OK" if "i < 18" for i
    by (simp add: require_counter_def, simp add: nan_snapshot_def saved_snapshot_def)
  then show ?thesis
    by (simp add: validate_semantics_def kIdKindCount_def) (simp add: nan_snapshot_def saved_snapshot_def default_snapshot_def
       saved_population_def default_population_def require_no_null_identity_def tbl_keys_def id_valid_def
       require_population_ordering_def lineage_validate_def holds_key_def tbl_find_def nan_selection_def
       default_selection_decision_def null_id_def)
qed

lemma nan_serializes: "\<exists>bytes. serialize_snapshot nan_snapshot = Inr bytes"
proof -
  have "length (store_population saved_population) = 143"
    by (simp add: store_population_def saved_population_def default_population_def wire_simps)
  moreover have "length (store_ranking_entry nan_ranking) \<le> 200"
    by (simp add: store_ranking_entry_def nan_ranking_def wire_simps)
  then have "length (store_selection nan_selection) \<le> 1000"
    by (simp add: store_selection_def nan_selection_def default_selection_decision_def wire_simps)
  ultimately have "length (build_payload nan_snapshot) \<le> kMaxSnapshotPayloadBytes"
    by (simp add: kMaxSnapshotPayloadBytes_def build_payload_def append_map_records_def nan_snapshot_def saved_snapshot_def
        default_snapshot_def frame_record_def wire_simps store_identity_header_def write_counters_def store_statistics_def
        ascending_keys_def tbl_keys_def tbl_find_def)
  then show ?thesis
    by (simp add: serialize_snapshot_def Let_def)
qed

definition sample_snapshot_store :: snapshot_store where
  "sample_snapshot_store = \<lparr>sst_files = sample_store, sst_saves = 0\<rparr>"

lemma sample_staging: "content_at (fst_files (sst_files sample_snapshot_store)) (staging_path sample_writer 0 sample_target) = None"
  by code_simp

lemma sample_writes: "fst (atomic_write_file sample_writer 0 sample_target bytes (sst_files sample_snapshot_store)) = OK"
  by (simp add: atomic_write_file_def sample_writer_def sample_target_def write_staging_file_def replace_with_staging_def
      change_files_def action_defs)

lemma verified_save_fails_exactly_on_nan_witness:
  "fst (save_and_verify sample_writer 0 sample_target nan_snapshot sample_snapshot_store) = Some (Inl E_PersistenceRejectedContent) \<and>
   fst (save_and_verify sample_writer 0 sample_target saved_snapshot sample_snapshot_store) = Some OK"
proof
  have "list_ex b64_is_nan (snapshot_numbers nan_snapshot)" "\<not> list_ex b64_is_nan (snapshot_numbers saved_snapshot)"
    by (simp_all add: snapshot_numbers_def nan_snapshot_def saved_snapshot_def default_snapshot_def numbers_of_selection_def
        nan_selection_def nan_ranking_def nan_is_nan)
  obtain bytes where "serialize_snapshot nan_snapshot = Inr bytes"
    using nan_serializes by blast
  from verified_save_fails_exactly_on_nan [OF this nan_storable nan_valid sample_staging sample_writes]
  show "fst (save_and_verify sample_writer 0 sample_target nan_snapshot sample_snapshot_store) = Some (Inl E_PersistenceRejectedContent)"
    using \<open>list_ex b64_is_nan (snapshot_numbers nan_snapshot)\<close> by simp
  obtain bytes where "serialize_snapshot saved_snapshot = Inr bytes"
    using saved_serializes by blast
  from verified_save_fails_exactly_on_nan [OF this saved_storable saved_valid sample_staging sample_writes]
  show "fst (save_and_verify sample_writer 0 sample_target saved_snapshot sample_snapshot_store) = Some OK"
    using \<open>\<not> list_ex b64_is_nan (snapshot_numbers saved_snapshot)\<close> by simp
qed

lemma saves_keep_a_loadable_snapshot_witness:
  "\<exists>bytes. serialize_snapshot saved_snapshot = Inr bytes \<and>
     store_load sample_target (snd (store_save sample_writer 0 sample_target saved_snapshot sample_snapshot_store)) =
       deserialize_snapshot bytes"
proof -
  obtain bytes where bytes: "serialize_snapshot saved_snapshot = Inr bytes"
    using saved_serializes by blast
  obtain result s' where saved: "store_save sample_writer 0 sample_target saved_snapshot sample_snapshot_store = (result, s')"
    by (metis surj_pair)
  moreover have "result = OK"
    using saved sample_writes [of bytes] bytes by (auto simp: store_save_def action_defs split: prod.splits sum.splits)
  ultimately show ?thesis
    using saves_keep_a_loadable_snapshot [OF saved bytes sample_staging] bytes by auto
qed

section \<open>What the comparison does not see\<close>

text \<open>
  A ledger that only the second snapshot has is not seen, one that only the first has makes the
  comparison throw; and a difference in the limits of a ledger has no description.
\<close>

lemma saved_tables_equal: "record_tables_equal (saved_snapshot\<lparr>snap_ledgers := ls\<rparr>) (saved_snapshot\<lparr>snap_ledgers := ms\<rparr>)"
  by (simp add: record_tables_equal_def saved_snapshot_def default_snapshot_def tables_equal_def tbl_find_def)

lemma saved_ledgers: "snap_ledgers saved_snapshot = []" "saved_snapshot\<lparr>snap_ledgers := []\<rparr> = saved_snapshot"
  by (simp_all add: saved_snapshot_def default_snapshot_def)

lemma compare_saved:
  "snapshots_are_equal (saved_snapshot\<lparr>snap_ledgers := ls\<rparr>) (saved_snapshot\<lparr>snap_ledgers := ms\<rparr>) =
    (case ledgers_equal ls ms of None \<Rightarrow> None | Some equal \<Rightarrow> Some equal)"
  by (simp add: snapshots_are_equal_def fields_equal_def saved_tables_equal)
    (simp add: saved_snapshot_def default_snapshot_def tables_equal_def split: option.split bool.split)

lemma ledger_comparison_is_one_sided:
  "snapshots_are_equal saved_snapshot (saved_snapshot\<lparr>snap_ledgers := [(k, l)]\<rparr>) = Some True"
  "snapshots_are_equal (saved_snapshot\<lparr>snap_ledgers := [(k, l)]\<rparr>) saved_snapshot = None"
  using compare_saved [of "[]" "[(k, l)]"] compare_saved [of "[(k, l)]" "[]"]
  by (simp_all add: saved_ledgers tbl_find_def)

lemma find_nothing [simp]: "find (\<lambda>_. False) xs = None"
  by (induction xs) simp_all

lemma compare_same:
  "compare_value_vectors name (=) xs xs = None"
  "compare_map_entries name key_text eq [] [] = None"
  "compare_map_entries name key_text (=) [(p, r)] [(p, r)] = None"
  by (simp_all add: compare_value_vectors_def compare_map_entries_def find_None_iff ascending_keys_def tbl_keys_def tbl_find_def)

lemma limits_have_no_difference:
  assumes "lg_limits l \<noteq> lg_limits m" and "lg_counters l = lg_counters m"
  shows "snapshots_are_equal (saved_snapshot\<lparr>snap_ledgers := [(k, l)]\<rparr>) (saved_snapshot\<lparr>snap_ledgers := [(k, m)]\<rparr>) = Some False"
    and "first_snapshot_difference (saved_snapshot\<lparr>snap_ledgers := [(k, l)]\<rparr>) (saved_snapshot\<lparr>snap_ledgers := [(k, m)]\<rparr>) =
      Some no_difference"
proof -
  let ?a = "saved_snapshot\<lparr>snap_ledgers := [(k, l)]\<rparr>" and ?b = "saved_snapshot\<lparr>snap_ledgers := [(k, m)]\<rparr>"
  show "snapshots_are_equal ?a ?b = Some False"
    using assms compare_saved [of "[(k, l)]" "[(k, m)]"] by (simp add: tbl_find_def)
  have "compare_fields ?a ?b = None"
    by (simp add: compare_fields_def)
  moreover have "compare_tables ?a ?b = None"
    by (simp add: compare_tables_def saved_snapshot_def default_snapshot_def compare_same)
  moreover have "each_ledger [(k, l)] [(k, m)] = Some None"
    using assms by (simp add: tbl_find_def compare_ledger_def all_budget_kinds_def)
  ultimately show "first_snapshot_difference ?a ?b = Some no_difference"
    by (simp add: first_snapshot_difference_def)
      (simp add: saved_snapshot_def default_snapshot_def tbl_find_def compare_population_parts_def compare_same)
qed

end
