(* ===== verification/Spec2Isabelle.thy ===== *)
theory Spec2Isabelle
  imports Hashing Coordinator_Guarantees Snapshot_Lockout Worker_Frames Sink_Guarantees
    Evaluator_Guarantees Snapshot_Store
begin

text \<open>
  A verification library for Autonomous Foundry, a C++ runtime in which a coordinator hands
  production work on populations of candidates to untrusted workers, collects evaluation
  evidence, and selects, retains and promotes candidates.

  \<^bold>\<open>The program.\<close> \<^verbatim>\<open>FoundryCore\<close> (src/include/autonomous_foundry/foundry.hpp, src/src/foundry_*.cpp)
  is the authority: one object whose public operations each take an exclusive lock, check the
  authority they are given against the current state, and change the tables. Around it stand the
  value types it is built from (identities, budgets, lineage, tasks, policies, evidence,
  decisions), the coordinator process with its sockets, the worker process, the persistence of
  snapshots, and the command line tools.

  \<^bold>\<open>The theories.\<close> Prelude: tables (\<^verbatim>\<open>std::unordered_map\<close>), sorting by a comparator, decimal
  text. Errors: error codes, statuses, and actions, functions from a state to a result and a
  state, in which a failure keeps what was already written. Identity (id.hpp, id.cpp): 64-bit
  identities of a domain, generations, the allocator, operator text. Hashing (hash.cpp):
  CRC-32C, FNV-1a, SHA-256. Binary64: the IEEE-754 doubles of the scores, as bit patterns with
  round-to-nearest arithmetic. Accounting (accounting.cpp): budget ledgers. Encoding, Artifact,
  Task, Policy, Population, Candidate, Lineage, Worker, Attempt, Authority, Evaluation, Decision:
  one theory per source file of that name (Decision holds selection.cpp, retention.cpp and
  promotion.cpp). Core_State (foundry_core_impl.hpp, foundry_core.cpp), Core_Lifecycle
  (foundry_lifecycle.cpp), Core_Dispatch (foundry_dispatch.cpp), Core_Select (foundry_select.cpp)
  and Core_Recovery (foundry_recovery.cpp): the state of the core as one record and each operation
  as one action. Core_Rules and Core_Evolution: the two-state relation every operation keeps.
  Core_Histories: arbitrary histories of calls. Core_Restart: recovery. Wire, Wire_Records,
  Wire_Messages, Wire_Payloads (protocol.cpp): the byte reader and writer, the codecs of the shared
  records, of every payload, and their exactness. Wire_Frames: the frame header and
  \<^verbatim>\<open>decode_frame\<close>. Transport (transport.cpp): endpoints, the reader and writer loops of a connection,
  and what arrives when several threads send.
  Coordinator_State, Coordinator_Frames, Coordinator_Pump (coordinator.cpp,
  coordinator_control_plane.hpp): the state of a running coordinator, one definition for each
  message it handles, and what its own threads do. Coordinator_Histories: arbitrary interleavings
  of those steps. Coordinator_Guarantees: what holds of them. Snapshot_Codec, Snapshot_Records,
  Snapshot_Image (persistence.cpp): the reader of the snapshot file, one \<open>store_\<close> and one \<open>load_\<close>
  definition for every durable record, the framing, the file image with its checks, the semantic
  validation. Snapshot_Roundtrip and Snapshot_Guarantees: what is read back from what was written.
  Snapshot_Lockout: what is written and cannot be read back. Reference_Task (reference_task.cpp):
  the contract of the demonstration task, the texts of its candidates, and what their functions
  compute. Worker_Runtime (worker_runtime.cpp): the state of a worker process, one definition for
  each step of its main thread between two waits and for what its reader thread hands over.
  Worker_Guarantees: runs of the worker, and the assignment it never finishes. Worker_Frames: the
  frames it sends are well typed. Promotion_Sink (local_promotion_sink.cpp): the two documents of
  a hand-off and the submission that stores them. Sink_Guarantees: what a submission leaves, and
  why the documents are not JSON. Workspace (workspace.cpp): the validation of relative paths, the
  confinement of a path to its root, reading, listing, the replacement of a file, the bounded
  walk, unique directories. Workspace_Guarantees: what holds of them. Evaluator (evaluator.cpp):
  the search for a toolchain, the compilation of a candidate, the four reference evaluators and
  their registry. Evaluator_Guarantees: when a candidate passes, what the evaluators compute, and
  when no verdict is reached. Snapshot_Compare (persistence.cpp): the comparison of two snapshots
  with its descriptions, and the snapshot store over the file of Workspace. Snapshot_Store: what
  a save and a verified save promise.

  \<^bold>\<open>Correspondence.\<close> A definition has the name of the function it models, without the suffix
  \<^verbatim>\<open>_locked\<close>; enumerators and record fields carry a short prefix (PS_, CS_, AS_; pop_, cand_,
  att_). Unsigned integers are words of their width. A table is the list of its entries in
  iteration order, so what the code does in the order of an unordered map holds for every order.
  A pointer into a table is modelled by its key. The text of a status is not modelled, the text
  stored in records is. \<^verbatim>\<open>std::to_chars\<close> on a finite double is a parameter (\<open>shortest\<close>), and so is
  the salt read from the operating system. \<^verbatim>\<open>std::sort\<close> is insertion by the comparator, which
  is the same list wherever the comparator is a strict total order on the elements.
  \<^verbatim>\<open>std::move\<close> out of an unordered map leaves it empty, as the library implementations do.

  \<^bold>\<open>The lemmas.\<close> The locale \<open>two_state\<close> (Errors) carries a reflexive and transitive relation from the
  primitive writes to the operations; Core_Evolution instantiates it with the relation
  \<open>core_evolves\<close>, and Core_Histories concludes for every history of calls. The locales
  \<open>keyed_table\<close>, \<open>comparator_on\<close>, \<open>lifecycle\<close> and \<open>reservation_ledger\<close> state what clients rely on
  and are interpreted on the model's own definitions. The locales \<open>wire_codec\<close> (Wire) and
  \<open>record_codec\<close> (Snapshot_Codec) state what a pair of a writer and a reader promises and are
  interpreted for every record of the protocol and of the snapshot file; the first gives the
  second, so the codecs the two formats share are proved once.

  \<^bold>\<open>Bounds.\<close> The walks over the lineage terminate by the number of unvisited nodes, not by fuel;
  \<^verbatim>\<open>path_to_root\<close> has the fuel of the code, the depth bound of 64, and is shown not to reach it.

  \<^bold>\<open>The transport.\<close> A send looks at the closed flag, draws the next sequence number, and only then
  takes the lock of the queue, where it looks at the flag again. Two threads can cross between the
  last two steps, so \<open>send_frame\<close> is composed of the four parts, and a run of a connection is any
  sequence of the parts of any number of senders. Where the histories of the coordinator and of the
  worker contain a send, it is one step: they say nothing of sequence numbers.

  \<^bold>\<open>The coordinator.\<close> A thread of the coordinator is a sequence of events, and a history is any
  sequence of events of all threads. A frame is handled under the durability barrier, so it is one
  event; the pump and the pool are cut where another thread can run: the pump reads its list in
  one event and works on one element in each of the next, a pool thread takes a job, evaluates a
  requirement, commits the record and finishes in events of their own. Not represented is the one
  overlap the barrier does not exclude, that the pump begins an evaluation in the middle of a
  frame. The result of each write of the snapshot file is given in advance (\<open>cs_saves\<close>), and the
  images written are kept (\<open>cs_images\<close>). That every history changes the core by calls of its
  operations only is the lemma through which the coordinator inherits the facts of Core_Histories.
  The record \<open>environment\<close> holds what the handlers call
  outside of the program: the evaluators, the promotion sink, the scratch directories, and the
  text of the status an error response carries.

  \<^bold>\<open>The worker.\<close> A worker has a reader thread and a main thread, which blocks at three waits. What
  the main thread does between two waits touches nothing of the reader thread but the inbox and
  the answers it reads at the wait, so it is one step; a wait whose condition is false is a step
  that changes nothing. The phase of the record says at which wait the main thread is. A run is
  any sequence of steps of the two threads. The record \<open>worker_platform\<close> holds what the worker calls
  outside of the program: the connection and the directories and files of an attempt.

  \<^bold>\<open>The workspace.\<close> workspace.cpp is modelled as it behaves on POSIX. What the calls of
  \<^verbatim>\<open>std::filesystem\<close> answer is given by the records \<open>workspace_platform\<close>, \<open>write_platform\<close> and
  \<open>directory_platform\<close>; only \<open>atomic_write_file\<close> has the contents of the files as its state, with
  every content they go through, since a reader or a crash can meet each of them. The removal of a
  staging file may fail (\<open>wrp_remove\<close>), and its failure is ignored as the code ignores it. The
  snapshot store and the promotion sink write through this model. A path is
  absolute or not and has components, so a separator at its end is not represented. The walk
  before a removal works on a tree given in advance.

  \<^bold>\<open>The evaluators.\<close> What a process does is a parameter (\<open>evp_run\<close>): it is given the files of
  the scratch directory and the processes run before, and answers with the result of process.cpp or
  the text of a failure. What the directory held when the evaluator began is given too
  (\<open>evp_scratch\<close>), since one directory serves all evaluators of a job. The environment variables, the existence of
  files, the clock and the reading of a double from a text are parameters too. The coordinator
  refers to evaluators by the interface \<open>evaluator\<close>, which the registry of the reference
  evaluators fills.

  \<^bold>\<open>Not modelled.\<close> The operating system behind sockets, threads and processes (process.cpp, the
  sockets of transport.cpp): these files are sequences of platform calls. The Windows branches of
  workspace.cpp and evaluator.cpp. The command line applications, which parse arguments and print
  around the library, the examples, the benchmarks and the tests. The texts of statuses, except
  where they become part of an evaluation result. Of the coordinator: a second start of the same
  object.
\<close>

end
